(* ===== verification/Prelude.thy ===== *)
theory Prelude
  imports Complex_Main "HOL-Library.Word" "HOL-Library.State_Monad" "HOL-Library.Multiset"
    "HOL-Library.AList"
begin

text \<open>
  Shared vocabulary of the development: the types the Go code computes with (64-bit integers with
  their wrap-around, byte strings, decimal prices), the few routines of Go's \<open>strings\<close> package the
  code calls, Go's truncating division, slices, and a small invariant calculus for stateful code
  written in the state monad.
\<close>

named_theorems keeps_intro \<open>rules that push an invariant through stateful code\<close>
named_theorems wp_simps \<open>weakest preconditions of stateful code\<close>
named_theorems lower_simps \<open>case folding\<close>

section \<open>Numbers\<close>

text \<open>
  A \<open>decimal.Decimal\<close> is an exact decimal number, and the code only compares prices, tests them for
  zero and copies them; a price is the rational number the decimal denotes.
\<close>

type_synonym price = rat
type_synonym u64 = "64 word"

text \<open>Signed 64-bit arithmetic (\<open>int64\<close> and \<open>int\<close> of Go): the result of an operation, wrapped.\<close>

definition wrap64 :: "int \<Rightarrow> int" where
  "wrap64 x = (x + 2 ^ 63) mod 2 ^ 64 - 2 ^ 63"

definition in_i64 :: "int \<Rightarrow> bool" where
  "in_i64 x \<longleftrightarrow> - (2 ^ 63) \<le> x \<and> x < 2 ^ 63"

lemma wrap64_id: "in_i64 x \<Longrightarrow> wrap64 x = x"
  by (simp add: in_i64_def wrap64_def)

lemma in_i64_wrap64: "in_i64 (wrap64 x)"
  by (simp add: in_i64_def wrap64_def)

text \<open>The conversion \<open>int64(x)\<close> of an unsigned 64-bit value.\<close>

definition int64_of :: "u64 \<Rightarrow> int" where
  "int64_of x = sint x"

lemma in_i64_int64_of: "in_i64 (int64_of x)"
  using sint_range_size [of x] by (simp add: in_i64_def int64_of_def word_size)

text \<open>Go's \<open>/\<close> and \<open>%\<close> truncate towards zero.\<close>

definition go_div :: "int \<Rightarrow> int \<Rightarrow> int" where
  "go_div a b = sgn a * sgn b * (\<bar>a\<bar> div \<bar>b\<bar>)"

definition go_rem :: "int \<Rightarrow> int \<Rightarrow> int" where
  "go_rem a b = a - go_div a b * b"

lemma go_div_nonneg: "0 \<le> a \<Longrightarrow> 0 < b \<Longrightarrow> go_div a b = a div b"
  by (cases "a = 0") (simp_all add: go_div_def)

lemma go_rem_nonneg: "0 \<le> a \<Longrightarrow> 0 < b \<Longrightarrow> go_rem a b = a mod b"
  by (simp add: go_rem_def go_div_nonneg minus_div_mult_eq_mod)

section \<open>Strings\<close>

text \<open>
  A Go string is a sequence of bytes, here a \<open>char list\<close>. \<open>ToLower\<close> is \<open>strings.ToLower\<close> on the
  ASCII range, the only letters of the addresses, order ids and chain names the code folds; bytes
  outside it are left alone.
\<close>

definition lower_char :: "char \<Rightarrow> char" where
  "lower_char c = (let n = (of_char c :: nat) in if 65 \<le> n \<and> n \<le> 90 then char_of (n + 32) else c)"

definition ToLower :: "string \<Rightarrow> string" where
  "ToLower s = map lower_char s"

lemma lower_char_idem [lower_simps]: "lower_char (lower_char c) = lower_char c"
  by (auto simp: lower_char_def Let_def)

lemma ToLower_idem [lower_simps, simp]: "ToLower (ToLower s) = ToLower s"
  by (simp add: ToLower_def lower_char_idem)

lemma ToLower_Nil [simp]: "ToLower [] = []"
  by (simp add: ToLower_def)

lemma ToLower_eq_Nil [simp]: "ToLower s = [] \<longleftrightarrow> s = []"
  by (simp add: ToLower_def)

definition EqualFold :: "string \<Rightarrow> string \<Rightarrow> bool" where
  "EqualFold a b \<longleftrightarrow> ToLower a = ToLower b"

text \<open>Decimal notation of a natural number (\<open>strconv.Itoa\<close>).\<close>

fun itoa :: "nat \<Rightarrow> string" where
  "itoa n = (if n < 10 then [char_of (48 + n)] else itoa (n div 10) @ [char_of (48 + n mod 10)])"

declare itoa.simps [simp del]

section \<open>State and invariants\<close>

text \<open>
  \<open>keeps P m\<close>: the stateful computation \<open>m\<close> leads from states in \<open>P\<close> to states in \<open>P\<close>. The rules
  follow the shape of the code, so that an invariant of a handler reduces to its statements.
\<close>

definition keeps :: "('s \<Rightarrow> bool) \<Rightarrow> ('s, 'a) state \<Rightarrow> bool" where
  "keeps P m \<longleftrightarrow> (\<forall>s. P s \<longrightarrow> P (snd (run_state m s)))"

lemma keepsI: "(\<And>s. P s \<Longrightarrow> P (snd (run_state m s))) \<Longrightarrow> keeps P m"
  by (simp add: keeps_def)

lemma keepsD: "keeps P m \<Longrightarrow> P s \<Longrightarrow> P (snd (run_state m s))"
  by (simp add: keeps_def)

lemma run_bind [simp]:
  "run_state (State_Monad.bind m f) s = (case run_state m s of (a, t) \<Rightarrow> run_state (f a) t)"
  by (simp add: State_Monad.bind_def)

lemma run_return [simp]: "run_state (State_Monad.return a) s = (a, s)"
  by (simp add: State_Monad.return_def)

lemma keeps_conj: "keeps P m \<Longrightarrow> keeps Q m \<Longrightarrow> keeps (\<lambda>s. P s \<and> Q s) m"
  by (simp add: keeps_def)

lemma keeps_return [keeps_intro]: "keeps P (State_Monad.return a)"
  by (simp add: keeps_def)

lemma keeps_bind [keeps_intro]:
  "keeps P m \<Longrightarrow> (\<And>a. keeps P (f a)) \<Longrightarrow> keeps P (State_Monad.bind m f)"
  unfolding keeps_def run_bind by (force split: prod.split)

lemma keeps_if [keeps_intro]:
  "(b \<Longrightarrow> keeps P m) \<Longrightarrow> (\<not> b \<Longrightarrow> keeps P n) \<Longrightarrow> keeps P (if b then m else n)"
  by simp

lemma keeps_case_sum [keeps_intro]:
  "(\<And>e. keeps P (f e)) \<Longrightarrow> (\<And>a. keeps P (g a)) \<Longrightarrow> keeps P (case x of Inl e \<Rightarrow> f e | Inr a \<Rightarrow> g a)"
  by (simp split: sum.split)

lemma keeps_case_option [keeps_intro]:
  "(x = None \<Longrightarrow> keeps P m) \<Longrightarrow> (\<And>a. x = Some a \<Longrightarrow> keeps P (f a)) \<Longrightarrow>
     keeps P (case x of None \<Rightarrow> m | Some a \<Rightarrow> f a)"
  by (simp split: option.split)

lemma keeps_case_prod [keeps_intro]:
  "(\<And>a b. keeps P (f a b)) \<Longrightarrow> keeps P (case x of (a, b) \<Rightarrow> f a b)"
  by (simp split: prod.split)

text \<open>A \<open>for\<close> loop over a slice whose body only acts on the state.\<close>

fun for_each :: "('a \<Rightarrow> ('s, unit) state) \<Rightarrow> 'a list \<Rightarrow> ('s, unit) state" where
  "for_each f [] = State_Monad.return ()"
| "for_each f (x # xs) = State_Monad.bind (f x) (\<lambda>_. for_each f xs)"

lemma keeps_for_each [keeps_intro]: "(\<And>x. keeps P (f x)) \<Longrightarrow> keeps P (for_each f xs)"
  by (induction xs) (auto intro: keeps_intro)

text \<open>\<open>wp m Q s\<close>: run from \<open>s\<close>, the computation \<open>m\<close> returns a value and a state that satisfy \<open>Q\<close>.\<close>

definition wp :: "('s, 'a) state \<Rightarrow> ('a \<Rightarrow> 's \<Rightarrow> bool) \<Rightarrow> 's \<Rightarrow> bool" where
  "wp m Q s \<longleftrightarrow> (case run_state m s of (a, t) \<Rightarrow> Q a t)"

lemma wp_bind [wp_simps]: "wp (State_Monad.bind m f) Q s = wp m (\<lambda>a. wp (f a) Q) s"
  by (simp add: wp_def split: prod.split)

lemma wp_return [wp_simps]: "wp (State_Monad.return a) Q s = Q a s"
  by (simp add: wp_def)

lemma wp_State [wp_simps]: "wp (State g) Q s = (case g s of (a, t) \<Rightarrow> Q a t)"
  by (simp add: wp_def)

lemma wp_mono: "wp m Q s \<Longrightarrow> (\<And>a t. Q a t \<Longrightarrow> R a t) \<Longrightarrow> wp m R s"
  by (auto simp: wp_def)

lemma wp_keeps: "keeps P m \<Longrightarrow> P s \<Longrightarrow> wp m (\<lambda>_. P) s"
  by (auto simp: keeps_def wp_def split: prod.split dest: spec [of _ s])

lemma wp_snd: "wp m (\<lambda>_. P) s \<longleftrightarrow> P (snd (run_state m s))"
  by (simp add: wp_def split: prod.split)

lemma wp_for_each:
  "I s \<Longrightarrow> (\<And>x s. x \<in> set xs \<Longrightarrow> I s \<Longrightarrow> wp (f x) (\<lambda>_. I) s) \<Longrightarrow> wp (for_each f xs) (\<lambda>_. I) s"
proof (induction xs arbitrary: s)
  case (Cons x xs)
  have "wp (f x) (\<lambda>_. I) s" using Cons.prems by simp
  then show ?case
    unfolding for_each.simps wp_bind by (rule wp_mono) (use Cons in auto)
qed (simp add: wp_return)

end
