(* ===== verification/PriorityQueue.thy ===== *)
theory PriorityQueue
  imports Prelude
begin

text \<open>
  \<open>EasySwapBase/ordermanager/queue.go\<close>: the bounded queue of a collection's cheapest listings, a
  slice kept sorted by price together with an index from order id to entry. The sort is Go's
  \<open>sort.Sort\<close>, which promises a sorted rearrangement and nothing about equal keys: it is a parameter
  that ranges over all functions with that promise (type \<open>sorter\<close>). The capacity is a natural
  number (the code only passes the constant 100), so the slot that is evicted always exists.
\<close>

section \<open>State\<close>

record Entry =
  orderID :: string
  priority :: price
  maker :: string
  tokenID :: string

type_synonym PriorityQueue = "Entry list"

record PriorityQueueMap =
  pq :: PriorityQueue
  orders :: "(string \<times> Entry) list"
  maxLen :: nat

text \<open>\<open>PriorityQueue.Less\<close>, the comparison \<open>sort.Sort\<close> is called with.\<close>

definition Less :: "Entry \<Rightarrow> Entry \<Rightarrow> bool" where
  "Less a b \<longleftrightarrow> priority a < priority b"

definition go_sort :: "(PriorityQueue \<Rightarrow> PriorityQueue) \<Rightarrow> bool" where
  "go_sort f \<longleftrightarrow> (\<forall>xs. mset (f xs) = mset xs \<and> sorted_wrt (\<lambda>a b. \<not> Less b a) (f xs))"

lemma go_sort_stable: "go_sort (sort_key priority)"
proof -
  have "sorted_wrt (\<lambda>a b. \<not> Less b a) (sort_key priority xs)" for xs
    using sorted_sort_key [of priority xs]
    by (simp add: sorted_map Less_def not_less)
  then show ?thesis by (simp add: go_sort_def)
qed

typedef sorter = "{f. go_sort f}"
  using go_sort_stable by blast

setup_lifting type_definition_sorter

lift_definition run_sort :: "sorter \<Rightarrow> PriorityQueue \<Rightarrow> PriorityQueue" is "\<lambda>f. f" .

lift_definition stable_sorter :: sorter is "sort_key priority"
  by (rule go_sort_stable)

lemma mset_run_sort [simp]: "mset (run_sort srt xs) = mset xs"
  by transfer (simp add: go_sort_def)

lemma sorted_run_sort: "sorted (map priority (run_sort srt xs))"
proof -
  have "sorted_wrt (\<lambda>a b. \<not> Less b a) (run_sort srt xs)"
    by transfer (simp add: go_sort_def)
  then show ?thesis by (simp add: sorted_map Less_def not_less)
qed

lemma set_run_sort [simp]: "set (run_sort srt xs) = set xs"
  by (metis mset_run_sort set_mset_mset)

lemma length_run_sort [simp]: "length (run_sort srt xs) = length xs"
  by (metis mset_run_sort size_mset)

lemma run_stable_sorter: "run_sort stable_sorter xs = sort_key priority xs"
  by transfer simp

section \<open>Operations\<close>

definition NewPriorityQueueMap :: "nat \<Rightarrow> PriorityQueueMap" where
  "NewPriorityQueueMap n = \<lparr>pq = [], orders = [], maxLen = n\<rparr>"

definition Len :: "PriorityQueueMap \<Rightarrow> int" where
  "Len q = int (length (orders q))"

definition Add :: "sorter \<Rightarrow> PriorityQueueMap \<Rightarrow> string \<Rightarrow> price \<Rightarrow> string \<Rightarrow> string \<Rightarrow> PriorityQueueMap" where
  "Add srt q oid price mk tok =
     (let q1 = (if length (pq q) > maxLen q
                then q\<lparr>orders := AList.delete (orderID (last (pq q))) (orders q),
                       pq := butlast (pq q)\<rparr>
                else q);
          entry = \<lparr>orderID = oid, priority = price, maker = ToLower mk, tokenID = ToLower tok\<rparr>
      in q1\<lparr>pq := run_sort srt (pq q1 @ [entry]),
            orders := AList.update oid entry (orders q1)\<rparr>)"

definition GetMin :: "PriorityQueueMap \<Rightarrow> string \<times> price" where
  "GetMin q = (case pq q of [] \<Rightarrow> ('''', 0) | e # _ \<Rightarrow> (orderID e, priority e))"

definition GetMax :: "PriorityQueueMap \<Rightarrow> string \<times> price" where
  "GetMax q = (if pq q = [] then ('''', 0)
               else (let e = last (pq q) in (orderID e, priority e)))"

definition Remove :: "PriorityQueueMap \<Rightarrow> string \<Rightarrow> PriorityQueueMap" where
  "Remove q oid =
     (case map_of (orders q) oid of
        None \<Rightarrow> q
      | Some _ \<Rightarrow> q\<lparr>pq := filter (\<lambda>v. orderID v \<noteq> oid) (pq q),
                    orders := AList.delete oid (orders q)\<rparr>)"

fun remove_maker_loop ::
  "string \<Rightarrow> string \<Rightarrow> PriorityQueue \<Rightarrow> PriorityQueue \<Rightarrow> (string \<times> Entry) list \<Rightarrow> PriorityQueue \<times> (string \<times> Entry) list" where
  "remove_maker_loop mk tok [] newPQ os = (newPQ, os)"
| "remove_maker_loop mk tok (v # vs) newPQ os =
     (if maker v = mk \<and> tokenID v = tok
      then remove_maker_loop mk tok vs newPQ (AList.delete (orderID v) os)
      else remove_maker_loop mk tok vs (newPQ @ [v]) os)"

definition RemoveMakerOrders :: "PriorityQueueMap \<Rightarrow> string \<Rightarrow> string \<Rightarrow> PriorityQueueMap" where
  "RemoveMakerOrders q mk tok =
     (let (newPQ, os) = remove_maker_loop (ToLower mk) (ToLower tok) (pq q) [] (orders q)
      in q\<lparr>pq := newPQ, orders := os\<rparr>)"

section \<open>Basic facts\<close>

lemma remove_maker_loop_eq:
  "remove_maker_loop mk tok vs acc os =
     (acc @ filter (\<lambda>v. \<not> (maker v = mk \<and> tokenID v = tok)) vs,
      fold (\<lambda>v. AList.delete (orderID v)) (filter (\<lambda>v. maker v = mk \<and> tokenID v = tok) vs) os)"
  by (induction vs arbitrary: acc os) auto

lemma set_fold_delete:
  "set (fold (\<lambda>v. AList.delete (f v)) vs os) = {kv \<in> set os. fst kv \<notin> f ` set vs}"
  by (induction vs arbitrary: os) (auto simp: AList.delete_eq)

lemma distinct_fold_delete:
  "distinct (map fst os) \<Longrightarrow> distinct (map fst (fold (\<lambda>v. AList.delete (f v)) vs os))"
  by (induction vs arbitrary: os) (auto simp: distinct_delete)

lemma set_delete_alist: "set (AList.delete k os) = {kv \<in> set os. fst kv \<noteq> k}"
  by (auto simp: AList.delete_eq)

lemma set_update_alist:
  "distinct (map fst os) \<Longrightarrow> set (AList.update k v os) = insert (k, v) {kv \<in> set os. fst kv \<noteq> k}"
  by (induction os) (force simp: image_iff)+

lemma in_set_butlast_or_last: "x \<in> set xs \<Longrightarrow> x \<in> set (butlast xs) \<or> x = last xs"
  by (induction xs) auto

section \<open>Invariant\<close>

text \<open>
  The queue is sorted, has at most one entry more than its capacity, and its index only names orders
  that are in it.
\<close>

definition queue_inv :: "PriorityQueueMap \<Rightarrow> bool" where
  "queue_inv q \<longleftrightarrow>
     sorted (map priority (pq q)) \<and>
     length (pq q) \<le> maxLen q + 1 \<and>
     distinct (map fst (orders q)) \<and>
     (\<forall>kv \<in> set (orders q). snd kv \<in> set (pq q) \<and> orderID (snd kv) = fst kv)"

lemma queue_inv_new: "queue_inv (NewPriorityQueueMap n)"
  by (simp add: queue_inv_def NewPriorityQueueMap_def)

definition evict :: "PriorityQueueMap \<Rightarrow> PriorityQueueMap" where
  "evict q = (if length (pq q) > maxLen q
              then q\<lparr>orders := AList.delete (orderID (last (pq q))) (orders q), pq := butlast (pq q)\<rparr>
              else q)"

lemma Add_evict:
  "Add srt q oid price mk tok =
     (let entry = \<lparr>orderID = oid, priority = price, maker = ToLower mk, tokenID = ToLower tok\<rparr>
      in (evict q)\<lparr>pq := run_sort srt (pq (evict q) @ [entry]),
                  orders := AList.update oid entry (orders (evict q))\<rparr>)"
  by (simp add: Add_def evict_def Let_def)

lemma sorted_butlast_map: "sorted (map f xs) \<Longrightarrow> sorted (map f (butlast xs))"
  by (simp add: map_butlast sorted_butlast)

lemma queue_inv_evict: "queue_inv q \<Longrightarrow> queue_inv (evict q) \<and> length (pq (evict q)) \<le> maxLen (evict q)"
  using in_set_butlast_or_last [of _ "pq q"]
  by (fastforce simp: queue_inv_def evict_def set_delete_alist distinct_delete sorted_butlast_map)

lemma maxLen_evict [simp]: "maxLen (evict q) = maxLen q"
  by (simp add: evict_def)

lemma queue_inv_add: "queue_inv q \<Longrightarrow> queue_inv (Add srt q oid price mk tok)"
  using queue_inv_evict [of q]
  by (auto simp: Add_evict Let_def queue_inv_def sorted_run_sort distinct_update set_update_alist)

lemma queue_inv_remove: "queue_inv q \<Longrightarrow> queue_inv (Remove q oid)"
  by (auto simp: Remove_def queue_inv_def set_delete_alist distinct_delete sorted_filter
      intro: le_trans [OF length_filter_le] split: option.split)

lemma RemoveMakerOrders_eq:
  "RemoveMakerOrders q mk tok =
     q\<lparr>pq := filter (\<lambda>v. \<not> (maker v = ToLower mk \<and> tokenID v = ToLower tok)) (pq q),
       orders := fold (\<lambda>v. AList.delete (orderID v))
                   (filter (\<lambda>v. maker v = ToLower mk \<and> tokenID v = ToLower tok) (pq q)) (orders q)\<rparr>"
  by (simp add: RemoveMakerOrders_def remove_maker_loop_eq)

lemma queue_inv_remove_maker: "queue_inv q \<Longrightarrow> queue_inv (RemoveMakerOrders q mk tok)"
  by (fastforce simp: RemoveMakerOrders_eq queue_inv_def set_fold_delete distinct_fold_delete
      sorted_filter intro: le_trans [OF length_filter_le])

lemmas queue_inv_intros = queue_inv_new queue_inv_add queue_inv_remove queue_inv_remove_maker

lemma maxLen_ops [simp]:
  "maxLen (NewPriorityQueueMap n) = n"
  "maxLen (Add srt q oid price mk tok) = maxLen q"
  "maxLen (Remove q oid) = maxLen q"
  "maxLen (RemoveMakerOrders q mk tok) = maxLen q"
  by (simp_all add: NewPriorityQueueMap_def Add_evict Let_def Remove_def RemoveMakerOrders_eq
      split: option.split)

lemma GetMin_eq:
  "GetMin q = (if pq q = [] then ('''', 0) else (orderID (hd (pq q)), priority (hd (pq q))))"
  by (cases "pq q") (simp_all add: GetMin_def)

lemma sorted_hd_le: "sorted (map f xs) \<Longrightarrow> x \<in> set xs \<Longrightarrow> f (hd xs) \<le> f x"
  by (cases xs) auto

lemma sorted_le_last: "sorted (map f xs) \<Longrightarrow> x \<in> set xs \<Longrightarrow> f x \<le> f (last xs)"
  by (induction xs) (auto split: if_splits)

section \<open>The interface the order manager uses\<close>

text \<open>
  What \<open>floorprice.go\<close> relies on: the four updates, the two ends of the queue, and an abstract view
  \<open>live\<close>, the orders in the queue with their prices.
\<close>

datatype queue_op =
    OpAdd string price string string
  | OpRemove string
  | OpRemoveMaker string string

fun run_ops ::
  "('q \<Rightarrow> string \<Rightarrow> price \<Rightarrow> string \<Rightarrow> string \<Rightarrow> 'q) \<Rightarrow> ('q \<Rightarrow> string \<Rightarrow> 'q) \<Rightarrow>
   ('q \<Rightarrow> string \<Rightarrow> string \<Rightarrow> 'q) \<Rightarrow> queue_op list \<Rightarrow> 'q \<Rightarrow> 'q" where
  "run_ops add remove rmaker [] q = q"
| "run_ops add remove rmaker (x # xs) q =
     run_ops add remove rmaker xs
       (case x of OpAdd oid price mk tok \<Rightarrow> add q oid price mk tok
                | OpRemove oid \<Rightarrow> remove q oid
                | OpRemoveMaker mk tok \<Rightarrow> rmaker q mk tok)"

text \<open>The orders a sequence of operations adds.\<close>

fun added :: "queue_op list \<Rightarrow> (string \<times> price) set" where
  "added [] = {}"
| "added (OpAdd oid price mk tok # xs) = insert (oid, price) (added xs)"
| "added (_ # xs) = added xs"

lemma added_Cons: "added (x # xs) = added [x] \<union> added xs"
  by (cases x) simp_all

locale price_queue =
  fixes new :: 'q
    and add :: "'q \<Rightarrow> string \<Rightarrow> price \<Rightarrow> string \<Rightarrow> string \<Rightarrow> 'q"
    and remove :: "'q \<Rightarrow> string \<Rightarrow> 'q"
    and rmaker :: "'q \<Rightarrow> string \<Rightarrow> string \<Rightarrow> 'q"
    and get_min :: "'q \<Rightarrow> string \<times> price"
    and get_max :: "'q \<Rightarrow> string \<times> price"
    and live :: "'q \<Rightarrow> (string \<times> price) list"
    and invar :: "'q \<Rightarrow> bool"
  assumes invar_new: "invar new"
    and invar_add: "invar q \<Longrightarrow> invar (add q oid price mk tok)"
    and invar_remove: "invar q \<Longrightarrow> invar (remove q oid)"
    and invar_rmaker: "invar q \<Longrightarrow> invar (rmaker q mk tok)"
    and live_new: "live new = []"
    and live_add: "invar q \<Longrightarrow> (oid, price) \<in> set (live (add q oid price mk tok))"
    and live_add_sub: "invar q \<Longrightarrow> set (live (add q oid price mk tok)) \<subseteq> insert (oid, price) (set (live q))"
    and live_remove_sub: "invar q \<Longrightarrow> set (live (remove q oid)) \<subseteq> set (live q)"
    and live_rmaker_sub: "invar q \<Longrightarrow> set (live (rmaker q mk tok)) \<subseteq> set (live q)"
    and get_min_empty: "live q = [] \<Longrightarrow> get_min q = ('''', 0)"
    and get_max_empty: "live q = [] \<Longrightarrow> get_max q = ('''', 0)"
    and get_min_in: "invar q \<Longrightarrow> live q \<noteq> [] \<Longrightarrow> get_min q \<in> set (live q)"
    and get_max_in: "invar q \<Longrightarrow> live q \<noteq> [] \<Longrightarrow> get_max q \<in> set (live q)"
    and get_min_le: "invar q \<Longrightarrow> x \<in> set (live q) \<Longrightarrow> snd (get_min q) \<le> snd x"
    and get_max_ge: "invar q \<Longrightarrow> x \<in> set (live q) \<Longrightarrow> snd x \<le> snd (get_max q)"
begin

lemma invar_run: "invar q \<Longrightarrow> invar (run_ops add remove rmaker xs q)"
  by (induction xs arbitrary: q)
    (auto simp: invar_add invar_remove invar_rmaker split: queue_op.split)

lemma live_step:
  "invar q \<Longrightarrow>
     set (live (case x of OpAdd oid price mk tok \<Rightarrow> add q oid price mk tok
                      | OpRemove oid \<Rightarrow> remove q oid
                      | OpRemoveMaker mk tok \<Rightarrow> rmaker q mk tok))
       \<subseteq> set (live q) \<union> added [x]"
  using live_add_sub live_remove_sub live_rmaker_sub by (cases x) fastforce+

lemma live_run: "invar q \<Longrightarrow> set (live (run_ops add remove rmaker xs q)) \<subseteq> set (live q) \<union> added xs"
proof (induction xs arbitrary: q)
  case (Cons x xs)
  let ?q = "case x of OpAdd oid price mk tok \<Rightarrow> add q oid price mk tok
                    | OpRemove oid \<Rightarrow> remove q oid
                    | OpRemoveMaker mk tok \<Rightarrow> rmaker q mk tok"
  have "invar ?q"
    using Cons.prems by (simp add: invar_add invar_remove invar_rmaker split: queue_op.split)
  from Cons.IH [OF this] live_step [OF Cons.prems, of x]
  have "set (live (run_ops add remove rmaker xs ?q)) \<subseteq> set (live q) \<union> added [x] \<union> added xs"
    by blast
  then show ?case by (simp add: added_Cons [of x xs] Un_assoc)
qed simp

lemma min_price: "invar q \<Longrightarrow> live q \<noteq> [] \<Longrightarrow> snd (get_min q) = Min (snd ` set (live q))"
  by (rule sym, rule Min_eqI) (auto dest: get_min_le get_min_in)

lemma max_price: "invar q \<Longrightarrow> live q \<noteq> [] \<Longrightarrow> snd (get_max q) = Max (snd ` set (live q))"
  by (rule sym, rule Max_eqI) (auto dest: get_max_ge get_max_in)

lemma min_after_add: "invar q \<Longrightarrow> snd (get_min (add q oid price mk tok)) \<le> price"
  using get_min_le [OF invar_add live_add] by fastforce

end

definition live :: "PriorityQueueMap \<Rightarrow> (string \<times> price) list" where
  "live q = map (\<lambda>e. (orderID e, priority e)) (pq q)"

lemma live_evict_sub: "set (live (evict q)) \<subseteq> set (live q)"
  by (auto simp: live_def evict_def dest: in_set_butlastD)

lemma live_Add:
  "set (live (Add srt q oid price mk tok)) = insert (oid, price) (set (live (evict q)))"
  by (simp add: Add_evict live_def Let_def)

lemma live_facts:
  "live (NewPriorityQueueMap n) = []"
  "live q = [] \<longleftrightarrow> pq q = []"
  "set (live (Remove q oid)) \<subseteq> set (live q)"
  "set (live (RemoveMakerOrders q mk tok)) \<subseteq> set (live q)"
  by (auto simp: live_def NewPriorityQueueMap_def Remove_def RemoveMakerOrders_eq split: option.split)

lemma GetMin_live: "live q \<noteq> [] \<Longrightarrow> GetMin q = hd (live q)"
  by (simp add: GetMin_eq live_def hd_map)

lemma GetMax_live: "live q \<noteq> [] \<Longrightarrow> GetMax q = last (live q)"
  by (simp add: GetMax_def live_def last_map Let_def)

lemma sorted_live: "queue_inv q \<Longrightarrow> sorted (map snd (live q))"
  by (simp add: queue_inv_def live_def comp_def)

interpretation queue: price_queue "NewPriorityQueueMap n" "Add srt" Remove RemoveMakerOrders
  GetMin GetMax live queue_inv for n srt
proof unfold_locales
  fix q :: PriorityQueueMap and oid mk tok :: string and price :: price and x :: "string \<times> price"
  show "set (live (Add srt q oid price mk tok)) \<subseteq> insert (oid, price) (set (live q))"
    unfolding live_Add by (rule insert_mono) (rule live_evict_sub)
  show "(oid, price) \<in> set (live (Add srt q oid price mk tok))"
    by (simp add: live_Add)
  show "live q = [] \<Longrightarrow> GetMin q = ('''', 0)" and "live q = [] \<Longrightarrow> GetMax q = ('''', 0)"
    by (simp_all add: live_facts GetMin_eq GetMax_def)
  show "live q \<noteq> [] \<Longrightarrow> GetMin q \<in> set (live q)" and "live q \<noteq> [] \<Longrightarrow> GetMax q \<in> set (live q)"
    by (simp_all add: GetMin_live GetMax_live)
  assume inv: "queue_inv q"
  show "x \<in> set (live q) \<Longrightarrow> snd (GetMin q) \<le> snd x"
    using sorted_hd_le [OF sorted_live [OF inv]] GetMin_live [of q] by fastforce
  show "x \<in> set (live q) \<Longrightarrow> snd x \<le> snd (GetMax q)"
    using sorted_le_last [OF sorted_live [OF inv]] GetMax_live [of q] by fastforce
qed (simp_all add: queue_inv_intros live_facts)

section \<open>Properties of the queue\<close>

abbreviation run_queue :: "sorter \<Rightarrow> nat \<Rightarrow> queue_op list \<Rightarrow> PriorityQueueMap" where
  "run_queue srt n ops \<equiv> run_ops (Add srt) Remove RemoveMakerOrders ops (NewPriorityQueueMap n)"

lemma queue_inv_run: "queue_inv (run_queue srt n ops)"
  by (rule queue.invar_run) (rule queue_inv_new)

lemma maxLen_run: "maxLen (run_ops (Add srt) Remove RemoveMakerOrders ops q) = maxLen q"
  by (induction ops arbitrary: q) (auto split: queue_op.split)

text \<open>After any sequence of listings, cancellations and transfers the queue's floor price is the
  least price of the orders it holds, its ceiling the greatest, and an empty queue reports price 0.\<close>

theorem queue_floor_is_least:
  "let q = run_queue srt n ops in
   if pq q = [] then GetMin q = ('''', 0) \<and> GetMax q = ('''', 0)
   else GetMin q \<in> set (live q) \<and> snd (GetMin q) = Min (snd ` set (live q)) \<and>
        GetMax q \<in> set (live q) \<and> snd (GetMax q) = Max (snd ` set (live q)) \<and>
        set (live q) \<subseteq> added ops"
proof -
  let ?q = "run_queue srt n ops"
  have inv: "queue_inv ?q" by (rule queue_inv_run)
  show ?thesis
  proof (cases "pq ?q = []")
    case True
    then show ?thesis
      by (simp add: Let_def live_facts queue.get_min_empty queue.get_max_empty)
  next
    case False
    then have "live ?q \<noteq> []" by (simp add: live_facts)
    moreover have "set (live ?q) \<subseteq> added ops"
      using queue.live_run [OF queue_inv_new, where xs = ops] by (simp add: live_facts)
    ultimately show ?thesis
      using False queue.min_price [OF inv] queue.max_price [OF inv]
        queue.get_min_in [OF inv] queue.get_max_in [OF inv] by (simp add: Let_def)
  qed
qed

subsection \<open>The index\<close>

definition index_exact :: "PriorityQueueMap \<Rightarrow> bool" where
  "index_exact q \<longleftrightarrow> distinct (map orderID (pq q)) \<and> fst ` set (orders q) = orderID ` set (pq q)"

fun added_ids :: "queue_op list \<Rightarrow> string list" where
  "added_ids [] = []"
| "added_ids (OpAdd oid price mk tok # xs) = oid # added_ids xs"
| "added_ids (_ # xs) = added_ids xs"

lemma index_exact_new: "index_exact (NewPriorityQueueMap n)"
  by (simp add: index_exact_def NewPriorityQueueMap_def)

lemma index_exact_evict: "index_exact q \<Longrightarrow> index_exact (evict q)"
proof (cases "length (pq q) > maxLen q")
  case True
  assume ix: "index_exact q"
  from True obtain ys z where pq: "pq q = ys @ [z]" by (cases "pq q" rule: rev_cases) auto
  have "fst ` set (AList.delete (orderID z) (orders q)) = fst ` set (orders q) - {orderID z}"
    by (force simp: set_delete_alist)
  then show ?thesis
    using True ix pq by (auto simp: index_exact_def evict_def)
qed (simp add: evict_def)

lemma index_exact_add:
  "index_exact q \<Longrightarrow> oid \<notin> orderID ` set (pq q) \<Longrightarrow> index_exact (Add srt q oid price mk tok)"
proof -
  assume ix: "index_exact q" and fresh: "oid \<notin> orderID ` set (pq q)"
  let ?e = "\<lparr>orderID = oid, priority = price, maker = ToLower mk, tokenID = ToLower tok\<rparr>"
  have "oid \<notin> orderID ` set (pq (evict q))"
    using fresh by (auto simp: evict_def dest: in_set_butlastD)
  moreover have "mset (map orderID (run_sort srt (pq (evict q) @ [?e]))) = mset (map orderID (pq (evict q) @ [?e]))"
    by (simp only: mset_map mset_run_sort)
  then have "distinct (map orderID (run_sort srt (pq (evict q) @ [?e])))
      = distinct (map orderID (pq (evict q) @ [?e]))"
    by (rule mset_eq_imp_distinct_iff)
  ultimately show ?thesis
    using index_exact_evict [OF ix] by (simp add: index_exact_def Add_evict Let_def dom_update)
qed

lemma index_exact_remove: "index_exact q \<Longrightarrow> index_exact (Remove q oid)"
proof (cases "map_of (orders q) oid")
  case (Some e)
  assume ix: "index_exact q"
  have "fst ` set (AList.delete oid (orders q)) = fst ` set (orders q) - {oid}"
    by (force simp: set_delete_alist)
  also have "\<dots> = orderID ` {v \<in> set (pq q). orderID v \<noteq> oid}"
    using ix by (auto simp: index_exact_def)
  finally show ?thesis
    using Some ix by (simp add: index_exact_def Remove_def distinct_map_filter)
qed (simp add: Remove_def)

lemma index_exact_remove_maker: "index_exact q \<Longrightarrow> index_exact (RemoveMakerOrders q mk tok)"
proof -
  assume ix: "index_exact q"
  then have inj: "inj_on orderID (set (pq q))" by (simp add: index_exact_def distinct_map)
  let ?P = "\<lambda>v. maker v = ToLower mk \<and> tokenID v = ToLower tok"
  have "fst ` {kv \<in> set (orders q). fst kv \<notin> orderID ` {x \<in> set (pq q). ?P x}}
      = fst ` set (orders q) - orderID ` {x \<in> set (pq q). ?P x}" by auto
  also have "\<dots> = orderID ` {x \<in> set (pq q). \<not> ?P x}"
    using ix inj by (auto simp: index_exact_def inj_on_def)
  finally show ?thesis
    using ix by (simp add: index_exact_def RemoveMakerOrders_eq set_fold_delete distinct_map_filter)
qed

lemma index_exact_run:
  "index_exact q \<Longrightarrow> distinct (added_ids ops) \<Longrightarrow> set (added_ids ops) \<inter> orderID ` set (pq q) = {} \<Longrightarrow>
     index_exact (run_ops (Add srt) Remove RemoveMakerOrders ops q)"
proof (induction ops arbitrary: q rule: added_ids.induct [case_names Nil Add Rem Mak])
  case (Add oid price mk tok xs)
  have "orderID ` set (pq (Add srt q oid price mk tok)) \<subseteq> insert oid (orderID ` set (pq q))"
    by (auto simp: Add_evict Let_def evict_def dest: in_set_butlastD)
  then have "set (added_ids xs) \<inter> orderID ` set (pq (Add srt q oid price mk tok)) = {}"
    using Add.prems by auto
  then show ?case
    using Add by (auto intro: index_exact_add)
next
  case (Rem oid xs)
  have "orderID ` set (pq (Remove q oid)) \<subseteq> orderID ` set (pq q)"
    by (auto simp: Remove_def split: option.split)
  then have "set (added_ids xs) \<inter> orderID ` set (pq (Remove q oid)) = {}"
    using Rem.prems(3) by auto
  with Rem show ?case by (simp add: index_exact_remove)
next
  case (Mak mk tok xs)
  have "orderID ` set (pq (RemoveMakerOrders q mk tok)) \<subseteq> orderID ` set (pq q)"
    by (auto simp: RemoveMakerOrders_eq)
  then have "set (added_ids xs) \<inter> orderID ` set (pq (RemoveMakerOrders q mk tok)) = {}"
    using Mak.prems(3) by auto
  with Mak show ?case by (simp add: index_exact_remove_maker)
qed simp

text \<open>As long as every order id is listed once, the index and the queue agree: \<open>Len\<close> counts the
  entries, and looking an id up finds exactly the entry with that id, if it is in the queue.\<close>

theorem queue_index_exact:
  assumes "distinct (added_ids ops)"
  shows "let q = run_queue srt n ops in
           Len q = int (length (pq q)) \<and>
           (map_of (orders q) oid = Some e \<longleftrightarrow> e \<in> set (pq q) \<and> orderID e = oid)"
proof -
  let ?q = "run_queue srt n ops"
  have inv: "queue_inv ?q" by (rule queue_inv_run)
  have ix: "index_exact ?q"
    by (rule index_exact_run [OF index_exact_new assms]) (simp add: NewPriorityQueueMap_def)
  have "length (orders ?q) = card (fst ` set (orders ?q))"
    using inv distinct_card [of "map fst (orders ?q)"] by (simp add: queue_inv_def)
  also have "\<dots> = length (pq ?q)"
    using ix by (simp add: index_exact_def distinct_card [of "map orderID (pq ?q)", simplified])
  finally have len: "Len ?q = int (length (pq ?q))" by (simp add: Len_def)
  have inj: "x = y" if "x \<in> set (pq ?q)" "y \<in> set (pq ?q)" "orderID x = orderID y" for x y
    using that ix by (auto simp: index_exact_def distinct_map inj_on_def)
  have "map_of (orders ?q) oid = Some e \<longleftrightarrow> (oid, e) \<in> set (orders ?q)"
    using inv by (simp add: queue_inv_def)
  also have "\<dots> \<longleftrightarrow> e \<in> set (pq ?q) \<and> orderID e = oid"
  proof
    assume "e \<in> set (pq ?q) \<and> orderID e = oid"
    then have "oid \<in> fst ` set (orders ?q)" using ix by (auto simp: index_exact_def)
    then obtain e' where "(oid, e') \<in> set (orders ?q)" by auto
    moreover from this have "e' \<in> set (pq ?q)" "orderID e' = oid"
      using inv by (auto simp: queue_inv_def)
    ultimately show "(oid, e) \<in> set (orders ?q)"
      using inj [of e' e] \<open>e \<in> set (pq ?q) \<and> orderID e = oid\<close> by auto
  qed (use inv in \<open>auto simp: queue_inv_def\<close>)
  finally show ?thesis using len by (simp add: Let_def)
qed

theorem queue_index_exact_witness:
  "let q = run_queue stable_sorter 1 [OpAdd ''a'' 1 ''m'' ''t'', OpAdd ''b'' 2 ''m'' ''t''] in
     Len q = int (length (pq q))"
  using queue_index_exact [of "[OpAdd ''a'' 1 ''m'' ''t'', OpAdd ''b'' 2 ''m'' ''t'']" stable_sorter 1]
  by (simp add: Let_def)

subsection \<open>Capacity\<close>

lemma length_Add:
  "length (pq (Add srt q oid price mk tok)) =
     (if length (pq q) > maxLen q then length (pq q) else Suc (length (pq q)))"
  by (auto simp: Add_evict Let_def evict_def)

lemma length_run_adds:
  "length (pq q) + k \<le> maxLen q + 1 \<Longrightarrow>
     length (pq (run_ops (Add srt) Remove RemoveMakerOrders (replicate k (OpAdd oid p mk tok)) q))
       = length (pq q) + k"
  by (induction k arbitrary: q) (simp_all add: length_Add)

text \<open>The bound of the queue. A queue created with maximal length \<open>n\<close> never holds more than
  \<open>n + 1\<close> orders, and it does reach \<open>n + 1\<close>: the length test is made before the insertion.\<close>

theorem queue_capacity:
  "length (pq (run_queue srt n ops)) \<le> n + 1 \<and> (\<exists>ops'. length (pq (run_queue srt n ops')) = n + 1)"
proof
  show "length (pq (run_queue srt n ops)) \<le> n + 1"
    using queue_inv_run [of srt ops n] by (simp add: queue_inv_def maxLen_run)
  show "\<exists>ops'. length (pq (run_queue srt n ops')) = n + 1"
    by (rule exI [of _ "replicate (n + 1) (OpAdd ''a'' 1 '''' '''')"])
      (subst length_run_adds, simp_all add: NewPriorityQueueMap_def)
qed

text \<open>An insertion keeps every order but, when the queue is over its maximal length, one of the
  greatest price.\<close>

theorem queue_add_evicts_most_expensive:
  "let q = run_queue srt n ops;
       e = \<lparr>orderID = oid, priority = price, maker = ToLower mk, tokenID = ToLower tok\<rparr>;
       q' = Add srt q oid price mk tok
   in if length (pq q) > n
      then \<exists>d. mset (pq q') + {#d#} = mset (pq q) + {#e#} \<and> priority d = Max (priority ` set (pq q))
      else mset (pq q') = mset (pq q) + {#e#}"
proof -
  let ?q = "run_queue srt n ops"
  have inv: "queue_inv ?q" by (rule queue_inv_run)
  have ml: "maxLen ?q = n" by (simp add: maxLen_run)
  show ?thesis
  proof (cases "length (pq ?q) > n")
    case True
    then have ne: "pq ?q \<noteq> []" by auto
    have "priority (last (pq ?q)) = Max (priority ` set (pq ?q))"
      using inv ne by (intro Max_eqI [symmetric]) (auto simp: queue_inv_def dest: sorted_le_last)
    moreover have "mset (pq ?q) = mset (butlast (pq ?q)) + {#last (pq ?q)#}"
      by (metis append_butlast_last_id mset_append mset_single_iff_right ne)
    ultimately show ?thesis
      using True ml by (auto simp: Let_def Add_evict evict_def intro!: exI [of _ "last (pq ?q)"])
  qed (simp add: Let_def Add_evict evict_def ml)
qed

text \<open>The \<open>n\<close> cheapest prices of the queue are the \<open>n\<close> cheapest of all prices inserted.\<close>

lemma take_insort: "sorted ys \<Longrightarrow> take n (insort x (take n ys)) = take n (insort x ys)"
proof (induction ys arbitrary: n)
  case (Cons y ys)
  then show ?case by (cases n) (auto simp: take_Cons')
qed simp

lemma take_fold_insort:
  "sorted ys \<Longrightarrow> take n (fold insort ps (take n ys)) = take n (fold insort ps ys)"
proof (induction ps arbitrary: ys)
  case (Cons p ps)
  have "take n (fold insort ps (insort p (take n ys))) = take n (fold insort ps (take n (insort p (take n ys))))"
    using Cons.prems by (intro Cons.IH [symmetric]) (simp add: sorted_insort sorted_wrt_take)
  also have "\<dots> = take n (fold insort ps (insort p ys))"
    using Cons.prems by (simp add: take_insort Cons.IH sorted_insort)
  finally show ?case by simp
qed simp

lemma prices_Add:
  assumes "queue_inv q"
  shows "map priority (pq (Add srt q oid price mk tok)) = insort price (map priority (pq (evict q)))"
proof -
  have sr: "sorted (map priority (pq (evict q)))"
    using queue_inv_evict [OF assms] by (simp add: queue_inv_def)
  have "map priority (pq (Add srt q oid price mk tok)) = sort (insort price (map priority (pq (evict q))))"
    by (rule properties_for_sort [symmetric])
      (simp_all add: Add_evict Let_def sorted_run_sort del: mset_map add: mset_map [symmetric], simp)
  also have "\<dots> = insort price (map priority (pq (evict q)))"
    using sr by (simp add: sorted_insort sorted_sort_id)
  finally show ?thesis .
qed

lemma take_prices_evict:
  assumes "queue_inv q"
  shows "take (maxLen q) (map priority (pq (evict q))) = take (maxLen q) (map priority (pq q))"
proof (cases "length (pq q) > maxLen q")
  case True
  then have "length (pq q) = Suc (maxLen q)" using assms by (simp add: queue_inv_def)
  then show ?thesis by (simp add: evict_def butlast_conv_take take_map)
qed (simp add: evict_def)

lemma take_prices_Add:
  assumes "queue_inv q"
  shows "take (maxLen q) (map priority (pq (Add srt q oid price mk tok)))
       = take (maxLen q) (insort price (map priority (pq q)))"
proof -
  let ?n = "maxLen q"
  have "take ?n (insort price (map priority (pq (evict q))))
      = take ?n (insort price (take ?n (map priority (pq (evict q)))))"
    using queue_inv_evict [OF assms] by (intro take_insort [symmetric]) (simp add: queue_inv_def)
  also have "\<dots> = take ?n (insort price (map priority (pq q)))"
    using assms take_prices_evict [OF assms] by (simp add: take_insort queue_inv_def)
  finally show ?thesis by (simp add: prices_Add [OF assms])
qed

text \<open>The insertions of a list of orders, given as their ids, prices, makers and tokens.\<close>

definition insertions :: "(string \<times> price \<times> string \<times> string) list \<Rightarrow> queue_op list" where
  "insertions xs = map (\<lambda>(oid, p, mk, tok). OpAdd oid p mk tok) xs"

definition prices_of :: "(string \<times> price \<times> string \<times> string) list \<Rightarrow> price list" where
  "prices_of xs = map (\<lambda>(oid, p, mk, tok). p) xs"

lemma take_prices_insertions:
  "queue_inv q \<Longrightarrow> maxLen q = n \<Longrightarrow>
     take n (map priority (pq (run_ops (Add srt) Remove RemoveMakerOrders (insertions xs) q)))
     = take n (fold insort (prices_of xs) (map priority (pq q)))"
proof (induction xs arbitrary: q)
  case (Cons x xs)
  obtain oid p mk tok where x: "x = (oid, p, mk, tok)" by (cases x) auto
  let ?q = "Add srt q oid p mk tok"
  have inv: "queue_inv ?q" using Cons.prems by (simp add: queue_inv_add)
  have s: "sorted (map priority (pq q))" "sorted (map priority (pq ?q))"
    using Cons.prems inv by (simp_all add: queue_inv_def)
  have "take n (fold insort (prices_of xs) (map priority (pq ?q)))
      = take n (fold insort (prices_of xs) (take n (insort p (map priority (pq q)))))"
    using take_fold_insort [OF s(2)] take_prices_Add [OF Cons.prems(1)] Cons.prems(2) by metis
  also have "\<dots> = take n (fold insort (prices_of xs) (insort p (map priority (pq q))))"
    using s(1) by (simp add: take_fold_insort sorted_insort)
  finally show ?case
    using Cons.IH [OF inv] Cons.prems(2) by (simp add: insertions_def prices_of_def x)
qed (simp add: insertions_def prices_of_def)

lemma cheapest_insertions:
  "take n (map priority (pq (run_queue srt n (insertions xs)))) = take n (sort (prices_of xs))"
  using take_prices_insertions [OF queue_inv_new, of n]
  by (simp add: NewPriorityQueueMap_def sort_conv_fold)

lemma hd_sort_Min: "xs \<noteq> [] \<Longrightarrow> hd (sort xs) = Min (set xs)"
proof -
  assume "xs \<noteq> []"
  then have ne: "sort xs \<noteq> []" by (metis set_empty set_sort)
  then have "hd (sort xs) \<in> set (sort xs)" by (rule hd_in_set)
  moreover have "hd (sort xs) \<le> y" if "y \<in> set xs" for y
    using sorted_hd_le [of "\<lambda>x. x" "sort xs" y] that by simp
  ultimately show ?thesis by (intro Min_eqI [symmetric]) simp_all
qed

lemma min_after_insertions:
  assumes "0 < n" and "xs \<noteq> []"
  shows "snd (GetMin (run_queue srt n (insertions xs))) = Min (set (prices_of xs))"
proof -
  let ?p = "map priority (pq (run_queue srt n (insertions xs)))"
  have ps: "prices_of xs \<noteq> []" using assms(2) by (simp add: prices_of_def)
  then have "take n (sort (prices_of xs)) \<noteq> []"
    using assms(1) by (metis list.size(3) not_gr_zero set_empty set_sort take_eq_Nil)
  then have ne: "?p \<noteq> []" by (metis cheapest_insertions take_Nil)
  have "hd ?p = hd (take n ?p)" using assms(1) by (simp add: hd_take)
  also have "\<dots> = hd (sort (prices_of xs))"
    using assms(1) by (simp only: cheapest_insertions hd_take)
  also have "\<dots> = Min (set (prices_of xs))" using ps by (rule hd_sort_Min)
  finally show ?thesis using ne by (simp add: GetMin_eq hd_map)
qed

text \<open>C14: filling a queue of maximal length \<open>n\<close> with any orders, in any order, keeps the \<open>n\<close> cheapest
  prices exactly; only the one extra slot may hold a price that is not among them.\<close>

theorem queue_keeps_cheapest:
  "take n (map priority (pq (run_queue srt n (insertions xs)))) = take n (sort (prices_of xs)) \<and>
   (0 < n \<and> xs \<noteq> [] \<longrightarrow> snd (GetMin (run_queue srt n (insertions xs))) = Min (set (prices_of xs)))"
proof (intro conjI impI)
  show "take n (map priority (pq (run_queue srt n (insertions xs)))) = take n (sort (prices_of xs))"
    by (rule cheapest_insertions)
  assume "0 < n \<and> xs \<noteq> []"
  then show "snd (GetMin (run_queue srt n (insertions xs))) = Min (set (prices_of xs))"
    by (simp add: min_after_insertions)
qed

theorem queue_keeps_cheapest_witness:
  "snd (GetMin (run_queue stable_sorter 1 (insertions [(''a'', 2, [], []), (''b'', 1, [], [])]))) = 1"
  using queue_keeps_cheapest [of 1 stable_sorter "[(''a'', 2, [], []), (''b'', 1, [], [])]"]
  by (simp add: prices_of_def)

text \<open>An order id that is listed twice while the queue is full can become impossible to remove.
  When the most expensive entry is evicted, its id leaves the index although a cheaper entry with the
  same id stays; cancelling that id is then a no-op and the cancelled order keeps the floor price.\<close>

theorem evicted_duplicate_is_unremovable:
  assumes "queue_inv q" and "length (pq q) > maxLen q" and "length (pq q) > 1"
    and "orderID (hd (pq q)) = orderID (last (pq q))"
    and "oid \<noteq> orderID (hd (pq q))" and "priority (hd (pq q)) < price"
  shows "let q' = Add srt q oid price mk tok; dead = hd (pq q)
         in Remove q' (orderID dead) = q' \<and> dead \<in> set (pq (Remove q' (orderID dead))) \<and>
            snd (GetMin (Remove q' (orderID dead))) = priority dead"
proof -
  let ?q' = "Add srt q oid price mk tok"
  let ?e = "\<lparr>orderID = oid, priority = price, maker = ToLower mk, tokenID = ToLower tok\<rparr>"
  obtain h ys z where pq: "pq q = h # ys @ [z]"
  proof (cases "pq q")
    case (Cons h t)
    with assms(3) show ?thesis using that by (cases t rule: rev_cases) auto
  qed (use assms(3) in simp)
  have h: "orderID h = orderID z" "oid \<noteq> orderID z" "priority h < price"
    using assms(4,5,6) by (auto simp: pq)
  have "orders ?q' = AList.update oid ?e (AList.delete (orderID z) (orders q))"
    using assms(2) pq by (simp add: Add_evict evict_def Let_def)
  then have "map_of (orders ?q') (orderID z) = None"
    using h by (simp add: update_conv' delete_conv')
  then have rem: "Remove ?q' (orderID h) = ?q'" by (simp add: Remove_def h)
  have mem: "set (pq ?q') = insert h (insert ?e (set ys))"
    using assms(2) pq by (auto simp: Add_evict evict_def Let_def)
  have "queue_inv ?q'" using assms(1) by (rule queue_inv_add)
  moreover from mem have "live ?q' \<noteq> []" by (auto simp: live_facts)
  ultimately have "snd (GetMin ?q') = Min (snd ` set (live ?q'))" by (rule queue.min_price)
  also have "snd ` set (live ?q') = priority ` set (pq ?q')"
    by (simp add: live_def image_image)
  also have "Min \<dots> = priority h"
    using assms(1) h(3) by (intro Min_eqI) (auto simp: mem queue_inv_def pq)
  finally show ?thesis using rem mem pq by (simp add: Let_def)
qed

theorem evicted_duplicate_is_unremovable_witness:
  "let q = Add stable_sorter (run_queue stable_sorter 1 [OpAdd ''a'' 1 [] [], OpAdd ''a'' 2 [] []]) ''b'' 3 [] []
   in Remove q ''a'' = q \<and> snd (GetMin (Remove q ''a'')) = 1"
proof -
  let ?q = "run_queue stable_sorter 1 [OpAdd ''a'' 1 [] [], OpAdd ''a'' 2 [] []]"
  have pq: "pq ?q = [\<lparr>orderID = ''a'', priority = 1, maker = [], tokenID = []\<rparr>,
                     \<lparr>orderID = ''a'', priority = 2, maker = [], tokenID = []\<rparr>]"
    by (simp add: Add_def NewPriorityQueueMap_def run_stable_sorter Let_def)
  have ml: "maxLen ?q = 1" by (simp add: maxLen_run)
  have "let q' = Add stable_sorter ?q ''b'' 3 [] []; dead = hd (pq ?q)
        in Remove q' (orderID dead) = q' \<and> dead \<in> set (pq (Remove q' (orderID dead))) \<and>
           snd (GetMin (Remove q' (orderID dead))) = priority dead"
    by (rule evicted_duplicate_is_unremovable) (unfold pq ml, simp_all add: queue_inv_run del: run_ops.simps)
  from this [unfolded pq Let_def list.sel Entry.simps] show ?thesis
    unfolding Let_def by blast
qed

end
