(* ===== verification/TimeWheel.thy ===== *)
theory TimeWheel
  imports Prelude
begin

text \<open>
  The time wheel of \<open>EasySwapBase/ordermanager\<close> (\<open>service.go\<close>, \<open>expiredorder.go\<close>): 3600 slots, one per
  second, each the head of a linked list of orders that wait for their expiry. The list nodes live in
  an explicit store, because the traversal of a slot mutates them in place through two pointers. The
  traversal is shown to be a filter on the list a slot stands for, and the tick at which an order
  leaves the wheel is determined exactly.
\<close>

section \<open>State\<close>

definition WheelSize :: int where
  "WheelSize = 3600"

record OrderNode =
  orderID :: string
  CollectionAddr :: string
  ChainSuffix :: string
  CycleCount :: int
  WheelPosition :: int
  Next :: "nat option"

text \<open>
  \<open>heap\<close> holds the nodes by address, \<open>next_ref\<close> the next address to allocate, \<open>TimeWheel i\<close> the head
  \<open>NotifyActivities\<close> of slot \<open>i\<close>.
\<close>

record wheel =
  heap :: "nat \<rightharpoonup> OrderNode"
  next_ref :: nat
  TimeWheel :: "int \<Rightarrow> nat option"
  CurrentIndex :: int

datatype go_panic = IndexOutOfRange | SliceOutOfRange | DivideByZero | NilDereference

definition empty_wheel :: wheel where
  "empty_wheel = \<lparr>heap = Map.empty, next_ref = 0, TimeWheel = (\<lambda>_. None), CurrentIndex = 0\<rparr>"

section \<open>Operations\<close>

definition slot_in_range :: "int \<Rightarrow> bool" where
  "slot_in_range i \<longleftrightarrow> 0 \<le> i \<and> i < WheelSize"

definition addToOrderExpiryCheckQueue ::
  "int \<Rightarrow> string \<Rightarrow> string \<Rightarrow> string \<Rightarrow> wheel \<Rightarrow> go_panic + wheel" where
  "addToOrderExpiryCheckQueue delaySeconds chainSuffix orderId collectionAddr w =
     (let calculateValue = wrap64 (CurrentIndex w + delaySeconds);
          cycle = go_div calculateValue WheelSize;
          cycle = (if cycle > 0 then cycle - 1 else cycle);
          index = go_rem calculateValue WheelSize;
          orderActivity = \<lparr>orderID = orderId, CollectionAddr = collectionAddr, ChainSuffix = chainSuffix,
            CycleCount = cycle, WheelPosition = index, Next = None\<rparr>
      in if \<not> slot_in_range index then Inl IndexOutOfRange
         else (case TimeWheel w index of
             None \<Rightarrow>
               Inr (w\<lparr>heap := (heap w)(next_ref w \<mapsto> orderActivity),
                      next_ref := Suc (next_ref w),
                      TimeWheel := (TimeWheel w)(index := Some (next_ref w))\<rparr>)
           | Some head \<Rightarrow>
               Inr (w\<lparr>heap := (heap w)(next_ref w \<mapsto> orderActivity\<lparr>Next := Some head\<rparr>),
                      next_ref := Suc (next_ref w),
                      TimeWheel := (TimeWheel w)(index := Some (next_ref w))\<rparr>)))"

text \<open>
  The body of the loop over a slot, with its pointers \<open>prev\<close> and \<open>p\<close>. \<open>due\<close> collects, in order, the
  arguments of the goroutines that are started. \<open>None\<close> is a loop that does not end or a nil
  dereference.
\<close>

type_synonym task_key = "string \<times> string \<times> string"

partial_function (option) walk ::
  "int \<Rightarrow> nat option \<Rightarrow> nat option \<Rightarrow> wheel \<Rightarrow> task_key list \<Rightarrow> (wheel \<times> task_key list) option" where
  "walk headIndex prev p w due =
     (case p of
        None \<Rightarrow> Some (w, due)
      | Some a \<Rightarrow>
         (case heap w a of
            None \<Rightarrow> None
          | Some node \<Rightarrow>
             (if CycleCount node = 0 then
                (if prev = p then
                   walk headIndex (Next node) (Next node)
                     (w\<lparr>TimeWheel := (TimeWheel w)(headIndex := Next node)\<rparr>)
                     (due @ [(ChainSuffix node, orderID node, CollectionAddr node)])
                 else
                   (case prev of
                      None \<Rightarrow> None
                    | Some b \<Rightarrow>
                       (case heap w b of
                          None \<Rightarrow> None
                        | Some pnode \<Rightarrow>
                            walk headIndex prev (Next node)
                              (w\<lparr>heap := (heap w)(b \<mapsto> pnode\<lparr>Next := Next node\<rparr>)\<rparr>)
                              (due @ [(ChainSuffix node, orderID node, CollectionAddr node)]))))
              else
                walk headIndex p (Next node)
                  (w\<lparr>heap := (heap w)(a \<mapsto> node\<lparr>CycleCount := wrap64 (CycleCount node - 1)\<rparr>)\<rparr>) due)))"

text \<open>One second of \<open>orderExpiryProcess\<close>.\<close>

definition tick :: "wheel \<Rightarrow> (wheel \<times> task_key list) option" where
  "tick w =
     (let ci = (if CurrentIndex w \<ge> WheelSize then go_rem (CurrentIndex w) WheelSize else CurrentIndex w);
          taskLinkHead = TimeWheel w ci;
          headIndex = ci
      in walk headIndex taskLinkHead taskLinkHead (w\<lparr>CurrentIndex := ci + 1\<rparr>) [])"

fun run_ticks :: "nat \<Rightarrow> wheel \<Rightarrow> (wheel \<times> task_key list list) option" where
  "run_ticks 0 w = Some (w, [])"
| "run_ticks (Suc n) w =
     (case tick w of
        None \<Rightarrow> None
      | Some (w', due) \<Rightarrow>
         (case run_ticks n w' of
            None \<Rightarrow> None
          | Some (w'', dues) \<Rightarrow> Some (w'', due # dues)))"

partial_function (option) count_tasks :: "wheel \<Rightarrow> nat option \<Rightarrow> int \<Rightarrow> int option" where
  "count_tasks w p orderNum =
     (case p of
        None \<Rightarrow> Some orderNum
      | Some a \<Rightarrow>
         (case heap w a of
            None \<Rightarrow> None
          | Some node \<Rightarrow> count_tasks w (Next node) (orderNum + 1)))"

definition GetWheelTaskQuantity :: "wheel \<Rightarrow> int \<Rightarrow> go_panic + int option" where
  "GetWheelTaskQuantity w index =
     (if \<not> slot_in_range index then Inl IndexOutOfRange
      else (let orders = TimeWheel w index in
        if orders = None then Inr (Some 0) else Inr (count_tasks w orders 0)))"

section \<open>The list a slot stands for\<close>

text \<open>\<open>lseg h p as q\<close>: from \<open>p\<close> the links lead through the addresses \<open>as\<close> to \<open>q\<close>.\<close>

fun lseg :: "(nat \<rightharpoonup> OrderNode) \<Rightarrow> nat option \<Rightarrow> nat list \<Rightarrow> nat option \<Rightarrow> bool" where
  "lseg h p [] q \<longleftrightarrow> p = q"
| "lseg h p (a # as) q \<longleftrightarrow> p = Some a \<and> (\<exists>node. h a = Some node \<and> lseg h (Next node) as q)"

abbreviation linked :: "(nat \<rightharpoonup> OrderNode) \<Rightarrow> nat option \<Rightarrow> nat list \<Rightarrow> bool" where
  "linked h p as \<equiv> lseg h p as None"

lemma lseg_append: "lseg h p (as @ bs) q \<longleftrightarrow> (\<exists>r. lseg h p as r \<and> lseg h r bs q)"
  by (induction as arbitrary: p) auto

lemma lseg_frame: "lseg h p as q \<Longrightarrow> (\<And>a. a \<in> set as \<Longrightarrow> h' a = h a) \<Longrightarrow> lseg h' p as q"
  by (induction as arbitrary: p) auto

lemma lseg_same_next:
  "lseg h p as q \<Longrightarrow> h a = Some node \<Longrightarrow> Next node' = Next node \<Longrightarrow> lseg (h(a \<mapsto> node')) p as q"
  by (induction as arbitrary: p) auto

lemma lseg_relink:
  assumes "lseg h p (as @ [b]) q" and "b \<notin> set as" and "h b = Some node"
  shows "lseg (h(b \<mapsto> node\<lparr>Next := r\<rparr>)) p (as @ [b]) r"
proof -
  from assms have "lseg h p as (Some b)" by (auto simp: lseg_append)
  then have "lseg (h(b \<mapsto> node\<lparr>Next := r\<rparr>)) p as (Some b)"
    by (rule lseg_frame) (use assms(2) in auto)
  then show ?thesis by (auto simp: lseg_append)
qed

text \<open>A waiting task: its key and the number of further revolutions it waits.\<close>

type_synonym task = "task_key \<times> int"

definition task_at :: "(nat \<rightharpoonup> OrderNode) \<Rightarrow> nat \<Rightarrow> task" where
  "task_at h a = (case h a of
      Some node \<Rightarrow> ((ChainSuffix node, orderID node, CollectionAddr node), CycleCount node)
    | None \<Rightarrow> (('''', '''', ''''), 0))"

lemma tasks_frame: "(\<And>a. a \<in> set as \<Longrightarrow> h' a = h a) \<Longrightarrow> map (task_at h') as = map (task_at h) as"
  by (simp add: task_at_def)

definition good_task :: "task \<Rightarrow> bool" where
  "good_task t \<longleftrightarrow> 0 \<le> snd t \<and> in_i64 (snd t)"

text \<open>
  \<open>slots w A\<close>: slot \<open>i\<close> of the wheel \<open>w\<close> stands for the task list \<open>A i\<close>. The lists are finite and acyclic,
  no node is shared, all nodes are allocated, and the counters are natural numbers.
\<close>

definition slots :: "wheel \<Rightarrow> (int \<Rightarrow> task list) \<Rightarrow> bool" where
  "slots w A \<longleftrightarrow>
     (\<exists>L. (\<forall>i. linked (heap w) (TimeWheel w i) (L i) \<and> A i = map (task_at (heap w)) (L i) \<and>
               distinct (L i) \<and> (\<forall>a \<in> set (L i). a < next_ref w)) \<and>
          (\<forall>i j. i \<noteq> j \<longrightarrow> set (L i) \<inter> set (L j) = {})) \<and>
     (\<forall>i. list_all good_task (A i)) \<and>
     0 \<le> CurrentIndex w \<and> CurrentIndex w \<le> WheelSize"

text \<open>What one visit does to the list of a slot.\<close>

definition stay :: "task list \<Rightarrow> task list" where
  "stay ts = map (\<lambda>(k, c). (k, c - 1)) (filter (\<lambda>(k, c). c \<noteq> 0) ts)"

definition leave :: "task list \<Rightarrow> task_key list" where
  "leave ts = map fst (filter (\<lambda>(k, c). c = 0) ts)"

lemma stay_Cons: "stay ((k, c) # ts) = (if c = 0 then stay ts else (k, c - 1) # stay ts)"
  by (simp add: stay_def)

lemma leave_Cons: "leave ((k, c) # ts) = (if c = 0 then k # leave ts else leave ts)"
  by (simp add: leave_def)

section \<open>The traversal is a filter\<close>

lemma task_at_upd [simp]:
  "task_at (h(a \<mapsto> node)) b =
     (if b = a then ((ChainSuffix node, orderID node, CollectionAddr node), CycleCount node) else task_at h b)"
  by (simp add: task_at_def)

text \<open>
  The loop invariant: the nodes \<open>P\<close> are kept and linked up to \<open>p\<close>, the nodes \<open>R\<close> are still to be
  visited; \<open>prev\<close> is the last kept node, or \<open>p\<close> itself while none is kept. \<open>walk_post\<close> says what the
  loop leaves when it starts there: of \<open>R\<close> it keeps the nodes \<open>L\<close>, counted down, and it touches nothing
  else.
\<close>

abbreviation tasks :: "wheel \<Rightarrow> nat list \<Rightarrow> task list" where
  "tasks w as \<equiv> map (task_at (heap w)) as"

definition walk_pre :: "wheel \<Rightarrow> int \<Rightarrow> nat list \<Rightarrow> nat option \<Rightarrow> nat option \<Rightarrow> nat list \<Rightarrow> bool" where
  "walk_pre w i P prev p R \<longleftrightarrow>
     lseg (heap w) (TimeWheel w i) P p \<and> linked (heap w) p R \<and> distinct (P @ R) \<and>
     prev = (if P = [] then p else Some (last P)) \<and> list_all good_task (tasks w R)"

definition walk_post ::
  "wheel \<Rightarrow> int \<Rightarrow> nat list \<Rightarrow> nat list \<Rightarrow> task_key list \<Rightarrow> (wheel \<times> task_key list) option \<Rightarrow> bool" where
  "walk_post w i P R due res \<longleftrightarrow>
     (\<exists>w' L. res = Some (w', due @ leave (tasks w R)) \<and>
        linked (heap w') (TimeWheel w' i) (P @ L) \<and> set L \<subseteq> set R \<and> distinct L \<and>
        tasks w' P = tasks w P \<and> tasks w' L = stay (tasks w R) \<and>
        (\<forall>a. a \<notin> set (P @ R) \<longrightarrow> heap w' a = heap w a) \<and>
        (\<forall>j. j \<noteq> i \<longrightarrow> TimeWheel w' j = TimeWheel w j) \<and>
        next_ref w' = next_ref w \<and> CurrentIndex w' = CurrentIndex w)"

lemma walk_postI:
  assumes "res = Some (w', due @ leave (tasks w R))" "linked (heap w') (TimeWheel w' i) (P @ L)"
    and "set L \<subseteq> set R" "distinct L" "tasks w' P = tasks w P" "tasks w' L = stay (tasks w R)"
    and "\<And>a. a \<notin> set (P @ R) \<Longrightarrow> heap w' a = heap w a" "\<And>j. j \<noteq> i \<Longrightarrow> TimeWheel w' j = TimeWheel w j"
    and "next_ref w' = next_ref w" "CurrentIndex w' = CurrentIndex w"
  shows "walk_post w i P R due res"
  unfolding walk_post_def using assms by blast

lemma walk_postE:
  assumes "walk_post w i P R due res"
  obtains w' L where "res = Some (w', due @ leave (tasks w R))" "linked (heap w') (TimeWheel w' i) (P @ L)"
    and "set L \<subseteq> set R" "distinct L" "tasks w' P = tasks w P" "tasks w' L = stay (tasks w R)"
    and "\<And>a. a \<notin> set (P @ R) \<Longrightarrow> heap w' a = heap w a" "\<And>j. j \<noteq> i \<Longrightarrow> TimeWheel w' j = TimeWheel w j"
    and "next_ref w' = next_ref w" "CurrentIndex w' = CurrentIndex w"
  using assms unfolding walk_post_def by blast

abbreviation key_of :: "OrderNode \<Rightarrow> task_key" where
  "key_of node \<equiv> (ChainSuffix node, orderID node, CollectionAddr node)"

text \<open>The three kinds of iteration: unlink the head, unlink behind \<open>prev\<close>, count down and keep.\<close>

lemma walk_unlink_head:
  assumes node: "heap w a = Some node" and z: "CycleCount node = 0"
    and post: "walk_post (w\<lparr>TimeWheel := (TimeWheel w)(i := Next node)\<rparr>) i [] R (due @ [key_of node]) res"
  shows "walk_post w i [] (a # R) due res"
proof -
  have ta: "task_at (heap w) a = (key_of node, 0)" by (simp add: task_at_def node z)
  from post show ?thesis
  proof (rule walk_postE)
    fix w' L
    assume "res = Some (w', (due @ [key_of node]) @ leave (tasks (w\<lparr>TimeWheel := (TimeWheel w)(i := Next node)\<rparr>) R))"
      and "linked (heap w') (TimeWheel w' i) ([] @ L)" "set L \<subseteq> set R" "distinct L"
      and "tasks w' L = stay (tasks (w\<lparr>TimeWheel := (TimeWheel w)(i := Next node)\<rparr>) R)"
      and fr: "\<And>a. a \<notin> set ([] @ R) \<Longrightarrow> heap w' a = heap (w\<lparr>TimeWheel := (TimeWheel w)(i := Next node)\<rparr>) a"
      and "\<And>j. j \<noteq> i \<Longrightarrow> TimeWheel w' j = TimeWheel (w\<lparr>TimeWheel := (TimeWheel w)(i := Next node)\<rparr>) j"
      and "next_ref w' = next_ref (w\<lparr>TimeWheel := (TimeWheel w)(i := Next node)\<rparr>)"
      and "CurrentIndex w' = CurrentIndex (w\<lparr>TimeWheel := (TimeWheel w)(i := Next node)\<rparr>)"
    then show ?thesis
      by (intro walk_postI [where w' = w' and L = L]) (auto simp: ta stay_Cons leave_Cons)
  qed
qed

lemma walk_unlink_behind:
  assumes node: "heap w a = Some node" and z: "CycleCount node = 0"
    and pnode: "heap w b = Some pnode" and b: "b \<in> set P"
    and post: "walk_post (w\<lparr>heap := (heap w)(b \<mapsto> pnode\<lparr>Next := r\<rparr>)\<rparr>) i P R (due @ [key_of node]) res"
  shows "walk_post w i P (a # R) due res"
proof -
  let ?w = "w\<lparr>heap := (heap w)(b \<mapsto> pnode\<lparr>Next := r\<rparr>)\<rparr>"
  have ta: "task_at (heap w) a = (key_of node, 0)" by (simp add: task_at_def node z)
  have tk: "task_at (heap ?w) = task_at (heap w)"
    using pnode by (auto simp: task_at_def fun_eq_iff)
  have tb: "task_at (heap w) b = (key_of pnode, CycleCount pnode)" by (simp add: task_at_def pnode)
  from post show ?thesis
  proof (rule walk_postE)
    fix w' L
    assume 1: "res = Some (w', (due @ [key_of node]) @ leave (tasks ?w R))"
      and 2: "linked (heap w') (TimeWheel w' i) (P @ L)" "set L \<subseteq> set R" "distinct L"
      and 3: "tasks w' P = tasks ?w P" "tasks w' L = stay (tasks ?w R)"
      and 4: "\<And>a. a \<notin> set (P @ R) \<Longrightarrow> heap w' a = heap ?w a"
        "\<And>j. j \<noteq> i \<Longrightarrow> TimeWheel w' j = TimeWheel ?w j"
        "next_ref w' = next_ref ?w" "CurrentIndex w' = CurrentIndex ?w"
    show ?thesis
      by (rule walk_postI [OF _ 2(1)]) (use 1 2 3 4 b ta tk tb in \<open>auto simp: stay_Cons leave_Cons\<close>)
  qed
qed

lemma walk_count_down:
  assumes node: "heap w a = Some node" and nz: "CycleCount node \<noteq> 0"
    and good: "good_task (task_at (heap w) a)" and dist: "distinct (P @ a # R)"
    and post: "walk_post (w\<lparr>heap := (heap w)(a \<mapsto> node\<lparr>CycleCount := wrap64 (CycleCount node - 1)\<rparr>)\<rparr>)
                 i (P @ [a]) R due res"
  shows "walk_post w i P (a # R) due res"
proof -
  let ?w = "w\<lparr>heap := (heap w)(a \<mapsto> node\<lparr>CycleCount := wrap64 (CycleCount node - 1)\<rparr>)\<rparr>"
  have ta: "task_at (heap w) a = (key_of node, CycleCount node)" by (simp add: task_at_def node)
  have "wrap64 (CycleCount node - 1) = CycleCount node - 1"
    using good nz ta by (intro wrap64_id) (auto simp: good_task_def in_i64_def)
  then have ta': "task_at (heap ?w) a = (key_of node, CycleCount node - 1)"
    by (simp add: task_at_def)
  have tR: "tasks ?w R = tasks w R" and tP: "tasks ?w P = tasks w P"
    using dist by (auto simp: task_at_def)
  from post show ?thesis
  proof (rule walk_postE)
    fix w' L
    assume 1: "res = Some (w', due @ leave (tasks ?w R))"
      and 2: "linked (heap w') (TimeWheel w' i) ((P @ [a]) @ L)" "set L \<subseteq> set R" "distinct L"
      and 3: "tasks w' (P @ [a]) = tasks ?w (P @ [a])" "tasks w' L = stay (tasks ?w R)"
      and 4: "\<And>b. b \<notin> set ((P @ [a]) @ R) \<Longrightarrow> heap w' b = heap ?w b"
        "\<And>j. j \<noteq> i \<Longrightarrow> TimeWheel w' j = TimeWheel ?w j"
        "next_ref w' = next_ref ?w" "CurrentIndex w' = CurrentIndex ?w"
    from 2(1) have ch: "linked (heap w') (TimeWheel w' i) (P @ (a # L))" by simp
    from 3(1) have "tasks w' P = tasks w P" and "task_at (heap w') a = task_at (heap ?w) a"
      using tP by (simp_all only: map_append append_same_eq list.map append_eq_append_conv2) auto
    then show ?thesis
      by (intro walk_postI [OF _ ch])
        (use 1 [unfolded tR] 2 3(2) [unfolded tR] 4 ta ta' nz dist in \<open>auto simp: stay_Cons leave_Cons\<close>)
  qed
qed

lemma walk_correct: "walk_pre w i P prev p R \<Longrightarrow> walk_post w i P R due (walk i prev p w due)"
proof (induction R arbitrary: P p prev w due)
  case Nil
  then have "p = None" by (simp add: walk_pre_def)
  with Nil show ?case
    by (intro walk_postI [where w' = w and L = "[]"])
      (simp_all add: walk_pre_def walk.simps stay_def leave_def)
next
  case (Cons a R)
  note pre = Cons.prems [unfolded walk_pre_def]
  from pre obtain node where p: "p = Some a" and node: "heap w a = Some node"
    and rest: "linked (heap w) (Next node) R" by auto
  have dist: "distinct (P @ a # R)" and good: "list_all good_task (tasks w R)"
    "good_task (task_at (heap w) a)" using pre by auto
  show ?case
  proof (cases "CycleCount node = 0")
    case z: True
    show ?thesis
    proof (cases P rule: rev_cases)
      case Nil
      have "walk i prev p w due = walk i (Next node) (Next node)
              (w\<lparr>TimeWheel := (TimeWheel w)(i := Next node)\<rparr>) (due @ [key_of node])"
        using pre Nil p node z by (subst walk.simps) simp
      moreover have "walk_pre (w\<lparr>TimeWheel := (TimeWheel w)(i := Next node)\<rparr>) i [] (Next node) (Next node) R"
        using rest dist good by (simp add: walk_pre_def)
      ultimately show ?thesis
        unfolding Nil using node z Cons.IH by (auto intro: walk_unlink_head)
    next
      case (snoc Q b)
      from pre obtain pnode where pnode: "heap w b = Some pnode"
        by (auto simp: snoc lseg_append)
      let ?w = "w\<lparr>heap := (heap w)(b \<mapsto> pnode\<lparr>Next := Next node\<rparr>)\<rparr>"
      have "walk i prev p w due = walk i prev (Next node) ?w (due @ [key_of node])"
        using pre snoc p node z pnode by (subst walk.simps) auto
      moreover have "linked (heap ?w) (Next node) R"
        by (rule lseg_frame [OF rest]) (use dist snoc in auto)
      then have pre': "walk_pre ?w i P prev (Next node) R"
        using lseg_relink [of "heap w" "TimeWheel w i" Q b p pnode "Next node"] pre dist good pnode
        by (auto simp: walk_pre_def snoc list_all_iff)
      moreover have "b \<in> set P" by (simp add: snoc)
      ultimately show ?thesis
        using walk_unlink_behind [OF node z pnode _ Cons.IH [OF pre']] by simp
    qed
  next
    case nz: False
    let ?w = "w\<lparr>heap := (heap w)(a \<mapsto> node\<lparr>CycleCount := wrap64 (CycleCount node - 1)\<rparr>)\<rparr>"
    have "walk i prev p w due = walk i p (Next node) ?w due"
      using p node nz by (subst walk.simps) simp
    moreover have "linked (heap ?w) (Next node) R"
      by (rule lseg_frame [OF rest]) (use dist in auto)
    then have pre': "walk_pre ?w i (P @ [a]) p (Next node) R"
      using lseg_same_next [of "heap w" "TimeWheel w i" P p a node
          "node\<lparr>CycleCount := wrap64 (CycleCount node - 1)\<rparr>"] pre dist good node p
      by (auto simp: walk_pre_def lseg_append list_all_iff)
    ultimately show ?thesis
      using walk_count_down [OF node nz good(2) dist Cons.IH [OF pre']] by simp
  qed
qed

section \<open>The wheel stands for lists of waiting tasks\<close>

definition cur_slot :: "wheel \<Rightarrow> int" where
  "cur_slot w = CurrentIndex w mod WheelSize"

lemma good_stay: "list_all good_task ts \<Longrightarrow> list_all good_task (stay ts)"
  by (auto simp: stay_def list_all_iff good_task_def in_i64_def)

lemma slots_empty: "slots empty_wheel (\<lambda>_. [])"
  unfolding slots_def empty_wheel_def
  by (intro conjI exI [of _ "\<lambda>_. []"]) (simp_all add: WheelSize_def)

lemma tick_refines:
  assumes "slots w A"
  shows "\<exists>w'. tick w = Some (w', leave (A (cur_slot w))) \<and>
           slots w' (A(cur_slot w := stay (A (cur_slot w)))) \<and> CurrentIndex w' = cur_slot w + 1"
proof -
  let ?i = "cur_slot w"
  let ?w = "w\<lparr>CurrentIndex := ?i + 1\<rparr>"
  from assms obtain L where
    L: "\<And>i. linked (heap w) (TimeWheel w i) (L i)" "\<And>i. A i = tasks w (L i)" "\<And>i. distinct (L i)"
      "\<And>i a. a \<in> set (L i) \<Longrightarrow> a < next_ref w"
    and dj: "\<And>i j. i \<noteq> j \<Longrightarrow> set (L i) \<inter> set (L j) = {}"
    and good: "\<And>i. list_all good_task (A i)"
    and ci: "0 \<le> CurrentIndex w" "CurrentIndex w \<le> WheelSize" unfolding slots_def by blast
  have cs: "?i = (if CurrentIndex w \<ge> WheelSize then go_rem (CurrentIndex w) WheelSize else CurrentIndex w)"
    using ci by (auto simp: cur_slot_def go_rem_nonneg WheelSize_def)
  have t: "tick w = walk ?i (TimeWheel w ?i) (TimeWheel w ?i) ?w []"
    by (simp add: tick_def Let_def cs [symmetric])
  have "walk_pre ?w ?i [] (TimeWheel w ?i) (TimeWheel w ?i) (L ?i)"
    using L good [of ?i] by (simp add: walk_pre_def)
  from walk_correct [OF this, of "[]"] show ?thesis
    unfolding t
  proof (rule walk_postE)
    fix w' K
    assume 1: "walk ?i (TimeWheel w ?i) (TimeWheel w ?i) ?w [] = Some (w', [] @ leave (tasks ?w (L ?i)))"
      and 2: "linked (heap w') (TimeWheel w' ?i) ([] @ K)" "set K \<subseteq> set (L ?i)" "distinct K"
      and 3: "tasks w' K = stay (tasks ?w (L ?i))"
      and fr: "\<And>a. a \<notin> set ([] @ L ?i) \<Longrightarrow> heap w' a = heap ?w a"
      and tw: "\<And>j. j \<noteq> ?i \<Longrightarrow> TimeWheel w' j = TimeWheel ?w j"
      and nr: "next_ref w' = next_ref ?w" "CurrentIndex w' = CurrentIndex ?w"
    let ?L = "L(?i := K)"
    have other: "linked (heap w') (TimeWheel w' j) (L j) \<and> tasks w' (L j) = A j" if "j \<noteq> ?i" for j
    proof -
      have same: "heap w' a = heap w a" if "a \<in> set (L j)" for a
        using fr [of a] dj [OF \<open>j \<noteq> ?i\<close>] that by auto
      then have "linked (heap w') (TimeWheel w j) (L j)" using L(1) [of j] by (rule lseg_frame [rotated])
      moreover have "tasks w' (L j) = tasks w (L j)" using same by (simp add: task_at_def)
      ultimately show ?thesis using tw [OF that] L(2) by simp
    qed
    have "slots w' (A(?i := stay (A ?i)))"
      unfolding slots_def
    proof (intro conjI exI [of _ ?L] allI)
      fix i j
      show "linked (heap w') (TimeWheel w' i) (?L i)" using 2(1) other by simp
      show "(A(?i := stay (A ?i))) i = tasks w' (?L i)" using 3 other L(2) [of ?i] by simp
      show "distinct (?L i)" using 2(3) L(3) by simp
      show "\<forall>a \<in> set (?L i). a < next_ref w'" using 2(2) L(4) nr by auto
      show "i \<noteq> j \<longrightarrow> set (?L i) \<inter> set (?L j) = {}" using 2(2) dj [of i j] by auto
      show "list_all good_task ((A(?i := stay (A ?i))) i)" using good good_stay by simp
    qed (use nr ci in \<open>simp_all add: cur_slot_def WheelSize_def\<close>)
    then show "\<exists>w'. walk ?i (TimeWheel w ?i) (TimeWheel w ?i) ?w [] = Some (w', leave (A ?i)) \<and>
        slots w' (A(?i := stay (A ?i))) \<and> CurrentIndex w' = ?i + 1"
      using 1 nr L(2) [of ?i] by auto
  qed
qed

text \<open>Where an order with the given delay goes, and with which counter.\<close>

definition target_slot :: "int \<Rightarrow> int \<Rightarrow> int" where
  "target_slot c delay = (c + delay) mod WheelSize"

definition target_cycle :: "int \<Rightarrow> int \<Rightarrow> int" where
  "target_cycle c delay = max 0 ((c + delay) div WheelSize - 1)"

lemma add_refines_slot:
  assumes sl: "slots w A" and "0 \<le> CurrentIndex w + delay" and "delay + 3600 < 2 ^ 63"
  shows "\<exists>w'. addToOrderExpiryCheckQueue delay chn oid addr w = Inr w' \<and>
           slots w' (A(target_slot (CurrentIndex w) delay :=
             ((chn, oid, addr), target_cycle (CurrentIndex w) delay) # A (target_slot (CurrentIndex w) delay))) \<and>
           CurrentIndex w' = CurrentIndex w"
proof -
  let ?i = "target_slot (CurrentIndex w) delay" and ?c = "target_cycle (CurrentIndex w) delay"
  let ?r = "next_ref w"
  let ?n = "\<lparr>orderID = oid, CollectionAddr = addr, ChainSuffix = chn, CycleCount = ?c, WheelPosition = ?i,
     Next = TimeWheel w ?i\<rparr>"
  let ?w = "w\<lparr>heap := (heap w)(?r \<mapsto> ?n), next_ref := Suc ?r, TimeWheel := (TimeWheel w)(?i := Some ?r)\<rparr>"
  from sl obtain L where
    L: "\<And>i. linked (heap w) (TimeWheel w i) (L i)" "\<And>i. A i = tasks w (L i)" "\<And>i. distinct (L i)"
      "\<And>i a. a \<in> set (L i) \<Longrightarrow> a < next_ref w"
    and dj: "\<And>i j. i \<noteq> j \<Longrightarrow> set (L i) \<inter> set (L j) = {}"
    and good: "\<And>i. list_all good_task (A i)"
    and ci: "0 \<le> CurrentIndex w" "CurrentIndex w \<le> WheelSize" unfolding slots_def by blast
  have wr: "wrap64 (CurrentIndex w + delay) = CurrentIndex w + delay"
    using ci assms(2,3) by (intro wrap64_id) (simp add: in_i64_def WheelSize_def)
  have q: "go_div (CurrentIndex w + delay) WheelSize = (CurrentIndex w + delay) div WheelSize"
    and r: "go_rem (CurrentIndex w + delay) WheelSize = ?i" "slot_in_range ?i"
    using ci assms(2) by (auto simp: go_div_nonneg go_rem_nonneg WheelSize_def target_slot_def slot_in_range_def)
  have c: "?c = (if (CurrentIndex w + delay) div WheelSize > 0
      then (CurrentIndex w + delay) div WheelSize - 1 else (CurrentIndex w + delay) div WheelSize)"
    using ci assms(2) by (auto simp: target_cycle_def WheelSize_def)
  have res: "addToOrderExpiryCheckQueue delay chn oid addr w = Inr ?w"
    unfolding addToOrderExpiryCheckQueue_def Let_def wr q r(1)
    using r(2) c by (auto split: option.split)
  have fresh: "?r \<notin> set (L i)" for i using L(4) by blast
  let ?L = "L(?i := ?r # L ?i)"
  have ch: "linked (heap ?w) (TimeWheel w i) (L i)" for i
    by (rule lseg_frame [OF L(1)]) (use fresh in auto)
  have tk: "tasks ?w (L i) = A i" for i
    using fresh [of i] L(2) [of i] by auto
  have "slots ?w (A(?i := ((chn, oid, addr), ?c) # A ?i))"
    unfolding slots_def
  proof (intro conjI exI [of _ ?L] allI)
    fix i j
    show "linked (heap ?w) (TimeWheel ?w i) (?L i)" using ch by simp
    show "(A(?i := ((chn, oid, addr), ?c) # A ?i)) i = tasks ?w (?L i)" using tk [of i] tk [of ?i] by simp
    show "distinct (?L i)" using L(3) fresh by simp
    show "\<forall>a \<in> set (?L i). a < next_ref ?w" using L(4) [of _ i] by (auto intro: less_SucI)
    show "i \<noteq> j \<longrightarrow> set (?L i) \<inter> set (?L j) = {}" using dj fresh by auto
    show "list_all good_task ((A(?i := ((chn, oid, addr), ?c) # A ?i)) i)"
      using good assms(2,3) ci by (auto simp: good_task_def in_i64_def target_cycle_def WheelSize_def)
  qed (use ci in simp_all)
  then show ?thesis using res by (intro exI [of _ ?w]) simp
qed

lemma add_refines:
  assumes "slots w A" and "0 \<le> delay" and "delay + 3600 < 2 ^ 63"
  shows "\<exists>w'. addToOrderExpiryCheckQueue delay chn oid addr w = Inr w' \<and>
           slots w' (A(target_slot (CurrentIndex w) delay :=
             ((chn, oid, addr), target_cycle (CurrentIndex w) delay) # A (target_slot (CurrentIndex w) delay))) \<and>
           CurrentIndex w' = CurrentIndex w"
  using assms by (intro add_refines_slot) (auto simp: slots_def)

section \<open>When a task leaves the wheel\<close>

text \<open>
  The tasks that leave at tick \<open>k\<close> (counting from 0) of a wheel whose next slot is \<open>c\<close>: those in the
  slot reached then whose counter is the number of full revolutions made before.
\<close>

definition due_at :: "(int \<Rightarrow> task list) \<Rightarrow> int \<Rightarrow> nat \<Rightarrow> task_key list" where
  "due_at A c k = map fst (filter (\<lambda>t. snd t = int k div WheelSize) (A ((c + int k) mod WheelSize)))"

lemma due_at_0: "due_at A c 0 = leave (A (c mod WheelSize))"
  by (simp add: due_at_def leave_def case_prod_beta')

lemma leave_stay:
  assumes "0 \<le> m"
  shows "map fst (filter (\<lambda>t. snd t = m) (stay ts)) = map fst (filter (\<lambda>t. snd t = m + 1) ts)"
  using assms by (induction ts) (auto simp: stay_def)

lemma due_at_Suc:
  assumes "i = c mod WheelSize"
  shows "due_at (A(i := stay (A i))) (i + 1) k = due_at A c (Suc k)"
proof -
  have slot: "(i + 1 + int k) mod WheelSize = (c + int (Suc k)) mod WheelSize"
    using mod_add_left_eq [of c WheelSize "1 + int k"] by (simp add: assms algebra_simps)
  have rev: "(c + int (Suc k)) mod WheelSize = i \<longleftrightarrow> int (Suc k) mod WheelSize = 0"
    unfolding assms mod_eq_dvd_iff by (simp add: dvd_eq_mod_eq_0)
  have dv: "int m div WheelSize = int (m div 3600)" "int m mod WheelSize = int (m mod 3600)" for m
    by (simp_all add: WheelSize_def zdiv_int zmod_int)
  show ?thesis
  proof (cases "(c + int (Suc k)) mod WheelSize = i")
    case True
    with rev have "Suc k mod 3600 = 0" by (simp only: dv) simp
    then have "int (Suc k) div WheelSize = int k div WheelSize + 1"
      unfolding dv div_Suc by simp
    then show ?thesis
      using slot True leave_stay [of "int k div WheelSize" "A i"]
      by (simp add: due_at_def WheelSize_def)
  next
    case False
    with rev have "Suc k mod 3600 \<noteq> 0" by (simp only: dv) simp
    then have "int (Suc k) div WheelSize = int k div WheelSize"
      unfolding dv div_Suc by simp
    then show ?thesis using slot False by (simp add: due_at_def)
  qed
qed

lemma run_ticks_due:
  assumes "slots w A"
  shows "\<exists>w'. run_ticks n w = Some (w', map (due_at A (CurrentIndex w)) [0..<n])"
  using assms
proof (induction n arbitrary: w A)
  case (Suc n)
  let ?i = "cur_slot w"
  obtain w1 where t: "tick w = Some (w1, leave (A ?i))" and sl: "slots w1 (A(?i := stay (A ?i)))"
    and ci: "CurrentIndex w1 = ?i + 1"
    using tick_refines [OF Suc.prems] by blast
  have "due_at (A(?i := stay (A ?i))) (?i + 1) k = due_at A (CurrentIndex w) (Suc k)" for k
    by (rule due_at_Suc) (simp add: cur_slot_def)
  then have eq: "map (due_at (A(?i := stay (A ?i))) (CurrentIndex w1)) [0..<n]
      = map (due_at A (CurrentIndex w)) (map Suc [0..<n])"
    by (simp add: ci)
  obtain w' where "run_ticks n w1 = Some (w', map (due_at (A(?i := stay (A ?i))) (CurrentIndex w1)) [0..<n])"
    using Suc.IH [OF sl] by blast
  then have "run_ticks (Suc n) w
      = Some (w', leave (A ?i) # map (due_at A (CurrentIndex w)) (map Suc [0..<n]))"
    by (simp only: run_ticks.simps t eq option.case prod.case)
  also have "leave (A ?i) = due_at A (CurrentIndex w) 0" by (simp add: due_at_0 cur_slot_def)
  finally show ?case
    by (simp add: upt_conv_Cons map_Suc_upt del: upt_Suc)
qed simp

text \<open>The tick at which an order that is added with delay \<open>d\<close> while the next slot is \<open>c\<close> leaves.\<close>

definition expiry_tick :: "int \<Rightarrow> int \<Rightarrow> int" where
  "expiry_tick c d = (if c + d < WheelSize \<or> (c + d) mod WheelSize < c then d else d - WheelSize)"

lemma expiry_tick_slot: "(c + expiry_tick c d) mod WheelSize = target_slot c d"
proof -
  have "(c + (d - WheelSize)) mod WheelSize = (c + d) mod WheelSize"
    by (metis add_diff_eq minus_mod_self2)
  then show ?thesis by (simp add: expiry_tick_def target_slot_def)
qed

lemma expiry_tick_cycle:
  assumes "0 \<le> c" "c \<le> WheelSize" "0 \<le> d"
  shows "expiry_tick c d div WheelSize = target_cycle c d"
proof -
  define q r where "q = (c + d) div WheelSize" and "r = (c + d) mod WheelSize"
  have d: "d = 3600 * q + r - c" and r: "0 \<le> r" "r < 3600" and q: "0 \<le> q"
    using assms by (simp_all add: q_def r_def WheelSize_def pos_imp_zdiv_nonneg_iff)
  have tc: "target_cycle c d = max 0 (q - 1)" by (simp add: target_cycle_def q_def)
  have et: "expiry_tick c d = (if q = 0 \<or> r < c then d else d - 3600)"
    using assms by (auto simp: expiry_tick_def r_def q_def WheelSize_def zdiv_eq_0_iff not_less)
  show ?thesis
    unfolding tc et WheelSize_def using d r q assms(1,2,3) unfolding WheelSize_def by (auto split: if_splits)
qed

lemma mod_div_inj:
  assumes "(c + a) mod WheelSize = (c + b) mod WheelSize" and "a div WheelSize = b div WheelSize"
  shows "(a :: int) = b"
proof -
  have "a mod WheelSize = b mod WheelSize"
    using assms(1) by (metis add_diff_cancel_left' mod_diff_left_eq)
  then show ?thesis using assms(2) by (metis div_mult_mod_eq)
qed

lemma due_at_add:
  assumes "0 \<le> c" "c \<le> WheelSize" "0 \<le> d"
  shows "due_at (A(target_slot c d := (key, target_cycle c d) # A (target_slot c d))) c k
           = (if int k = expiry_tick c d then [key] else []) @ due_at A c k"
proof -
  have "(c + int k) mod WheelSize = target_slot c d \<and> int k div WheelSize = target_cycle c d
      \<longleftrightarrow> int k = expiry_tick c d"
    using mod_div_inj [of c "int k" "expiry_tick c d"] expiry_tick_slot [of c d]
      expiry_tick_cycle [OF assms] by auto
  then show ?thesis by (auto simp: due_at_def)
qed

section \<open>Properties of the wheel\<close>

definition wheel_ok :: "wheel \<Rightarrow> bool" where
  "wheel_ok w \<longleftrightarrow> (\<exists>A. slots w A)"

lemma wheel_ok_empty: "wheel_ok empty_wheel"
  using slots_empty by (auto simp: wheel_ok_def)

lemma wheel_ok_add:
  assumes "wheel_ok w" "0 \<le> delay" "delay + 3600 < 2 ^ 63"
  obtains w' where "addToOrderExpiryCheckQueue delay chn oid addr w = Inr w'" "wheel_ok w'"
    "CurrentIndex w' = CurrentIndex w"
  using assms add_refines unfolding wheel_ok_def by blast

lemma wheel_ok_index: "wheel_ok w \<Longrightarrow> 0 \<le> CurrentIndex w \<and> CurrentIndex w \<le> WheelSize"
  by (auto simp: wheel_ok_def slots_def)

lemma run_ticks_ok: "wheel_ok w \<Longrightarrow> \<exists>w' dues. run_ticks n w = Some (w', dues) \<and> wheel_ok w' \<and> length dues = n"
proof (induction n arbitrary: w)
  case (Suc n)
  then obtain A where "slots w A" by (auto simp: wheel_ok_def)
  from tick_refines [OF this] obtain w1 due where t: "tick w = Some (w1, due)" and "wheel_ok w1"
    unfolding wheel_ok_def by blast
  with Suc.IH obtain w' dues where "run_ticks n w1 = Some (w', dues)" "wheel_ok w'" "length dues = n"
    by blast
  then show ?case by (simp add: t)
qed simp

text \<open>C31: the expiry loop never hangs and never loses its structure: from a well-formed wheel every
  number of seconds is processed to the end, through the pointer manipulations of the slot lists, and
  leaves a well-formed wheel.\<close>

theorem wheel_never_stuck:
  assumes "wheel_ok w"
  shows "\<exists>w' dues. run_ticks n w = Some (w', dues) \<and> wheel_ok w' \<and> length dues = n"
  using assms by (rule run_ticks_ok)

theorem wheel_never_stuck_witness:
  "\<exists>w' dues. run_ticks 5 empty_wheel = Some (w', dues) \<and> wheel_ok w' \<and> length dues = 5"
  using wheel_never_stuck [OF wheel_ok_empty] .

lemma order_leaves_once:
  assumes "wheel_ok w" and "0 \<le> delay" and "delay + 3600 < 2 ^ 63"
  shows "\<exists>w'. addToOrderExpiryCheckQueue delay chn oid addr w = Inr w' \<and> wheel_ok w' \<and>
           (\<exists>w1 ds. run_ticks n w = Some (w1, ds) \<and>
              (\<exists>w2. run_ticks n w' = Some (w2,
                 map (\<lambda>k. (if int k = expiry_tick (CurrentIndex w) delay then [(chn, oid, addr)] else []) @ ds ! k)
                   [0..<n])))"
proof -
  let ?c = "CurrentIndex w"
  let ?i = "target_slot ?c delay" and ?m = "target_cycle ?c delay" and ?k = "(chn, oid, addr)"
  from assms(1) obtain A where sl: "slots w A" by (auto simp: wheel_ok_def)
  obtain w' where add: "addToOrderExpiryCheckQueue delay chn oid addr w = Inr w'"
    and sl': "slots w' (A(?i := (?k, ?m) # A ?i))" and ci: "CurrentIndex w' = ?c"
    using add_refines [OF sl assms(2,3)] by blast
  obtain w1 where r1: "run_ticks n w = Some (w1, map (due_at A ?c) [0..<n])"
    using run_ticks_due [OF sl] by blast
  obtain w2 where r2: "run_ticks n w' = Some (w2, map (due_at (A(?i := (?k, ?m) # A ?i)) ?c) [0..<n])"
    using run_ticks_due [OF sl', of n] unfolding ci by blast
  have idx: "0 \<le> ?c" "?c \<le> WheelSize" using wheel_ok_index [OF assms(1)] by auto
  have "map (due_at (A(?i := (?k, ?m) # A ?i)) ?c) [0..<n] =
      map (\<lambda>j. (if int j = expiry_tick ?c delay then [?k] else []) @ map (due_at A ?c) [0..<n] ! j) [0..<n]"
    using due_at_add [OF idx assms(2)] by (intro map_cong) auto
  note r2 = r2 [unfolded this]
  have "wheel_ok w'" using sl' by (auto simp: wheel_ok_def)
  with add r1 r2 show ?thesis by blast
qed

text \<open>C7: an order that is put on the wheel leaves it exactly once, at tick \<open>expiry_tick\<close>, and does not
  change when any other order leaves.\<close>

theorem order_leaves_exactly_once:
  assumes "wheel_ok w" and "0 \<le> delay" and "delay + 3600 < 2 ^ 63"
  shows "\<exists>w'. addToOrderExpiryCheckQueue delay chn oid addr w = Inr w' \<and> wheel_ok w' \<and>
           (\<exists>w1 ds. run_ticks n w = Some (w1, ds) \<and>
              (\<exists>w2. run_ticks n w' = Some (w2,
                 map (\<lambda>k. (if int k = expiry_tick (CurrentIndex w) delay then [(chn, oid, addr)] else []) @ ds ! k)
                   [0..<n])))"
  using assms by (rule order_leaves_once)

theorem order_leaves_exactly_once_witness:
  "\<exists>w'. addToOrderExpiryCheckQueue 2 ''eth'' ''o1'' ''a'' empty_wheel = Inr w' \<and> wheel_ok w' \<and>
     (\<exists>w2. run_ticks 4 w' = Some (w2, [[], [], [(''eth'', ''o1'', ''a'')], []]))"
proof -
  have "run_ticks 4 empty_wheel = Some (empty_wheel\<lparr>CurrentIndex := 4\<rparr>, [[], [], [], []])"
    by (simp add: eval_nat_numeral tick_def walk.simps empty_wheel_def WheelSize_def Let_def)
  moreover have "CurrentIndex empty_wheel = 0" by (simp add: empty_wheel_def)
  ultimately show ?thesis
    using order_leaves_exactly_once [OF wheel_ok_empty, of 2 "''eth''" "''o1''" "''a''" 4]
    by (auto simp: eval_nat_numeral expiry_tick_def WheelSize_def)
qed



lemma negative_slot_panics:
  assumes "wheel_ok w" and "- 3600 < delay" and "CurrentIndex w + delay < 0"
  shows "addToOrderExpiryCheckQueue delay chn oid addr w = Inl IndexOutOfRange"
proof -
  let ?v = "CurrentIndex w + delay"
  have idx: "0 \<le> CurrentIndex w" using wheel_ok_index [OF assms(1)] by simp
  have wr: "wrap64 ?v = ?v" using idx assms by (intro wrap64_id) (simp add: in_i64_def)
  have "\<bar>?v\<bar> div 3600 = 0" using idx assms by (intro zdiv_eq_0_iff [THEN iffD2]) auto
  then have dv: "go_div ?v WheelSize = 0" by (simp add: go_div_def WheelSize_def)
  then have rm: "go_rem ?v WheelSize = ?v" by (simp add: go_rem_def)
  show ?thesis
    unfolding addToOrderExpiryCheckQueue_def Let_def wr dv rm
    using assms(3) by (simp add: slot_in_range_def)
qed

text \<open>Any delay the callers can compute either panics or leaves a well-formed wheel.\<close>

lemma wheel_ok_add_any:
  assumes "wheel_ok w" and "- 3600 < delay" and "delay + 3600 < 2 ^ 63"
    and "addToOrderExpiryCheckQueue delay chn oid addr w = Inr w'"
  shows "wheel_ok w'"
proof (cases "CurrentIndex w + delay < 0")
  case True
  then show ?thesis using negative_slot_panics [OF assms(1,2) True] assms(4) by simp
next
  case False
  then have nn: "0 \<le> CurrentIndex w + delay" by simp
  obtain A where "slots w A" using assms(1) by (auto simp: wheel_ok_def)
  from add_refines_slot [OF this nn assms(3), of chn oid addr] assms(4)
  show ?thesis by (auto simp: wheel_ok_def)
qed

text \<open>A delay that is negative, which happens when the clock passes the expiry second between the
  two readings of \<open>time.Now\<close>, panics while the wheel is at its first slot (index out of range), and
  elsewhere puts the order in a slot the wheel has just passed.\<close>

theorem negative_delay:
  assumes "wheel_ok w" and "- 3600 < delay" and "delay < 0"
  shows "if CurrentIndex w + delay < 0
         then addToOrderExpiryCheckQueue delay chn oid addr w = Inl IndexOutOfRange
         else \<exists>w'. addToOrderExpiryCheckQueue delay chn oid addr w = Inr w' \<and>
                CurrentIndex w' = CurrentIndex w \<and>
                map_option WheelPosition (heap w' (next_ref w)) = Some (CurrentIndex w + delay) \<and>
                TimeWheel w' (CurrentIndex w + delay) = Some (next_ref w)"
proof -
  let ?v = "CurrentIndex w + delay"
  have idx: "0 \<le> CurrentIndex w" "CurrentIndex w \<le> 3600"
    using wheel_ok_index [OF assms(1)] by (auto simp: WheelSize_def)
  have wr: "wrap64 ?v = ?v" using idx assms by (intro wrap64_id) (simp add: in_i64_def)
  have dv: "go_div ?v WheelSize = 0"
  proof -
    have "\<bar>?v\<bar> div 3600 = 0" using idx assms by (intro zdiv_eq_0_iff [THEN iffD2]) auto
    then show ?thesis by (simp add: go_div_def WheelSize_def)
  qed
  then have rm: "go_rem ?v WheelSize = ?v" by (simp add: go_rem_def)
  show ?thesis
    unfolding addToOrderExpiryCheckQueue_def Let_def wr dv rm
    using idx assms(2,3) by (auto simp: slot_in_range_def WheelSize_def split: option.split)
qed

theorem negative_delay_witness:
  "addToOrderExpiryCheckQueue (- 1) ''eth'' ''o1'' ''a'' empty_wheel = Inl IndexOutOfRange"
  using negative_delay [OF wheel_ok_empty, of "- 1" "''eth''" "''o1''" "''a''"]
  by (simp add: empty_wheel_def)

end
