(* ===== verification/Store.thy ===== *)
theory Store
  imports PriorityQueue TimeWheel
begin

text \<open>
  What the services keep outside their own memory: the MySQL tables
  (\<open>EasySwapBase/stores/gdb/orderbookmodel/multi\<close>, \<open>NFTMarket-sync/db/migrations/01_create.sql\<close>), the
  Redis lists and values (\<open>EasySwapBase/stores/xkv\<close>), and the environment their calls depend on. A row
  is a record of the columns the code reads or writes (the timestamps that gorm fills in by itself are
  left out). The server decides what the code cannot know: whether a statement fails, how two strings
  compare under the collation of the tables, in which order it returns rows of equal rank, in which
  order Go walks a map, what the clock and the chain node answer. These are the fields of \<open>env\<close>, universally quantified in the
  theorems.
\<close>

section \<open>Constants of the data model\<close>

definition ListingOrder :: int where "ListingOrder = 1"
definition OfferOrder :: int where "OfferOrder = 2"
definition CollectionBidOrder :: int where "CollectionBidOrder = 3"
definition ItemBidOrder :: int where "ItemBidOrder = 4"

definition OrderStatusActive :: int where "OrderStatusActive = 0"
definition OrderStatusInactive :: int where "OrderStatusInactive = 1"
definition OrderStatusExpired :: int where "OrderStatusExpired = 2"
definition OrderStatusCancelled :: int where "OrderStatusCancelled = 3"
definition OrderStatusFilled :: int where "OrderStatusFilled = 4"
definition OrderStatusNeedSign :: int where "OrderStatusNeedSign = 5"

definition ListingType :: int where "ListingType = 1"
definition MarketOrderBook :: int where "MarketOrderBook = 0"

definition act_Listing :: int where "act_Listing = 3"
definition act_CancelListing :: int where "act_CancelListing = 4"
definition act_Sale :: int where "act_Sale = 7"
definition act_CollectionBid :: int where "act_CollectionBid = 9"
definition act_ItemBid :: int where "act_ItemBid = 10"
definition act_CancelCollectionBid :: int where "act_CancelCollectionBid = 16"
definition act_CancelItemBid :: int where "act_CancelItemBid = 17"

definition ZeroAddress :: string where
  "ZeroAddress = ''0x0000000000000000000000000000000000000000''"

lemmas status_defs = OrderStatusActive_def OrderStatusInactive_def OrderStatusExpired_def
  OrderStatusCancelled_def OrderStatusFilled_def OrderStatusNeedSign_def
lemmas order_type_defs = ListingOrder_def OfferOrder_def CollectionBidOrder_def ItemBidOrder_def
  ListingType_def
lemmas act_defs = act_Listing_def act_CancelListing_def act_Sale_def act_CollectionBid_def
  act_ItemBid_def act_CancelCollectionBid_def act_CancelItemBid_def

section \<open>Tables\<close>

text \<open>\<open>multi.Order\<close>, table \<open>ob_order_<chain>\<close>, unique key \<open>order_id\<close>.\<close>

record OrderRow =
  ord_id :: int
  ord_marketplace_id :: int
  ord_collection_address :: string
  ord_token_id :: string
  ord_order_id :: string
  ord_order_status :: int
  ord_event_time :: int
  ord_expire_time :: int
  ord_currency_address :: string
  ord_price :: price
  ord_maker :: string
  ord_taker :: string
  ord_quantity_remaining :: int
  ord_size :: int
  ord_order_type :: int
  ord_salt :: int

text \<open>\<open>multi.Item\<close>, table \<open>ob_item_<chain>\<close>, unique key \<open>(collection_address, token_id)\<close>.\<close>

record ItemRow =
  item_chain_id :: int
  item_collection_address :: string
  item_token_id :: string
  item_name :: string
  item_owner :: "string option"
  item_creator :: string
  item_supply :: int
  item_list_price :: "price option"
  item_list_time :: int
  item_sale_price :: "price option"
  item_views :: int
  item_is_opensea_banned :: bool
  item_update_time :: int

text \<open>\<open>multi.Activity\<close>, table \<open>ob_activity_<chain>\<close>, unique key
  \<open>(tx_hash, collection_address, token_id, activity_type)\<close>.\<close>

record ActivityRow =
  act_type :: int
  act_maker :: string
  act_taker :: string
  act_marketplace_id :: int
  act_collection_address :: string
  act_token_id :: string
  act_currency_address :: string
  act_price :: price
  act_block_number :: int
  act_tx_hash :: string
  act_event_time :: int

text \<open>\<open>multi.Collection\<close>, table \<open>ob_collection_<chain>\<close>, unique key \<open>address\<close>.\<close>

record CollectionRow =
  col_address :: string
  col_chain_id :: int
  col_symbol :: string
  col_name :: string
  col_image_uri :: string
  col_creator :: string
  col_token_standard :: int
  col_floor_price :: "price option"
  col_sale_price :: "price option"
  col_volume_total :: price
  col_floor_price_status :: int
  col_update_time :: int
  col_id :: int
  col_banner :: string
  col_banner_uri :: string
  col_item_amount :: int
  col_owner_amount :: int

record ItemExternalRow =
  ext_collection_address :: string
  ext_token_id :: string
  ext_meta_data_uri :: string
  ext_image_uri :: string
  ext_is_uploaded_oss :: bool
  ext_oss_uri :: string
  ext_is_video_uploaded :: bool
  ext_video_type :: string
  ext_video_uri :: string
  ext_video_oss_uri :: string

text \<open>\<open>multi.ItemTrait\<close>, table \<open>ob_item_trait_<chain>\<close>.\<close>

record ItemTraitRow =
  trait_collection_address :: string
  trait_token_id :: string
  trait_Trait :: string
  trait_TraitValue :: string

record FloorPriceRow =
  fp_collection_address :: string
  fp_price :: price
  fp_event_time :: int
  fp_create_time :: int
  fp_update_time :: int

record IndexedStatusRow =
  idx_chain_id :: int
  idx_index_type :: int
  idx_last_indexed_block :: int
  idx_last_indexed_time :: int

record tables =
  t_orders :: "OrderRow list"
  t_items :: "ItemRow list"
  t_activities :: "ActivityRow list"
  t_collections :: "CollectionRow list"
  t_item_external :: "ItemExternalRow list"
  t_floor_prices :: "FloorPriceRow list"
  t_indexed_status :: "IndexedStatusRow list"
  t_item_traits :: "ItemTraitRow list"

section \<open>Messages\<close>

text \<open>\<open>ordermanager.TradeEvent\<close> and \<open>ordermanager.ListingInfo\<close>, the JSON payloads of the Redis lists.\<close>

record TradeEvent =
  EventType :: int
  ev_CollectionAddr :: string
  ev_TokenID :: string
  ev_OrderId :: string
  ev_OrderHash :: string
  ev_Price :: price
  ev_From :: string
  ev_To :: string
  ev_TxHash :: string

definition zero_event :: TradeEvent where
  "zero_event = \<lparr>EventType = 0, ev_CollectionAddr = '''', ev_TokenID = '''', ev_OrderId = '''',
     ev_OrderHash = '''', ev_Price = 0, ev_From = '''', ev_To = '''', ev_TxHash = ''''\<rparr>"

record ListingInfo =
  li_ExpireIn :: int
  li_OrderId :: string
  li_CollectionAddr :: string
  li_TokenID :: string
  li_Price :: price
  li_Maker :: string

section \<open>Environment\<close>

text \<open>
  A statement sent to the database (or to Redis) is executed and acknowledged, rejected without
  effect, or executed although the client sees an error (the answer is lost).
\<close>

datatype outcome = Done | Rejected | Lost

datatype error =
    DBError
  | KVError
  | RecordNotFound
  | ChainError
  | ErrUntrackedCollection
  | ErrNullOrderId
  | ErrZeroPrice
  | ErrNullTokenId
  | ErrMarshal
  | ErrMethodSignature
  | ErrResponseLength
  | ErrOffset
  | ErrStringLength
  | ErrHTTP
  | ErrJSON
  | ErrNoImage
  | ErrAllCallsFailed
  | ErrDuplicateKey

record env =
  coll_eq :: "string \<Rightarrow> string \<Rightarrow> bool"
  row_order :: "OrderRow list \<Rightarrow> OrderRow list"
  pair_order :: "(OrderRow \<times> bool) list \<Rightarrow> (OrderRow \<times> bool) list"
  map_order :: "string list \<Rightarrow> string list"
  act_order :: "ActivityRow list \<Rightarrow> ActivityRow list"
  auto_id :: "int list \<Rightarrow> int"
  found_rows :: bool
  db_outcome :: "nat \<Rightarrow> outcome"
  kv_outcome :: "nat \<Rightarrow> outcome"
  clock :: "nat \<Rightarrow> int"
  clock_milli :: "nat \<Rightarrow> int"
  db_clock :: "nat \<Rightarrow> int"
  marshal_event :: "TradeEvent \<Rightarrow> string option"
  unmarshal_event :: "string \<Rightarrow> TradeEvent option"
  marshal_listing :: "ListingInfo \<Rightarrow> string option"
  unmarshal_listing :: "string \<Rightarrow> ListingInfo option"
  block_time :: "nat \<Rightarrow> u64 \<Rightarrow> error + u64"

section \<open>State\<close>

text \<open>
  \<open>collectionTradeInfo\<close> of \<open>floorprice.go\<close>. The state of a run: the tables, the Redis contents, the
  order manager's memory, and how many statements, Redis commands, clock readings and node calls were
  made so far.
\<close>

record collectionTradeInfo =
  floorPrice :: price
  tradeOrders :: PriorityQueueMap

record world =
  tbl :: tables
  kv_list :: "string \<Rightarrow> string list"
  kv_val :: "string \<rightharpoonup> string"
  collectionOrders :: "(string \<times> collectionTradeInfo) list"
  collectionListedCh :: "string list"
  timeWheel :: wheel
  n_db :: nat
  n_kv :: nat
  n_clock :: nat
  n_chain :: nat

type_synonym 'a M = "(world, 'a) state"
type_synonym 'a result = "error + 'a"

section \<open>Primitive calls\<close>

definition db_exec :: "env \<Rightarrow> (tables \<Rightarrow> 'a \<times> tables) \<Rightarrow> 'a result M" where
  "db_exec e f = State (\<lambda>w.
     let w1 = w\<lparr>n_db := Suc (n_db w)\<rparr>; (r, t) = f (tbl w)
     in case db_outcome e (n_db w) of
          Done \<Rightarrow> (Inr r, w1\<lparr>tbl := t\<rparr>)
        | Rejected \<Rightarrow> (Inl DBError, w1)
        | Lost \<Rightarrow> (Inl DBError, w1\<lparr>tbl := t\<rparr>))"

definition db_query :: "env \<Rightarrow> (tables \<Rightarrow> 'a) \<Rightarrow> 'a result M" where
  "db_query e q = db_exec e (\<lambda>t. (q t, t))"

definition db_update :: "env \<Rightarrow> (tables \<Rightarrow> tables) \<Rightarrow> unit result M" where
  "db_update e f = db_exec e (\<lambda>t. ((), f t))"

definition kv_exec :: "env \<Rightarrow> (world \<Rightarrow> 'a \<times> world) \<Rightarrow> 'a result M" where
  "kv_exec e f = State (\<lambda>w.
     let w1 = w\<lparr>n_kv := Suc (n_kv w)\<rparr>; (r, w2) = f w1
     in case kv_outcome e (n_kv w) of
          Done \<Rightarrow> (Inr r, w2)
        | Rejected \<Rightarrow> (Inl KVError, w1)
        | Lost \<Rightarrow> (Inl KVError, w2))"

text \<open>The Redis list commands of the kv store: \<open>RPUSH\<close>, \<open>LPUSH\<close>, \<open>LPOP\<close> (\<open>None\<close> for \<open>redis.Nil\<close>).\<close>

definition Rpush :: "env \<Rightarrow> string \<Rightarrow> string \<Rightarrow> unit result M" where
  "Rpush e key v = kv_exec e (\<lambda>w. ((), w\<lparr>kv_list := (kv_list w)(key := kv_list w key @ [v])\<rparr>))"

definition Lpush :: "env \<Rightarrow> string \<Rightarrow> string \<Rightarrow> unit result M" where
  "Lpush e key v = kv_exec e (\<lambda>w. ((), w\<lparr>kv_list := (kv_list w)(key := v # kv_list w key)\<rparr>))"

definition Lpop :: "env \<Rightarrow> string \<Rightarrow> string option result M" where
  "Lpop e key = kv_exec e (\<lambda>w.
     case kv_list w key of
       [] \<Rightarrow> (None, w)
     | v # vs \<Rightarrow> (Some v, w\<lparr>kv_list := (kv_list w)(key := vs)\<rparr>))"

definition kv_clear :: "env \<Rightarrow> string \<Rightarrow> unit result M" where
  "kv_clear e key = kv_exec e (\<lambda>w. ((), w\<lparr>kv_list := (kv_list w)(key := [])\<rparr>))"

definition kv_set :: "env \<Rightarrow> string \<Rightarrow> string \<Rightarrow> unit result M" where
  "kv_set e key v = kv_exec e (\<lambda>w. ((), w\<lparr>kv_val := (kv_val w)(key \<mapsto> v)\<rparr>))"

text \<open>\<open>time.Now().Unix()\<close>, \<open>time.Now().UnixMilli()\<close> and \<open>BlockTimeByNumber\<close>.\<close>

definition now :: "env \<Rightarrow> int M" where
  "now e = State (\<lambda>w. (clock e (n_clock w), w\<lparr>n_clock := Suc (n_clock w)\<rparr>))"

definition now_milli :: "env \<Rightarrow> int M" where
  "now_milli e = State (\<lambda>w. (clock_milli e (n_clock w), w\<lparr>n_clock := Suc (n_clock w)\<rparr>))"

definition BlockTimeByNumber :: "env \<Rightarrow> u64 \<Rightarrow> u64 result M" where
  "BlockTimeByNumber e n = State (\<lambda>w. (block_time e (n_chain w) n, w\<lparr>n_chain := Suc (n_chain w)\<rparr>))"

definition get_world :: "world M" where
  "get_world = State (\<lambda>w. (w, w))"

definition modify_world :: "(world \<Rightarrow> world) \<Rightarrow> unit M" where
  "modify_world f = State (\<lambda>w. ((), f w))"

definition is_err :: "'a result \<Rightarrow> bool" where
  "is_err r = (case r of Inl _ \<Rightarrow> True | Inr _ \<Rightarrow> False)"

lemma is_err_simps [simp]: "is_err (Inl x) = True" "is_err (Inr y) = False"
  by (simp_all add: is_err_def)

section \<open>SQL\<close>

text \<open>\<open>UPDATE ... SET f WHERE P\<close> and the number of affected rows the driver reports: the rows found or,
  by default, the rows changed.\<close>

definition update_where :: "('r \<Rightarrow> bool) \<Rightarrow> ('r \<Rightarrow> 'r) \<Rightarrow> 'r list \<Rightarrow> 'r list" where
  "update_where P f rows = map (\<lambda>r. if P r then f r else r) rows"

definition rows_affected :: "env \<Rightarrow> ('r \<Rightarrow> bool) \<Rightarrow> ('r \<Rightarrow> 'r) \<Rightarrow> 'r list \<Rightarrow> nat" where
  "rows_affected e P f rows = length (filter (\<lambda>r. P r \<and> (found_rows e \<or> f r \<noteq> r)) rows)"

text \<open>\<open>INSERT\<close> that does nothing when the row's unique key is taken (\<open>clause.OnConflict{DoNothing}\<close>).\<close>

definition insert_ignore :: "('r \<Rightarrow> 'r \<Rightarrow> bool) \<Rightarrow> 'r \<Rightarrow> 'r list \<Rightarrow> 'r list" where
  "insert_ignore same r rows = (if list_ex (same r) rows then rows else rows @ [r])"

lemma set_update_where: "set (update_where P f rows) = {r \<in> set rows. \<not> P r} \<union> f ` {r \<in> set rows. P r}"
  by (auto simp: update_where_def)

lemma length_update_where [simp]: "length (update_where P f rows) = length rows"
  by (simp add: update_where_def)

lemma map_update_where:
  "(\<And>r. P r \<Longrightarrow> g (f r) = g r) \<Longrightarrow> map g (update_where P f rows) = map g rows"
  by (simp add: update_where_def)

lemma update_where_append [simp]: "update_where P f (xs @ ys) = update_where P f xs @ update_where P f ys"
  by (simp add: update_where_def)

lemma update_where_Nil [simp]: "update_where P f [] = []"
  and update_where_Cons [simp]: "update_where P f (r # rs) = (if P r then f r else r) # update_where P f rs"
  by (simp_all add: update_where_def)

section \<open>Invariants of statements\<close>

lemma keeps_db_exec [keeps_intro]:
  assumes "\<And>w. P w \<Longrightarrow> P (w\<lparr>n_db := Suc (n_db w)\<rparr>)"
    and "\<And>w. P w \<Longrightarrow> P (w\<lparr>n_db := Suc (n_db w), tbl := snd (f (tbl w))\<rparr>)"
  shows "keeps P (db_exec e f)"
  using assms by (auto simp: keeps_def db_exec_def Let_def split: prod.split outcome.split)
    (metis snd_conv)+

text \<open>An invariant of the tables alone.\<close>

definition on_tables :: "(tables \<Rightarrow> bool) \<Rightarrow> world \<Rightarrow> bool" where
  "on_tables I w \<longleftrightarrow> I (tbl w)"

lemma keeps_tables_exec: "(\<And>t. I t \<Longrightarrow> I (snd (f t))) \<Longrightarrow> keeps (on_tables I) (db_exec e f)"
  by (rule keeps_db_exec) (simp_all add: on_tables_def)

lemma keeps_tables_query [keeps_intro]: "keeps (on_tables I) (db_query e q)"
  unfolding db_query_def by (rule keeps_tables_exec) simp

lemma keeps_tables_update: "(\<And>t. I t \<Longrightarrow> I (f t)) \<Longrightarrow> keeps (on_tables I) (db_update e f)"
  unfolding db_update_def by (rule keeps_tables_exec) simp

lemma keeps_tables_modify [keeps_intro]:
  "(\<And>w. tbl (f w) = tbl w) \<Longrightarrow> keeps (on_tables I) (modify_world f)"
  by (simp add: keeps_def modify_world_def on_tables_def)

lemma keeps_get_world [keeps_intro]: "keeps P get_world"
  by (simp add: keeps_def get_world_def)

lemma keeps_tables_now [keeps_intro]: "keeps (on_tables I) (now e)"
  and keeps_tables_now_milli [keeps_intro]: "keeps (on_tables I) (now_milli e)"
  and keeps_tables_block_time [keeps_intro]: "keeps (on_tables I) (BlockTimeByNumber e n)"
  by (simp_all add: keeps_def now_def now_milli_def BlockTimeByNumber_def on_tables_def)

lemma keeps_tables_kv:
  "(\<And>w. tbl (snd (f w)) = tbl w) \<Longrightarrow> keeps (on_tables I) (kv_exec e f)"
  by (auto simp: keeps_def kv_exec_def on_tables_def Let_def split: prod.split outcome.split)
    (metis snd_conv world.select_convs(1) world.surjective world.update_convs(8))+

lemma keeps_tables_kv_ops [keeps_intro]:
  "keeps (on_tables I) (Rpush e key v)" "keeps (on_tables I) (Lpush e key v)"
  "keeps (on_tables I) (Lpop e key)" "keeps (on_tables I) (kv_clear e key)"
  "keeps (on_tables I) (kv_set e key v)"
  unfolding Rpush_def Lpush_def Lpop_def kv_clear_def kv_set_def
  by (auto intro!: keeps_tables_kv split: list.split)

section \<open>Fault-free runs\<close>

definition db_works :: "env \<Rightarrow> bool" where
  "db_works e \<longleftrightarrow> (\<forall>n. db_outcome e n = Done)"

definition kv_works :: "env \<Rightarrow> bool" where
  "kv_works e \<longleftrightarrow> (\<forall>n. kv_outcome e n = Done)"

text \<open>The collation of the address columns: equality up to ASCII case.\<close>

definition folds_case :: "env \<Rightarrow> bool" where
  "folds_case e \<longleftrightarrow> (\<forall>a b. coll_eq e a b \<longleftrightarrow> ToLower a = ToLower b)"

lemma wp_db_exec [wp_simps]:
  "db_works e \<Longrightarrow> wp (db_exec e f) Q w
     = Q (Inr (fst (f (tbl w)))) (w\<lparr>n_db := Suc (n_db w), tbl := snd (f (tbl w))\<rparr>)"
  by (simp add: wp_def db_exec_def db_works_def Let_def split: prod.split)

lemma wp_db_query [wp_simps]:
  "db_works e \<Longrightarrow> wp (db_query e q) Q w = Q (Inr (q (tbl w))) (w\<lparr>n_db := Suc (n_db w)\<rparr>)"
  by (simp add: db_query_def wp_db_exec)

lemma wp_db_update [wp_simps]:
  "db_works e \<Longrightarrow> wp (db_update e f) Q w = Q (Inr ()) (w\<lparr>n_db := Suc (n_db w), tbl := f (tbl w)\<rparr>)"
  by (simp add: db_update_def wp_db_exec)

lemma wp_get_world [wp_simps]: "wp get_world Q w = Q w w"
  by (simp add: wp_def get_world_def)

lemma wp_modify_world [wp_simps]: "wp (modify_world f) Q w = Q () (f w)"
  by (simp add: wp_def modify_world_def)

section \<open>A concrete environment\<close>

text \<open>
  An instance of the environment, for evaluating the model on concrete inputs: nothing fails, strings
  compare up to case, the server returns rows as they are stored, the clock stands still.
\<close>

definition plain_env :: env where
  "plain_env = \<lparr>coll_eq = EqualFold, row_order = (\<lambda>rs. rs), pair_order = (\<lambda>ps. ps), map_order = (\<lambda>ks. ks),
     act_order = (\<lambda>rs. rs), auto_id = (\<lambda>ids. fold max ids 0 + 1),
     found_rows = False, db_outcome = (\<lambda>_. Done), kv_outcome = (\<lambda>_. Done), clock = (\<lambda>_. 1000),
     clock_milli = (\<lambda>_. 1000000), db_clock = (\<lambda>_. 1000),
     marshal_event = (\<lambda>_. Some ''{}''), unmarshal_event = (\<lambda>_. Some zero_event),
     marshal_listing = (\<lambda>_. Some ''{}''), unmarshal_listing = (\<lambda>_. None), block_time = (\<lambda>_ _. Inr 0)\<rparr>"

definition empty_tables :: tables where
  "empty_tables = \<lparr>t_orders = [], t_items = [], t_activities = [], t_collections = [],
     t_item_external = [], t_floor_prices = [], t_indexed_status = [], t_item_traits = []\<rparr>"

definition start_world :: world where
  "start_world = \<lparr>tbl = empty_tables, kv_list = (\<lambda>_. []), kv_val = (\<lambda>_. None), collectionOrders = [],
     collectionListedCh = [], timeWheel = empty_wheel, n_db = 0, n_kv = 0, n_clock = 0, n_chain = 0\<rparr>"

lemma plain_env_works [simp]: "db_works plain_env" "kv_works plain_env" "folds_case plain_env"
  by (simp_all add: db_works_def kv_works_def folds_case_def plain_env_def EqualFold_def)

end
