(* ===== verification/FloorPrice.thy ===== *)
theory FloorPrice
  imports Store
begin

text \<open>
  \<open>EasySwapBase/ordermanager/floorprice.go\<close>: the process that keeps every collection's floor price. Trade
  events arrive through a Redis list; each changes the collection's queue of cheapest listings, and the
  least price of the queue is written to the collection when it changed. An iteration of the event loop
  is a stateful computation over \<open>world\<close>; every error branch that only logs continues as the code does.
\<close>

section \<open>Events\<close>

definition Buy :: int where "Buy = 1"
definition Mint :: int where "Mint = 2"
definition Listing :: int where "Listing = 3"
definition Cancel :: int where "Cancel = 4"
definition Transfer :: int where "Transfer = 8"
definition Expired :: int where "Expired = 9"
definition ImportCollection :: int where "ImportCollection = 10"
definition UpdateCollection :: int where "UpdateCollection = 11"

lemmas event_defs = Buy_def Mint_def Listing_def Cancel_def Transfer_def Expired_def
  ImportCollection_def UpdateCollection_def

definition MaxBatchReqNum :: nat where "MaxBatchReqNum = 100"
definition maxQueueLength :: nat where "maxQueueLength = 100"

definition genTradeEventsCacheKey :: "string \<Rightarrow> string" where
  "genTradeEventsCacheKey chain = ''cache:es:trade:events:'' @ chain"

definition addUpdateFloorPriceEvent :: "env \<Rightarrow> string \<Rightarrow> TradeEvent \<Rightarrow> unit result M" where
  "addUpdateFloorPriceEvent e chain event =
     (if EventType event \<noteq> Transfer \<and> EventType event \<noteq> ImportCollection \<and>
         EventType event \<noteq> UpdateCollection \<and> ev_OrderId event = ''''
      then State_Monad.return (Inl ErrNullOrderId)
      else if EventType event = Listing \<and> ev_Price event = 0
      then State_Monad.return (Inl ErrZeroPrice)
      else (case marshal_event e event of
          None \<Rightarrow> State_Monad.return (Inl ErrMarshal)
        | Some rawEvent \<Rightarrow> Rpush e (genTradeEventsCacheKey chain) rawEvent))"

definition AddUpdatePriceEvent :: "env \<Rightarrow> TradeEvent \<Rightarrow> string \<Rightarrow> unit result M" where
  "AddUpdatePriceEvent e event chain =
     (if EventType event \<noteq> Transfer \<and> EventType event \<noteq> ImportCollection \<and>
         EventType event \<noteq> UpdateCollection \<and> ev_OrderId event = ''''
      then State_Monad.return (Inl ErrNullOrderId)
      else if EventType event = Listing \<and> ev_Price event = 0
      then State_Monad.return (Inl ErrZeroPrice)
      else if EventType event = Listing \<and> ev_TokenID event = ''''
      then State_Monad.return (Inl ErrNullTokenId)
      else (case marshal_event e event of
          None \<Rightarrow> State_Monad.return (Inl ErrMarshal)
        | Some rawEvent \<Rightarrow> Rpush e (genTradeEventsCacheKey chain) rawEvent))"

section \<open>Queries\<close>

text \<open>The join condition and the filter shared by the three queries: an active listing whose maker still
  owns the item, unless the item is banned and the order is on marketplace 1.\<close>

definition valid_listing :: "env \<Rightarrow> OrderRow \<Rightarrow> ItemRow \<Rightarrow> bool" where
  "valid_listing e co ci \<longleftrightarrow>
     coll_eq e (ord_collection_address co) (item_collection_address ci) \<and>
     coll_eq e (ord_token_id co) (item_token_id ci) \<and>
     ord_order_type co = ListingType \<and> ord_order_status co = OrderStatusActive \<and>
     (case item_owner ci of None \<Rightarrow> False | Some owner \<Rightarrow> coll_eq e (ord_maker co) owner) \<and>
     \<not> (item_is_opensea_banned ci \<and> ord_marketplace_id co = 1)"

definition join_listings :: "env \<Rightarrow> tables \<Rightarrow> (OrderRow \<times> ItemRow) list" where
  "join_listings e t =
     concat (map (\<lambda>co. map (\<lambda>ci. (co, ci)) (filter (valid_listing e co) (t_items t))) (t_orders t))"

text \<open>\<open>ORDER BY\<close>: sorted by the key; the server chooses the order of equal keys.\<close>

definition order_by :: "env \<Rightarrow> (OrderRow \<Rightarrow> 'k::linorder) \<Rightarrow> OrderRow list \<Rightarrow> OrderRow list" where
  "order_by e key rows = sort_key key (row_order e rows)"

definition getLowestPrice100Orders :: "env \<Rightarrow> string \<Rightarrow> OrderRow list result M" where
  "getLowestPrice100Orders e address = db_query e (\<lambda>t.
     take 100 (order_by e ord_price
       (filter (\<lambda>co. coll_eq e (ord_collection_address co) address) (map fst (join_listings e t)))))"

text \<open>\<open>ValidOrder\<close>: an order together with the ban flag of its item.\<close>

definition getUserValidOrders :: "env \<Rightarrow> string \<Rightarrow> string \<Rightarrow> string \<Rightarrow> (OrderRow \<times> bool) list result M" where
  "getUserValidOrders e address tok mk = db_query e (\<lambda>t.
     take 100 (sort_key (\<lambda>(co, _). ord_price co) (pair_order e
       (map (\<lambda>(co, ci). (co, item_is_opensea_banned ci))
         (filter (\<lambda>(co, _). coll_eq e (ord_collection_address co) address \<and>
                    coll_eq e (ord_token_id co) tok \<and> coll_eq e (ord_maker co) mk)
           (join_listings e t))))))"

definition updateFloorPrice :: "env \<Rightarrow> string \<Rightarrow> price \<Rightarrow> unit result M" where
  "updateFloorPrice e collectionAddr price = db_update e (\<lambda>t.
     t\<lparr>t_collections := update_where (\<lambda>c. coll_eq e (col_address c) collectionAddr)
        (\<lambda>c. c\<lparr>col_floor_price := Some price\<rparr>) (t_collections t)\<rparr>)"

text \<open>
  Loading a table in batches: rows with an id above the last one seen, in id order, 1000 at a time,
  until a batch is not full.
\<close>

definition batch :: "env \<Rightarrow> (tables \<Rightarrow> OrderRow list) \<Rightarrow> int \<Rightarrow> tables \<Rightarrow> OrderRow list" where
  "batch e sel from_id t = take 1000 (order_by e ord_id (filter (\<lambda>co. ord_id co > from_id) (sel t)))"

partial_function (option) load_batches ::
  "env \<Rightarrow> (tables \<Rightarrow> OrderRow list) \<Rightarrow> int \<Rightarrow> OrderRow list \<Rightarrow> world \<Rightarrow> (OrderRow list result \<times> world) option" where
  "load_batches e sel from_id totalOrders w =
     (case run_state (db_query e (batch e sel from_id)) w of
        (Inl err, w1) \<Rightarrow> Some (Inl err, w1)
      | (Inr os, w1) \<Rightarrow>
          (if length os < 1000 then Some (Inr (totalOrders @ os), w1)
           else load_batches e sel (ord_id (last os)) (totalOrders @ os) w1))"

section \<open>The tracked collections\<close>

definition get_info :: "string \<Rightarrow> collectionTradeInfo option M" where
  "get_info address = State (\<lambda>w. (map_of (collectionOrders w) (ToLower address), w))"

definition put_info :: "string \<Rightarrow> collectionTradeInfo \<Rightarrow> unit M" where
  "put_info address ti = modify_world (\<lambda>w.
     w\<lparr>collectionOrders := AList.update (ToLower address) ti (collectionOrders w)\<rparr>)"

definition checkAndUpdateFloorPrice :: "env \<Rightarrow> string \<Rightarrow> unit result M" where
  "checkAndUpdateFloorPrice e address = do {
     info \<leftarrow> get_info address;
     case info of
       None \<Rightarrow> State_Monad.return (Inl ErrUntrackedCollection)
     | Some tradeInfo \<Rightarrow>
         (let newFloorPrice = snd (GetMin (tradeOrders tradeInfo))
          in if newFloorPrice \<noteq> floorPrice tradeInfo then do {
               put_info address (tradeInfo\<lparr>floorPrice := newFloorPrice\<rparr>);
               updateFloorPrice e address newFloorPrice
             }
             else State_Monad.return (Inr ()))
   }"

definition add_orders :: "sorter \<Rightarrow> OrderRow list \<Rightarrow> PriorityQueueMap \<Rightarrow> PriorityQueueMap" where
  "add_orders srt os q = fold (\<lambda>co q. Add srt q (ord_order_id co) (ord_price co) (ord_maker co) (ord_token_id co)) os q"

definition reloadCollectionOrders :: "env \<Rightarrow> sorter \<Rightarrow> string \<Rightarrow> unit result M" where
  "reloadCollectionOrders e srt address = do {
     info \<leftarrow> get_info address;
     case info of
       None \<Rightarrow> State_Monad.return (Inl ErrUntrackedCollection)
     | Some tradeInfo \<Rightarrow> do {
         r \<leftarrow> getLowestPrice100Orders e address;
         case r of
           Inl err \<Rightarrow> State_Monad.return (Inl err)
         | Inr os \<Rightarrow> do {
             put_info address (tradeInfo\<lparr>tradeOrders := add_orders srt os (NewPriorityQueueMap maxQueueLength)\<rparr>);
             State_Monad.return (Inr ())
           }
       }
   }"

section \<open>The event loop\<close>

text \<open>Adding the buyer's listings after a sale or transfer: only those that are not banned and cheaper
  than the most expensive order of the queue.\<close>

definition add_valid_orders :: "sorter \<Rightarrow> (OrderRow \<times> bool) list \<Rightarrow> PriorityQueueMap \<Rightarrow> PriorityQueueMap" where
  "add_valid_orders srt os q = fold (\<lambda>(co, banned) q.
     if \<not> banned \<and> snd (GetMax q) > ord_price co
     then Add srt q (ord_order_id co) (ord_price co) (ord_maker co) (ord_token_id co) else q) os q"

definition update_floor :: "env \<Rightarrow> string \<Rightarrow> unit M" where
  "update_floor e address = do { _ \<leftarrow> checkAndUpdateFloorPrice e address; State_Monad.return () }"

definition reload_then :: "env \<Rightarrow> sorter \<Rightarrow> string \<Rightarrow> unit M \<Rightarrow> unit M" where
  "reload_then e srt address k = do {
     r \<leftarrow> reloadCollectionOrders e srt address;
     case r of Inl _ \<Rightarrow> State_Monad.return () | Inr _ \<Rightarrow> k
   }"

definition on_listing :: "env \<Rightarrow> sorter \<Rightarrow> TradeEvent \<Rightarrow> collectionTradeInfo \<Rightarrow> unit M" where
  "on_listing e srt event tradeInfo = do {
     (let q = tradeOrders tradeInfo; price = snd (GetMax q)
      in if price > ev_Price event \<or> Len q = 0
         then put_info (ev_CollectionAddr event)
           (tradeInfo\<lparr>tradeOrders := Add srt q (ev_OrderId event) (ev_Price event) (ev_From event) (ev_TokenID event)\<rparr>)
         else State_Monad.return ());
     update_floor e (ev_CollectionAddr event)
   }"

definition on_cancel :: "env \<Rightarrow> sorter \<Rightarrow> TradeEvent \<Rightarrow> collectionTradeInfo \<Rightarrow> unit M" where
  "on_cancel e srt event tradeInfo =
     (let q = Remove (tradeOrders tradeInfo) (ev_OrderId event); addr = ev_CollectionAddr event in do {
        put_info addr (tradeInfo\<lparr>tradeOrders := q\<rparr>);
        if Len q = 0 then reload_then e srt addr (update_floor e addr)
        else update_floor e addr
      })"

definition on_trade :: "env \<Rightarrow> sorter \<Rightarrow> TradeEvent \<Rightarrow> collectionTradeInfo \<Rightarrow> unit M" where
  "on_trade e srt event tradeInfo =
     (let addr = ev_CollectionAddr event;
          q = (if EventType event = Buy then Remove (tradeOrders tradeInfo) (ev_OrderId event)
               else tradeOrders tradeInfo)
      in do {
        put_info addr (tradeInfo\<lparr>tradeOrders := q\<rparr>);
        if Len q = 0 then reload_then e srt addr (update_floor e addr)
        else do {
          (let q1 = RemoveMakerOrders q (ev_From event) (ev_TokenID event) in do {
             put_info addr (tradeInfo\<lparr>tradeOrders := q1\<rparr>);
             r \<leftarrow> getUserValidOrders e addr (ev_TokenID event) (ev_To event);
             case r of
               Inl _ \<Rightarrow> State_Monad.return ()
             | Inr os \<Rightarrow>
                 (let q2 = add_valid_orders srt os q1 in do {
                    put_info addr (tradeInfo\<lparr>tradeOrders := q2\<rparr>);
                    if Len q2 = 0 then reload_then e srt addr (update_floor e addr)
                    else update_floor e addr
                  })
           })
        }
      })"

definition on_import :: "env \<Rightarrow> TradeEvent \<Rightarrow> unit M" where
  "on_import e event = do {
     info \<leftarrow> get_info (ev_CollectionAddr event);
     case info of
       Some _ \<Rightarrow> State_Monad.return ()
     | None \<Rightarrow> put_info (ev_CollectionAddr event)
         \<lparr>floorPrice = 0, tradeOrders = NewPriorityQueueMap maxQueueLength\<rparr>
   }"

definition on_update :: "env \<Rightarrow> sorter \<Rightarrow> TradeEvent \<Rightarrow> collectionTradeInfo \<Rightarrow> unit M" where
  "on_update e srt event tradeInfo =
     (if snd (GetMin (tradeOrders tradeInfo)) = ev_Price event then State_Monad.return ()
      else reload_then e srt (ev_CollectionAddr event) (update_floor e (ev_CollectionAddr event)))"

text \<open>The \<open>switch\<close> on the event type.\<close>

definition dispatch_event :: "env \<Rightarrow> sorter \<Rightarrow> TradeEvent \<Rightarrow> collectionTradeInfo option \<Rightarrow> unit M" where
  "dispatch_event e srt event info =
     (if EventType event = ImportCollection then on_import e event
      else (case info of
          None \<Rightarrow> State_Monad.return ()
        | Some tradeInfo \<Rightarrow>
            if EventType event = Listing then on_listing e srt event tradeInfo
            else if EventType event = Cancel \<or> EventType event = Expired then on_cancel e srt event tradeInfo
            else if EventType event = Buy \<or> EventType event = Transfer then on_trade e srt event tradeInfo
            else if EventType event = UpdateCollection then on_update e srt event tradeInfo
            else State_Monad.return ()))"

text \<open>
  One event, from the lookup of its collection to the end of the loop body. Importing is the only event
  for which the collection need not be tracked.
\<close>

definition handle_event :: "env \<Rightarrow> sorter \<Rightarrow> TradeEvent \<Rightarrow> unit M" where
  "handle_event e srt event = do {
     info \<leftarrow> get_info (ev_CollectionAddr event);
     if info = None \<and> EventType event \<noteq> ImportCollection then State_Monad.return ()
     else do {
       (if ev_CollectionAddr event \<noteq> ''''
        then modify_world (\<lambda>w. w\<lparr>collectionListedCh := collectionListedCh w @ [ev_CollectionAddr event]\<rparr>)
        else State_Monad.return ());
       dispatch_event e srt event info
     }
   }"

text \<open>One iteration of the loop of \<open>floorPriceProcess\<close>: pop an event, decode it, handle it. An empty list
  or a failed pop only sleeps.\<close>

definition floorPriceIteration :: "env \<Rightarrow> sorter \<Rightarrow> string \<Rightarrow> unit M" where
  "floorPriceIteration e srt chain = do {
     r \<leftarrow> Lpop e (genTradeEventsCacheKey chain);
     case r of
       Inl _ \<Rightarrow> State_Monad.return ()
     | Inr None \<Rightarrow> State_Monad.return ()
     | Inr (Some result) \<Rightarrow>
         if result = '''' then State_Monad.return ()
         else (case unmarshal_event e result of
             None \<Rightarrow> State_Monad.return ()
           | Some event \<Rightarrow> handle_event e srt event)
   }"

section \<open>Starting up\<close>

text \<open>\<open>loadCollectionTradeInfo\<close>: a collection whose floor price is \<open>NULL\<close> scans as price 0.\<close>

definition track_collections :: "CollectionRow list \<Rightarrow> (string \<times> collectionTradeInfo) list \<Rightarrow> (string \<times> collectionTradeInfo) list" where
  "track_collections cs m = fold (\<lambda>c. AList.update (ToLower (col_address c))
     \<lparr>floorPrice = (case col_floor_price c of None \<Rightarrow> 0 | Some p \<Rightarrow> p),
      tradeOrders = NewPriorityQueueMap maxQueueLength\<rparr>) cs m"

definition enqueue_order :: "sorter \<Rightarrow> OrderRow \<Rightarrow> (string \<times> collectionTradeInfo) list \<Rightarrow> (string \<times> collectionTradeInfo) list" where
  "enqueue_order srt co m =
     (case map_of m (ToLower (ord_collection_address co)) of
        None \<Rightarrow> m
      | Some ti \<Rightarrow> AList.update (ToLower (ord_collection_address co))
          (ti\<lparr>tradeOrders := Add srt (tradeOrders ti) (ord_order_id co) (ord_price co) (ord_maker co) (ord_token_id co)\<rparr>) m)"

definition refresh_floor :: "env \<Rightarrow> string \<Rightarrow> unit M" where
  "refresh_floor e addr = do {
     w \<leftarrow> get_world;
     case map_of (collectionOrders w) addr of
       None \<Rightarrow> State_Monad.return ()
     | Some ti \<Rightarrow>
         (let p = snd (GetMin (tradeOrders ti))
          in if p \<noteq> floorPrice ti then do {
               put_info addr (ti\<lparr>floorPrice := p\<rparr>);
               _ \<leftarrow> updateFloorPrice e addr p;
               State_Monad.return ()
             }
             else State_Monad.return ())
   }"

definition loadCollectionTradeInfo :: "env \<Rightarrow> sorter \<Rightarrow> world \<Rightarrow> (unit result \<times> world) option" where
  "loadCollectionTradeInfo e srt w =
     (case run_state (db_query e t_collections) w of
        (Inl err, w1) \<Rightarrow> Some (Inl err, w1)
      | (Inr collections, w1) \<Rightarrow>
          (case load_batches e (\<lambda>t. map fst (join_listings e t)) 0 []
                  (w1\<lparr>collectionOrders := track_collections collections (collectionOrders w1)\<rparr>) of
             None \<Rightarrow> None
           | Some (Inl err, w2) \<Rightarrow> Some (Inl err, w2)
           | Some (Inr totalOrders, w2) \<Rightarrow>
               (let w3 = w2\<lparr>collectionOrders := fold (enqueue_order srt) totalOrders (collectionOrders w2)\<rparr>
                in Some (Inr (), snd (run_state
                     (for_each (refresh_floor e) (map_order e (map fst (collectionOrders w3)))) w3)))))"

text \<open>The start of \<open>floorPriceProcess\<close>: drop the events of the last run, then load. The event loop
  runs only when the load succeeded.\<close>

definition floorPriceStart :: "env \<Rightarrow> sorter \<Rightarrow> string \<Rightarrow> world \<Rightarrow> (unit result \<times> world) option" where
  "floorPriceStart e srt chain w =
     loadCollectionTradeInfo e srt (snd (run_state (kv_clear e (genTradeEventsCacheKey chain)) w))"

section \<open>Loading in batches\<close>

text \<open>What the server promises of the rows it returns: a permutation of the rows that qualify.\<close>

definition server_orders_rows :: "env \<Rightarrow> bool" where
  "server_orders_rows e \<longleftrightarrow>
     (\<forall>rs. mset (row_order e rs) = mset rs) \<and> (\<forall>ps. mset (pair_order e ps) = mset ps)"

lemma mset_order_by: "server_orders_rows e \<Longrightarrow> mset (order_by e key rs) = mset rs"
  by (simp add: order_by_def server_orders_rows_def)

lemma set_order_by: "server_orders_rows e \<Longrightarrow> set (order_by e key rs) = set rs"
  by (metis mset_order_by set_mset_mset)

lemma sorted_order_by: "sorted (map key (order_by e key rs))"
  by (simp add: order_by_def)

lemma order_by_unique:
  assumes "server_orders_rows e" and "distinct (map key rs)"
  shows "order_by e key rs = sort_key key rs"
proof (rule map_sorted_distinct_set_unique)
  have "mset (map key (order_by e key rs)) = mset (map key rs)"
    by (simp add: mset_order_by [OF assms(1)])
  then show "distinct (map key (order_by e key rs))"
    using assms(2) mset_eq_imp_distinct_iff by blast
  have "mset (map key (sort_key key rs)) = mset (map key rs)" by simp
  then show "distinct (map key (sort_key key rs))"
    using assms(2) mset_eq_imp_distinct_iff by blast
  show "inj_on key (set (order_by e key rs) \<union> set (sort_key key rs))"
    using assms by (simp add: set_order_by distinct_map)
qed (simp_all add: sorted_order_by set_order_by [OF assms(1)])

text \<open>In a strictly sorted list, the elements above the \<open>n\<close>-th are those after it.\<close>

lemma filter_above_take:
  assumes "sorted (map f xs)" and "distinct (map f xs)" and "0 < n" and "n \<le> length xs"
  shows "filter (\<lambda>x. f x > f (last (take n xs))) xs = drop n xs"
proof -
  let ?l = "last (take n xs)"
  have l: "?l = xs ! (n - 1)"
    using assms(3,4) by (cases xs) (auto simp: last_conv_nth min_def)
  have "f x \<le> f ?l" if x: "x \<in> set (take n xs)" for x
  proof -
    obtain i where i: "i < n" "i < length xs" "x = xs ! i" using x by (auto simp: in_set_conv_nth)
    then have "map f xs ! i \<le> map f xs ! (n - 1)"
      using assms(1,3,4) by (intro sorted_nth_mono) auto
    then show ?thesis using i assms(3,4) l by auto
  qed
  then have "filter (\<lambda>x. f x > f ?l) (take n xs) = []" by (force simp: filter_empty_conv)
  moreover have "\<forall>x \<in> set (drop n xs). f x > f ?l"
  proof
    fix x assume "x \<in> set (drop n xs)"
    then obtain i where i: "i < length xs - n" "x = xs ! (n + i)" by (auto simp: in_set_conv_nth)
    have "map f xs ! (n - 1) \<le> map f xs ! (n + i)"
      using assms(1,4) i by (intro sorted_nth_mono) auto
    moreover have "map f xs ! (n - 1) \<noteq> map f xs ! (n + i)"
      using assms(3,4) i nth_eq_iff_index_eq [OF assms(2), of "n - 1" "n + i"] by auto
    ultimately show "f x > f ?l" using i l assms(3,4) by auto
  qed
  then have "filter (\<lambda>x. f x > f ?l) (drop n xs) = drop n xs" by (simp add: filter_id_conv)
  moreover have "filter (\<lambda>x. f x > f ?l) xs
      = filter (\<lambda>x. f x > f ?l) (take n xs) @ filter (\<lambda>x. f x > f ?l) (drop n xs)"
    by (metis append_take_drop_id filter_append)
  ultimately show ?thesis by simp
qed

lemma load_batches_steps:
  "run_state (db_query e (batch e sel b)) w = (Inl x, w1) \<Longrightarrow> load_batches e sel b acc w = Some (Inl x, w1)"
  "run_state (db_query e (batch e sel b)) w = (Inr os, w1) \<Longrightarrow> length os < 1000 \<Longrightarrow>
     load_batches e sel b acc w = Some (Inr (acc @ os), w1)"
  "run_state (db_query e (batch e sel b)) w = (Inr os, w1) \<Longrightarrow> \<not> length os < 1000 \<Longrightarrow>
     load_batches e sel b acc w = load_batches e sel (ord_id (last os)) (acc @ os) w1"
  by (subst load_batches.simps, simp)+

lemma filter_above_mono: "b \<le> (l::int) \<Longrightarrow> filter (\<lambda>x. f x > l) (filter (\<lambda>x. f x > b) xs) = filter (\<lambda>x. f x > l) xs"
  by (auto intro!: filter_cong)

text \<open>After a full batch of \<open>n\<close> rows, the rows above the last one are the remaining ones.\<close>

lemma batch_rest:
  fixes f :: "'a \<Rightarrow> int"
  defines "S b xs \<equiv> sort_key f (filter (\<lambda>x. f x > b) xs)"
  assumes d: "distinct (map f (filter (\<lambda>x. f x > b) xs))" and n: "0 < n" "n \<le> length (S b xs)"
  shows "S (f (last (take n (S b xs)))) xs = drop n (S b xs)"
proof -
  let ?l = "f (last (take n (S b xs)))"
  have "take n (S b xs) \<noteq> []" using n by auto
  then have "last (take n (S b xs)) \<in> set (S b xs)" by (rule in_set_takeD [OF last_in_set])
  then have b: "b \<le> ?l" by (simp add: S_def)
  have "mset (map f (S b xs)) = mset (map f (filter (\<lambda>x. f x > b) xs))" by (simp add: S_def)
  then have "distinct (map f (S b xs))" using d mset_eq_imp_distinct_iff by blast
  then have "filter (\<lambda>x. f x > ?l) (S b xs) = drop n (S b xs)"
    using n by (intro filter_above_take) (simp_all add: S_def)
  moreover have "filter (\<lambda>x. f x > ?l) (S b xs) = S ?l xs"
    unfolding S_def filter_sort by (simp only: filter_above_mono [OF b [unfolded S_def]])
  ultimately show ?thesis by simp
qed

text \<open>Two states that differ in the number of statements only.\<close>

definition only_db :: "world \<Rightarrow> world \<Rightarrow> bool" where
  "only_db w w' \<longleftrightarrow> (\<exists>k. w' = w\<lparr>n_db := k\<rparr>)"

lemma only_db_simps [simp]: "only_db w (w\<lparr>n_db := k\<rparr>)" "only_db (w\<lparr>n_db := k\<rparr>) w' = only_db w w'"
  by (auto simp: only_db_def)

lemma run_db_query_Inr:
  "run_state (db_query e q) w = (Inr r, w') \<Longrightarrow>
     r = q (tbl w) \<and> w' = w\<lparr>n_db := Suc (n_db w)\<rparr>"
  by (auto simp: db_query_def db_exec_def Let_def split: prod.splits outcome.splits)

lemma run_db_query_Inl:
  "run_state (db_query e q) w = (Inl r, w') \<Longrightarrow>
     w' = w\<lparr>n_db := Suc (n_db w)\<rparr> \<and> \<not> db_works e"
  by (auto simp: db_query_def db_exec_def db_works_def Let_def split: prod.splits outcome.splits)
    (metis outcome.distinct)+

text \<open>The loop always ends, and unless a query failed its result is the whole selection in id order.\<close>

lemma load_batches_correct:
  assumes e: "server_orders_rows e" and d: "distinct (map ord_id (sel (tbl w)))"
  shows "\<exists>r w'. load_batches e sel b acc w = Some (r, w') \<and> only_db w w' \<and> (db_works e \<longrightarrow> \<not> is_err r) \<and>
     (\<forall>os. r = Inr os \<longrightarrow> os = acc @ sort_key ord_id (filter (\<lambda>co. ord_id co > b) (sel (tbl w))))"
  using d
proof (induction "length (filter (\<lambda>co. ord_id co > b) (sel (tbl w)))" arbitrary: b acc w rule: less_induct)
  case less
  let ?R = "filter (\<lambda>co. ord_id co > b) (sel (tbl w))"
  let ?S = "sort_key ord_id ?R"
  have dR: "distinct (map ord_id ?R)" using less.prems by (simp add: distinct_map_filter)
  obtain r w1 where q: "run_state (db_query e (batch e sel b)) w = (r, w1)" by fastforce
  show ?case
  proof (cases r)
    case (Inl x)
    then show ?thesis using q run_db_query_Inl [of e "batch e sel b" w x w1]
      by (simp add: load_batches_steps(1))
  next
    case (Inr os)
    then have os: "os = take 1000 ?S" and t: "w1 = w\<lparr>n_db := Suc (n_db w)\<rparr>"
      using run_db_query_Inr [of e "batch e sel b" w os w1] q order_by_unique [OF e dR]
      by (simp_all add: batch_def)
    show ?thesis
    proof (cases "length os < 1000")
      case True
      have "load_batches e sel b acc w = Some (Inr (acc @ os), w1)"
        using q True unfolding Inr by (rule load_batches_steps(2))
      moreover have "os = ?S" using True unfolding os by simp
      ultimately show ?thesis using t by (auto simp: is_err_def)
    next
      case False
      then have len: "1000 \<le> length ?S" by (simp add: os)
      let ?l = "ord_id (last os)"

      have rest: "sort_key ord_id (filter (\<lambda>co. ord_id co > ?l) (sel (tbl w))) = drop 1000 ?S"
        unfolding os using dR len by (intro batch_rest) simp_all
      have "length (filter (\<lambda>co. ord_id co > ?l) (sel (tbl w))) = length (drop 1000 ?S)"
        by (simp only: rest [symmetric] length_sort)
      then have "length (filter (\<lambda>co. ord_id co > ?l) (sel (tbl w1))) < length ?R"
        using len t by simp
      from less.hyps [OF this, of "acc @ os"] less.prems t have
        "\<exists>r' w'. load_batches e sel ?l (acc @ os) w1 = Some (r', w') \<and> only_db w w' \<and> (db_works e \<longrightarrow> \<not> is_err r') \<and>
          (\<forall>os'. r' = Inr os' \<longrightarrow> os' = (acc @ os) @ drop 1000 ?S)"
        by (simp add: rest)
      moreover have "load_batches e sel b acc w = load_batches e sel ?l (acc @ os) w1"
        using q False unfolding Inr by (rule load_batches_steps(3))
      moreover have "(acc @ os) @ drop 1000 ?S = acc @ ?S" unfolding os by simp
      ultimately show ?thesis by (simp only:)
    qed
  qed
qed

section \<open>The queues stay queues\<close>

definition ok_info :: "collectionTradeInfo \<Rightarrow> bool" where
  "ok_info ti \<longleftrightarrow> queue_inv (tradeOrders ti) \<and> maxLen (tradeOrders ti) = maxQueueLength"

text \<open>The map of tracked collections: one entry per lower-case address, each with a proper queue.\<close>

definition tracked_ok :: "(string \<times> collectionTradeInfo) list \<Rightarrow> bool" where
  "tracked_ok m \<longleftrightarrow> distinct (map fst m) \<and> (\<forall>(a, ti) \<in> set m. ToLower a = a \<and> ok_info ti)"

definition tracking :: "world \<Rightarrow> bool" where
  "tracking w \<longleftrightarrow> tracked_ok (collectionOrders w)"

lemma tracked_ok_update:
  "tracked_ok m \<Longrightarrow> ok_info ti \<Longrightarrow> tracked_ok (AList.update (ToLower a) ti m)"
  by (auto simp: tracked_ok_def distinct_update set_update_alist)

lemma tracked_ok_lookup: "tracked_ok m \<Longrightarrow> map_of m a = Some ti \<Longrightarrow> ok_info ti"
  by (auto simp: tracked_ok_def dest: map_of_SomeD)

lemma ok_info_new: "ok_info \<lparr>floorPrice = p, tradeOrders = NewPriorityQueueMap maxQueueLength\<rparr>"
  by (simp add: ok_info_def queue_inv_new)

lemma ok_info_floor: "ok_info ti \<Longrightarrow> ok_info (ti\<lparr>floorPrice := p\<rparr>)"
  by (simp add: ok_info_def)

lemma ok_info_queue:
  "queue_inv q \<Longrightarrow> maxLen q = maxQueueLength \<Longrightarrow> ok_info (ti\<lparr>tradeOrders := q\<rparr>)"
  by (simp add: ok_info_def)

definition ok_queue :: "PriorityQueueMap \<Rightarrow> bool" where
  "ok_queue q \<longleftrightarrow> queue_inv q \<and> maxLen q = maxQueueLength"

lemma ok_queue_ops:
  "ok_queue (NewPriorityQueueMap maxQueueLength)"
  "ok_queue q \<Longrightarrow> ok_queue (Add srt q oid price mk tok)"
  "ok_queue q \<Longrightarrow> ok_queue (Remove q oid)"
  "ok_queue q \<Longrightarrow> ok_queue (RemoveMakerOrders q mk tok)"
  by (simp_all add: ok_queue_def queue_inv_intros)

lemma ok_queue_adds:
  "ok_queue q \<Longrightarrow> ok_queue (add_orders srt os q)" "ok_queue q \<Longrightarrow> ok_queue (add_valid_orders srt ps q)"
  unfolding add_orders_def add_valid_orders_def
  by (induction os arbitrary: q, auto simp: ok_queue_ops)
    (induction ps arbitrary: q, auto simp: ok_queue_ops)

lemma ok_info_iff: "ok_info ti \<longleftrightarrow> ok_queue (tradeOrders ti)"
  by (simp add: ok_info_def ok_queue_def)

lemma keeps_tracking_exec [keeps_intro]:
  "keeps tracking (db_query e q)" "keeps tracking (db_update e f)"
  unfolding db_query_def db_update_def by (rule keeps_db_exec; simp add: tracking_def)+

lemma keeps_tracking_Lpop [keeps_intro]: "keeps tracking (Lpop e key)"
  by (auto simp: keeps_def Lpop_def kv_exec_def tracking_def Let_def split: prod.splits outcome.splits list.splits)

lemma keeps_get_info:
  "(\<And>ti. ok_info ti \<Longrightarrow> keeps tracking (f (Some ti))) \<Longrightarrow> keeps tracking (f None) \<Longrightarrow>
     keeps tracking (State_Monad.bind (get_info a) f)"
proof (rule keepsI)
  fix w assume some: "\<And>ti. ok_info ti \<Longrightarrow> keeps tracking (f (Some ti))" and none: "keeps tracking (f None)"
    and w: "tracking w"
  show "tracking (snd (run_state (State_Monad.bind (get_info a) f) w))"
  proof (cases "map_of (collectionOrders w) (ToLower a)")
    case None
    then show ?thesis using keepsD [OF none w] by (simp add: get_info_def)
  next
    case (Some ti)
    then have "ok_info ti" using w by (auto simp: tracking_def dest: tracked_ok_lookup)
    then show ?thesis using keepsD [OF some w] Some by (simp add: get_info_def)
  qed
qed

lemma keeps_put_info [keeps_intro]: "ok_info ti \<Longrightarrow> keeps tracking (put_info a ti)"
  by (simp add: keeps_def put_info_def modify_world_def tracking_def tracked_ok_update)

lemma keeps_updateFloorPrice [keeps_intro]: "keeps tracking (updateFloorPrice e a p)"
  unfolding updateFloorPrice_def by (intro keeps_intro)

lemma keeps_check [keeps_intro]: "keeps tracking (checkAndUpdateFloorPrice e a)"
  unfolding checkAndUpdateFloorPrice_def
  by (rule keeps_get_info) (auto simp: Let_def ok_info_floor intro!: keeps_intro)

lemma keeps_update_floor [keeps_intro]: "keeps tracking (update_floor e a)"
  unfolding update_floor_def by (intro keeps_intro)

lemma keeps_reload [keeps_intro]: "keeps tracking (reloadCollectionOrders e srt a)"
  unfolding reloadCollectionOrders_def getLowestPrice100Orders_def
  by (rule keeps_get_info)
    (auto simp: ok_info_iff ok_queue_adds ok_queue_ops intro!: keeps_intro)

lemma keeps_reload_then [keeps_intro]: "keeps tracking k \<Longrightarrow> keeps tracking (reload_then e srt a k)"
  unfolding reload_then_def by (intro keeps_intro)

lemma keeps_handlers [keeps_intro]:
  assumes "ok_info ti"
  shows "keeps tracking (on_listing e srt event ti)" "keeps tracking (on_cancel e srt event ti)"
    "keeps tracking (on_trade e srt event ti)" "keeps tracking (on_update e srt event ti)"
  using assms
  by (auto simp: on_listing_def on_cancel_def on_trade_def on_update_def getUserValidOrders_def Let_def
      ok_info_iff ok_queue_adds ok_queue_ops intro!: keeps_intro)

lemma keeps_on_import [keeps_intro]: "keeps tracking (on_import e event)"
  unfolding on_import_def by (rule keeps_get_info) (auto simp: ok_info_new intro!: keeps_intro)

lemma keeps_notify: "keeps tracking (modify_world (\<lambda>w. w\<lparr>collectionListedCh := xs w\<rparr>))"
  by (simp add: keeps_def modify_world_def tracking_def)

lemma keeps_handle_event [keeps_intro]: "keeps tracking (handle_event e srt event)"
  unfolding handle_event_def dispatch_event_def
  by (rule keeps_get_info) (auto intro!: keeps_intro keeps_notify)

lemma tracking_floorPriceIteration: "keeps tracking (floorPriceIteration e srt ch)"
  unfolding floorPriceIteration_def by (auto intro!: keeps_intro split: option.split sum.split)

text \<open>Whatever the database and Redis answer, whichever statement fails, and whatever event is
  handled, every tracked collection keeps a proper queue: sorted by price, of at most 101 orders, with
  an index that names orders of the queue only.\<close>

theorem event_loop_keeps_queues:
  assumes "tracked_ok (collectionOrders w)"
  shows "tracked_ok (collectionOrders (snd (run_state (floorPriceIteration e srt ch) w)))"
  using keepsD [OF tracking_floorPriceIteration] assms by (simp add: tracking_def)

section \<open>The floor price is kept up to date\<close>

definition db_floor :: "CollectionRow \<Rightarrow> price" where
  "db_floor c = (case col_floor_price c of None \<Rightarrow> 0 | Some p \<Rightarrow> p)"

text \<open>The floor price in memory is the least price of the queue (0 without orders), except perhaps for
  the collection \<open>a\<close>; and the floor price in the table is the one in memory.\<close>

definition current_but :: "string \<Rightarrow> world \<Rightarrow> bool" where
  "current_but a w \<longleftrightarrow> (\<forall>b ti. b \<noteq> a \<longrightarrow> map_of (collectionOrders w) b = Some ti \<longrightarrow>
     floorPrice ti = snd (GetMin (tradeOrders ti)))"

definition table_synced :: "world \<Rightarrow> bool" where
  "table_synced w \<longleftrightarrow> (\<forall>c \<in> set (t_collections (tbl w)). \<forall>ti.
     map_of (collectionOrders w) (ToLower (col_address c)) = Some ti \<longrightarrow> db_floor c = floorPrice ti)"

definition floors_current :: "world \<Rightarrow> bool" where
  "floors_current w \<longleftrightarrow>
     (\<forall>b ti. map_of (collectionOrders w) b = Some ti \<longrightarrow> floorPrice ti = snd (GetMin (tradeOrders ti))) \<and>
     table_synced w"

definition settling :: "string \<Rightarrow> world \<Rightarrow> bool" where
  "settling a w \<longleftrightarrow> map_of (collectionOrders w) (ToLower a) \<noteq> None \<and> current_but (ToLower a) w \<and> table_synced w"

lemma settling_start: "floors_current w \<Longrightarrow> map_of (collectionOrders w) (ToLower a) = Some ti \<Longrightarrow> settling a w"
  by (auto simp: settling_def floors_current_def current_but_def)

lemma map_of_update_alist: "map_of (AList.update k v m) = (map_of m)(k \<mapsto> v)"
  by (rule update_conv')

lemma settling_put:
  assumes "settling a w" and "map_of (collectionOrders w) (ToLower a) = Some ti" and "floorPrice ti' = floorPrice ti"
  shows "settling a (w\<lparr>collectionOrders := AList.update (ToLower a) ti' (collectionOrders w)\<rparr>)"
  using assms by (auto simp: settling_def current_but_def table_synced_def map_of_update_alist)

lemma settling_more:
  "settling a (w\<lparr>n_db := k\<rparr>) = settling a w" "settling a (w\<lparr>collectionListedCh := ls\<rparr>) = settling a w"
  "floors_current (w\<lparr>n_db := k\<rparr>) = floors_current w"
  "floors_current (w\<lparr>collectionListedCh := ls\<rparr>) = floors_current w"
  by (simp_all add: settling_def current_but_def table_synced_def floors_current_def)

lemma wp_get_info [wp_simps]: "wp (get_info a) Q w = Q (map_of (collectionOrders w) (ToLower a)) w"
  by (simp add: get_info_def wp_State)

lemma wp_put_info [wp_simps]:
  "wp (put_info a ti) Q w = Q () (w\<lparr>collectionOrders := AList.update (ToLower a) ti (collectionOrders w)\<rparr>)"
  by (simp add: put_info_def wp_modify_world)

lemma floors_current_write:
  assumes e: "folds_case e" and s: "settling a w" and ti: "map_of (collectionOrders w) (ToLower a) = Some ti"
    and p: "p = snd (GetMin (tradeOrders ti))"
  shows "floors_current (w\<lparr>collectionOrders := AList.update (ToLower a) (ti\<lparr>floorPrice := p\<rparr>) (collectionOrders w),
      n_db := k, tbl := (tbl w)\<lparr>t_collections := update_where (\<lambda>c. coll_eq e (col_address c) a)
        (\<lambda>c. c\<lparr>col_floor_price := Some p\<rparr>) (t_collections (tbl w))\<rparr>\<rparr>)"
  using assms
  by (auto simp: floors_current_def settling_def current_but_def table_synced_def map_of_update_alist
      set_update_where folds_case_def db_floor_def)

lemma floors_current_same:
  assumes "settling a w" and "map_of (collectionOrders w) (ToLower a) = Some ti"
    and "floorPrice ti = snd (GetMin (tradeOrders ti))"
  shows "floors_current w"
proof -
  have "floorPrice ti' = snd (GetMin (tradeOrders ti'))" if "map_of (collectionOrders w) b = Some ti'" for b ti'
    using assms that by (cases "b = ToLower a") (auto simp: settling_def current_but_def)
  then show ?thesis using assms(1) by (simp add: floors_current_def settling_def)
qed

lemma wp_update_floor:
  assumes "db_works e" and "folds_case e" and "settling a w"
  shows "wp (update_floor e a) (\<lambda>_. floors_current) w"
proof -
  obtain ti where ti: "map_of (collectionOrders w) (ToLower a) = Some ti"
    using assms(3) by (auto simp: settling_def)
  show ?thesis
    using floors_current_write [OF assms(2,3) ti refl] floors_current_same [OF assms(3) ti]
    by (simp add: update_floor_def checkAndUpdateFloorPrice_def updateFloorPrice_def wp_simps assms(1) ti Let_def)
qed

lemma wp_reload_then:
  assumes "db_works e" and "folds_case e" and "settling a w"
  shows "wp (reload_then e srt a (update_floor e a)) (\<lambda>_. floors_current) w"
proof -
  obtain ti where ti: "map_of (collectionOrders w) (ToLower a) = Some ti"
    using assms(3) by (auto simp: settling_def)
  show ?thesis
    using assms(3) ti settling_put [where a = a and w = "w\<lparr>n_db := Suc (n_db w)\<rparr>" and ti = ti]
    by (simp add: reload_then_def reloadCollectionOrders_def getLowestPrice100Orders_def wp_simps assms(1)
        settling_more wp_update_floor [OF assms(1,2)])
qed

lemma settling_step:
  assumes "settling a w" and "map_of (collectionOrders w) (ToLower a) = Some ti"
  shows "settling a (w\<lparr>collectionOrders := AList.update (ToLower a) (ti\<lparr>tradeOrders := q\<rparr>) (collectionOrders w)\<rparr>)"
  by (rule settling_put [OF assms]) simp

lemma wp_on_listing:
  assumes "db_works e" and "folds_case e" and "settling (ev_CollectionAddr ev) w"
    and "map_of (collectionOrders w) (ToLower (ev_CollectionAddr ev)) = Some ti"
  shows "wp (on_listing e srt ev ti) (\<lambda>_. floors_current) w"
  using assms settling_step [OF assms(3,4)]
  by (simp add: on_listing_def wp_simps Let_def wp_update_floor)

lemma wp_on_cancel:
  assumes "db_works e" and "folds_case e" and "settling (ev_CollectionAddr ev) w"
    and "map_of (collectionOrders w) (ToLower (ev_CollectionAddr ev)) = Some ti"
  shows "wp (on_cancel e srt ev ti) (\<lambda>_. floors_current) w"
  using assms settling_step [OF assms(3,4)]
  by (simp add: on_cancel_def wp_simps Let_def wp_update_floor wp_reload_then)

lemma wp_on_trade:
  assumes "db_works e" and "folds_case e" and "settling (ev_CollectionAddr ev) w"
    and "map_of (collectionOrders w) (ToLower (ev_CollectionAddr ev)) = Some ti"
  shows "wp (on_trade e srt ev ti) (\<lambda>_. floors_current) w"
proof -
  let ?a = "ev_CollectionAddr ev"
  have "settling ?a (w\<lparr>n_db := Suc (n_db w),
      collectionOrders := AList.update (ToLower ?a) (ti\<lparr>tradeOrders := q\<rparr>) (collectionOrders w)\<rparr>)" for q
    using settling_step [of ?a "w\<lparr>n_db := Suc (n_db w)\<rparr>" ti q] assms(3,4) by (simp add: settling_more)
  then show ?thesis
    using assms settling_step [OF assms(3,4)]
    by (simp add: on_trade_def getUserValidOrders_def wp_simps Let_def wp_update_floor wp_reload_then)
qed

lemma wp_on_update:
  assumes "db_works e" and "folds_case e" and "floors_current w" and "settling (ev_CollectionAddr ev) w"
  shows "wp (on_update e srt ev ti) (\<lambda>_. floors_current) w"
  using assms by (simp add: on_update_def wp_simps wp_reload_then)

lemma wp_dispatch:
  assumes "db_works e" and "folds_case e" and "floors_current w" and "settling (ev_CollectionAddr ev) w"
    and "map_of (collectionOrders w) (ToLower (ev_CollectionAddr ev)) = Some ti"
    and "EventType ev \<noteq> ImportCollection"
  shows "wp (dispatch_event e srt ev (Some ti)) (\<lambda>_. floors_current) w"
  using assms(6) wp_on_listing [OF assms(1,2,4,5)] wp_on_cancel [OF assms(1,2,4,5)]
    wp_on_trade [OF assms(1,2,4,5)] wp_on_update [OF assms(1-4)]
  by (auto simp: dispatch_event_def wp_return assms(3))

lemma wp_handle_event:
  assumes "db_works e" and "folds_case e" and "floors_current w" and "EventType ev \<noteq> ImportCollection"
  shows "wp (handle_event e srt ev) (\<lambda>_. floors_current) w"
proof (cases "map_of (collectionOrders w) (ToLower (ev_CollectionAddr ev))")
  case None
  then show ?thesis using assms by (simp add: handle_event_def wp_simps)
next
  case (Some ti)
  let ?a = "ev_CollectionAddr ev"
  let ?w = "\<lambda>ls. w\<lparr>collectionListedCh := ls\<rparr>"
  have s: "settling ?a (?w ls)" "settling ?a w" for ls
    using settling_start [OF assms(3) Some] by (simp_all add: settling_more)
  have m: "map_of (collectionOrders (?w ls)) (ToLower ?a) = Some ti" for ls
    using Some by simp
  have "wp (dispatch_event e srt ev (Some ti)) (\<lambda>_. floors_current) (?w ls)" for ls
    by (rule wp_dispatch) (use assms s m in \<open>simp_all add: settling_more\<close>)
  moreover have "wp (dispatch_event e srt ev (Some ti)) (\<lambda>_. floors_current) w"
    by (rule wp_dispatch) (use assms s Some in simp_all)
  ultimately show ?thesis by (simp add: handle_event_def wp_simps Some)
qed


section \<open>The floor prices after start-up\<close>

lemma map_of_enqueue:
  "map_of (fold (enqueue_order srt) os m) a =
     map_option (\<lambda>ti. ti\<lparr>tradeOrders :=
         add_orders srt (filter (\<lambda>co. ToLower (ord_collection_address co) = a) os) (tradeOrders ti)\<rparr>) (map_of m a)"
  by (induction os arbitrary: m)
    (auto simp: add_orders_def enqueue_order_def map_of_update_alist option.map_comp comp_def option.map_ident
      split: option.split)

lemma map_of_track:
  "map_of (track_collections cs m) a = (case find (\<lambda>c. ToLower (col_address c) = a) (rev cs) of
      None \<Rightarrow> map_of m a
    | Some c \<Rightarrow> Some \<lparr>floorPrice = db_floor c, tradeOrders = NewPriorityQueueMap maxQueueLength\<rparr>)"
  by (induction cs rule: rev_induct) (auto simp: track_collections_def map_of_update_alist db_floor_def)

lemma find_distinct:
  "distinct (map f cs) \<Longrightarrow> c \<in> set cs \<Longrightarrow> find (\<lambda>c'. f c' = f c) (rev cs) = Some c"
  by (induction cs rule: rev_induct) (auto simp: image_iff)

lemma tracked_ok_track: "tracked_ok m \<Longrightarrow> tracked_ok (track_collections cs m)"
  unfolding track_collections_def
  by (induction cs arbitrary: m) (auto simp: tracked_ok_update ok_info_new)

lemma tracked_ok_enqueue: "tracked_ok m \<Longrightarrow> tracked_ok (fold (enqueue_order srt) os m)"
proof (induction os arbitrary: m)
  case (Cons co os)
  have "tracked_ok (enqueue_order srt co m)"
    using Cons.prems tracked_ok_lookup [OF Cons.prems]
    by (auto simp: enqueue_order_def ok_info_iff ok_queue_ops split: option.split intro!: tracked_ok_update)
  then show ?case using Cons.IH by simp
qed simp

text \<open>During the last loop: the collections not in \<open>ks\<close> are done.\<close>

definition refreshed_but :: "string set \<Rightarrow> world \<Rightarrow> bool" where
  "refreshed_but K w \<longleftrightarrow> table_synced w \<and> (\<forall>b ti. b \<notin> K \<longrightarrow> map_of (collectionOrders w) b = Some ti \<longrightarrow>
     floorPrice ti = snd (GetMin (tradeOrders ti)))"

definition queue_view :: "world \<Rightarrow> string \<Rightarrow> PriorityQueueMap option" where
  "queue_view w a = map_option tradeOrders (map_of (collectionOrders w) a)"

lemma refreshed_but_drop:
  assumes "refreshed_but (insert k K) w"
    and "\<And>ti. map_of (collectionOrders w) k = Some ti \<Longrightarrow> floorPrice ti = snd (GetMin (tradeOrders ti))"
  shows "refreshed_but K w"
  using assms unfolding refreshed_but_def by (metis insert_iff)

lemma wp_refresh_floor:
  assumes "db_works e" and "folds_case e" and "refreshed_but (insert k K) w" and "ToLower k = k"
  shows "wp (refresh_floor e k) (\<lambda>_ w'. refreshed_but K w' \<and> queue_view w' = queue_view w) w"
  using assms refreshed_but_drop [OF assms(3)]
  by (auto simp: refresh_floor_def updateFloorPrice_def wp_simps Let_def refreshed_but_def table_synced_def
      queue_view_def map_of_update_alist set_update_where db_floor_def folds_case_def fun_eq_iff
      split: option.split)

lemma wp_refresh_all:
  assumes "db_works e" and "folds_case e"
  shows "refreshed_but (set ks) w \<Longrightarrow> (\<forall>k \<in> set ks. ToLower k = k) \<Longrightarrow>
     wp (for_each (refresh_floor e) ks) (\<lambda>_ w'. refreshed_but {} w' \<and> queue_view w' = queue_view w) w"
proof (induction ks arbitrary: w)
  case (Cons k ks)
  have "wp (refresh_floor e k) (\<lambda>_ w'. refreshed_but (set ks) w' \<and> queue_view w' = queue_view w) w"
    using assms Cons.prems by (intro wp_refresh_floor) simp_all
  then show ?case
    unfolding for_each.simps wp_bind
  proof (rule wp_mono)
    fix a t assume t: "refreshed_but (set ks) t \<and> queue_view t = queue_view w"
    with Cons.IH [of t] Cons.prems show
      "wp (for_each (refresh_floor e) ks) (\<lambda>_ w'. refreshed_but {} w' \<and> queue_view w' = queue_view w) t"
      by simp
  qed
qed (simp add: wp_return)

lemma add_orders_insertions:
  "add_orders srt os q = run_ops (Add srt) Remove RemoveMakerOrders
     (insertions (map (\<lambda>co. (ord_order_id co, ord_price co, ord_maker co, ord_token_id co)) os)) q"
  by (induction os arbitrary: q) (simp_all add: add_orders_def insertions_def)

lemma floor_of_loaded:
  "snd (GetMin (add_orders srt os (NewPriorityQueueMap maxQueueLength)))
     = (if os = [] then 0 else Min (ord_price ` set os))"
proof (cases "os = []")
  case False
  then show ?thesis
    unfolding add_orders_insertions
    by (subst min_after_insertions) (auto simp: maxQueueLength_def prices_of_def image_image comp_def)
qed (simp add: add_orders_def NewPriorityQueueMap_def GetMin_def)

text \<open>The prices of the valid listings of a collection.\<close>

definition listing_prices :: "env \<Rightarrow> tables \<Rightarrow> string \<Rightarrow> price set" where
  "listing_prices e t addr = {ord_price co | co ci. co \<in> set (t_orders t) \<and> ci \<in> set (t_items t) \<and>
     valid_listing e co ci \<and> EqualFold (ord_collection_address co) addr}"

definition walks_all_keys :: "env \<Rightarrow> bool" where
  "walks_all_keys e \<longleftrightarrow> (\<forall>ks. set (map_order e ks) = set ks)"

lemma set_join_listings:
  "set (map fst (join_listings e t)) = {co \<in> set (t_orders t). \<exists>ci \<in> set (t_items t). valid_listing e co ci}"
  by (auto simp: join_listings_def image_iff)

lemma load_batches_all:
  assumes "db_works e" and "server_orders_rows e" and "distinct (map ord_id (sel (tbl w)))"
  shows "\<exists>w'. load_batches e sel b acc w =
       Some (Inr (acc @ sort_key ord_id (filter (\<lambda>co. b < ord_id co) (sel (tbl w)))), w') \<and>
     only_db w w'"
proof -
  obtain r w' where *: "load_batches e sel b acc w = Some (r, w')" "only_db w w'" "db_works e \<longrightarrow> \<not> is_err r"
    "\<forall>os. r = Inr os \<longrightarrow> os = acc @ sort_key ord_id (filter (\<lambda>co. b < ord_id co) (sel (tbl w)))"
    using load_batches_correct [where sel = sel, OF assms(2,3)] by blast
  then show ?thesis using assms(1) by (cases r) auto
qed

text \<open>C5: starting up.\<close>

theorem startup_floor_is_cheapest:
  assumes e: "db_works e" "folds_case e" "server_orders_rows e" "walks_all_keys e"
    and w: "collectionOrders w = []"
    and addrs: "distinct (map (\<lambda>c. ToLower (col_address c)) (t_collections (tbl w)))"
    and ids: "distinct (map ord_id (map fst (join_listings e (tbl w))))"
      "\<forall>co \<in> set (t_orders (tbl w)). 0 < ord_id co"
  shows "\<exists>w'. loadCollectionTradeInfo e srt w = Some (Inr (), w') \<and> floors_current w' \<and>
     (\<forall>c \<in> set (t_collections (tbl w)). \<exists>ti. map_of (collectionOrders w') (ToLower (col_address c)) = Some ti \<and>
       floorPrice ti = (let P = listing_prices e (tbl w) (col_address c) in if P = {} then 0 else Min P))"
proof -
  let ?cs = "t_collections (tbl w)"
  let ?m = "track_collections ?cs []"
  let ?sel = "\<lambda>t. map fst (join_listings e t)"
  let ?w1 = "w\<lparr>n_db := Suc (n_db w), collectionOrders := ?m\<rparr>"
  let ?os = "sort_key ord_id (filter (\<lambda>co. 0 < ord_id co) (?sel (tbl w)))"
  let ?m3 = "fold (enqueue_order srt) ?os ?m"
  obtain w2 where lb: "load_batches e ?sel 0 [] ?w1 = Some (Inr ?os, w2)" and t2: "tbl w2 = tbl w"
      "collectionOrders w2 = ?m"
    using load_batches_all [OF e(1,3), of ?sel ?w1 0 "[]"] ids(1) by (auto simp: only_db_def)
  let ?w3 = "w2\<lparr>collectionOrders := ?m3\<rparr>"
  let ?ks = "map_order e (map fst ?m3)"
  let ?w' = "snd (run_state (for_each (refresh_floor e) ?ks) ?w3)"
  have run: "loadCollectionTradeInfo e srt w = Some (Inr (), ?w')"
    using e(1) w lb t2 by (simp add: loadCollectionTradeInfo_def db_query_def db_exec_def db_works_def)
  have ok: "tracked_ok ?m3" by (intro tracked_ok_enqueue tracked_ok_track) (simp add: tracked_ok_def)
  have ks: "set ?ks = fst ` set ?m3" using e(4) by (simp add: walks_all_keys_def)
  have low: "\<forall>k \<in> set ?ks. ToLower k = k" using ok unfolding ks by (auto simp: tracked_ok_def)
  have lookup: "map_of ?m3 (ToLower (col_address c)) = Some \<lparr>floorPrice = db_floor c, tradeOrders =
      add_orders srt (filter (\<lambda>co. ToLower (ord_collection_address co) = ToLower (col_address c)) ?os)
        (NewPriorityQueueMap maxQueueLength)\<rparr>" if "c \<in> set ?cs" for c
    using find_distinct [OF addrs that] by (simp add: map_of_enqueue map_of_track)
  have "refreshed_but (set ?ks) ?w3"
    using lookup by (auto simp: refreshed_but_def table_synced_def ks t2 simp flip: map_of_eq_None_iff)
  then have fin: "refreshed_but {} ?w'" "queue_view ?w' = queue_view ?w3"
    using wp_refresh_all [OF e(1,2), of ?ks ?w3] low unfolding wp_snd by blast+
  have fl: "ord_price ` set (filter (\<lambda>co. ToLower (ord_collection_address co) = ToLower a) ?os)
      = listing_prices e (tbl w) a" for a
    using ids(2) by (auto simp: listing_prices_def set_join_listings EqualFold_def simp del: set_map)
  have "\<exists>ti. map_of (collectionOrders ?w') (ToLower (col_address c)) = Some ti \<and>
      floorPrice ti = (let P = listing_prices e (tbl w) (col_address c) in if P = {} then 0 else Min P)"
    if "c \<in> set ?cs" for c
  proof -
    let ?q = "add_orders srt (filter (\<lambda>co. ToLower (ord_collection_address co) = ToLower (col_address c)) ?os)
      (NewPriorityQueueMap maxQueueLength)"
    have "queue_view ?w' (ToLower (col_address c)) = Some ?q"
      using fin(2) lookup [OF that] by (simp add: queue_view_def)
    then obtain ti where "map_of (collectionOrders ?w') (ToLower (col_address c)) = Some ti" "tradeOrders ti = ?q"
      by (auto simp: queue_view_def)
    moreover from this have "floorPrice ti = snd (GetMin ?q)" using fin(1) by (auto simp: refreshed_but_def)
    ultimately show ?thesis
      unfolding floor_of_loaded Let_def fl [symmetric] image_is_empty set_empty by blast
  qed
  moreover have "floors_current ?w'" using fin(1) by (simp add: floors_current_def refreshed_but_def)
  ultimately show ?thesis using run by blast
qed

section \<open>The events on the list\<close>

text \<open>What the two producers check: an order id unless the event is about a whole collection, and a price
  for a listing.\<close>

definition well_formed_event :: "TradeEvent \<Rightarrow> bool" where
  "well_formed_event ev \<longleftrightarrow>
     (EventType ev \<in> {Transfer, ImportCollection, UpdateCollection} \<or> ev_OrderId ev \<noteq> '''') \<and>
     (EventType ev = Listing \<longrightarrow> ev_Price ev \<noteq> 0)"

text \<open>The JSON codec, as far as the code relies on it: decoding an encoded event gives it back.\<close>

definition decodes_events :: "env \<Rightarrow> bool" where
  "decodes_events e \<longleftrightarrow> (\<forall>ev s. marshal_event e ev = Some s \<longrightarrow> unmarshal_event e s = Some ev)"

definition events_well_formed :: "env \<Rightarrow> string \<Rightarrow> world \<Rightarrow> bool" where
  "events_well_formed e key w \<longleftrightarrow>
     (\<forall>s \<in> set (kv_list w key). \<exists>ev. unmarshal_event e s = Some ev \<and> well_formed_event ev)"

lemma wf_exec [keeps_intro]:
  "keeps (events_well_formed e' key) (db_query e q)" "keeps (events_well_formed e' key) (db_update e f)"
  "keeps (events_well_formed e' key) (get_info a)" "keeps (events_well_formed e' key) (put_info a ti)"
  unfolding db_query_def db_update_def
  by (rule keeps_db_exec; simp add: events_well_formed_def)+
    (simp_all add: keeps_def events_well_formed_def get_info_def put_info_def modify_world_def)

lemma wf_notify [keeps_intro]:
  "keeps (events_well_formed e' key) (modify_world (\<lambda>w. w\<lparr>collectionListedCh := xs w\<rparr>))"
  by (simp add: keeps_def modify_world_def events_well_formed_def)

lemma wf_handle_event: "keeps (events_well_formed e' key) (handle_event e srt ev)"
proof -
  have upd: "keeps (events_well_formed e' key) (update_floor e a)" for a
    unfolding update_floor_def checkAndUpdateFloorPrice_def updateFloorPrice_def Let_def by (intro keeps_intro)
  have rel: "keeps (events_well_formed e' key) (reload_then e srt a (update_floor e a))" for a
    unfolding reload_then_def reloadCollectionOrders_def getLowestPrice100Orders_def
    by (intro keeps_intro upd)
  show ?thesis
    unfolding handle_event_def dispatch_event_def on_listing_def on_cancel_def on_trade_def on_import_def
      on_update_def getUserValidOrders_def Let_def
    by (intro keeps_intro upd rel)
qed

lemma wf_Lpop: "keeps (events_well_formed e' key) (Lpop e k)"
  by (auto simp: keeps_def Lpop_def kv_exec_def events_well_formed_def Let_def
      split: prod.splits outcome.splits list.splits if_splits)

lemma wf_Rpush:
  "unmarshal_event e s = Some ev \<Longrightarrow> well_formed_event ev \<Longrightarrow> keeps (events_well_formed e key) (Rpush e k s)"
  by (auto simp: keeps_def Rpush_def kv_exec_def events_well_formed_def Let_def split: prod.splits outcome.splits)

lemma wf_producers:
  assumes "decodes_events e"
  shows "keeps (events_well_formed e key) (AddUpdatePriceEvent e ev ch)"
    and "keeps (events_well_formed e key) (addUpdateFloorPriceEvent e ch ev)"
proof -
  have push: "keeps (events_well_formed e key) (Rpush e k s)"
    if "marshal_event e ev = Some s" "well_formed_event ev" for k s
    using that assms by (intro wf_Rpush) (auto simp: decodes_events_def)
  show "keeps (events_well_formed e key) (AddUpdatePriceEvent e ev ch)"
    "keeps (events_well_formed e key) (addUpdateFloorPriceEvent e ch ev)"
    unfolding AddUpdatePriceEvent_def addUpdateFloorPriceEvent_def
    by (auto intro!: keeps_intro push simp: well_formed_event_def split: option.split)
qed

lemma wf_floorPriceIteration: "keeps (events_well_formed e' key) (floorPriceIteration e srt ch)"
  unfolding floorPriceIteration_def by (intro keeps_intro wf_Lpop wf_handle_event)

text \<open>Every message on the trade-event list decodes to a well-formed event, whatever the producers
  are asked to send, whatever the consumer does and whatever fails.\<close>

theorem queued_events_well_formed:
  assumes "decodes_events e" and "events_well_formed e key w"
  shows "events_well_formed e key (snd (run_state (AddUpdatePriceEvent e ev ch) w)) \<and>
    events_well_formed e key (snd (run_state (addUpdateFloorPriceEvent e ch ev) w)) \<and>
    events_well_formed e key (snd (run_state (floorPriceIteration e srt ch) w))"
  using assms by (simp add: keepsD wf_producers wf_floorPriceIteration)

section \<open>A concrete collection\<close>

definition sample_order :: OrderRow where
  "sample_order = \<lparr>ord_id = 1, ord_marketplace_id = 0, ord_collection_address = ''0xc'', ord_token_id = ''7'',
     ord_order_id = ''o1'', ord_order_status = OrderStatusActive, ord_event_time = 0, ord_expire_time = 5000,
     ord_currency_address = ''1'', ord_price = 5, ord_maker = ''0xa'', ord_taker = ZeroAddress,
     ord_quantity_remaining = 1, ord_size = 1, ord_order_type = ListingType, ord_salt = 0\<rparr>"

definition sample_item :: ItemRow where
  "sample_item = \<lparr>item_chain_id = 1, item_collection_address = ''0xC'', item_token_id = ''7'', item_name = [],
     item_owner = Some ''0xA'', item_creator = [], item_supply = 1, item_list_price = None, item_list_time = 0,
     item_sale_price = None, item_views = 0, item_is_opensea_banned = False, item_update_time = 0\<rparr>"

definition sample_collection :: CollectionRow where
  "sample_collection = \<lparr>col_address = ''0xC'', col_chain_id = 1, col_symbol = [], col_name = [], col_image_uri = [],
     col_creator = [], col_token_standard = 721, col_floor_price = None, col_sale_price = None,
     col_volume_total = 0, col_floor_price_status = 0, col_update_time = 0, col_id = 1, col_banner = [],
     col_banner_uri = [], col_item_amount = 0, col_owner_amount = 0\<rparr>"

definition sample_world :: world where
  "sample_world = start_world\<lparr>tbl := empty_tables\<lparr>t_orders := [sample_order], t_items := [sample_item],
     t_collections := [sample_collection]\<rparr>\<rparr>"

lemmas sample_defs = sample_order_def sample_item_def sample_collection_def sample_world_def start_world_def
  empty_tables_def

lemma sample_lower [simp]:
  "ToLower ''0xC'' = ''0xc''" "ToLower ''0xc'' = ''0xc''" "ToLower ''0xA'' = ''0xa''" "ToLower ''0xa'' = ''0xa''"
  "ToLower ''7'' = ''7''"
  by code_simp+

lemma sample_join: "join_listings plain_env (tbl sample_world) = [(sample_order, sample_item)]"
  by (simp add: join_listings_def valid_listing_def sample_defs plain_env_def EqualFold_def status_defs order_type_defs)

lemma plain_env_orders [simp]: "server_orders_rows plain_env" "walks_all_keys plain_env"
  by (simp_all add: server_orders_rows_def walks_all_keys_def plain_env_def)

theorem event_loop_keeps_queues_witness:
  "tracked_ok (collectionOrders (snd (run_state (floorPriceIteration plain_env stable_sorter ''eth'')
     (sample_world\<lparr>collectionOrders := [(''0xc'', \<lparr>floorPrice = 0, tradeOrders = NewPriorityQueueMap maxQueueLength\<rparr>)]\<rparr>))))"
  by (rule event_loop_keeps_queues) (simp add: tracked_ok_def ok_info_new)


theorem startup_floor_is_cheapest_witness:
  "\<exists>w'. loadCollectionTradeInfo plain_env stable_sorter sample_world = Some (Inr (), w') \<and> floors_current w' \<and>
     (\<exists>ti. map_of (collectionOrders w') ''0xc'' = Some ti \<and> floorPrice ti = 5)"
proof -
  have P: "listing_prices plain_env (tbl sample_world) ''0xC'' = {5}"
    by (auto simp: listing_prices_def valid_listing_def sample_defs plain_env_def EqualFold_def status_defs order_type_defs)
  have "\<exists>w'. loadCollectionTradeInfo plain_env stable_sorter sample_world = Some (Inr (), w') \<and> floors_current w' \<and>
     (\<forall>c \<in> set (t_collections (tbl sample_world)). \<exists>ti.
       map_of (collectionOrders w') (ToLower (col_address c)) = Some ti \<and>
       floorPrice ti = (let P = listing_prices plain_env (tbl sample_world) (col_address c) in if P = {} then 0 else Min P))"
    by (rule startup_floor_is_cheapest) (simp_all add: sample_join, simp_all add: sample_defs)
  then show ?thesis using P by (simp add: sample_defs)
qed

definition sample_event :: TradeEvent where
  "sample_event = zero_event\<lparr>EventType := Listing, ev_CollectionAddr := ''0xC'', ev_OrderId := ''o1'',
     ev_TokenID := ''7'', ev_Price := 5\<rparr>"

definition sample_env :: env where
  "sample_env = plain_env\<lparr>marshal_event := (\<lambda>ev. if ev = sample_event then Some ''E'' else None),
     unmarshal_event := (\<lambda>s. if s = ''E'' then Some sample_event else None)\<rparr>"

theorem queued_events_well_formed_witness:
  "kv_list (snd (run_state (AddUpdatePriceEvent sample_env sample_event ''eth'') start_world))
     (genTradeEventsCacheKey ''eth'') = [''E''] \<and>
   events_well_formed sample_env (genTradeEventsCacheKey ''eth'')
     (snd (run_state (AddUpdatePriceEvent sample_env sample_event ''eth'') start_world))"
proof
  show "kv_list (snd (run_state (AddUpdatePriceEvent sample_env sample_event ''eth'') start_world))
     (genTradeEventsCacheKey ''eth'') = [''E'']"
    by (simp add: AddUpdatePriceEvent_def sample_env_def sample_event_def event_defs Rpush_def kv_exec_def
        plain_env_def start_world_def)
  show "events_well_formed sample_env (genTradeEventsCacheKey ''eth'')
     (snd (run_state (AddUpdatePriceEvent sample_env sample_event ''eth'') start_world))"
    using queued_events_well_formed [of sample_env "genTradeEventsCacheKey ''eth''" start_world sample_event "''eth''"]
    by (simp add: decodes_events_def events_well_formed_def start_world_def sample_env_def)
qed

end
