(* ===== verification/Expiry.thy ===== *)
theory Expiry
  imports FloorPrice
begin

text \<open>
  The expiry of orders, \<open>EasySwapBase/ordermanager/expiredorder.go\<close>: loading the active orders into the
  time wheel at start-up, marking the expired ones in the table, and what an order that leaves the wheel
  triggers. The wheel itself is in \<open>TimeWheel\<close>; an index panic of an insertion is carried to the caller.
\<close>

section \<open>State changes\<close>

definition updateOrdersStatus :: "env \<Rightarrow> string \<Rightarrow> int \<Rightarrow> unit result M" where
  "updateOrdersStatus e oid orderStatus = db_update e (\<lambda>t.
     t\<lparr>t_orders := update_where (\<lambda>o1. coll_eq e (ord_order_id o1) oid)
        (\<lambda>o1. o1\<lparr>ord_order_status := orderStatus\<rparr>) (t_orders t)\<rparr>)"

definition expired_event :: "string \<Rightarrow> string \<Rightarrow> TradeEvent" where
  "expired_event oid collectionAddr =
     zero_event\<lparr>EventType := Expired, ev_CollectionAddr := collectionAddr, ev_OrderId := oid\<rparr>"

definition updateOrderState :: "env \<Rightarrow> string \<Rightarrow> string \<Rightarrow> string \<Rightarrow> unit result M" where
  "updateOrderState e chain oid collectionAddr = do {
     r \<leftarrow> updateOrdersStatus e oid OrderStatusExpired;
     case r of
       Inl err \<Rightarrow> State_Monad.return (Inl err)
     | Inr _ \<Rightarrow> addUpdateFloorPriceEvent e chain (expired_event oid collectionAddr)
   }"

text \<open>\<open>addToOrderExpiryCheckQueue\<close> on the wheel of the order manager; \<open>Inl\<close> is a panic.\<close>

definition wheel_add :: "int \<Rightarrow> string \<Rightarrow> string \<Rightarrow> string \<Rightarrow> (go_panic + unit) M" where
  "wheel_add delaySeconds chain oid collectionAddr = State (\<lambda>w.
     case addToOrderExpiryCheckQueue delaySeconds chain oid collectionAddr (timeWheel w) of
       Inl p \<Rightarrow> (Inl p, w)
     | Inr tw \<Rightarrow> (Inr (), w\<lparr>timeWheel := tw\<rparr>))"

section \<open>Start-up\<close>

text \<open>The loop that tells expired orders from those to wait for. It reads the clock twice per order.\<close>

fun classify_orders :: "env \<Rightarrow> string \<Rightarrow> OrderRow list \<Rightarrow> OrderRow list \<Rightarrow> (go_panic + OrderRow list) M" where
  "classify_orders e chain [] expiredOrders = State_Monad.return (Inr expiredOrders)"
| "classify_orders e chain (co # os) expiredOrders = do {
     t1 \<leftarrow> now e;
     if ord_expire_time co < t1 then classify_orders e chain os (expiredOrders @ [co])
     else do {
       t2 \<leftarrow> now e;
       r \<leftarrow> wheel_add (wrap64 (ord_expire_time co - t2)) chain (ord_order_id co) (ord_collection_address co);
       case r of
         Inl p \<Rightarrow> State_Monad.return (Inl p)
       | Inr _ \<Rightarrow> classify_orders e chain os expiredOrders
     }
   }"

text \<open>\<open>UPDATE ... WHERE id IN (...)\<close>, a hundred ids at a time.\<close>

definition mark_expired :: "env \<Rightarrow> int list \<Rightarrow> unit result M" where
  "mark_expired e ids = db_update e (\<lambda>t.
     t\<lparr>t_orders := update_where (\<lambda>o1. ord_id o1 \<in> set ids)
        (\<lambda>o1. o1\<lparr>ord_order_status := OrderStatusExpired\<rparr>) (t_orders t)\<rparr>)"

function expire_chunks :: "env \<Rightarrow> int list \<Rightarrow> nat \<Rightarrow> unit result M" where
  "expire_chunks e expiredOrderIDs i =
     (if i < length expiredOrderIDs then do {
        r \<leftarrow> mark_expired e
          (let stop = (if i + MaxBatchReqNum \<ge> length expiredOrderIDs then length expiredOrderIDs
                      else i + MaxBatchReqNum)
           in drop i (take stop expiredOrderIDs));
        case r of
          Inl err \<Rightarrow> State_Monad.return (Inl err)
        | Inr _ \<Rightarrow> expire_chunks e expiredOrderIDs (i + 100)
      }
      else State_Monad.return (Inr ()))"
  by pat_completeness auto
termination by (relation "measure (\<lambda>(e, ids, i). length ids - i)") auto

declare expire_chunks.simps [simp del]

fun push_expired_events :: "env \<Rightarrow> string \<Rightarrow> OrderRow list \<Rightarrow> unit result M" where
  "push_expired_events e chain [] = State_Monad.return (Inr ())"
| "push_expired_events e chain (co # os) = do {
     r \<leftarrow> addUpdateFloorPriceEvent e chain (expired_event (ord_order_id co) (ord_collection_address co));
     case r of
       Inl err \<Rightarrow> State_Monad.return (Inl err)
     | Inr _ \<Rightarrow> push_expired_events e chain os
   }"

definition active_orders :: "tables \<Rightarrow> OrderRow list" where
  "active_orders t = filter (\<lambda>co. ord_order_status co = OrderStatusActive) (t_orders t)"

definition expire_loaded :: "env \<Rightarrow> string \<Rightarrow> OrderRow list \<Rightarrow> unit result M" where
  "expire_loaded e chain expiredOrders = do {
     u \<leftarrow> expire_chunks e (map ord_id expiredOrders) 0;
     case u of
       Inl err \<Rightarrow> State_Monad.return (Inl err)
     | Inr _ \<Rightarrow> push_expired_events e chain expiredOrders
   }"

definition settle_loaded :: "env \<Rightarrow> string \<Rightarrow> OrderRow list \<Rightarrow> (go_panic + unit result) M" where
  "settle_loaded e chain totalOrders = do {
     r \<leftarrow> classify_orders e chain totalOrders [];
     case r of
       Inl p \<Rightarrow> State_Monad.return (Inl p)
     | Inr expiredOrders \<Rightarrow> do {
         v \<leftarrow> expire_loaded e chain expiredOrders;
         State_Monad.return (Inr v)
       }
   }"

definition loadOrdersToQueue :: "env \<Rightarrow> string \<Rightarrow> world \<Rightarrow> ((go_panic + unit result) \<times> world) option" where
  "loadOrdersToQueue e chain w =
     (case load_batches e active_orders 0 [] w of
        None \<Rightarrow> None
      | Some (Inl err, w1) \<Rightarrow> Some (Inr (Inl err), w1)
      | Some (Inr totalOrders, w1) \<Rightarrow>
          if totalOrders = [] then Some (Inr (Inr ()), w1)
          else Some (run_state (settle_loaded e chain totalOrders) w1))"

section \<open>Each second\<close>

text \<open>One second of \<open>orderExpiryProcess\<close> on the state of the order manager: the visit of the slot, and the
  orders for which a goroutine running \<open>updateOrderState\<close> is started.\<close>

definition expirySecond :: "world \<Rightarrow> (task_key list \<times> world) option" where
  "expirySecond w = map_option (\<lambda>(tw, due). (due, w\<lparr>timeWheel := tw\<rparr>)) (tick (timeWheel w))"

section \<open>Loading\<close>

text \<open>A clock that stands still, and one that moves on between two readings.\<close>

definition clock_stands :: "env \<Rightarrow> int \<Rightarrow> bool" where
  "clock_stands e T \<longleftrightarrow> (\<forall>n. clock e n = T)"

lemma wp_now [wp_simps]: "wp (now e) Q w = Q (clock e (n_clock w)) (w\<lparr>n_clock := Suc (n_clock w)\<rparr>)"
  by (simp add: now_def wp_State)

lemma wp_wheel_add [wp_simps]:
  "wp (wheel_add d chain oid addr) Q w =
     (case addToOrderExpiryCheckQueue d chain oid addr (timeWheel w) of
        Inl p \<Rightarrow> Q (Inl p) w | Inr tw \<Rightarrow> Q (Inr ()) (w\<lparr>timeWheel := tw\<rparr>))"
  by (simp add: wheel_add_def wp_State split: sum.split)

text \<open>Two worlds that differ in the wheel and the clock readings only.\<close>

definition same_stores :: "world \<Rightarrow> world \<Rightarrow> bool" where
  "same_stores w w' \<longleftrightarrow> tbl w' = tbl w \<and> kv_list w' = kv_list w"

lemma wp_classify_orders:
  assumes T: "clock_stands e T" "3600 \<le> T"
  shows "wheel_ok (timeWheel w) \<Longrightarrow> (\<forall>co \<in> set os. in_i64 (ord_expire_time co)) \<Longrightarrow>
     wp (classify_orders e chain os acc)
       (\<lambda>r w'. r = Inr (acc @ filter (\<lambda>co. ord_expire_time co < T) os) \<and> same_stores w w' \<and> wheel_ok (timeWheel w')) w"
proof (induction os arbitrary: acc w)
  case (Cons co os)
  have c: "clock e n = T" for n using T(1) by (simp add: clock_stands_def)
  show ?case
  proof (cases "ord_expire_time co < T")
    case True
    let ?w1 = "w\<lparr>n_clock := Suc (n_clock w)\<rparr>"
    show ?thesis
      using True Cons.prems Cons.IH [of ?w1 "acc @ [co]"] by (simp add: wp_simps c same_stores_def)
  next
    case False
    let ?d = "ord_expire_time co - T"
    have d: "0 \<le> ?d" "?d + 3600 < 2 ^ 63" using False Cons.prems(2) T(2) by (auto simp: in_i64_def)
    then have wr: "wrap64 ?d = ?d" by (intro wrap64_id) (simp add: in_i64_def)
    obtain tw where tw: "addToOrderExpiryCheckQueue ?d chain (ord_order_id co) (ord_collection_address co) (timeWheel w) = Inr tw"
      "wheel_ok tw"
      using wheel_ok_add [OF Cons.prems(1) d] by blast
    let ?w1 = "w\<lparr>n_clock := Suc (Suc (n_clock w)), timeWheel := tw\<rparr>"
    show ?thesis
      using False Cons.prems Cons.IH [of ?w1 acc] tw by (simp add: wp_simps c wr same_stores_def)
  qed
qed (simp add: wp_return same_stores_def)

definition expire_ids :: "int set \<Rightarrow> world \<Rightarrow> OrderRow list" where
  "expire_ids I w = update_where (\<lambda>o1. ord_id o1 \<in> I) (\<lambda>o1. o1\<lparr>ord_order_status := OrderStatusExpired\<rparr>) (t_orders (tbl w))"

lemma expire_ids_compose:
  "tbl w1 = (tbl w)\<lparr>t_orders := expire_ids I w\<rparr> \<Longrightarrow> expire_ids J w1 = expire_ids (I \<union> J) w"
  by (auto simp: expire_ids_def update_where_def)

lemma chunk_append:
  "i < length ids \<Longrightarrow>
     drop i ids = drop i (take (if i + n \<ge> length ids then length ids else i + n) ids) @ drop (i + n) ids"
proof (cases "i + n \<ge> length ids")
  case False
  have "drop (i + n) ids = drop n (drop i ids)" by (simp add: add.commute)
  moreover have "drop i (take (i + n) ids) = take n (drop i ids)" by (simp add: drop_take)
  ultimately show ?thesis using False by (simp only: if_False append_take_drop_id)
qed simp

lemma wp_expire_chunks:
  assumes e: "db_works e"
  shows "wp (expire_chunks e ids i)
    (\<lambda>r w'. r = Inr () \<and> tbl w' = (tbl w)\<lparr>t_orders := expire_ids (set (drop i ids)) w\<rparr> \<and>
       kv_list w' = kv_list w \<and> timeWheel w' = timeWheel w) w"
proof (induction "length ids - i" arbitrary: i w rule: less_induct)
  case less
  show ?case
  proof (cases "i < length ids")
    case False
    then show ?thesis
      by (simp add: expire_chunks.simps wp_return expire_ids_def update_where_def)
  next
    case True
    let ?stop = "if i + MaxBatchReqNum \<ge> length ids then length ids else i + MaxBatchReqNum"
    let ?ck = "drop i (take ?stop ids)"
    let ?w1 = "w\<lparr>n_db := Suc (n_db w), tbl := (tbl w)\<lparr>t_orders := expire_ids (set ?ck) w\<rparr>\<rparr>"
    have "set (drop i ids) = set ?ck \<union> set (drop (i + 100) ids)"
      using chunk_append [OF True, of MaxBatchReqNum] by (metis MaxBatchReqNum_def set_append)
    then have J: "expire_ids (set (drop (i + 100) ids)) ?w1 = expire_ids (set (drop i ids)) w"
      using expire_ids_compose [where ?w1.0 = ?w1 and w = w and I = "set ?ck"] by simp
    have "wp (expire_chunks e ids (i + 100))
      (\<lambda>r w'. r = Inr () \<and> tbl w' = (tbl ?w1)\<lparr>t_orders := expire_ids (set (drop (i + 100) ids)) ?w1\<rparr> \<and>
         kv_list w' = kv_list ?w1 \<and> timeWheel w' = timeWheel ?w1) ?w1"
      using True by (intro less.hyps) simp
    then show ?thesis
      unfolding J by (subst expire_chunks.simps) (simp add: True wp_bind mark_expired_def wp_simps e expire_ids_def Let_def)
  qed
qed

lemma wp_Rpush [wp_simps]:
  "kv_works e \<Longrightarrow> wp (Rpush e key v) Q w =
     Q (Inr ()) (w\<lparr>n_kv := Suc (n_kv w), kv_list := (kv_list w)(key := kv_list w key @ [v])\<rparr>)"
  by (simp add: wp_def Rpush_def kv_exec_def kv_works_def Let_def)

text \<open>The messages of a list of expired orders.\<close>

definition expired_messages :: "env \<Rightarrow> OrderRow list \<Rightarrow> string list" where
  "expired_messages e os = map (\<lambda>co. the (marshal_event e
     (expired_event (ord_order_id co) (ord_collection_address co)))) os"

definition encodes_events :: "env \<Rightarrow> bool" where
  "encodes_events e \<longleftrightarrow> (\<forall>ev. marshal_event e ev \<noteq> None)"

lemma wp_push_expired:
  assumes "kv_works e" and "encodes_events e"
  shows "(\<forall>co \<in> set os. ord_order_id co \<noteq> '''') \<Longrightarrow>
    wp (push_expired_events e chain os)
      (\<lambda>r w'. r = Inr () \<and> tbl w' = tbl w \<and> timeWheel w' = timeWheel w \<and>
         kv_list w' = (kv_list w)(genTradeEventsCacheKey chain :=
           kv_list w (genTradeEventsCacheKey chain) @ expired_messages e os)) w"
proof (induction os arbitrary: w)
  case (Cons co os)
  let ?k = "genTradeEventsCacheKey chain" and ?ev = "expired_event (ord_order_id co) (ord_collection_address co)"
  obtain s where s: "marshal_event e ?ev = Some s" using assms(2) by (auto simp: encodes_events_def)
  let ?w1 = "w\<lparr>n_kv := Suc (n_kv w), kv_list := (kv_list w)(?k := kv_list w ?k @ [s])\<rparr>"
  have "wp (addUpdateFloorPriceEvent e chain ?ev) (\<lambda>r w'. r = Inr () \<and> w' = ?w1) w"
    using Cons.prems s
    by (simp add: addUpdateFloorPriceEvent_def expired_event_def zero_event_def event_defs wp_simps assms(1))
  then show ?case
    using Cons.IH [of ?w1] Cons.prems s
    by (auto simp: wp_bind expired_messages_def fun_eq_iff elim!: wp_mono)
qed (simp add: wp_return expired_messages_def)

lemma update_where_cong:
  "(\<And>r. r \<in> set rs \<Longrightarrow> P r \<longleftrightarrow> Q r) \<Longrightarrow> update_where P f rs = update_where Q f rs"
  by (auto simp: update_where_def)

lemma update_where_False [simp]: "update_where (\<lambda>r. False) f rs = rs"
  by (simp add: update_where_def)

lemma expire_overdue_ids:
  assumes "distinct (map ord_id os)" and "Q \<subseteq> set os"
  shows "update_where (\<lambda>o1. ord_id o1 \<in> ord_id ` Q) f os = update_where (\<lambda>o1. o1 \<in> Q) f os"
  using assms by (intro update_where_cong) (auto simp: distinct_map inj_on_def)

lemma wp_expire_loaded:
  assumes e: "db_works e" "kv_works e" "encodes_events e" and os: "\<forall>co \<in> set os. ord_order_id co \<noteq> ''''"
  shows "wp (expire_loaded e chain os)
    (\<lambda>r w'. r = Inr () \<and> timeWheel w' = timeWheel w \<and> t_orders (tbl w') = expire_ids (ord_id ` set os) w \<and>
       kv_list w' = (kv_list w)(genTradeEventsCacheKey chain :=
         kv_list w (genTradeEventsCacheKey chain) @ expired_messages e os)) w"
  unfolding expire_loaded_def wp_bind
  apply (rule wp_mono [OF wp_expire_chunks [OF e(1)]])
  apply (elim conjE, simp)
  apply (rule wp_mono [OF wp_push_expired [OF e(2,3) os]])
  apply simp
  done

lemma wp_settle_loaded:
  assumes e: "db_works e" "kv_works e" "encodes_events e" "clock_stands e T" "3600 \<le> T"
    and w: "wheel_ok (timeWheel w)"
    and os: "\<forall>co \<in> set os. in_i64 (ord_expire_time co) \<and> ord_order_id co \<noteq> ''''"
    and d: "filter (\<lambda>co. ord_expire_time co < T) os = d"
  shows "wp (settle_loaded e chain os)
    (\<lambda>r w'. r = Inr (Inr ()) \<and> wheel_ok (timeWheel w') \<and> t_orders (tbl w') = expire_ids (ord_id ` set d) w \<and>
       kv_list w' = (kv_list w)(genTradeEventsCacheKey chain :=
         kv_list w (genTradeEventsCacheKey chain) @ expired_messages e d)) w"
proof -
  have oid: "\<forall>co \<in> set d. ord_order_id co \<noteq> ''''" using os d by auto
  have exp: "\<forall>co \<in> set os. in_i64 (ord_expire_time co)" using os by simp
  show ?thesis
    unfolding settle_loaded_def wp_bind
    apply (rule wp_mono [OF wp_classify_orders [OF e(4,5) w exp]])
    apply (elim conjE, simp add: wp_bind wp_return d)
    apply (rule wp_mono [OF wp_expire_loaded [OF e(1-3) oid]])
    apply (simp add: same_stores_def expire_ids_def wp_return)
    done
qed



text \<open>Starting up when the clock passes the expiry second of the first active order between the two
  readings made for it. The insertion into the fresh wheel panics, so the expiry process ends before any
  overdue order is marked: no order of the table changes, and nothing is announced.\<close>

theorem startup_clock_race_panics:
  assumes e: "db_works e" "server_orders_rows e"
    and w: "wheel_ok (timeWheel w)" "CurrentIndex (timeWheel w) = 0"
    and rows: "distinct (map ord_id (t_orders (tbl w)))" "\<forall>co \<in> set (t_orders (tbl w)). 0 < ord_id co"
    and first: "sort_key ord_id (active_orders (tbl w)) = co # os"
    and clock: "clock e (n_clock w) = ord_expire_time co" "clock e (Suc (n_clock w)) = ord_expire_time co + 1"
  shows "\<exists>w'. loadOrdersToQueue e chain w = Some (Inl IndexOutOfRange, w') \<and>
     tbl w' = tbl w \<and> kv_list w' = kv_list w"
proof -
  have dA: "distinct (map ord_id (active_orders (tbl w)))"
    using rows(1) by (simp add: active_orders_def distinct_map_filter)
  have "filter (\<lambda>co. 0 < ord_id co) (active_orders (tbl w)) = active_orders (tbl w)"
    using rows(2) by (auto simp: active_orders_def intro: filter_cong)
  then obtain w1 k where w1: "load_batches e active_orders 0 [] w = Some (Inr (co # os), w1)" "w1 = w\<lparr>n_db := k\<rparr>"
    using load_batches_all [where sel = active_orders and acc = "[]" and b = 0 and w = w, OF e dA] first
    by (auto simp: only_db_def)
  have "wrap64 (- 1) = - 1" by (simp add: wrap64_def)
  then have "addToOrderExpiryCheckQueue (wrap64 (- 1)) chain oid addr (timeWheel w) = Inl IndexOutOfRange" for oid addr
    using negative_slot_panics [OF w(1), of "- 1"] w(2) by simp
  then have "wp (settle_loaded e chain (co # os))
      (\<lambda>r w'. r = Inl IndexOutOfRange \<and> tbl w' = tbl w \<and> kv_list w' = kv_list w) w1"
    using clock by (simp add: settle_loaded_def wp_simps w1(2))
  then show ?thesis using w1 by (auto simp: loadOrdersToQueue_def wp_def split: prod.splits)
qed

theorem startup_clock_race_panics_witness:
  "\<exists>w'. loadOrdersToQueue (plain_env\<lparr>clock := \<lambda>n. 5000 + int n\<rparr>) ''eth'' sample_world = Some (Inl IndexOutOfRange, w') \<and>
     tbl w' = tbl sample_world"
proof -
  have "\<exists>w'. loadOrdersToQueue (plain_env\<lparr>clock := \<lambda>n. 5000 + int n\<rparr>) ''eth'' sample_world
      = Some (Inl IndexOutOfRange, w') \<and> tbl w' = tbl sample_world \<and> kv_list w' = kv_list sample_world"
    by (rule startup_clock_race_panics [where co = sample_order and os = "[]"])
      (simp_all add: db_works_def server_orders_rows_def plain_env_def sample_defs wheel_ok_empty active_orders_def
        empty_wheel_def [THEN arg_cong [of _ _ CurrentIndex]])
  then show ?thesis by blast
qed

end
