(* ===== verification/OrderManager.thy ===== *)
theory OrderManager
  imports Expiry
begin

text \<open>
  The order manager as a whole (\<open>EasySwapBase/ordermanager/service.go\<close>, \<open>listcount.go\<close>): the loop that takes
  new listings from Redis, the counting of listed items, and the concurrent run of the four loops with
  the goroutines of the expiry loop, as a step relation.
\<close>

section \<open>New listings\<close>

definition GenOrdersCacheKey :: "string \<Rightarrow> string" where
  "GenOrdersCacheKey chain = ''cache:es:orders:'' @ chain"

text \<open>One listing that was taken from the list.\<close>

definition handle_listing :: "env \<Rightarrow> string \<Rightarrow> ListingInfo \<Rightarrow> (go_panic + unit) M" where
  "handle_listing e chain listing =
     (if li_OrderId listing = '''' then State_Monad.return (Inr ())
      else do {
        t1 \<leftarrow> now e;
        if li_ExpireIn listing < t1 then do {
          _ \<leftarrow> updateOrdersStatus e (li_OrderId listing) OrderStatusExpired;
          _ \<leftarrow> addUpdateFloorPriceEvent e chain (zero_event\<lparr>EventType := Expired,
                 ev_CollectionAddr := li_CollectionAddr listing, ev_TokenID := li_TokenID listing,
                 ev_OrderId := li_OrderId listing, ev_From := li_Maker listing\<rparr>);
          State_Monad.return (Inr ())
        }
        else do {
          _ \<leftarrow> addUpdateFloorPriceEvent e chain (zero_event\<lparr>EventType := Listing,
                 ev_CollectionAddr := li_CollectionAddr listing, ev_TokenID := li_TokenID listing,
                 ev_OrderId := li_OrderId listing, ev_Price := li_Price listing, ev_From := li_Maker listing\<rparr>);
          t2 \<leftarrow> now e;
          wheel_add (wrap64 (li_ExpireIn listing - t2)) chain (li_OrderId listing) (li_CollectionAddr listing)
        }
      })"

text \<open>One iteration of \<open>ListenNewListingLoop\<close>; \<open>Inl\<close> is a panic, which ends the loop.\<close>

definition listenIteration :: "env \<Rightarrow> string \<Rightarrow> (go_panic + unit) M" where
  "listenIteration e chain = do {
     r \<leftarrow> Lpop e (GenOrdersCacheKey chain);
     case r of
       Inl _ \<Rightarrow> State_Monad.return (Inr ())
     | Inr None \<Rightarrow> State_Monad.return (Inr ())
     | Inr (Some result) \<Rightarrow>
         if result = '''' then State_Monad.return (Inr ())
         else (case unmarshal_listing e result of
             None \<Rightarrow> State_Monad.return (Inr ())
           | Some listing \<Rightarrow> handle_listing e chain listing)
   }"

definition listing_info :: "OrderRow \<Rightarrow> ListingInfo" where
  "listing_info co = \<lparr>li_ExpireIn = ord_expire_time co, li_OrderId = ord_order_id co,
     li_CollectionAddr = ord_collection_address co, li_TokenID = ord_token_id co,
     li_Price = ord_price co, li_Maker = ord_maker co\<rparr>"

definition AddToOrderManagerQueue :: "env \<Rightarrow> string \<Rightarrow> OrderRow \<Rightarrow> unit result M" where
  "AddToOrderManagerQueue e chain co =
     (if ord_token_id co = '''' then State_Monad.return (Inl ErrNullTokenId)
      else (case marshal_listing e (listing_info co) of
          None \<Rightarrow> State_Monad.return (Inl ErrMarshal)
        | Some rawInfo \<Rightarrow> Lpush e (GenOrdersCacheKey chain) rawInfo))"

section \<open>Counting listed items\<close>

record CollectionListed =
  CollectionAddress :: string
  ListCount :: nat

definition GenCollectionListedKey :: "string \<Rightarrow> string \<Rightarrow> string" where
  "GenCollectionListedKey chain address =
     ''cache:es:'' @ ToLower chain @ '':collection:listed:'' @ ToLower address"

text \<open>\<open>GROUP BY\<close> and \<open>COUNT(DISTINCT ...)\<close> under a collation: one representative of each class.\<close>

fun classes_by :: "('a \<Rightarrow> 'a \<Rightarrow> bool) \<Rightarrow> 'a list \<Rightarrow> 'a list" where
  "classes_by eq [] = []"
| "classes_by eq (x # xs) = (if list_ex (eq x) xs then classes_by eq xs else x # classes_by eq xs)"

definition countCollectionListed :: "env \<Rightarrow> string list \<Rightarrow> CollectionListed list result M" where
  "countCollectionListed e cs = db_query e (\<lambda>t.
     let rows = filter (\<lambda>co. cs = [] \<or> list_ex (coll_eq e (ord_collection_address co)) cs)
                  (row_order e (map fst (join_listings e t)))
     in map (\<lambda>a. \<lparr>CollectionAddress = a, ListCount = length (classes_by (coll_eq e)
               (map ord_token_id (filter (\<lambda>co. coll_eq e (ord_collection_address co) a) rows)))\<rparr>)
          (classes_by (coll_eq e) (map ord_collection_address rows)))"

fun cacheCollectionListCount :: "env \<Rightarrow> string \<Rightarrow> CollectionListed list \<Rightarrow> unit result M" where
  "cacheCollectionListCount e chain [] = State_Monad.return (Inr ())"
| "cacheCollectionListCount e chain (c # cs) = do {
     r \<leftarrow> kv_set e (GenCollectionListedKey chain (CollectionAddress c)) (itoa (ListCount c));
     case r of
       Inl err \<Rightarrow> State_Monad.return (Inl err)
     | Inr _ \<Rightarrow> cacheCollectionListCount e chain cs
   }"

text \<open>Counting and caching, at start-up (for all collections) and when the ticker fires (for the
  addresses notified since). A failed count is cached as an empty list.\<close>

definition refresh_counts :: "env \<Rightarrow> string \<Rightarrow> string list \<Rightarrow> unit M" where
  "refresh_counts e chain cs = do {
     r \<leftarrow> countCollectionListed e cs;
     _ \<leftarrow> cacheCollectionListCount e chain (case r of Inl _ \<Rightarrow> [] | Inr l \<Rightarrow> l);
     State_Monad.return ()
   }"

text \<open>The two cases of the loop of \<open>listCountProcess\<close>. \<open>marked\<close> is the set of addresses noted so far.\<close>

definition countTick :: "env \<Rightarrow> string \<Rightarrow> string list \<Rightarrow> string list M" where
  "countTick e chain marked =
     (if marked = [] then State_Monad.return marked
      else do { refresh_counts e chain (map_order e marked); State_Monad.return [] })"

definition countNotified :: "string list \<Rightarrow> string list M" where
  "countNotified marked = do {
     w \<leftarrow> get_world;
     case collectionListedCh w of
       [] \<Rightarrow> State_Monad.return marked
     | addr # rest \<Rightarrow> do {
         modify_world (\<lambda>w. w\<lparr>collectionListedCh := rest\<rparr>);
         State_Monad.return (List.insert (ToLower addr) marked)
       }
   }"

section \<open>The concurrent system\<close>

text \<open>
  The goroutines started for orders that leave the wheel run \<open>updateOrderState\<close>: first the update of the
  table, then the announcement. Their statements interleave freely with everything else. A loop that
  panics is recovered and never runs again. Other processes may change the tables at any time.
\<close>

datatype goroutine =
    MarkOrder string string string
  | AnnounceOrder string string string

record om_state =
  om_world :: world
  om_running :: "goroutine list"
  om_listening :: bool
  om_expiring :: bool
  om_marked :: "string list"

inductive om_step :: "env \<Rightarrow> sorter \<Rightarrow> string \<Rightarrow> om_state \<Rightarrow> om_state \<Rightarrow> bool"
  for e srt chain where
  listen: "om_listening s \<Longrightarrow> run_state (listenIteration e chain) (om_world s) = (Inr (), w) \<Longrightarrow>
     om_step e srt chain s (s\<lparr>om_world := w\<rparr>)"
| listen_panic: "om_listening s \<Longrightarrow> run_state (listenIteration e chain) (om_world s) = (Inl p, w) \<Longrightarrow>
     om_step e srt chain s (s\<lparr>om_world := w, om_listening := False\<rparr>)"
| second: "om_expiring s \<Longrightarrow> expirySecond (om_world s) = Some (due, w) \<Longrightarrow>
     om_step e srt chain s (s\<lparr>om_world := w, om_running := om_running s @ map (\<lambda>(c, oid, a). MarkOrder c oid a) due\<rparr>)"
| mark: "om_running s = gs @ MarkOrder c oid a # gs' \<Longrightarrow>
     run_state (updateOrdersStatus e oid OrderStatusExpired) (om_world s) = (r, w) \<Longrightarrow>
     om_step e srt chain s (s\<lparr>om_world := w,
       om_running := gs @ (if is_err r then [] else [AnnounceOrder c oid a]) @ gs'\<rparr>)"
| announce: "om_running s = gs @ AnnounceOrder c oid a # gs' \<Longrightarrow>
     run_state (addUpdateFloorPriceEvent e chain (expired_event oid a)) (om_world s) = (r, w) \<Longrightarrow>
     om_step e srt chain s (s\<lparr>om_world := w, om_running := gs @ gs'\<rparr>)"
| price: "run_state (floorPriceIteration e srt chain) (om_world s) = ((), w) \<Longrightarrow>
     om_step e srt chain s (s\<lparr>om_world := w\<rparr>)"
| count_tick: "run_state (countTick e chain (om_marked s)) (om_world s) = (m, w) \<Longrightarrow>
     om_step e srt chain s (s\<lparr>om_world := w, om_marked := m\<rparr>)"
| count_notified: "run_state (countNotified (om_marked s)) (om_world s) = (m, w) \<Longrightarrow>
     om_step e srt chain s (s\<lparr>om_world := w, om_marked := m\<rparr>)"
| enqueue: "run_state (AddToOrderManagerQueue e chain co) (om_world s) = (r, w) \<Longrightarrow>
     om_step e srt chain s (s\<lparr>om_world := w\<rparr>)"
| send: "run_state (AddUpdatePriceEvent e ev chain) (om_world s) = (r, w) \<Longrightarrow>
     om_step e srt chain s (s\<lparr>om_world := w\<rparr>)"
| other_process: "om_step e srt chain s (s\<lparr>om_world := (om_world s)\<lparr>tbl := t\<rparr>\<rparr>)"

inductive om_reach :: "env \<Rightarrow> sorter \<Rightarrow> string \<Rightarrow> om_state \<Rightarrow> om_state \<Rightarrow> bool"
  for e srt chain s0 where
  start: "om_reach e srt chain s0 s0"
| step: "om_reach e srt chain s0 s \<Longrightarrow> om_step e srt chain s s' \<Longrightarrow> om_reach e srt chain s0 s'"

inductive_cases om_stepE: "om_step e srt chain s s'"

section \<open>Safety under every schedule\<close>

text \<open>The wheel is only changed by insertions and by the expiry loop.\<close>

definition wheel_fine :: "world \<Rightarrow> bool" where
  "wheel_fine w \<longleftrightarrow> wheel_ok (timeWheel w)"

lemma wheel_exec [keeps_intro]:
  "keeps wheel_fine (db_query e q)" "keeps wheel_fine (db_update e f)"
  "keeps wheel_fine (get_info a)" "keeps wheel_fine (put_info a ti)" "keeps wheel_fine (now e)"
  "keeps wheel_fine (modify_world (\<lambda>w. w\<lparr>collectionListedCh := xs w\<rparr>))"
  unfolding db_query_def db_update_def
  by (rule keeps_db_exec; simp add: wheel_fine_def)+
    (simp_all add: keeps_def wheel_fine_def get_info_def put_info_def modify_world_def now_def)

lemma kv_exec_keeps:
  assumes "\<And>w. P w \<Longrightarrow> P (w\<lparr>n_kv := Suc (n_kv w)\<rparr>)" and "\<And>w. P w \<Longrightarrow> P (snd (f w))"
  shows "keeps P (kv_exec e f)"
  using assms by (auto simp: keeps_def kv_exec_def Let_def split: prod.split outcome.split) (metis snd_conv)+

lemma wheel_kv [keeps_intro]:
  "keeps wheel_fine (Rpush e key v)" "keeps wheel_fine (Lpush e key v)" "keeps wheel_fine (Lpop e key)"
  "keeps wheel_fine (kv_set e key v)"
  unfolding Rpush_def Lpush_def Lpop_def kv_set_def
  by (rule kv_exec_keeps; simp add: wheel_fine_def split: list.split)+

lemma wheel_handle_event [keeps_intro]: "keeps wheel_fine (handle_event e srt ev)"
proof -
  have upd: "keeps wheel_fine (update_floor e a)" for a
    unfolding update_floor_def checkAndUpdateFloorPrice_def updateFloorPrice_def Let_def by (intro keeps_intro)
  have rel: "keeps wheel_fine (reload_then e srt a (update_floor e a))" for a
    unfolding reload_then_def reloadCollectionOrders_def getLowestPrice100Orders_def
    by (intro keeps_intro upd)
  show ?thesis
    unfolding handle_event_def dispatch_event_def on_listing_def on_cancel_def on_trade_def on_import_def
      on_update_def getUserValidOrders_def Let_def
    by (intro keeps_intro upd rel)
qed

lemma wheel_events [keeps_intro]:
  "keeps wheel_fine (addUpdateFloorPriceEvent e ch ev)" "keeps wheel_fine (AddUpdatePriceEvent e ev ch)"
  "keeps wheel_fine (updateOrdersStatus e oid st)"
  unfolding addUpdateFloorPriceEvent_def AddUpdatePriceEvent_def updateOrdersStatus_def
  by (intro keeps_intro)+

lemma wheel_floorPriceIteration: "keeps wheel_fine (floorPriceIteration e srt ch)"
  unfolding floorPriceIteration_def by (intro keeps_intro)

text \<open>What every loop keeps: the queues, the wheel, and the messages of the event list.\<close>

definition memory_ok :: "env \<Rightarrow> string \<Rightarrow> world \<Rightarrow> bool" where
  "memory_ok e chain w \<longleftrightarrow> tracking w \<and> wheel_fine w \<and> events_well_formed e (genTradeEventsCacheKey chain) w"

lemma keeps_memory_ok:
  "keeps tracking m \<Longrightarrow> keeps wheel_fine m \<Longrightarrow> keeps (events_well_formed e (genTradeEventsCacheKey chain)) m \<Longrightarrow>
     keeps (memory_ok e chain) m"
  by (simp add: keeps_def memory_ok_def)

lemma tracking_more [keeps_intro]:
  "keeps tracking (now e)" "keeps tracking (Rpush e key v)" "keeps tracking (Lpush e key v)"
  "keeps tracking (kv_set e key v)" "keeps tracking (wheel_add d ch oid a)"
  "keeps tracking (modify_world (\<lambda>w. w\<lparr>collectionListedCh := xs w\<rparr>))"
  unfolding Rpush_def Lpush_def kv_set_def
  by (rule kv_exec_keeps; simp add: tracking_def
    | simp add: keeps_def tracking_def now_def wheel_add_def modify_world_def split: sum.split)+

lemma tracking_events [keeps_intro]:
  "keeps tracking (addUpdateFloorPriceEvent e ch ev)" "keeps tracking (AddUpdatePriceEvent e ev ch)"
  "keeps tracking (updateOrdersStatus e oid st)"
  unfolding addUpdateFloorPriceEvent_def AddUpdatePriceEvent_def updateOrdersStatus_def
  by (intro keeps_intro)+

lemma wf_more [keeps_intro]:
  "keeps (events_well_formed e' key) (now e)" "keeps (events_well_formed e' key) (kv_set e k v)"
  "keeps (events_well_formed e' key) (wheel_add d ch oid a)"
  "keeps (events_well_formed e' key) (updateOrdersStatus e oid st)"
  unfolding kv_set_def updateOrdersStatus_def
  by (rule kv_exec_keeps wf_exec; simp add: events_well_formed_def
    | simp add: keeps_def events_well_formed_def now_def wheel_add_def split: sum.split)+

lemma wf_Lpush: "key \<noteq> k \<Longrightarrow> keeps (events_well_formed e' key) (Lpush e k v)"
  unfolding Lpush_def by (rule kv_exec_keeps) (simp_all add: events_well_formed_def)

lemma keys_differ [simp]: "genTradeEventsCacheKey c \<noteq> GenOrdersCacheKey c'"
  by (simp add: genTradeEventsCacheKey_def GenOrdersCacheKey_def)

text \<open>The clock: after 1970-01-01 01:00, never backwards, and at most an hour between two readings.\<close>

definition clock_sane :: "env \<Rightarrow> bool" where
  "clock_sane e \<longleftrightarrow> (\<forall>n. 3600 \<le> clock e n \<and> clock e n \<le> clock e (Suc n) \<and> clock e (Suc n) < clock e n + 3600 \<and>
     clock e n < 2 ^ 62)"

definition decodes_listings :: "env \<Rightarrow> bool" where
  "decodes_listings e \<longleftrightarrow> (\<forall>s l. unmarshal_listing e s = Some l \<longrightarrow> in_i64 (li_ExpireIn l))"

lemma run_keeps_clock:
  "n_clock (snd (run_state (addUpdateFloorPriceEvent e ch ev) w)) = n_clock w"
  by (simp add: addUpdateFloorPriceEvent_def Rpush_def kv_exec_def Let_def split: option.split outcome.split)

lemma wheel_handle_listing:
  assumes "clock_sane e" and "in_i64 (li_ExpireIn l)"
  shows "keeps wheel_fine (handle_listing e chain l)"
proof (rule keepsI)
  fix w assume w: "wheel_fine w"
  let ?t = "clock e (n_clock w)" and ?t2 = "clock e (Suc (n_clock w))"
  let ?w1 = "w\<lparr>n_clock := Suc (n_clock w)\<rparr>"
  have w1: "wheel_fine ?w1" using w by (simp add: wheel_fine_def)
  have "wp (handle_listing e chain l) (\<lambda>_. wheel_fine) w"
  proof (cases "li_OrderId l = '''' \<or> li_ExpireIn l < ?t")
    case True
    have "keeps wheel_fine (State_Monad.bind (updateOrdersStatus e (li_OrderId l) OrderStatusExpired)
        (\<lambda>_. State_Monad.bind (addUpdateFloorPriceEvent e chain ev) (\<lambda>_. State_Monad.return r)))"
      for ev and r :: "go_panic + unit"
      by (intro keeps_intro)
    note wp_keeps [OF this w1]
    then show ?thesis using True w by (auto simp: handle_listing_def wp_simps)
  next
    case False
    let ?d = "li_ExpireIn l - ?t2"
    have t: "3600 \<le> ?t" "?t \<le> ?t2" "?t2 < ?t + 3600" "?t2 < 2 ^ 62" using assms(1) by (auto simp: clock_sane_def)
    have d: "- 3600 < ?d" "?d + 3600 < 2 ^ 63" using t False assms(2) by (auto simp: in_i64_def)
    then have wr: "wrap64 ?d = ?d" by (intro wrap64_id) (simp add: in_i64_def)
    have ev: "wp (addUpdateFloorPriceEvent e chain ev) (\<lambda>_ w2. wheel_fine w2 \<and> n_clock w2 = Suc (n_clock w)) ?w1" for ev
      using keepsD [OF wheel_events(1) w1, of e chain ev] run_keeps_clock [of e chain ev ?w1]
      by (auto simp: wp_def split: prod.split)
    have add: "wp (wheel_add ?d chain oid a) (\<lambda>_. wheel_fine) w2" if "wheel_fine w2" for w2 oid a
      using that wheel_ok_add_any [OF _ d] by (auto simp: wheel_fine_def wp_wheel_add split: sum.split)
    show ?thesis
      using False
      by (simp add: handle_listing_def wp_simps del: wp_wheel_add)
        (rule wp_mono [OF ev], simp add: wp_bind wp_now wr add wheel_fine_def del: wp_wheel_add)
  qed
  then show "wheel_fine (snd (run_state (handle_listing e chain l) w))" by (simp add: wp_snd)
qed

lemma memory_ok_listen:
  assumes "clock_sane e" and "decodes_listings e" and "decodes_events e"
  shows "keeps (memory_ok e chain) (listenIteration e chain)"
proof (rule keeps_memory_ok)
  have h: "keeps wheel_fine (handle_listing e chain l)" if "unmarshal_listing e s = Some l" for s l
    using that assms(1,2) by (intro wheel_handle_listing) (auto simp: decodes_listings_def)
  show "keeps wheel_fine (listenIteration e chain)"
    unfolding listenIteration_def by (intro keeps_intro) (erule h)
  show "keeps tracking (listenIteration e chain)"
    unfolding listenIteration_def handle_listing_def by (intro keeps_intro)
  show "keeps (events_well_formed e (genTradeEventsCacheKey chain)) (listenIteration e chain)"
    unfolding listenIteration_def handle_listing_def
    by (intro keeps_intro wf_Lpop wf_producers [OF assms(3)])
qed

lemma memory_ok_count:
  "keeps (memory_ok e chain) (countTick e chain m)" "keeps (memory_ok e chain) (countNotified m)"
proof -
  have cache: "keeps P (cacheCollectionListCount e chain l)" if "\<And>k v. keeps P (kv_set e k v)" for P l
    using that by (induction l) (auto intro!: keeps_intro)
  show "keeps (memory_ok e chain) (countTick e chain m)"
    unfolding countTick_def refresh_counts_def countCollectionListed_def
    by (intro keeps_memory_ok keeps_intro cache)
  show "keeps (memory_ok e chain) (countNotified m)"
    unfolding countNotified_def
    by (auto intro!: keeps_intro split: list.split
      simp: keeps_def get_world_def modify_world_def memory_ok_def tracking_def wheel_fine_def events_well_formed_def)
qed

lemma memory_ok_second:
  assumes "memory_ok e chain w"
  shows "\<exists>due w'. expirySecond w = Some (due, w') \<and> memory_ok e chain w'"
proof -
  obtain A where "slots (timeWheel w) A" using assms by (auto simp: memory_ok_def wheel_fine_def wheel_ok_def)
  from tick_refines [OF this] obtain tw due where "tick (timeWheel w) = Some (tw, due)" "wheel_ok tw"
    unfolding wheel_ok_def by blast
  then show ?thesis
    using assms by (simp add: expirySecond_def memory_ok_def tracking_def wheel_fine_def events_well_formed_def)
qed

lemma memory_ok_step:
  assumes e: "clock_sane e" "decodes_listings e" "decodes_events e"
    and step: "om_step e srt chain s s'" and ok: "memory_ok e chain (om_world s)"
  shows "memory_ok e chain (om_world s')"
proof -
  have keep: "memory_ok e chain w" if "keeps (memory_ok e chain) m" "run_state m (om_world s) = (r, w)" for m r w
    using keepsD [OF that(1) ok] that(2) by simp
  have prod: "keeps (memory_ok e chain) (AddUpdatePriceEvent e ev ch)"
    "keeps (memory_ok e chain) (addUpdateFloorPriceEvent e ch ev)"
    "keeps (memory_ok e chain) (updateOrdersStatus e oid st)"
    "keeps (memory_ok e chain) (floorPriceIteration e srt ch)" for ev ch oid st
    by (intro keeps_memory_ok keeps_intro wf_producers [OF e(3)] wf_floorPriceIteration
      tracking_floorPriceIteration wheel_floorPriceIteration)+
  have enq: "keeps (memory_ok e chain) (AddToOrderManagerQueue e chain co)" for co
    unfolding AddToOrderManagerQueue_def by (intro keeps_memory_ok keeps_intro wf_Lpush) simp_all
  from step show ?thesis
  proof cases
    case (second due w)
    then show ?thesis using memory_ok_second [OF ok] by auto
  next
    case (other_process t)
    then show ?thesis using ok by (simp add: memory_ok_def tracking_def wheel_fine_def events_well_formed_def)
  qed (auto dest!: keep [OF memory_ok_listen [OF e]] keep [OF memory_ok_count(1)] keep [OF memory_ok_count(2)]
      keep [OF prod(1)] keep [OF prod(2)] keep [OF prod(3)] keep [OF prod(4)] keep [OF enq])
qed



section \<open>What a listing triggers\<close>

lemma wp_addUpdateFloorPriceEvent:
  assumes "kv_works e" and "encodes_events e" and "well_formed_event ev"
  shows "wp (addUpdateFloorPriceEvent e chain ev) Q w =
    Q (Inr ()) (w\<lparr>n_kv := Suc (n_kv w), kv_list := (kv_list w)(genTradeEventsCacheKey chain :=
      kv_list w (genTradeEventsCacheKey chain) @ [the (marshal_event e ev)])\<rparr>)"
proof -
  obtain s where "marshal_event e ev = Some s" using assms(2) by (auto simp: encodes_events_def)
  then show ?thesis
    using assms(3) by (auto simp: addUpdateFloorPriceEvent_def well_formed_event_def wp_simps assms(1))
qed

text \<open>C17: a listing that has not expired is announced as a listing and put on the wheel, to leave it at
  \<open>expiry_tick\<close>; one that has expired is marked as expired in the table and announced as expired, and the
  wheel is left alone.\<close>

theorem listing_is_announced_and_scheduled:
  assumes e: "db_works e" "kv_works e" "encodes_events e" "clock_stands e T" "3600 \<le> T"
    and w: "wheel_ok (timeWheel w)"
    and l: "li_OrderId l \<noteq> ''''" "li_Price l \<noteq> 0" "in_i64 (li_ExpireIn l)"
  shows "wp (handle_listing e chain l) (\<lambda>r w'. r = Inr () \<and>
    (\<exists>ev. EventType ev = (if li_ExpireIn l < T then Expired else Listing) \<and> ev_OrderId ev = li_OrderId l \<and>
       kv_list w' (genTradeEventsCacheKey chain) = kv_list w (genTradeEventsCacheKey chain) @ [the (marshal_event e ev)]) \<and>
    (if li_ExpireIn l < T
     then timeWheel w' = timeWheel w \<and> t_orders (tbl w') = update_where (\<lambda>co. coll_eq e (ord_order_id co) (li_OrderId l))
       (\<lambda>co. co\<lparr>ord_order_status := OrderStatusExpired\<rparr>) (t_orders (tbl w))
     else tbl w' = tbl w \<and> wheel_ok (timeWheel w') \<and>
       (\<exists>w1 ds w2. run_ticks n (timeWheel w) = Some (w1, ds) \<and> run_ticks n (timeWheel w') = Some (w2,
          map (\<lambda>k. (if int k = expiry_tick (CurrentIndex (timeWheel w)) (li_ExpireIn l - T)
                    then [(chain, li_OrderId l, li_CollectionAddr l)] else []) @ ds ! k) [0..<n])))) w"
proof -
  have c: "clock e n = T" for n using e(4) by (simp add: clock_stands_def)
  let ?ev = "\<lambda>t p. \<lparr>EventType = t, ev_CollectionAddr = li_CollectionAddr l, ev_TokenID = li_TokenID l,
    ev_OrderId = li_OrderId l, ev_OrderHash = '''', ev_Price = p, ev_From = li_Maker l, ev_To = '''', ev_TxHash = ''''\<rparr>"
  have wf: "well_formed_event (?ev Expired 0)" "well_formed_event (?ev Listing (li_Price l))"
    using l by (simp_all add: well_formed_event_def event_defs)
  show ?thesis
  proof (cases "li_ExpireIn l < T")
    case True
    then show ?thesis
      using l(1) wf(1)
      by (auto simp: handle_listing_def updateOrdersStatus_def zero_event_def wp_simps c e(1)
          wp_addUpdateFloorPriceEvent [OF e(2,3)] intro!: exI [of _ "?ev Expired 0"])
  next
    case False
    let ?d = "li_ExpireIn l - T"
    have d: "0 \<le> ?d" "?d + 3600 < 2 ^ 63" using False l(3) e(5) by (auto simp: in_i64_def)
    then have wr: "wrap64 ?d = ?d" by (intro wrap64_id) (simp add: in_i64_def)
    obtain tw where tw: "addToOrderExpiryCheckQueue ?d chain (li_OrderId l) (li_CollectionAddr l) (timeWheel w) = Inr tw"
      "wheel_ok tw" and run: "\<exists>w1 ds w2. run_ticks n (timeWheel w) = Some (w1, ds) \<and> run_ticks n tw = Some (w2,
          map (\<lambda>k. (if int k = expiry_tick (CurrentIndex (timeWheel w)) ?d
                    then [(chain, li_OrderId l, li_CollectionAddr l)] else []) @ ds ! k) [0..<n])"
      using order_leaves_once [OF w d, of chain "li_OrderId l" "li_CollectionAddr l" n] by blast
    show ?thesis
      using False l(1) wf(2) tw run
      by (simp add: handle_listing_def zero_event_def wp_simps c wr wp_addUpdateFloorPriceEvent [OF e(2,3)])
        (rule exI [of _ "?ev Listing (li_Price l)"], simp)
  qed
qed

theorem listing_is_announced_and_scheduled_witness:
  "wp (handle_listing (plain_env\<lparr>clock := \<lambda>_. 9000\<rparr>) ''eth''
      \<lparr>li_ExpireIn = 8000, li_OrderId = ''o1'', li_CollectionAddr = ''0xC'', li_TokenID = ''7'', li_Price = 5, li_Maker = ''0xA''\<rparr>)
    (\<lambda>r w'. map ord_order_status (t_orders (tbl w')) = [OrderStatusExpired]) sample_world"
proof -
  let ?e = "plain_env\<lparr>clock := \<lambda>_. 9000\<rparr>"
  have e: "db_works ?e" "kv_works ?e" "encodes_events ?e" "clock_stands ?e 9000" "(3600::int) \<le> 9000"
    by (simp_all add: db_works_def kv_works_def encodes_events_def clock_stands_def plain_env_def)
  have w: "wheel_ok (timeWheel sample_world)" by (simp add: sample_world_def start_world_def wheel_ok_empty)
  show ?thesis
    by (rule wp_mono [OF listing_is_announced_and_scheduled [OF e w, where n = 0]])
      (simp_all add: in_i64_def sample_defs plain_env_def EqualFold_def)
qed

section \<open>The counts\<close>

lemma classes_by_fold:
  assumes "\<And>a b. eq a b \<longleftrightarrow> f a = f b"
  shows "distinct (map f (classes_by eq xs)) \<and> f ` set (classes_by eq xs) = f ` set xs \<and>
    set (classes_by eq xs) \<subseteq> set xs"
  by (induction xs) (auto simp: assms list_ex_iff image_iff)

lemma image_member: "(\<exists>a \<in> A. f a = y) \<longleftrightarrow> y \<in> f ` A"
  by auto

lemma length_classes_by:
  assumes "\<And>a b. eq a b \<longleftrightarrow> f a = f b"
  shows "length (classes_by eq xs) = card (f ` set xs)"
proof -
  have "length (classes_by eq xs) = length (map f (classes_by eq xs))" by simp
  also have "\<dots> = card (f ` set (classes_by eq xs))"
    using classes_by_fold [of eq f xs, OF assms] by (metis distinct_card set_map)
  finally show ?thesis using classes_by_fold [of eq f xs, OF assms] by simp
qed

lemma listed_key_inj [simp]:
  "GenCollectionListedKey chain a = GenCollectionListedKey chain b \<longleftrightarrow> ToLower a = ToLower b"
  by (simp add: GenCollectionListedKey_def)

lemma wp_kv_set [wp_simps]:
  "kv_works e \<Longrightarrow> wp (kv_set e key v) Q w = Q (Inr ()) (w\<lparr>n_kv := Suc (n_kv w), kv_val := (kv_val w)(key \<mapsto> v)\<rparr>)"
  by (simp add: wp_def kv_set_def kv_exec_def kv_works_def Let_def)

definition count_entries :: "string \<Rightarrow> CollectionListed list \<Rightarrow> (string \<times> string) list" where
  "count_entries chain l = map (\<lambda>c. (GenCollectionListedKey chain (CollectionAddress c), itoa (ListCount c))) l"

lemma wp_cache:
  assumes "kv_works e"
  shows "distinct (map (\<lambda>c. ToLower (CollectionAddress c)) l) \<Longrightarrow>
    wp (cacheCollectionListCount e chain l) (\<lambda>r w'. r = Inr () \<and> tbl w' = tbl w \<and>
      kv_val w' = kv_val w ++ map_of (count_entries chain l)) w"
proof (induction l arbitrary: w)
  case (Cons c l)
  let ?k = "GenCollectionListedKey chain (CollectionAddress c)"
  have "map_of (count_entries chain l) ?k = None"
    using Cons.prems by (auto simp: count_entries_def map_of_eq_None_iff image_iff)
  then have "(kv_val w)(?k \<mapsto> v) ++ map_of (count_entries chain l) = kv_val w ++ (map_of (count_entries chain l))(?k \<mapsto> v)" for v
    by (auto simp: map_add_def split: option.split)
  then have eq: "(kv_val w)(?k \<mapsto> itoa (ListCount c)) ++ map_of (count_entries chain l)
      = kv_val w ++ map_of (count_entries chain (c # l))"
    by (simp add: count_entries_def)
  define w1 where "w1 = w\<lparr>n_kv := Suc (n_kv w), kv_val := (kv_val w)(?k \<mapsto> itoa (ListCount c))\<rparr>"
  have "kv_val w1 = (kv_val w)(?k \<mapsto> itoa (ListCount c))" and t: "tbl w1 = tbl w" unfolding w1_def by simp_all
  then have "kv_val w1 ++ map_of (count_entries chain l) = kv_val w ++ map_of (count_entries chain (c # l))"
    by (simp only: eq)
  then have "wp (cacheCollectionListCount e chain l) (\<lambda>r w'. r = Inr () \<and> tbl w' = tbl w \<and>
      kv_val w' = kv_val w ++ map_of (count_entries chain (c # l))) w1"
    using Cons.IH [of w1] Cons.prems t by simp
  then show ?case unfolding w1_def cacheCollectionListCount.simps wp_bind wp_kv_set [OF assms] sum.case .

qed (simp add: wp_return count_entries_def)

text \<open>The distinct tokens of the valid listings of a collection.\<close>

definition listed_tokens :: "env \<Rightarrow> tables \<Rightarrow> string \<Rightarrow> string set" where
  "listed_tokens e t addr = {ToLower (ord_token_id co) | co ci. co \<in> set (t_orders t) \<and> ci \<in> set (t_items t) \<and>
     valid_listing e co ci \<and> EqualFold (ord_collection_address co) addr}"

text \<open>Refreshing the counts stores, for every collection in question with a valid listing, the number
  of its distinct tokens with a valid listing. A collection without one is not stored at all: its old
  count, if any, stays.\<close>

theorem list_counts_cached:
  assumes e: "db_works e" "kv_works e" "folds_case e" "server_orders_rows e"
    and cs: "cs = [] \<or> (\<exists>c \<in> set cs. EqualFold addr c)"
  shows "wp (refresh_counts e chain cs) (\<lambda>_ w'. kv_val w' (GenCollectionListedKey chain addr) =
    (if listed_tokens e (tbl w) addr = {} then kv_val w (GenCollectionListedKey chain addr)
     else Some (itoa (card (listed_tokens e (tbl w) addr))))) w"
proof -
  have eq: "coll_eq e a b \<longleftrightarrow> ToLower a = ToLower b" for a b using e(3) by (simp add: folds_case_def)
  let ?rows = "filter (\<lambda>co. cs = [] \<or> list_ex (coll_eq e (ord_collection_address co)) cs)
                  (row_order e (map fst (join_listings e (tbl w))))"
  let ?at = "\<lambda>a. filter (\<lambda>co. coll_eq e (ord_collection_address co) a) ?rows"
  let ?reps = "classes_by (coll_eq e) (map ord_collection_address ?rows)"
  let ?l = "map (\<lambda>a. \<lparr>CollectionAddress = a, ListCount = length (classes_by (coll_eq e) (map ord_token_id (?at a)))\<rparr>) ?reps"
  let ?k = "GenCollectionListedKey chain"
  note rep = classes_by_fold [of "coll_eq e" ToLower, OF eq, of "map ord_collection_address ?rows"]
  have sr: "set (row_order e rs) = set rs" for rs
    using e(4) by (metis server_orders_rows_def set_mset_mset)
  have toks: "ToLower ` set (map ord_token_id (?at a)) = listed_tokens e (tbl w) addr" if "ToLower a = ToLower addr" for a
  proof -
    have "set (?at a) = {co \<in> set (t_orders (tbl w)). (\<exists>ci \<in> set (t_items (tbl w)). valid_listing e co ci) \<and>
        EqualFold (ord_collection_address co) addr}"
      using cs that by (auto simp: set_join_listings sr eq EqualFold_def list_ex_iff simp del: set_map)
    then have "ToLower ` set (map ord_token_id (?at a)) = ToLower ` ord_token_id `
        {co \<in> set (t_orders (tbl w)). (\<exists>ci \<in> set (t_items (tbl w)). valid_listing e co ci) \<and>
         EqualFold (ord_collection_address co) addr}"
      by (simp only: set_map)
    then show ?thesis unfolding listed_tokens_def by blast
  qed
  have reps: "(\<exists>a \<in> set ?reps. ToLower a = ToLower addr) \<longleftrightarrow> ?at addr \<noteq> []"
  proof -
    have "(\<exists>a \<in> set ?reps. ToLower a = ToLower addr) \<longleftrightarrow> ToLower addr \<in> ToLower ` set ?reps"
      by (rule image_member)
    also have "\<dots> \<longleftrightarrow> (\<exists>co \<in> set ?rows. ToLower (ord_collection_address co) = ToLower addr)"
      unfolding conjunct1 [OF conjunct2 [OF rep]] set_map image_image by (rule image_member [symmetric])
    also have "\<dots> \<longleftrightarrow> ?at addr \<noteq> []" unfolding filter_empty_conv eq by blast
    finally show ?thesis .
  qed

  have d: "distinct (map (\<lambda>c. ToLower (CollectionAddress c)) ?l)" using rep by (simp add: comp_def)
  have val: "map_of (count_entries chain ?l) (?k addr) =
     (if listed_tokens e (tbl w) addr = {} then None else Some (itoa (card (listed_tokens e (tbl w) addr))))"
  proof (cases "\<exists>a \<in> set ?reps. ToLower a = ToLower addr")
    case True
    then obtain a where a: "a \<in> set ?reps" "ToLower a = ToLower addr" by blast
    have "?at a \<noteq> []" using True a(2) unfolding reps eq by simp
    then have "listed_tokens e (tbl w) addr \<noteq> {}" using toks [OF a(2)] by auto
    moreover have "distinct (map fst (count_entries chain ?l))"
      using d by (simp add: count_entries_def distinct_map inj_on_def)
    then have "map_of (count_entries chain ?l) (?k a) = Some (itoa (length (classes_by (coll_eq e) (map ord_token_id (?at a)))))"
      using a(1) by (auto simp: count_entries_def intro!: map_of_is_SomeI)
    moreover have "length (classes_by (coll_eq e) (map ord_token_id (?at a))) = card (listed_tokens e (tbl w) addr)"
      using toks [OF a(2)] length_classes_by [of "coll_eq e" ToLower, OF eq] by simp
    moreover have "?k addr = ?k a" using a(2) by simp
    ultimately show ?thesis by presburger
  next
    case False
    then have "?at addr = []" unfolding reps by simp
    then have "listed_tokens e (tbl w) addr = {}" using toks [of addr] by simp
    moreover have "?k addr \<notin> fst ` set (count_entries chain ?l)" using False by (auto simp: count_entries_def)
    ultimately show ?thesis by (simp add: map_of_eq_None_iff)
  qed
  define l where "l = ?l"
  have run: "wp (countCollectionListed e cs) Q w = Q (Inr l) (w\<lparr>n_db := Suc (n_db w)\<rparr>)" for Q
    unfolding countCollectionListed_def wp_db_query [OF e(1)] Let_def l_def ..
  show ?thesis
    unfolding refresh_counts_def wp_bind run sum.case
    by (rule wp_mono [OF wp_cache [OF e(2) d [folded l_def]]])
      (simp add: wp_return val [folded l_def] map_add_def)
qed

theorem list_counts_cached_witness:
  "wp (refresh_counts plain_env ''eth'' []) (\<lambda>_ w'. kv_val w' (GenCollectionListedKey ''eth'' ''0xC'') = Some ''1'') sample_world"
proof -
  have "listed_tokens plain_env (tbl sample_world) ''0xC'' = {''7''}"
    by (auto simp: listed_tokens_def valid_listing_def sample_defs plain_env_def EqualFold_def status_defs order_type_defs)
  moreover have "itoa (Suc 0) = ''1''" by code_simp
  ultimately show ?thesis
    using list_counts_cached [of plain_env "[]" "''0xC''" "''eth''" sample_world] by simp
qed

end
