(* ===== verification/ChainCalls.thy ===== *)
theory ChainCalls
  imports OrderManager
begin

text \<open>
  How the indexer reads from the chain and from metadata servers
  (\<open>NFTMarket-sync/service/orderbookindexer/service.go\<close>): \<open>eth_call\<close> requests, the decoding of the ABI
  encoded answers with 64-bit offsets, the collection metadata, the approval checks. The node, the
  checksum spelling of addresses, the ABI package and the HTTP and JSON libraries are fields of the
  service record.
\<close>

section \<open>Bytes\<close>

type_synonym bytes = "8 word list"

definition bytes_string :: "bytes \<Rightarrow> string" where
  "bytes_string bs = map (\<lambda>b. char_of (unat b)) bs"

definition string_bytes :: "string \<Rightarrow> bytes" where
  "string_bytes s = map (\<lambda>c. word_of_nat (of_char c)) s"

text \<open>\<open>new(big.Int).SetBytes(bs)\<close>, and its \<open>Uint64()\<close>: the low 64 bits.\<close>

definition SetBytes :: "bytes \<Rightarrow> nat" where
  "SetBytes bs = foldl (\<lambda>n b. n * 256 + unat b) 0 bs"

definition Uint64 :: "nat \<Rightarrow> u64" where
  "Uint64 n = word_of_nat n"

text \<open>The bytes of a number, big endian, without leading zeros (\<open>Bytes()\<close>), and padded on the left to at
  least \<open>n\<close> bytes (\<open>common.LeftPadBytes\<close>).\<close>

fun min_bytes :: "nat \<Rightarrow> bytes" where
  "min_bytes x = (if x = 0 then [] else min_bytes (x div 256) @ [word_of_nat (x mod 256)])"

declare min_bytes.simps [simp del]

definition LeftPadBytes :: "bytes \<Rightarrow> nat \<Rightarrow> bytes" where
  "LeftPadBytes bs n = replicate (n - length bs) 0 @ bs"

text \<open>A slice expression \<open>bs[a:b]\<close> with unsigned 64-bit bounds.\<close>

definition slice_bytes :: "bytes \<Rightarrow> u64 \<Rightarrow> u64 \<Rightarrow> go_panic + bytes" where
  "slice_bytes bs a b =
     (if a \<le> b \<and> unat b \<le> length bs then Inr (take (unat b - unat a) (drop (unat a) bs)) else Inl SliceOutOfRange)"

text \<open>Hexadecimal notation, lower case, of the \<open>n\<close> low digits of a number.\<close>

definition hex_digit :: "nat \<Rightarrow> char" where
  "hex_digit d = (if d < 10 then char_of (48 + d) else char_of (87 + d))"

fun hex_digits :: "nat \<Rightarrow> nat \<Rightarrow> string" where
  "hex_digits 0 x = []"
| "hex_digits (Suc n) x = hex_digits n (x div 16) @ [hex_digit (x mod 16)]"

section \<open>Trimming\<close>

text \<open>The encodings of the white space characters of Unicode, which \<open>strings.TrimSpace\<close> removes.\<close>

definition space_seqs :: "string list" where
  "space_seqs = map (map char_of) ([[9], [10], [11], [12], [13], [32], [0xC2, 0x85], [0xC2, 0xA0], [0xE1, 0x9A, 0x80]]
     @ map (\<lambda>b. [0xE2, 0x80, b]) ([0x80..<0x8B] @ [0xA8, 0xA9, 0xAF]) @ [[0xE2, 0x81, 0x9F], [0xE3, 0x80, 0x80 :: nat]])"

definition is_prefix :: "string \<Rightarrow> string \<Rightarrow> bool" where
  "is_prefix q s \<longleftrightarrow> take (length q) s = q"

function trim_seqs :: "string list \<Rightarrow> string \<Rightarrow> string" where
  "trim_seqs qs s =
     (case find (\<lambda>q. q \<noteq> [] \<and> is_prefix q s) qs of
        None \<Rightarrow> s
      | Some q \<Rightarrow> trim_seqs qs (drop (length q) s))"
  by pat_completeness auto
termination
proof (relation "measure (\<lambda>(qs, s). length s)", simp)
  fix qs :: "string list" and s q
  assume "find (\<lambda>q. q \<noteq> [] \<and> is_prefix q s) qs = Some q"
  then have q: "q \<noteq> [] \<and> is_prefix q s" by (auto simp: find_Some_iff)
  then have "s \<noteq> []" by (auto simp: is_prefix_def)
  with q show "((qs, drop (length q) s), (qs, s)) \<in> measure (\<lambda>(qs, s). length s)" by simp
qed

declare trim_seqs.simps [simp del]

definition TrimSpace :: "string \<Rightarrow> string" where
  "TrimSpace s = rev (trim_seqs (map rev space_seqs) (rev (trim_seqs space_seqs s)))"

definition TrimRightNul :: "string \<Rightarrow> string" where
  "TrimRightNul s = rev (dropWhile (\<lambda>c. c = char_of (0::nat)) (rev s))"

section \<open>The service\<close>

text \<open>
  \<open>http_get\<close> answers a GET request with the status code and the body, \<open>json_image\<close> looks up the key
  \<open>image\<close> of a JSON object: no object, no such key, a value that is not a string, or a string.
  \<open>unpack_make\<close> and \<open>unpack_match\<close> decode the data of an event by the contract's ABI,
  \<open>block_number\<close> and \<open>filter_logs\<close> are the node's answers to the sync loop, and \<open>scan_null_price\<close> is what
  gorm's \<open>Scan\<close> gives for an SQL \<open>NULL\<close> read into a single \<open>decimal.Decimal\<close>.
\<close>

datatype json_lookup = NotAnObject | NoKey | NotAString | IsString string

record Log =
  log_Address :: "160 word"
  log_Topics :: "256 word list"
  log_Data :: bytes
  log_BlockNumber :: u64
  log_TxHash :: "256 word"

record make_event =
  mk_OrderKey :: "256 word"
  mk_TokenId :: nat
  mk_CollectionAddr :: "160 word"
  mk_Amount :: nat
  mk_Price :: nat
  mk_Expiry :: u64
  mk_Salt :: u64

record match_order =
  mo_Side :: "8 word"
  mo_Maker :: "160 word"
  mo_TokenId :: nat
  mo_CollectionAddr :: "160 word"

record match_event =
  MakeOrder :: match_order
  TakeOrder :: match_order
  FillPrice :: nat

record service =
  svc_env :: env
  svc_chain :: string
  chainId :: int
  vaultAddress :: string
  EthAddress :: string
  DexAddress :: string
  ProjectName :: string
  checksum :: "160 word \<Rightarrow> string"
  HexToAddress :: "string \<Rightarrow> 160 word"
  CallContract :: "nat \<Rightarrow> 160 word \<Rightarrow> bytes \<Rightarrow> error + bytes"
  http_get :: "nat \<Rightarrow> string \<Rightarrow> error + (int \<times> string)"
  json_image :: "string \<Rightarrow> json_lookup"
  big_on_failure :: "string \<Rightarrow> nat"
  unpack_make :: "bytes \<Rightarrow> make_event option"
  unpack_match :: "bytes \<Rightarrow> match_event option"
  block_number :: "nat \<Rightarrow> u64 result"
  filter_logs :: "nat \<Rightarrow> string \<Rightarrow> u64 \<Rightarrow> u64 \<Rightarrow> Log list result"
  scan_null_price :: "price result"

definition OrderBookDexProject :: string where
  "OrderBookDexProject = ''OrderBookDex''"

definition call_node :: "(nat \<Rightarrow> 'a) \<Rightarrow> 'a M" where
  "call_node f = State (\<lambda>w. (f (n_chain w), w\<lparr>n_chain := Suc (n_chain w)\<rparr>))"

section \<open>Strings in answers\<close>

text \<open>The decoding in \<open>callContractStringNoArgs\<close> and in \<open>getTokenURI\<close>. The comparisons are between signed
  lengths, the additions wrap.\<close>

definition decode_string :: "bytes \<Rightarrow> go_panic + (string result)" where
  "decode_string result =
     (if length result < 64 then Inr (Inl ErrResponseLength)
      else
        (let offset = Uint64 (SetBytes (take 32 result))
         in if int (length result) < int64_of (offset + 32) then Inr (Inl ErrOffset)
            else (case slice_bytes result offset (offset + 32) of
                Inl p \<Rightarrow> Inl p
              | Inr lbytes \<Rightarrow>
                  (let len = Uint64 (SetBytes lbytes)
                   in if int (length result) < int64_of (offset + 32 + len) then Inr (Inl ErrStringLength)
                      else (case slice_bytes result (offset + 32) (offset + 32 + len) of
                          Inl p \<Rightarrow> Inl p
                        | Inr value \<Rightarrow> Inr (Inr (TrimSpace (TrimRightNul (bytes_string value)))))))))"

definition decode_token_uri :: "bytes \<Rightarrow> go_panic + (string result)" where
  "decode_token_uri result =
     (if length result < 32 then Inr (Inl ErrResponseLength)
      else
        (let offset = Uint64 (SetBytes (take 32 result))
         in if offset = 0 \<or> int (length result) < int64_of (offset + 32) then Inr (Inl ErrOffset)
            else (case slice_bytes result offset (offset + 32) of
                Inl p \<Rightarrow> Inl p
              | Inr lbytes \<Rightarrow>
                  (let len = Uint64 (SetBytes lbytes)
                   in if len = 0 \<or> int (length result) < int64_of (offset + 32 + len)
                      then Inr (Inl ErrStringLength)
                      else (case slice_bytes result (offset + 32) (offset + 32 + len) of
                          Inl p \<Rightarrow> Inl p
                        | Inr value \<Rightarrow> Inr (Inr (TrimSpace (TrimRightNul (bytes_string value)))))))))"

section \<open>Calls\<close>

text \<open>A method signature is \<open>0x\<close> and eight hexadecimal digits; \<open>Hex2Bytes\<close> decodes the digits.\<close>

definition hex_value :: "char \<Rightarrow> nat" where
  "hex_value c = (let n = of_char c in if 48 \<le> n \<and> n \<le> 57 then n - 48
     else if 97 \<le> n \<and> n \<le> 102 then n - 87 else if 65 \<le> n \<and> n \<le> 70 then n - 55 else 0)"

fun Hex2Bytes :: "string \<Rightarrow> bytes" where
  "Hex2Bytes (a # b # s) = word_of_nat (hex_value a * 16 + hex_value b) # Hex2Bytes s"
| "Hex2Bytes _ = []"

definition valid_method :: "string \<Rightarrow> bool" where
  "valid_method sig \<longleftrightarrow> is_prefix ''0x'' sig \<and> length sig = 10"

definition callContractStringNoArgs :: "service \<Rightarrow> string \<Rightarrow> string \<Rightarrow> (go_panic + (string result)) M" where
  "callContractStringNoArgs s contractAddress methodSig =
     (if \<not> valid_method methodSig then State_Monad.return (Inr (Inl ErrMethodSignature))
      else do {
        r \<leftarrow> call_node (\<lambda>n. CallContract s n (HexToAddress s contractAddress) (Hex2Bytes (drop 2 methodSig)));
        State_Monad.return (case r of Inl err \<Rightarrow> Inr (Inl err) | Inr result \<Rightarrow> decode_string result)
      })"

definition last_address :: "bytes \<Rightarrow> 160 word" where
  "last_address result = word_of_nat (SetBytes (drop (length result - 20) result))"

definition callContractAddressNoArgs :: "service \<Rightarrow> string \<Rightarrow> string \<Rightarrow> string result M" where
  "callContractAddressNoArgs s contractAddress methodSig =
     (if \<not> valid_method methodSig then State_Monad.return (Inl ErrMethodSignature)
      else do {
        r \<leftarrow> call_node (\<lambda>n. CallContract s n (HexToAddress s contractAddress) (Hex2Bytes (drop 2 methodSig)));
        State_Monad.return (case r of
            Inl err \<Rightarrow> Inl err
          | Inr result \<Rightarrow> if length result < 32 then Inl ErrResponseLength else Inr (checksum s (last_address result)))
      })"

definition callSupportsInterface :: "service \<Rightarrow> string \<Rightarrow> string \<Rightarrow> bool result M" where
  "callSupportsInterface s contractAddress interfaceID =
     (if \<not> valid_method interfaceID then State_Monad.return (Inl ErrMethodSignature)
      else do {
        r \<leftarrow> call_node (\<lambda>n. CallContract s n (HexToAddress s contractAddress)
               (Hex2Bytes ''01ffc9a7'' @ Hex2Bytes (drop 2 interfaceID) @ replicate 28 0));
        State_Monad.return (case r of
            Inl err \<Rightarrow> Inl err
          | Inr result \<Rightarrow> if length result < 32 then Inl ErrResponseLength else Inr (last result = 1))
      })"

definition detectTokenStandard :: "service \<Rightarrow> string \<Rightarrow> int result M" where
  "detectTokenStandard s collectionAddress = do {
     is721 \<leftarrow> callSupportsInterface s collectionAddress ''0x80ac58cd'';
     is1155 \<leftarrow> callSupportsInterface s collectionAddress ''0xd9b67a26'';
     State_Monad.return
       (if is_err is721 \<and> is_err is1155 then Inl ErrAllCallsFailed
        else if is1155 = Inr True then Inr 1155
        else if is721 = Inr True then Inr 721
        else Inr 721)
   }"

definition isUnknownCollectionName :: "string \<Rightarrow> bool" where
  "isUnknownCollectionName name = (let normalized = ToLower (TrimSpace name)
     in normalized = '''' \<or> normalized = ''unknown collection'' \<or> normalized = ''unknown'')"

definition isUnknownCollectionSymbol :: "string \<Rightarrow> bool" where
  "isUnknownCollectionSymbol symbol = (let normalized = ToLower (TrimSpace symbol)
     in normalized = '''' \<or> normalized = ''unknown'')"

definition isZeroAddress :: "string \<Rightarrow> bool" where
  "isZeroAddress addr = EqualFold (TrimSpace addr) ZeroAddress"

text \<open>The value part of a Go pair \<open>(value, error)\<close>: the zero value when there is an error.\<close>

definition value_or :: "'a \<Rightarrow> 'a result \<Rightarrow> 'a" where
  "value_or z r = (case r of Inl _ \<Rightarrow> z | Inr a \<Rightarrow> a)"

record collection_meta =
  cm_name :: string
  cm_symbol :: string
  cm_standard :: int
  cm_creator :: string
  cm_failed :: bool

definition meta_of :: "string result \<Rightarrow> string result \<Rightarrow> int result \<Rightarrow> string result \<Rightarrow> collection_meta" where
  "meta_of nameR symbolR stdR creatorR =
     (let name = value_or '''' nameR; symbol = value_or '''' symbolR;
          std = value_or 0 stdR; creator = value_or '''' creatorR
      in \<lparr>cm_name = (if TrimSpace name = '''' then ''Unknown Collection'' else name),
          cm_symbol = (if TrimSpace symbol = '''' then ''Unknown'' else symbol),
          cm_standard = (if std = 0 then 721 else std),
          cm_creator = (if is_err creatorR \<or> isZeroAddress creator then ZeroAddress else creator),
          cm_failed = (is_err nameR \<and> is_err symbolR \<and> is_err stdR)\<rparr>)"

definition fetchCollectionMeta :: "service \<Rightarrow> string \<Rightarrow> (go_panic + collection_meta) M" where
  "fetchCollectionMeta s collectionAddress = do {
     n \<leftarrow> callContractStringNoArgs s collectionAddress ''0x06fdde03'';
     case n of
       Inl p \<Rightarrow> State_Monad.return (Inl p)
     | Inr nameR \<Rightarrow> do {
         y \<leftarrow> callContractStringNoArgs s collectionAddress ''0x95d89b41'';
         case y of
           Inl p \<Rightarrow> State_Monad.return (Inl p)
         | Inr symbolR \<Rightarrow> do {
             stdR \<leftarrow> detectTokenStandard s collectionAddress;
             creatorR \<leftarrow> callContractAddressNoArgs s collectionAddress ''0x8da5cb5b'';
             State_Monad.return (Inr (meta_of nameR symbolR stdR creatorR))
           }
       }
   }"

definition getTokenURI :: "service \<Rightarrow> string \<Rightarrow> nat \<Rightarrow> (go_panic + (string result)) M" where
  "getTokenURI s collectionAddress tokenId = do {
     r \<leftarrow> call_node (\<lambda>n. CallContract s n (HexToAddress s collectionAddress)
            (Hex2Bytes ''c87b56dd'' @ LeftPadBytes (min_bytes tokenId) 32));
     State_Monad.return (case r of Inl err \<Rightarrow> Inr (Inl err) | Inr result \<Rightarrow> decode_token_uri result)
   }"

definition getImageFromMetadata :: "service \<Rightarrow> string \<Rightarrow> string result M" where
  "getImageFromMetadata s metaDataURI = do {
     r \<leftarrow> call_node (\<lambda>n. http_get s n metaDataURI);
     State_Monad.return (case r of
         Inl err \<Rightarrow> Inl err
       | Inr (status, body) \<Rightarrow>
           if status \<noteq> 200 then Inl ErrHTTP
           else (case json_image s body of
               NotAnObject \<Rightarrow> Inl ErrJSON
             | NoKey \<Rightarrow> Inl ErrNoImage
             | NotAString \<Rightarrow> Inl ErrNoImage
             | IsString img \<Rightarrow> Inr img))
   }"

section \<open>Approvals\<close>

definition getApprovedAddress :: "service \<Rightarrow> string \<Rightarrow> nat \<Rightarrow> (160 word) result M" where
  "getApprovedAddress s collectionAddress tokenId = do {
     r \<leftarrow> call_node (\<lambda>n. CallContract s n (HexToAddress s collectionAddress)
            (Hex2Bytes ''081812fc'' @ LeftPadBytes (min_bytes tokenId) 32));
     State_Monad.return (case r of
         Inl err \<Rightarrow> Inl err
       | Inr result \<Rightarrow> if length result < 32 then Inl ErrResponseLength
           else Inr (word_of_nat (SetBytes (take 20 (drop 12 result)))))
   }"

text \<open>\<open>big.Int.SetString(s, 10)\<close>: an optional sign and decimal digits. On failure the receiver is
  undefined (\<open>big_on_failure\<close>), and the approval check goes on with it.\<close>

definition is_digit :: "char \<Rightarrow> bool" where
  "is_digit c \<longleftrightarrow> (let n = (of_char c :: nat) in 48 \<le> n \<and> n \<le> 57)"

definition digits_value :: "string \<Rightarrow> nat" where
  "digits_value s = foldl (\<lambda>n c. n * 10 + (of_char c - 48)) 0 s"

definition SetString10 :: "string \<Rightarrow> int option" where
  "SetString10 s =
     (let body = (case s of c # cs \<Rightarrow> if c = CHR ''-'' \<or> c = CHR ''+'' then cs else s | [] \<Rightarrow> [])
      in if body = [] \<or> \<not> list_all is_digit body then None
         else Some (if hd s = CHR ''-'' then - int (digits_value body) else int (digits_value body)))"

text \<open>\<open>Bytes()\<close> of a big integer is the absolute value.\<close>

definition big_abs :: "int \<Rightarrow> nat" where
  "big_abs i = nat \<bar>i\<bar>"

definition CheckNFTApprovalStatus :: "service \<Rightarrow> string \<Rightarrow> string \<Rightarrow> bool result M" where
  "CheckNFTApprovalStatus s collectionAddress tokenId = do {
     r \<leftarrow> getApprovedAddress s collectionAddress
            (case SetString10 tokenId of None \<Rightarrow> big_on_failure s tokenId | Some i \<Rightarrow> big_abs i);
     State_Monad.return (case r of
         Inl err \<Rightarrow> Inl err
       | Inr approvedAddress \<Rightarrow> Inr (EqualFold (checksum s approvedAddress) (vaultAddress s)))
   }"

fun CheckMultipleNFTApprovals :: "service \<Rightarrow> (string \<times> string) list \<Rightarrow> (string \<times> bool) list \<Rightarrow> (string \<times> bool) list M" where
  "CheckMultipleNFTApprovals s [] results = State_Monad.return results"
| "CheckMultipleNFTApprovals s ((collectionAddress, tokenId) # nfts) results = do {
     r \<leftarrow> CheckNFTApprovalStatus s collectionAddress tokenId;
     CheckMultipleNFTApprovals s nfts
       (AList.update (collectionAddress @ '':'' @ tokenId) (value_or False r) results)
   }"

text \<open>\<open>CanMarketBuyNFT\<close>, without the explanation it returns beside the verdict.\<close>

definition CanMarketBuyNFT :: "service \<Rightarrow> string \<Rightarrow> string \<Rightarrow> bool result M" where
  "CanMarketBuyNFT s collectionAddress tokenId = do {
     r \<leftarrow> CheckNFTApprovalStatus s collectionAddress tokenId;
     case r of
       Inl err \<Rightarrow> State_Monad.return (Inl err)
     | Inr False \<Rightarrow> State_Monad.return (Inr False)
     | Inr True \<Rightarrow> do {
         t \<leftarrow> now (svc_env s);
         q \<leftarrow> db_query (svc_env s) (\<lambda>t1. filter (\<lambda>co.
                coll_eq (svc_env s) (ord_collection_address co) (ToLower collectionAddress) \<and>
                coll_eq (svc_env s) (ord_token_id co) tokenId \<and> ord_order_type co = ListingOrder \<and>
                ord_order_status co = OrderStatusActive \<and> ord_expire_time co > t) (t_orders t1));
         State_Monad.return (case q of Inl err \<Rightarrow> Inl err | Inr os \<Rightarrow> Inr (os \<noteq> []))
       }
   }"

section \<open>Decoding\<close>

lemma length_slice_bytes: "slice_bytes bs a b = Inr r \<Longrightarrow> length r = unat b - unat a"
  by (auto simp: slice_bytes_def split: if_splits)

lemma slice_bytes_iff:
  "(\<exists>p. slice_bytes bs a b = Inl p) \<longleftrightarrow> \<not> (uint a \<le> uint b \<and> uint b \<le> int (length bs))"
  by (auto simp: slice_bytes_def word_le_def nat_le_iff simp flip: nat_uint_eq)

text \<open>The signed reading of a sum of two unsigned 64-bit numbers.\<close>

lemma int64_of_eq: "int64_of x = (if uint x < 2 ^ 63 then uint x else uint x - 2 ^ 64)"
proof -
  have e: "int64_of x = (uint x + 2 ^ 63) mod 2 ^ 64 - 2 ^ 63"
    by (simp add: int64_of_def sint_uint signed_take_bit_eq_take_bit_shift take_bit_eq_mod)
  have b: "0 \<le> uint x" "uint x < 2 ^ 64" using uint_lt2p [of x] by simp_all
  show ?thesis
  proof (cases "uint x < 2 ^ 63")
    case True
    then have "(uint x + 2 ^ 63) mod 2 ^ 64 = uint x + 2 ^ 63"
      using b by (intro mod_pos_pos_trivial) simp_all
    then show ?thesis using e True by simp
  next
    case False
    have "(uint x + 2 ^ 63) mod 2 ^ 64 = (uint x + 2 ^ 63 - 2 ^ 64) mod 2 ^ 64"
      by (rule minus_mod_self2 [symmetric])
    also have "\<dots> = uint x + 2 ^ 63 - 2 ^ 64" using b False by (intro mod_pos_pos_trivial) simp_all
    finally show ?thesis using e False by simp
  qed
qed

lemma uint_add_cases:
  fixes x y :: u64
  shows "uint (x + y) = (if uint x + uint y < 2 ^ 64 then uint x + uint y else uint x + uint y - 2 ^ 64)"
  using uint_lt2p [of x] uint_lt2p [of y] by (simp add: uint_plus_if_size word_size)

lemma slice_after_check:
  assumes len: "int (length bs) < 2 ^ 63" and chk: "\<not> int (length bs) < int64_of (a + k)"
  shows "(\<exists>p. slice_bytes bs a (a + k) = Inl p) \<longleftrightarrow> 2 ^ 63 \<le> uint a + uint k"
proof -
  have b: "0 \<le> uint a" "0 \<le> uint k" "uint a < 2 ^ 64" "uint k < 2 ^ 64"
    using uint_lt2p [of a] uint_lt2p [of k] by simp_all
  show ?thesis
  proof (cases "uint a + uint k < 2 ^ 64")
    case True
    then have s: "uint (a + k) = uint a + uint k" by (simp add: uint_add_cases)
    have "\<not> int (length bs) < (if uint a + uint k < 2 ^ 63 then uint a + uint k else uint a + uint k - 2 ^ 64)"
      using chk unfolding int64_of_eq s .
    then show ?thesis unfolding slice_bytes_iff s using len b by (auto split: if_splits)
  next
    case False
    then have s: "uint (a + k) = uint a + uint k - 2 ^ 64" by (simp add: uint_add_cases)
    show ?thesis unfolding slice_bytes_iff s using False b by auto
  qed
qed

text \<open>The offset an answer claims, and the length it claims at that offset.\<close>

definition claimed_offset :: "bytes \<Rightarrow> u64" where
  "claimed_offset r = Uint64 (SetBytes (take 32 r))"

definition claimed_length :: "bytes \<Rightarrow> u64" where
  "claimed_length r = Uint64 (SetBytes (take 32 (drop (unat (claimed_offset r)) r)))"

definition decode_string_panics :: "bytes \<Rightarrow> bool" where
  "decode_string_panics r \<longleftrightarrow> (\<exists>p. decode_string r = Inl p)"

lemma decode_string_panics_iff:
  assumes len: "int (length r) < 2 ^ 63"
  shows "decode_string_panics r \<longleftrightarrow> 64 \<le> length r \<and>
    (2 ^ 63 \<le> uint (claimed_offset r) + 32 \<or>
     (uint (claimed_offset r) + 32 \<le> int (length r) \<and> 2 ^ 63 \<le> uint (claimed_offset r) + 32 + uint (claimed_length r)))"
proof (cases "length r < 64")
  case True
  then show ?thesis by (simp add: decode_string_panics_def decode_string_def)
next
  case l64: False
  let ?o = "claimed_offset r"
  have u32: "uint (32 :: u64) = 32" by simp
  show ?thesis
  proof (cases "int (length r) < int64_of (?o + 32)")
    case True
    then have "\<not> decode_string_panics r"
      using l64 by (simp add: decode_string_panics_def decode_string_def claimed_offset_def Let_def)
    moreover have "int (length r) < uint ?o + 32 \<and> uint ?o + 32 < 2 ^ 63"
      using True l64 uint_lt2p [of ?o] by (auto simp: int64_of_eq uint_add_cases split: if_splits)
    ultimately show ?thesis by auto
  next
    case chk: False
    note sl = slice_after_check [OF len chk, unfolded u32]
    show ?thesis
    proof (cases "2 ^ 63 \<le> uint ?o + 32")
      case True
      then obtain p where "slice_bytes r ?o (?o + 32) = Inl p" using sl by blast
      then show ?thesis
        using True l64 chk by (simp add: decode_string_panics_def decode_string_def claimed_offset_def Let_def)
    next
      case False
      then have no: "\<nexists>p. slice_bytes r ?o (?o + 32) = Inl p" using sl by blast
      have o32: "uint (?o + 32) = uint ?o + 32" using False by (simp add: uint_add_cases)
      have le: "uint ?o + 32 \<le> int (length r)" using chk False by (simp add: int64_of_eq o32)
      have un: "unat (?o + 32) - unat ?o = 32"
        unfolding unat_eq_nat_uint o32 by (simp add: nat_add_distrib)
      have ls: "slice_bytes r ?o (?o + 32) = Inr (take 32 (drop (unat ?o) r))"
        using no un by (auto simp: slice_bytes_def split: if_splits)
      let ?l = "claimed_length r"
      have step: "decode_string_panics r \<longleftrightarrow> \<not> int (length r) < int64_of (?o + 32 + ?l) \<and>
          (\<exists>p. slice_bytes r (?o + 32) (?o + 32 + ?l) = Inl p)"
        using l64 chk ls
        by (auto simp: decode_string_panics_def decode_string_def claimed_offset_def [symmetric]
            claimed_length_def [folded claimed_offset_def] Let_def split: sum.splits)
      show ?thesis
      proof (cases "int (length r) < int64_of (?o + 32 + ?l)")
        case True
        moreover have "uint ?o + 32 + uint ?l < 2 ^ 63"
          using True False le uint_lt2p [of ?l] by (auto simp: int64_of_eq uint_add_cases [of "?o + 32"] o32 split: if_splits)
        ultimately show ?thesis using False step by auto
      next
        case chk2: False
        then show ?thesis
          using step slice_after_check [OF len chk2] False le l64 by (simp add: o32)
      qed
    qed
  qed
qed

text \<open>An honest answer: the offset 32, the length, the string, padding.\<close>

definition abi_string :: "string \<Rightarrow> bytes \<Rightarrow> bytes" where
  "abi_string v padding = LeftPadBytes (min_bytes 32) 32 @ LeftPadBytes (min_bytes (length v)) 32 @ string_bytes v @ padding"

lemma SetBytes_append1: "SetBytes (bs @ [b]) = SetBytes bs * 256 + unat b"
  by (simp add: SetBytes_def)

lemma SetBytes_min_bytes: "SetBytes (min_bytes x) = x"
proof (induction x rule: min_bytes.induct)
  case (1 x)
  then show ?case
    by (subst min_bytes.simps) (auto simp: SetBytes_append1 unat_of_nat SetBytes_def [of "[]"])
qed

lemma SetBytes_zeros: "SetBytes (replicate n 0 @ bs) = SetBytes bs"
  by (induction n) (simp_all add: SetBytes_def)

lemma SetBytes_LeftPad: "SetBytes (LeftPadBytes (min_bytes x) n) = x"
  by (simp add: LeftPadBytes_def SetBytes_zeros SetBytes_min_bytes)

lemma length_min_bytes: "x < 256 ^ n \<Longrightarrow> length (min_bytes x) \<le> n"
proof (induction n arbitrary: x)
  case (Suc n)
  have "x div 256 < 256 ^ n" using Suc.prems by (simp add: less_mult_imp_div_less mult.commute)
  then show ?case using Suc.IH by (subst min_bytes.simps) auto
qed (simp add: min_bytes.simps)

lemma length_LeftPad: "x < 256 ^ n \<Longrightarrow> length (LeftPadBytes (min_bytes x) n) = n"
  using length_min_bytes [of x n] by (simp add: LeftPadBytes_def)

lemma bytes_string_bytes: "bytes_string (string_bytes v) = v"
proof -
  have "char_of (unat (word_of_nat (of_char c) :: 8 word)) = c" for c :: char
    by (simp add: unat_of_nat)
  then show ?thesis by (simp add: bytes_string_def string_bytes_def comp_def)
qed

lemma length_string_bytes [simp]: "length (string_bytes v) = length v"
  by (simp add: string_bytes_def)

lemma unat_of_nat64: "n < 2 ^ 63 \<Longrightarrow> unat (word_of_nat n :: u64) = n"
  by (simp add: unat_of_nat)

lemma decode_abi_string:
  assumes "length v + length padding < 2 ^ 62"
  shows "decode_string (abi_string v padding) = Inr (Inr (TrimSpace (TrimRightNul v)))"
proof -
  let ?H = "LeftPadBytes (min_bytes 32) 32" and ?L = "LeftPadBytes (min_bytes (length v)) 32"
  let ?r = "abi_string v padding"
  have lv: "length v < 2 ^ 62" using assms by simp
  have h: "length ?H = 32" "length ?L = 32" using lv by (simp_all add: length_LeftPad)
  have len: "length ?r = 64 + length v + length padding" by (simp add: abi_string_def h)
  have off: "Uint64 (SetBytes (take 32 ?r)) = 32" by (simp add: abi_string_def h SetBytes_LeftPad Uint64_def)
  have s1: "slice_bytes ?r 32 64 = Inr ?L" using len by (simp add: slice_bytes_def abi_string_def h)
  have ll: "Uint64 (SetBytes ?L) = word_of_nat (length v)" by (simp add: SetBytes_LeftPad Uint64_def)
  have uv: "uint (word_of_nat (length v) :: u64) = int (length v)"
    using lv by (simp add: uint_nat unat_of_nat64)
  then have u: "uint (64 + word_of_nat (length v) :: u64) = 64 + int (length v)"
    using lv by (simp add: uint_add_cases)
  then have un: "unat (64 + word_of_nat (length v) :: u64) = 64 + length v"
    unfolding unat_eq_nat_uint by simp
  have le: "(64 :: u64) \<le> 64 + word_of_nat (length v)" by (simp add: word_le_def u)
  have s2: "slice_bytes ?r 64 (64 + word_of_nat (length v)) = Inr (string_bytes v)"
    using len le un by (simp add: slice_bytes_def abi_string_def h)
  have c2: "int64_of (64 + word_of_nat (length v)) = 64 + int (length v)" using lv by (simp add: int64_of_eq u)
  have c1: "int64_of 64 = 64" by (simp add: int64_of_eq)
  show ?thesis
    using len by (simp add: decode_string_def off s1 ll s2 c1 c2 bytes_string_bytes)
qed

text \<open>A string that starts and ends with a printable ASCII character is not trimmed.\<close>

definition printable :: "char \<Rightarrow> bool" where
  "printable c \<longleftrightarrow> (let n = (of_char c :: nat) in 33 \<le> n \<and> n \<le> 126)"

lemma space_seqs_ends: "\<forall>q \<in> set space_seqs. q \<noteq> [] \<and> \<not> printable (hd q) \<and> \<not> printable (last q)"
proof -
  have upt: "[0x80..<0x8B] = [0x80, 0x81, 0x82, 0x83, 0x84, 0x85, 0x86, 0x87, 0x88, 0x89, 0x8A :: nat]"
    by (simp add: upt_rec)
  show ?thesis unfolding space_seqs_def upt by (simp add: printable_def Let_def)
qed

lemma trim_seqs_keep:
  "v = [] \<or> printable (hd v) \<Longrightarrow> \<forall>q \<in> set qs. q = [] \<or> \<not> printable (hd q) \<Longrightarrow> trim_seqs qs v = v"
proof -
  assume v: "v = [] \<or> printable (hd v)" and qs: "\<forall>q \<in> set qs. q = [] \<or> \<not> printable (hd q)"
  have "find (\<lambda>q. q \<noteq> [] \<and> is_prefix q v) qs = None"
    using v qs by (cases v) (auto simp: find_None_iff is_prefix_def neq_Nil_conv)
  then show ?thesis by (simp add: trim_seqs.simps)
qed

lemma TrimSpace_keep:
  assumes "v = [] \<or> printable (hd v) \<and> printable (last v)"
  shows "TrimSpace v = v"
proof -
  have "trim_seqs space_seqs v = v"
    using assms space_seqs_ends by (intro trim_seqs_keep) auto
  moreover have "trim_seqs (map rev space_seqs) (rev v) = rev v"
    using assms space_seqs_ends by (intro trim_seqs_keep) (auto simp: hd_rev)
  ultimately show ?thesis by (simp add: TrimSpace_def)
qed

lemma TrimRightNul_keep: "v = [] \<or> printable (last v) \<Longrightarrow> TrimRightNul v = v"
  by (cases v rule: rev_cases) (auto simp: TrimRightNul_def printable_def Let_def)

text \<open>C28: the answers that crash the indexer, exactly. Decoding \<open>name()\<close> or \<open>symbol()\<close> panics iff the
  claimed offset or the claimed length makes an end position of \<open>2^63\<close> or more: the length checks
  compare signed numbers after wrapping additions. The answer comes from the collection's contract, which
  anybody can deploy.\<close>

theorem decode_panics_exactly:
  assumes "int (length r) < 2 ^ 63"
  shows "(\<exists>p. decode_string r = Inl p) \<longleftrightarrow> 64 \<le> length r \<and>
    (2 ^ 63 \<le> uint (claimed_offset r) + 32 \<or>
     (uint (claimed_offset r) + 32 \<le> int (length r) \<and> 2 ^ 63 \<le> uint (claimed_offset r) + 32 + uint (claimed_length r)))"
  using decode_string_panics_iff [OF assms] by (simp add: decode_string_panics_def)

theorem decode_panics_exactly_witness:
  "\<exists>p. decode_string (replicate 24 0 @ replicate 8 255 @ replicate 32 0) = Inl p"
proof -
  let ?r = "replicate 24 0 @ replicate 8 255 @ replicate 32 0 :: bytes"
  have "replicate 8 (255 :: 8 word) = [255, 255, 255, 255, 255, 255, 255, 255]" by (simp add: eval_nat_numeral)
  then have "SetBytes (replicate 8 255) = 2 ^ 64 - 1" by (simp add: SetBytes_def)
  then have "SetBytes (take 32 ?r) = 2 ^ 64 - 1" by (simp add: SetBytes_zeros)
  then have "uint (claimed_offset ?r) = 2 ^ 64 - 1"
    by (simp add: claimed_offset_def Uint64_def uint_nat unat_of_nat)
  with decode_panics_exactly [of ?r] show ?thesis by simp
qed

text \<open>The round trip. An answer that encodes a string, with any padding, decodes to the string
  without its trailing NUL bytes and its surrounding white space; so to the string itself, if that
  starts and ends with a printable ASCII character.\<close>

theorem decode_honest_answer:
  assumes "length v + length padding < 2 ^ 62"
  shows "decode_string (abi_string v padding) = Inr (Inr (TrimSpace (TrimRightNul v))) \<and>
    (v = [] \<or> printable (hd v) \<and> printable (last v) \<longrightarrow> decode_string (abi_string v padding) = Inr (Inr v))"
  using decode_abi_string [OF assms] TrimSpace_keep [of v] TrimRightNul_keep [of v] by auto

theorem decode_honest_answer_witness:
  "decode_string (abi_string ''CryptoPunks'' (replicate 21 0)) = Inr (Inr ''CryptoPunks'')"
  using conjunct2 [OF decode_honest_answer [of "''CryptoPunks''" "replicate 21 0"]] by (simp add: printable_def)

section \<open>Frames\<close>

text \<open>Calls change nothing but the count of calls.\<close>

definition only_calls :: "world \<Rightarrow> world \<Rightarrow> bool" where
  "only_calls w w' \<longleftrightarrow> (\<exists>k. w' = w\<lparr>n_chain := k\<rparr>)"

lemma wp_call_node [wp_simps]: "wp (call_node f) Q w = Q (f (n_chain w)) (w\<lparr>n_chain := Suc (n_chain w)\<rparr>)"
  by (simp add: call_node_def wp_State)

lemma keeps_call_node: "(\<And>w. P w \<Longrightarrow> P (w\<lparr>n_chain := Suc (n_chain w)\<rparr>)) \<Longrightarrow> keeps P (call_node f)"
  by (simp add: keeps_def call_node_def)

lemma keeps_calls:
  assumes "\<And>w. P w \<Longrightarrow> P (w\<lparr>n_chain := Suc (n_chain w)\<rparr>)"
  shows "keeps P (callContractStringNoArgs s a m)" "keeps P (callContractAddressNoArgs s a m)"
    "keeps P (callSupportsInterface s a m)" "keeps P (getTokenURI s a tok)" "keeps P (getImageFromMetadata s u)"
    "keeps P (getApprovedAddress s a tok)"
  unfolding callContractStringNoArgs_def callContractAddressNoArgs_def callSupportsInterface_def getTokenURI_def
    getImageFromMetadata_def getApprovedAddress_def
  by (intro keeps_intro keeps_call_node assms; assumption)+

lemma keeps_meta_calls:
  assumes "\<And>w. P w \<Longrightarrow> P (w\<lparr>n_chain := Suc (n_chain w)\<rparr>)"
  shows "keeps P (detectTokenStandard s a)" "keeps P (fetchCollectionMeta s a)"
  unfolding detectTokenStandard_def fetchCollectionMeta_def
  by (intro keeps_intro keeps_calls assms; assumption)+

lemma only_calls_step: "only_calls w0 w \<Longrightarrow> only_calls w0 (w\<lparr>n_chain := Suc (n_chain w)\<rparr>)"
  by (auto simp: only_calls_def)

section \<open>Who may buy\<close>

text \<open>The market is said to be able to buy a token only if the vault is approved for it and an active
  listing of it that has not expired is in the table; a call only reads, and a failed query of the node
  or of the table is never a yes.\<close>

theorem can_buy_is_justified:
  assumes "run_state (CanMarketBuyNFT s addr tok) w = (Inr True, w')"
  shows "\<exists>a co. EqualFold (checksum s a) (vaultAddress s) \<and> co \<in> set (t_orders (tbl w)) \<and>
      coll_eq (svc_env s) (ord_collection_address co) (ToLower addr) \<and> coll_eq (svc_env s) (ord_token_id co) tok \<and>
      ord_order_type co = ListingOrder \<and> ord_order_status co = OrderStatusActive \<and>
      clock (svc_env s) (n_clock w) < ord_expire_time co \<and> tbl w' = tbl w"
proof -
  have "only_calls w (snd (run_state (CheckNFTApprovalStatus s addr tok) w))"
    unfolding CheckNFTApprovalStatus_def
    by (rule keepsD [where P = "only_calls w"])
      (auto intro!: keeps_intro keeps_calls only_calls_step simp: only_calls_def intro: exI [of _ "n_chain w"])
  then obtain r k where c: "run_state (CheckNFTApprovalStatus s addr tok) w = (r, w\<lparr>n_chain := k\<rparr>)"
    by (auto simp: only_calls_def) (metis prod.collapse)
  have r: "\<exists>a. EqualFold (checksum s a) (vaultAddress s)" if "r = Inr True"
    using c that by (auto simp: CheckNFTApprovalStatus_def split: sum.splits prod.splits)
  show ?thesis
    using assms r unfolding CanMarketBuyNFT_def run_bind c
    by (auto simp: now_def db_query_def db_exec_def Let_def filter_empty_conv
        split: sum.splits bool.splits prod.splits outcome.splits)
qed

text \<open>A concrete service: every call answers the word 1, and address 1 is the vault.\<close>

definition sample_service :: service where
  "sample_service = \<lparr>svc_env = plain_env, svc_chain = ''eth'', chainId = 1, vaultAddress = ''0xa'', EthAddress = ''1'',
     DexAddress = ''2'', ProjectName = OrderBookDexProject, checksum = (\<lambda>a. if a = 1 then ''0xA'' else ZeroAddress),
     HexToAddress = (\<lambda>_. 0), CallContract = (\<lambda>_ _ _. Inr (replicate 31 0 @ [1])),
     http_get = (\<lambda>_ _. Inr (404, '''')), json_image = (\<lambda>_. NotAnObject), big_on_failure = (\<lambda>_. 0),
     unpack_make = (\<lambda>_. None), unpack_match = (\<lambda>_. None), block_number = (\<lambda>_. Inr 1000),
     filter_logs = (\<lambda>_ _ _ _. Inr []), scan_null_price = Inl DBError\<rparr>"

theorem can_buy_is_justified_witness:
  "\<exists>w'. run_state (CanMarketBuyNFT sample_service ''0xC'' ''7'') sample_world = (Inr True, w') \<and> tbl w' = tbl sample_world"
proof -
  have a: "getApprovedAddress sample_service ''0xC'' n = State (\<lambda>w. (Inr 1, w\<lparr>n_chain := Suc (n_chain w)\<rparr>))" for n
    by (simp add: getApprovedAddress_def call_node_def sample_service_def State_Monad.bind_def SetBytes_def
        eval_nat_numeral)
  have "\<exists>w'. run_state (CanMarketBuyNFT sample_service ''0xC'' ''7'') sample_world = (Inr True, w')"
    unfolding CanMarketBuyNFT_def CheckNFTApprovalStatus_def a
    by (simp add: sample_service_def EqualFold_def now_def db_query_def db_exec_def plain_env_def sample_defs
        status_defs order_type_defs)
  with can_buy_is_justified show ?thesis by blast
qed

section \<open>Numbers as strings\<close>
lemma digit_char: "d < 10 \<Longrightarrow> is_digit (char_of (48 + d)) \<and> (of_char (char_of (48 + d :: nat)) :: nat) = 48 + d"
  by (simp add: is_digit_def)

lemma itoa_not_empty: "itoa n \<noteq> []"
  by (subst itoa.simps) simp

lemma itoa_digits: "list_all is_digit (itoa n)"
proof (induction n rule: itoa.induct)
  case (1 n)
  then show ?case using digit_char [of n] digit_char [of "n mod 10"] by (subst itoa.simps) simp
qed

lemma digits_value_append: "digits_value (xs @ [c]) = digits_value xs * 10 + (of_char c - 48)"
  by (simp add: digits_value_def)

lemma digits_value_itoa: "digits_value (itoa n) = n"
proof (induction n rule: itoa.induct)
  case (1 n)
  show ?case
  proof (cases "n < 10")
    case True
    then show ?thesis using digit_char [of n] by (subst itoa.simps) (simp add: digits_value_def)
  next
    case False
    have "digits_value (itoa n) = digits_value (itoa (n div 10)) * 10 + n mod 10"
      using False by (subst itoa.simps) (simp add: digits_value_append)
    then show ?thesis using 1 False by simp
  qed
qed

lemma token_id_digits: "SetString10 (itoa n) = Some (int n)"
proof -
  obtain c cs where c: "itoa n = c # cs" using itoa_not_empty [of n] by (cases "itoa n") auto
  have "is_digit c" using itoa_digits [of n] c by simp
  then have "c \<noteq> CHR ''-''" "c \<noteq> CHR ''+''" by (auto simp: is_digit_def)
  then show ?thesis
    using c itoa_digits [of n] digits_value_itoa [of n] by (simp add: SetString10_def)
qed

text \<open>The token id written by one handler is read back as the same number by another
  (\<open>big.Int.String\<close> and \<open>SetString\<close>).\<close>

theorem token_id_round_trip: "SetString10 (itoa n) = Some (int n)"
  by (rule token_id_digits)

end
