(* ===== verification/Maintenance.thy ===== *)
theory Maintenance
  imports ChainCalls
begin

text \<open>
  How the indexer keeps the item, collection and metadata tables
  (\<open>NFTMarket-sync/service/orderbookindexer/service.go\<close>, from \<open>maintainCollectionAndItem\<close> to
  \<open>syncItemOnMatchOrCancel\<close>, and \<open>createItemExternal\<close>), the unique keys of the tables
  (\<open>NFTMarket-sync/db/migrations/01_create.sql\<close>) and the names of the tables
  (\<open>EasySwapBase/stores/gdb\<close>). The handlers of the events (theory \<open>Indexer\<close>) call these routines.
\<close>

section \<open>Table names\<close>

definition OrderTableName :: "string \<Rightarrow> string" where
  "OrderTableName chain = ''ob_order_'' @ chain"
definition ItemTableName :: "string \<Rightarrow> string" where
  "ItemTableName chain = ''ob_item_'' @ chain"
definition CollectionTableName :: "string \<Rightarrow> string" where
  "CollectionTableName chain = ''ob_collection_'' @ chain"
definition ActivityTableName :: "string \<Rightarrow> string" where
  "ActivityTableName chain = ''ob_activity_'' @ chain"
definition CollectionFloorPriceTableName :: "string \<Rightarrow> string" where
  "CollectionFloorPriceTableName chain = ''ob_collection_floor_price_'' @ chain"
definition ItemExternalTableName :: "string \<Rightarrow> string" where
  "ItemExternalTableName chain = ''ob_item_external_'' @ chain"
definition ItemTraitTableName :: "string \<Rightarrow> string" where
  "ItemTraitTableName chain = ''ob_item_trait_'' @ chain"
definition CollectionTradeTableName :: "string \<Rightarrow> string" where
  "CollectionTradeTableName chain = ''ob_collection_trade_'' @ chain"

text \<open>The \<open>GetMultiProject...TableName\<close> functions: no name for another project.\<close>

definition multi_name :: "(string \<Rightarrow> string) \<Rightarrow> string \<Rightarrow> string \<Rightarrow> string" where
  "multi_name name project chain = (if project = OrderBookDexProject then name chain else '''')"

definition GetMultiProjectOrderTableName :: "string \<Rightarrow> string \<Rightarrow> string" where
  "GetMultiProjectOrderTableName = multi_name OrderTableName"
definition GetMultiProjectItemTableName :: "string \<Rightarrow> string \<Rightarrow> string" where
  "GetMultiProjectItemTableName = multi_name ItemTableName"
definition GetMultiProjectCollectionTableName :: "string \<Rightarrow> string \<Rightarrow> string" where
  "GetMultiProjectCollectionTableName = multi_name CollectionTableName"
definition GetMultiProjectActivityTableName :: "string \<Rightarrow> string \<Rightarrow> string" where
  "GetMultiProjectActivityTableName = multi_name ActivityTableName"
definition GetMultiProjectCollectionFloorPriceTableName :: "string \<Rightarrow> string \<Rightarrow> string" where
  "GetMultiProjectCollectionFloorPriceTableName = multi_name CollectionFloorPriceTableName"
definition GetMultiProjectItemExternalTableName :: "string \<Rightarrow> string \<Rightarrow> string" where
  "GetMultiProjectItemExternalTableName = multi_name ItemExternalTableName"
definition GetMultiProjectItemTraitTableName :: "string \<Rightarrow> string \<Rightarrow> string" where
  "GetMultiProjectItemTraitTableName = multi_name ItemTraitTableName"
definition GetMultiProjectCollectionTradeTableName :: "string \<Rightarrow> string \<Rightarrow> string" where
  "GetMultiProjectCollectionTradeTableName = multi_name CollectionTradeTableName"

text \<open>A statement on a table with an empty name is rejected before it touches a table.\<close>

definition on_named :: "string \<Rightarrow> 'a result M \<Rightarrow> 'a result M" where
  "on_named table m = (if table = '''' then State_Monad.return (Inl DBError) else m)"

section \<open>Panics\<close>

text \<open>Sequencing of code that may panic; \<open>finish\<close> is a return.\<close>

type_synonym 'a panicking = "(go_panic + 'a) M"

definition bindp :: "'a panicking \<Rightarrow> ('a \<Rightarrow> 'b panicking) \<Rightarrow> 'b panicking" where
  "bindp m f = do { r \<leftarrow> m; case r of Inl p \<Rightarrow> State_Monad.return (Inl p) | Inr a \<Rightarrow> f a }"

definition finish :: "unit panicking" where
  "finish = State_Monad.return (Inr ())"

definition lift_panic :: "'a M \<Rightarrow> 'a panicking" where
  "lift_panic m = do { a \<leftarrow> m; State_Monad.return (Inr a) }"

lemma keeps_bindp [keeps_intro]: "keeps P m \<Longrightarrow> (\<And>a. keeps P (f a)) \<Longrightarrow> keeps P (bindp m f)"
  unfolding bindp_def by (intro keeps_intro) auto

lemma keeps_finish [keeps_intro]: "keeps P finish"
  unfolding finish_def by (rule keeps_return)

lemma keeps_lift_panic [keeps_intro]: "keeps P m \<Longrightarrow> keeps P (lift_panic m)"
  unfolding lift_panic_def by (intro keeps_intro)

lemma keeps_on_named [keeps_intro]: "keeps P m \<Longrightarrow> keeps P (on_named n m)"
  unfolding on_named_def by (intro keeps_intro)

lemma wp_bindp [wp_simps]:
  "wp (bindp m f) Q w = wp m (\<lambda>r w1. case r of Inl p \<Rightarrow> Q (Inl p) w1 | Inr a \<Rightarrow> wp (f a) Q w1) w"
  by (auto simp: bindp_def wp_def split: prod.split sum.split)

lemma wp_finish [wp_simps]: "wp finish Q w = Q (Inr ()) w"
  by (simp add: finish_def wp_return)

lemma wp_lift_panic [wp_simps]: "wp (lift_panic m) Q w = wp m (\<lambda>a. Q (Inr a)) w"
  by (auto simp: lift_panic_def wp_def split: prod.split)

lemma wp_now_milli [wp_simps]:
  "wp (now_milli e) Q w = Q (clock_milli e (n_clock w)) (w\<lparr>n_clock := Suc (n_clock w)\<rparr>)"
  by (simp add: wp_def now_milli_def)

lemma wp_if [wp_simps]: "wp (if b then m else n) Q w = (if b then wp m Q w else wp n Q w)"
  by simp

section \<open>Unique keys\<close>

definition same_order :: "env \<Rightarrow> OrderRow \<Rightarrow> OrderRow \<Rightarrow> bool" where
  "same_order e r r' \<longleftrightarrow> coll_eq e (ord_order_id r) (ord_order_id r')"

definition same_item :: "env \<Rightarrow> ItemRow \<Rightarrow> ItemRow \<Rightarrow> bool" where
  "same_item e r r' \<longleftrightarrow> coll_eq e (item_collection_address r) (item_collection_address r') \<and>
     coll_eq e (item_token_id r) (item_token_id r')"

definition same_activity :: "env \<Rightarrow> ActivityRow \<Rightarrow> ActivityRow \<Rightarrow> bool" where
  "same_activity e r r' \<longleftrightarrow> coll_eq e (act_tx_hash r) (act_tx_hash r') \<and>
     coll_eq e (act_collection_address r) (act_collection_address r') \<and>
     coll_eq e (act_token_id r) (act_token_id r') \<and> act_type r = act_type r'"

definition same_collection :: "env \<Rightarrow> CollectionRow \<Rightarrow> CollectionRow \<Rightarrow> bool" where
  "same_collection e r r' \<longleftrightarrow> coll_eq e (col_address r) (col_address r')"

definition same_external :: "env \<Rightarrow> ItemExternalRow \<Rightarrow> ItemExternalRow \<Rightarrow> bool" where
  "same_external e r r' \<longleftrightarrow> coll_eq e (ext_collection_address r) (ext_collection_address r') \<and>
     coll_eq e (ext_token_id r) (ext_token_id r')"

text \<open>A plain \<open>INSERT\<close>: the statement fails when the unique key is taken.\<close>

definition insert_strict :: "('r \<Rightarrow> 'r \<Rightarrow> bool) \<Rightarrow> 'r \<Rightarrow> 'r list \<Rightarrow> unit result \<times> 'r list" where
  "insert_strict same r rows =
     (if list_ex (\<lambda>r'. same r' r) rows then (Inl ErrDuplicateKey, rows) else (Inr (), rows @ [r]))"

text \<open>\<open>First\<close> and \<open>Take\<close>: the first selected row, or \<open>gorm.ErrRecordNotFound\<close>.\<close>

definition db_first :: "env \<Rightarrow> (tables \<Rightarrow> 'r list) \<Rightarrow> 'r result M" where
  "db_first e q = do {
     r \<leftarrow> db_query e q;
     State_Monad.return (case r of
         Inl err \<Rightarrow> Inl err
       | Inr [] \<Rightarrow> Inl RecordNotFound
       | Inr (x # _) \<Rightarrow> Inr x)
   }"

section \<open>Metadata of items\<close>

text \<open>\<open>createItemExternal\<close>: the metadata and the image are looked up first, then the row is inserted;
  when its key is taken the statement only sets \<open>update_time\<close> to itself.\<close>

definition limit512 :: "string \<Rightarrow> string" where
  "limit512 u = (if 512 < length u then take 512 u else u)"

definition insert_external :: "service \<Rightarrow> string \<Rightarrow> string \<Rightarrow> string \<Rightarrow> string \<Rightarrow> unit result M" where
  "insert_external s collectionAddress tokenId metaDataURI imageURI = db_update (svc_env s) (\<lambda>t.
     t\<lparr>t_item_external := insert_ignore (\<lambda>r r'. same_external (svc_env s) r' r)
        \<lparr>ext_collection_address = collectionAddress, ext_token_id = tokenId,
         ext_meta_data_uri = metaDataURI, ext_image_uri = imageURI, ext_is_uploaded_oss = False, ext_oss_uri = [],
         ext_is_video_uploaded = False, ext_video_type = [], ext_video_uri = [], ext_video_oss_uri = []\<rparr> (t_item_external t)\<rparr>)"

definition image_of_uri :: "service \<Rightarrow> string \<Rightarrow> string M" where
  "image_of_uri s metaDataURI =
     (if metaDataURI = '''' then State_Monad.return ''''
      else do {
        r \<leftarrow> getImageFromMetadata s metaDataURI;
        State_Monad.return (case r of Inl _ \<Rightarrow> '''' | Inr img \<Rightarrow> limit512 img)
      })"

definition createItemExternal :: "service \<Rightarrow> string \<Rightarrow> string \<Rightarrow> unit panicking" where
  "createItemExternal s collectionAddress tokenId = do {
     _ \<leftarrow> now (svc_env s);
     bindp
       (case SetString10 tokenId of
          None \<Rightarrow> State_Monad.return (Inr ('''', ''''))
        | Some n \<Rightarrow> bindp (getTokenURI s collectionAddress (big_abs n)) (\<lambda>r.
            case r of
              Inl _ \<Rightarrow> State_Monad.return (Inr ('''', ''''))
            | Inr uri \<Rightarrow> do {
                img \<leftarrow> image_of_uri s (limit512 uri);
                State_Monad.return (Inr (limit512 uri, img))
              }))
       (\<lambda>(metaDataURI, imageURI). do {
          _ \<leftarrow> insert_external s collectionAddress tokenId metaDataURI imageURI;
          finish
        })
   }"

section \<open>Collections\<close>

text \<open>\<open>getCollectionImageFromItem\<close>. The item table has no column \<open>image_uri\<close>
  (\<open>01_create.sql\<close>, \<open>multi.Item\<close>), so that the fall-back query is rejected by the server.\<close>

definition getCollectionImageFromItem :: "service \<Rightarrow> string \<Rightarrow> string \<Rightarrow> string M" where
  "getCollectionImageFromItem s collectionAddress tokenId = do {
     r \<leftarrow> db_first (svc_env s) (\<lambda>t. filter (\<lambda>r.
            coll_eq (svc_env s) (ext_collection_address r) collectionAddress \<and>
            coll_eq (svc_env s) (ext_token_id r) tokenId) (t_item_external t));
     case r of
       Inr ext \<Rightarrow>
         if TrimSpace (ext_image_uri ext) \<noteq> '''' then State_Monad.return (ext_image_uri ext)
         else do { _ \<leftarrow> db_query (svc_env s) (\<lambda>_. ()); State_Monad.return '''' }
     | Inl _ \<Rightarrow> do { _ \<leftarrow> db_query (svc_env s) (\<lambda>_. ()); State_Monad.return '''' }
   }"

definition new_collection ::
  "service \<Rightarrow> int \<Rightarrow> string \<Rightarrow> collection_meta \<Rightarrow> string \<Rightarrow> int \<Rightarrow> CollectionRow" where
  "new_collection s row_id collectionAddress meta img t =
     \<lparr>col_address = collectionAddress, col_chain_id = chainId s, col_symbol = cm_symbol meta,
      col_name = cm_name meta, col_image_uri = img, col_creator = cm_creator meta,
      col_token_standard = cm_standard meta, col_floor_price = None, col_sale_price = None,
      col_volume_total = 0, col_floor_price_status = 0, col_update_time = t, col_id = row_id, col_banner = [],
      col_banner_uri = [], col_item_amount = 0, col_owner_amount = 0\<rparr>"

text \<open>The columns to fill in: those that are unknown in the table and known now.\<close>

record fills =
  fill_name :: bool
  fill_symbol :: bool
  fill_image :: bool
  fill_creator :: bool
  fill_standard :: bool

definition fills_of :: "CollectionRow \<Rightarrow> collection_meta \<Rightarrow> string \<Rightarrow> fills" where
  "fills_of existing meta img =
     \<lparr>fill_name = (isUnknownCollectionName (col_name existing) \<and> \<not> isUnknownCollectionName (cm_name meta)),
      fill_symbol = (isUnknownCollectionSymbol (col_symbol existing) \<and> \<not> isUnknownCollectionSymbol (cm_symbol meta)),
      fill_image = (TrimSpace (col_image_uri existing) = '''' \<and> TrimSpace img \<noteq> ''''),
      fill_creator = (isZeroAddress (col_creator existing) \<and> \<not> isZeroAddress (cm_creator meta)),
      fill_standard = (col_token_standard existing = 0 \<and> cm_standard meta \<noteq> 0)\<rparr>"

definition no_fills :: "fills \<Rightarrow> bool" where
  "no_fills u \<longleftrightarrow> \<not> fill_name u \<and> \<not> fill_symbol u \<and> \<not> fill_image u \<and> \<not> fill_creator u \<and> \<not> fill_standard u"

definition apply_fills :: "fills \<Rightarrow> collection_meta \<Rightarrow> string \<Rightarrow> int \<Rightarrow> CollectionRow \<Rightarrow> CollectionRow" where
  "apply_fills u meta img t c = c\<lparr>
     col_name := (if fill_name u then cm_name meta else col_name c),
     col_symbol := (if fill_symbol u then cm_symbol meta else col_symbol c),
     col_image_uri := (if fill_image u then img else col_image_uri c),
     col_creator := (if fill_creator u then cm_creator meta else col_creator c),
     col_token_standard := (if fill_standard u then cm_standard meta else col_token_standard c),
     col_update_time := t\<rparr>"

definition ensureCollectionExists :: "service \<Rightarrow> string \<Rightarrow> string \<Rightarrow> unit panicking" where
  "ensureCollectionExists s collectionAddress tokenId = (
     let e = svc_env s;
         table = GetMultiProjectCollectionTableName (ProjectName s) (svc_chain s);
         this = (\<lambda>c. coll_eq e (col_address c) collectionAddress)
     in do {
       n \<leftarrow> on_named table (db_query e (\<lambda>t. length (filter this (t_collections t))));
       case n of
         Inl _ \<Rightarrow> finish
       | Inr cnt \<Rightarrow> bindp (fetchCollectionMeta s collectionAddress) (\<lambda>meta. do {
           img \<leftarrow> getCollectionImageFromItem s collectionAddress tokenId;
           if cnt = 0 then do {
             t0 \<leftarrow> now e;
             _ \<leftarrow> on_named table (db_exec e (\<lambda>t.
                    (let (r, rows) = insert_strict (same_collection e)
                           (new_collection s (auto_id e (map col_id (t_collections t))) collectionAddress meta img t0)
                           (t_collections t)
                     in (r, t\<lparr>t_collections := rows\<rparr>))));
             finish
           }
           else do {
             ex \<leftarrow> on_named table (db_first e (\<lambda>t. filter this (t_collections t)));
             case ex of
               Inl _ \<Rightarrow> finish
             | Inr existing \<Rightarrow>
                 (let u = fills_of existing meta img
                  in if no_fills u then finish
                     else do {
                       t0 \<leftarrow> now e;
                       _ \<leftarrow> on_named table (db_update e (\<lambda>t. t\<lparr>t_collections :=
                              update_where this (apply_fills u meta img t0) (t_collections t)\<rparr>));
                       finish
                     })
           }
         })
     })"

section \<open>Items\<close>

definition this_item :: "env \<Rightarrow> string \<Rightarrow> string \<Rightarrow> ItemRow \<Rightarrow> bool" where
  "this_item e collectionAddress tokenId r \<longleftrightarrow>
     coll_eq e (item_collection_address r) collectionAddress \<and> coll_eq e (item_token_id r) tokenId"

text \<open>\<open>LOWER(collection_address) = LOWER(?) AND token_id = ?\<close>\<close>

definition this_item_lower :: "env \<Rightarrow> string \<Rightarrow> string \<Rightarrow> ItemRow \<Rightarrow> bool" where
  "this_item_lower e collectionAddress tokenId r \<longleftrightarrow>
     coll_eq e (ToLower (item_collection_address r)) (ToLower collectionAddress) \<and>
     coll_eq e (item_token_id r) tokenId"

definition listed_at :: "price \<Rightarrow> int \<Rightarrow> ItemRow \<Rightarrow> ItemRow" where
  "listed_at p t r = r\<lparr>item_list_price := Some p, item_list_time := t, item_update_time := t\<rparr>"

definition base_item :: "service \<Rightarrow> string \<Rightarrow> string \<Rightarrow> price \<Rightarrow> int \<Rightarrow> ItemRow" where
  "base_item s collectionAddress tokenId p t =
     \<lparr>item_chain_id = chainId s, item_collection_address = collectionAddress, item_token_id = tokenId,
      item_name = ''Token #'' @ tokenId, item_owner = None, item_creator = ZeroAddress, item_supply = 1,
      item_list_price = Some p, item_list_time = t, item_sale_price = None, item_views = 0,
      item_is_opensea_banned = False, item_update_time = t\<rparr>"

definition updateItemListingInfo :: "service \<Rightarrow> string \<Rightarrow> string \<Rightarrow> price \<Rightarrow> unit M" where
  "updateItemListingInfo s collectionAddress tokenId p = (
     let e = svc_env s;
         table = GetMultiProjectItemTableName (ProjectName s) (svc_chain s);
         this = this_item e collectionAddress tokenId
     in do {
       t0 \<leftarrow> now e;
       r \<leftarrow> on_named table (db_exec e (\<lambda>t.
              (rows_affected e this (listed_at p t0) (t_items t),
               t\<lparr>t_items := update_where this (listed_at p t0) (t_items t)\<rparr>)));
       case r of
         Inl _ \<Rightarrow> State_Monad.return ()
       | Inr affected \<Rightarrow>
           if affected = 0 then do {
             _ \<leftarrow> on_named table (db_exec e (\<lambda>t.
                    (let (x, rows) = insert_strict (same_item e) (base_item s collectionAddress tokenId p t0) (t_items t)
                     in (x, t\<lparr>t_items := rows\<rparr>))));
             State_Monad.return ()
           }
           else State_Monad.return ()
     })"

text \<open>\<open>SELECT MIN(list_price)\<close> over the listed items of the collection, \<open>None\<close> for \<open>NULL\<close>.\<close>

definition listed_prices :: "env \<Rightarrow> string \<Rightarrow> tables \<Rightarrow> price list" where
  "listed_prices e collectionAddress t =
     filter (\<lambda>p. 0 < p) (concat (map (\<lambda>r. case item_list_price r of None \<Rightarrow> [] | Some p \<Rightarrow> [p])
       (filter (\<lambda>r. coll_eq e (item_collection_address r) collectionAddress) (t_items t))))"

definition min_of :: "price list \<Rightarrow> price option" where
  "min_of ps = (case ps of [] \<Rightarrow> None | p # qs \<Rightarrow> Some (fold min qs p))"

definition updateCollectionFloorPrice :: "service \<Rightarrow> string \<Rightarrow> unit M" where
  "updateCollectionFloorPrice s collectionAddress = (
     let e = svc_env s;
         itemTable = GetMultiProjectItemTableName (ProjectName s) (svc_chain s);
         collectionTable = GetMultiProjectCollectionTableName (ProjectName s) (svc_chain s)
     in do {
       r \<leftarrow> on_named itemTable (db_query e (\<lambda>t. min_of (listed_prices e collectionAddress t)));
       case (case r of Inl err \<Rightarrow> Inl err | Inr None \<Rightarrow> scan_null_price s | Inr (Some p) \<Rightarrow> Inr p) of
         Inl _ \<Rightarrow> State_Monad.return ()
       | Inr minPrice \<Rightarrow> do {
           _ \<leftarrow> on_named collectionTable (db_update e (\<lambda>t. t\<lparr>t_collections :=
                  update_where (\<lambda>c. coll_eq e (col_address c) collectionAddress)
                    (\<lambda>c. c\<lparr>col_floor_price := Some minPrice\<rparr>) (t_collections t)\<rparr>));
           State_Monad.return ()
         }
     })"

definition maintainCollectionAndItem :: "service \<Rightarrow> string \<Rightarrow> string \<Rightarrow> price \<Rightarrow> unit panicking" where
  "maintainCollectionAndItem s collectionAddress tokenId p =
     bindp (ensureCollectionExists s collectionAddress tokenId) (\<lambda>_. do {
       _ \<leftarrow> updateItemListingInfo s collectionAddress tokenId p;
       _ \<leftarrow> updateCollectionFloorPrice s collectionAddress;
       finish
     })"

definition on_sale :: "string \<Rightarrow> price \<Rightarrow> int \<Rightarrow> ItemRow \<Rightarrow> ItemRow" where
  "on_sale mk p t r = r\<lparr>item_owner := Some mk, item_list_price := Some p, item_sale_price := Some p,
     item_supply := 1, item_list_time := t, item_update_time := t\<rparr>"

definition syncItemOnListing :: "service \<Rightarrow> string \<Rightarrow> string \<Rightarrow> string \<Rightarrow> price \<Rightarrow> unit M" where
  "syncItemOnListing s collectionAddress tokenId mk p = do {
     t0 \<leftarrow> now (svc_env s);
     _ \<leftarrow> on_named (GetMultiProjectItemTableName (ProjectName s) (svc_chain s)) (db_update (svc_env s) (\<lambda>t.
            t\<lparr>t_items := update_where (this_item_lower (svc_env s) collectionAddress tokenId)
               (on_sale mk p t0) (t_items t)\<rparr>));
     State_Monad.return ()
   }"

definition off_sale :: "price \<Rightarrow> int \<Rightarrow> ItemRow \<Rightarrow> ItemRow" where
  "off_sale p t r = r\<lparr>item_supply := 0, item_list_price := Some 0, item_sale_price := Some p, item_update_time := t\<rparr>"

definition syncItemOnMatchOrCancel :: "service \<Rightarrow> string \<Rightarrow> string \<Rightarrow> price \<Rightarrow> unit M" where
  "syncItemOnMatchOrCancel s collectionAddress tokenId salePrice = do {
     t0 \<leftarrow> now (svc_env s);
     _ \<leftarrow> on_named (GetMultiProjectItemTableName (ProjectName s) (svc_chain s)) (db_update (svc_env s) (\<lambda>t.
            t\<lparr>t_items := update_where (this_item_lower (svc_env s) collectionAddress tokenId)
               (off_sale salePrice t0) (t_items t)\<rparr>));
     State_Monad.return ()
   }"

section \<open>Invariants of the tables\<close>

text \<open>
  What an invariant of the tables must tolerate for the indexer to keep it: rows are inserted when their
  key is free (activities when they satisfy \<open>A\<close>), updated without a change of their key, and activities
  and old floor prices are deleted.
  The lemmas about the routines are proved from these laws once; each invariant is an interpretation.
\<close>

locale table_laws =
  fixes s :: service and I :: "tables \<Rightarrow> bool" and A :: "ActivityRow \<Rightarrow> bool"
  assumes order_insert: "I t \<Longrightarrow> I (t\<lparr>t_orders := insert_ignore (\<lambda>r r'. same_order (svc_env s) r' r) co (t_orders t)\<rparr>)"
    and order_update: "I t \<Longrightarrow> (\<And>co. ord_order_id (f1 co) = ord_order_id co) \<Longrightarrow>
      I (t\<lparr>t_orders := update_where P1 f1 (t_orders t)\<rparr>)"
    and item_insert: "I t \<Longrightarrow> I (t\<lparr>t_items := insert_ignore (\<lambda>r r'. same_item (svc_env s) r' r) ci (t_items t)\<rparr>)"
    and item_update: "I t \<Longrightarrow>
      (\<And>ci. item_collection_address (f2 ci) = item_collection_address ci \<and> item_token_id (f2 ci) = item_token_id ci) \<Longrightarrow>
      I (t\<lparr>t_items := update_where P2 f2 (t_items t)\<rparr>)"
    and activity_insert: "I t \<Longrightarrow> A a \<Longrightarrow>
      I (t\<lparr>t_activities := insert_ignore (\<lambda>r r'. same_activity (svc_env s) r' r) a (t_activities t)\<rparr>)"
    and activity_delete: "I t \<Longrightarrow> I (t\<lparr>t_activities := filter P3 (t_activities t)\<rparr>)"
    and collection_insert: "I t \<Longrightarrow>
      I (t\<lparr>t_collections := snd (insert_strict (same_collection (svc_env s)) c (t_collections t))\<rparr>)"
    and collection_update: "I t \<Longrightarrow> (\<And>c. col_address (f4 c) = col_address c) \<Longrightarrow>
      I (t\<lparr>t_collections := update_where P4 f4 (t_collections t)\<rparr>)"
    and external_insert: "I t \<Longrightarrow>
      I (t\<lparr>t_item_external := insert_ignore (\<lambda>r r'. same_external (svc_env s) r' r) x (t_item_external t)\<rparr>)"
begin

lemma item_insert_strict:
  "I t \<Longrightarrow> I (t\<lparr>t_items := snd (insert_strict (same_item (svc_env s)) ci (t_items t))\<rparr>)"
  using item_insert [of t ci] by (auto simp: insert_strict_def insert_ignore_def)

lemma strict_rows:
  "I t \<Longrightarrow> insert_strict (same_collection (svc_env s)) c (t_collections t) = (r, rows) \<Longrightarrow>
     I (t\<lparr>t_collections := rows\<rparr>)"
  "I t \<Longrightarrow> insert_strict (same_item (svc_env s)) ci (t_items t) = (r, rows') \<Longrightarrow> I (t\<lparr>t_items := rows'\<rparr>)"
  using collection_insert [of t c] item_insert_strict [of t ci] by simp_all

lemma keeps_chain_call: "keeps (on_tables I) (call_node f)"
  by (rule keeps_call_node) (simp add: on_tables_def)

lemma keeps_first: "keeps (on_tables I) (db_first e q)"
  unfolding db_first_def by (intro keeps_intro)

lemma keeps_node_reads:
  "keeps (on_tables I) (getTokenURI s a n)" "keeps (on_tables I) (getImageFromMetadata s u)"
  "keeps (on_tables I) (fetchCollectionMeta s a)"
  by (rule keeps_calls keeps_meta_calls; simp add: on_tables_def)+

lemma keeps_createItemExternal: "keeps (on_tables I) (createItemExternal s a n)"
  unfolding createItemExternal_def insert_external_def image_of_uri_def
  by (intro keeps_intro keeps_node_reads keeps_tables_update external_insert)

lemma keeps_ensureCollectionExists: "keeps (on_tables I) (ensureCollectionExists s a n)"
  unfolding ensureCollectionExists_def getCollectionImageFromItem_def Let_def
  by (intro keeps_tables_exec keeps_tables_update keeps_node_reads keeps_first keeps_intro collection_update;
      auto simp: apply_fills_def split: prod.split intro: strict_rows)

lemma keeps_updateItemListingInfo: "keeps (on_tables I) (updateItemListingInfo s a n p)"
  unfolding updateItemListingInfo_def Let_def
  by (intro keeps_tables_exec keeps_tables_update keeps_intro item_update;
      auto simp: listed_at_def split: prod.split intro: strict_rows item_update)

lemma keeps_updateCollectionFloorPrice: "keeps (on_tables I) (updateCollectionFloorPrice s a)"
  unfolding updateCollectionFloorPrice_def Let_def
  by (intro keeps_tables_update keeps_intro collection_update; simp)

lemma keeps_maintain: "keeps (on_tables I) (maintainCollectionAndItem s a n p)"
  unfolding maintainCollectionAndItem_def
  by (intro keeps_ensureCollectionExists keeps_updateItemListingInfo keeps_updateCollectionFloorPrice keeps_intro)

lemma keeps_sync_item:
  "keeps (on_tables I) (syncItemOnListing s a n mk p)" "keeps (on_tables I) (syncItemOnMatchOrCancel s a n p)"
  unfolding syncItemOnListing_def syncItemOnMatchOrCancel_def
  by (intro keeps_tables_update keeps_intro item_update; simp add: on_sale_def off_sale_def)+
end

text \<open>The unique keys of the tables: no row has the key of a row stored before it.\<close>

definition no_duplicates :: "('r \<Rightarrow> 'r \<Rightarrow> bool) \<Rightarrow> 'r list \<Rightarrow> bool" where
  "no_duplicates same rows \<longleftrightarrow> sorted_wrt (\<lambda>r r'. \<not> same r r') rows"

definition unique_keys :: "env \<Rightarrow> tables \<Rightarrow> bool" where
  "unique_keys e t \<longleftrightarrow> no_duplicates (same_order e) (t_orders t) \<and> no_duplicates (same_item e) (t_items t) \<and>
     no_duplicates (same_activity e) (t_activities t) \<and> no_duplicates (same_collection e) (t_collections t) \<and>
     no_duplicates (same_external e) (t_item_external t)"

lemma no_duplicates_insert:
  "no_duplicates same rows \<Longrightarrow> no_duplicates same (insert_ignore (\<lambda>r r'. same r' r) x rows)"
  by (auto simp: no_duplicates_def insert_ignore_def sorted_wrt_append list_ex_iff)

lemma no_duplicates_strict: "no_duplicates same rows \<Longrightarrow> no_duplicates same (snd (insert_strict same x rows))"
  by (auto simp: no_duplicates_def insert_strict_def sorted_wrt_append list_ex_iff)

lemma no_duplicates_filter: "no_duplicates same rows \<Longrightarrow> no_duplicates same (filter P rows)"
  by (simp add: no_duplicates_def sorted_wrt_filter)

lemma no_duplicates_update:
  assumes "\<And>a b. same (f a) b = same a b" "\<And>a b. same a (f b) = same a b" "no_duplicates same rows"
  shows "no_duplicates same (update_where P f rows)"
proof -
  have "same (if P a then f a else a) (if P b then f b else b) = same a b" for a b
    using assms(1,2) by simp
  then show ?thesis using assms(3) by (simp add: no_duplicates_def update_where_def sorted_wrt_map)
qed


lemmas same_defs = same_order_def same_item_def same_activity_def same_collection_def same_external_def

interpretation unique: table_laws s "unique_keys (svc_env s)" "\<lambda>_. True" for s
  by unfold_locales (auto simp: unique_keys_def no_duplicates_insert no_duplicates_strict no_duplicates_filter
    intro!: no_duplicates_update, (simp add: same_defs)+)

text \<open>The routines do not touch the index status, nor the history of floor prices.\<close>

interpretation status: table_laws s "\<lambda>t. t_indexed_status t = X \<and> t_floor_prices t = Y" "\<lambda>_. True" for s X Y
  by unfold_locales auto

end
