(* ===== verification/FloorHistory.thy ===== *)
theory FloorHistory
  imports Maintenance
begin

text \<open>
  The second loop of the indexer, \<open>UpKeepingCollectionFloorChangeLoop\<close>
  (\<open>NFTMarket-sync/service/orderbookindexer/service.go\<close>): every ten seconds the floor price of each
  collection with a valid listing is appended to the floor price history, once a day the rows older
  than sixty days are deleted.
\<close>

section \<open>Constants\<close>

definition DBBatchSizeLimit :: nat where "DBBatchSizeLimit = 200"
definition CollectionFloorChangeIndexType :: int where "CollectionFloorChangeIndexType = 5"
definition CollectionFloorTimeRange :: int where "CollectionFloorTimeRange = 3600 * 24 * 30 * 2"

section \<open>The floor prices of the moment\<close>

text \<open>The \<open>WHERE\<close> clause of the query for an order and an item.\<close>

definition floor_candidate :: "env \<Rightarrow> int \<Rightarrow> OrderRow \<Rightarrow> ItemRow \<Rightarrow> bool" where
  "floor_candidate e t0 co ci \<longleftrightarrow>
     coll_eq e (ord_collection_address co) (item_collection_address ci) \<and>
     coll_eq e (ord_token_id co) (item_token_id ci) \<and>
     ord_order_type co = ListingType \<and> ord_order_status co = OrderStatusActive \<and> ord_expire_time co > t0 \<and>
     (case item_owner ci of None \<Rightarrow> False | Some owner \<Rightarrow> coll_eq e (ToLower (ord_maker co)) (ToLower owner))"

text \<open>The joined rows, in the order the server produces them (an order once for each matching item).\<close>

definition floor_join :: "env \<Rightarrow> int \<Rightarrow> tables \<Rightarrow> OrderRow list" where
  "floor_join e t0 t =
     row_order e (concat (map (\<lambda>co. map (\<lambda>_. co) (filter (floor_candidate e t0 co) (t_items t))) (t_orders t)))"

definition floor_groups :: "env \<Rightarrow> int \<Rightarrow> tables \<Rightarrow> (string \<times> price option) list" where
  "floor_groups e t0 t = (let rows = floor_join e t0 t
     in map (\<lambda>a. (a, min_of (map ord_price (filter (\<lambda>co. coll_eq e (ord_collection_address co) a) rows))))
          (classes_by (coll_eq e) (map ord_collection_address rows)))"

definition floor_row :: "int \<Rightarrow> int \<Rightarrow> string \<times> price option \<Rightarrow> FloorPriceRow" where
  "floor_row timestamp timestampMilli = (\<lambda>(a, p).
     \<lparr>fp_collection_address = a, fp_price = (case p of None \<Rightarrow> 0 | Some q \<Rightarrow> q), fp_event_time = timestamp,
      fp_create_time = timestampMilli, fp_update_time = timestampMilli\<rparr>)"

definition QueryCollectionsFloorPrice :: "service \<Rightarrow> FloorPriceRow list result M" where
  "QueryCollectionsFloorPrice s = (let e = svc_env s in do {
     timestamp \<leftarrow> now e;
     timestampMilli \<leftarrow> now_milli e;
     t0 \<leftarrow> now e;
     r \<leftarrow> on_named (GetMultiProjectItemTableName (ProjectName s) (svc_chain s))
            (on_named (GetMultiProjectOrderTableName (ProjectName s) (svc_chain s))
              (db_query e (floor_groups e t0)));
     State_Monad.return (case r of
         Inl err \<Rightarrow> Inl err
       | Inr groups \<Rightarrow> Inr (map (floor_row timestamp timestampMilli) groups))
   })"

section \<open>The history\<close>

definition same_floor :: "env \<Rightarrow> FloorPriceRow \<Rightarrow> FloorPriceRow \<Rightarrow> bool" where
  "same_floor e r r' \<longleftrightarrow> coll_eq e (fp_collection_address r) (fp_collection_address r') \<and>
     fp_price r = fp_price r' \<and> fp_event_time r = fp_event_time r'"

text \<open>\<open>INSERT ... ON DUPLICATE KEY UPDATE update_time=VALUES(update_time)\<close>\<close>

definition upsert_floor :: "env \<Rightarrow> FloorPriceRow \<Rightarrow> FloorPriceRow list \<Rightarrow> FloorPriceRow list" where
  "upsert_floor e r rows =
     (if list_ex (\<lambda>r'. same_floor e r' r) rows
      then update_where (\<lambda>r'. same_floor e r' r) (\<lambda>r'. r'\<lparr>fp_update_time := fp_update_time r\<rparr>) rows
      else rows @ [r])"

function persistCollectionsFloorChange :: "service \<Rightarrow> FloorPriceRow list \<Rightarrow> nat \<Rightarrow> unit result M" where
  "persistCollectionsFloorChange s FloorPrices i =
     (if i < length FloorPrices then do {
        r \<leftarrow> on_named (GetMultiProjectCollectionFloorPriceTableName (ProjectName s) (svc_chain s))
          (db_update (svc_env s) (\<lambda>t. t\<lparr>t_floor_prices := fold (upsert_floor (svc_env s))
             (let stop = (if i + DBBatchSizeLimit \<ge> length FloorPrices then length FloorPrices
                          else i + DBBatchSizeLimit)
              in drop i (take stop FloorPrices)) (t_floor_prices t)\<rparr>));
        case r of
          Inl err \<Rightarrow> State_Monad.return (Inl err)
        | Inr _ \<Rightarrow> persistCollectionsFloorChange s FloorPrices (i + DBBatchSizeLimit)
      }
      else State_Monad.return (Inr ()))"
  by pat_completeness auto
termination by (relation "measure (\<lambda>(s, rows, i). length rows - i)") (auto simp: DBBatchSizeLimit_def)

declare persistCollectionsFloorChange.simps [simp del]

text \<open>\<open>UNIX_TIMESTAMP()\<close> is the clock of the server at this statement.\<close>

definition deleteExpireCollectionFloorChangeFromDatabase :: "service \<Rightarrow> unit result M" where
  "deleteExpireCollectionFloorChangeFromDatabase s = do {
     w \<leftarrow> get_world;
     on_named (GetMultiProjectCollectionFloorPriceTableName (ProjectName s) (svc_chain s))
       (db_update (svc_env s) (\<lambda>t. t\<lparr>t_floor_prices :=
          filter (\<lambda>r. \<not> fp_event_time r < db_clock (svc_env s) (n_db w) - CollectionFloorTimeRange)
            (t_floor_prices t)\<rparr>))
   }"

section \<open>The loop\<close>

text \<open>The start of the loop: the row of the index status is created when there is none. False when the
  loop ends before its first iteration.\<close>

definition upkeep_start :: "service \<Rightarrow> bool M" where
  "upkeep_start s = (let e = svc_env s in do {
     r \<leftarrow> db_query e (\<lambda>t. filter (\<lambda>r. idx_chain_id r = chainId s \<and>
            idx_index_type r = CollectionFloorChangeIndexType) (t_indexed_status t));
     case r of
       Inl _ \<Rightarrow> State_Monad.return False
     | Inr (_ # _) \<Rightarrow> State_Monad.return True
     | Inr [] \<Rightarrow> do {
         t0 \<leftarrow> now e;
         c \<leftarrow> db_update e (\<lambda>t. t\<lparr>t_indexed_status := t_indexed_status t @
                [\<lparr>idx_chain_id = chainId s, idx_index_type = CollectionFloorChangeIndexType,
                  idx_last_indexed_block = 0, idx_last_indexed_time = t0\<rparr>]\<rparr>);
         State_Monad.return (\<not> is_err c)
       }
   })"

datatype upkeep_tick = DayTick | FloorTick

definition upkeep_iteration :: "service \<Rightarrow> upkeep_tick \<Rightarrow> unit M" where
  "upkeep_iteration s k =
     (case k of
        DayTick \<Rightarrow> do { _ \<leftarrow> deleteExpireCollectionFloorChangeFromDatabase s; State_Monad.return () }
      | FloorTick \<Rightarrow>
          (if ProjectName s = OrderBookDexProject then do {
             r \<leftarrow> QueryCollectionsFloorPrice s;
             case r of
               Inl _ \<Rightarrow> State_Monad.return ()
             | Inr floorPrices \<Rightarrow> do { _ \<leftarrow> persistCollectionsFloorChange s floorPrices 0; State_Monad.return () }
           }
           else State_Monad.return ()))"

definition UpKeepingCollectionFloorChangeLoop :: "service \<Rightarrow> upkeep_tick list \<Rightarrow> unit M" where
  "UpKeepingCollectionFloorChangeLoop s ticks = do {
     started \<leftarrow> upkeep_start s;
     if started then for_each (upkeep_iteration s) ticks else State_Monad.return ()
   }"

section \<open>Invariants\<close>

text \<open>Invariants that also tolerate the writes of the two loops themselves.\<close>

locale loop_laws = table_laws +
  assumes any_activity: "A a"
    and status_write: "I t \<Longrightarrow> I (t\<lparr>t_indexed_status := rows\<rparr>)"
    and floor_upsert: "I t \<Longrightarrow> I (t\<lparr>t_floor_prices := fold (upsert_floor (svc_env s)) fps (t_floor_prices t)\<rparr>)"
    and floor_delete: "I t \<Longrightarrow> I (t\<lparr>t_floor_prices := filter P5 (t_floor_prices t)\<rparr>)"
begin

lemma keeps_persist: "keeps (on_tables I) (persistCollectionsFloorChange s rows i)"
proof (induction "length rows - i" arbitrary: i rule: less_induct)
  case less
  then show ?case
    by (subst persistCollectionsFloorChange.simps)
      (intro keeps_tables_update keeps_intro floor_upsert; simp add: DBBatchSizeLimit_def)
qed

lemma keeps_upkeep_iteration: "keeps (on_tables I) (upkeep_iteration s k)"
  unfolding upkeep_iteration_def deleteExpireCollectionFloorChangeFromDatabase_def QueryCollectionsFloorPrice_def
    Let_def
  by (cases k; simp only: upkeep_tick.case; intro keeps_persist keeps_tables_update keeps_intro floor_delete)

lemma keeps_upkeep_start: "keeps (on_tables I) (upkeep_start s)"
  unfolding upkeep_start_def Let_def
proof (intro keeps_bind keeps_tables_query)
  fix r :: "IndexedStatusRow list result"
  have *: "keeps (on_tables I) (db_update e (\<lambda>t. t\<lparr>t_indexed_status := t_indexed_status t @ new\<rparr>))" for e new
    by (intro keeps_tables_update status_write)
  show "keeps (on_tables I) (case r of Inl x \<Rightarrow> State_Monad.return False
      | Inr [] \<Rightarrow> do {
          t0 \<leftarrow> now (svc_env s);
          c \<leftarrow> db_update (svc_env s) (\<lambda>t. t\<lparr>t_indexed_status := t_indexed_status t @
                 [\<lparr>idx_chain_id = chainId s, idx_index_type = CollectionFloorChangeIndexType,
                   idx_last_indexed_block = 0, idx_last_indexed_time = t0\<rparr>]\<rparr>);
          State_Monad.return (\<not> is_err c)
        }
      | Inr (_ # _) \<Rightarrow> State_Monad.return True)"
    by (auto split: sum.split list.split intro!: keeps_return keeps_bind keeps_tables_now *)
qed

lemma keeps_upkeep_loop: "keeps (on_tables I) (UpKeepingCollectionFloorChangeLoop s ticks)"
  unfolding UpKeepingCollectionFloorChangeLoop_def
  by (intro keeps_upkeep_start keeps_upkeep_iteration keeps_intro)

end

text \<open>The unique keys of all the tables.\<close>

definition all_keys :: "env \<Rightarrow> tables \<Rightarrow> bool" where
  "all_keys e t \<longleftrightarrow> unique_keys e t \<and> no_duplicates (same_floor e) (t_floor_prices t)"

lemma no_duplicates_upsert: "no_duplicates (same_floor e) rows \<Longrightarrow> no_duplicates (same_floor e) (upsert_floor e r rows)"
  using no_duplicates_insert [of "same_floor e" rows r]
  by (auto simp: upsert_floor_def insert_ignore_def same_floor_def intro!: no_duplicates_update split: if_splits)

lemma no_duplicates_upserts:
  "no_duplicates (same_floor e) rows \<Longrightarrow> no_duplicates (same_floor e) (fold (upsert_floor e) fps rows)"
  by (induction fps arbitrary: rows) (simp_all add: no_duplicates_upsert)

interpretation all_keys: loop_laws s "all_keys (svc_env s)" "\<lambda>_. True" for s
  by unfold_locales (auto simp: all_keys_def no_duplicates_upserts no_duplicates_filter intro: unique.order_insert
    unique.order_update unique.item_insert unique.item_update unique.activity_insert unique.activity_delete
    unique.collection_insert unique.collection_update unique.external_insert, (simp add: unique_keys_def)+)

section \<open>What the history holds\<close>

lemma chunk_drop_take:
  "drop i (take (if i + n \<ge> length xs then length xs else i + n) xs) = take n (drop i xs)"
  by (auto simp: drop_take)

lemma persist_from:
  assumes "tbl w = T\<lparr>t_floor_prices := fold (upsert_floor (svc_env s)) (take i rows) F\<rparr>"
    and "run_state (persistCollectionsFloorChange s rows i) w = (r, w')"
  shows "\<exists>k. tbl w' = T\<lparr>t_floor_prices := fold (upsert_floor (svc_env s)) (take k rows) F\<rparr> \<and>
    (r = Inr () \<longrightarrow> length rows \<le> k)"
  using assms
proof (induction "length rows - i" arbitrary: i w rule: less_induct)
  case less
  let ?e = "svc_env s" and ?name = "GetMultiProjectCollectionFloorPriceTableName (ProjectName s) (svc_chain s)"
  let ?up = "db_update ?e (\<lambda>t. t\<lparr>t_floor_prices := fold (upsert_floor ?e) (take DBBatchSizeLimit (drop i rows)) (t_floor_prices t)\<rparr>)"
  show ?case
  proof (cases "i < length rows")
    case False
    then show ?thesis
      using less.prems by (auto simp: persistCollectionsFloorChange.simps [of s rows i] intro!: exI [of _ i])
  next
    case True
    obtain x w1 where x: "run_state (on_named ?name ?up) w = (x, w1)" by fastforce
    have app: "take (i + DBBatchSizeLimit) rows = take i rows @ take DBBatchSizeLimit (drop i rows)"
      by (simp add: take_add)
    have t1: "tbl w1 = tbl w \<or> tbl w1 = T\<lparr>t_floor_prices := fold (upsert_floor ?e) (take (i + DBBatchSizeLimit) rows) F\<rparr>"
      and done1: "x = Inr () \<Longrightarrow> tbl w1 = T\<lparr>t_floor_prices := fold (upsert_floor ?e) (take (i + DBBatchSizeLimit) rows) F\<rparr>"
      using x less.prems(1)
      by (auto simp: on_named_def db_update_def db_exec_def Let_def app split: outcome.splits if_splits)
    have run: "run_state (persistCollectionsFloorChange s rows i) w =
        (case x of Inl err \<Rightarrow> (Inl err, w1)
         | Inr _ \<Rightarrow> run_state (persistCollectionsFloorChange s rows (i + DBBatchSizeLimit)) w1)"
      using True x by (subst persistCollectionsFloorChange.simps)
        (simp add: Let_def chunk_drop_take split: sum.split)
    show ?thesis
    proof (cases x)
      case (Inl err)
      then have "r = Inl err" "w' = w1" using run less.prems(2) by auto
      then show ?thesis using t1 less.prems(1) by auto
    next
      case (Inr u)
      then have "run_state (persistCollectionsFloorChange s rows (i + DBBatchSizeLimit)) w1 = (r, w')"
        using run less.prems(2) by simp
      with Inr True show ?thesis
        using less.hyps [of "i + DBBatchSizeLimit" w1] done1 by (simp add: DBBatchSizeLimit_def)
    qed
  qed
qed

text \<open>However the statements fail, the history ends up with the rows of some prefix of the floor prices
  inserted one by one (each at most once for its collection, price and second), no other table changes, and
  when no error is reported the prefix is all of them.\<close>

theorem history_gets_a_prefix:
  assumes "run_state (persistCollectionsFloorChange s rows 0) w = (r, w')"
  shows "\<exists>k \<le> length rows. tbl w' = (tbl w)\<lparr>t_floor_prices :=
      fold (upsert_floor (svc_env s)) (take k rows) (t_floor_prices (tbl w))\<rparr> \<and> (r = Inr () \<longrightarrow> k = length rows)"
proof -
  obtain k where k: "tbl w' = (tbl w)\<lparr>t_floor_prices := fold (upsert_floor (svc_env s)) (take k rows) (t_floor_prices (tbl w))\<rparr>"
      "r = Inr () \<longrightarrow> length rows \<le> k"
    using persist_from [where T = "tbl w" and F = "t_floor_prices (tbl w)" and i = 0] assms by force
  then show ?thesis by (intro exI [of _ "min k (length rows)"]) (auto simp: min_def)
qed

definition sample_floor :: FloorPriceRow where
  "sample_floor = \<lparr>fp_collection_address = ''0xC'', fp_price = 5, fp_event_time = 1000, fp_create_time = 1, fp_update_time = 1\<rparr>"

theorem history_gets_a_prefix_witness:
  "\<exists>k \<le> 1. tbl (snd (run_state (persistCollectionsFloorChange sample_service [sample_floor] 0) start_world)) =
     empty_tables\<lparr>t_floor_prices := fold (upsert_floor plain_env) (take k [sample_floor]) []\<rparr>"
proof -
  have "svc_env sample_service = plain_env" "tbl start_world = empty_tables" "t_floor_prices empty_tables = []"
    by (simp_all add: sample_service_def start_world_def empty_tables_def)
  then show ?thesis
    using history_gets_a_prefix [of sample_service "[sample_floor]" start_world, OF prod.collapse [symmetric]] by auto
qed

section \<open>The floor prices queried\<close>

definition floor_prices_of :: "env \<Rightarrow> int \<Rightarrow> tables \<Rightarrow> string \<Rightarrow> price set" where
  "floor_prices_of e t0 t a = {ord_price co | co ci. co \<in> set (t_orders t) \<and> ci \<in> set (t_items t) \<and>
     floor_candidate e t0 co ci \<and> ToLower (ord_collection_address co) = ToLower a}"

lemma min_of_Min: "ps \<noteq> [] \<Longrightarrow> min_of ps = Some (Min (set ps))"
  by (cases ps) (simp_all only: min_of_def list.case Min.set_eq_fold, simp)

lemma set_floor_join:
  "server_orders_rows e \<Longrightarrow> set (floor_join e t0 t) = {co \<in> set (t_orders t). \<exists>ci \<in> set (t_items t). floor_candidate e t0 co ci}"
proof -
  assume "server_orders_rows e"
  then have "set (row_order e rs) = set rs" for rs by (metis server_orders_rows_def set_mset_mset)
  then show ?thesis by (auto simp: floor_join_def)
qed

lemma floor_groups_spec:
  assumes e: "folds_case e" "server_orders_rows e"
  shows "distinct (map (ToLower \<circ> fst) (floor_groups e t0 t))"
    "ToLower b \<in> ToLower ` fst ` set (floor_groups e t0 t) \<longleftrightarrow> floor_prices_of e t0 t b \<noteq> {}"
    "(a, p) \<in> set (floor_groups e t0 t) \<Longrightarrow> p = Some (Min (floor_prices_of e t0 t a))"
proof -
  let ?rows = "floor_join e t0 t"
  let ?reps = "classes_by (coll_eq e) (map ord_collection_address ?rows)"
  have eq: "\<And>a b. coll_eq e a b \<longleftrightarrow> ToLower a = ToLower b" using e(1) by (simp add: folds_case_def)
  note reps = classes_by_fold [of "coll_eq e" ToLower "map ord_collection_address ?rows", OF eq]
  have fst_groups: "map fst (floor_groups e t0 t) = ?reps" by (simp add: floor_groups_def Let_def comp_def)
  have rows: "ord_price ` set (filter (\<lambda>co. coll_eq e (ord_collection_address co) a) ?rows) = floor_prices_of e t0 t a" for a
    by (auto simp: set_floor_join [OF e(2)] floor_prices_of_def eq)
  show "distinct (map (ToLower \<circ> fst) (floor_groups e t0 t))"
    using reps fst_groups by (metis map_map)
  have "ToLower ` fst ` set (floor_groups e t0 t) = ToLower ` set ?reps" using fst_groups by (metis set_map)
  also have "\<dots> = (\<lambda>co. ToLower (ord_collection_address co)) ` set ?rows"
    using reps by (simp add: image_image)
  finally show "ToLower b \<in> ToLower ` fst ` set (floor_groups e t0 t) \<longleftrightarrow> floor_prices_of e t0 t b \<noteq> {}"
    by (auto simp: set_floor_join [OF e(2)] floor_prices_of_def intro: rev_image_eqI) metis
  show "p = Some (Min (floor_prices_of e t0 t a))" if ap: "(a, p) \<in> set (floor_groups e t0 t)"
  proof -
    have a: "a \<in> set ?reps" using ap fst_groups by (metis fst_conv in_set_conv_decomp list.set_map imageI)
    let ?ps = "map ord_price (filter (\<lambda>co. coll_eq e (ord_collection_address co) a) ?rows)"
    have "p = min_of ?ps" using ap by (auto simp: floor_groups_def Let_def)
    moreover have "?ps \<noteq> []" using a reps eq by (auto simp: filter_empty_conv)
    ultimately show ?thesis using min_of_Min [of ?ps] rows [of a] by simp
  qed
qed

text \<open>With a database that works, the query gives one row for each collection that has an active,
  unexpired listing by the owner of an item, with the cheapest price of these listings and the time of
  the query, and changes nothing.\<close>

theorem queried_floors_are_cheapest:
  assumes e: "db_works (svc_env s)" "folds_case (svc_env s)" "server_orders_rows (svc_env s)"
    and project: "ProjectName s = OrderBookDexProject"
  shows "\<exists>rows w'. run_state (QueryCollectionsFloorPrice s) w = (Inr rows, w') \<and> tbl w' = tbl w \<and>
    distinct (map (ToLower \<circ> fp_collection_address) rows) \<and>
    (\<forall>a. floor_prices_of (svc_env s) (clock (svc_env s) (n_clock w + 2)) (tbl w) a \<noteq> {} \<longleftrightarrow>
       (\<exists>r \<in> set rows. ToLower (fp_collection_address r) = ToLower a)) \<and>
    (\<forall>r \<in> set rows. fp_event_time r = clock (svc_env s) (n_clock w) \<and>
       fp_price r = Min (floor_prices_of (svc_env s) (clock (svc_env s) (n_clock w + 2)) (tbl w) (fp_collection_address r)))"
proof -
  let ?e = "svc_env s"
  let ?t0 = "clock ?e (Suc (Suc (n_clock w)))"
  let ?row = "floor_row (clock ?e (n_clock w)) (clock_milli ?e (Suc (n_clock w)))"
  let ?rows = "map ?row (floor_groups ?e ?t0 (tbl w))"
  note g = floor_groups_spec [OF e(2,3), where ?t0.0 = ?t0 and t = "tbl w"]
  have "\<exists>w'. run_state (QueryCollectionsFloorPrice s) w = (Inr ?rows, w') \<and> tbl w' = tbl w"
    using e(1) project
    by (simp add: QueryCollectionsFloorPrice_def now_def now_milli_def db_query_def db_exec_def db_works_def on_named_def
        GetMultiProjectItemTableName_def GetMultiProjectOrderTableName_def multi_name_def ItemTableName_def
        OrderTableName_def Let_def split_def)
  moreover have "distinct (map (ToLower \<circ> fp_collection_address) ?rows)"
    using g(1) by (simp add: comp_def floor_row_def split_def)
  moreover have "floor_prices_of ?e ?t0 (tbl w) a \<noteq> {} \<longleftrightarrow> (\<exists>r \<in> set ?rows. ToLower (fp_collection_address r) = ToLower a)" for a
    unfolding g(2) [symmetric] by (force simp: image_iff floor_row_def)
  moreover have "fp_event_time r = clock ?e (n_clock w) \<and>
      fp_price r = Min (floor_prices_of ?e ?t0 (tbl w) (fp_collection_address r))" if "r \<in> set ?rows" for r
    using that by (auto simp: floor_row_def dest: g(3))
  ultimately show ?thesis unfolding add_2_eq_Suc' by blast
qed


lemma sample_floor_prices: "floor_prices_of plain_env 1000 (tbl sample_world) ''0xC'' = {5}"
  by (auto simp: floor_prices_of_def floor_candidate_def sample_defs plain_env_def EqualFold_def status_defs order_type_defs)

theorem queried_floors_are_cheapest_witness:
  "\<exists>rows w'. run_state (QueryCollectionsFloorPrice sample_service) sample_world = (Inr rows, w') \<and>
     (\<exists>r \<in> set rows. ToLower (fp_collection_address r) = ''0xc'')"
proof -
  have s: "svc_env sample_service = plain_env" "ProjectName sample_service = OrderBookDexProject"
    by (simp_all add: sample_service_def)
  have c: "clock plain_env n = 1000" for n by (simp add: plain_env_def)
  have l: "ToLower ''0xC'' = ''0xc''" by simp
  show ?thesis
    using queried_floors_are_cheapest [of sample_service sample_world] plain_env_works plain_env_orders
      sample_floor_prices s l unfolding s c by (metis insert_not_empty)
qed

end
