(* ===== verification/Indexer.thy ===== *)
theory Indexer
  imports FloorHistory
begin

text \<open>
  The indexer of the order book contract (\<open>NFTMarket-sync/service/orderbookindexer/service.go\<close>): the
  handlers of the events and the repair after a fork. A handler returns, or panics. The loop that calls
  them is in theory \<open>SyncLoop\<close>.
\<close>

section \<open>Constants\<close>

definition FixForCollection :: "8 word" where "FixForCollection = 0"
definition ListSide :: "8 word" where "ListSide = 0"
definition BidSide :: "8 word" where "BidSide = 1"
definition HexPrefix :: string where "HexPrefix = ''0x''"

section \<open>Readings of the log\<close>

text \<open>\<open>Hash.String()\<close>, and \<open>HexPrefix + hex.EncodeToString(...)\<close> of 32 bytes.\<close>

definition hash_string :: "256 word \<Rightarrow> string" where
  "hash_string h = HexPrefix @ hex_digits 64 (unat h)"

text \<open>The topic \<open>i\<close> of a log; indexing past the last one panics.\<close>

definition topic :: "Log \<Rightarrow> nat \<Rightarrow> (256 word) panicking" where
  "topic l i = State_Monad.return
     (if i < length (log_Topics l) then Inr (log_Topics l ! i) else Inl IndexOutOfRange)"

text \<open>\<open>uint8(new(big.Int).SetBytes(...).Uint64())\<close> and \<open>common.BytesToAddress\<close> of a topic.\<close>

definition topic_uint8 :: "256 word \<Rightarrow> 8 word" where
  "topic_uint8 t = ucast t"

definition topic_address :: "256 word \<Rightarrow> 160 word" where
  "topic_address t = ucast t"

text \<open>\<open>Int64()\<close> of a big integer: the low 64 bits, signed.\<close>

definition big_Int64 :: "nat \<Rightarrow> int" where
  "big_Int64 n = int64_of (Uint64 n)"

section \<open>Forks\<close>

definition insert_activity :: "service \<Rightarrow> ActivityRow \<Rightarrow> unit result M" where
  "insert_activity s a = db_update (svc_env s) (\<lambda>t.
     t\<lparr>t_activities := insert_ignore (\<lambda>r r'. same_activity (svc_env s) r' r) a (t_activities t)\<rparr>)"

text \<open>The rows that \<open>maker = ? AND collection_address = ? AND token_id = ? AND price = ?\<close> selects.\<close>

definition order_of_activity :: "env \<Rightarrow> ActivityRow \<Rightarrow> OrderRow \<Rightarrow> bool" where
  "order_of_activity e a co \<longleftrightarrow>
     coll_eq e (ord_maker co) (act_maker a) \<and>
     coll_eq e (ord_collection_address co) (act_collection_address a) \<and>
     coll_eq e (ord_token_id co) (act_token_id a) \<and> ord_price co = act_price a"

definition reopen_sale :: "OrderRow \<Rightarrow> OrderRow" where
  "reopen_sale co = co\<lparr>ord_order_status := OrderStatusActive,
     ord_quantity_remaining := ord_quantity_remaining co + 1, ord_taker := ZeroAddress\<rparr>"

definition reopen_cancelled :: "OrderRow \<Rightarrow> OrderRow" where
  "reopen_cancelled co = co\<lparr>ord_order_status := OrderStatusActive\<rparr>"

definition rollback_activity :: "service \<Rightarrow> ActivityRow \<Rightarrow> unit result M" where
  "rollback_activity s a = (let e = svc_env s in
     if act_type a = act_Sale then do {
       r \<leftarrow> db_update e (\<lambda>t. t\<lparr>t_orders := update_where (order_of_activity e a) reopen_sale (t_orders t)\<rparr>);
       case r of
         Inl err \<Rightarrow> State_Monad.return (Inl err)
       | Inr _ \<Rightarrow> db_update e (\<lambda>t. t\<lparr>t_items :=
             update_where (this_item e (act_collection_address a) (act_token_id a))
               (\<lambda>r. r\<lparr>item_owner := Some (act_maker a)\<rparr>) (t_items t)\<rparr>)
     }
     else if act_type a \<in> {act_CancelListing, act_CancelCollectionBid, act_CancelItemBid} then
       db_update e (\<lambda>t. t\<lparr>t_orders := update_where (order_of_activity e a) reopen_cancelled (t_orders t)\<rparr>)
     else State_Monad.return (Inr ()))"

fun rollback_all :: "service \<Rightarrow> ActivityRow list \<Rightarrow> unit result M" where
  "rollback_all s [] = State_Monad.return (Inr ())"
| "rollback_all s (a # acts) = do {
     r \<leftarrow> rollback_activity s a;
     case r of
       Inl err \<Rightarrow> State_Monad.return (Inl err)
     | Inr _ \<Rightarrow> rollback_all s acts
   }"

definition activities_of :: "env \<Rightarrow> string \<Rightarrow> tables \<Rightarrow> ActivityRow list" where
  "activities_of e txHash t = filter (\<lambda>a. coll_eq e (act_tx_hash a) txHash) (t_activities t)"

definition rollbackOrderStatus :: "service \<Rightarrow> string \<Rightarrow> unit result M" where
  "rollbackOrderStatus s txHash = do {
     r \<leftarrow> db_query (svc_env s) (\<lambda>t. act_order (svc_env s) (activities_of (svc_env s) txHash t));
     case r of
       Inl err \<Rightarrow> State_Monad.return (Inl err)
     | Inr activities \<Rightarrow> rollback_all s activities
   }"

definition checkAndHandleFork :: "service \<Rightarrow> u64 \<Rightarrow> string \<Rightarrow> unit result M" where
  "checkAndHandleFork s blockNumber txHash = (let e = svc_env s in do {
     n \<leftarrow> db_query e (\<lambda>t. length (filter (\<lambda>a. act_block_number a \<noteq> uint blockNumber) (activities_of e txHash t)));
     case n of
       Inl err \<Rightarrow> State_Monad.return (Inl err)
     | Inr cnt \<Rightarrow>
         if 0 < cnt then do {
           r \<leftarrow> rollbackOrderStatus s txHash;
           case r of
             Inl err \<Rightarrow> State_Monad.return (Inl err)
           | Inr _ \<Rightarrow> db_update e (\<lambda>t. t\<lparr>t_activities :=
                 filter (\<lambda>a. \<not> coll_eq e (act_tx_hash a) txHash) (t_activities t)\<rparr>)
         }
         else State_Monad.return (Inr ())
   })"

text \<open>The head of every handler: it gives up when the fork check fails.\<close>

definition after_fork_check :: "service \<Rightarrow> Log \<Rightarrow> unit panicking \<Rightarrow> unit panicking" where
  "after_fork_check s l m = do {
     r \<leftarrow> checkAndHandleFork s (log_BlockNumber l) (hash_string (log_TxHash l));
     if is_err r then finish else m
   }"

section \<open>Make\<close>

definition order_type_of :: "8 word \<Rightarrow> 8 word \<Rightarrow> int" where
  "order_type_of side saleKind =
     (if side = BidSide then (if saleKind = FixForCollection then CollectionBidOrder else ItemBidOrder)
      else ListingOrder)"

definition make_activity_type :: "8 word \<Rightarrow> 8 word \<Rightarrow> int" where
  "make_activity_type side saleKind =
     (if side = BidSide then (if saleKind = FixForCollection then act_CollectionBid else act_ItemBid)
      else act_Listing)"

definition new_order :: "service \<Rightarrow> make_event \<Rightarrow> int \<Rightarrow> string \<Rightarrow> int \<Rightarrow> int \<Rightarrow> OrderRow" where
  "new_order s ev otype mk t0 n =
     \<lparr>ord_id = n, ord_marketplace_id = MarketOrderBook,
      ord_collection_address = checksum s (mk_CollectionAddr ev), ord_token_id = itoa (mk_TokenId ev),
      ord_order_id = hash_string (mk_OrderKey ev), ord_order_status = OrderStatusActive,
      ord_event_time = t0, ord_expire_time = int64_of (mk_Expiry ev), ord_currency_address = EthAddress s,
      ord_price = of_nat (mk_Price ev), ord_maker = mk, ord_taker = ZeroAddress,
      ord_quantity_remaining = big_Int64 (mk_Amount ev), ord_size = big_Int64 (mk_Amount ev),
      ord_order_type = otype, ord_salt = int64_of (mk_Salt ev)\<rparr>"

text \<open>The row inserted gets the next id; nothing happens when the order id is taken.\<close>

definition insert_order :: "service \<Rightarrow> (int \<Rightarrow> OrderRow) \<Rightarrow> unit result M" where
  "insert_order s row = db_update (svc_env s) (\<lambda>t. t\<lparr>t_orders :=
     insert_ignore (\<lambda>r r'. same_order (svc_env s) r' r) (row (auto_id (svc_env s) (map ord_id (t_orders t))))
       (t_orders t)\<rparr>)"

definition new_item :: "service \<Rightarrow> make_event \<Rightarrow> string \<Rightarrow> int \<Rightarrow> int \<Rightarrow> ItemRow" where
  "new_item s ev mk t1 t2 =
     \<lparr>item_chain_id = 1, item_collection_address = checksum s (mk_CollectionAddr ev),
      item_token_id = itoa (mk_TokenId ev), item_name = '''', item_owner = Some mk, item_creator = '''',
      item_supply = big_Int64 (mk_Amount ev), item_list_price = Some (of_nat (mk_Price ev)),
      item_list_time = t1, item_sale_price = Some 0, item_views = 0, item_is_opensea_banned = False,
      item_update_time = t2\<rparr>"

definition insert_item :: "service \<Rightarrow> ItemRow \<Rightarrow> unit result M" where
  "insert_item s row = db_update (svc_env s) (\<lambda>t. t\<lparr>t_items :=
     insert_ignore (\<lambda>r r'. same_item (svc_env s) r' r) row (t_items t)\<rparr>)"

definition make_activity :: "service \<Rightarrow> Log \<Rightarrow> make_event \<Rightarrow> int \<Rightarrow> string \<Rightarrow> u64 \<Rightarrow> ActivityRow" where
  "make_activity s l ev atype mk blockTime =
     \<lparr>act_type = atype, act_maker = mk, act_taker = ZeroAddress, act_marketplace_id = MarketOrderBook,
      act_collection_address = checksum s (mk_CollectionAddr ev), act_token_id = itoa (mk_TokenId ev),
      act_currency_address = EthAddress s, act_price = of_nat (mk_Price ev),
      act_block_number = int64_of (log_BlockNumber l), act_tx_hash = hash_string (log_TxHash l),
      act_event_time = int64_of blockTime\<rparr>"

text \<open>The end of the handler: the activity and the message for the order manager.\<close>

definition record_make :: "service \<Rightarrow> Log \<Rightarrow> make_event \<Rightarrow> 8 word \<Rightarrow> 8 word \<Rightarrow> string \<Rightarrow> OrderRow \<Rightarrow> unit panicking" where
  "record_make s l ev side saleKind mk newOrder = do {
     b \<leftarrow> BlockTimeByNumber (svc_env s) (log_BlockNumber l);
     case b of
       Inl _ \<Rightarrow> finish
     | Inr blockTime \<Rightarrow> do {
         _ \<leftarrow> insert_activity s (make_activity s l ev (make_activity_type side saleKind) mk blockTime);
         _ \<leftarrow> AddToOrderManagerQueue (svc_env s) (svc_chain s) newOrder;
         finish
       }
   }"

text \<open>The item and the metadata, and for a sell order the collection, once the order is stored.\<close>

definition make_item :: "service \<Rightarrow> Log \<Rightarrow> make_event \<Rightarrow> 8 word \<Rightarrow> 8 word \<Rightarrow> string \<Rightarrow> OrderRow \<Rightarrow> unit panicking" where
  "make_item s l ev side saleKind mk newOrder = (
     let collection = checksum s (mk_CollectionAddr ev); tokenId = itoa (mk_TokenId ev); p = of_nat (mk_Price ev)
     in do {
       t1 \<leftarrow> now (svc_env s);
       t2 \<leftarrow> now (svc_env s);
       _ \<leftarrow> insert_item s (new_item s ev mk t1 t2);
       bindp (createItemExternal s collection tokenId) (\<lambda>_.
       bindp
         (if side = ListSide then do {
            _ \<leftarrow> syncItemOnListing s collection tokenId mk p;
            maintainCollectionAndItem s collection tokenId p
          }
          else finish)
         (\<lambda>_. record_make s l ev side saleKind mk newOrder))
     })"

definition make_order :: "service \<Rightarrow> Log \<Rightarrow> make_event \<Rightarrow> 8 word \<Rightarrow> 8 word \<Rightarrow> string \<Rightarrow> unit panicking" where
  "make_order s l ev side saleKind mk = do {
     t0 \<leftarrow> now (svc_env s);
     let newOrder = new_order s ev (order_type_of side saleKind) mk t0;
     _ \<leftarrow> insert_order s newOrder;
     make_item s l ev side saleKind mk (newOrder 0)
   }"

definition handleMakeEvent :: "service \<Rightarrow> Log \<Rightarrow> unit panicking" where
  "handleMakeEvent s l = after_fork_check s l
     (case unpack_make s (log_Data l) of
        None \<Rightarrow> finish
      | Some ev \<Rightarrow>
          bindp (topic l 1) (\<lambda>t1.
          bindp (topic l 2) (\<lambda>t2.
          bindp (topic l 3) (\<lambda>t3.
            make_order s l ev (topic_uint8 t1) (topic_uint8 t2) (checksum s (topic_address t3))))))"

section \<open>Match\<close>

definition this_order :: "env \<Rightarrow> string \<Rightarrow> OrderRow \<Rightarrow> bool" where
  "this_order e orderId co \<longleftrightarrow> coll_eq e (ord_order_id co) orderId"

definition first_order :: "env \<Rightarrow> string \<Rightarrow> OrderRow result M" where
  "first_order e orderId = db_first e (\<lambda>t. sort_key ord_id (filter (this_order e orderId) (t_orders t)))"

definition update_order :: "env \<Rightarrow> string \<Rightarrow> (OrderRow \<Rightarrow> OrderRow) \<Rightarrow> unit result M" where
  "update_order e orderId f = db_update e (\<lambda>t. t\<lparr>t_orders := update_where (this_order e orderId) f (t_orders t)\<rparr>)"

definition sold_to :: "string \<Rightarrow> OrderRow \<Rightarrow> OrderRow" where
  "sold_to to co = co\<lparr>ord_order_status := OrderStatusFilled, ord_quantity_remaining := 0, ord_taker := to\<rparr>"

definition filled :: "OrderRow \<Rightarrow> OrderRow" where
  "filled co = co\<lparr>ord_order_status := OrderStatusFilled, ord_quantity_remaining := 0\<rparr>"

text \<open>
  The updates of the two orders: the sell order is filled, the buy order loses one unit or is filled. The
  two branches of the code differ only in which of the orders is which. False when the handler gives up.
\<close>

definition settle_orders :: "service \<Rightarrow> string \<Rightarrow> string \<Rightarrow> string \<Rightarrow> bool M" where
  "settle_orders s sellOrderId buyOrderId to = (let e = svc_env s in do {
     u \<leftarrow> update_order e sellOrderId (sold_to to);
     if is_err u then State_Monad.return False
     else do {
       b \<leftarrow> first_order e buyOrderId;
       case b of
         Inl _ \<Rightarrow> State_Monad.return False
       | Inr buyOrder \<Rightarrow> do {
           r \<leftarrow> (if ord_quantity_remaining buyOrder > 1
                then update_order e buyOrderId
                  (\<lambda>co. co\<lparr>ord_quantity_remaining := ord_quantity_remaining buyOrder - 1\<rparr>)
                else update_order e buyOrderId filled);
           State_Monad.return (\<not> is_err r)
         }
     }
   })"

definition sale_activity :: "service \<Rightarrow> Log \<Rightarrow> match_event \<Rightarrow> string \<Rightarrow> string \<Rightarrow> u64 \<Rightarrow> ActivityRow" where
  "sale_activity s l ev collection tokenId blockTime =
     \<lparr>act_type = act_Sale, act_maker = checksum s (mo_Maker (MakeOrder ev)),
      act_taker = checksum s (mo_Maker (TakeOrder ev)), act_marketplace_id = MarketOrderBook,
      act_collection_address = collection, act_token_id = tokenId, act_currency_address = EthAddress s,
      act_price = of_nat (FillPrice ev), act_block_number = int64_of (log_BlockNumber l),
      act_tx_hash = hash_string (log_TxHash l), act_event_time = int64_of blockTime\<rparr>"

definition update_owner :: "service \<Rightarrow> string \<Rightarrow> string \<Rightarrow> string \<Rightarrow> unit result M" where
  "update_owner s collection tokenId owner = db_update (svc_env s) (\<lambda>t. t\<lparr>t_items :=
     update_where (this_item_lower (svc_env s) collection tokenId)
       (\<lambda>r. r\<lparr>item_owner := Some owner\<rparr>) (t_items t)\<rparr>)"

text \<open>The end of the handler, after the orders were settled.\<close>

definition record_match :: "service \<Rightarrow> Log \<Rightarrow> match_event \<Rightarrow> match_order \<Rightarrow> match_order \<Rightarrow> string \<Rightarrow> unit M" where
  "record_match s l ev sell buy sellOrderId = (
     let e = svc_env s; collection = checksum s (mo_CollectionAddr sell); tokenId = itoa (mo_TokenId sell);
         from = checksum s (mo_Maker sell); to = checksum s (mo_Maker buy)
     in do {
       b \<leftarrow> BlockTimeByNumber e (log_BlockNumber l);
       case b of
         Inl _ \<Rightarrow> State_Monad.return ()
       | Inr blockTime \<Rightarrow> do {
           _ \<leftarrow> insert_activity s (sale_activity s l ev collection tokenId blockTime);
           r \<leftarrow> update_owner s collection tokenId (ToLower to);
           if is_err r then State_Monad.return ()
           else do {
             _ \<leftarrow> syncItemOnMatchOrCancel s collection tokenId (of_nat (FillPrice ev));
             _ \<leftarrow> AddUpdatePriceEvent e (zero_event\<lparr>ev_OrderId := sellOrderId, ev_CollectionAddr := collection,
                    EventType := Buy, ev_TokenID := tokenId, ev_From := from, ev_To := to\<rparr>) (svc_chain s);
             State_Monad.return ()
           }
         }
     })"

definition handleMatchEvent :: "service \<Rightarrow> Log \<Rightarrow> unit panicking" where
  "handleMatchEvent s l = after_fork_check s l
     (case unpack_match s (log_Data l) of
        None \<Rightarrow> finish
      | Some ev \<Rightarrow>
          bindp (topic l 1) (\<lambda>t1.
          bindp (topic l 2) (\<lambda>t2. (
            let makeOrderId = hash_string t1; takeOrderId = hash_string t2;
                (sell, buy, sellOrderId, buyOrderId) =
                  (if mo_Side (MakeOrder ev) = BidSide
                   then (TakeOrder ev, MakeOrder ev, takeOrderId, makeOrderId)
                   else (MakeOrder ev, TakeOrder ev, makeOrderId, takeOrderId))
            in do {
              settled \<leftarrow> settle_orders s sellOrderId buyOrderId (checksum s (mo_Maker buy));
              if settled then lift_panic (record_match s l ev sell buy sellOrderId) else finish
            }))))"

section \<open>Cancel\<close>

definition cancel_activity_type :: "int \<Rightarrow> int" where
  "cancel_activity_type otype =
     (if otype = ListingOrder then act_CancelListing
      else if otype = CollectionBidOrder then act_CancelCollectionBid else act_CancelItemBid)"

definition cancel_activity :: "service \<Rightarrow> Log \<Rightarrow> OrderRow \<Rightarrow> u64 \<Rightarrow> ActivityRow" where
  "cancel_activity s l co blockTime =
     \<lparr>act_type = cancel_activity_type (ord_order_type co), act_maker = ord_maker co, act_taker = ZeroAddress,
      act_marketplace_id = MarketOrderBook, act_collection_address = ord_collection_address co,
      act_token_id = ord_token_id co, act_currency_address = EthAddress s, act_price = ord_price co,
      act_block_number = int64_of (log_BlockNumber l), act_tx_hash = hash_string (log_TxHash l),
      act_event_time = int64_of blockTime\<rparr>"

definition cancelled :: "OrderRow \<Rightarrow> OrderRow" where
  "cancelled co = co\<lparr>ord_order_status := OrderStatusCancelled\<rparr>"

text \<open>The end of the handler, once the order is marked and read back.\<close>

definition record_cancel :: "service \<Rightarrow> Log \<Rightarrow> OrderRow \<Rightarrow> unit M" where
  "record_cancel s l cancelOrder = (let e = svc_env s in do {
     b \<leftarrow> BlockTimeByNumber e (log_BlockNumber l);
     case b of
       Inl _ \<Rightarrow> State_Monad.return ()
     | Inr blockTime \<Rightarrow> do {
         _ \<leftarrow> insert_activity s (cancel_activity s l cancelOrder blockTime);
         _ \<leftarrow> AddUpdatePriceEvent e (zero_event\<lparr>ev_OrderId := ord_order_id cancelOrder,
                ev_CollectionAddr := ord_collection_address cancelOrder,
                ev_TokenID := ord_token_id cancelOrder, EventType := Cancel\<rparr>) (svc_chain s);
         if ord_order_type cancelOrder = ListingOrder
         then syncItemOnMatchOrCancel s (ord_collection_address cancelOrder) (ord_token_id cancelOrder)
                (ord_price cancelOrder)
         else State_Monad.return ()
       }
   })"

definition cancel_order :: "service \<Rightarrow> Log \<Rightarrow> string \<Rightarrow> unit M" where
  "cancel_order s l orderId = do {
     u \<leftarrow> update_order (svc_env s) orderId cancelled;
     if is_err u then State_Monad.return ()
     else do {
       r \<leftarrow> first_order (svc_env s) orderId;
       case r of
         Inl _ \<Rightarrow> State_Monad.return ()
       | Inr cancelOrder \<Rightarrow> record_cancel s l cancelOrder
     }
   }"

definition handleCancelEvent :: "service \<Rightarrow> Log \<Rightarrow> unit panicking" where
  "handleCancelEvent s l = after_fork_check s l
     (bindp (topic l 1) (\<lambda>t1. lift_panic (cancel_order s l (hash_string t1))))"

section \<open>Approval\<close>

definition approval_activity :: "service \<Rightarrow> Log \<Rightarrow> u64 \<Rightarrow> ActivityRow" where
  "approval_activity s l blockTime =
     \<lparr>act_type = act_Listing, act_maker = checksum s (topic_address (log_Topics l ! 1)),
      act_taker = checksum s (topic_address (log_Topics l ! 2)), act_marketplace_id = MarketOrderBook,
      act_collection_address = checksum s (log_Address l), act_token_id = itoa (unat (log_Topics l ! 3)),
      act_currency_address = EthAddress s, act_price = 0, act_block_number = int64_of (log_BlockNumber l),
      act_tx_hash = hash_string (log_TxHash l), act_event_time = int64_of blockTime\<rparr>"

definition handleApprovalEvent :: "service \<Rightarrow> Log \<Rightarrow> unit panicking" where
  "handleApprovalEvent s l = after_fork_check s l
     (if length (log_Topics l) < 4 then finish
      else do {
        b \<leftarrow> BlockTimeByNumber (svc_env s) (log_BlockNumber l);
        case b of
          Inl _ \<Rightarrow> finish
        | Inr blockTime \<Rightarrow> do {
            _ \<leftarrow> insert_activity s (approval_activity s l blockTime);
            finish
          }
      })"

section \<open>Invariants\<close>

context table_laws
begin

lemma keeps_order_write:
  "(\<And>co. ord_order_id (f co) = ord_order_id co) \<Longrightarrow>
     keeps (on_tables I) (db_update e (\<lambda>t. t\<lparr>t_orders := update_where P f (t_orders t)\<rparr>))"
  by (intro keeps_tables_update order_update; simp)

lemma keeps_item_write:
  "(\<And>ci. item_collection_address (f ci) = item_collection_address ci \<and> item_token_id (f ci) = item_token_id ci) \<Longrightarrow>
     keeps (on_tables I) (db_update e (\<lambda>t. t\<lparr>t_items := update_where P f (t_items t)\<rparr>))"
  by (intro keeps_tables_update item_update; simp)

lemma keeps_rollback_activity: "keeps (on_tables I) (rollback_activity s a)"
  unfolding rollback_activity_def Let_def
  by (intro keeps_order_write keeps_item_write keeps_intro; simp add: reopen_sale_def reopen_cancelled_def)

lemma keeps_rollback_all: "keeps (on_tables I) (rollback_all s acts)"
  by (induction acts) (auto intro: keeps_intro keeps_rollback_activity)

lemma keeps_fork: "keeps (on_tables I) (checkAndHandleFork s n h)"
  unfolding checkAndHandleFork_def rollbackOrderStatus_def Let_def
  by (intro keeps_rollback_all keeps_tables_update keeps_intro activity_delete)

lemma keeps_after_fork_check: "keeps (on_tables I) m \<Longrightarrow> keeps (on_tables I) (after_fork_check s l m)"
  unfolding after_fork_check_def by (intro keeps_fork keeps_intro)

lemma keeps_topic: "keeps P (topic l i)"
  unfolding topic_def by (rule keeps_return)

lemma keeps_insert_activity: "A a \<Longrightarrow> keeps (on_tables I) (insert_activity s a)"
  unfolding insert_activity_def by (intro keeps_tables_update activity_insert)

text \<open>The activities that a handler stores for a log carry its transaction and its block.\<close>

definition accepts :: "Log \<Rightarrow> bool" where
  "accepts l \<longleftrightarrow> (\<forall>a. act_tx_hash a = hash_string (log_TxHash l) \<longrightarrow>
     act_block_number a = int64_of (log_BlockNumber l) \<longrightarrow> A a)"

lemma keeps_queues:
  "keeps (on_tables I) (AddToOrderManagerQueue e chain co)" "keeps (on_tables I) (AddUpdatePriceEvent e ev chain)"
  unfolding AddToOrderManagerQueue_def AddUpdatePriceEvent_def by (intro keeps_intro)+

lemma keeps_handleMakeEvent: "accepts l \<Longrightarrow> keeps (on_tables I) (handleMakeEvent s l)"
  unfolding handleMakeEvent_def make_order_def make_item_def record_make_def insert_order_def insert_item_def Let_def
  by (intro keeps_after_fork_check keeps_topic keeps_insert_activity keeps_queues keeps_createItemExternal
      keeps_maintain keeps_sync_item keeps_tables_update keeps_intro order_insert item_insert)
    (simp_all add: accepts_def make_activity_def)

lemma keeps_handleMatchEvent: "accepts l \<Longrightarrow> keeps (on_tables I) (handleMatchEvent s l)"
  unfolding handleMatchEvent_def settle_orders_def record_match_def update_order_def update_owner_def
    first_order_def Let_def
  by (intro keeps_after_fork_check keeps_topic keeps_insert_activity keeps_queues keeps_sync_item keeps_first
      keeps_order_write keeps_item_write keeps_intro; simp add: sold_to_def filled_def accepts_def sale_activity_def)

lemma keeps_handleCancelEvent: "accepts l \<Longrightarrow> keeps (on_tables I) (handleCancelEvent s l)"
  unfolding handleCancelEvent_def cancel_order_def record_cancel_def update_order_def first_order_def Let_def
  by (intro keeps_after_fork_check keeps_topic keeps_insert_activity keeps_queues keeps_sync_item keeps_first
      keeps_order_write keeps_intro; simp add: cancelled_def accepts_def cancel_activity_def)

lemma keeps_handleApprovalEvent: "accepts l \<Longrightarrow> keeps (on_tables I) (handleApprovalEvent s l)"
  unfolding handleApprovalEvent_def Let_def
  by (intro keeps_after_fork_check keeps_insert_activity keeps_intro) (simp add: accepts_def approval_activity_def)

end

section \<open>Panics\<close>

text \<open>Code that never panics, with rules that follow its shape.\<close>

definition never_panics :: "'a panicking \<Rightarrow> bool" where
  "never_panics m \<longleftrightarrow> (\<forall>w. \<exists>a. fst (run_state m w) = Inr a)"

lemma never_panics_return: "never_panics (State_Monad.return (Inr a))"
  by (simp add: never_panics_def)

lemma never_panics_finish: "never_panics finish"
  by (simp add: finish_def never_panics_return)

lemma never_panics_lift: "never_panics (lift_panic m)"
  by (simp add: never_panics_def lift_panic_def split: prod.split)

lemma never_panics_bind: "(\<And>a. never_panics (f a)) \<Longrightarrow> never_panics (State_Monad.bind m f)"
  by (simp add: never_panics_def split: prod.split)

lemma never_panics_bindp: "never_panics m \<Longrightarrow> (\<And>a. never_panics (f a)) \<Longrightarrow> never_panics (bindp m f)"
  unfolding never_panics_def bindp_def run_bind
  by (metis (mono_tags, lifting) case_prod_unfold old.sum.simps(6))

lemma never_panics_if: "(b \<Longrightarrow> never_panics m) \<Longrightarrow> (\<not> b \<Longrightarrow> never_panics n) \<Longrightarrow> never_panics (if b then m else n)"
  by simp

lemma never_panics_case_sum:
  "(\<And>e. never_panics (f e)) \<Longrightarrow> (\<And>a. never_panics (g a)) \<Longrightarrow>
     never_panics (case x of Inl e \<Rightarrow> f e | Inr a \<Rightarrow> g a)"
  by (simp split: sum.split)

lemma never_panics_case_option:
  "never_panics m \<Longrightarrow> (\<And>a. never_panics (f a)) \<Longrightarrow> never_panics (case x of None \<Rightarrow> m | Some a \<Rightarrow> f a)"
  by (simp split: option.split)

lemma never_panics_case_prod: "(\<And>a b. never_panics (f a b)) \<Longrightarrow> never_panics (case x of (a, b) \<Rightarrow> f a b)"
  by (simp split: prod.split)

lemma never_panics_topic: "i < length (log_Topics l) \<Longrightarrow> never_panics (topic l i)"
  by (simp add: topic_def never_panics_return)

lemma never_panics_after_fork_check: "never_panics m \<Longrightarrow> never_panics (after_fork_check s l m)"
  unfolding after_fork_check_def by (intro never_panics_bind never_panics_if never_panics_finish)

lemmas never_panics_rules = never_panics_return never_panics_finish never_panics_lift never_panics_bindp
  never_panics_if never_panics_case_sum never_panics_case_option never_panics_case_prod
  never_panics_after_fork_check never_panics_bind

text \<open>Answers of contracts that the two decoders take without a panic.\<close>

definition answers_decode :: "service \<Rightarrow> bool" where
  "answers_decode s \<longleftrightarrow> (\<forall>n a d r. CallContract s n a d = Inr r \<longrightarrow>
     (\<exists>x. decode_string r = Inr x) \<and> (\<exists>x. decode_token_uri r = Inr x))"

lemma never_panics_calls:
  assumes "answers_decode s"
  shows "never_panics (callContractStringNoArgs s a m)" "never_panics (getTokenURI s a n)"
    "never_panics (fetchCollectionMeta s a)"
proof -
  show 1: "never_panics (callContractStringNoArgs s a m)" for a m
    using assms by (auto simp: callContractStringNoArgs_def never_panics_def call_node_def answers_decode_def
        split: sum.split)
  show "never_panics (getTokenURI s a n)"
    using assms by (auto simp: getTokenURI_def never_panics_def call_node_def answers_decode_def split: sum.split)
  have "fetchCollectionMeta s a = bindp (callContractStringNoArgs s a ''0x06fdde03'') (\<lambda>nameR.
      bindp (callContractStringNoArgs s a ''0x95d89b41'') (\<lambda>symbolR. do {
        stdR \<leftarrow> detectTokenStandard s a;
        creatorR \<leftarrow> callContractAddressNoArgs s a ''0x8da5cb5b'';
        State_Monad.return (Inr (meta_of nameR symbolR stdR creatorR))
      }))"
    by (simp add: fetchCollectionMeta_def bindp_def)
  then show "never_panics (fetchCollectionMeta s a)"
    by (simp add: never_panics_bindp never_panics_bind never_panics_return 1)
qed

lemma never_panics_routines:
  assumes "answers_decode s"
  shows "never_panics (createItemExternal s a n)" "never_panics (maintainCollectionAndItem s a n p)"
proof -
  note calls = never_panics_calls [OF assms]
  show "never_panics (createItemExternal s a n)"
    unfolding createItemExternal_def by (intro never_panics_rules calls)
  have "never_panics (ensureCollectionExists s a n)"
    unfolding ensureCollectionExists_def Let_def by (intro never_panics_rules calls)
  then show "never_panics (maintainCollectionAndItem s a n p)"
    unfolding maintainCollectionAndItem_def by (intro never_panics_rules)
qed

lemma never_panics_handlers:
  assumes "answers_decode s"
  shows "3 < length (log_Topics l) \<Longrightarrow> never_panics (handleMakeEvent s l)"
    "2 < length (log_Topics l) \<Longrightarrow> never_panics (handleMatchEvent s l)"
    "1 < length (log_Topics l) \<Longrightarrow> never_panics (handleCancelEvent s l)"
    "never_panics (handleApprovalEvent s l)"
  unfolding handleMakeEvent_def make_order_def make_item_def record_make_def handleMatchEvent_def handleCancelEvent_def
    handleApprovalEvent_def Let_def
  by (intro never_panics_topic never_panics_routines assms never_panics_rules; simp)+

section \<open>Forks\<close>

definition forked :: "env \<Rightarrow> u64 \<Rightarrow> string \<Rightarrow> tables \<Rightarrow> bool" where
  "forked e n h t \<longleftrightarrow> (\<exists>a \<in> set (t_activities t). coll_eq e (act_tx_hash a) h \<and> act_block_number a \<noteq> uint n)"

lemma wp_rollback_activity:
  assumes e: "db_works (svc_env s)"
  shows "wp (rollback_activity s a) (\<lambda>r w'. r = Inr () \<and> t_activities (tbl w') = t_activities (tbl w)) w"
  by (simp add: rollback_activity_def Let_def wp_simps e)

lemma wp_rollback_all:
  assumes e: "db_works (svc_env s)"
  shows "wp (rollback_all s acts) (\<lambda>r w'. r = Inr () \<and> t_activities (tbl w') = t_activities (tbl w)) w"
proof (induction acts arbitrary: w)
  case (Cons a acts)
  show ?case
    unfolding rollback_all.simps wp_bind
    by (rule wp_mono [OF wp_rollback_activity [OF e, of a w]]) (auto intro: wp_mono [OF Cons.IH])
qed (simp add: wp_return)

lemma wp_fork:
  assumes e: "db_works (svc_env s)"
  shows "wp (checkAndHandleFork s n h) (\<lambda>r w'. r = Inr () \<and>
     (if forked (svc_env s) n h (tbl w)
      then t_activities (tbl w') = filter (\<lambda>a. \<not> coll_eq (svc_env s) (act_tx_hash a) h) (t_activities (tbl w))
      else w' = w\<lparr>n_db := Suc (n_db w)\<rparr>)) w"
proof -
  have f: "(0 < length (filter (\<lambda>a. act_block_number a \<noteq> uint n) (activities_of (svc_env s) h t))) = forked (svc_env s) n h t" for t
    by (auto simp: forked_def activities_of_def filter_empty_conv)
  show ?thesis
    unfolding checkAndHandleFork_def Let_def wp_bind wp_db_query [OF e]
    by (auto simp: f wp_simps e rollbackOrderStatus_def simp del: length_greater_0_conv
        intro!: wp_mono [OF wp_rollback_all [OF e]])
qed

text \<open>C12: with a database that works, after the fork check every activity of the transaction carries the
  block it is now in, the activities of other transactions are all kept, and when no activity of it
  carried another block, nothing at all has changed.\<close>

theorem fork_check_leaves_one_block:
  assumes e: "db_works (svc_env s)" and run: "run_state (checkAndHandleFork s n h) w = (r, w')"
  shows "r = Inr () \<and>
    (\<forall>a \<in> set (t_activities (tbl w')). coll_eq (svc_env s) (act_tx_hash a) h \<longrightarrow> act_block_number a = uint n) \<and>
    filter (\<lambda>a. \<not> coll_eq (svc_env s) (act_tx_hash a) h) (t_activities (tbl w')) =
      filter (\<lambda>a. \<not> coll_eq (svc_env s) (act_tx_hash a) h) (t_activities (tbl w)) \<and>
    (\<not> forked (svc_env s) n h (tbl w) \<longrightarrow> tbl w' = tbl w)"
  using wp_fork [OF e, of n h w] run by (auto simp: wp_def forked_def split: if_splits)

definition fork_world :: world where
  "fork_world = start_world\<lparr>tbl := empty_tables\<lparr>t_activities :=
     [\<lparr>act_type = act_CancelListing, act_maker = ''0xa'', act_taker = ZeroAddress, act_marketplace_id = 0,
       act_collection_address = ''0xc'', act_token_id = ''7'', act_currency_address = ''1'', act_price = 5,
       act_block_number = 9, act_tx_hash = hash_string 1, act_event_time = 0\<rparr>]\<rparr>\<rparr>"

theorem fork_check_leaves_one_block_witness:
  "\<exists>w'. run_state (checkAndHandleFork sample_service 10 (hash_string 1)) fork_world = (Inr (), w') \<and>
     (\<forall>a \<in> set (t_activities (tbl w')). EqualFold (act_tx_hash a) (hash_string 1) \<longrightarrow> act_block_number a = 10)"
proof -
  have s: "svc_env sample_service = plain_env" "coll_eq plain_env = EqualFold"
    by (simp_all add: sample_service_def plain_env_def)
  obtain r w' where w: "run_state (checkAndHandleFork sample_service 10 (hash_string 1)) fork_world = (r, w')"
    by fastforce
  have u: "uint (10 :: u64) = 10" by simp
  show ?thesis
    using fork_check_leaves_one_block [OF _ w] w unfolding s u by simp
qed

end
