(* ===== verification/SyncLoop.thy ===== *)
theory SyncLoop
  imports Indexer
begin

text \<open>
  \<open>SyncOrderBookEventLoop\<close> of the indexer (\<open>NFTMarket-sync/service/orderbookindexer/service.go\<close>): the loop
  that fetches the logs of the order book contract window by window, hands them to the handlers and stores
  its progress. Block numbers are unsigned 64-bit integers with their wrap-around.
\<close>

section \<open>The sync loop\<close>

definition MinSyncBlocks :: u64 where "MinSyncBlocks = 500"
definition SyncBlockPeriod :: u64 where "SyncBlockPeriod = 1000"
definition EventIndexType :: int where "EventIndexType = 6"
definition LogMakeTopic :: string where
  "LogMakeTopic = ''0xfc37f2ff950f95913eb7182357ba3c14df60ef354bc7d6ab1ba2815f249fffe6''"
definition LogCancelTopic :: string where
  "LogCancelTopic = ''0x0ac8bb53fac566d7afc05d8b4df11d7690a7b27bdc40b54e4060f9b21fb849bd''"
definition LogMatchTopic :: string where
  "LogMatchTopic = ''0xf629aecab94607bc43ce4aebd564bf6e61c7327226a797b002de724b9944b20e''"
definition ERC721ApprovalTopic :: string where
  "ERC721ApprovalTopic = ''0x8c5be1e5ebec7d5bd14f71427d1e84f3dd0314c0f7b2291e5b200ac8c7c3b925''"

definition MultiChainMaxBlockDifference :: "string \<Rightarrow> u64" where
  "MultiChainMaxBlockDifference chain =
     (if chain \<in> {''eth'', ''optimism'', ''base'', ''sepolia''} then 8 else 0)"

definition handle_log :: "service \<Rightarrow> Log \<Rightarrow> unit panicking" where
  "handle_log s l = bindp (topic l 0) (\<lambda>t0. (
     let sig = hash_string t0
     in if sig = LogMakeTopic then handleMakeEvent s l
        else if sig = LogCancelTopic then handleCancelEvent s l
        else if sig = LogMatchTopic then handleMatchEvent s l
        else if sig = ERC721ApprovalTopic then handleApprovalEvent s l
        else finish))"

fun handle_logs :: "service \<Rightarrow> Log list \<Rightarrow> unit panicking" where
  "handle_logs s [] = finish"
| "handle_logs s (l # ls) = bindp (handle_log s l) (\<lambda>_. handle_logs s ls)"

text \<open>The last block of the next window, in unsigned 64-bit arithmetic; \<open>None\<close> when there is nothing to do.\<close>

definition safe_end :: "string \<Rightarrow> u64 \<Rightarrow> u64" where
  "safe_end chain currentBlockNum = currentBlockNum - MultiChainMaxBlockDifference chain"

definition next_window :: "string \<Rightarrow> u64 \<Rightarrow> u64 \<Rightarrow> u64 option" where
  "next_window chain lastSyncBlock currentBlockNum = (
     let safeEndBlock = safe_end chain currentBlockNum;
         availableBlocks = safeEndBlock - lastSyncBlock + 1
     in if lastSyncBlock > safeEndBlock then None
        else if availableBlocks \<ge> MinSyncBlocks
        then Some (let endBlock = lastSyncBlock + SyncBlockPeriod
                   in if endBlock > safeEndBlock then safeEndBlock else endBlock)
        else Some safeEndBlock)"

text \<open>The request of the logs, with one retry of the first block alone; the window that was read, and its logs.\<close>

definition fetch_window :: "service \<Rightarrow> u64 \<Rightarrow> u64 \<Rightarrow> (u64 \<times> Log list) option M" where
  "fetch_window s startBlock endBlock = do {
     r \<leftarrow> call_node (\<lambda>n. filter_logs s n (DexAddress s) startBlock endBlock);
     case r of
       Inr logs \<Rightarrow> State_Monad.return (Some (endBlock, logs))
     | Inl _ \<Rightarrow>
         if endBlock - startBlock > 1 then do {
           r2 \<leftarrow> call_node (\<lambda>n. filter_logs s n (DexAddress s) startBlock startBlock);
           State_Monad.return (case r2 of Inl _ \<Rightarrow> None | Inr logs \<Rightarrow> Some (startBlock, logs))
         }
         else State_Monad.return None
   }"

definition store_progress :: "service \<Rightarrow> u64 \<Rightarrow> unit result M" where
  "store_progress s b = db_update (svc_env s) (\<lambda>t. t\<lparr>t_indexed_status :=
     update_where (\<lambda>r. idx_chain_id r = chainId s \<and> idx_index_type r = EventIndexType)
       (\<lambda>r. r\<lparr>idx_last_indexed_block := uint b\<rparr>) (t_indexed_status t)\<rparr>)"

text \<open>
  One iteration from \<open>lastSyncBlock\<close>: nothing was done (\<open>Waiting\<close>), the window up to a block was handled and
  its progress stored, the loop returned since the progress could not be stored, or a handler panicked.
\<close>

datatype sync_result = Waiting | Synced u64 | StoreFailed | Panicked go_panic

definition sync_iteration :: "service \<Rightarrow> u64 \<Rightarrow> sync_result M" where
  "sync_iteration s lastSyncBlock = do {
     c \<leftarrow> call_node (block_number s);
     case c of
       Inl _ \<Rightarrow> State_Monad.return Waiting
     | Inr currentBlockNum \<Rightarrow>
         (case next_window (svc_chain s) lastSyncBlock currentBlockNum of
            None \<Rightarrow> State_Monad.return Waiting
          | Some endBlock \<Rightarrow> do {
              f \<leftarrow> fetch_window s lastSyncBlock endBlock;
              case f of
                None \<Rightarrow> State_Monad.return Waiting
              | Some (readBlock, logs) \<Rightarrow> do {
                  h \<leftarrow> handle_logs s logs;
                  case h of
                    Inl p \<Rightarrow> State_Monad.return (Panicked p)
                  | Inr _ \<Rightarrow> do {
                      r \<leftarrow> store_progress s (readBlock + 1);
                      State_Monad.return (if is_err r then StoreFailed else Synced readBlock)
                    }
                }
            })
   }"

text \<open>
  The loop for \<open>n\<close> iterations (it runs until its context is cancelled, which is looked at between
  iterations). It returns the windows handled and the next block to read, or how it ended.
\<close>

fun sync_loop :: "service \<Rightarrow> nat \<Rightarrow> u64 \<Rightarrow> (u64 \<times> u64) list \<Rightarrow> ((u64 \<times> u64) list \<times> (sync_result + u64)) M" where
  "sync_loop s 0 lastSyncBlock windows = State_Monad.return (windows, Inr lastSyncBlock)"
| "sync_loop s (Suc n) lastSyncBlock windows = do {
     r \<leftarrow> sync_iteration s lastSyncBlock;
     case r of
       Waiting \<Rightarrow> sync_loop s n lastSyncBlock windows
     | Synced b \<Rightarrow> sync_loop s n (b + 1) (windows @ [(lastSyncBlock, b)])
     | StoreFailed \<Rightarrow> State_Monad.return (windows, Inl StoreFailed)
     | Panicked p \<Rightarrow> State_Monad.return (windows, Inl (Panicked p))
   }"

text \<open>The whole loop: it starts from the stored progress.\<close>

definition SyncOrderBookEventLoop :: "service \<Rightarrow> nat \<Rightarrow> ((u64 \<times> u64) list \<times> (sync_result + u64)) option M" where
  "SyncOrderBookEventLoop s n = do {
     r \<leftarrow> db_query (svc_env s) (\<lambda>t. filter (\<lambda>r. idx_chain_id r = chainId s \<and> idx_index_type r = EventIndexType)
            (t_indexed_status t));
     case r of
       Inl _ \<Rightarrow> State_Monad.return None
     | Inr [] \<Rightarrow> State_Monad.return None
     | Inr (row # _) \<Rightarrow> do {
         x \<leftarrow> sync_loop s n (word_of_int (idx_last_indexed_block row)) [];
         State_Monad.return (Some x)
       }
   }"

section \<open>Windows\<close>

definition max_diff :: "string \<Rightarrow> int" where
  "max_diff chain = uint (MultiChainMaxBlockDifference chain)"

lemma max_diff_cases: "max_diff chain = 8 \<or> max_diff chain = 0"
  by (simp add: max_diff_def MultiChainMaxBlockDifference_def)

text \<open>A height that a chain can have: not below the confirmation distance, and far from the wrap-around.\<close>

definition sane_height :: "string \<Rightarrow> u64 \<Rightarrow> bool" where
  "sane_height chain c \<longleftrightarrow> max_diff chain \<le> uint c \<and> uint c < 2 ^ 63"

lemma uint_safe_end: "sane_height chain c \<Longrightarrow> uint (safe_end chain c) = uint c - max_diff chain"
  by (simp add: sane_height_def safe_end_def max_diff_def uint_sub_lem [THEN iffD1])

lemma uint_add_no_wrap:
  fixes x y :: u64
  shows "uint x + uint y < 2 ^ 64 \<Longrightarrow> uint (x + y) = uint x + uint y"
  by (simp add: uint_add_cases)

lemma next_window_value:
  assumes h: "sane_height chain c" and b: "uint b \<le> uint c - max_diff chain"
  shows "\<exists>e. next_window chain b c = Some e \<and> uint e = min (uint b + 1000) (uint c - max_diff chain)"
proof -
  let ?S = "safe_end chain c"
  note S = uint_safe_end [OF h]
  have c: "uint c < 9223372036854775808" and d: "0 \<le> max_diff chain"
    using h max_diff_cases [of chain] by (auto simp: sane_height_def)
  have bS: "uint b \<le> uint ?S" using b S by simp
  then have b2: "uint (b + SyncBlockPeriod) = uint b + 1000"
    using c d S by (subst uint_add_no_wrap) (simp_all add: SyncBlockPeriod_def)
  have avail: "uint (?S - b + 1) = uint ?S - uint b + 1"
  proof -
    have 1: "uint (?S - b) = uint ?S - uint b" using bS by (simp add: uint_sub_lem [THEN iffD1])
    have "0 \<le> uint b" by (rule uint_ge_0)
    then have "uint c - max_diff chain - uint b + 1 < 18446744073709551616" using c d by linarith
    then have "uint (?S - b) + uint (1 :: u64) < 2 ^ 64" unfolding 1 S by simp
    then show ?thesis using 1 by (simp add: uint_add_no_wrap)
  qed
  show ?thesis
    using bS b2 avail S
    by (auto simp: next_window_def Let_def word_less_def word_le_def MinSyncBlocks_def min_def)
qed

lemma next_window_exists:
  "sane_height chain c \<Longrightarrow> next_window chain b c = None \<longleftrightarrow> uint c - max_diff chain < uint b"
  by (auto simp: next_window_def Let_def word_less_def uint_safe_end)

lemma next_window_bounds:
  assumes h: "sane_height chain c" and w: "next_window chain b c = Some e"
  shows "uint e = min (uint b + 1000) (uint c - max_diff chain)" "uint b \<le> uint e"
    "uint (e + 1) = uint e + 1"
proof -
  have b: "uint b \<le> uint c - max_diff chain" using next_window_exists [OF h, of b] w by force
  then show e: "uint e = min (uint b + 1000) (uint c - max_diff chain)" using next_window_value [OF h b] w by auto
  then show "uint b \<le> uint e" using b by simp
  show "uint (e + 1) = uint e + 1"
    using e h max_diff_cases [of chain] by (subst uint_add_no_wrap) (auto simp: sane_height_def)
qed

definition heights_sane :: "service \<Rightarrow> bool" where
  "heights_sane s \<longleftrightarrow> (\<forall>k c. block_number s k = Inr c \<longrightarrow> sane_height (svc_chain s) c)"

lemma sync_iteration_window:
  assumes h: "heights_sane s" and run: "run_state (sync_iteration s b) w = (Synced e, w')"
  shows "uint b \<le> uint e \<and> uint e \<le> uint b + 1000 \<and> uint (e + 1) = uint e + 1"
proof -
  obtain c stop where c: "block_number s (n_chain w) = Inr c" "next_window (svc_chain s) b c = Some stop"
    and e: "e = stop \<or> e = b"
    using run by (auto simp: sync_iteration_def call_node_def fetch_window_def split: sum.splits option.splits prod.splits if_splits)
  then have s: "sane_height (svc_chain s) c" using h by (auto simp: heights_sane_def)
  note n = next_window_bounds [OF s c(2)]
  have "uint b + 1 < 18446744073709551616" using n(2,3) uint_lt2p [of "stop + 1"] by simp
  then have "uint (b + 1) = uint b + 1" by (subst uint_add_no_wrap) simp_all
  then show ?thesis using e n by auto
qed

definition blocks_of :: "(u64 \<times> u64) list \<Rightarrow> int list" where
  "blocks_of windows = concat (map (\<lambda>(f, t). [uint f..uint t]) windows)"

lemma upto_join: "i \<le> j + 1 \<Longrightarrow> j \<le> k \<Longrightarrow> [i..j] @ [j + 1..k] = [i..k]"
  using upto_split1 [of i "j + 1" k] by (cases "j = k") auto

lemma sync_loop_reads:
  assumes h: "heights_sane s" and run: "run_state (sync_loop s n b ws) w = ((ws', r), w')"
    and small: "\<forall>(f, t) \<in> set ws. uint f \<le> uint t \<and> uint t \<le> uint f + 1000"
  shows "\<exists>l. uint b \<le> uint l \<and> blocks_of ws' = blocks_of ws @ [uint b..uint l - 1] \<and>
    (\<forall>(f, t) \<in> set ws'. uint f \<le> uint t \<and> uint t \<le> uint f + 1000) \<and> (\<forall>x. r = Inr x \<longrightarrow> x = l)"
  using run small
proof (induction n arbitrary: b ws w)
  case 0
  then show ?case by (auto intro!: exI [of _ b])
next
  case (Suc n)
  obtain x w1 where x: "run_state (sync_iteration s b) w = (x, w1)" by fastforce
  show ?case
  proof (cases x)
    case (Synced e)
    note win = sync_iteration_window [OF h x [unfolded Synced]]
    have run1: "run_state (sync_loop s n (e + 1) (ws @ [(b, e)])) w1 = ((ws', r), w')"
      using Suc.prems(1) x Synced by simp
    obtain l where l: "uint (e + 1) \<le> uint l"
        "blocks_of ws' = blocks_of (ws @ [(b, e)]) @ [uint (e + 1)..uint l - 1]"
        "\<forall>(f, t) \<in> set ws'. uint f \<le> uint t \<and> uint t \<le> uint f + 1000" "\<forall>x. r = Inr x \<longrightarrow> x = l"
      using Suc.IH [OF run1] Suc.prems(2) win by auto
    have "[uint b..uint e] @ [uint e + 1..uint l - 1] = [uint b..uint l - 1]"
      using win l(1) by (intro upto_join) simp_all
    then show ?thesis using win l by (intro exI [of _ l]) (auto simp: blocks_of_def)
  qed (use Suc x in \<open>auto intro!: exI [of _ b]\<close>)
qed



section \<open>Progress\<close>

text \<open>A node that answers, at a height that stands still, and handlers that do not panic on its logs.\<close>

definition node_serves :: "service \<Rightarrow> u64 \<Rightarrow> bool" where
  "node_serves s c \<longleftrightarrow> sane_height (svc_chain s) c \<and> (\<forall>k. block_number s k = Inr c) \<and>
     (\<forall>k f t. \<exists>ls. filter_logs s k (DexAddress s) f t = Inr ls)"

definition logs_harmless :: "service \<Rightarrow> bool" where
  "logs_harmless s \<longleftrightarrow> (\<forall>k f t ls w. filter_logs s k (DexAddress s) f t = Inr ls \<longrightarrow>
     fst (run_state (handle_logs s ls) w) = Inr ())"

definition remaining :: "service \<Rightarrow> u64 \<Rightarrow> u64 \<Rightarrow> int" where
  "remaining s c b = uint c - max_diff (svc_chain s) + 1 - uint b"

lemma sync_iteration_catches_up:
  assumes s: "db_works (svc_env s)" "node_serves s c" "logs_harmless s" and b: "0 \<le> remaining s c b"
  shows "\<exists>w'. (remaining s c b = 0 \<and> run_state (sync_iteration s b) w = (Waiting, w')) \<or>
    (\<exists>e. run_state (sync_iteration s b) w = (Synced e, w') \<and>
      remaining s c (e + 1) = max 0 (remaining s c b - 1001))"
proof (cases "next_window (svc_chain s) b c")
  case None
  then have "remaining s c b = 0"
    using next_window_exists [of "svc_chain s" c b] s(2) b by (simp add: node_serves_def remaining_def)
  moreover have "fst (run_state (sync_iteration s b) w) = Waiting"
    using None s(2) by (simp add: sync_iteration_def call_node_def node_serves_def)
  ultimately show ?thesis by (metis prod.collapse)
next
  case (Some e)
  have h: "sane_height (svc_chain s) c" using s(2) by (simp add: node_serves_def)
  obtain ls where ls: "filter_logs s (Suc (n_chain w)) (DexAddress s) b e = Inr ls"
    using s(2) unfolding node_serves_def by metis
  have hl: "fst (run_state (handle_logs s ls) w1) = Inr ()" for w1
    using s(3) ls by (auto simp: logs_harmless_def)
  have "fst (run_state (sync_iteration s b) w) = Synced e"
    using Some s(1,2) ls hl [of "w\<lparr>n_chain := Suc (Suc (n_chain w))\<rparr>"]
    by (auto simp: sync_iteration_def call_node_def node_serves_def fetch_window_def store_progress_def
        db_update_def db_exec_def db_works_def Let_def split: prod.splits)
  moreover have "remaining s c (e + 1) = max 0 (remaining s c b - 1001)"
    using next_window_bounds [OF h Some] by (simp add: remaining_def)
  ultimately show ?thesis by (metis prod.collapse)
qed

lemma sync_loop_catches_up:
  assumes s: "db_works (svc_env s)" "node_serves s c" "logs_harmless s"
    and b: "0 \<le> remaining s c b" "remaining s c b \<le> 1001 * int n"
  shows "\<exists>windows l w'. run_state (sync_loop s n b ws) w = ((windows, Inr l), w') \<and> remaining s c l = 0"
  using b
proof (induction n arbitrary: b ws w)
  case (Suc n)
  from sync_iteration_catches_up [OF s Suc.prems(1), of w] show ?case
  proof (elim exE disjE conjE)
    fix w' assume "remaining s c b = 0" "run_state (sync_iteration s b) w = (Waiting, w')"
    then show ?thesis using Suc.IH [of b ws w'] by simp
  next
    fix w' e assume e: "run_state (sync_iteration s b) w = (Synced e, w')"
      "remaining s c (e + 1) = max 0 (remaining s c b - 1001)"
    then show ?thesis using Suc.IH [of "e + 1" "ws @ [(b, e)]" w'] Suc.prems by simp
  qed
qed simp


section \<open>Stored progress\<close>

context table_laws
begin

lemma keeps_handle_log: "accepts l \<Longrightarrow> keeps (on_tables I) (handle_log s l)"
  unfolding handle_log_def Let_def
  by (intro keeps_topic keeps_handleMakeEvent keeps_handleMatchEvent keeps_handleCancelEvent
      keeps_handleApprovalEvent keeps_intro)

lemma keeps_handle_logs: "\<forall>l \<in> set ls. accepts l \<Longrightarrow> keeps (on_tables I) (handle_logs s ls)"
  by (induction ls) (auto intro: keeps_intro keeps_handle_log)

end

context loop_laws
begin

lemma keeps_all_logs: "keeps (on_tables I) (handle_logs s ls)"
  by (rule keeps_handle_logs) (simp add: accepts_def any_activity)

lemma keeps_sync_iteration: "keeps (on_tables I) (sync_iteration s b)"
  unfolding sync_iteration_def fetch_window_def store_progress_def
  by (intro keeps_chain_call keeps_all_logs keeps_tables_update keeps_intro status_write)

lemma keeps_sync_loop: "keeps (on_tables I) (sync_loop s n b ws)"
  by (induction n arbitrary: b ws)
    (auto intro!: keeps_intro keeps_sync_iteration split: sync_result.split)

lemma keeps_SyncOrderBookEventLoop: "keeps (on_tables I) (SyncOrderBookEventLoop s n)"
  unfolding SyncOrderBookEventLoop_def
  by (intro keeps_bind keeps_tables_query) (auto intro!: keeps_intro keeps_sync_loop split: sum.split list.split)

end

section \<open>Resuming\<close>

text \<open>The rows of the index status that belong to this loop, and what they say.\<close>

definition is_sync_row :: "service \<Rightarrow> IndexedStatusRow \<Rightarrow> bool" where
  "is_sync_row s r \<longleftrightarrow> idx_chain_id r = chainId s \<and> idx_index_type r = EventIndexType"

definition stored :: "service \<Rightarrow> u64 \<Rightarrow> world \<Rightarrow> bool" where
  "stored s b w \<longleftrightarrow> (\<forall>r \<in> set (t_indexed_status (tbl w)). is_sync_row s r \<longrightarrow> idx_last_indexed_block r = uint b)"

definition status_keys :: "world \<Rightarrow> (int \<times> int) list" where
  "status_keys w = map (\<lambda>r. (idx_chain_id r, idx_index_type r)) (t_indexed_status (tbl w))"

lemma handle_logs_status:
  "t_indexed_status (tbl (snd (run_state (handle_logs s ls) w))) = t_indexed_status (tbl w)"
proof -
  have "keeps (on_tables (\<lambda>t. t_indexed_status t = t_indexed_status (tbl w) \<and> t_floor_prices t = t_floor_prices (tbl w)))
      (handle_logs s ls)"
    by (rule status.keeps_handle_logs) (simp add: status.accepts_def)
  from keepsD [OF this, of w] show ?thesis by (simp add: on_tables_def)
qed

lemma fetch_window_tbl: "tbl (snd (run_state (fetch_window s b e) w)) = tbl w"
  by (simp add: fetch_window_def call_node_def split: sum.split)

lemma store_progress_keys: "status_keys (snd (run_state (store_progress s b) w)) = status_keys w"
  by (simp add: store_progress_def db_update_def db_exec_def status_keys_def map_update_where Let_def split: outcome.split)

lemma store_progress_stored: "run_state (store_progress s b) w = (Inr (), w') \<Longrightarrow> stored s b w'"
  by (auto simp: store_progress_def db_update_def db_exec_def stored_def is_sync_row_def update_where_def Let_def
      split: outcome.splits)

lemma sync_iteration_status:
  assumes run: "run_state (sync_iteration s b) w = (r, w')"
  shows "status_keys w' = status_keys w \<and> (case r of Synced e \<Rightarrow> stored s (e + 1) w' | StoreFailed \<Rightarrow> True
      | _ \<Rightarrow> t_indexed_status (tbl w') = t_indexed_status (tbl w))"
proof (cases "block_number s (n_chain w)")
  case (Inl err)
  then show ?thesis using run by (auto simp: sync_iteration_def call_node_def status_keys_def)
next
  case (Inr c)
  let ?w0 = "w\<lparr>n_chain := Suc (n_chain w)\<rparr>"
  show ?thesis
  proof (cases "next_window (svc_chain s) b c")
    case None
    then show ?thesis using run Inr by (auto simp: sync_iteration_def call_node_def status_keys_def)
  next
    case (Some stop)
    obtain f w1 where f: "run_state (fetch_window s b stop) ?w0 = (f, w1)" by fastforce
    then have t1: "tbl w1 = tbl w" using fetch_window_tbl [of s b stop ?w0] by simp
    show ?thesis
    proof (cases f)
      case None
      then show ?thesis using run Inr Some f t1 by (auto simp: sync_iteration_def call_node_def status_keys_def)
    next
      case (Some p)
      obtain e ls where p: "p = (e, ls)" by fastforce
      obtain h w2 where h: "run_state (handle_logs s ls) w1 = (h, w2)" by fastforce
      then have t2: "t_indexed_status (tbl w2) = t_indexed_status (tbl w)"
        using handle_logs_status [of s ls w1] t1 by simp
      obtain x w3 where x: "run_state (store_progress s (e + 1)) w2 = (x, w3)" by fastforce
      have "status_keys w3 = status_keys w"
        using store_progress_keys [of s "e + 1" w2] x t2 by (simp add: status_keys_def)
      then show ?thesis
        using run Inr \<open>next_window _ _ _ = _\<close> f Some p h x t2 store_progress_stored [of s "e + 1" w2 w3]
        by (cases x) (auto simp: sync_iteration_def call_node_def status_keys_def split: sum.splits)
    qed
  qed
qed

lemma sync_loop_status:
  assumes "run_state (sync_loop s n b ws) w = ((ws', r), w')"
  shows "status_keys w' = status_keys w \<and> (\<forall>l. r = Inr l \<longrightarrow> stored s b w \<or> ws' \<noteq> ws \<longrightarrow> stored s l w') \<and>
    (\<exists>zs. ws' = ws @ zs)"
  using assms
proof (induction n arbitrary: b ws w)
  case (Suc n)
  obtain x w1 where x: "run_state (sync_iteration s b) w = (x, w1)" by fastforce
  note st = sync_iteration_status [OF x]
  show ?case
  proof (cases x)
    case (Synced e)
    then show ?thesis using Suc.IH [of "e + 1" "ws @ [(b, e)]" w1] Suc.prems x st by auto
  next
    case Waiting
    then have "stored s b w1 = stored s b w" using st by (simp add: stored_def)
    then show ?thesis using Suc.IH [of b ws w1] Suc.prems x st Waiting by auto
  qed (use Suc.prems x st in auto)
qed auto

text \<open>C13: stopped after it has handled at least one window, the loop takes up exactly the next block when it
  is started again, provided that the index status has a row for it and the first query succeeds: no
  block is skipped and none is handled twice by a clean stop.\<close>

theorem restart_resumes:
  assumes run: "run_state (sync_loop s n b []) w = ((windows, Inr l), w')" and some: "windows \<noteq> []"
    and row: "(chainId s, EventIndexType) \<in> set (status_keys w)" and db: "db_outcome (svc_env s) (n_db w') = Done"
  shows "run_state (SyncOrderBookEventLoop s m) w' =
    (case run_state (sync_loop s m l []) (w'\<lparr>n_db := Suc (n_db w')\<rparr>) of (x, w'') \<Rightarrow> (Some x, w''))"
proof -
  have st: "status_keys w' = status_keys w" "stored s l w'" using sync_loop_status [OF run] some by auto
  let ?sel = "\<lambda>r. idx_chain_id r = chainId s \<and> idx_index_type r = EventIndexType"
  have "filter ?sel (t_indexed_status (tbl w')) \<noteq> []"
    using row unfolding st(1) [symmetric] by (auto simp: status_keys_def filter_empty_conv)
  then obtain q qs where q: "filter ?sel (t_indexed_status (tbl w')) = q # qs" by (cases "filter ?sel (t_indexed_status (tbl w'))") auto
  then have "q \<in> set (filter ?sel (t_indexed_status (tbl w')))" by simp
  then have "word_of_int (idx_last_indexed_block q) = l"
    using st(2) by (auto simp: stored_def is_sync_row_def)
  then show ?thesis
    using q db by (simp add: SyncOrderBookEventLoop_def db_query_def db_exec_def split: prod.split)
qed

section \<open>A log that stops the loop\<close>

lemma handle_logs_poisoned:
  assumes "l \<in> set ls" "\<And>w. \<exists>p. fst (run_state (handle_log s l) w) = Inl p"
  shows "\<exists>p. fst (run_state (handle_logs s ls) w) = Inl p"
  using assms(1)
proof (induction ls arbitrary: w)
  case (Cons x xs)
  obtain r w1 where r: "run_state (handle_log s x) w = (r, w1)" by fastforce
  then show ?case
    using Cons assms(2) [of w] by (cases r) (auto simp: bindp_def)
qed simp

lemma poisoned_iteration:
  assumes poison: "\<And>w. \<exists>p. fst (run_state (handle_log s l) w) = Inl p"
    and served: "\<And>i f t ls. filter_logs s i (DexAddress s) f t = Inr ls \<Longrightarrow> uint f \<le> k \<Longrightarrow> k \<le> uint t \<Longrightarrow> l \<in> set ls"
    and b: "uint b \<le> k" and run: "run_state (sync_iteration s b) w = (Synced e, w')"
  shows "uint e < k"
proof (rule ccontr)
  assume "\<not> uint e < k"
  then have e: "k \<le> uint e" by simp
  obtain ls w1 w2 i where "filter_logs s i (DexAddress s) b e = Inr ls" "run_state (handle_logs s ls) w1 = (Inr (), w2)"
    using run by (auto simp: sync_iteration_def call_node_def fetch_window_def
        split: sum.splits option.splits prod.splits if_splits)
  with served [of i b e ls] b e handle_logs_poisoned [OF _ poison, of ls w1] show False by auto
qed



section \<open>Logs that are well formed\<close>

definition topics_complete :: "Log \<Rightarrow> bool" where
  "topics_complete l \<longleftrightarrow> (case log_Topics l of [] \<Rightarrow> False
     | t # ts \<Rightarrow> (hash_string t = LogMakeTopic \<longrightarrow> 3 \<le> length ts) \<and>
         (hash_string t = LogCancelTopic \<longrightarrow> 1 \<le> length ts) \<and> (hash_string t = LogMatchTopic \<longrightarrow> 2 \<le> length ts))"

lemma never_panics_handle_log:
  assumes a: "answers_decode s" and l: "topics_complete l"
  shows "never_panics (handle_log s l)"
proof -
  obtain t ts where t: "log_Topics l = t # ts" using l by (auto simp: topics_complete_def split: list.splits)
  have h: "handle_log s l = (if hash_string t = LogMakeTopic then handleMakeEvent s l
      else if hash_string t = LogCancelTopic then handleCancelEvent s l
      else if hash_string t = LogMatchTopic then handleMatchEvent s l
      else if hash_string t = ERC721ApprovalTopic then handleApprovalEvent s l else finish)"
    using t by (simp add: handle_log_def topic_def bindp_def Let_def)
  show ?thesis
    unfolding h by (intro never_panics_if never_panics_handlers a never_panics_finish)
      (use l t in \<open>auto simp: topics_complete_def\<close>)
qed

lemma handle_logs_no_panic:
  assumes a: "answers_decode s" and l: "\<forall>l \<in> set ls. topics_complete l"
  shows "fst (run_state (handle_logs s ls) w) = Inr ()"
proof -
  have "never_panics (handle_logs s ls)"
    using l by (induction ls) (auto intro: never_panics_finish never_panics_bindp never_panics_handle_log a)
  then show ?thesis by (auto simp: never_panics_def)
qed


section \<open>Examples\<close>

definition make_topic :: "256 word" where
  "make_topic = 0xfc37f2ff950f95913eb7182357ba3c14df60ef354bc7d6ab1ba2815f249fffe6"

lemma hex_digits_step: "0 < n \<Longrightarrow> hex_digits n x = hex_digits (n - 1) (x div 16) @ [hex_digit (x mod 16)]"
  by (cases n) simp_all

lemma hash_make_topic: "hash_string make_topic = LogMakeTopic"
proof -
  have "unat make_topic = 0xfc37f2ff950f95913eb7182357ba3c14df60ef354bc7d6ab1ba2815f249fffe6"
    by (simp add: make_topic_def)
  then show ?thesis
    by (simp add: hash_string_def HexPrefix_def LogMakeTopic_def hex_digits_step hex_digit_def char_of_def bit_Suc_0_iff)
qed

text \<open>A sell order for token 7 of the collection of the other examples, and its log.\<close>

definition sample_make :: make_event where
  "sample_make = \<lparr>mk_OrderKey = 1, mk_TokenId = 7, mk_CollectionAddr = 2, mk_Amount = 1, mk_Price = 5,
     mk_Expiry = 5000, mk_Salt = 0\<rparr>"

definition make_log :: Log where
  "make_log = \<lparr>log_Address = 3, log_Topics = [make_topic, 0, 1, 1], log_Data = [], log_BlockNumber = 10, log_TxHash = 1\<rparr>"

definition make_service :: service where
  "make_service = sample_service\<lparr>unpack_make := \<lambda>_. Some sample_make, filter_logs := \<lambda>_ _ _ _. Inr [make_log]\<rparr>"

lemma make_service_simps [simp]:
  "svc_env make_service = plain_env" "svc_chain make_service = ''eth''" "ProjectName make_service = OrderBookDexProject"
  "unpack_make make_service d = Some sample_make" "log_Topics make_log = [make_topic, 0, 1, 1]"
  "CallContract make_service n a d = Inr (replicate 31 0 @ [1])"
  by (simp_all add: make_service_def sample_service_def make_log_def)

lemma topics_make_log [simp]: "topics_complete make_log"
  by (simp add: topics_complete_def)

lemma make_service_answers [simp]: "answers_decode make_service"
proof -
  have "decode_token_uri (replicate 31 0 @ [1]) = Inr (Inl ErrOffset)" "decode_string (replicate 31 0 @ [1]) = Inr (Inl ErrResponseLength)"
    by (simp_all add: decode_token_uri_def decode_string_def SetBytes_def Uint64_def int64_of_def eval_nat_numeral)
  then show ?thesis by (simp add: answers_decode_def)
qed


lemma sample_node: "node_serves sample_service 1000" "heights_sane sample_service" "logs_harmless sample_service"
  by (simp_all add: node_serves_def heights_sane_def logs_harmless_def sample_service_def sane_height_def max_diff_def
      MultiChainMaxBlockDifference_def finish_def)

lemma sample_remaining: "remaining sample_service 1000 5 = 988" "safe_end ''eth'' 1000 = 992"
  by (simp_all add: remaining_def sample_service_def max_diff_def MultiChainMaxBlockDifference_def safe_end_def)

lemma sample_env [simp]: "svc_env sample_service = plain_env" "svc_chain sample_service = ''eth''"
  by (simp_all add: sample_service_def)



definition status_world :: world where
  "status_world = start_world\<lparr>tbl := empty_tables\<lparr>t_indexed_status :=
     [\<lparr>idx_chain_id = 1, idx_index_type = EventIndexType, idx_last_indexed_block = 5, idx_last_indexed_time = 0\<rparr>]\<rparr>\<rparr>"

lemma sample_run:
  "\<exists>w'. run_state (sync_loop sample_service 1 5 []) status_world = (([(5, 992)], Inr 993), w')"
  by (simp add: sync_iteration_def call_node_def next_window_def fetch_window_def store_progress_def db_update_def
      db_exec_def sample_service_def plain_env_def safe_end_def MultiChainMaxBlockDifference_def MinSyncBlocks_def
      SyncBlockPeriod_def finish_def Let_def)

theorem restart_resumes_witness:
  "\<exists>w' x w''. run_state (sync_loop sample_service 1 5 []) status_world = (([(5, 992)], Inr 993), w') \<and>
     run_state (sync_loop sample_service 1 993 []) (w'\<lparr>n_db := Suc (n_db w')\<rparr>) = (x, w'') \<and>
     run_state (SyncOrderBookEventLoop sample_service 1) w' = (Some x, w'')"
proof -
  obtain w' where w: "run_state (sync_loop sample_service 1 5 []) status_world = (([(5, 992)], Inr 993), w')"
    using sample_run by blast
  obtain x w'' where x: "run_state (sync_loop sample_service 1 993 []) (w'\<lparr>n_db := Suc (n_db w')\<rparr>) = (x, w'')"
    by fastforce
  have "run_state (SyncOrderBookEventLoop sample_service 1) w' = (Some x, w'')"
    using restart_resumes [OF w, of 1] x by (simp add: status_keys_def status_world_def sample_service_def plain_env_def)
  then show ?thesis using w x by blast
qed

section \<open>An answer that panics\<close>

definition hostile_answer :: bytes where
  "hostile_answer = [0, 0, 0, 0, 0, 0, 0, 0, 0, 0, 0, 0, 0, 0, 0, 0, 0, 0, 0, 0, 0, 0, 0, 0, 255, 255, 255, 255, 255, 255, 255, 240]"

lemma hostile_panics: "decode_token_uri hostile_answer = Inl SliceOutOfRange"
  by (simp add: decode_token_uri_def hostile_answer_def SetBytes_def Uint64_def int64_of_def slice_bytes_def)


lemma wp_createItemExternal_panics:
  assumes "\<And>n d. CallContract s n (HexToAddress s a) d = Inr r" "decode_token_uri r = Inl p"
  shows "wp (createItemExternal s a (itoa tok)) (\<lambda>x _. x = Inl p) w"
proof -
  have c: "fst (run_state (getTokenURI s a n) w1) = Inl p" for n w1
    using assms by (simp add: getTokenURI_def call_node_def)
  have "big_abs (int tok) = tok" "SetString10 (itoa tok) = Some (int tok)"
    using token_id_digits [of tok] by (simp_all add: big_abs_def)
  then show ?thesis
    using c [of tok "w\<lparr>n_clock := Suc (n_clock w)\<rparr>"]
    by (auto simp: createItemExternal_def wp_def bindp_def now_def split: prod.splits)
qed

text \<open>A sell order (or a bid) for a token whose contract answers \<open>tokenURI\<close> with a bad offset makes the handler
  panic, in every state of the tables.\<close>

lemma make_panics:
  assumes e: "db_works (svc_env s)" and t: "hash_string (log_Topics l ! 0) = LogMakeTopic" "3 < length (log_Topics l)"
    and ev: "unpack_make s (log_Data l) = Some ev"
    and r: "\<And>n d. CallContract s n (HexToAddress s (checksum s (mk_CollectionAddr ev))) d = Inr r"
      "decode_token_uri r = Inl p"
  shows "\<exists>q. fst (run_state (handle_log s l) w) = Inl q"
proof -
  have body: "wp (make_order s l ev side kind mk) (\<lambda>x _. x = Inl p) w" for side kind mk w
    unfolding make_order_def make_item_def Let_def insert_order_def insert_item_def
    by (auto simp: wp_simps e intro!: wp_mono [OF wp_createItemExternal_panics [OF r]])
  have topic: "topic l i = State_Monad.return (Inr (log_Topics l ! i))" if "i \<le> 3" for i
    using that t(2) by (simp add: topic_def)
  have "wp (handleMakeEvent s l) (\<lambda>x _. x = Inl p) w"
    unfolding handleMakeEvent_def after_fork_check_def wp_bind
    by (rule wp_mono [OF wp_fork [OF e]]) (simp add: ev wp_bindp topic wp_return body)
  then show ?thesis
    using topic [of 0] t by (auto simp: handle_log_def bindp_def Let_def wp_def split: prod.splits)
qed

text \<open>The height is 3000 and such a log lies in block 2000: the loop gets to block 1006 and no further.\<close>

definition poison_service :: service where
  "poison_service = make_service\<lparr>CallContract := \<lambda>_ _ _. Inr hostile_answer, block_number := \<lambda>_. Inr 3000,
     filter_logs := \<lambda>_ _ f t. Inr (if f \<le> 2000 \<and> 2000 \<le> t then [make_log] else [])\<rparr>"

lemma poison_run:
  "\<exists>w'. run_state (sync_loop poison_service 1 5 []) status_world = (([(5, 1005)], Inr 1006), w')"
  by (simp add: sync_iteration_def call_node_def next_window_def fetch_window_def store_progress_def db_update_def
      db_exec_def poison_service_def make_service_def sample_service_def plain_env_def safe_end_def
      MultiChainMaxBlockDifference_def MinSyncBlocks_def SyncBlockPeriod_def finish_def Let_def)


section \<open>Unique keys\<close>



end
