(* ===== verification/OrderBook.thy ===== *)
theory OrderBook
  imports SyncLoop
begin

text \<open>
  What the indexer promises: the order table follows the events of the contract. The contract's events act
  on an abstract book, a map from order ids to the status and the remaining quantity of the order; the
  handlers of theory \<open>Indexer\<close> refine these actions.
\<close>

section \<open>The abstract book\<close>

type_synonym book = "string \<Rightarrow> (int \<times> int) option"

definition book_make :: "string \<Rightarrow> int \<Rightarrow> book \<Rightarrow> book" where
  "book_make k q b = (if b k = None then b(k \<mapsto> (OrderStatusActive, q)) else b)"

definition book_cancel :: "string \<Rightarrow> book \<Rightarrow> book" where
  "book_cancel k b = b(k := map_option (\<lambda>(st, q). (OrderStatusCancelled, q)) (b k))"

definition book_fill :: "string \<Rightarrow> book \<Rightarrow> book" where
  "book_fill k b = b(k := map_option (\<lambda>(st, q). (OrderStatusFilled, 0)) (b k))"

definition book_take :: "string \<Rightarrow> book \<Rightarrow> book" where
  "book_take k b = b(k := map_option (\<lambda>(st, q). if 1 < q then (st, q - 1) else (OrderStatusFilled, 0)) (b k))"

definition book_match :: "string \<Rightarrow> string \<Rightarrow> book \<Rightarrow> book" where
  "book_match sell buy b = book_take buy (book_fill sell b)"

text \<open>The action of a log.\<close>

definition book_event :: "service \<Rightarrow> Log \<Rightarrow> book \<Rightarrow> book" where
  "book_event s l b = (
     let sig = hash_string (log_Topics l ! 0); id1 = hash_string (log_Topics l ! 1); id2 = hash_string (log_Topics l ! 2)
     in if sig = LogMakeTopic then (case unpack_make s (log_Data l) of
            None \<Rightarrow> b
          | Some ev \<Rightarrow> book_make (hash_string (mk_OrderKey ev)) (big_Int64 (mk_Amount ev)) b)
        else if sig = LogCancelTopic then book_cancel id1 b
        else if sig = LogMatchTopic then (case unpack_match s (log_Data l) of
            None \<Rightarrow> b
          | Some ev \<Rightarrow> if mo_Side (MakeOrder ev) = BidSide then book_match id2 id1 b else book_match id1 id2 b)
        else b)"

text \<open>The book that a table of orders stands for.\<close>

definition order_state :: "OrderRow \<Rightarrow> int \<times> int" where
  "order_state co = (ord_order_status co, ord_quantity_remaining co)"

definition book_of :: "OrderRow list \<Rightarrow> book" where
  "book_of rows k = map_option order_state (find (\<lambda>co. ToLower (ord_order_id co) = k) rows)"

section \<open>Rows and the book\<close>

lemma lower_hex_digit: "d < 16 \<Longrightarrow> lower_char (hex_digit d) = hex_digit d"
  by (auto simp: lower_char_def hex_digit_def Let_def)

lemma ToLower_append [lower_simps]: "ToLower (a @ b) = ToLower a @ ToLower b"
  by (simp add: ToLower_def)

lemma ToLower_hex_digits [lower_simps]: "ToLower (hex_digits n x) = hex_digits n x"
proof (induction n arbitrary: x)
  case (Suc n)
  have "ToLower [hex_digit (x mod 16)] = [hex_digit (x mod 16)]"
    using lower_hex_digit [of "x mod 16"] by (simp add: ToLower_def)
  then show ?case using Suc by (simp add: ToLower_append)
qed simp

lemma ToLower_hash [simp]: "ToLower (hash_string h) = hash_string h"
proof -
  have "ToLower HexPrefix = HexPrefix" by code_simp
  then show ?thesis by (simp only: hash_string_def lower_simps)
qed

lemma find_append: "find P (xs @ ys) = (case find P xs of None \<Rightarrow> find P ys | Some x \<Rightarrow> Some x)"
  by (induction xs) auto

lemma find_None_ex: "find P xs = None \<longleftrightarrow> \<not> list_ex P xs"
  by (induction xs) auto

lemma book_of_insert:
  assumes e: "folds_case e" and k: "ToLower (ord_order_id r) = k"
  shows "book_of (insert_ignore (\<lambda>r r'. same_order e r' r) r rows) =
    (if book_of rows k = None then (book_of rows)(k \<mapsto> order_state r) else book_of rows)"
proof -
  have same: "list_ex (\<lambda>r'. same_order e r' r) rows \<longleftrightarrow> book_of rows k \<noteq> None"
    using e k by (simp add: book_of_def find_None_ex same_order_def folds_case_def)
  show ?thesis
    using same k by (auto simp: insert_ignore_def book_of_def find_append fun_eq_iff split: option.split)
qed

lemma find_update:
  assumes "\<And>co. P (f co) = P co"
  shows "find P (update_where Q f rows) = map_option (\<lambda>co. if Q co then f co else co) (find P rows)"
  by (induction rows) (auto simp: assms)

lemma book_of_update:
  assumes e: "folds_case e" and f: "\<And>co. ord_order_id (f co) = ord_order_id co"
    and g: "\<And>co. co \<in> set rows \<Longrightarrow> this_order e k co \<Longrightarrow> order_state (f co) = g (order_state co)"
  shows "book_of (update_where (this_order e k) f rows) = (book_of rows)(ToLower k := map_option g (book_of rows (ToLower k)))"
proof
  fix k'
  have sel: "this_order e k co \<longleftrightarrow> ToLower (ord_order_id co) = ToLower k" for co
    using e by (simp add: this_order_def folds_case_def)
  show "book_of (update_where (this_order e k) f rows) k' =
      ((book_of rows)(ToLower k := map_option g (book_of rows (ToLower k)))) k'"
    using g by (auto simp: book_of_def find_update f sel option.map_comp comp_def find_Some_iff intro!: option.map_cong0)
qed

text \<open>With unique order ids, \<open>First\<close> finds the row the book speaks of.\<close>

lemma filter_this_order:
  assumes e: "folds_case e" and u: "no_duplicates (same_order e) rows"
  shows "filter (this_order e k) rows = (case find (this_order e k) rows of None \<Rightarrow> [] | Some r \<Rightarrow> [r])"
  using u
proof (induction rows)
  case (Cons r rows)
  show ?case
  proof (cases "this_order e k r")
    case True
    then have "\<forall>r' \<in> set rows. \<not> this_order e k r'"
      using Cons.prems e by (auto simp: no_duplicates_def same_order_def this_order_def folds_case_def)
    then show ?thesis using True by (simp add: filter_False)
  qed (use Cons in \<open>auto simp: no_duplicates_def\<close>)
qed simp

lemma this_order_lower: "folds_case e \<Longrightarrow> this_order e k = (\<lambda>co. ToLower (ord_order_id co) = ToLower k)"
  by (simp add: this_order_def folds_case_def fun_eq_iff)


section \<open>The handlers\<close>

text \<open>After the orders are written, the rest of a handler leaves them alone.\<close>

definition orders_are :: "OrderRow list \<Rightarrow> world \<Rightarrow> bool" where
  "orders_are rows w \<longleftrightarrow> t_orders (tbl w) = rows"

lemma keeps_orders_exec: "(\<And>t. t_orders (snd (f t)) = t_orders t) \<Longrightarrow> keeps (orders_are rows) (db_exec e f)"
  by (rule keeps_db_exec) (simp_all add: orders_are_def)

lemma keeps_orders_update: "(\<And>t. t_orders (f t) = t_orders t) \<Longrightarrow> keeps (orders_are rows) (db_update e f)"
  unfolding db_update_def by (rule keeps_orders_exec) simp

lemma keeps_orders_query: "keeps (orders_are rows) (db_query e q)"
  unfolding db_query_def by (rule keeps_orders_exec) simp

lemma keeps_orders_on_tables: "keeps (on_tables (\<lambda>t. t_orders t = rows)) m \<Longrightarrow> keeps (orders_are rows) m"
  by (simp add: keeps_def on_tables_def orders_are_def)

lemma keeps_orders_reads:
  "keeps (orders_are rows) (getTokenURI s a n)" "keeps (orders_are rows) (getImageFromMetadata s u)"
  "keeps (orders_are rows) (fetchCollectionMeta s a)" "keeps (orders_are rows) (now e)"
  "keeps (orders_are rows) (BlockTimeByNumber e b)"
  "keeps (orders_are rows) (AddToOrderManagerQueue e ch co)" "keeps (orders_are rows) (AddUpdatePriceEvent e ev ch)"
  "keeps (orders_are rows) (db_first e q)"
  unfolding AddToOrderManagerQueue_def AddUpdatePriceEvent_def db_first_def
  by (rule keeps_calls keeps_meta_calls; simp add: orders_are_def)+
    (rule keeps_orders_on_tables, intro keeps_intro)+

lemma keeps_orders_routines:
  "keeps (orders_are rows) (createItemExternal s a n)" "keeps (orders_are rows) (maintainCollectionAndItem s a n p)"
  "keeps (orders_are rows) (syncItemOnListing s a n mk p)" "keeps (orders_are rows) (syncItemOnMatchOrCancel s a n p)"
  "keeps (orders_are rows) (insert_activity s act)" "keeps (orders_are rows) (insert_item s ci)"
  unfolding createItemExternal_def insert_external_def image_of_uri_def maintainCollectionAndItem_def
    ensureCollectionExists_def getCollectionImageFromItem_def updateItemListingInfo_def updateCollectionFloorPrice_def
    syncItemOnListing_def syncItemOnMatchOrCancel_def insert_activity_def insert_item_def Let_def
  by (intro keeps_orders_exec keeps_orders_update keeps_orders_query keeps_orders_reads keeps_intro;
      simp split: prod.split)+

lemma keeps_orders_records:
  "keeps (orders_are rows) (record_make s l ev side kind mk co)" "keeps (orders_are rows) (record_match s l mev sell buy oid)"
  "keeps (orders_are rows) (record_cancel s l co')"
  unfolding record_make_def record_match_def record_cancel_def update_owner_def Let_def
  by (intro keeps_orders_routines keeps_orders_update keeps_orders_reads keeps_intro; simp)+


lemma wp_make_order:
  assumes e: "db_works (svc_env s)"
  shows "wp (make_order s l ev side kind mk) (\<lambda>_ w'. \<exists>t n. t_orders (tbl w') =
    insert_ignore (\<lambda>r r'. same_order (svc_env s) r' r) (new_order s ev (order_type_of side kind) mk t n) (t_orders (tbl w))) w"
proof -
  have rest: "keeps (orders_are X) (make_item s l ev side kind mk co)" for X co
    unfolding make_item_def Let_def
    by (intro keeps_orders_routines keeps_orders_records keeps_orders_reads keeps_intro)
  show ?thesis
    unfolding make_order_def Let_def insert_order_def wp_bind wp_now wp_db_update [OF e]
    by (rule wp_mono [OF wp_keeps [OF rest]]) (auto simp: orders_are_def)
qed

text \<open>The book after a handler, when there was no fork: each lemma speaks of the handler's body.\<close>

lemma wp_after_fork_check:
  assumes e: "db_works (svc_env s)" and nofork: "\<not> forked (svc_env s) (log_BlockNumber l) (hash_string (log_TxHash l)) (tbl w)"
  shows "wp (after_fork_check s l m) Q w = wp m Q (w\<lparr>n_db := Suc (n_db w)\<rparr>)"
proof -
  have "run_state (checkAndHandleFork s (log_BlockNumber l) (hash_string (log_TxHash l))) w = (Inr (), w\<lparr>n_db := Suc (n_db w)\<rparr>)"
    using wp_fork [OF e, of "log_BlockNumber l" "hash_string (log_TxHash l)" w] nofork
    by (auto simp: wp_def split: prod.splits)
  then show ?thesis by (simp add: after_fork_check_def wp_def)
qed

lemma wp_make_book:
  assumes e: "db_works (svc_env s)" "folds_case (svc_env s)"
  shows "wp (make_order s l ev side kind mk) (\<lambda>_ w'. book_of (t_orders (tbl w')) =
    book_make (hash_string (mk_OrderKey ev)) (big_Int64 (mk_Amount ev)) (book_of (t_orders (tbl w)))) w"
  by (rule wp_mono [OF wp_make_order [OF e(1)]])
    (auto simp: book_of_insert [OF e(2)] book_make_def new_order_def order_state_def)

lemma wp_first_order:
  assumes e: "db_works e" "folds_case e" and u: "no_duplicates (same_order e) (t_orders (tbl w))"
  shows "wp (first_order e k) Q w = (case find (\<lambda>co. ToLower (ord_order_id co) = ToLower k) (t_orders (tbl w)) of
    None \<Rightarrow> Q (Inl RecordNotFound) (w\<lparr>n_db := Suc (n_db w)\<rparr>) | Some co \<Rightarrow> Q (Inr co) (w\<lparr>n_db := Suc (n_db w)\<rparr>))"
  unfolding this_order_lower [OF e(2), symmetric]
  by (simp add: first_order_def db_first_def wp_simps e(1) filter_this_order [OF e(2) u] split: option.split)

lemma wp_cancel_book:
  assumes e: "db_works (svc_env s)" "folds_case (svc_env s)"
  shows "wp (cancel_order s l k) (\<lambda>_ w'. book_of (t_orders (tbl w')) = book_cancel (ToLower k) (book_of (t_orders (tbl w)))) w"
proof -
  let ?rest = "do {
       r \<leftarrow> first_order (svc_env s) k;
       case r of Inl _ \<Rightarrow> State_Monad.return () | Inr cancelOrder \<Rightarrow> record_cancel s l cancelOrder
     }"
  have rest: "keeps (orders_are X) ?rest" for X
    unfolding first_order_def by (intro keeps_orders_reads keeps_orders_records keeps_intro)
  have book: "book_of (update_where (this_order (svc_env s) k) cancelled rows) = book_cancel (ToLower k) (book_of rows)" for rows
    by (subst book_of_update [OF e(2), where g = "\<lambda>(st, q). (OrderStatusCancelled, q)"])
      (auto simp: cancelled_def order_state_def book_cancel_def)
  show ?thesis
    unfolding cancel_order_def update_order_def wp_bind wp_db_update [OF e(1)] is_err_simps if_False
    unfolding wp_bind [symmetric]
    by (rule wp_mono [OF wp_keeps [OF rest]]) (auto simp: orders_are_def book)
qed

lemma order_state_sold: "order_state (sold_to to co) = (OrderStatusFilled, 0)"
  and order_state_filled: "order_state (filled co) = (OrderStatusFilled, 0)"
  by (simp_all add: order_state_def sold_to_def filled_def)

lemma book_of_sold:
  "folds_case e \<Longrightarrow> book_of (update_where (this_order e k) (sold_to to) rows) = book_fill (ToLower k) (book_of rows)"
  by (subst book_of_update [where g = "\<lambda>(st, q). (OrderStatusFilled, 0)"])
    (auto simp: book_fill_def order_state_sold split_def, simp add: sold_to_def)

lemma find_lower_book:
  "book_of rows k = (case find (\<lambda>co. ToLower (ord_order_id co) = k) rows of None \<Rightarrow> None | Some co \<Rightarrow> Some (order_state co))"
  by (simp add: book_of_def option.case_eq_if map_option_case)

lemma wp_settle_book:
  assumes e: "db_works (svc_env s)" "folds_case (svc_env s)" and u: "no_duplicates (same_order (svc_env s)) (t_orders (tbl w))"
  shows "wp (settle_orders s sell buy to) (\<lambda>_ w'. book_of (t_orders (tbl w')) =
    book_match (ToLower sell) (ToLower buy) (book_of (t_orders (tbl w)))) w"
proof -
  let ?e = "svc_env s"
  let ?rows = "update_where (this_order ?e sell) (sold_to to) (t_orders (tbl w))"
  let ?w1 = "w\<lparr>n_db := Suc (n_db w), tbl := (tbl w)\<lparr>t_orders := ?rows\<rparr>\<rparr>"
  have u1: "no_duplicates (same_order ?e) ?rows"
    by (rule no_duplicates_update [OF _ _ u]) (simp_all add: same_order_def sold_to_def)
  have fill: "book_of ?rows = book_fill (ToLower sell) (book_of (t_orders (tbl w)))"
    by (rule book_of_sold [OF e(2)])
  have upd: "book_of (update_where (this_order ?e buy) f ?rows) = book_take (ToLower buy) (book_of ?rows)"
    if f: "find (\<lambda>co. ToLower (ord_order_id co) = ToLower buy) ?rows = Some bo"
      "f = (if ord_quantity_remaining bo > 1 then (\<lambda>co. co\<lparr>ord_quantity_remaining := ord_quantity_remaining bo - 1\<rparr>) else filled)" for f bo
  proof -
    have flt: "filter (this_order ?e buy) ?rows = [bo]"
      using filter_this_order [OF e(2) u1, of buy] f(1) by (simp add: this_order_lower [OF e(2)])
    have "co = bo" if "co \<in> set ?rows" "this_order ?e buy co" for co
    proof -
      have "co \<in> set (filter (this_order ?e buy) ?rows)" using that by simp
      then show ?thesis unfolding flt by simp
    qed
    then show ?thesis
      using f(2) by (subst book_of_update [OF e(2), where g = "\<lambda>(st, q). if 1 < q then (st, q - 1) else (OrderStatusFilled, 0)"])
        (auto simp: order_state_def filled_def book_take_def)
  qed
  have missing: "book_take (ToLower buy) (book_of ?rows) = book_of ?rows"
    if "find (\<lambda>co. ToLower (ord_order_id co) = ToLower buy) ?rows = None"
    using that by (auto simp: book_take_def book_of_def)
  have "wp (first_order ?e buy) (\<lambda>b. wp (case b of Inl _ \<Rightarrow> State_Monad.return False
      | Inr buyOrder \<Rightarrow> do {
          r \<leftarrow> (if ord_quantity_remaining buyOrder > 1
               then update_order ?e buy (\<lambda>co. co\<lparr>ord_quantity_remaining := ord_quantity_remaining buyOrder - 1\<rparr>)
               else update_order ?e buy filled);
          State_Monad.return (\<not> is_err r)
        }) (\<lambda>_ w'. book_of (t_orders (tbl w')) = book_take (ToLower buy) (book_of ?rows))) ?w1"
    unfolding wp_first_order [OF e, of ?w1 buy, simplified, OF u1]
    by (auto simp: wp_simps e(1) update_order_def missing intro!: upd split: option.split)
  then show ?thesis
    by (simp add: settle_orders_def Let_def wp_bind update_order_def wp_simps e(1) fill book_match_def)
qed


lemma wp_handle_log_book:
  assumes e: "db_works (svc_env s)" "folds_case (svc_env s)" and u: "no_duplicates (same_order (svc_env s)) (t_orders (tbl w))"
    and nofork: "\<not> forked (svc_env s) (log_BlockNumber l) (hash_string (log_TxHash l)) (tbl w)"
    and l: "topics_complete l"
  shows "wp (handle_log s l) (\<lambda>_ w'. book_of (t_orders (tbl w')) = book_event s l (book_of (t_orders (tbl w)))) w"
proof -
  let ?w1 = "w\<lparr>n_db := Suc (n_db w)\<rparr>" and ?b = "book_of (t_orders (tbl w))"
  note fork = wp_after_fork_check [OF e(1) nofork]
  obtain t ts where t: "log_Topics l = t # ts" using l by (auto simp: topics_complete_def split: list.splits)
  have topic: "topic l i = State_Monad.return (Inr (log_Topics l ! i))" if "i \<le> length ts" for i
    using that t by (simp add: topic_def)
  have make: "wp (handleMakeEvent s l) (\<lambda>_ w'. book_of (t_orders (tbl w')) = (case unpack_make s (log_Data l) of
      None \<Rightarrow> ?b | Some ev \<Rightarrow> book_make (hash_string (mk_OrderKey ev)) (big_Int64 (mk_Amount ev)) ?b)) w" if "3 \<le> length ts"
    using that wp_make_book [OF e, where w = ?w1]
    by (auto simp: handleMakeEvent_def fork topic wp_simps split: option.split)
  have cancel: "wp (handleCancelEvent s l) (\<lambda>_ w'. book_of (t_orders (tbl w')) = book_cancel (hash_string (log_Topics l ! 1)) ?b) w"
    if "1 \<le> length ts"
    using that wp_cancel_book [OF e, of l "hash_string (log_Topics l ! 1)" ?w1]
    by (simp add: handleCancelEvent_def fork topic wp_simps)
  have after: "wp (do {
        settled \<leftarrow> settle_orders s (hash_string x) (hash_string y) to;
        if settled then lift_panic (record_match s l ev sell buy oid) else finish
      }) (\<lambda>_ w'. book_of (t_orders (tbl w')) = book_match (hash_string x) (hash_string y) ?b) ?w1" for x y to ev sell buy oid
  proof -
    have rest: "keeps (orders_are X) (if settled then lift_panic (record_match s l ev sell buy oid) else finish)" for X settled
      by (intro keeps_intro keeps_orders_records)
    show ?thesis
      unfolding wp_bind
      by (rule wp_mono [OF wp_settle_book [OF e, of ?w1 "hash_string x" "hash_string y" to, simplified, OF u]], rule wp_mono [OF wp_keeps [OF rest]])
        (auto simp: orders_are_def)
  qed
  have match: "wp (handleMatchEvent s l) (\<lambda>_ w'. book_of (t_orders (tbl w')) = (case unpack_match s (log_Data l) of None \<Rightarrow> ?b
      | Some ev \<Rightarrow> if mo_Side (MakeOrder ev) = BidSide
          then book_match (hash_string (log_Topics l ! 2)) (hash_string (log_Topics l ! 1)) ?b
          else book_match (hash_string (log_Topics l ! 1)) (hash_string (log_Topics l ! 2)) ?b)) w" if "2 \<le> length ts"
    using that after
    by (simp add: handleMatchEvent_def fork topic wp_bindp wp_return wp_finish Let_def split: option.split)
  have approval: "wp (handleApprovalEvent s l) (\<lambda>_ w'. book_of (t_orders (tbl w')) = ?b) w"
  proof -
    have "keeps (orders_are (t_orders (tbl w))) (if length (log_Topics l) < 4 then finish
      else do {
        b \<leftarrow> BlockTimeByNumber (svc_env s) (log_BlockNumber l);
        case b of
          Inl _ \<Rightarrow> finish
        | Inr blockTime \<Rightarrow> do {
            _ \<leftarrow> insert_activity s (approval_activity s l blockTime);
            finish
          }
      })"
      by (intro keeps_orders_reads keeps_orders_routines keeps_intro)
    then show ?thesis
      unfolding handleApprovalEvent_def fork by (rule wp_mono [OF wp_keeps]) (simp_all add: orders_are_def)
  qed
  have h: "handle_log s l = (if hash_string t = LogMakeTopic then handleMakeEvent s l
      else if hash_string t = LogCancelTopic then handleCancelEvent s l
      else if hash_string t = LogMatchTopic then handleMatchEvent s l
      else if hash_string t = ERC721ApprovalTopic then handleApprovalEvent s l else finish)"
    using topic [of 0] t by (simp add: handle_log_def bindp_def Let_def)
  have t0: "log_Topics l ! 0 = t" using t by simp
  have len: "hash_string t = LogMakeTopic \<Longrightarrow> 3 \<le> length ts" "hash_string t = LogCancelTopic \<Longrightarrow> 1 \<le> length ts"
    "hash_string t = LogMatchTopic \<Longrightarrow> 2 \<le> length ts"
    using l t by (simp_all add: topics_complete_def)
  show ?thesis
    unfolding h book_event_def Let_def t0
    using make cancel match approval len by (auto simp: wp_finish)
qed


section \<open>Sequences of logs\<close>

text \<open>No activity of a transaction in \<open>ls\<close> carries another block than its logs.\<close>

definition consistent :: "env \<Rightarrow> Log list \<Rightarrow> ActivityRow \<Rightarrow> bool" where
  "consistent e ls a \<longleftrightarrow> (\<forall>l \<in> set ls. coll_eq e (act_tx_hash a) (hash_string (log_TxHash l)) \<longrightarrow>
     act_block_number a = uint (log_BlockNumber l))"

definition traced :: "env \<Rightarrow> Log list \<Rightarrow> tables \<Rightarrow> bool" where
  "traced e ls t \<longleftrightarrow> unique_keys e t \<and> (\<forall>a \<in> set (t_activities t). consistent e ls a)"

lemma set_insert_ignoreD: "x \<in> set (insert_ignore same r rows) \<Longrightarrow> x = r \<or> x \<in> set rows"
  by (auto simp: insert_ignore_def split: if_splits)

interpretation traced: table_laws s "traced (svc_env s) ls" "consistent (svc_env s) ls" for s ls
  by unfold_locales (auto simp: traced_def dest!: set_insert_ignoreD intro: unique.order_insert unique.order_update
    unique.item_insert unique.item_update unique.activity_delete unique.collection_insert unique.collection_update
    unique.external_insert unique.activity_insert)

text \<open>The logs of one chain: a transaction is in one block, and block numbers are plausible.\<close>

definition one_chain :: "Log list \<Rightarrow> bool" where
  "one_chain ls \<longleftrightarrow> (\<forall>l \<in> set ls. uint (log_BlockNumber l) < 2 ^ 63 \<and>
     (\<forall>l' \<in> set ls. log_TxHash l = log_TxHash l' \<longrightarrow> log_BlockNumber l = log_BlockNumber l'))"

lemma hex_digit_inj: "a < 16 \<Longrightarrow> b < 16 \<Longrightarrow> hex_digit a = hex_digit b \<Longrightarrow> a = b"
proof -
  assume a: "a < 16" "b < 16" and h: "hex_digit a = hex_digit b"
  have v: "hex_value (hex_digit d) = d" if "d < 16" for d
  proof (cases "d < 10")
    case True
    then have "(of_char (char_of (48 + d)) :: nat) = 48 + d" by simp
    then show ?thesis using True by (simp only: hex_value_def hex_digit_def Let_def) simp
  next
    case False
    then have "(of_char (char_of (87 + d)) :: nat) = 87 + d" using that by simp
    then show ?thesis using False that by (simp only: hex_value_def hex_digit_def Let_def) simp
  qed
  show ?thesis using v [OF a(1)] v [OF a(2)] h by metis
qed

lemma hex_digits_inj: "x < 16 ^ n \<Longrightarrow> y < 16 ^ n \<Longrightarrow> hex_digits n x = hex_digits n y \<Longrightarrow> x = y"
proof (induction n arbitrary: x y)
  case (Suc n)
  have "hex_digits n (x div 16) = hex_digits n (y div 16)" "hex_digit (x mod 16) = hex_digit (y mod 16)"
    using Suc.prems(3) by simp_all
  moreover have "x div 16 < 16 ^ n" "y div 16 < 16 ^ n" using Suc.prems(1,2) by (simp_all add: less_mult_imp_div_less)
  ultimately have "x div 16 = y div 16" "x mod 16 = y mod 16"
    using Suc.IH hex_digit_inj [of "x mod 16" "y mod 16"] by simp_all
  then show ?case by (metis div_mult_mod_eq)
qed simp

lemma hash_string_inj [simp]: "hash_string a = hash_string b \<longleftrightarrow> a = b"
proof
  have b: "unat x < 16 ^ 64" for x :: "256 word" using unsigned_less [of x] by simp
  assume "hash_string a = hash_string b"
  then have "unat a = unat b" by (intro hex_digits_inj [OF b b]) (simp add: hash_string_def)
  then show "a = b" by (rule unsigned_word_eqI)
qed simp

lemma traced_accepts:
  assumes e: "folds_case (svc_env s)" and c: "one_chain ls" and l: "l \<in> set ls"
  shows "traced.accepts s ls l"
proof -
  have "coll_eq (svc_env s) (hash_string a) (hash_string b) \<longleftrightarrow> a = b" for a b using e by (simp add: folds_case_def)
  moreover have "int64_of (log_BlockNumber l) = uint (log_BlockNumber l)"
  proof -
    have "uint (log_BlockNumber l) < 2 ^ 63" using c l unfolding one_chain_def by blast
    then show ?thesis by (simp add: int64_of_eq)
  qed
  moreover have "log_BlockNumber l = log_BlockNumber l'" if "l' \<in> set ls" "log_TxHash l = log_TxHash l'" for l'
    using c l that unfolding one_chain_def by blast
  ultimately show ?thesis
    unfolding traced.accepts_def consistent_def by metis
qed

lemma traced_no_fork:
  "traced e ls t \<Longrightarrow> l \<in> set ls \<Longrightarrow> \<not> forked e (log_BlockNumber l) (hash_string (log_TxHash l)) t"
  by (auto simp: traced_def consistent_def forked_def)

text \<open>C1: the order table follows the contract. From tables with unique keys and no activity of these
  transactions in another block, the handlers take any sequence of logs of one chain from the book of the
  old order table to the book that the events make of it, order by order: made, cancelled, filled or
  partly taken.\<close>

theorem order_table_follows_events:
  assumes e: "db_works (svc_env s)" "folds_case (svc_env s)" and c: "one_chain ls"
    and t: "traced (svc_env s) ls (tbl w)" and l: "\<forall>l \<in> set ls. topics_complete l"
    and run: "run_state (handle_logs s ls) w = (Inr (), w')"
  shows "book_of (t_orders (tbl w')) = fold (book_event s) ls (book_of (t_orders (tbl w)))"
proof -
  have "book_of (t_orders (tbl w')) = fold (book_event s) ks (book_of (t_orders (tbl w)))"
    if "set ks \<subseteq> set ls" "run_state (handle_logs s ks) w = (Inr (), w')" "traced (svc_env s) ls (tbl w)" for ks w
    using that
  proof (induction ks arbitrary: w)
    case Nil
    then show ?case by (simp add: finish_def)
  next
    case (Cons k ks)
    obtain r w1 where r: "run_state (handle_log s k) w = (r, w1)" by fastforce
    have k: "k \<in> set ls" using Cons.prems(1) by simp
    have u: "no_duplicates (same_order (svc_env s)) (t_orders (tbl w))"
      using Cons.prems(3) by (simp add: traced_def unique_keys_def)
    have "wp (handle_log s k) (\<lambda>_ w'. book_of (t_orders (tbl w')) = book_event s k (book_of (t_orders (tbl w)))) w"
      by (rule wp_handle_log_book [OF e u traced_no_fork [OF Cons.prems(3) k]]) (use l k in simp)
    then have b: "book_of (t_orders (tbl w1)) = book_event s k (book_of (t_orders (tbl w)))"
      using r by (simp add: wp_def)
    have "traced (svc_env s) ls (tbl w1)"
      using keepsD [OF traced.keeps_handle_log [OF traced_accepts [OF e(2) c k]], of w] r Cons.prems(3)
      by (simp add: on_tables_def)
    moreover have "run_state (handle_logs s ks) w1 = (Inr (), w')"
      using Cons.prems(2) r by (auto simp: bindp_def split: sum.splits)
    ultimately show ?case using Cons.IH [of w1] Cons.prems(1) b by simp
  qed
  then show ?thesis using run t by simp
qed

theorem order_table_follows_events_witness:
  "\<exists>w'. run_state (handle_logs make_service [make_log]) start_world = (Inr (), w') \<and>
     book_of (t_orders (tbl w')) (hash_string 1) = Some (OrderStatusActive, 1)"
proof -
  obtain w' where w: "run_state (handle_logs make_service [make_log]) start_world = (Inr (), w')"
    using handle_logs_no_panic [of make_service "[make_log]" start_world]
    by (metis make_service_answers topics_make_log prod.collapse list.set(1) list.set(2) singletonD)
  have c: "one_chain [make_log]" by (simp add: one_chain_def make_log_def)
  have t: "traced plain_env [make_log] (tbl start_world)"
    by (simp add: traced_def unique_keys_def no_duplicates_def start_world_def empty_tables_def)
  have b: "book_of (t_orders (tbl w')) = fold (book_event make_service) [make_log] (book_of (t_orders (tbl start_world)))"
    by (rule order_table_follows_events [OF _ _ c _ _ w]) (simp_all add: t)
  have "book_of (t_orders (tbl w')) (hash_string 1) = Some (OrderStatusActive, 1)"
    unfolding b by (simp add: book_event_def hash_make_topic book_make_def book_of_def start_world_def empty_tables_def sample_make_def
        big_Int64_def Uint64_def int64_of_def)
  then show ?thesis using w by blast
qed

end
