(* ===== verification/Bids.thy ===== *)
theory Bids
  imports Maintenance
begin

text \<open>
  The best bids for a set of tokens, \<open>GetOrderInfos\<close> and \<open>processBids\<close> of
  \<open>NFTMarket-backend/src/service/v1/order.go\<close> with their queries of \<open>dao/items.go\<close>: which order is
  shown as the best offer for each token, when a bid on the collection can serve any of them but only
  as often as it has quantity left. The main results: the answer is an allocation the orders of the
  table permit, and no permitted allocation is worth more.
\<close>

section \<open>Answers\<close>

record ItemBid =
  ib_MarketplaceId :: int
  ib_CollectionAddress :: string
  ib_TokenId :: string
  ib_OrderID :: string
  ib_EventTime :: int
  ib_ExpireTime :: int
  ib_Price :: price
  ib_Salt :: int
  ib_BidSize :: int
  ib_BidUnfilled :: int
  ib_Bidder :: string
  ib_OrderType :: int

definition BidTypeOffset :: int where "BidTypeOffset = 3"

definition getBidType :: "int \<Rightarrow> int" where
  "getBidType origin = (if BidTypeOffset \<le> origin then origin - BidTypeOffset else origin)"

text \<open>The composite literal \<open>types.ItemBid{...}\<close> of an order shown for a token.\<close>

definition item_bid :: "string \<Rightarrow> string \<Rightarrow> OrderRow \<Rightarrow> ItemBid" where
  "item_bid collectionAddr tokenId r =
     \<lparr>ib_MarketplaceId = ord_marketplace_id r, ib_CollectionAddress = collectionAddr, ib_TokenId = tokenId,
      ib_OrderID = ord_order_id r, ib_EventTime = ord_event_time r, ib_ExpireTime = ord_expire_time r,
      ib_Price = ord_price r, ib_Salt = ord_salt r, ib_BidSize = ord_size r,
      ib_BidUnfilled = ord_quantity_remaining r, ib_Bidder = ord_maker r,
      ib_OrderType = getBidType (ord_order_type r)\<rparr>"

section \<open>Queries\<close>

text \<open>
  The user's address is pasted into the text of the statement. Without a quote, a backslash or one of
  gorm's placeholder signs it is a string literal; any other address changes the statement, and what
  the server then does and returns is \<open>spliced\<close>.
\<close>

definition sql_literal :: "string \<Rightarrow> bool" where
  "sql_literal s \<longleftrightarrow> list_all (\<lambda>c. c \<noteq> CHR 0x27 \<and> c \<noteq> CHR 0x5C \<and> c \<noteq> CHR ''?'' \<and> c \<noteq> CHR ''@'') s"

type_synonym spliced = "string \<Rightarrow> tables \<Rightarrow> OrderRow list \<times> tables"

definition raw_query :: "env \<Rightarrow> spliced \<Rightarrow> string \<Rightarrow> (tables \<Rightarrow> OrderRow list) \<Rightarrow> OrderRow list result M" where
  "raw_query e spliced userAddr q =
     db_exec e (if sql_literal userAddr then (\<lambda>t. (q t, t)) else spliced userAddr)"

text \<open>A column the statement does not select keeps its zero value.\<close>

definition item_columns :: "OrderRow \<Rightarrow> OrderRow" where
  "item_columns r = r\<lparr>ord_id := 0, ord_marketplace_id := 0, ord_collection_address := '''',
     ord_order_status := 0, ord_currency_address := '''', ord_taker := ''''\<rparr>"

definition coll_columns :: "OrderRow \<Rightarrow> OrderRow" where
  "coll_columns r = (item_columns r)\<lparr>ord_token_id := ''''\<rparr>"

definition live_bid :: "env \<Rightarrow> int \<Rightarrow> string \<Rightarrow> int \<Rightarrow> OrderRow \<Rightarrow> bool" where
  "live_bid e t0 userAddr ty r \<longleftrightarrow>
     ord_order_type r = ty \<and> ord_order_status r = OrderStatusActive \<and> 0 < ord_quantity_remaining r \<and>
     t0 < ord_expire_time r \<and> (userAddr = '''' \<or> \<not> coll_eq e (ord_maker r) userAddr)"

definition live_item_bid :: "env \<Rightarrow> int \<Rightarrow> string \<Rightarrow> string \<Rightarrow> string \<Rightarrow> OrderRow \<Rightarrow> bool" where
  "live_item_bid e t0 userAddr collectionAddr tokenId r \<longleftrightarrow>
     coll_eq e (ord_collection_address r) collectionAddr \<and> coll_eq e (ord_token_id r) tokenId \<and>
     live_bid e t0 userAddr ItemBidOrder r"

definition live_coll_bid :: "env \<Rightarrow> int \<Rightarrow> string \<Rightarrow> string \<Rightarrow> OrderRow \<Rightarrow> bool" where
  "live_coll_bid e t0 userAddr collectionAddr r \<longleftrightarrow>
     coll_eq e (ord_collection_address r) collectionAddr \<and> live_bid e t0 userAddr CollectionBidOrder r"

text \<open>Without an item the statement reads \<open>IN (NULL)\<close>, which the server rejects for a pair.\<close>

definition QueryItemsBestBids ::
  "env \<Rightarrow> spliced \<Rightarrow> string \<Rightarrow> (string \<times> string) list \<Rightarrow> OrderRow list result M" where
  "QueryItemsBestBids e spliced userAddr itemInfos = do {
     t0 \<leftarrow> now e;
     if itemInfos = [] then State_Monad.return (Inl DBError)
     else raw_query e spliced userAddr (\<lambda>t. map item_columns (row_order e
            (filter (\<lambda>r. list_ex (\<lambda>(c, tok). live_item_bid e t0 userAddr c tok r) itemInfos) (t_orders t))))
   }"

text \<open>\<open>QueryCollectionTopNBid\<close>: the \<open>num\<close> dearest bids, each as often as it has quantity left, cut to \<open>num\<close>.\<close>

definition repeat_bids :: "OrderRow list \<Rightarrow> OrderRow list" where
  "repeat_bids rows = concat (map (\<lambda>r. replicate (nat (ord_quantity_remaining r)) r) rows)"

definition QueryCollectionTopNBid ::
  "env \<Rightarrow> spliced \<Rightarrow> string \<Rightarrow> string \<Rightarrow> nat \<Rightarrow> OrderRow list result M" where
  "QueryCollectionTopNBid e spliced userAddr collectionAddr num = do {
     t0 \<leftarrow> now e;
     r \<leftarrow> raw_query e spliced userAddr (\<lambda>t. map coll_columns (take num
            (order_by e (\<lambda>r. - ord_price r) (filter (live_coll_bid e t0 userAddr collectionAddr) (t_orders t)))));
     State_Monad.return (case r of Inl err \<Rightarrow> Inl err | Inr bestBids \<Rightarrow> Inr (take num (repeat_bids bestBids)))
   }"

section \<open>Allocation\<close>

text \<open>The map of the dearest bid of each token.\<close>

definition keep_best :: "(string \<times> OrderRow) list \<Rightarrow> OrderRow \<Rightarrow> (string \<times> OrderRow) list" where
  "keep_best best bid = (case map_of best (ord_token_id bid) of
       None \<Rightarrow> AList.update (ord_token_id bid) bid best
     | Some order \<Rightarrow>
         if ord_price order < ord_price bid then AList.update (ord_token_id bid) bid best else best)"

definition items_best_bids :: "OrderRow list \<Rightarrow> (string \<times> OrderRow) list" where
  "items_best_bids bids = foldl keep_best [] bids"

text \<open>The two loops of \<open>processBids\<close>: first the tokens without a bid of their own, then the others from the
  cheapest bid on; \<open>cBidIndex\<close> is the next collection bid.\<close>

fun bids_for_others ::
  "string \<Rightarrow> (string \<times> OrderRow) list \<Rightarrow> OrderRow list \<Rightarrow> string list \<Rightarrow> ItemBid list \<Rightarrow> nat \<Rightarrow> ItemBid list \<times> nat" where
  "bids_for_others addr best cbids [] res cBidIndex = (res, cBidIndex)"
| "bids_for_others addr best cbids (tok # toks) res cBidIndex =
     (if map_of best tok = None then
        if length cbids \<le> cBidIndex then bids_for_others addr best cbids toks res cBidIndex
        else bids_for_others addr best cbids toks (res @ [item_bid addr tok (cbids ! cBidIndex)]) (Suc cBidIndex)
      else bids_for_others addr best cbids toks res cBidIndex)"

fun bids_for_bidden :: "string \<Rightarrow> OrderRow list \<Rightarrow> OrderRow list \<Rightarrow> ItemBid list \<Rightarrow> nat \<Rightarrow> ItemBid list" where
  "bids_for_bidden addr cbids [] res cBidIndex = res"
| "bids_for_bidden addr cbids (itemBid # rest) res cBidIndex =
     (if length cbids \<le> cBidIndex then
        bids_for_bidden addr cbids rest (res @ [item_bid addr (ord_token_id itemBid) itemBid]) cBidIndex
      else let cBid = cbids ! cBidIndex in
        if ord_price itemBid < ord_price cBid then
          bids_for_bidden addr cbids rest (res @ [item_bid addr (ord_token_id itemBid) cBid]) (Suc cBidIndex)
        else bids_for_bidden addr cbids rest (res @ [item_bid addr (ord_token_id itemBid) itemBid]) cBidIndex)"

definition items_sorted_bids :: "env \<Rightarrow> (string \<times> OrderRow) list \<Rightarrow> OrderRow list" where
  "items_sorted_bids e best = sort_key ord_price (map (\<lambda>k. the (map_of best k)) (map_order e (map fst best)))"

definition processBids ::
  "env \<Rightarrow> string list \<Rightarrow> (string \<times> OrderRow) list \<Rightarrow> OrderRow list \<Rightarrow> string \<Rightarrow> ItemBid list" where
  "processBids e tokenIds best cbids addr =
     (case bids_for_others addr best cbids tokenIds [] 0 of
        (res, cBidIndex) \<Rightarrow> bids_for_bidden addr cbids (items_sorted_bids e best) res cBidIndex)"

definition GetOrderInfos ::
  "env \<Rightarrow> spliced \<Rightarrow> string \<Rightarrow> string \<Rightarrow> string list \<Rightarrow> ItemBid list result M" where
  "GetOrderInfos e spliced userAddr collectionAddr tokenIds = do {
     bids \<leftarrow> QueryItemsBestBids e spliced userAddr (map (\<lambda>tok. (collectionAddr, tok)) tokenIds);
     case bids of
       Inl err \<Rightarrow> State_Monad.return (Inl err)
     | Inr bids \<Rightarrow> do {
         cbids \<leftarrow> QueryCollectionTopNBid e spliced userAddr collectionAddr (length tokenIds);
         State_Monad.return (case cbids of
             Inl err \<Rightarrow> Inl err
           | Inr cbids \<Rightarrow> Inr (processBids e tokenIds (items_best_bids bids) cbids collectionAddr))
       }
   }"

section \<open>The loops as list functions\<close>

fun fill :: "OrderRow list \<Rightarrow> OrderRow list \<Rightarrow> (string \<times> OrderRow) list" where
  "fill [] cs = []"
| "fill (b # bs) [] = (ord_token_id b, b) # fill bs []"
| "fill (b # bs) (c # cs) =
     (if ord_price b < ord_price c then (ord_token_id b, c) # fill bs cs
      else (ord_token_id b, b) # fill bs (c # cs))"

definition unbid :: "(string \<times> OrderRow) list \<Rightarrow> string list \<Rightarrow> string list" where
  "unbid best toks = filter (\<lambda>tok. map_of best tok = None) toks"

definition shown :: "string \<Rightarrow> (string \<times> OrderRow) list \<Rightarrow> ItemBid list" where
  "shown addr al = map (\<lambda>(tok, r). item_bid addr tok r) al"

lemma others_zip:
  "i \<le> length cbids \<Longrightarrow> bids_for_others addr best cbids toks res i =
     (res @ shown addr (zip (unbid best toks) (drop i cbids)),
      i + min (length (unbid best toks)) (length cbids - i))"
proof (induction addr best cbids toks res i rule: bids_for_others.induct)
  case (2 addr best cbids tok toks res i)
  show ?case
  proof (cases "map_of best tok = None \<and> i < length cbids")
    case True
    then have "drop i cbids = cbids ! i # drop (Suc i) cbids" by (simp add: Cons_nth_drop_Suc)
    with True 2 show ?thesis by (auto simp: unbid_def shown_def)
  next
    case False
    with 2 show ?thesis by (auto simp: unbid_def shown_def)
  qed
qed (simp add: unbid_def shown_def)

lemma bidden_fill:
  "i \<le> length cbids \<Longrightarrow> bids_for_bidden addr cbids bs res i = res @ shown addr (fill bs (drop i cbids))"
proof (induction addr cbids bs res i rule: bids_for_bidden.induct)
  case (2 addr cbids b bs res i)
  show ?case
  proof (cases "i < length cbids")
    case True
    then have "drop i cbids = cbids ! i # drop (Suc i) cbids" by (simp add: Cons_nth_drop_Suc)
    with True 2 show ?thesis by (auto simp: shown_def Let_def)
  next
    case False
    with 2 show ?thesis by (simp add: shown_def)
  qed
qed (simp add: shown_def)

definition allocation :: "(string \<times> OrderRow) list \<Rightarrow> OrderRow list \<Rightarrow> string list \<Rightarrow> OrderRow list \<Rightarrow> (string \<times> OrderRow) list" where
  "allocation best bs toks cbids =
     zip (unbid best toks) cbids @ fill bs (drop (length (unbid best toks)) cbids)"

lemma processBids_shown:
  "processBids e toks best cbids addr = shown addr (allocation best (items_sorted_bids e best) toks cbids)"
  by (auto simp: processBids_def others_zip bidden_fill allocation_def shown_def min_def)

section \<open>The map of best bids\<close>

definition best_of :: "OrderRow list \<Rightarrow> (string \<times> OrderRow) list \<Rightarrow> bool" where
  "best_of bids best \<longleftrightarrow> distinct (map fst best) \<and> fst ` set best = ord_token_id ` set bids \<and>
     (\<forall>(tok, r) \<in> set best. r \<in> set bids \<and> ord_token_id r = tok \<and>
        (\<forall>r' \<in> set bids. ord_token_id r' = tok \<longrightarrow> ord_price r' \<le> ord_price r))"

lemma best_of_member:
  "best_of bids best \<Longrightarrow> map_of best tok = Some r \<Longrightarrow>
     r \<in> set bids \<and> ord_token_id r = tok \<and> (\<forall>r' \<in> set bids. ord_token_id r' = tok \<longrightarrow> ord_price r' \<le> ord_price r)"
  unfolding best_of_def by (drule map_of_SomeD) blast

lemma best_of_None: "best_of bids best \<Longrightarrow> map_of best tok = None \<longleftrightarrow> tok \<notin> ord_token_id ` set bids"
  by (simp add: best_of_def map_of_eq_None_iff)

lemma set_update:
  assumes "distinct (map fst al)"
  shows "set (AList.update k v al) = insert (k, v) {x \<in> set al. fst x \<noteq> k}"
  using assms
proof (induction al)
  case (Cons a al)
  then show ?case by (cases a) (force simp: image_iff)
qed simp

lemma keys_update: "fst ` set (AList.update k v al) = insert k (fst ` set al)"
  by (simp add: dom_update)

lemma best_of_update:
  assumes b: "best_of bids best"
    and max: "\<And>r'. r' \<in> set bids \<Longrightarrow> ord_token_id r' = ord_token_id r \<Longrightarrow> ord_price r' \<le> ord_price r"
  shows "best_of (bids @ [r]) (AList.update (ord_token_id r) r best)"
proof -
  have d: "distinct (map fst best)" using b by (simp add: best_of_def)
  have "s \<in> set (bids @ [r]) \<and> ord_token_id s = tok \<and>
      (\<forall>r' \<in> set (bids @ [r]). ord_token_id r' = tok \<longrightarrow> ord_price r' \<le> ord_price s)"
    if "(tok, s) \<in> set (AList.update (ord_token_id r) r best)" for tok s
  proof (cases "tok = ord_token_id r")
    case True
    then show ?thesis using that max by (auto simp: set_update [OF d])
  next
    case False
    then have "(tok, s) \<in> set best" using that by (simp add: set_update [OF d])
    then show ?thesis using b False by (auto simp: best_of_def)
  qed
  moreover have "fst ` set (AList.update (ord_token_id r) r best) = ord_token_id ` set (bids @ [r])"
    using b by (simp add: best_of_def keys_update)
  ultimately show ?thesis using d by (auto simp: best_of_def distinct_update)
qed

lemma best_of_keep: 
  assumes b: "best_of bids best"
  shows "best_of (bids @ [r]) (keep_best best r)"
proof (cases "map_of best (ord_token_id r)")
  case None
  then have "ord_token_id r \<notin> ord_token_id ` set bids" using b best_of_None by blast
  then have "best_of (bids @ [r]) (AList.update (ord_token_id r) r best)"
    by (intro best_of_update b) (metis imageI)
  then show ?thesis by (simp add: keep_best_def None)
next
  case (Some r0)
  note r0 = best_of_member [OF b Some]
  show ?thesis
  proof (cases "ord_price r0 < ord_price r")
    case True
    then have "best_of (bids @ [r]) (AList.update (ord_token_id r) r best)"
      using r0 by (intro best_of_update b) force
    then show ?thesis by (simp add: keep_best_def Some True)
  next
    case False
    have "s \<in> set bids \<and> ord_token_id s = tok \<and>
        (\<forall>r' \<in> set (bids @ [r]). ord_token_id r' = tok \<longrightarrow> ord_price r' \<le> ord_price s)"
      if "(tok, s) \<in> set best" for tok s
    proof -
      have s: "map_of best tok = Some s" using b that by (simp add: best_of_def)
      then have "tok = ord_token_id r \<Longrightarrow> s = r0" using Some by simp
      then show ?thesis using best_of_member [OF b s] False by auto
    qed
    moreover have "insert (ord_token_id r) (ord_token_id ` set bids) = ord_token_id ` set bids"
      using r0 by (metis imageI insert_absorb)
    ultimately show ?thesis using b by (auto simp: best_of_def keep_best_def Some False)
  qed
qed

lemma best_of_items: "best_of bids (items_best_bids bids)"
proof (induction bids rule: rev_induct)
  case Nil
  show ?case by (simp add: best_of_def items_best_bids_def)
next
  case (snoc r bids)
  then show ?case using best_of_keep by (simp add: items_best_bids_def)
qed

text \<open>The projection to the selected columns commutes with the whole computation.\<close>

lemma columns_keep [simp]:
  "ord_price (item_columns r) = ord_price r" "ord_price (coll_columns r) = ord_price r"
  "ord_token_id (item_columns r) = ord_token_id r"
  "ord_quantity_remaining (coll_columns r) = ord_quantity_remaining r"
  "item_bid addr tok (coll_columns r) = item_bid addr tok (item_columns r)"
  by (simp_all add: item_columns_def coll_columns_def item_bid_def)

abbreviation "on_rows \<equiv> map (\<lambda>(tok, r). (tok, item_columns r))"

lemma map_of_on_rows: "map_of (on_rows best) tok = map_option item_columns (map_of best tok)"
  by (induction best) auto

lemma map_fst_on_rows: "map fst (on_rows best) = map fst best"
  by (induction best) auto

lemma update_on_rows: "AList.update k (item_columns v) (on_rows al) = on_rows (AList.update k v al)"
  by (induction al) auto

lemma items_best_bids_columns: "items_best_bids (map item_columns bids) = on_rows (items_best_bids bids)"
proof (induction bids rule: rev_induct)
  case (snoc r bids)
  then show ?case
    by (simp add: items_best_bids_def keep_best_def map_of_on_rows update_on_rows split: option.split)
qed (simp add: items_best_bids_def)

lemma sort_key_map: "(\<And>x. k (f x) = k x) \<Longrightarrow> sort_key k (map f xs) = map f (sort_key k xs)"
proof (induction xs)
  case (Cons x xs)
  have "insort_key k (f x) (map f ys) = map f (insort_key k x ys)" for ys
    by (induction ys) (simp_all add: Cons.prems)
  with Cons show ?case by simp
qed simp

lemma fill_columns:
  "shown addr (fill (map item_columns bs) (map coll_columns cs)) = shown addr (on_rows (fill bs cs))"
  by (induction bs cs rule: fill.induct) (simp_all add: shown_def)


section \<open>What an allocation hands out\<close>

lemma map_fst_fill: "map fst (fill bs cs) = map ord_token_id bs"
  by (induction bs cs rule: fill.induct) simp_all

lemma fill_entries: "(tok, r) \<in> set (fill bs cs) \<Longrightarrow> (r \<in> set bs \<and> ord_token_id r = tok) \<or> r \<in> set cs"
  by (induction bs cs rule: fill.induct) (auto split: if_splits)

lemma fill_uses: "mset (map snd (fill bs cs)) \<subseteq># mset bs + mset cs"
proof (induction bs cs rule: fill.induct)
  case (3 b bs c cs)
  have more: "M \<subseteq># A \<Longrightarrow> M \<subseteq># add_mset b A" for M A by (simp add: subseteq_mset_def le_SucI)
  show ?case
  proof (cases "ord_price b < ord_price c")
    case True
    have "add_mset c (mset (map snd (fill bs cs))) \<subseteq># add_mset c (add_mset b (mset bs + mset cs))"
      using more [OF 3(1) [OF True]] by (simp only: mset_subset_eq_add_mset_cancel)
    then show ?thesis using True by (simp add: add_mset_commute)
  next
    case False
    then show ?thesis using 3(2) by simp
  qed
qed simp_all

lemma zip_uses: "mset (map snd (zip us cs)) = mset (take (length us) cs)"
  by (simp add: map_snd_zip_take min_def take_all_iff)

lemma allocation_uses: "mset (map snd (allocation best bs toks cs)) \<subseteq># mset bs + mset cs"
proof -
  let ?n = "length (unbid best toks)"
  have "mset (map snd (allocation best bs toks cs)) \<subseteq># mset (take ?n cs) + (mset bs + mset (drop ?n cs))"
    unfolding allocation_def map_append mset_append zip_uses by (intro subset_mset.add_left_mono fill_uses)
  also have "mset (take ?n cs) + (mset bs + mset (drop ?n cs)) = mset bs + mset cs"
    by (metis append_take_drop_id mset_append union_lcomm)
  finally show ?thesis .
qed

lemma allocation_entries:
  assumes "(tok, r) \<in> set (allocation best bs toks cs)"
  shows "(r \<in> set bs \<and> ord_token_id r = tok) \<or> (r \<in> set cs \<and> (tok \<in> set (unbid best toks) \<or> tok \<in> ord_token_id ` set bs))"
proof -
  consider "(tok, r) \<in> set (zip (unbid best toks) cs)"
    | "(tok, r) \<in> set (fill bs (drop (length (unbid best toks)) cs))"
    using assms by (auto simp: allocation_def)
  then show ?thesis
  proof cases
    case 1
    then show ?thesis by (auto dest: set_zip_leftD set_zip_rightD)
  next
    case 2
    then have "tok \<in> set (map ord_token_id bs)" using map_fst_fill [of bs] by (metis fst_conv imageI set_map)
    with fill_entries [OF 2] show ?thesis by (auto dest: in_set_dropD)
  qed
qed

section \<open>Sums\<close>

definition prices :: "OrderRow list \<Rightarrow> price list" where
  "prices rs = map ord_price rs"

lemma prices_simps [simp]: "prices [] = []" "prices (r # rs) = ord_price r # prices rs"
    "prices (xs @ ys) = prices xs @ prices ys"
  by (simp_all add: prices_def)

lemma sum_take_nonneg: "\<forall>x \<in> set xs. 0 \<le> x \<Longrightarrow> 0 \<le> sum_list (take n (xs :: rat list))"
  by (rule sum_list_nonneg) (blast dest: in_set_takeD)

lemma sum_take_mono: "(\<forall>x \<in> set xs. 0 \<le> x) \<Longrightarrow> m \<le> n \<Longrightarrow> sum_list (take m xs) \<le> sum_list (take n (xs :: rat list))"
proof (induction xs arbitrary: m n)
  case (Cons x xs)
  show ?case
  proof (cases m)
    case 0
    with Cons.prems(1) show ?thesis by (simp add: sum_take_nonneg)
  next
    case (Suc m')
    with Cons show ?thesis by (cases n) auto
  qed
qed simp

text \<open>No choice of as many elements is worth more than a prefix of the descending list.\<close>

lemma top_sum:
  "sorted_wrt (\<ge>) xs \<Longrightarrow> N \<subseteq># mset xs \<Longrightarrow> sum_mset N \<le> sum_list (take (size N) (xs :: rat list))"
proof (induction xs arbitrary: N)
  case (Cons x xs)
  show ?case
  proof (cases "x \<in># N")
    case True
    then obtain N' where N': "N = add_mset x N'" by (metis insert_DiffM)
    with Cons.prems have "N' \<subseteq># mset xs" by simp
    with Cons N' show ?thesis by simp
  next
    case False
    then have N: "N \<subseteq># mset xs" using Cons.prems(2)
      by (metis insert_subset_eq_iff mset.simps(2) subset_eq_diff_conv diff_single_trivial add_mset_add_single)
    show ?thesis
    proof (cases "size N")
      case (Suc m)
      have "size N \<le> length xs" using size_mset_mono [OF N] by simp
      then have "m < length xs" using Suc by simp
      then have "sum_list (take (Suc m) xs) = sum_list (take m xs) + xs ! m" by (simp add: take_Suc_conv_app_nth)
      moreover have "xs ! m \<le> x" using Cons.prems(1) \<open>m < length xs\<close> by simp
      moreover have "sum_mset N \<le> sum_list (take (Suc m) xs)" using Cons.IH [OF _ N] Cons.prems(1) Suc by simp
      ultimately show ?thesis using Suc by simp
    qed simp
  qed
qed simp

lemma sum_drop_sorted:
  assumes "sorted bs" "N \<subseteq># mset bs" "size N + k = length bs"
  shows "sum_mset N \<le> sum_list (drop k (bs :: rat list))"
proof -
  have "sum_mset N \<le> sum_list (take (size N) (rev bs))"
    using assms(1,2) by (intro top_sum) (simp_all add: sorted_wrt_rev)
  also have "take (size N) (rev bs) = rev (drop k bs)" using assms(3) by (simp add: rev_drop add.commute flip: assms(3))
  finally show ?thesis by simp
qed

text \<open>Whatever number \<open>k\<close> of collection bids a plan uses, \<open>fill\<close> collects at least the \<open>k\<close> dearest of them
  and all but the \<open>k\<close> cheapest of the others.\<close>

lemma shift_price:
  assumes "c \<le> b" "0 \<le> b" "\<forall>x \<in> set cs. x \<le> c"
  shows "sum_list (take j cs) + c \<le> sum_list (take j (c # cs)) + (b :: price)"
proof (cases j)
  case (Suc i)
  show ?thesis
  proof (cases "i < length cs")
    case True
    then have "cs ! i \<le> c" using assms(3) by simp
    then show ?thesis using assms(1) Suc True by (simp add: take_Suc_conv_app_nth)
  next
    case False
    then show ?thesis using assms Suc by simp
  qed
qed (use assms in simp)

lemma fill_collects:
  "sorted (prices bs) \<Longrightarrow> sorted_wrt (\<ge>) (prices cs) \<Longrightarrow> \<forall>r \<in> set bs \<union> set cs. 0 \<le> ord_price r \<Longrightarrow> k \<le> length bs \<Longrightarrow>
     sum_list (take k (prices cs)) + sum_list (drop k (prices bs)) \<le> sum_list (prices (map snd (fill bs cs)))"
proof (induction bs cs arbitrary: k rule: fill.induct)
  case (2 b bs)
  have "sum_list (drop k (prices (b # bs))) \<le> sum_list (prices (b # bs))" for k
  proof -
    have "0 \<le> sum_list (take k (prices (b # bs)))"
      using 2(4) by (intro sum_take_nonneg) (auto simp: prices_def)
    then show ?thesis by (metis add_increasing append_take_drop_id order_refl sum_list_append)
  qed
  moreover have "map snd (fill bs []) = bs" by (induction bs) simp_all
  ultimately show ?case by (simp add: prices_def)
next
  case (3 b bs c cs)
  have sb: "sorted (prices bs)" and sc: "sorted_wrt (\<ge>) (prices (c # cs))" "sorted_wrt (\<ge>) (prices cs)"
    and nn: "\<forall>r \<in> set bs \<union> set cs. 0 \<le> ord_price r" "\<forall>r \<in> set bs \<union> set (c # cs). 0 \<le> ord_price r"
    using "3.prems"(1,2,3) by (auto simp: prices_def)
  show ?case
  proof (cases "ord_price b < ord_price c")
    case True
    note IH = "3.IH"(1) [OF True sb sc(2) nn(1)]
    show ?thesis
    proof (cases k)
      case 0
      then show ?thesis using IH [of 0] True by (simp add: prices_def)
    next
      case (Suc j)
      then show ?thesis using IH [of j] True "3.prems"(4) by (simp add: prices_def)
    qed
  next
    case False
    note IH = "3.IH"(2) [OF False sb sc(1) nn(2)]
    show ?thesis
    proof (cases k)
      case 0
      then show ?thesis using IH [of 0] False by (simp add: prices_def)
    next
      case (Suc j)
      have "sum_list (take j (prices cs)) + ord_price c \<le> sum_list (take j (prices (c # cs))) + ord_price b"
        unfolding prices_simps by (rule shift_price) (use False "3.prems"(2,3) in \<open>auto simp: prices_def\<close>)
      then show ?thesis using IH [of j] False "3.prems"(4) Suc by (simp add: prices_def)
    qed
  qed

qed (simp add: prices_def)


text \<open>The same for the whole allocation, a token without a bid of its own counting as a bid of price 0.\<close>

lemma allocation_collects:
  assumes "sorted (prices bs)" "sorted_wrt (\<ge>) (prices cs)" "\<forall>r \<in> set bs \<union> set cs. 0 \<le> ord_price r"
    and k: "k \<le> length (unbid best toks) + length bs"
  shows "sum_list (take k (prices cs)) + sum_list (drop k (replicate (length (unbid best toks)) 0 @ prices bs))
    \<le> sum_list (prices (map snd (allocation best bs toks cs)))"
proof -
  let ?n = "length (unbid best toks)"
  have split: "prices (map snd (allocation best bs toks cs)) = take ?n (prices cs) @ prices (map snd (fill bs (drop ?n cs)))"
    by (simp add: allocation_def prices_def map_snd_zip_take take_map [symmetric]) (simp add: min_def take_map)
  have rest: "sum_list (take j (prices (drop ?n cs))) + sum_list (drop j (prices bs))
      \<le> sum_list (prices (map snd (fill bs (drop ?n cs))))" if "j \<le> length bs" for j
    using assms(1-3) that
    by (intro fill_collects) (auto simp: prices_def sorted_wrt_drop simp flip: drop_map dest: in_set_dropD)
  show ?thesis
  proof (cases "k \<le> ?n")
    case True
    have "sum_list (take k (prices cs)) \<le> sum_list (take ?n (prices cs))"
      using assms(3) True by (intro sum_take_mono) (auto simp: prices_def)
    then show ?thesis using rest [of 0] True by (simp add: split sum_list_replicate)
  next
    case False
    have "take k (prices cs) = take ?n (prices cs) @ take (k - ?n) (prices (drop ?n cs))"
      using False take_add [of ?n "k - ?n" "prices cs"] by (simp add: prices_def drop_map)
    then show ?thesis using rest [of "k - ?n"] False k by (simp add: split)
  qed
qed

section \<open>Repeated bids\<close>

lemma repeat_bids_simps [simp]: "repeat_bids [] = []"
    "repeat_bids (r # rs) = replicate (nat (ord_quantity_remaining r)) r @ repeat_bids rs"
  by (simp_all add: repeat_bids_def)

lemma set_repeat_bids: "set (repeat_bids rs) \<subseteq> set rs"
  by (induction rs) auto

lemma count_repeat_bids: "count (mset (repeat_bids rs)) r = count (mset rs) r * nat (ord_quantity_remaining r)"
  by (induction rs) auto

lemma sorted_repeat_bids: "sorted_wrt (\<ge>) (prices rs) \<Longrightarrow> sorted_wrt (\<ge>) (prices (repeat_bids rs))"
proof (induction rs)
  case (Cons r rs)
  have "sorted_wrt (\<ge>) (replicate n x)" for n and x :: rat by (induction n) auto
  then show ?case
    using Cons set_repeat_bids [of rs] by (auto simp: sorted_wrt_append prices_def)
qed simp

lemma take_repeat_bids:
  "\<forall>r \<in> set rs. 0 < ord_quantity_remaining r \<Longrightarrow> take n (repeat_bids (take n rs)) = take n (repeat_bids rs)"
proof (induction rs arbitrary: n)
  case (Cons r rs)
  show ?case
  proof (cases n)
    case (Suc m)
    let ?q = "nat (ord_quantity_remaining r)"
    have "take m (repeat_bids (take m rs)) = take m (repeat_bids rs)" using Cons by simp
    then have "take (min (Suc m - ?q) m) (repeat_bids (take m rs)) = take (min (Suc m - ?q) m) (repeat_bids rs)"
      by (metis take_take)
    moreover have "min (Suc m - ?q) m = Suc m - ?q" using Cons.prems by auto
    ultimately show ?thesis using Suc by simp
  qed simp
qed simp

lemma repeat_bids_columns: "repeat_bids (map coll_columns rs) = map coll_columns (repeat_bids rs)"
  by (induction rs) simp_all

section \<open>Plans\<close>

text \<open>
  A plan assigns to some of the tokens an order of the table: an item bid on that token, or a bid on
  the collection, which serves no more tokens than it has quantity left.
\<close>

definition fair_plan ::
  "env \<Rightarrow> int \<Rightarrow> int \<Rightarrow> string \<Rightarrow> string \<Rightarrow> OrderRow list \<Rightarrow> string list \<Rightarrow> (string \<rightharpoonup> OrderRow) \<Rightarrow> bool" where
  "fair_plan e t0 t1 userAddr addr rows toks p \<longleftrightarrow>
     dom p \<subseteq> set toks \<and>
     (\<forall>tok r. p tok = Some r \<longrightarrow> r \<in> set rows \<and>
        (live_item_bid e t0 userAddr addr tok r \<or> live_coll_bid e t1 userAddr addr r)) \<and>
     (\<forall>r. live_coll_bid e t1 userAddr addr r \<longrightarrow> int (card {tok. p tok = Some r}) \<le> ord_quantity_remaining r)"

definition payoff :: "string list \<Rightarrow> (string \<rightharpoonup> OrderRow) \<Rightarrow> price" where
  "payoff toks p = (\<Sum>tok\<leftarrow>toks. case p tok of None \<Rightarrow> 0 | Some r \<Rightarrow> ord_price r)"

text \<open>Token ids are written in decimal, so that the collation identifies no two of them.\<close>

definition decimal :: "string \<Rightarrow> bool" where
  "decimal s \<longleftrightarrow> list_all (\<lambda>c. c \<in> set ''0123456789'') s"

definition permutes_keys :: "env \<Rightarrow> bool" where
  "permutes_keys e \<longleftrightarrow> (\<forall>ks. mset (map_order e ks) = mset ks)"

definition market :: "env \<Rightarrow> OrderRow list \<Rightarrow> string list \<Rightarrow> bool" where
  "market e rows toks \<longleftrightarrow> folds_case e \<and> server_orders_rows e \<and> permutes_keys e \<and>
     distinct rows \<and> distinct toks \<and> list_all decimal toks \<and>
     list_all (\<lambda>r. decimal (ord_token_id r) \<and> 0 \<le> ord_price r) rows"

lemma ToLower_decimal: "decimal s \<Longrightarrow> ToLower s = s"
proof (induction s)
  case (Cons c s)
  then have "lower_char c = c" by (auto simp: decimal_def lower_char_def)
  with Cons show ?case by (simp add: decimal_def ToLower_def)
qed simp

definition item_rows :: "env \<Rightarrow> int \<Rightarrow> string \<Rightarrow> string \<Rightarrow> OrderRow list \<Rightarrow> string list \<Rightarrow> OrderRow list" where
  "item_rows e t0 userAddr addr rows toks =
     row_order e (filter (\<lambda>r. list_ex (\<lambda>tok. live_item_bid e t0 userAddr addr tok r) toks) rows)"

definition coll_rows :: "env \<Rightarrow> int \<Rightarrow> string \<Rightarrow> string \<Rightarrow> OrderRow list \<Rightarrow> OrderRow list" where
  "coll_rows e t1 userAddr addr rows =
     order_by e (\<lambda>r. - ord_price r) (filter (live_coll_bid e t1 userAddr addr) rows)"

definition best_allocation ::
  "env \<Rightarrow> int \<Rightarrow> int \<Rightarrow> string \<Rightarrow> string \<Rightarrow> OrderRow list \<Rightarrow> string list \<Rightarrow> (string \<times> OrderRow) list" where
  "best_allocation e t0 t1 userAddr addr rows toks =
     (let best = items_best_bids (item_rows e t0 userAddr addr rows toks)
      in allocation best (items_sorted_bids e best) toks
           (take (length toks) (repeat_bids (coll_rows e t1 userAddr addr rows))))"

lemma set_item_rows:
  assumes "market e rows toks"
  shows "r \<in> set (item_rows e t0 u addr rows toks) \<longleftrightarrow>
    r \<in> set rows \<and> ord_token_id r \<in> set toks \<and> live_item_bid e t0 u addr (ord_token_id r) r"
proof -
  have so: "set (row_order e rs) = set rs" for rs
    using assms by (metis market_def server_orders_rows_def set_mset_mset)
  have tok: "coll_eq e (ord_token_id r) tok \<longleftrightarrow> ord_token_id r = tok" if "r \<in> set rows" "tok \<in> set toks" for tok
    using assms that ToLower_decimal by (auto simp: market_def list_all_iff folds_case_def)
  have refl: "coll_eq e x x" for x using assms by (simp add: market_def folds_case_def)
  show ?thesis
    unfolding item_rows_def so using tok refl by (auto simp: live_item_bid_def list_ex_iff)
qed

lemma set_coll_rows:
  "market e rows toks \<Longrightarrow> set (coll_rows e t1 u addr rows) = {r \<in> set rows. live_coll_bid e t1 u addr r}"
  by (simp add: coll_rows_def market_def set_order_by)

lemma sorted_coll_rows: "sorted_wrt (\<ge>) (prices (coll_rows e t1 u addr rows))"
proof -
  have "sorted (map (\<lambda>r. - ord_price r) (coll_rows e t1 u addr rows))" by (simp add: coll_rows_def order_by_def)
  then show ?thesis by (simp add: prices_def sorted_wrt_map)
qed


section \<open>The allocation is a plan\<close>

text \<open>A loop over a map visits every entry once.\<close>

lemma walk_map:
  assumes "permutes_keys e" "distinct (map fst m)"
  shows "mset (map (\<lambda>k. f (the (map_of m k))) (map_order e (map fst m))) = mset (map f (map snd m))"
proof -
  have "mset (map (\<lambda>k. f (the (map_of m k))) (map_order e (map fst m)))
      = image_mset (\<lambda>k. f (the (map_of m k))) (mset (map fst m))"
    using assms(1) by (simp add: permutes_keys_def)
  also have "\<dots> = mset (map (\<lambda>kr. f (the (map_of m (fst kr)))) m)" by (simp add: image_mset.compositionality o_def)
  also have "map (\<lambda>kr. f (the (map_of m (fst kr)))) m = map f (map snd m)"
    using assms(2) by (auto intro!: map_cong)
  finally show ?thesis .
qed

lemma mset_sorted_bids:
  assumes "best_of bids best" "permutes_keys e"
  shows "mset (items_sorted_bids e best) = mset (map snd best)"
  using walk_map [OF assms(2), of best "\<lambda>r. r"] assms(1) by (simp add: items_sorted_bids_def best_of_def)

lemma sorted_sorted_bids: "sorted (prices (items_sorted_bids e best))"
  by (simp add: items_sorted_bids_def prices_def)

lemma tokens_of_best:
  assumes "best_of bids best"
  shows "map ord_token_id (map snd best) = map fst best"
  using assms by (auto simp: best_of_def)

lemma tokens_sorted_bids:
  assumes "best_of bids best" "permutes_keys e"
  shows "mset (map ord_token_id (items_sorted_bids e best)) = mset (map fst best)"
  by (metis mset_map mset_sorted_bids [OF assms] tokens_of_best [OF assms(1)])

lemma sorted_bids_member:
  assumes "best_of bids best" "permutes_keys e" "r \<in> set (items_sorted_bids e best)"
  shows "r \<in> set bids \<and> map_of best (ord_token_id r) = Some r"
proof -
  have "r \<in> snd ` set best" using assms mset_sorted_bids by (metis set_map set_mset_mset)
  then obtain tok where tok: "(tok, r) \<in> set best" by force
  then have "map_of best tok = Some r" using assms(1) by (simp add: best_of_def)
  then show ?thesis using best_of_member [OF assms(1)] by metis
qed

lemma distinct_allocation:
  assumes b: "best_of bids best" "permutes_keys e" and d: "distinct toks" and sub: "fst ` set best \<subseteq> set toks"
  shows "distinct (map fst (allocation best (items_sorted_bids e best) toks cs))"
    and "set (map fst (allocation best (items_sorted_bids e best) toks cs)) \<subseteq> set toks"
proof -
  let ?al = "allocation best (items_sorted_bids e best) toks cs"
  have al: "map fst ?al = take (length cs) (unbid best toks) @ map ord_token_id (items_sorted_bids e best)"
    by (simp add: allocation_def map_fst_fill map_fst_zip_take min_def)
  have t: "distinct (map ord_token_id (items_sorted_bids e best))"
      "set (map ord_token_id (items_sorted_bids e best)) = fst ` set best"
    using tokens_sorted_bids [OF b] b(1)
    by (metis best_of_def mset_eq_imp_distinct_iff, metis set_map set_mset_mset tokens_sorted_bids [OF b])
  have "set (unbid best toks) \<inter> fst ` set best = {}"
    by (auto simp: unbid_def map_of_eq_None_iff)
  then show "distinct (map fst ?al)"
    unfolding al distinct_append t(2) using t(1) d set_take_subset [of "length cs" "unbid best toks"]
    by (auto simp: unbid_def)
  show "set (map fst ?al) \<subseteq> set toks"
    unfolding al set_append t(2) using sub by (auto simp: unbid_def dest: in_set_takeD)
qed

lemma live_types:
  "live_item_bid e t0 u addr tok r \<Longrightarrow> \<not> live_coll_bid e t1 u addr r"
  by (auto simp: live_item_bid_def live_coll_bid_def live_bid_def order_type_defs)

lemma card_map_of_le:
  assumes "distinct (map fst al)"
  shows "card {tok. map_of al tok = Some r} \<le> count (mset (map snd al)) r"
proof -
  have "{tok. map_of al tok = Some r} \<subseteq> fst ` set (filter (\<lambda>x. snd x = r) al)"
    by (auto dest: map_of_SomeD simp: image_iff)
  then have "card {tok. map_of al tok = Some r} \<le> card (fst ` set (filter (\<lambda>x. snd x = r) al))"
    by (intro card_mono) auto
  also have "\<dots> \<le> length (filter (\<lambda>x. snd x = r) al)"
    by (metis card_length list.set_map length_map)
  also have "\<dots> = count (mset (map snd al)) r"
    by (induction al) auto
  finally show ?thesis .
qed

lemma count_distinct_le: "distinct xs \<Longrightarrow> count (mset xs) x \<le> 1"
  by (simp add: distinct_count_atmost_1)

lemma keys_in_tokens:
  assumes "market e rows toks"
  shows "fst ` set (items_best_bids (item_rows e t0 u addr rows toks)) \<subseteq> set toks"
  using best_of_items [of "item_rows e t0 u addr rows toks"] set_item_rows [OF assms]
  by (auto simp: best_of_def)

lemma best_allocation_fair:
  fixes toks u addr rows e t0 t1
  assumes m: "market e rows toks"
  defines "al \<equiv> best_allocation e t0 t1 u addr rows toks"
  shows "distinct (map fst al)" and "fair_plan e t0 t1 u addr rows toks (map_of al)"
proof -
  let ?irows = "item_rows e t0 u addr rows toks" and ?crows = "coll_rows e t1 u addr rows"
  let ?best = "items_best_bids ?irows" and ?cs = "take (length toks) (repeat_bids ?crows)"
  let ?bs = "items_sorted_bids e ?best"
  note b = best_of_items [of ?irows]
  have perm: "permutes_keys e" and dt: "distinct toks" and dr: "distinct rows"
    using m by (simp_all add: market_def)
  have al: "al = allocation ?best ?bs toks ?cs" by (simp add: al_def best_allocation_def Let_def)
  note d = distinct_allocation [OF b perm dt keys_in_tokens [OF m], of ?cs, folded al]
  show "distinct (map fst al)" by (rule d)
  have bs: "r \<in> set rows \<and> live_item_bid e t0 u addr (ord_token_id r) r" if "r \<in> set ?bs" for r
    using sorted_bids_member [OF b perm that] set_item_rows [OF m] by blast
  have cs: "r \<in> set rows \<and> live_coll_bid e t1 u addr r" if "r \<in> set ?cs" for r
    using in_set_takeD [OF that] set_repeat_bids set_coll_rows [OF m] by blast
  have entry: "r \<in> set rows \<and> (live_item_bid e t0 u addr tok r \<or> live_coll_bid e t1 u addr r)"
    if "map_of al tok = Some r" for tok r
    using allocation_entries [of tok r ?best ?bs toks ?cs] map_of_SomeD [OF that] bs cs by (auto simp: al)
  have quota: "int (card {tok. map_of al tok = Some r}) \<le> ord_quantity_remaining r"
    if r: "live_coll_bid e t1 u addr r" for r
  proof -
    have "mset ?crows = mset (filter (live_coll_bid e t1 u addr) rows)"
      using m by (simp add: coll_rows_def market_def mset_order_by)
    then have "count (mset ?crows) r \<le> 1"
      using dr by (metis count_distinct_le distinct_filter)
    moreover have "count (mset ?cs) r \<le> count (mset (repeat_bids ?crows)) r"
      by (metis append_take_drop_id count_union le_add1 mset_append)
    ultimately have "count (mset ?cs) r \<le> nat (ord_quantity_remaining r)"
      by (metis count_repeat_bids le_trans mult_le_mono1 nat_mult_1)
    moreover have "count (mset ?bs) r = 0" using bs r live_types by (metis count_mset_0_iff)
    moreover have "count (mset (map snd al)) r \<le> count (mset ?bs + mset ?cs) r"
      unfolding al by (rule mset_subset_eq_count [OF allocation_uses])
    ultimately have "card {tok. map_of al tok = Some r} \<le> nat (ord_quantity_remaining r)"
      using card_map_of_le [OF d(1), of r] unfolding count_union by linarith
    moreover have "0 < ord_quantity_remaining r" using r by (simp add: live_coll_bid_def live_bid_def)
    ultimately show ?thesis by simp
  qed
  show "fair_plan e t0 t1 u addr rows toks (map_of al)"
    unfolding fair_plan_def using d(2) entry quota by (auto simp: dom_map_of_conv_image_fst)
qed

section \<open>No plan is worth more\<close>

definition own_value :: "(string \<times> OrderRow) list \<Rightarrow> string \<Rightarrow> price" where
  "own_value best tok = (case map_of best tok of None \<Rightarrow> 0 | Some r \<Rightarrow> ord_price r)"

lemma own_values:
  assumes b: "best_of bids best" "permutes_keys e" and d: "distinct toks" and sub: "fst ` set best \<subseteq> set toks"
  shows "mset (map (own_value best) toks) =
    mset (replicate (length (unbid best toks)) 0 @ prices (items_sorted_bids e best))"
proof -
  let ?has = "\<lambda>tok. map_of best tok \<noteq> None"
  have "mset toks = mset (unbid best toks) + mset (filter ?has toks)"
    unfolding unbid_def by (simp add: multiset_partition flip: not_None_eq)
  moreover have "mset (filter ?has toks) = mset (map fst best)"
    using b(1) d sub by (intro set_eq_iff_mset_eq_distinct [THEN iffD1])
      (auto simp: best_of_def map_of_eq_None_iff simp flip: not_None_eq)
  ultimately have "mset (map (own_value best) toks) =
      mset (map (own_value best) (unbid best toks)) + mset (map (own_value best) (map fst best))"
    by (metis mset_map image_mset_union)
  also have "map (own_value best) (unbid best toks) = replicate (length (unbid best toks)) 0"
    by (induction toks) (simp_all add: unbid_def own_value_def)
  also have "map (own_value best) (map fst best) = map ord_price (map snd best)"
    using b(1) by (auto simp: best_of_def own_value_def intro!: map_cong)
  also have "mset (map ord_price (map snd best)) = mset (prices (items_sorted_bids e best))"
    by (metis mset_map mset_sorted_bids [OF b] prices_def)
  finally show ?thesis by simp
qed


lemma payoff_split:
  "payoff toks q = (\<Sum>tok\<leftarrow>filter P toks. case q tok of None \<Rightarrow> 0 | Some r \<Rightarrow> ord_price r)
     + (\<Sum>tok\<leftarrow>filter (\<lambda>tok. \<not> P tok) toks. case q tok of None \<Rightarrow> 0 | Some r \<Rightarrow> ord_price r)"
  by (induction toks) (simp_all add: payoff_def)

text \<open>The orders a plan takes for the tokens it serves by collection bids are among the repeated bids.\<close>

lemma plan_uses:
  assumes m: "market e rows toks" and q: "fair_plan e t0 t1 u addr rows toks q"
  defines "T \<equiv> filter (\<lambda>tok. \<exists>r. q tok = Some r \<and> live_coll_bid e t1 u addr r) toks"
  shows "mset (map (\<lambda>tok. the (q tok)) T) \<subseteq># mset (repeat_bids (coll_rows e t1 u addr rows))"
proof (rule mset_subset_eqI)
  fix r
  let ?crows = "coll_rows e t1 u addr rows" and ?S = "{tok \<in> set T. r = the (q tok)}"
  have dT: "distinct T" using m by (simp add: T_def market_def)
  have "count (mset (map (\<lambda>tok. the (q tok)) T)) r = card ?S"
    using dT by (simp add: count_image_mset' sum_mset.distrib mset_set_set [symmetric])
  also have "\<dots> \<le> count (mset (repeat_bids ?crows)) r"
  proof (cases "?S = {}")
    case False
    then obtain tok where "tok \<in> set T" "r = the (q tok)" by blast
    then have r: "q tok = Some r" "live_coll_bid e t1 u addr r" by (auto simp: T_def)
    then have "r \<in> set ?crows" using q set_coll_rows [OF m] by (auto simp: fair_plan_def)
    then have "nat (ord_quantity_remaining r) \<le> count (mset (repeat_bids ?crows)) r"
      by (simp add: count_repeat_bids Suc_le_eq)
    moreover have "card ?S \<le> card {tok. q tok = Some r}"
    proof (rule card_mono)
      have "dom q \<subseteq> set toks" using q by (simp add: fair_plan_def)
      then have "{tok. q tok = Some r} \<subseteq> set toks" by auto
      then show "finite {tok. q tok = Some r}" by (rule finite_subset) simp
      show "?S \<subseteq> {tok. q tok = Some r}" by (auto simp: T_def)
    qed
    moreover have "int (card {tok. q tok = Some r}) \<le> ord_quantity_remaining r"
      using q r(2) by (simp add: fair_plan_def)
    ultimately show ?thesis by linarith
  next
    case True
    then show ?thesis by (simp only: card.empty le0)
  qed
  finally show "count (mset (map (\<lambda>tok. the (q tok)) T)) r \<le> count (mset (repeat_bids ?crows)) r" .
qed

lemma own_plan_value:
  assumes m: "market e rows toks" and q: "fair_plan e t0 t1 u addr rows toks q"
    and no: "\<not> (\<exists>r. q tok = Some r \<and> live_coll_bid e t1 u addr r)" and tok: "tok \<in> set toks"
  shows "(case q tok of None \<Rightarrow> 0 | Some r \<Rightarrow> ord_price r)
    \<le> own_value (items_best_bids (item_rows e t0 u addr rows toks)) tok"
proof -
  let ?irows = "item_rows e t0 u addr rows toks"
  note b = best_of_items [of ?irows]
  have nn: "0 \<le> own_value (items_best_bids ?irows) tok"
    using best_of_member [OF b] set_item_rows [OF m] m
    by (auto simp: own_value_def market_def list_all_iff split: option.split)
  show ?thesis
  proof (cases "q tok")
    case None
    then show ?thesis using nn by simp
  next
    case (Some r)
    then have r: "r \<in> set rows" "live_item_bid e t0 u addr tok r" using q no by (auto simp: fair_plan_def)
    then have "ord_token_id r = tok"
      using m tok ToLower_decimal by (auto simp: market_def live_item_bid_def folds_case_def list_all_iff)
    then have ir: "r \<in> set ?irows" using set_item_rows [OF m] r tok by simp
    then obtain r' where "map_of (items_best_bids ?irows) tok = Some r'"
      using best_of_None [OF b, of tok] \<open>ord_token_id r = tok\<close> by (metis imageI not_None_eq)
    then show ?thesis
      using best_of_member [OF b, of tok r'] ir \<open>ord_token_id r = tok\<close> Some by (simp add: own_value_def)
  qed
qed

lemma best_allocation_best:
  assumes m: "market e rows toks" and q: "fair_plan e t0 t1 u addr rows toks q"
  shows "payoff toks q \<le> sum_list (prices (map snd (best_allocation e t0 t1 u addr rows toks)))"
proof -
  let ?irows = "item_rows e t0 u addr rows toks" and ?crows = "coll_rows e t1 u addr rows"
  let ?best = "items_best_bids ?irows" and ?cs = "take (length toks) (repeat_bids ?crows)"
  let ?bs = "items_sorted_bids e ?best" and ?P = "\<lambda>tok. \<exists>r. q tok = Some r \<and> live_coll_bid e t1 u addr r"
  let ?T = "filter ?P toks" and ?R = "filter (\<lambda>tok. \<not> ?P tok) toks"
  let ?B = "replicate (length (unbid ?best toks)) 0 @ prices ?bs"
  note b = best_of_items [of ?irows]
  have perm: "permutes_keys e" and dt: "distinct toks" and nn: "\<forall>r \<in> set rows. 0 \<le> ord_price r"
    using m by (simp_all add: market_def list_all_iff)
  have nb: "\<forall>r \<in> set ?bs \<union> set ?cs. 0 \<le> ord_price r"
    using nn sorted_bids_member [OF b perm] set_item_rows [OF m] set_coll_rows [OF m] set_repeat_bids
    by (blast dest: in_set_takeD)
  have B: "mset (map (own_value ?best) toks) = mset ?B"
    by (rule own_values [OF b perm dt keys_in_tokens [OF m]])
  have lenB: "length ?B = length toks" using arg_cong [OF B, of size] unfolding size_mset length_map by simp
  have sB: "sorted ?B"
    using sorted_sorted_bids [of e ?best] nb by (auto simp: sorted_append prices_def)
  have "(\<Sum>tok\<leftarrow>?T. case q tok of None \<Rightarrow> 0 | Some r \<Rightarrow> ord_price r) = sum_mset (mset (prices (map (\<lambda>tok. the (q tok)) ?T)))"
    unfolding sum_mset_sum_list prices_def map_map by (rule arg_cong [where f = sum_list]) auto
  also have "\<dots> \<le> sum_list (take (length ?T) (prices (repeat_bids ?crows)))"
  proof -
    have sub: "mset (prices (map (\<lambda>tok. the (q tok)) ?T)) \<subseteq># mset (prices (repeat_bids ?crows))"
      unfolding prices_def mset_map [of ord_price] by (rule image_mset_subseteq_mono [OF plan_uses [OF m q]])
    have size: "size (mset (prices (map (\<lambda>tok. the (q tok)) ?T))) = length ?T"
      unfolding size_mset prices_def length_map ..
    show ?thesis
      using top_sum [OF sorted_repeat_bids [OF sorted_coll_rows] sub] unfolding size .
  qed
  also have "take (length ?T) (prices (repeat_bids ?crows)) = take (length ?T) (prices ?cs)"
    by (simp add: prices_def take_map min_def)
  finally have T: "(\<Sum>tok\<leftarrow>?T. case q tok of None \<Rightarrow> 0 | Some r \<Rightarrow> ord_price r) \<le> sum_list (take (length ?T) (prices ?cs))" .
  have "(\<Sum>tok\<leftarrow>?R. case q tok of None \<Rightarrow> 0 | Some r \<Rightarrow> ord_price r) \<le> sum_list (map (own_value ?best) ?R)"
    by (rule sum_list_mono) (use own_plan_value [OF m q] in auto)
  also have "\<dots> = sum_mset (mset (map (own_value ?best) ?R))" by (simp only: sum_mset_sum_list)
  also have "\<dots> \<le> sum_list (drop (length ?T) ?B)"
  proof (rule sum_drop_sorted [OF sB])
    show "mset (map (own_value ?best) ?R) \<subseteq># mset ?B"
      unfolding B [symmetric] by (simp add: image_mset_subseteq_mono multiset_filter_subset)
    show "size (mset (map (own_value ?best) ?R)) + length ?T = length ?B"
      unfolding size_mset length_map lenB using sum_length_filter_compl [of ?P toks] by linarith
  qed
  finally have R: "(\<Sum>tok\<leftarrow>?R. case q tok of None \<Rightarrow> 0 | Some r \<Rightarrow> ord_price r) \<le> sum_list (drop (length ?T) ?B)" .
  have "length ?T \<le> length ?B" unfolding lenB by (rule length_filter_le)
  then have "sum_list (take (length ?T) (prices ?cs)) + sum_list (drop (length ?T) ?B)
      \<le> sum_list (prices (map snd (allocation ?best ?bs toks ?cs)))"
    using sorted_sorted_bids sorted_repeat_bids [OF sorted_coll_rows] nb
    by (intro allocation_collects) (simp_all add: prices_def sorted_wrt_take flip: take_map)
  then show ?thesis
    using T R unfolding payoff_split [of toks q ?P] best_allocation_def Let_def by linarith
qed


section \<open>The answer of the service\<close>

lemma sorted_bids_columns:
  assumes perm: "permutes_keys e"
  shows "items_sorted_bids e (on_rows best) = map item_columns (items_sorted_bids e best)"
proof -
  have "set (map_order e (map fst best)) = fst ` set best"
    using perm by (metis list.set_map permutes_keys_def set_mset_mset)
  then have "map_of best k \<noteq> None" if "k \<in> set (map_order e (map fst best))" for k
    using that by (simp add: map_of_eq_None_iff)
  then have "map (\<lambda>k. the (map_of (on_rows best) k)) (map_order e (map fst best))
      = map item_columns (map (\<lambda>k. the (map_of best k)) (map_order e (map fst best)))"
    by (auto simp: map_of_on_rows option.map_sel)
  then show ?thesis
    unfolding items_sorted_bids_def map_fst_on_rows by (simp add: sort_key_map del: map_map)
qed

lemma shown_columns:
  assumes "permutes_keys e"
  shows "processBids e toks (on_rows best) (map coll_columns cs) addr =
     shown addr (on_rows (allocation best (items_sorted_bids e best) toks cs))"
proof -
  have keys: "unbid (on_rows best) toks = unbid best toks"
    by (simp add: unbid_def map_of_on_rows)
  have zips: "shown addr (zip us (map coll_columns cs)) = shown addr (on_rows (zip us cs))" for us
    by (auto simp: shown_def zip_map2)
  have app: "shown addr (xs @ ys) = shown addr xs @ shown addr ys" for xs ys
    by (simp add: shown_def)
  show ?thesis
    unfolding processBids_shown sorted_bids_columns [OF assms] allocation_def keys map_append app
    by (simp add: zips drop_map fill_columns)
qed

text \<open>On a working database the service answers with the allocation, shown with the columns read.\<close>

lemma GetOrderInfos_run:
  fixes w e
  defines "t0 \<equiv> clock e (n_clock w)" and "t1 \<equiv> clock e (Suc (n_clock w))"
  assumes "db_works e" "market e (t_orders (tbl w)) toks" "toks \<noteq> []" "sql_literal u"
  shows "fst (run_state (GetOrderInfos e sp u addr toks) w) =
      Inr (shown addr (on_rows (best_allocation e t0 t1 u addr (t_orders (tbl w)) toks)))"
    and "tbl (snd (run_state (GetOrderInfos e sp u addr toks) w)) = tbl w"
proof -
  let ?crows = "coll_rows e t1 u addr (t_orders (tbl w))"
  have pos: "\<forall>r \<in> set ?crows. 0 < ord_quantity_remaining r"
    using set_coll_rows [OF assms(4)] by (auto simp: live_coll_bid_def live_bid_def)
  have "list_ex (\<lambda>(c, tok). live_item_bid e t0 u c tok r) (map (Pair addr) toks)
      = list_ex (\<lambda>tok. live_item_bid e t0 u addr tok r) toks" for r
    by (simp add: list_ex_iff)
  then have "wp (GetOrderInfos e sp u addr toks)
     (\<lambda>r w1. r = Inr (shown addr (on_rows (best_allocation e t0 t1 u addr (t_orders (tbl w)) toks))) \<and> tbl w1 = tbl w) w"
    using assms(3,5,6) take_repeat_bids [OF pos] shown_columns assms(4)
    by (simp add: GetOrderInfos_def QueryItemsBestBids_def QueryCollectionTopNBid_def raw_query_def wp_simps wp_now
        t0_def t1_def best_allocation_def Let_def item_rows_def [symmetric] coll_rows_def [symmetric]
        items_best_bids_columns repeat_bids_columns take_map market_def)
  then show "fst (run_state (GetOrderInfos e sp u addr toks) w) =
      Inr (shown addr (on_rows (best_allocation e t0 t1 u addr (t_orders (tbl w)) toks)))"
    and "tbl (snd (run_state (GetOrderInfos e sp u addr toks) w)) = tbl w"
    by (simp_all add: wp_def split: prod.splits)
qed


section \<open>Properties\<close>

text \<open>C30: The answer shows a permitted allocation: no token twice, each token with an order that is live
  and not the user's own, an item bid only on its token, a collection bid at most as often as it has
  quantity left; the tables are not changed.\<close>

theorem best_bids_are_permitted:
  assumes "db_works e" "market e (t_orders (tbl w)) toks" "toks \<noteq> []" "sql_literal u"
  shows "\<exists>res p. fst (run_state (GetOrderInfos e sp u addr toks) w) = Inr res \<and>
    distinct (map ib_TokenId res) \<and>
    fair_plan e (clock e (n_clock w)) (clock e (Suc (n_clock w))) u addr (t_orders (tbl w)) toks p \<and>
    set res = {item_bid addr tok (item_columns r) | tok r. p tok = Some r} \<and>
    tbl (snd (run_state (GetOrderInfos e sp u addr toks) w)) = tbl w"
proof -
  let ?al = "best_allocation e (clock e (n_clock w)) (clock e (Suc (n_clock w))) u addr (t_orders (tbl w)) toks"
  note fair = best_allocation_fair [OF assms(2), of "clock e (n_clock w)" "clock e (Suc (n_clock w))" u addr]
  have "map ib_TokenId (shown addr (on_rows ?al)) = map fst ?al"
    by (simp add: shown_def item_bid_def case_prod_beta o_def)
  moreover have "set (shown addr (on_rows ?al)) = {item_bid addr tok (item_columns r) | tok r. map_of ?al tok = Some r}"
    using fair(1) by (force simp: shown_def)
  ultimately show ?thesis
    using fair GetOrderInfos_run [OF assms, of sp addr]
    by (intro exI [of _ "shown addr (on_rows ?al)"] exI [of _ "map_of ?al"]) simp
qed

text \<open>C3: No permitted allocation is worth more: the prices of the answer sum up to at least the prices of
  any plan that assigns live orders of the table to the tokens, each collection bid as often as it has
  quantity left.\<close>

theorem best_bids_are_best:
  assumes "db_works e" "market e (t_orders (tbl w)) toks" "toks \<noteq> []" "sql_literal u"
    and "fair_plan e (clock e (n_clock w)) (clock e (Suc (n_clock w))) u addr (t_orders (tbl w)) toks q"
  shows "\<exists>res. fst (run_state (GetOrderInfos e sp u addr toks) w) = Inr res \<and>
    payoff toks q \<le> (\<Sum>b\<leftarrow>res. ib_Price b)"
proof -
  have "map ib_Price (shown addr (on_rows al)) = prices (map snd al)" for al
    by (simp add: shown_def item_bid_def prices_def case_prod_beta o_def)
  then show ?thesis
    using GetOrderInfos_run(1) [OF assms(1-4), of sp addr] best_allocation_best [OF assms(2,5)] by simp
qed

text \<open>Three tokens, one with a bid of 5, a collection bid of 7 with quantity 2 and one of 3.\<close>

definition sample_bid :: "string \<Rightarrow> string \<Rightarrow> int \<Rightarrow> price \<Rightarrow> int \<Rightarrow> OrderRow" where
  "sample_bid orderId tok ty p n = \<lparr>ord_id = 0, ord_marketplace_id = 0, ord_collection_address = ''0xc'',
     ord_token_id = tok, ord_order_id = orderId, ord_order_status = OrderStatusActive, ord_event_time = 0,
     ord_expire_time = 5000, ord_currency_address = '''', ord_price = p, ord_maker = ''0xb'', ord_taker = '''',
     ord_quantity_remaining = n, ord_size = n, ord_order_type = ty, ord_salt = 0\<rparr>"

definition bid_world :: world where
  "bid_world = start_world\<lparr>tbl := empty_tables\<lparr>t_orders :=
     [sample_bid ''a'' ''0'' CollectionBidOrder 3 1, sample_bid ''b'' ''0'' CollectionBidOrder 7 2,
      sample_bid ''c'' ''2'' ItemBidOrder 5 1]\<rparr>\<rparr>"

lemmas bid_world_defs = bid_world_def sample_bid_def start_world_def empty_tables_def order_type_defs status_defs

lemma bid_market: "market plain_env (t_orders (tbl bid_world)) [''1'', ''2'', ''3'']"
  by (simp add: market_def bid_world_defs server_orders_rows_def permutes_keys_def plain_env_def [THEN arg_cong [of _ _ row_order]]
      plain_env_def [THEN arg_cong [of _ _ pair_order]] plain_env_def [THEN arg_cong [of _ _ map_order]] decimal_def)

theorem best_bids_are_permitted_witness:
  "\<exists>res p. fst (run_state (GetOrderInfos plain_env (\<lambda>_ t. ([], t)) ''0xu'' ''0xc'' [''1'', ''2'', ''3'']) bid_world) = Inr res \<and>
    distinct (map ib_TokenId res) \<and>
    fair_plan plain_env 1000 1000 ''0xu'' ''0xc'' (t_orders (tbl bid_world)) [''1'', ''2'', ''3''] p \<and>
    set res = {item_bid ''0xc'' tok (item_columns r) | tok r. p tok = Some r}"
proof -
  have "sql_literal ''0xu''" by (simp add: sql_literal_def)
  then show ?thesis
    using best_bids_are_permitted [OF plain_env_works(1) bid_market, of "''0xu''" "\<lambda>_ t. ([], t)" "''0xc''"]
    by (auto simp: plain_env_def [THEN arg_cong [of _ _ clock]])
qed

theorem best_bids_are_best_witness:
  "\<exists>res. fst (run_state (GetOrderInfos plain_env (\<lambda>_ t. ([], t)) ''0xu'' ''0xc'' [''1'', ''2'', ''3'']) bid_world) = Inr res \<and>
    19 \<le> (\<Sum>b\<leftarrow>res. ib_Price b)"
proof -
  let ?q = "[''1'' \<mapsto> sample_bid ''b'' ''0'' CollectionBidOrder 7 2, ''2'' \<mapsto> sample_bid ''c'' ''2'' ItemBidOrder 5 1,
    ''3'' \<mapsto> sample_bid ''b'' ''0'' CollectionBidOrder 7 2]"
  have lit: "sql_literal ''0xu''" by (simp add: sql_literal_def)
  have fold: "coll_eq plain_env a b \<longleftrightarrow> ToLower a = ToLower b" for a b
    using plain_env_works(3) by (simp add: folds_case_def)
  have b: "{tok. ?q tok = Some (sample_bid ''b'' ''0'' CollectionBidOrder 7 2)} = {''1'', ''3''}"
    by (auto simp: sample_bid_def order_type_defs split: if_splits)
  have "int (card {tok. ?q tok = Some r}) \<le> ord_quantity_remaining r"
    if "live_coll_bid plain_env 1000 ''0xu'' ''0xc'' r" for r
  proof (cases "r = sample_bid ''b'' ''0'' CollectionBidOrder 7 2")
    case True
    then show ?thesis unfolding True b by (simp add: sample_bid_def)
  next
    case False
    then have "{tok. ?q tok = Some r} = {}"
      using that by (auto simp: live_coll_bid_def live_bid_def sample_bid_def order_type_defs split: if_splits)
    then show ?thesis using that by (simp only: card.empty) (simp add: live_coll_bid_def live_bid_def)
  qed
  then have "fair_plan plain_env 1000 1000 ''0xu'' ''0xc'' (t_orders (tbl bid_world)) [''1'', ''2'', ''3''] ?q"
    by (auto simp: fair_plan_def bid_world_defs live_item_bid_def live_coll_bid_def live_bid_def fold ToLower_def lower_char_def)
  then have "\<exists>res. fst (run_state (GetOrderInfos plain_env (\<lambda>_ t. ([], t)) ''0xu'' ''0xc'' [''1'', ''2'', ''3'']) bid_world) = Inr res \<and>
      payoff [''1'', ''2'', ''3''] ?q \<le> (\<Sum>b\<leftarrow>res. ib_Price b)"
    by (intro best_bids_are_best [OF plain_env_works(1) bid_market _ lit])
      (simp_all add: plain_env_def [THEN arg_cong [of _ _ clock]])
  then show ?thesis by (simp add: payoff_def sample_bid_def)
qed

end
