(* ===== verification/UserBids.thy ===== *)
theory UserBids
  imports Bids
begin

text \<open>
  The bids of a user over several chains, \<open>GetMultiChainUserBids\<close> of
  \<open>NFTMarket-backend/src/service/v1/portfolio.go\<close> with \<open>QueryUserBids\<close> and \<open>QueryCollectionsInfo\<close> of \<open>dao/\<close>.
  Each chain has tables of its own: a request runs on a list of chain names with their states. The notation
  of a price (\<open>decimal.String\<close>) is a parameter.
\<close>

section \<open>Queries\<close>

text \<open>Selected columns: no maker and no marketplace.\<close>

definition user_bid_columns :: "OrderRow \<Rightarrow> OrderRow" where
  "user_bid_columns r = r\<lparr>ord_id := 0, ord_marketplace_id := 0, ord_order_status := 0,
     ord_currency_address := [], ord_maker := [], ord_taker := []\<rparr>"

definition users_live_bid :: "env \<Rightarrow> string list \<Rightarrow> string list \<Rightarrow> OrderRow \<Rightarrow> bool" where
  "users_live_bid e userAddrs contractAddrs r \<longleftrightarrow>
     list_ex (coll_eq e (ord_maker r)) userAddrs \<and> ord_order_type r \<in> {ItemBidOrder, CollectionBidOrder} \<and>
     ord_order_status r = OrderStatusActive \<and> 0 < ord_quantity_remaining r \<and>
     (contractAddrs = [] \<or> list_ex (coll_eq e (ord_collection_address r)) contractAddrs)"

definition QueryUserBids :: "env \<Rightarrow> string list \<Rightarrow> string list \<Rightarrow> OrderRow list result M" where
  "QueryUserBids e userAddrs contractAddrs = db_query e (\<lambda>t.
     map user_bid_columns (row_order e (filter (users_live_bid e userAddrs contractAddrs) (t_orders t))))"

text \<open>\<open>removeRepeatedElement\<close>: an element is kept when it does not occur again.\<close>

fun removeRepeatedElement :: "string list \<Rightarrow> string list" where
  "removeRepeatedElement [] = []"
| "removeRepeatedElement (a # arr) =
     (let repeat = list_ex (\<lambda>b. a = b) arr
      in if \<not> repeat \<and> a \<noteq> '''' then a # removeRepeatedElement arr else removeRepeatedElement arr)"

text \<open>Columns of \<open>collectionDetailFields\<close>; the others are not read and keep Go's zero values.\<close>

definition collectionDetailFields :: "CollectionRow \<Rightarrow> CollectionRow" where
  "collectionDetailFields c = c\<lparr>col_symbol := [], col_creator := [], col_volume_total := 0, col_floor_price_status := 0,
     col_update_time := 0, col_banner := []\<rparr>"

definition QueryCollectionsInfo :: "env \<Rightarrow> string list \<Rightarrow> CollectionRow list result M" where
  "QueryCollectionsInfo e collectionAddrs = db_query e (\<lambda>t.
     map collectionDetailFields
       (filter (\<lambda>c. list_ex (coll_eq e (col_address c)) (removeRepeatedElement collectionAddrs)) (t_collections t)))"

section \<open>Grouping\<close>

record multiOrder =
  mo_Order :: OrderRow
  mo_chainID :: int
  mo_chainName :: string

record BidInfo =
  bi_BidOrderID :: string
  bi_BidTime :: int
  bi_BidExpireTime :: int
  bi_BidPrice :: price
  bi_BidSalt :: int
  bi_BidSize :: int
  bi_BidUnfilled :: int

record UserBid =
  ub_ChainID :: int
  ub_CollectionAddress :: string
  ub_TokenID :: string
  ub_BidPrice :: price
  ub_MarketplaceID :: int
  ub_ExpireTime :: int
  ub_BidType :: int
  ub_CollectionName :: string
  ub_ImageURI :: string
  ub_OrderSize :: int
  ub_BidInfos :: "BidInfo list"

text \<open>\<open>%d\<close> of an integer.\<close>

definition int_text :: "int \<Rightarrow> string" where
  "int_text i = (if i < 0 then ''-'' @ itoa (nat (- i)) else itoa (nat i))"

definition bid_key :: "(price \<Rightarrow> string) \<Rightarrow> multiOrder \<Rightarrow> string" where
  "bid_key price_text b = (let r = mo_Order b in
     ToLower (ord_collection_address r) @ ord_token_id r @ price_text (ord_price r) @
     int_text (ord_marketplace_id r) @ int_text (ord_expire_time r) @ int_text (ord_order_type r))"

definition bid_info :: "OrderRow \<Rightarrow> BidInfo" where
  "bid_info r = \<lparr>bi_BidOrderID = ord_order_id r, bi_BidTime = ord_event_time r, bi_BidExpireTime = ord_expire_time r,
     bi_BidPrice = ord_price r, bi_BidSalt = ord_salt r, bi_BidSize = ord_size r,
     bi_BidUnfilled = ord_quantity_remaining r\<rparr>"

definition new_user_bid :: "multiOrder \<Rightarrow> UserBid" where
  "new_user_bid b = (let r = mo_Order b in
     \<lparr>ub_ChainID = mo_chainID b, ub_CollectionAddress = ToLower (ord_collection_address r),
      ub_TokenID = ord_token_id r, ub_BidPrice = ord_price r, ub_MarketplaceID = ord_marketplace_id r,
      ub_ExpireTime = ord_expire_time r, ub_BidType = getBidType (ord_order_type r), ub_CollectionName = [],
      ub_ImageURI = [], ub_OrderSize = ord_quantity_remaining r, ub_BidInfos = [bid_info r]\<rparr>)"

definition add_bid :: "(price \<Rightarrow> string) \<Rightarrow> (string \<times> UserBid) list \<Rightarrow> multiOrder \<Rightarrow> (string \<times> UserBid) list" where
  "add_bid price_text bidsMap b = (let key = bid_key price_text b; r = mo_Order b in
     case map_of bidsMap key of
       None \<Rightarrow> AList.update key (new_user_bid b) bidsMap
     | Some u \<Rightarrow> AList.update key
         (u\<lparr>ub_OrderSize := wrap64 (ub_OrderSize u + ord_quantity_remaining r),
            ub_BidInfos := ub_BidInfos u @ [bid_info r]\<rparr>) bidsMap)"

definition group_bids :: "(price \<Rightarrow> string) \<Rightarrow> multiOrder list \<Rightarrow> (string \<times> UserBid) list" where
  "group_bids price_text bs = foldl (add_bid price_text) [] bs"

text \<open>The collections with bids, chain by chain.\<close>

definition bid_collections :: "multiOrder list \<Rightarrow> (string \<times> string list) list" where
  "bid_collections bs = foldl (\<lambda>m b. let c = ToLower (ord_collection_address (mo_Order b)) in
     AList.update (mo_chainName b) (case map_of m (mo_chainName b) of None \<Rightarrow> [c] | Some cs \<Rightarrow> cs @ [c]) m) [] bs"

definition collection_key :: "int \<Rightarrow> string \<Rightarrow> string" where
  "collection_key chainID address = int_text chainID @ '':'' @ ToLower address"

section \<open>The service\<close>

fun collect_user_bids ::
  "env \<Rightarrow> string list \<Rightarrow> string list \<Rightarrow> int list \<Rightarrow> nat \<Rightarrow> (string \<times> world) list \<Rightarrow> multiOrder list \<Rightarrow>
   go_panic + (multiOrder list result)" where
  "collect_user_bids e userAddrs contractAddrs chainID i [] totalBids = Inr (Inr totalBids)"
| "collect_user_bids e userAddrs contractAddrs chainID i ((chain, w) # nets) totalBids =
     (case fst (run_state (QueryUserBids e userAddrs contractAddrs) w) of
        Inl err \<Rightarrow> Inr (Inl err)
      | Inr os \<Rightarrow>
          if os \<noteq> [] \<and> length chainID \<le> i then Inl IndexOutOfRange
          else collect_user_bids e userAddrs contractAddrs chainID (Suc i) nets
            (totalBids @ map (\<lambda>r. \<lparr>mo_Order = r, mo_chainID = chainID ! i, mo_chainName = chain\<rparr>) os))"

fun collection_infos ::
  "env \<Rightarrow> (string \<times> world) list \<Rightarrow> (string \<times> string list) list \<Rightarrow> string list \<Rightarrow> (string \<rightharpoonup> CollectionRow) \<Rightarrow>
   (string \<rightharpoonup> CollectionRow) result" where
  "collection_infos e nets bidCollections [] infos = Inr infos"
| "collection_infos e nets bidCollections (chain # names) infos =
     (case map_of nets chain of
        None \<Rightarrow> Inl DBError
      | Some w \<Rightarrow>
          (case fst (run_state (QueryCollectionsInfo e (removeRepeatedElement (the (map_of bidCollections chain)))) w) of
             Inl err \<Rightarrow> Inl err
           | Inr cs \<Rightarrow> collection_infos e nets bidCollections names
               (foldl (\<lambda>m c. m(collection_key (col_chain_id c) (col_address c) \<mapsto> c)) infos cs)))"

definition name_user_bid :: "(string \<rightharpoonup> CollectionRow) \<Rightarrow> UserBid \<Rightarrow> UserBid" where
  "name_user_bid infos u = (case infos (collection_key (ub_ChainID u) (ub_CollectionAddress u)) of
       None \<Rightarrow> u
     | Some c \<Rightarrow> u\<lparr>ub_CollectionName := col_name c, ub_ImageURI := col_image_uri c\<rparr>)"

record UserBidsResp =
  ubr_Count :: int
  ubr_Result :: "UserBid list"

definition GetMultiChainUserBids ::
  "env \<Rightarrow> (price \<Rightarrow> string) \<Rightarrow> int list \<Rightarrow> (string \<times> world) list \<Rightarrow> string list \<Rightarrow> string list \<Rightarrow>
   go_panic + (UserBidsResp result)" where
  "GetMultiChainUserBids e price_text chainID nets userAddrs contractAddrs =
     (case collect_user_bids e userAddrs contractAddrs chainID 0 nets [] of
        Inl p \<Rightarrow> Inl p
      | Inr (Inl err) \<Rightarrow> Inr (Inl err)
      | Inr (Inr totalBids) \<Rightarrow>
          (let bidsMap = group_bids price_text totalBids;
               bidCollections = bid_collections totalBids
           in case collection_infos e nets bidCollections (map_order e (map fst bidCollections)) Map.empty of
                Inl err \<Rightarrow> Inr (Inl err)
              | Inr infos \<Rightarrow> Inr (Inr \<lparr>ubr_Count = int (length bidsMap),
                  ubr_Result = sort_key (\<lambda>u. - ub_ExpireTime u)
                    (map (\<lambda>k. name_user_bid infos (the (map_of bidsMap k))) (map_order e (map fst bidsMap)))\<rparr>)))"

section \<open>Duplicates\<close>

lemma removeRepeatedElement_remdups: "removeRepeatedElement arr = remdups (filter (\<lambda>a. a \<noteq> '''') arr)"
  by (induction arr) (auto simp: list_ex_iff)

section \<open>Totals of the groups\<close>

lemma wrap64_add: "wrap64 (wrap64 a + b) = wrap64 (a + b)"
  by (simp add: wrap64_def algebra_simps mod_simps)

definition unfilled :: "BidInfo list \<Rightarrow> int" where
  "unfilled infos = (\<Sum>i\<leftarrow>infos. bi_BidUnfilled i)"

definition infos_of :: "UserBid list \<Rightarrow> BidInfo list" where
  "infos_of us = concat (map ub_BidInfos us)"

text \<open>The groups hold every bid once, under distinct keys, with the sum of what is unfilled.\<close>

definition groups_ok :: "OrderRow list \<Rightarrow> (string \<times> UserBid) list \<Rightarrow> bool" where
  "groups_ok rs m \<longleftrightarrow> distinct (map fst m) \<and> mset (infos_of (map snd m)) = mset (map bid_info rs) \<and>
     (\<forall>u \<in> set (map snd m). ub_OrderSize u = wrap64 (unfilled (ub_BidInfos u)))"

lemma update_as_list:
  "map_of m k = None \<Longrightarrow> AList.update k v m = m @ [(k, v)]"
  "map_of m k = Some u \<Longrightarrow> distinct (map fst m) \<Longrightarrow>
     \<exists>xs ys. m = xs @ (k, u) # ys \<and> AList.update k v m = xs @ (k, v) # ys"
proof -
  show "map_of m k = None \<Longrightarrow> AList.update k v m = m @ [(k, v)]"
    by (induction m) (auto split: if_splits)
  show "map_of m k = Some u \<Longrightarrow> distinct (map fst m) \<Longrightarrow> \<exists>xs ys. m = xs @ (k, u) # ys \<and> AList.update k v m = xs @ (k, v) # ys"
  proof (induction m)
    case (Cons a m)
    show ?case
    proof (cases "fst a = k")
      case True
      then show ?thesis using Cons.prems by (intro exI [of _ "[]"] exI [of _ m]) (cases a, auto)
    next
      case False
      then obtain xs ys where "m = xs @ (k, u) # ys" "AList.update k v m = xs @ (k, v) # ys"
        using Cons by (cases a) auto
      then show ?thesis using False by (intro exI [of _ "a # xs"] exI [of _ ys]) (cases a, auto)
    qed
  qed simp
qed

lemma groups_ok_add:
  assumes ok: "groups_ok rs m" and q: "in_i64 (ord_quantity_remaining (mo_Order b))"
  shows "groups_ok (rs @ [mo_Order b]) (add_bid pt m b)"
proof (cases "map_of m (bid_key pt b)")
  case None
  then have "bid_key pt b \<notin> set (map fst m)" by (simp add: map_of_eq_None_iff)
  then show ?thesis
    using ok q None unfolding groups_ok_def add_bid_def
    by (simp add: Let_def update_as_list(1) infos_of_def new_user_bid_def unfilled_def bid_info_def wrap64_id)
next
  case (Some u)
  define u' where "u' = u\<lparr>ub_OrderSize := wrap64 (ub_OrderSize u + ord_quantity_remaining (mo_Order b)),
            ub_BidInfos := ub_BidInfos u @ [bid_info (mo_Order b)]\<rparr>"
  obtain xs ys where m: "m = xs @ (bid_key pt b, u) # ys" "AList.update (bid_key pt b) u' m = xs @ (bid_key pt b, u') # ys"
    using update_as_list(2) [OF Some, of u'] ok unfolding groups_ok_def by blast
  have "ub_OrderSize u' = wrap64 (unfilled (ub_BidInfos u'))"
    using ok m by (simp add: groups_ok_def u'_def wrap64_add unfilled_def bid_info_def)
  moreover have "add_bid pt m b = xs @ (bid_key pt b, u') # ys"
    using Some m(2) by (simp add: add_bid_def Let_def u'_def)
  ultimately show ?thesis
    using ok m(1) unfolding groups_ok_def by (simp add: infos_of_def u'_def)
qed

lemma groups_ok_all:
  "\<forall>b \<in> set bs. in_i64 (ord_quantity_remaining (mo_Order b)) \<Longrightarrow> groups_ok (map mo_Order bs) (group_bids pt bs)"
proof (induction bs rule: rev_induct)
  case Nil
  show ?case by (simp add: groups_ok_def group_bids_def infos_of_def)
next
  case (snoc b bs)
  then show ?case using groups_ok_add [of "map mo_Order bs" "group_bids pt bs" b pt] by (simp add: group_bids_def)
qed


section \<open>The answer\<close>

text \<open>The live bids of the user on all chains.\<close>

definition users_bids :: "env \<Rightarrow> string list \<Rightarrow> string list \<Rightarrow> (string \<times> world) list \<Rightarrow> OrderRow list" where
  "users_bids e userAddrs contractAddrs nets =
     concat (map (\<lambda>(_, w). filter (users_live_bid e userAddrs contractAddrs) (t_orders (tbl w))) nets)"

lemma bid_info_columns: "bid_info (user_bid_columns r) = bid_info r"
    "ord_quantity_remaining (user_bid_columns r) = ord_quantity_remaining r"
  by (simp_all add: bid_info_def user_bid_columns_def)

lemma run_query_bids:
  "fst (run_state (QueryUserBids e us cs) w) = Inr os \<Longrightarrow>
     os = map user_bid_columns (row_order e (filter (users_live_bid e us cs) (t_orders (tbl w))))"
  using run_db_query_Inr unfolding QueryUserBids_def by (metis prod.collapse)

lemma collect_user_bids_rows:
  assumes "server_orders_rows e"
  shows "collect_user_bids e us cs ids i nets acc = Inr (Inr out) \<Longrightarrow>
    mset (map mo_Order out) = mset (map mo_Order acc) + mset (map user_bid_columns (users_bids e us cs nets))"
  using assms
proof (induction e us cs ids i nets acc rule: collect_user_bids.induct)
  case (2 e us cs ids i chain w nets acc)
  then obtain os where os: "fst (run_state (QueryUserBids e us cs) w) = Inr os" "\<not> (os \<noteq> [] \<and> length ids \<le> i)"
    by (auto split: sum.splits if_splits)
  let ?more = "map (\<lambda>r. \<lparr>mo_Order = r, mo_chainID = ids ! i, mo_chainName = chain\<rparr>) os"
  have same: "\<And>rs. mset (row_order e rs) = mset rs"
    using 2(3) by (simp add: server_orders_rows_def)
  have "mset os = mset (map user_bid_columns (filter (users_live_bid e us cs) (t_orders (tbl w))))"
    unfolding run_query_bids [OF os(1)] mset_map same by simp
  moreover have "map mo_Order ?more = os" by (simp add: o_def)
  moreover have "mset (map mo_Order out) = mset (map mo_Order (acc @ ?more)) + mset (map user_bid_columns (users_bids e us cs nets))"
    using 2 os by simp
  ultimately show ?case by (simp add: users_bids_def)
qed (simp add: users_bids_def)

lemma name_user_bid_keeps [simp]:
  "ub_OrderSize (name_user_bid infos u) = ub_OrderSize u" "ub_BidInfos (name_user_bid infos u) = ub_BidInfos u"
  by (simp_all add: name_user_bid_def split: option.split)

text \<open>C22: The answer shows every live bid of the user on the chains asked for exactly once, in groups sorted by the
  time of expiry, the latest first; the size of a group is the sum of what its bids have left, in 64 bits, and
  the count is the number of groups.\<close>

theorem user_bids_shown_once:
  assumes "server_orders_rows e" "permutes_keys e"
    and "list_all (\<lambda>r. in_i64 (ord_quantity_remaining r)) (users_bids e us cs nets)"
    and "GetMultiChainUserBids e price_text ids nets us cs = Inr (Inr resp)"
  shows "mset (infos_of (ubr_Result resp)) = mset (map bid_info (users_bids e us cs nets)) \<and>
    sorted_wrt (\<lambda>u v. ub_ExpireTime u \<ge> ub_ExpireTime v) (ubr_Result resp) \<and>
    list_all (\<lambda>u. ub_OrderSize u = wrap64 (unfilled (ub_BidInfos u))) (ubr_Result resp) \<and>
    ubr_Count resp = int (length (ubr_Result resp))"
proof -
  obtain bs where bs: "collect_user_bids e us cs ids 0 nets [] = Inr (Inr bs)"
    using assms(4) by (auto simp: GetMultiChainUserBids_def split: sum.splits)
  let ?m = "group_bids price_text bs"
  obtain infos where resp: "resp = \<lparr>ubr_Count = int (length ?m), ubr_Result = sort_key (\<lambda>u. - ub_ExpireTime u)
      (map (\<lambda>k. name_user_bid infos (the (map_of ?m k))) (map_order e (map fst ?m)))\<rparr>"
    using assms(4) bs by (auto simp: GetMultiChainUserBids_def Let_def split: sum.splits)
  have rows: "mset (map mo_Order bs) = mset (map user_bid_columns (users_bids e us cs nets))"
    using collect_user_bids_rows [OF assms(1) bs] by simp
  have "in_i64 (ord_quantity_remaining (mo_Order b))" if "b \<in> set bs" for b
  proof -
    have "mo_Order b \<in> set (map mo_Order bs)" using that by simp
    then have "mo_Order b \<in> set (map user_bid_columns (users_bids e us cs nets))"
      using rows by (metis set_mset_mset)
    then show ?thesis using assms(3) by (auto simp: bid_info_columns list_all_iff)
  qed
  then have ok: "groups_ok (map mo_Order bs) ?m" by (intro groups_ok_all) simp
  have res: "mset (ubr_Result resp) = mset (map (name_user_bid infos) (map snd ?m))"
    using walk_map [OF assms(2), of ?m "name_user_bid infos"] ok by (simp add: resp groups_ok_def)

  have infos: "mset (infos_of us) = \<Sum>\<^sub># (image_mset (\<lambda>u. mset (ub_BidInfos u)) (mset us))" for us
    by (induction us) (simp_all add: infos_of_def)
  have "mset (infos_of (ubr_Result resp)) = mset (infos_of (map snd ?m))"
    unfolding infos res by (simp add: image_mset.compositionality o_def)
  also have "\<dots> = image_mset bid_info (mset (map mo_Order bs))"
    using ok by (simp add: groups_ok_def image_mset.compositionality)
  also have "\<dots> = mset (map bid_info (users_bids e us cs nets))"
    unfolding rows by (simp add: image_mset.compositionality o_def bid_info_columns)
  finally have shown: "mset (infos_of (ubr_Result resp)) = mset (map bid_info (users_bids e us cs nets))" .
  have "set (ubr_Result resp) = name_user_bid infos ` set (map snd ?m)" using res by (metis set_map set_mset_mset)
  then have sizes: "list_all (\<lambda>u. ub_OrderSize u = wrap64 (unfilled (ub_BidInfos u))) (ubr_Result resp)"
    using ok by (auto simp: list_all_iff groups_ok_def)
  have "length (ubr_Result resp) = length ?m" using res by (metis length_map size_mset)
  moreover have "sorted_wrt (\<lambda>u v. ub_ExpireTime u \<ge> ub_ExpireTime v) (ubr_Result resp)"
    using sorted_sort_key [of "\<lambda>u. - ub_ExpireTime u"] by (simp add: resp sorted_wrt_map)
  ultimately show ?thesis using shown sizes by (simp add: resp)
qed


text \<open>Two chains with a bid each that differ in the chain only: the answer shows one group, under the first chain.\<close>

definition chain_bid_world :: world where
  "chain_bid_world = start_world\<lparr>tbl := empty_tables\<lparr>t_orders := [sample_bid ''a'' ''1'' ItemBidOrder 3 1]\<rparr>\<rparr>"

definition two_chains :: "(string \<times> world) list" where
  "two_chains = [(''eth'', chain_bid_world), (''optimism'', chain_bid_world)]"

lemma two_chains_bids: "users_bids plain_env [''0xb''] [] two_chains = replicate 2 (sample_bid ''a'' ''1'' ItemBidOrder 3 1)"
  by (simp add: users_bids_def two_chains_def chain_bid_world_def bid_world_defs users_live_bid_def numeral_2_eq_2
      plain_env_def [THEN arg_cong [of _ _ coll_eq]] EqualFold_def)

lemma query_answers: "db_works e \<Longrightarrow> \<exists>r. fst (run_state (db_query e q) w) = Inr r"
  using run_db_query_Inl [of e q w] by (cases "run_state (db_query e q) w"; cases "fst (run_state (db_query e q) w)") auto

lemma collection_infos_answers:
  assumes "db_works e" "\<forall>c \<in> set names. map_of nets c \<noteq> None"
  shows "\<exists>infos'. collection_infos e nets m names infos = Inr infos'"
  using assms(2)
proof (induction names arbitrary: infos)
  case (Cons c names)
  then obtain w where w: "map_of nets c = Some w" by auto
  have "\<exists>rows. fst (run_state (QueryCollectionsInfo e cs) w) = Inr rows" for cs
    unfolding QueryCollectionsInfo_def by (rule query_answers [OF assms(1)])
  then obtain rows where "fst (run_state (QueryCollectionsInfo e (removeRepeatedElement (the (map_of m c)))) w) = Inr rows" ..
  then show ?case using Cons w by simp
qed simp

theorem user_bids_shown_once_witness:
  "\<exists>resp. GetMultiChainUserBids plain_env (\<lambda>_. ''3'') [1, 10] two_chains [''0xb''] [] = Inr (Inr resp) \<and>
     mset (infos_of (ubr_Result resp)) = mset (map bid_info (replicate 2 (sample_bid ''a'' ''1'' ItemBidOrder 3 1)))"
proof -
  let ?bs = "map (\<lambda>(i, c). \<lparr>mo_Order = user_bid_columns (sample_bid ''a'' ''1'' ItemBidOrder 3 1), mo_chainID = i,
      mo_chainName = c\<rparr>) [(1, ''eth''), (10, ''optimism'')]"
  have env: "server_orders_rows plain_env" "permutes_keys plain_env" "db_works plain_env"
    using bid_market by (simp_all add: market_def plain_env_works)
  have "collect_user_bids plain_env [''0xb''] [] [1, 10] 0 two_chains [] = Inr (Inr ?bs)"
    by (simp add: two_chains_def QueryUserBids_def db_query_def db_exec_def
        plain_env_def [THEN arg_cong [of _ _ db_outcome]] plain_env_def [THEN arg_cong [of _ _ row_order]]
        plain_env_def [THEN arg_cong [of _ _ coll_eq]] EqualFold_def
        chain_bid_world_def bid_world_defs users_live_bid_def Let_def)
  note all = this
  have "set (map_order plain_env (map fst (bid_collections ?bs))) \<subseteq> {''eth'', ''optimism''}"
    by (simp add: bid_collections_def plain_env_def [THEN arg_cong [of _ _ map_order]] Let_def)
  then have "\<forall>c \<in> set (map_order plain_env (map fst (bid_collections ?bs))). map_of two_chains c \<noteq> None"
    by (auto simp: two_chains_def)
  then obtain infos where infos: "collection_infos plain_env two_chains (bid_collections ?bs)
      (map_order plain_env (map fst (bid_collections ?bs))) Map.empty = Inr infos"
    using collection_infos_answers [OF env(3)] by blast
  have "\<exists>resp. GetMultiChainUserBids plain_env (\<lambda>_. ''3'') [1, 10] two_chains [''0xb''] [] = Inr (Inr resp)"
    unfolding GetMultiChainUserBids_def all by (simp only: sum.case Let_def infos) blast
  then obtain resp where r: "GetMultiChainUserBids plain_env (\<lambda>_. ''3'') [1, 10] two_chains [''0xb''] [] = Inr (Inr resp)" by blast
  have "list_all (\<lambda>r. in_i64 (ord_quantity_remaining r)) (users_bids plain_env [''0xb''] [] two_chains)"
    by (simp add: two_chains_bids sample_bid_def in_i64_def numeral_2_eq_2)
  then show ?thesis
    using user_bids_shown_once [OF env(1,2) _ r] r by (auto simp: two_chains_bids)
qed

end
