(* ===== verification/Convert.thy ===== *)
theory Convert
  imports ChainCalls
begin

text \<open>
  Numbers as text: \<open>strconv.ParseInt\<close>, \<open>ParseUint\<close>, \<open>FormatInt\<close> and the functions of
  \<open>EasySwapBase/kit/convert/convert.go\<close> that are only calls of them: \<open>ToInt\<close> and \<open>ToInt64\<close> of a string and the
  conversions between bases. \<open>AnyConvert\<close> has the conversions of values of any type.
\<close>

section \<open>Digits\<close>

definition base_digit :: "nat \<Rightarrow> char" where
  "base_digit d = (if d < 10 then char_of (48 + d) else char_of (87 + d))"

definition digit_val :: "char \<Rightarrow> nat option" where
  "digit_val c = (let n = of_char c :: nat in
     if 48 \<le> n \<and> n \<le> 57 then Some (n - 48) else if 97 \<le> n \<and> n \<le> 122 then Some (n - 87)
     else if 65 \<le> n \<and> n \<le> 90 then Some (n - 55) else None)"

fun nat_text :: "nat \<Rightarrow> nat \<Rightarrow> string" where
  "nat_text base n = (if n < base \<or> base < 2 then [base_digit n] else nat_text base (n div base) @ [base_digit (n mod base)])"

declare nat_text.simps [simp del]

text \<open>\<open>strconv.FormatInt\<close> for the bases it knows.\<close>

definition format_int :: "nat \<Rightarrow> int \<Rightarrow> string" where
  "format_int base i = (if i < 0 then ''-'' @ nat_text base (nat (- i)) else nat_text base (nat i))"

section \<open>Parsing\<close>

datatype num_error = ErrSyntax | ErrRange | ErrBase

text \<open>The digits of an unsigned number. A number that no longer fits ends the loop at once, whatever follows; underscores are
  skipped when the base was read from the text (\<open>base0\<close>).\<close>

fun parse_digits :: "nat \<Rightarrow> bool \<Rightarrow> nat \<Rightarrow> string \<Rightarrow> nat \<times> num_error option" where
  "parse_digits base base0 n [] = (n, None)"
| "parse_digits base base0 n (c # cs) = (if base0 \<and> c = CHR ''_'' then parse_digits base base0 n cs
     else case digit_val c of
       None \<Rightarrow> (0, Some ErrSyntax)
     | Some d \<Rightarrow> if base \<le> d then (0, Some ErrSyntax)
         else if 2 ^ 64 \<le> n * base + d then (2 ^ 64 - 1, Some ErrRange)
         else parse_digits base base0 (n * base + d) cs)"

text \<open>\<open>underscoreOK\<close>: every underscore stands between digits, where the prefix of a base counts as a digit. The state is what
  was read last: the beginning, a digit, an underscore, something else.\<close>

datatype saw = SawStart | SawDigit | SawUnderscore | SawOther

fun underscores_ok :: "bool \<Rightarrow> saw \<Rightarrow> string \<Rightarrow> bool" where
  "underscores_ok hex i [] \<longleftrightarrow> i \<noteq> SawUnderscore"
| "underscores_ok hex i (c # cs) =
     (if is_digit c \<or> hex \<and> (\<exists>d\<in>set_option (digit_val c). 10 \<le> d \<and> d < 16) then underscores_ok hex SawDigit cs
      else if c = CHR ''_'' then i = SawDigit \<and> underscores_ok hex SawUnderscore cs
      else i \<noteq> SawUnderscore \<and> underscores_ok hex SawOther cs)"

definition base_of_prefix :: "char \<Rightarrow> nat option" where
  "base_of_prefix c = (if c = CHR ''b'' \<or> c = CHR ''B'' then Some 2 else if c = CHR ''o'' \<or> c = CHR ''O'' then Some 8
     else if c = CHR ''x'' \<or> c = CHR ''X'' then Some 16 else None)"

definition underscoreOK :: "string \<Rightarrow> bool" where
  "underscoreOK s = (case s of
       CHR ''0'' # c # rest \<Rightarrow> (case base_of_prefix c of
           Some b \<Rightarrow> underscores_ok (b = 16) SawDigit rest
         | None \<Rightarrow> underscores_ok False SawStart s)
     | _ \<Rightarrow> underscores_ok False SawStart s)"

text \<open>The base a text without a sign names, with the digits after the prefix.\<close>

definition read_base :: "string \<Rightarrow> nat \<times> string" where
  "read_base s = (case s of
       CHR ''0'' # c # rest \<Rightarrow> (case base_of_prefix c of
           Some b \<Rightarrow> if rest \<noteq> [] then (b, rest) else (8, tl s)
         | None \<Rightarrow> (8, tl s))
     | CHR ''0'' # _ \<Rightarrow> (8, tl s)
     | _ \<Rightarrow> (10, s))"

definition ParseUint :: "int \<Rightarrow> string \<Rightarrow> nat \<times> num_error option" where
  "ParseUint base s = (if s = [] then (0, Some ErrSyntax)
     else if 2 \<le> base \<and> base \<le> 36 then parse_digits (nat base) False 0 s
     else if base = 0 then (let (b, digits) = read_base s; (n, err) = parse_digits b True 0 digits
       in if err = None \<and> CHR ''_'' \<in> set digits \<and> \<not> underscoreOK s then (0, Some ErrSyntax) else (n, err))
     else (0, Some ErrBase))"

definition ParseInt :: "int \<Rightarrow> string \<Rightarrow> int \<times> num_error option" where
  "ParseInt base s = (if s = [] then (0, Some ErrSyntax) else
     let neg = (hd s = CHR ''-''); digits = (if hd s = CHR ''+'' \<or> hd s = CHR ''-'' then tl s else s);
         (un, err) = ParseUint base digits
     in if err \<noteq> None \<and> err \<noteq> Some ErrRange then (0, err)
        else if \<not> neg \<and> 2 ^ 63 \<le> un then (2 ^ 63 - 1, Some ErrRange)
        else if neg \<and> 2 ^ 63 < un then (- (2 ^ 63), Some ErrRange)
        else (if neg then - int un else int un, err))"

section \<open>Conversions\<close>

text \<open>\<open>strconv.ParseInt\<close> to the base 10 with its error ignored: 0 for a text that is no number, the nearest bound for one out
  of range.\<close>

definition parse_int64 :: "string \<Rightarrow> int" where
  "parse_int64 s = fst (ParseInt 10 s)"

definition ToInt64 :: "string \<Rightarrow> int" where
  "ToInt64 src = parse_int64 (takeWhile (\<lambda>c. c \<noteq> CHR ''.'') (TrimSpace src))"

text \<open>\<open>int\<close> has 64 bits.\<close>

definition ToInt :: "string \<Rightarrow> int" where
  "ToInt src = ToInt64 src"

text \<open>\<open>FormatInt\<close> panics for a base it does not know.\<close>

definition FormatInt :: "int \<Rightarrow> int \<Rightarrow> string option" where
  "FormatInt i base = (if 2 \<le> base \<and> base \<le> 36 then Some (format_int (nat base) i) else None)"

definition ToBase :: "string \<Rightarrow> int \<Rightarrow> int \<Rightarrow> string option" where
  "ToBase src fromBase toBase = (case ParseInt fromBase src of (i, err) \<Rightarrow> if err \<noteq> None then Some '''' else FormatInt i toBase)"

definition TrimPrefix :: "string \<Rightarrow> string \<Rightarrow> string" where
  "TrimPrefix s prefix = (if is_prefix prefix s then drop (length prefix) s else s)"

definition DecToBin :: "int \<Rightarrow> string" where
  "DecToBin dec = format_int 2 dec"

definition BinToDec :: "string \<Rightarrow> int" where
  "BinToDec bin = fst (ParseInt 2 (TrimPrefix bin ''0b''))"

definition HexToBin :: "string \<Rightarrow> string" where
  "HexToBin hex = format_int 2 (fst (ParseInt 16 (TrimPrefix hex ''0x'')))"

definition BinToHex :: "string \<Rightarrow> string" where
  "BinToHex bin = format_int 16 (fst (ParseInt 2 (TrimPrefix bin ''0b'')))"

definition DecToHex :: "int \<Rightarrow> string" where
  "DecToHex dec = format_int 16 dec"

definition HexToDec :: "string \<Rightarrow> int" where
  "HexToDec hex = fst (ParseInt 16 (TrimPrefix hex ''0x''))"

section \<open>Reading back what was written\<close>

lemma parse_digits_bound: "n < 2 ^ 64 \<Longrightarrow> fst (parse_digits b u n s) < 2 ^ 64"
  by (induction b u n s rule: parse_digits.induct) (auto split: option.splits)


lemma ParseInt_in_range: "in_i64 (fst (ParseInt base s))"
  by (auto simp: ParseInt_def in_i64_def Let_def split_beta)

lemma parse_int64_in_range: "in_i64 (parse_int64 s)"
  by (simp add: parse_int64_def ParseInt_in_range)

lemma digit_val_of: "d < 36 \<Longrightarrow> digit_val (base_digit d) = Some d"
  by (auto simp: digit_val_def base_digit_def Let_def)

lemma base_digit_not_sign: "d < 36 \<Longrightarrow> base_digit d \<noteq> CHR ''-'' \<and> base_digit d \<noteq> CHR ''+''"
  using digit_val_of [of d] by (auto simp: digit_val_def)

lemma parse_digits_append:
  "parse_digits b u n xs = (m, None) \<Longrightarrow> parse_digits b u n (xs @ ys) = parse_digits b u m ys"
  by (induction b u n xs rule: parse_digits.induct) (auto split: if_splits option.splits)

lemma parse_nat_text:
  "2 \<le> b \<Longrightarrow> b \<le> 36 \<Longrightarrow> n < 2 ^ 64 \<Longrightarrow> parse_digits b False 0 (nat_text b n) = (n, None)"
proof (induction b n rule: nat_text.induct)
  case (1 b n)
  note b = 1(2,3)
  show ?case
  proof (cases "n < b")
    case True
    then have "digit_val (base_digit n) = Some n" using b by (intro digit_val_of) linarith
    then show ?thesis using True 1(4) b by (subst nat_text.simps) simp
  next
    case False
    have "n div b < 2 ^ 64" using 1(4) by (meson div_le_dividend le_less_trans)
    then have "parse_digits b False 0 (nat_text b (n div b)) = (n div b, None)" using 1(1) False b by simp
    moreover have "digit_val (base_digit (n mod b)) = Some (n mod b)"
      using b mod_less_divisor [of b n] by (intro digit_val_of) linarith
    moreover have "\<not> b \<le> n mod b" using b by (simp add: not_le)
    ultimately show ?thesis using False b 1(4)
      by (subst nat_text.simps) (simp add: parse_digits_append)
  qed
qed

lemma nat_text_chars: "2 \<le> b \<Longrightarrow> b \<le> 36 \<Longrightarrow> c \<in> set (nat_text b n) \<Longrightarrow> \<exists>d<b. c = base_digit d"
proof (induction b n rule: nat_text.induct)
  case (1 b n)
  show ?case
  proof (cases "n < b")
    case True
    then show ?thesis using 1(4) by (subst (asm) nat_text.simps) auto
  next
    case False
    then have "c \<in> set (nat_text b (n div b)) \<or> c = base_digit (n mod b)"
      using 1(2,4) by (auto simp: nat_text.simps [of b n])
    moreover have "n mod b < b" using 1(2) by simp
    ultimately show ?thesis using 1(1-3) False by fastforce
  qed
qed

lemma nat_text_not_Nil [simp]: "nat_text b n \<noteq> []"
  by (subst nat_text.simps) simp

lemma ParseInt_format_int:
  assumes "2 \<le> b" "b \<le> 36" "in_i64 i"
  shows "ParseInt (int b) (format_int b i) = (i, None)"
proof -
  have "hd (nat_text b n) \<in> set (nat_text b n)" for n by simp
  then have s: "hd (nat_text b n) \<noteq> CHR ''-'' \<and> hd (nat_text b n) \<noteq> CHR ''+''" for n
    using nat_text_chars [OF assms(1,2)] base_digit_not_sign assms(2) by (metis order_less_le_trans)
  have p: "ParseUint (int b) (nat_text b n) = (n, None)" if "n < 2 ^ 64" for n
    using assms parse_nat_text [OF assms(1,2) that] by (simp add: ParseUint_def)
  show ?thesis
  proof (cases "i < 0")
    case True
    then have "nat (- i) < 2 ^ 64" using assms(3) by (simp add: in_i64_def)
    then show ?thesis using True assms(3) p by (simp add: ParseInt_def format_int_def in_i64_def Let_def)
  next
    case False
    then have "nat i < 2 ^ 64" using assms(3) by (simp add: in_i64_def)
    then show ?thesis using False assms(3) p s by (simp add: ParseInt_def format_int_def in_i64_def Let_def)
  qed
qed

lemma itoa_nat_text: "itoa n = nat_text 10 n"
proof (induction n rule: itoa.induct)
  case (1 n)
  then show ?case by (cases "n < 10") (simp_all add: itoa.simps [of n] nat_text.simps [of 10 n] base_digit_def)
qed

text \<open>A number is written without the prefix of its base.\<close>

lemma no_prefix:
  assumes "2 \<le> b" "b \<le> 36" "\<forall>d<b. base_digit d \<noteq> p"
  shows "TrimPrefix (format_int b i) [CHR ''0'', p] = format_int b i"
proof -
  have "p \<notin> set (nat_text b n)" for n using nat_text_chars [OF assms(1,2)] assms(3) by blast
  then show ?thesis
    by (auto simp: TrimPrefix_def format_int_def is_prefix_def) (metis list.set_intros in_set_takeD)
qed

lemma base_digit_eq: "d < 36 \<Longrightarrow> base_digit d = p \<Longrightarrow> digit_val p = Some d"
  using digit_val_of by blast

lemma no_prefix_bin: "TrimPrefix (format_int 2 i) ''0b'' = format_int 2 i"
  by (rule no_prefix) (auto dest: base_digit_eq [rotated] simp: digit_val_def)

lemma no_prefix_hex: "TrimPrefix (format_int 16 i) ''0x'' = format_int 16 i"
  by (rule no_prefix) (auto dest: base_digit_eq [rotated] simp: digit_val_def)

end
