(* ===== verification/Ranking.thy ===== *)
theory Ranking
  imports Maintenance Convert
begin

text \<open>
  The ranking of the collections: \<open>GetTopRanking\<close> (\<open>NFTMarket-backend/src/service/v1/ranking.go\<close>) with its
  queries (\<open>dao/ranking.go\<close>, \<open>dao/collection.go\<close>) and \<open>TopRankingHandler\<close> (\<open>api/v1/ranking.go\<close>), which runs one
  goroutine per chain. The parameters of the theory are the JSON decoder of the cached trades, the rank
  of an address in the collation, and the notation of a relative price change (division to 16 digits, conversion to a
  float and formatting).
\<close>

section \<open>Cached trades\<close>

record CollectionTrade =
  ct_ContractAddress :: string
  ct_ItemCount :: int
  ct_Volume :: price
  ct_VolumeChange :: int
  ct_PreFloorPrice :: price
  ct_FloorChange :: int

definition GenRankingKey :: "string \<Rightarrow> string \<Rightarrow> nat \<Rightarrow> string" where
  "GenRankingKey project chain period =
     ''cache:'' @ ToLower project @ '':'' @ ToLower chain @ '':ranking:volume:'' @ itoa period"

definition periodToEpoch :: "string \<rightharpoonup> nat" where
  "periodToEpoch = [''15m'' \<mapsto> 3, ''1h'' \<mapsto> 12, ''6h'' \<mapsto> 72, ''24h'' \<mapsto> 288, ''1d'' \<mapsto> 288, ''7d'' \<mapsto> 2016, ''30d'' \<mapsto> 8640]"

definition kv_get :: "env \<Rightarrow> string \<Rightarrow> string result M" where
  "kv_get e key = kv_exec e (\<lambda>w. (case kv_val w key of None \<Rightarrow> '''' | Some v \<Rightarrow> v, w))"

definition QueryCollectionTradeInfo ::
  "env \<Rightarrow> (string \<Rightarrow> CollectionTrade list option) \<Rightarrow> string \<Rightarrow> string \<Rightarrow> string \<Rightarrow> CollectionTrade list result M" where
  "QueryCollectionTradeInfo e decode project chain period =
     (case periodToEpoch period of
        None \<Rightarrow> State_Monad.return (Inl ErrJSON)
      | Some epoch \<Rightarrow> do {
          r \<leftarrow> kv_get e (GenRankingKey project chain epoch);
          State_Monad.return (case r of
              Inl err \<Rightarrow> Inl err
            | Inr cacheInfo \<Rightarrow>
                if cacheInfo = '''' then Inr []
                else (case decode cacheInfo of None \<Rightarrow> Inl ErrJSON | Some ts \<Rightarrow> Inr ts))
        })"

section \<open>Change of the floor price\<close>

text \<open>The newest row of every collection, and the newest that is at least \<open>timeDiff\<close> seconds old.\<close>

definition newest :: "env \<Rightarrow> (FloorPriceRow \<Rightarrow> bool) \<Rightarrow> FloorPriceRow list \<Rightarrow> FloorPriceRow \<Rightarrow> bool" where
  "newest e P rows r \<longleftrightarrow>
     list_ex (\<lambda>r'. P r' \<and> coll_eq e (fp_collection_address r') (fp_collection_address r) \<and>
       fp_event_time r' = fp_event_time r) rows \<and>
     list_all (\<lambda>r'. P r' \<longrightarrow> coll_eq e (fp_collection_address r') (fp_collection_address r) \<longrightarrow>
       fp_event_time r' \<le> fp_event_time r) rows"

definition floor_change_rows ::
  "env \<Rightarrow> (string \<Rightarrow> nat) \<Rightarrow> int \<Rightarrow> int \<Rightarrow> FloorPriceRow list \<Rightarrow> FloorPriceRow list" where
  "floor_change_rows e rank t0 timeDiff rows =
     sort_key (\<lambda>r. rank (fp_collection_address r)) (sort_key (\<lambda>r. - fp_event_time r)
       (filter (\<lambda>r. newest e (\<lambda>_. True) rows r \<or> newest e (\<lambda>r'. fp_event_time r' \<le> t0 - timeDiff) rows r) rows))"

fun floor_changes :: "FloorPriceRow list \<Rightarrow> (string \<times> price) list \<Rightarrow> (string \<times> price) list" where
  "floor_changes [] m = m"
| "floor_changes [r] m = AList.update (fp_collection_address r) 0 m"
| "floor_changes (r # r' # rest) m =
     (if fp_collection_address r = fp_collection_address r' \<and> 0 < fp_price r'
      then floor_changes rest (AList.update (fp_collection_address r) ((fp_price r - fp_price r') / fp_price r') m)
      else floor_changes (r' # rest) (AList.update (fp_collection_address r) 0 m))"

definition QueryCollectionFloorChange ::
  "env \<Rightarrow> (string \<Rightarrow> nat) \<Rightarrow> int \<Rightarrow> (string \<times> price) list result M" where
  "QueryCollectionFloorChange e rank timeDiff = do {
     w \<leftarrow> get_world;
     r \<leftarrow> db_query e (\<lambda>t. floor_change_rows e rank (db_clock e (n_db w)) timeDiff (t_floor_prices t));
     State_Monad.return (case r of Inl err \<Rightarrow> Inl err | Inr rows \<Rightarrow> Inr (floor_changes rows []))
   }"

section \<open>Selling prices\<close>

text \<open>\<open>GROUP BY collection_address\<close> with \<open>max(price)\<close>: a group is shown under the address of one of its rows.\<close>

fun distinct_up_to :: "('a \<Rightarrow> 'a \<Rightarrow> bool) \<Rightarrow> 'a list \<Rightarrow> 'a list" where
  "distinct_up_to eq [] = []"
| "distinct_up_to eq (x # xs) = (if list_ex (eq x) xs then distinct_up_to eq xs else x # distinct_up_to eq xs)"

definition sell_rows :: "env \<Rightarrow> int \<Rightarrow> OrderRow list \<Rightarrow> (string \<times> price) list" where
  "sell_rows e t0 os =
     (let rows = row_order e (filter (\<lambda>co. ord_order_status co = OrderStatusActive \<and>
            ord_order_type co = CollectionBidOrder \<and> t0 < ord_expire_time co) os)
      in map (\<lambda>a. (a, Max (ord_price ` set (filter (\<lambda>co. coll_eq e (ord_collection_address co) a) rows))))
           (distinct_up_to (coll_eq e) (map ord_collection_address rows)))"

definition QueryCollectionsSellPrice :: "env \<Rightarrow> (string \<times> price) list result M" where
  "QueryCollectionsSellPrice e = do {
     t0 \<leftarrow> now e;
     db_query e (\<lambda>t. sell_rows e t0 (t_orders t))
   }"

section \<open>All collections\<close>

definition MaxBatchReadCollections :: nat where "MaxBatchReadCollections = 500"
definition MaxRetries :: nat where "MaxRetries = 3"

definition collections_after :: "int \<Rightarrow> CollectionRow list \<Rightarrow> CollectionRow list" where
  "collections_after cursor rows =
     take MaxBatchReadCollections (sort_key col_id (filter (\<lambda>c. col_id c > cursor) rows))"

text \<open>A batch is read up to \<open>MaxRetries\<close> times; the pauses between the attempts are left out.\<close>

fun read_collections :: "env \<Rightarrow> int \<Rightarrow> nat \<Rightarrow> CollectionRow list result M" where
  "read_collections e cursor 0 = State_Monad.return (Inr [])"
| "read_collections e cursor (Suc n) = do {
     r \<leftarrow> db_query e (\<lambda>t. collections_after cursor (t_collections t));
     case r of
       Inr rows \<Rightarrow> State_Monad.return (Inr rows)
     | Inl err \<Rightarrow> if n = 0 then State_Monad.return (Inl err) else read_collections e cursor n
   }"

partial_function (option) load_collections ::
  "env \<Rightarrow> int \<Rightarrow> CollectionRow list \<Rightarrow> world \<Rightarrow> (CollectionRow list result \<times> world) option" where
  "load_collections e cursor allCollections w =
     (case run_state (read_collections e cursor MaxRetries) w of
        (Inl err, w1) \<Rightarrow> Some (Inl err, w1)
      | (Inr rows, w1) \<Rightarrow>
          if length rows < MaxBatchReadCollections then Some (Inr (allCollections @ rows), w1)
          else load_collections e (col_id (last rows)) (allCollections @ rows) w1)"

text \<open>\<open>Begin\<close> and \<open>Commit\<close> are statements of their own; after a failed \<open>Begin\<close> every read fails.\<close>

definition QueryAllCollectionInfo :: "env \<Rightarrow> world \<Rightarrow> (CollectionRow list result \<times> world) option" where
  "QueryAllCollectionInfo e w =
     (case run_state (db_query e (\<lambda>_. ())) w of
        (Inl err, w1) \<Rightarrow> Some (Inl err, w1)
      | (Inr _, w1) \<Rightarrow>
          (case load_collections e 0 [] w1 of
             None \<Rightarrow> None
           | Some (Inl err, w2) \<Rightarrow> Some (Inl err, w2)
           | Some (Inr cs, w2) \<Rightarrow> Some (run_state (do {
               r \<leftarrow> db_query e (\<lambda>_. ());
               State_Monad.return (case r of Inl err \<Rightarrow> Inl err | Inr _ \<Rightarrow> Inr cs)
             }) w2)))"

section \<open>Number of listings\<close>

fun QueryCollectionsListed ::
  "env \<Rightarrow> string \<Rightarrow> string list \<Rightarrow> (string \<times> int) list \<Rightarrow> (string \<times> int) list result M" where
  "QueryCollectionsListed e chain [] acc = State_Monad.return (Inr acc)"
| "QueryCollectionsListed e chain (address # addrs) acc = do {
     r \<leftarrow> kv_get e (GenCollectionListedKey chain address);
     case r of
       Inl err \<Rightarrow> State_Monad.return (Inl err)
     | Inr v \<Rightarrow> QueryCollectionsListed e chain addrs (acc @ [(address, ToInt v)])
   }"

section \<open>Ranking of a chain\<close>

definition firstNonEmpty :: "string list \<Rightarrow> string" where
  "firstNonEmpty values = (case List.find (\<lambda>v. TrimSpace v \<noteq> '''') values of None \<Rightarrow> '''' | Some v \<Rightarrow> v)"

definition periodTime :: "string \<Rightarrow> int" where
  "periodTime period = (if period = ''15m'' then 900 else if period = ''1h'' then 3600
     else if period = ''6h'' then 21600 else if period = ''1d'' then 86400
     else if period = ''7d'' then 604800 else if period = ''30d'' then 2592000 else 0)"

record CollectionRankingInfo =
  ri_ImageUri :: string
  ri_Banner :: string
  ri_BannerURI :: string
  ri_Name :: string
  ri_Address :: string
  ri_FloorPrice :: price
  ri_FloorChange :: string
  ri_SellPrice :: price
  ri_Volume :: price
  ri_ItemNum :: int
  ri_ItemOwner :: int
  ri_ItemSold :: int
  ri_ListAmount :: int
  ri_ChainID :: int
  ri_Owner :: string

text \<open>The parameters of the ranking.\<close>

record ranking_env =
  rk_env :: env
  rk_decode :: "string \<Rightarrow> CollectionTrade list option"
  rk_rank :: "string \<Rightarrow> nat"
  rk_change :: "price \<Rightarrow> string"
  rk_project :: string

text \<open>The maps keyed by the lower case address; a later entry replaces an earlier one.\<close>

definition trade_map :: "CollectionTrade list \<Rightarrow> (string \<rightharpoonup> CollectionTrade)" where
  "trade_map ts = foldl (\<lambda>m t. m(ToLower (ct_ContractAddress t) \<mapsto> t)) Map.empty ts"

definition sell_map :: "(string \<times> price) list \<Rightarrow> (string \<rightharpoonup> price)" where
  "sell_map ss = foldl (\<lambda>m (a, p). m(ToLower a \<mapsto> p)) Map.empty ss"

text \<open>The entry of a collection. The column \<open>banner\<close> is not selected and empty.\<close>

definition ranking_info ::
  "ranking_env \<Rightarrow> (string \<rightharpoonup> CollectionTrade) \<Rightarrow> (string \<times> price) list \<Rightarrow> (string \<rightharpoonup> price) \<Rightarrow> int \<Rightarrow>
   CollectionRow \<Rightarrow> CollectionRankingInfo" where
  "ranking_info rk trades change sells listAmount c =
     (let addr = ToLower (col_address c);
          (priceChange, volume, sales) = (case trades addr of
              None \<Rightarrow> (0, 0, 0)
            | Some t \<Rightarrow> (case map_of change addr of None \<Rightarrow> 0 | Some x \<Rightarrow> x, ct_Volume t, ct_ItemCount t))
      in \<lparr>ri_ImageUri = col_image_uri c, ri_Banner = firstNonEmpty ['''', col_banner_uri c],
          ri_BannerURI = firstNonEmpty [col_banner_uri c, ''''], ri_Name = col_name c, ri_Address = col_address c,
          ri_FloorPrice = (case col_floor_price c of None \<Rightarrow> 0 | Some p \<Rightarrow> p),
          ri_FloorChange = rk_change rk priceChange,
          ri_SellPrice = (case sells addr of None \<Rightarrow> 0 | Some p \<Rightarrow> p),
          ri_Volume = volume, ri_ItemNum = col_item_amount c, ri_ItemOwner = col_owner_amount c,
          ri_ItemSold = sales, ri_ListAmount = listAmount, ri_ChainID = col_chain_id c, ri_Owner = col_creator c\<rparr>)"

fun ranking_infos ::
  "ranking_env \<Rightarrow> string \<Rightarrow> (string \<rightharpoonup> CollectionTrade) \<Rightarrow> (string \<times> price) list \<Rightarrow> (string \<rightharpoonup> price) \<Rightarrow>
   CollectionRow list \<Rightarrow> CollectionRankingInfo list \<Rightarrow> CollectionRankingInfo list M" where
  "ranking_infos rk chain trades change sells [] acc = State_Monad.return acc"
| "ranking_infos rk chain trades change sells (c # cs) acc = do {
     listed \<leftarrow> QueryCollectionsListed (rk_env rk) chain [col_address c] [];
     ranking_infos rk chain trades change sells cs
       (acc @ [ranking_info rk trades change sells (case listed of Inr ((_, n) # _) \<Rightarrow> n | _ \<Rightarrow> 0) c])
   }"

text \<open>\<open>respInfos[:limit]\<close> for a limit below the length.\<close>

definition limit_infos :: "int \<Rightarrow> 'a list \<Rightarrow> go_panic + 'a list" where
  "limit_infos limit infos =
     (if limit < int (length infos) then if limit < 0 then Inl SliceOutOfRange else Inr (take (nat limit) infos)
      else Inr infos)"

text \<open>Failures of the first two queries are logged only. The two goroutines use different variables; they are
  run one after the other.\<close>

definition GetTopRanking ::
  "ranking_env \<Rightarrow> string \<Rightarrow> string \<Rightarrow> int \<Rightarrow> world \<Rightarrow> ((go_panic + CollectionRankingInfo list result) \<times> world) option" where
  "GetTopRanking rk chain period limit w =
     (let e = rk_env rk;
          (tradeInfos, w1) = run_state (QueryCollectionTradeInfo e (rk_decode rk) (rk_project rk) chain period) w;
          (floorChange, w2) = run_state (QueryCollectionFloorChange e (rk_rank rk) (periodTime period)) w1;
          (sells, w3) = run_state (QueryCollectionsSellPrice e) w2
      in case QueryAllCollectionInfo e w3 of
           None \<Rightarrow> None
         | Some (all, w4) \<Rightarrow>
             (case (sells, all) of
                (Inr ss, Inr cs) \<Rightarrow>
                  (let (infos, w5) = run_state (ranking_infos rk chain (trade_map (value_or [] tradeInfos))
                         (value_or [] floorChange) (sell_map ss) cs []) w4
                   in Some (map_sum id Inr (limit_infos limit infos), w5))
              | (Inl err, _) \<Rightarrow> Some (Inr (Inl err), w4)
              | (_, Inl err) \<Rightarrow> Some (Inr (Inl err), w4)))"

section \<open>The handler\<close>

text \<open>The results of the chains in the order in which the goroutines finish. A panic in a goroutine is not
  recovered: it ends the process.\<close>

datatype ranking_reply = InvalidParams | QueryFailed error | Ranking "CollectionRankingInfo list" | ProcessCrash go_panic

definition valid_period :: "string \<Rightarrow> bool" where
  "valid_period period \<longleftrightarrow> period \<in> set [''15m'', ''1h'', ''6h'', ''1d'', ''7d'', ''30d'']"

fun collect_chains ::
  "(go_panic + CollectionRankingInfo list result) list \<Rightarrow> CollectionRankingInfo list \<Rightarrow> error option \<Rightarrow> ranking_reply" where
  "collect_chains [] allResult queryErr = (case queryErr of
       Some err \<Rightarrow> QueryFailed err
     | None \<Rightarrow> Ranking (sort_key (\<lambda>i. - ri_Volume i) allResult))"
| "collect_chains (Inl p # rest) allResult queryErr = ProcessCrash p"
| "collect_chains (Inr (Inl err) # rest) allResult queryErr =
     collect_chains rest allResult (case queryErr of None \<Rightarrow> Some err | Some err0 \<Rightarrow> Some err0)"
| "collect_chains (Inr (Inr infos) # rest) allResult queryErr = collect_chains rest (allResult @ infos) queryErr"

definition TopRankingHandler ::
  "int option \<Rightarrow> string \<Rightarrow> (string \<Rightarrow> int \<Rightarrow> (go_panic + CollectionRankingInfo list result) list) \<Rightarrow> ranking_reply" where
  "TopRankingHandler limit period results = (case limit of
       None \<Rightarrow> InvalidParams
     | Some n \<Rightarrow>
         if period \<noteq> '''' \<and> \<not> valid_period period then InvalidParams
         else collect_chains (results (if period = '''' then ''1d'' else period) n) [] None)"


section \<open>Loading all collections\<close>

lemma run_read_collections:
  "0 < n \<Longrightarrow> run_state (read_collections e cursor n) w = (r, w1) \<Longrightarrow>
     only_db w w1 \<and> (db_works e \<longrightarrow> \<not> is_err r) \<and>
     (\<forall>rows. r = Inr rows \<longrightarrow> rows = collections_after cursor (t_collections (tbl w)))"
proof (induction n arbitrary: w)
  case (Suc n)
  let ?q = "db_query e (\<lambda>t. collections_after cursor (t_collections t))"
  obtain r0 w0 where q: "run_state ?q w = (r0, w0)" by fastforce
  show ?case
  proof (cases r0)
    case (Inr rows)
    then show ?thesis using Suc.prems q run_db_query_Inr [OF q [unfolded Inr]] by auto
  next
    case (Inl err)
    note f = run_db_query_Inl [OF q [unfolded Inl]]
    show ?thesis
    proof (cases n)
      case 0
      then show ?thesis using Suc.prems q Inl f by auto
    next
      case (Suc m)
      then have "run_state (read_collections e cursor n) w0 = (r, w1)" using Suc.prems q Inl by simp
      then show ?thesis using Suc.IH [of w0] Suc f by simp
    qed
  qed
qed simp

lemma load_collections_steps:
  "run_state (read_collections e b MaxRetries) w = (Inl x, w1) \<Longrightarrow> load_collections e b acc w = Some (Inl x, w1)"
  "run_state (read_collections e b MaxRetries) w = (Inr os, w1) \<Longrightarrow> length os < MaxBatchReadCollections \<Longrightarrow>
     load_collections e b acc w = Some (Inr (acc @ os), w1)"
  "run_state (read_collections e b MaxRetries) w = (Inr os, w1) \<Longrightarrow> \<not> length os < MaxBatchReadCollections \<Longrightarrow>
     load_collections e b acc w = load_collections e (col_id (last os)) (acc @ os) w1"
  by (subst load_collections.simps, simp)+

lemma load_collections_correct:
  assumes "distinct (map col_id (t_collections (tbl w)))"
  shows "\<exists>r w'. load_collections e b acc w = Some (r, w') \<and> only_db w w' \<and> (db_works e \<longrightarrow> \<not> is_err r) \<and>
     (\<forall>os. r = Inr os \<longrightarrow> os = acc @ sort_key col_id (filter (\<lambda>c. col_id c > b) (t_collections (tbl w))))"
  using assms
proof (induction "length (filter (\<lambda>c. col_id c > b) (t_collections (tbl w)))" arbitrary: b acc w rule: less_induct)
  case less
  let ?cs = "t_collections (tbl w)"
  let ?S = "sort_key col_id (filter (\<lambda>c. col_id c > b) ?cs)"
  obtain r w1 where q: "run_state (read_collections e b MaxRetries) w = (r, w1)" by fastforce
  note f = run_read_collections [OF _ q]
  show ?case
  proof (cases r)
    case (Inl x)
    then show ?thesis using q f by (auto simp: load_collections_steps(1) MaxRetries_def)
  next
    case (Inr os)
    then have os: "os = take MaxBatchReadCollections ?S" and t: "only_db w w1"
      using f by (simp_all add: collections_after_def MaxRetries_def)
    then have t1: "tbl w1 = tbl w" by (auto simp: only_db_def)
    show ?thesis
    proof (cases "length os < MaxBatchReadCollections")
      case True
      then have "load_collections e b acc w = Some (Inr (acc @ os), w1)"
        using q unfolding Inr by (intro load_collections_steps(2))
      moreover have "os = ?S" using True unfolding os by simp
      ultimately show ?thesis using t by (auto simp: is_err_def)
    next
      case False
      let ?l = "col_id (last os)"
      have rest: "sort_key col_id (filter (\<lambda>c. col_id c > ?l) ?cs) = drop MaxBatchReadCollections ?S"
        unfolding os using less.prems False os
        by (intro batch_rest) (simp_all add: distinct_map_filter MaxBatchReadCollections_def)
      have "length (filter (\<lambda>c. col_id c > ?l) ?cs) = length (drop MaxBatchReadCollections ?S)"
        by (simp only: rest [symmetric] length_sort)
      then have "length (filter (\<lambda>c. col_id c > ?l) (t_collections (tbl w1))) < length (filter (\<lambda>c. col_id c > b) ?cs)"
        using False t1 by (simp add: os MaxBatchReadCollections_def)
      from less.hyps [OF this, of "acc @ os"] less.prems t1 have
        "\<exists>r' w'. load_collections e ?l (acc @ os) w1 = Some (r', w') \<and> only_db w1 w' \<and> (db_works e \<longrightarrow> \<not> is_err r') \<and>
          (\<forall>os'. r' = Inr os' \<longrightarrow> os' = (acc @ os) @ drop MaxBatchReadCollections ?S)"
        by (simp add: rest)
      moreover have "load_collections e b acc w = load_collections e ?l (acc @ os) w1"
        using q False unfolding Inr by (rule load_collections_steps(3))
      moreover have "(acc @ os) @ drop MaxBatchReadCollections ?S = acc @ ?S" unfolding os by simp
      moreover have "only_db w1 w' \<Longrightarrow> only_db w w'" for w' using t by (auto simp: only_db_def)
      ultimately show ?thesis by auto
    qed
  qed
qed

definition by_id :: "CollectionRow list \<Rightarrow> CollectionRow list" where
  "by_id cs = sort_key col_id cs"

lemma QueryAllCollectionInfo_correct:
  assumes "distinct (map col_id (t_collections (tbl w)))" "\<forall>c \<in> set (t_collections (tbl w)). 0 < col_id c"
  shows "\<exists>r w'. QueryAllCollectionInfo e w = Some (r, w') \<and> only_db w w' \<and> (db_works e \<longrightarrow> \<not> is_err r) \<and>
     (\<forall>cs. r = Inr cs \<longrightarrow> cs = by_id (t_collections (tbl w)))"
proof -
  obtain r0 w0 where q: "run_state (db_query e (\<lambda>_. ())) w = (r0, w0)" by fastforce
  show ?thesis
  proof (cases r0)
    case (Inl x)
    then show ?thesis using q run_db_query_Inl by (fastforce simp: QueryAllCollectionInfo_def)
  next
    case (Inr u)
    note w0 = run_db_query_Inr [OF q [unfolded Inr]]
    have all: "filter (\<lambda>c. 0 < col_id c) (t_collections (tbl w)) = t_collections (tbl w)"
      using assms(2) by (simp add: filter_id_conv)
    obtain r w' where l: "load_collections e 0 [] w0 = Some (r, w')" "only_db w0 w'" "db_works e \<longrightarrow> \<not> is_err r"
        "\<forall>os. r = Inr os \<longrightarrow> os = by_id (t_collections (tbl w))"
      using load_collections_correct [of w0 e 0 "[]"] assms(1) w0 all by (auto simp: by_id_def)
    obtain r2 w2 where c: "run_state (db_query e (\<lambda>_. ())) w' = (r2, w2)" by fastforce
    have "only_db w' w2 \<and> (db_works e \<longrightarrow> \<not> is_err r2)"
      using c run_db_query_Inl [of e "\<lambda>_. ()" w' _ w2] run_db_query_Inr [of e "\<lambda>_. ()" w' _ w2] by (cases r2) auto
    then show ?thesis
      using q l w0 c Inr
      by (cases r) (auto simp: QueryAllCollectionInfo_def only_db_def is_err_def split: sum.splits)
  qed
qed


section \<open>The entries\<close>

definition only_calls :: "world \<Rightarrow> world \<Rightarrow> bool" where
  "only_calls w w' \<longleftrightarrow> tbl w' = tbl w"

lemma keeps_kv_get [keeps_intro]: "keeps (on_tables I) (kv_get e key)"
  unfolding kv_get_def by (rule keeps_tables_kv) simp

lemma keeps_QueryCollectionsListed [keeps_intro]: "keeps (on_tables I) (QueryCollectionsListed e chain addrs acc)"
  by (induction addrs arbitrary: acc) (auto intro!: keeps_intro)

lemma keeps_ranking_infos: "keeps (on_tables I) (ranking_infos rk chain ts ch ss cs acc)"
  by (induction cs arbitrary: acc) (auto intro!: keeps_intro)

lemma keeps_trade_info: "keeps (on_tables I) (QueryCollectionTradeInfo e d project chain period)"
  unfolding QueryCollectionTradeInfo_def by (auto intro!: keeps_intro split: option.split)

lemma keeps_floor_change: "keeps (on_tables I) (QueryCollectionFloorChange e rank d)"
  unfolding QueryCollectionFloorChange_def by (intro keeps_intro)

lemma keeps_sell_price: "keeps (on_tables I) (QueryCollectionsSellPrice e)"
  unfolding QueryCollectionsSellPrice_def by (intro keeps_intro)

lemma same_tables: "(\<And>I. keeps (on_tables I) m) \<Longrightarrow> run_state m w = (r, w') \<Longrightarrow> tbl w' = tbl w"
  using keepsD [of "on_tables (\<lambda>t. t = tbl w)" m w] by (simp add: on_tables_def)

text \<open>What the entry of a collection is made from; the number of listings depends on the cache.\<close>

lemma ranking_infos_entries:
  "\<exists>ns. length ns = length cs \<and> fst (run_state (ranking_infos rk chain ts ch ss cs acc) w)
     = acc @ map2 (ranking_info rk ts ch ss) ns cs"
proof (induction cs arbitrary: acc w)
  case (Cons c cs)
  obtain l w1 where q: "run_state (QueryCollectionsListed (rk_env rk) chain [col_address c] []) w = (l, w1)"
    by fastforce
  let ?n = "case l of Inr ((_, n) # _) \<Rightarrow> n | _ \<Rightarrow> 0"
  obtain ns where "length ns = length cs" "fst (run_state (ranking_infos rk chain ts ch ss cs
      (acc @ [ranking_info rk ts ch ss ?n c])) w1) = (acc @ [ranking_info rk ts ch ss ?n c]) @ map2 (ranking_info rk ts ch ss) ns cs"
    using Cons.IH by blast
  then show ?case using q by (intro exI [of _ "?n # ns"]) (simp del: QueryCollectionsListed.simps)
qed simp

lemma ranking_info_address: "ri_Address (ranking_info rk ts ch ss n c) = col_address c"
  by (simp add: ranking_info_def Let_def split: prod.split)

lemma map2_address: "length ns = length cs \<Longrightarrow> map ri_Address (map2 (ranking_info rk ts ch ss) ns cs) = map col_address cs"
  by (induction ns cs rule: list_induct2) (simp_all add: ranking_info_address)

lemma limit_infos_cases:
  "limit_infos limit xs = (if limit < 0 then Inl SliceOutOfRange else Inr (take (nat limit) xs))"
  by (simp add: limit_infos_def)

section \<open>Properties\<close>

lemma chain_ranking:
  assumes "distinct (map col_id (t_collections (tbl w)))" "\<forall>c \<in> set (t_collections (tbl w)). 0 < col_id c"
  shows "\<exists>r w'. GetTopRanking rk chain period limit w = Some (r, w') \<and> tbl w' = tbl w \<and>
    (db_works (rk_env rk) \<longrightarrow> (\<forall>err. r \<noteq> Inr (Inl err))) \<and>
    (case r of
       Inl p \<Rightarrow> limit < 0
     | Inr (Inl err) \<Rightarrow> True
     | Inr (Inr infos) \<Rightarrow> 0 \<le> limit \<and>
         map ri_Address infos = map col_address (take (nat limit) (by_id (t_collections (tbl w)))))"
proof -
  let ?e = "rk_env rk"
  obtain ti w1 where q1: "run_state (QueryCollectionTradeInfo ?e (rk_decode rk) (rk_project rk) chain period) w = (ti, w1)"
    by fastforce
  obtain fc w2 where q2: "run_state (QueryCollectionFloorChange ?e (rk_rank rk) (periodTime period)) w1 = (fc, w2)"
    by fastforce
  obtain ss w3 where q3: "run_state (QueryCollectionsSellPrice ?e) w2 = (ss, w3)" by fastforce
  have t3: "tbl w3 = tbl w"
    using same_tables [OF keeps_trade_info q1] same_tables [OF keeps_floor_change q2] same_tables [OF keeps_sell_price q3]
    by simp
  obtain al w4 where q4: "QueryAllCollectionInfo ?e w3 = Some (al, w4)" "only_db w3 w4" "db_works ?e \<longrightarrow> \<not> is_err al"
      "\<forall>cs. al = Inr cs \<longrightarrow> cs = by_id (t_collections (tbl w))"
    using QueryAllCollectionInfo_correct [of w3 ?e] assms t3 by auto
  have t4: "tbl w4 = tbl w" using q4(2) t3 by (auto simp: only_db_def)
  have s: "db_works ?e \<Longrightarrow> \<not> is_err ss"
    using q3 wp_db_query [of ?e] by (auto simp: QueryCollectionsSellPrice_def db_query_def db_exec_def db_works_def now_def Let_def)
  let ?run = "\<lambda>os cs. run_state (ranking_infos rk chain (trade_map (value_or [] ti)) (value_or [] fc) (sell_map os) cs []) w4"
  show ?thesis
  proof (cases "is_err ss \<or> is_err al")
    case True
    then obtain err where "GetTopRanking rk chain period limit w = Some (Inr (Inl err), w4)"
      using q1 q2 q3 q4(1) by (cases ss; cases al) (auto simp: GetTopRanking_def)
    then show ?thesis using True s q4(3) t4 by auto
  next
    case False
    then obtain os cs where o: "ss = Inr os" "al = Inr cs" by (cases ss; cases al) auto
    obtain infos w5 where q5: "?run os cs = (infos, w5)" by fastforce
    have t5: "tbl w5 = tbl w" using same_tables [OF keeps_ranking_infos q5] t4 by simp
    have "map ri_Address infos = map col_address cs"
      using ranking_infos_entries [of cs rk chain _ _ "sell_map os" "[]" w4] q5 map2_address by (metis append_Nil fst_conv)
    then have "map ri_Address (take (nat limit) infos) = map col_address (take (nat limit) (by_id (t_collections (tbl w))))"
      using q4(4) o by (simp flip: take_map)
    moreover have "GetTopRanking rk chain period limit w = Some (map_sum id Inr (limit_infos limit infos), w5)"
      using q1 q2 q3 q4(1) o q5 by (simp add: GetTopRanking_def)
    ultimately show ?thesis using t5 by (auto simp: limit_infos_cases)
  qed
qed

text \<open>C26: Under every fault the ranking of a chain ends and changes no table. It panics exactly on a negative limit,
  once its queries succeed; otherwise it lists, whatever the volumes, the first \<open>limit\<close> collections in the
  order of their ids.\<close>

theorem ranking_lists_first_by_id:
  assumes "distinct (map col_id (t_collections (tbl w)))" "\<forall>c \<in> set (t_collections (tbl w)). 0 < col_id c"
  shows "\<exists>r w'. GetTopRanking rk chain period limit w = Some (r, w') \<and> tbl w' = tbl w \<and>
    (db_works (rk_env rk) \<longrightarrow> (\<forall>err. r \<noteq> Inr (Inl err))) \<and>
    (case r of
       Inl p \<Rightarrow> limit < 0
     | Inr (Inl err) \<Rightarrow> True
     | Inr (Inr infos) \<Rightarrow> 0 \<le> limit \<and>
         map ri_Address infos = map col_address (take (nat limit) (by_id (t_collections (tbl w)))))"
  by (rule chain_ranking [OF assms])

lemma collect_panic: "\<exists>p. Inl p \<in> set rs \<Longrightarrow> \<exists>p. collect_chains rs acc err = ProcessCrash p"
  by (induction rs acc err rule: collect_chains.induct) auto

text \<open>A request with a negative limit ends the process as soon as the goroutine of one chain reaches the end of
  its ranking.\<close>

theorem negative_limit_crashes:
  assumes "limit < 0" "period = '''' \<or> valid_period period" "(chain, w) \<in> set runs" "db_works (rk_env rk)"
    and "distinct (map col_id (t_collections (tbl w)))" "\<forall>c \<in> set (t_collections (tbl w)). 0 < col_id c"
  shows "\<exists>p. TopRankingHandler (Some limit) period
    (\<lambda>period limit. map (\<lambda>(chain, w). fst (the (GetTopRanking rk chain period limit w))) runs) = ProcessCrash p"
proof -
  let ?period = "if period = '''' then ''1d'' else period"
  obtain r w' where r: "GetTopRanking rk chain ?period limit w = Some (r, w')" "\<And>err. r \<noteq> Inr (Inl err)"
      "\<And>infos. r \<noteq> Inr (Inr infos)"
    using chain_ranking [OF assms(5,6), of rk chain ?period limit] assms(1,4) by fastforce
  obtain p where "r = Inl p"
  proof (cases r)
    case (Inr b)
    then show thesis using r(2,3) by (cases b) auto
  qed
  then have "fst (the (GetTopRanking rk chain ?period limit w)) = Inl p" using r(1) by simp
  then show ?thesis using assms(2,3) unfolding TopRankingHandler_def by (force intro!: collect_panic)
qed

fun chain_entries :: "go_panic + CollectionRankingInfo list result \<Rightarrow> CollectionRankingInfo list" where
  "chain_entries (Inr (Inr infos)) = infos"
| "chain_entries _ = []"

lemma collect_ranking:
  "collect_chains rs acc err = Ranking out \<Longrightarrow> sorted (map (\<lambda>i. - ri_Volume i) out) \<and>
     mset out = mset acc + mset (concat (map chain_entries rs)) \<and> err = None \<and>
     (\<forall>r \<in> set rs. \<exists>infos. r = Inr (Inr infos))"
  by (induction rs acc err rule: collect_chains.induct) (auto split: option.splits)

text \<open>An answered ranking is sorted by volume, the greatest first, and consists of the entries of all chains; no
  chain failed.\<close>

theorem ranking_is_sorted:
  assumes "TopRankingHandler (Some limit) period results = Ranking out"
  shows "sorted_wrt (\<lambda>i j. ri_Volume i \<ge> ri_Volume j) out \<and>
    (\<exists>rs. (rs = results period limit \<or> rs = results ''1d'' limit) \<and> mset out = mset (concat (map chain_entries rs)) \<and>
      list_all (\<lambda>r. \<exists>infos. r = Inr (Inr infos)) rs)"
proof -
  obtain rs where rs: "rs = results period limit \<or> rs = results ''1d'' limit" "collect_chains rs [] None = Ranking out"
    using assms by (auto simp: TopRankingHandler_def split: if_splits)
  then show ?thesis using collect_ranking [OF rs(2)] by (auto simp: sorted_wrt_map list_all_iff)
qed


section \<open>Sample runs\<close>

definition sample_rank :: ranking_env where
  "sample_rank = \<lparr>rk_env = plain_env, rk_decode = (\<lambda>_. Some []), rk_rank = (\<lambda>_. 0),
     rk_change = (\<lambda>_. ''0.0000''), rk_project = ''OrderBookDex''\<rparr>"

definition rank_world :: world where
  "rank_world = start_world\<lparr>tbl := empty_tables\<lparr>t_collections := [sample_collection, sample_collection\<lparr>col_id := 2\<rparr>]\<rparr>\<rparr>"

lemma rank_world_ids: "distinct (map col_id (t_collections (tbl rank_world)))"
    "\<forall>c \<in> set (t_collections (tbl rank_world)). 0 < col_id c"
  by (simp_all add: rank_world_def start_world_def empty_tables_def sample_collection_def)

theorem ranking_lists_first_by_id_witness:
  "\<exists>infos w'. GetTopRanking sample_rank ''eth'' ''1d'' 1 rank_world = Some (Inr (Inr infos), w') \<and>
     map ri_Address infos = map col_address (take 1 (by_id (t_collections (tbl rank_world))))"
proof -
  have works: "db_works (rk_env sample_rank)" by (simp add: sample_rank_def)
  obtain r w' where r: "GetTopRanking sample_rank ''eth'' ''1d'' 1 rank_world = Some (r, w')" "\<And>err. r \<noteq> Inr (Inl err)"
    "case r of Inl p \<Rightarrow> (1::int) < 0 | Inr (Inl err) \<Rightarrow> True | Inr (Inr infos) \<Rightarrow> 0 \<le> (1::int) \<and>
       map ri_Address infos = map col_address (take (nat 1) (by_id (t_collections (tbl rank_world))))"
    using ranking_lists_first_by_id [OF rank_world_ids, of sample_rank "''eth''" "''1d''" 1] works by blast
  show ?thesis
  proof (cases r)
    case (Inr b)
    then show ?thesis using r by (cases b) auto
  qed (use r(3) in simp)
qed

definition sample_info :: "price \<Rightarrow> CollectionRankingInfo" where
  "sample_info v = (ranking_info sample_rank Map.empty [] Map.empty 0 sample_collection)\<lparr>ri_Volume := v\<rparr>"

theorem negative_limit_crashes_witness:
  "\<exists>p. TopRankingHandler (Some (- 1)) ''1d''
    (\<lambda>period limit. map (\<lambda>(chain, w). fst (the (GetTopRanking sample_rank chain period limit w)))
      [(''eth'', rank_world)]) = ProcessCrash p"
  by (rule negative_limit_crashes [OF _ _ _ _ rank_world_ids])
    (simp_all add: valid_period_def sample_rank_def)

theorem ranking_is_sorted_witness:
  "sorted_wrt (\<lambda>i j. ri_Volume i \<ge> ri_Volume j) (sort_key (\<lambda>i. - ri_Volume i) [sample_info 1, sample_info 2])"
  by (rule ranking_is_sorted [of 5 "''1d''" "\<lambda>_ _. [Inr (Inr [sample_info 1]), Inr (Inr [sample_info 2])]", THEN conjunct1])
    (simp add: TopRankingHandler_def valid_period_def)

end
