(* ===== verification/Login.thy ===== *)
theory Login
  imports ChainCalls
begin

text \<open>
  Sessions of the backend: the login message, the login and the tokens
  (\<open>NFTMarket-backend/src/service/v1/user.go\<close>, \<open>common/utils/crypto.go\<close>), and their check in front of the
  protected routes (\<open>api/middleware/auth.go\<close>). The block cipher, the random source, the generator of the
  nonces, the clock of the cache and the faults of the cache and the database are the fields of
  \<open>session_env\<close>.
\<close>

section \<open>Environment and state\<close>

type_synonym block_cipher = "bytes \<Rightarrow> bytes"

record session_env =
  ses_db :: "nat \<Rightarrow> outcome"
  ses_kv :: "nat \<Rightarrow> outcome"
  ses_time :: "nat \<Rightarrow> int"
  ses_milli :: "nat \<Rightarrow> int"
  ses_uuid :: "nat \<Rightarrow> string"
  ses_rand :: "nat \<Rightarrow> nat \<Rightarrow> bytes option"
  ses_cipher :: "bytes \<Rightarrow> block_cipher option"
  ses_same :: "string \<Rightarrow> string \<Rightarrow> bool"
  ses_auto_id :: "int list \<Rightarrow> int"

text \<open>\<open>base.User\<close>, table \<open>ob_user\<close>. A cached value has a time of expiry; every call is counted.\<close>

record UserRow =
  usr_id :: int
  usr_address :: string
  usr_is_allowed :: bool
  usr_is_signed :: bool
  usr_create_time :: int
  usr_update_time :: int

record session =
  users :: "UserRow list"
  cached :: "string \<rightharpoonup> string \<times> int"
  calls :: nat

type_synonym 'a S = "(session, 'a) state"

datatype login_error = TokenExpire | TokenVerify | UserQueryFailed | UserInsertFailed | CacheFailed | RandomFailed
  | NotBlockMultiple | NoSession | CookieEncoding | UserInfoFormat | NoUserAddress

definition call :: "(nat \<Rightarrow> session \<Rightarrow> 'a \<times> session) \<Rightarrow> 'a S" where
  "call f = State (\<lambda>s. f (calls s) (s\<lparr>calls := Suc (calls s)\<rparr>))"

text \<open>\<open>Get\<close> (the empty string for an absent key) and \<open>Setex\<close> of the key-value store.\<close>

definition CacheGet :: "session_env \<Rightarrow> string \<Rightarrow> (login_error + string) S" where
  "CacheGet e key = call (\<lambda>n s.
     (case ses_kv e n of
        Done \<Rightarrow> Inr (case cached s key of
            None \<Rightarrow> ''''
          | Some (v, expiry) \<Rightarrow> if ses_time e n < expiry then v else '''')
      | _ \<Rightarrow> Inl CacheFailed, s))"

definition CacheSetex :: "session_env \<Rightarrow> string \<Rightarrow> string \<Rightarrow> int \<Rightarrow> (login_error + unit) S" where
  "CacheSetex e key v secs = call (\<lambda>n s.
     let s1 = s\<lparr>cached := (cached s)(key \<mapsto> (v, ses_time e n + secs))\<rparr>
     in case ses_kv e n of
          Done \<Rightarrow> (Inr (), s1)
        | Rejected \<Rightarrow> (Inl CacheFailed, s)
        | Lost \<Rightarrow> (Inl CacheFailed, s1))"

section \<open>Strings\<close>

text \<open>\<open>strings.Split\<close> with a separator that is not empty; \<open>strings.Trim(s, "\n")\<close>; the hexadecimal notation
  of \<open>encoding/hex\<close>.\<close>

function split_from :: "string \<Rightarrow> string \<Rightarrow> string \<Rightarrow> string list" where
  "split_from sep acc [] = [acc]"
| "split_from sep acc (c # cs) =
     (if sep \<noteq> [] \<and> is_prefix sep (c # cs) then acc # split_from sep [] (drop (length sep) (c # cs))
      else split_from sep (acc @ [c]) cs)"
  by pat_completeness auto
termination
  by (relation "measure (\<lambda>(sep, acc, s). length s)") (auto simp: Suc_le_eq neq_Nil_conv)

definition Split :: "string \<Rightarrow> string \<Rightarrow> string list" where
  "Split s sep = split_from sep [] s"

definition TrimNewlines :: "string \<Rightarrow> string" where
  "TrimNewlines s = rev (dropWhile (\<lambda>c. c = CHR 0x0A) (rev (dropWhile (\<lambda>c. c = CHR 0x0A) s)))"

definition EncodeToString :: "bytes \<Rightarrow> string" where
  "EncodeToString bs = concat (map (\<lambda>b. [hex_digit (unat b div 16), hex_digit (unat b mod 16)]) bs)"

definition is_hex :: "char \<Rightarrow> bool" where
  "is_hex c \<longleftrightarrow> (let n = of_char c :: nat in 48 \<le> n \<and> n \<le> 57 \<or> 97 \<le> n \<and> n \<le> 102 \<or> 65 \<le> n \<and> n \<le> 70)"

fun DecodeString :: "string \<Rightarrow> bytes option" where
  "DecodeString [] = Some []"
| "DecodeString [c] = None"
| "DecodeString (a # b # s) =
     (if is_hex a \<and> is_hex b then
        map_option (\<lambda>bs. word_of_nat (hex_value a * 16 + hex_value b) # bs) (DecodeString s)
      else None)"

section \<open>Encryption\<close>

definition BlockSize :: nat where "BlockSize = 16"

definition PKCS7Padding :: "bytes \<Rightarrow> nat \<Rightarrow> bytes" where
  "PKCS7Padding ciphertext blocksize =
     (let padding = blocksize - length ciphertext mod blocksize
      in ciphertext @ replicate padding (word_of_nat padding))"

definition PKCS7UnPadding :: "bytes \<Rightarrow> go_panic + bytes" where
  "PKCS7UnPadding origData =
     (if origData = [] then Inl IndexOutOfRange
      else let unpadding = unat (last origData) in
        if length origData < unpadding then Inl SliceOutOfRange
        else Inr (take (length origData - unpadding) origData))"

text \<open>The stream of \<open>cipher.NewOFB(block, iv)\<close>: the iterated encryption of \<open>iv\<close>, here \<open>n\<close> blocks of it.\<close>

fun ofb_stream :: "block_cipher \<Rightarrow> bytes \<Rightarrow> nat \<Rightarrow> bytes" where
  "ofb_stream block iv 0 = []"
| "ofb_stream block iv (Suc n) = block iv @ ofb_stream block (block iv) n"

definition XORKeyStream :: "block_cipher \<Rightarrow> bytes \<Rightarrow> bytes \<Rightarrow> bytes" where
  "XORKeyStream block iv src = map2 (\<lambda>x k. Bit_Operations.xor x k) src (ofb_stream block iv (length src))"

text \<open>The error of \<open>aes.NewCipher\<close> is dropped; without a cipher \<open>NewOFB\<close> dereferences nil.\<close>

definition AesEncryptOFB :: "session_env \<Rightarrow> bytes \<Rightarrow> bytes \<Rightarrow> (go_panic + (login_error + bytes)) S" where
  "AesEncryptOFB e data key = call (\<lambda>n s.
     (case ses_rand e n BlockSize of
        None \<Rightarrow> Inr (Inl RandomFailed)
      | Some iv \<Rightarrow> (case ses_cipher e key of
          None \<Rightarrow> Inl NilDereference
        | Some block \<Rightarrow> Inr (Inr (iv @ XORKeyStream block iv (PKCS7Padding data BlockSize)))), s))"

definition AesDecryptOFB :: "session_env \<Rightarrow> bytes \<Rightarrow> bytes \<Rightarrow> go_panic + (login_error + bytes)" where
  "AesDecryptOFB e data key =
     (if length data < BlockSize then Inl SliceOutOfRange
      else let iv = take BlockSize data; data = drop BlockSize data in
        if length data mod BlockSize \<noteq> 0 then Inr (Inl NotBlockMultiple)
        else case ses_cipher e key of
          None \<Rightarrow> Inl NilDereference
        | Some block \<Rightarrow> (case PKCS7UnPadding (XORKeyStream block iv data) of
            Inl p \<Rightarrow> Inl p
          | Inr out \<Rightarrow> Inr (Inr out)))"

section \<open>Login\<close>

definition CR_LOGIN_MSG_KEY :: string where "CR_LOGIN_MSG_KEY = ''cache:orderbookdex:login:msg''"
definition CR_LOGIN_KEY :: string where "CR_LOGIN_KEY = ''cache:orderbookdex:login:address:data''"
definition CR_LOGIN_SALT :: string where "CR_LOGIN_SALT = ''gf_login_salt&$%''"

definition getUserLoginMsgCacheKey :: "string \<Rightarrow> string" where
  "getUserLoginMsgCacheKey address = CR_LOGIN_MSG_KEY @ '':'' @ ToLower address"

definition getUserLoginTokenCacheKey :: "string \<Rightarrow> string" where
  "getUserLoginTokenCacheKey address = CR_LOGIN_KEY @ '':'' @ ToLower address"

definition genLoginTemplate :: "string \<Rightarrow> string" where
  "genLoginTemplate nonce = ''Welcome to EasySwap!'' @ [CHR 0x0A] @ ''Nonce:'' @ nonce"

definition fresh_uuid :: "session_env \<Rightarrow> string S" where
  "fresh_uuid e = call (\<lambda>n s. (ses_uuid e n, s))"

record UserLoginMsgResp =
  msg_Address :: string
  msg_Message :: string
  msg_Nonce :: string

definition GetUserLoginMsg :: "session_env \<Rightarrow> string \<Rightarrow> (login_error + UserLoginMsgResp) S" where
  "GetUserLoginMsg e address = do {
     uuid \<leftarrow> fresh_uuid e;
     r \<leftarrow> CacheSetex e (getUserLoginMsgCacheKey address) uuid (72*60*60);
     State_Monad.return (case r of
         Inl err \<Rightarrow> Inl err
       | Inr _ \<Rightarrow> Inr \<lparr>msg_Address = address, msg_Message = genLoginTemplate uuid, msg_Nonce = uuid\<rparr>)
   }"

record LoginReq =
  req_ChainID :: int
  req_Message :: string
  req_Signature :: string
  req_Address :: string

record UserLoginInfo =
  info_Token :: string
  info_IsAllowed :: bool

text \<open>A Go pair of a pointer and an error; both may be nil.\<close>

type_synonym login_result = "UserLoginInfo option \<times> login_error option"

definition find_user :: "session_env \<Rightarrow> string \<Rightarrow> (login_error + UserRow option) S" where
  "find_user e address = call (\<lambda>n s.
     (case ses_db e n of
        Done \<Rightarrow> Inr (List.find (\<lambda>u. ses_same e (usr_address u) address) (users s))
      | _ \<Rightarrow> Inl UserQueryFailed, s))"

text \<open>The unique index on \<open>address\<close> rejects a second row.\<close>

definition create_user :: "session_env \<Rightarrow> string \<Rightarrow> (login_error + unit) S" where
  "create_user e address = call (\<lambda>n s.
     let now = ses_milli e n;
         u = \<lparr>usr_id = ses_auto_id e (map usr_id (users s)), usr_address = address, usr_is_allowed = False,
              usr_is_signed = True, usr_create_time = now, usr_update_time = now\<rparr>;
         s1 = s\<lparr>users := users s @ [u]\<rparr>
     in if list_ex (\<lambda>u. ses_same e (usr_address u) address) (users s) then (Inl UserInsertFailed, s)
        else case ses_db e n of
          Done \<Rightarrow> (Inr (), s1)
        | Rejected \<Rightarrow> (Inl UserInsertFailed, s)
        | Lost \<Rightarrow> (Inl UserInsertFailed, s1))"

definition CacheUserToken :: "session_env \<Rightarrow> string \<Rightarrow> string \<Rightarrow> (login_error + unit) S" where
  "CacheUserToken e tokenKey token = CacheSetex e tokenKey token (30*24*60*60)"

text \<open>The rest of \<open>UserLogin\<close> once the user is known: the token, its cache entry, the answer.\<close>

definition issue_token :: "session_env \<Rightarrow> string \<Rightarrow> bool \<Rightarrow> (go_panic + login_result) S" where
  "issue_token e address isAllowed = do {
     enc \<leftarrow> AesEncryptOFB e (string_bytes (getUserLoginTokenCacheKey address)) (string_bytes CR_LOGIN_SALT);
     case enc of
       Inl p \<Rightarrow> State_Monad.return (Inl p)
     | Inr (Inl err) \<Rightarrow> State_Monad.return (Inr (None, Some err))
     | Inr (Inr userToken) \<Rightarrow> do {
         uuid \<leftarrow> fresh_uuid e;
         r \<leftarrow> CacheUserToken e (getUserLoginTokenCacheKey address) uuid;
         State_Monad.return (Inr (case r of
             Inl err \<Rightarrow> (None, Some err)
           | Inr _ \<Rightarrow> (Some \<lparr>info_Token = EncodeToString userToken, info_IsAllowed = isAllowed\<rparr>, None)))
       }
   }"

text \<open>\<open>UserLogin\<close>. The signature of the request is not read. When the new user cannot be stored the
  error wrapped is that of the earlier query, which is nil.\<close>

definition UserLogin :: "session_env \<Rightarrow> LoginReq \<Rightarrow> (go_panic + login_result) S" where
  "UserLogin e req = do {
     r \<leftarrow> CacheGet e (getUserLoginMsgCacheKey (req_Address req));
     case r of
       Inl _ \<Rightarrow> State_Monad.return (Inr (None, Some TokenExpire))
     | Inr cachedUUID \<Rightarrow>
         if cachedUUID = '''' then State_Monad.return (Inr (None, Some TokenExpire))
         else let splits = Split (req_Message req) ''Nonce:'' in
           if length splits \<noteq> 2 \<or> TrimNewlines (splits ! 1) \<noteq> cachedUUID
           then State_Monad.return (Inr (None, Some TokenExpire))
           else do {
             u \<leftarrow> find_user e (req_Address req);
             case u of
               Inl err \<Rightarrow> State_Monad.return (Inr (None, Some err))
             | Inr (Some user) \<Rightarrow>
                 if usr_id user \<noteq> 0 then issue_token e (req_Address req) (usr_is_allowed user)
                 else do {
                   c \<leftarrow> create_user e (req_Address req);
                   case c of
                     Inl _ \<Rightarrow> State_Monad.return (Inr (None, None))
                   | Inr _ \<Rightarrow> issue_token e (req_Address req) (usr_is_allowed user)
                 }
             | Inr None \<Rightarrow> do {
                 c \<leftarrow> create_user e (req_Address req);
                 case c of
                   Inl _ \<Rightarrow> State_Monad.return (Inr (None, None))
                 | Inr _ \<Rightarrow> issue_token e (req_Address req) False
               }
           }
   }"

text \<open>\<open>GetSigStatusMsg\<close>: an unknown address has not signed.\<close>

definition GetSigStatusMsg :: "session_env \<Rightarrow> string \<Rightarrow> (login_error + bool) S" where
  "GetSigStatusMsg e userAddr = do {
     r \<leftarrow> find_user e userAddr;
     State_Monad.return (case r of
         Inl err \<Rightarrow> Inl err
       | Inr None \<Rightarrow> Inr False
       | Inr (Some user) \<Rightarrow> Inr (usr_is_signed user))
   }"

section \<open>Checking a session\<close>

text \<open>\<open>AuthMiddleWare\<close>: the request goes on, or is answered with an error, or panics.\<close>

datatype auth = Next | Abort login_error | Panicked go_panic

fun check_sessions :: "session_env \<Rightarrow> string list \<Rightarrow> auth S" where
  "check_sessions e [] = State_Monad.return Next"
| "check_sessions e (sessionID # rest) =
     (case DecodeString sessionID of
        None \<Rightarrow> State_Monad.return (Abort TokenVerify)
      | Some encryptCode \<Rightarrow>
          (case AesDecryptOFB e encryptCode (string_bytes CR_LOGIN_SALT) of
             Inl p \<Rightarrow> State_Monad.return (Panicked p)
           | Inr (Inl _) \<Rightarrow> State_Monad.return (Abort TokenExpire)
           | Inr (Inr decrptCode) \<Rightarrow> do {
               result \<leftarrow> CacheGet e (bytes_string decrptCode);
               case result of
                 Inl _ \<Rightarrow> State_Monad.return (Abort TokenExpire)
               | Inr v \<Rightarrow> if v = '''' then State_Monad.return (Abort TokenExpire) else check_sessions e rest
             }))"

definition AuthMiddleWare :: "session_env \<Rightarrow> string \<Rightarrow> auth S" where
  "AuthMiddleWare e values =
     (if values = '''' then State_Monad.return Next else check_sessions e (Split values '',''))"

text \<open>\<open>GetAuthUserAddress\<close>: addresses and error; an entry missing from the cache gives neither.\<close>

fun session_addresses :: "session_env \<Rightarrow> string list \<Rightarrow> string list \<Rightarrow> (go_panic + string list \<times> login_error option) S" where
  "session_addresses e [] addrs = State_Monad.return (Inr (addrs, None))"
| "session_addresses e (sessionID # rest) addrs =
     (case DecodeString sessionID of
        None \<Rightarrow> State_Monad.return (Inr ([], Some CookieEncoding))
      | Some encryptCode \<Rightarrow>
          (case AesDecryptOFB e encryptCode (string_bytes CR_LOGIN_SALT) of
             Inl p \<Rightarrow> State_Monad.return (Inl p)
           | Inr (Inl err) \<Rightarrow> State_Monad.return (Inr ([], Some err))
           | Inr (Inr decrptCode) \<Rightarrow> do {
               result \<leftarrow> CacheGet e (bytes_string decrptCode);
               case result of
                 Inl err \<Rightarrow> State_Monad.return (Inr ([], Some err))
               | Inr v \<Rightarrow>
                   if v = '''' then State_Monad.return (Inr ([], None))
                   else let arr = Split (bytes_string decrptCode) (CR_LOGIN_KEY @ '':'') in
                     if length arr \<noteq> 2 then State_Monad.return (Inr ([], Some UserInfoFormat))
                     else if arr ! 1 = '''' then State_Monad.return (Inr ([], Some NoUserAddress))
                     else session_addresses e rest (addrs @ [arr ! 1])
             }))"

definition GetAuthUserAddress :: "session_env \<Rightarrow> string \<Rightarrow> (go_panic + string list \<times> login_error option) S" where
  "GetAuthUserAddress e values =
     (if values = '''' then State_Monad.return (Inr ([], Some NoSession))
      else session_addresses e (Split values '','') [])"


section \<open>Encryption and its inverse\<close>

definition blocks_of_16 :: "block_cipher \<Rightarrow> bool" where
  "blocks_of_16 block \<longleftrightarrow> (\<forall>b. length b = BlockSize \<longrightarrow> length (block b) = BlockSize)"

lemma length_ofb_stream:
  "blocks_of_16 block \<Longrightarrow> length iv = BlockSize \<Longrightarrow> length (ofb_stream block iv n) = n * BlockSize"
  by (induction n arbitrary: iv) (simp_all add: blocks_of_16_def)

lemma length_XORKeyStream:
  assumes "blocks_of_16 block" "length iv = BlockSize"
  shows "length (XORKeyStream block iv src) = length src"
  using length_ofb_stream [OF assms, of "length src"] by (simp add: XORKeyStream_def BlockSize_def)

lemma xor_twice:
  "length src \<le> length k \<Longrightarrow>
     map2 (\<lambda>x k. Bit_Operations.xor x k) (map2 (\<lambda>x k. Bit_Operations.xor x k) src k) k = (src :: bytes)"
proof (induction src arbitrary: k)
  case (Cons x src)
  then show ?case by (cases k) (simp_all add: xor.assoc)
qed simp

lemma XORKeyStream_inverse:
  assumes "blocks_of_16 block" "length iv = BlockSize"
  shows "XORKeyStream block iv (XORKeyStream block iv src) = src"
proof -
  have "length src \<le> length (ofb_stream block iv (length src))"
    using length_ofb_stream [OF assms, of "length src"] by (simp add: BlockSize_def)
  then show ?thesis
    using length_XORKeyStream [OF assms, of src] by (simp add: XORKeyStream_def xor_twice)
qed

lemma padding_facts:
  "length (PKCS7Padding data BlockSize) mod BlockSize = 0" "PKCS7UnPadding (PKCS7Padding data BlockSize) = Inr data"
proof -
  let ?p = "BlockSize - length data mod BlockSize"
  have p: "0 < ?p" "?p \<le> 16" by (simp_all add: BlockSize_def)
  have "length data + ?p = BlockSize * Suc (length data div BlockSize)"
    unfolding BlockSize_def by presburger
  then show "length (PKCS7Padding data BlockSize) mod BlockSize = 0"
    by (simp add: PKCS7Padding_def Let_def)
  have "unat (word_of_nat m :: 8 word) = m" if "m \<le> 16" for m
    using that by (simp add: unsigned_of_nat take_bit_nat_eq_self)
  note this [OF p(2)]
  then show "PKCS7UnPadding (PKCS7Padding data BlockSize) = Inr data"
    using p by (simp add: PKCS7Padding_def PKCS7UnPadding_def Let_def last_append)
qed

lemma decrypt_encrypted:
  assumes "ses_cipher e key = Some block" "blocks_of_16 block" "length iv = BlockSize"
  shows "AesDecryptOFB e (iv @ XORKeyStream block iv (PKCS7Padding data BlockSize)) key = Inr (Inr data)"
  using assms padding_facts [of data]
  by (simp add: AesDecryptOFB_def XORKeyStream_inverse length_XORKeyStream)

lemma hex_digit_value: "n < 16 \<Longrightarrow> is_hex (hex_digit n) \<and> hex_value (hex_digit n) = n"
proof -
  have "\<forall>n \<in> set [0..<16]. is_hex (hex_digit n) \<and> hex_value (hex_digit n) = n"
    by (simp add: upt_rec is_hex_def hex_digit_def hex_value_def)
  then show "n < 16 \<Longrightarrow> is_hex (hex_digit n) \<and> hex_value (hex_digit n) = n" by simp
qed

lemma DecodeString_EncodeToString: "DecodeString (EncodeToString bs) = Some bs"
proof (induction bs)
  case (Cons b bs)
  have lt: "unat b div 16 < 16" using unsigned_less [of b, where ?'a = nat] by (simp add: less_mult_imp_div_less)
  have "word_of_nat (unat b div 16 * 16 + unat b mod 16) = b" by simp
  then show ?case
    using Cons hex_digit_value [OF lt] hex_digit_value [of "unat b mod 16"]
    by (simp add: EncodeToString_def)
qed (simp add: EncodeToString_def)

section \<open>Splitting\<close>

lemma split_from_absent:
  "(\<And>u v. s \<noteq> u @ sep @ v) \<Longrightarrow> split_from sep acc s = [acc @ s]"
proof (induction sep acc s rule: split_from.induct)
  case (2 sep acc c cs)
  have "\<not> is_prefix sep (c # cs)"
    using 2(3) [of "[]"] by (auto simp: is_prefix_def) (metis append_take_drop_id)
  moreover have "cs \<noteq> u @ sep @ v" for u v using 2(3) [of "c # u" v] by auto
  ultimately show ?case using 2 by simp
qed simp

lemma Split_without: "c \<in> set sep \<Longrightarrow> c \<notin> set s \<Longrightarrow> split_from sep acc s = [acc @ s]"
  by (rule split_from_absent) auto


lemma Split_message: "CHR ''N'' \<notin> set nonce \<Longrightarrow> Split (genLoginTemplate nonce) ''Nonce:'' = [''Welcome to EasySwap!'' @ [CHR 0x0A], nonce]"
  using Split_without [of "CHR ''N''" "''Nonce:''" nonce "[]"]
  by (simp add: Split_def genLoginTemplate_def is_prefix_def)

lemma Split_token_key:
  "CHR '':'' \<notin> set a \<Longrightarrow> Split (CR_LOGIN_KEY @ '':'' @ a) (CR_LOGIN_KEY @ '':'') = ['''', a]"
  using Split_without [of "CHR '':''" "CR_LOGIN_KEY @ '':''" a "[]"]
  by (simp add: Split_def CR_LOGIN_KEY_def is_prefix_def)

lemma lower_char_colon: "lower_char c = CHR '':'' \<longleftrightarrow> c = CHR '':''"
proof
  assume l: "lower_char c = CHR '':''"
  show "c = CHR '':''"
  proof (cases "65 \<le> (of_char c :: nat) \<and> (of_char c :: nat) \<le> 90")
    case True
    then have "of_char (lower_char c) = (of_char c + 32 :: nat)"
      by (simp add: lower_char_def Let_def)
    then show ?thesis using l True by simp
  next
    case False
    then show ?thesis using l by (simp add: lower_char_def Let_def split: if_splits)
  qed
qed (simp add: lower_char_def)

lemma no_comma: "CHR '','' \<notin> set (EncodeToString bs)"
proof -
  have "\<not> is_hex CHR '',''" by (simp add: is_hex_def)
  then have "hex_digit n \<noteq> CHR '',''" if "n < 16" for n using hex_digit_value [OF that] by metis
  moreover have "unat (b :: 8 word) div 16 < 16" for b
    using unsigned_less [of b, where ?'a = nat] by (simp add: less_mult_imp_div_less)
  ultimately have "CHR '','' \<notin> set [hex_digit (unat b div 16), hex_digit (unat b mod 16)]" for b :: "8 word"
    by (metis empty_iff empty_set mod_less_divisor set_ConsD zero_less_numeral)
  then show ?thesis unfolding EncodeToString_def by simp
qed

lemma TrimNewlines_none: "CHR 0x0A \<notin> set s \<Longrightarrow> TrimNewlines s = s"
proof -
  have "CHR 0x0A \<notin> set s \<Longrightarrow> dropWhile (\<lambda>c. c = CHR 0x0A) s = s" for s by (cases s) auto
  from this [of s] this [of "rev s"] show "CHR 0x0A \<notin> set s \<Longrightarrow> TrimNewlines s = s" by (simp add: TrimNewlines_def)
qed

section \<open>Tokens\<close>

text \<open>The token of a cache key under any initialisation vector.\<close>

definition token_for :: "block_cipher \<Rightarrow> bytes \<Rightarrow> string \<Rightarrow> string" where
  "token_for block iv key = EncodeToString (iv @ XORKeyStream block iv (PKCS7Padding (string_bytes key) BlockSize))"

lemma Split_token: "Split (token_for block iv key) '','' = [token_for block iv key]"
  using Split_without [of "CHR '',''" "'',''" "token_for block iv key" "[]"] no_comma by (simp add: Split_def token_for_def)

lemma token_not_empty: "length iv = BlockSize \<Longrightarrow> token_for block iv key \<noteq> ''''"
  by (cases iv) (simp_all add: token_for_def EncodeToString_def BlockSize_def)

lemma decode_token:
  assumes "ses_cipher e (string_bytes CR_LOGIN_SALT) = Some block" "blocks_of_16 block" "length iv = BlockSize"
  shows "\<exists>bs. DecodeString (token_for block iv key) = Some bs \<and>
    AesDecryptOFB e bs (string_bytes CR_LOGIN_SALT) = Inr (Inr (string_bytes key))"
  using decrypt_encrypted [OF assms] by (simp add: token_for_def DecodeString_EncodeToString)

definition live_entry :: "session_env \<Rightarrow> string \<Rightarrow> session \<Rightarrow> bool" where
  "live_entry e key s \<longleftrightarrow> ses_kv e (calls s) = Done \<and>
     (\<exists>v expiry. cached s key = Some (v, expiry) \<and> v \<noteq> '''' \<and> ses_time e (calls s) < expiry)"

lemma wp_CacheGet_live:
  "live_entry e key s \<Longrightarrow> wp (CacheGet e key) (\<lambda>r t. r = Inr (fst (the (cached s key))) \<and> fst (the (cached s key)) \<noteq> '''') s"
  by (auto simp: live_entry_def CacheGet_def call_def wp_def)

lemma token_accepted:
  assumes c: "ses_cipher e (string_bytes CR_LOGIN_SALT) = Some block" "blocks_of_16 block" "length iv = BlockSize"
    and live: "live_entry e key s"
  shows "fst (run_state (AuthMiddleWare e (token_for block iv key)) s) = Next"
    and "key = CR_LOGIN_KEY @ '':'' @ a \<Longrightarrow> CHR '':'' \<notin> set a \<Longrightarrow> a \<noteq> '''' \<Longrightarrow>
      fst (run_state (GetAuthUserAddress e (token_for block iv key)) s) = Inr ([a], None)"
proof -
  obtain bs where bs: "DecodeString (token_for block iv key) = Some bs"
      "AesDecryptOFB e bs (string_bytes CR_LOGIN_SALT) = Inr (Inr (string_bytes key))"
    using decode_token [OF c] by blast
  obtain v t where v: "run_state (CacheGet e key) s = (Inr v, t)" "v \<noteq> ''''"
    using wp_CacheGet_live [OF live] by (auto simp: wp_def split: prod.splits)
  show "fst (run_state (AuthMiddleWare e (token_for block iv key)) s) = Next"
    using v token_not_empty [OF c(3)]
    by (simp add: AuthMiddleWare_def Split_token bs bytes_string_bytes)
  show "fst (run_state (GetAuthUserAddress e (token_for block iv key)) s) = Inr ([a], None)"
    if a: "key = CR_LOGIN_KEY @ '':'' @ a" "CHR '':'' \<notin> set a" "a \<noteq> ''''"
  proof -
    have "Split key (CR_LOGIN_KEY @ '':'') = ['''', a]" using Split_token_key [OF a(2)] a(1) by simp
    then show ?thesis
      using v token_not_empty [OF c(3)] a(3)
      by (simp add: GetAuthUserAddress_def Split_token bs bytes_string_bytes Let_def)
  qed
qed

text \<open>A session token proves nothing but knowledge of the key in the source code: for whatever initialisation
  vector, the encryption of any live key of the cache passes the check, and if the key is that of a
  logged-in address the request acts for this address.\<close>

theorem any_live_key_is_a_session:
  assumes "ses_cipher e (string_bytes CR_LOGIN_SALT) = Some block" "blocks_of_16 block" "length iv = BlockSize"
    and "live_entry e (getUserLoginTokenCacheKey a) s" "CHR '':'' \<notin> set a" "a \<noteq> ''''"
  shows "fst (run_state (AuthMiddleWare e (token_for block iv (getUserLoginTokenCacheKey a))) s) = Next \<and>
    fst (run_state (GetAuthUserAddress e (token_for block iv (getUserLoginTokenCacheKey a))) s) = Inr ([ToLower a], None)"
proof -
  have "CHR '':'' \<notin> set (ToLower a)"
    using assms(5) lower_char_colon unfolding ToLower_def set_map by (metis imageE)
  then show ?thesis
    using token_accepted [OF assms(1-4)] assms(6) by (simp add: getUserLoginTokenCacheKey_def)
qed


section \<open>Logging in\<close>

text \<open>The environment of a run without faults: a cipher with blocks of 16 bytes, nonces as uuids are
  written, less than the lifetime of a login message between any two of its moments.\<close>

definition healthy :: "session_env \<Rightarrow> bool" where
  "healthy e \<longleftrightarrow> (\<forall>n. ses_kv e n = Done \<and> ses_db e n = Done) \<and>
     (\<forall>n. \<exists>iv. ses_rand e n BlockSize = Some iv \<and> length iv = BlockSize) \<and>
     (\<exists>block. ses_cipher e (string_bytes CR_LOGIN_SALT) = Some block \<and> blocks_of_16 block) \<and>
     (\<forall>n. ses_uuid e n \<noteq> '''' \<and> CHR ''N'' \<notin> set (ses_uuid e n) \<and> CHR 0x0A \<notin> set (ses_uuid e n)) \<and>
     (\<forall>m n. ses_time e n < ses_time e m + 72*60*60)"

text \<open>A client that fetches the login message of an address and sends it back with some signature.\<close>

definition log_in_with :: "session_env \<Rightarrow> string \<Rightarrow> string \<Rightarrow> (go_panic + login_result) S" where
  "log_in_with e a signature = do {
     m \<leftarrow> GetUserLoginMsg e a;
     case m of
       Inl err \<Rightarrow> State_Monad.return (Inr (None, Some err))
     | Inr msg \<Rightarrow> UserLogin e \<lparr>req_ChainID = 1, req_Message = msg_Message msg, req_Signature = signature, req_Address = a\<rparr>
   }"

definition logged_in :: "session_env \<Rightarrow> string \<Rightarrow> go_panic + login_result \<Rightarrow> session \<Rightarrow> bool" where
  "logged_in e a r t \<longleftrightarrow> (\<exists>block iv allowed.
     ses_cipher e (string_bytes CR_LOGIN_SALT) = Some block \<and> blocks_of_16 block \<and> length iv = BlockSize \<and>
     live_entry e (getUserLoginTokenCacheKey a) t \<and>
     r = Inr (Some \<lparr>info_Token = token_for block iv (getUserLoginTokenCacheKey a), info_IsAllowed = allowed\<rparr>, None))"

lemma wp_issue_token:
  assumes h: "healthy e"
  shows "wp (issue_token e a allowed) (logged_in e a) s"
proof -
  obtain block where block: "ses_cipher e (string_bytes CR_LOGIN_SALT) = Some block" "blocks_of_16 block"
    using h by (auto simp: healthy_def)
  obtain iv where iv: "ses_rand e (calls s) BlockSize = Some iv" "length iv = BlockSize"
    using h unfolding healthy_def by blast
  have u: "ses_kv e n = Done" "ses_uuid e n \<noteq> ''''" "ses_time e m < ses_time e n + 2592000" for m n
  proof -
    have "ses_time e m < ses_time e n + 72*60*60" using h by (simp add: healthy_def)
    then show "ses_time e m < ses_time e n + 2592000" by simp
  qed (use h in \<open>simp_all add: healthy_def\<close>)
  have "wp (issue_token e a allowed) (\<lambda>r t. live_entry e (getUserLoginTokenCacheKey a) t \<and>
      r = Inr (Some \<lparr>info_Token = token_for block iv (getUserLoginTokenCacheKey a), info_IsAllowed = allowed\<rparr>, None)) s"
    by (simp add: issue_token_def AesEncryptOFB_def CacheUserToken_def CacheSetex_def fresh_uuid_def call_def wp_simps
        block iv u token_for_def live_entry_def Let_def)
  then show ?thesis
    by (rule wp_mono) (use block iv in \<open>auto simp: logged_in_def\<close>)
qed

lemma wp_log_in_with:
  assumes h: "healthy e" and users: "\<forall>u \<in> set (users s). usr_id u \<noteq> 0"
  shows "wp (log_in_with e a signature) (logged_in e a) s"
proof -
  have ok: "ses_kv e n = Done" "ses_db e n = Done" "ses_uuid e n \<noteq> ''''" "CHR ''N'' \<notin> set (ses_uuid e n)"
    "TrimNewlines (ses_uuid e n) = ses_uuid e n" "ses_time e m < ses_time e n + 259200" for m n
  proof -
    have "ses_time e m < ses_time e n + 72*60*60" using h by (simp add: healthy_def)
    then show "ses_time e m < ses_time e n + 259200" by simp
  qed (use h in \<open>simp_all add: healthy_def TrimNewlines_none\<close>)
  note run = log_in_with_def GetUserLoginMsg_def UserLogin_def CacheSetex_def CacheGet_def fresh_uuid_def call_def
    wp_simps ok Let_def Split_message find_user_def
  show ?thesis
  proof (cases "List.find (\<lambda>u. ses_same e (usr_address u) a) (users s)")
    case None
    then have "\<not> list_ex (\<lambda>u. ses_same e (usr_address u) a) (users s)" by (auto simp: find_None_iff list_ex_iff)
    then show ?thesis using wp_issue_token [OF h] by (simp add: run None create_user_def)
  next
    case (Some u)
    then have "usr_id u \<noteq> 0" using users by (auto simp: find_Some_iff)
    then show ?thesis using wp_issue_token [OF h] by (simp add: run Some)
  qed
qed

text \<open>C10: Anyone can log in as any address: whoever fetches the login message of an address and sends it back gets
  a session for the address, whatever the signature says.\<close>

theorem login_needs_no_signature:
  assumes "healthy e" "\<forall>u \<in> set (users s). usr_id u \<noteq> 0" "CHR '':'' \<notin> set a" "a \<noteq> ''''"
  shows "\<exists>info t. run_state (log_in_with e a signature) s = (Inr (Some info, None), t) \<and>
    fst (run_state (GetAuthUserAddress e (info_Token info)) t) = Inr ([ToLower a], None)"
proof -
  have "CHR '':'' \<notin> set (ToLower a)"
    using assms(3) lower_char_colon unfolding ToLower_def set_map by (metis imageE)
  then have "\<exists>info. r = Inr (Some info, None) \<and>
      fst (run_state (GetAuthUserAddress e (info_Token info)) t) = Inr ([ToLower a], None)" if "logged_in e a r t" for r t
    using that token_accepted(2) assms(4) by (fastforce simp: logged_in_def getUserLoginTokenCacheKey_def)
  then show ?thesis
    using wp_log_in_with [OF assms(1,2), of a signature] by (auto simp: wp_def split: prod.splits)
qed

section \<open>Malformed sessions\<close>

text \<open>Decryption panics exactly on less than one block, on one block alone, and when the last byte of the
  decrypted text claims more padding than there is text.\<close>

theorem decryption_panics_exactly:
  assumes "ses_cipher e key = Some block" "blocks_of_16 block"
  shows "(\<exists>p. AesDecryptOFB e data key = Inl p) \<longleftrightarrow>
    length data < BlockSize \<or> length data = BlockSize \<or>
    (length data mod BlockSize = 0 \<and>
     length data - BlockSize < unat (last (XORKeyStream block (take BlockSize data) (drop BlockSize data))))"
proof -
  have len: "length (XORKeyStream block (take BlockSize data) (drop BlockSize data)) = length data - BlockSize"
    if "BlockSize \<le> length data"
    using length_XORKeyStream [OF assms(2), of "take BlockSize data"] that by simp
  have mod: "(length data - BlockSize) mod BlockSize = length data mod BlockSize" if "BlockSize \<le> length data"
    using that by (metis le_mod_geq)
  have empty: "XORKeyStream block (take BlockSize data) (drop BlockSize data) = [] \<longleftrightarrow> length data = BlockSize"
    if "BlockSize \<le> length data"
  proof -
    have "XORKeyStream block (take BlockSize data) (drop BlockSize data) = [] \<longleftrightarrow>
        length (XORKeyStream block (take BlockSize data) (drop BlockSize data)) = 0" by simp
    then show ?thesis unfolding len [OF that] using that by arith
  qed
  show ?thesis
    using len mod empty assms(1)
    by (auto simp: AesDecryptOFB_def PKCS7UnPadding_def Let_def not_less split: if_splits)
qed

section \<open>Sample runs\<close>

definition sample_session_env :: session_env where
  "sample_session_env = \<lparr>ses_db = (\<lambda>_. Done), ses_kv = (\<lambda>_. Done), ses_time = (\<lambda>_. 0), ses_milli = (\<lambda>_. 0),
     ses_uuid = (\<lambda>_. ''0-1''), ses_rand = (\<lambda>_ n. Some (replicate n 0)), ses_cipher = (\<lambda>_. Some (map (\<lambda>b. b + 1))),
     ses_same = (=), ses_auto_id = (\<lambda>_. 1)\<rparr>"

definition empty_session :: session where
  "empty_session = \<lparr>users = [], cached = Map.empty, calls = 0\<rparr>"

lemma sample_healthy: "healthy sample_session_env" and sample_blocks: "blocks_of_16 (map (\<lambda>b. b + 1))"
  by (simp_all add: healthy_def sample_session_env_def blocks_of_16_def)

theorem any_live_key_is_a_session_witness:
  "fst (run_state (AuthMiddleWare sample_session_env
       (token_for (map (\<lambda>b. b + 1)) (replicate 16 7) (getUserLoginTokenCacheKey ''0xA'')))
     (empty_session\<lparr>cached := [getUserLoginTokenCacheKey ''0xA'' \<mapsto> (''0-1'', 5)]\<rparr>)) = Next"
  by (rule any_live_key_is_a_session [THEN conjunct1])
    (simp_all add: sample_blocks sample_session_env_def empty_session_def live_entry_def BlockSize_def)

theorem login_needs_no_signature_witness:
  "\<exists>info t. run_state (log_in_with sample_session_env ''0xA'' ''forged'') empty_session = (Inr (Some info, None), t) \<and>
    fst (run_state (GetAuthUserAddress sample_session_env (info_Token info)) t) = Inr ([ToLower ''0xA''], None)"
  by (rule login_needs_no_signature [OF sample_healthy]) (simp_all add: empty_session_def)

theorem decryption_panics_exactly_witness:
  "\<exists>p. AesDecryptOFB sample_session_env (replicate 16 0) [] = Inl p"
  by (rule decryption_panics_exactly [of sample_session_env "[]" "map (\<lambda>b. b + 1)" "replicate 16 0", THEN iffD2])
    (simp_all add: sample_blocks sample_session_env_def BlockSize_def)

end
