(* ===== verification/Support.thy ===== *)
theory Support
  imports Maintenance
begin

text \<open>
  Supporting packages: the collection filter of the sync service
  (\<open>NFTMarket-sync/service/collectionfilter/filter.go\<close>), the circular sleep time
  (\<open>NFTMarket-sync/service/comm/util/circularsleep.go\<close>) and the two retry loops
  (\<open>EasySwapBase/retry\<close>, \<open>NFTMarket-backend/src/common/utils/retry.go\<close>). A retry loop may run for ever
  and is a partial function; the state that actions, strategies and sleeping act on is arbitrary.
\<close>

section \<open>The collection filter\<close>

text \<open>The map from strings to \<open>true\<close> is the list of its keys. Every operation holds the lock throughout.\<close>

record Filter =
  flt_chain :: string
  flt_project :: string
  flt_set :: "string list"

definition NewFilter :: "string \<Rightarrow> string \<Rightarrow> Filter" where
  "NewFilter chain project = \<lparr>flt_chain = chain, flt_project = project, flt_set = []\<rparr>"

definition FilterAdd :: "Filter \<Rightarrow> string \<Rightarrow> Filter" where
  "FilterAdd f x = f\<lparr>flt_set := List.insert (ToLower x) (flt_set f)\<rparr>"

definition FilterRemove :: "Filter \<Rightarrow> string \<Rightarrow> Filter" where
  "FilterRemove f x = f\<lparr>flt_set := removeAll (ToLower x) (flt_set f)\<rparr>"

definition FilterContains :: "Filter \<Rightarrow> string \<Rightarrow> bool" where
  "FilterContains f x \<longleftrightarrow> ToLower x \<in> set (flt_set f)"

definition CollectionFloorPriceImported :: int where "CollectionFloorPriceImported = 1"

definition imported_addresses :: "tables \<Rightarrow> string list" where
  "imported_addresses t = map col_address
     (filter (\<lambda>c. col_floor_price_status c = CollectionFloorPriceImported) (t_collections t))"

definition PreloadCollections :: "env \<Rightarrow> Filter \<Rightarrow> (unit result \<times> Filter) M" where
  "PreloadCollections e f = do {
     r \<leftarrow> on_named (GetMultiProjectCollectionTableName (flt_project f) (flt_chain f))
            (db_query e imported_addresses);
     State_Monad.return (case r of
         Inl err \<Rightarrow> (Inl err, f)
       | Inr addresses \<Rightarrow> (Inr (), foldl FilterAdd f addresses))
   }"

section \<open>Circular sleep\<close>

record CircularSleepTime =
  cst_value :: int
  cst_max :: int

definition NewCircularSleepTime :: "int \<Rightarrow> CircularSleepTime" where
  "NewCircularSleepTime m = \<lparr>cst_value = 1, cst_max = m\<rparr>"

definition CircularInc :: "CircularSleepTime \<Rightarrow> go_panic + CircularSleepTime" where
  "CircularInc c = (if cst_max c = 0 then Inl DivideByZero
     else Inr (c\<lparr>cst_value := wrap64 (1 + go_rem (go_rem (cst_value c) (cst_max c)) (cst_max c))\<rparr>))"

definition CircularGet :: "CircularSleepTime \<Rightarrow> int" where
  "CircularGet c = cst_value c"

definition CircularReset :: "CircularSleepTime \<Rightarrow> CircularSleepTime" where
  "CircularReset c = c\<lparr>cst_value := 1\<rparr>"

section \<open>Retry\<close>

type_synonym ('s, 'e) action = "u64 \<Rightarrow> 's \<Rightarrow> 'e option \<times> 's"
type_synonym 's strategy = "u64 \<Rightarrow> 's \<Rightarrow> (go_panic + bool) \<times> 's"

fun shouldAttempt :: "u64 \<Rightarrow> 's strategy list \<Rightarrow> 's \<Rightarrow> (go_panic + bool) \<times> 's" where
  "shouldAttempt attempt [] s = (Inr True, s)"
| "shouldAttempt attempt (strategy # strategies) s =
     (case strategy attempt s of
        (Inl p, s1) \<Rightarrow> (Inl p, s1)
      | (Inr b, s1) \<Rightarrow> if b then shouldAttempt attempt strategies s1 else (Inr False, s1))"

partial_function (option) retry_loop ::
  "('s, 'e) action \<Rightarrow> 's strategy list \<Rightarrow> u64 \<Rightarrow> 'e option \<Rightarrow> 's \<Rightarrow> ((go_panic + 'e option) \<times> 's) option" where
  "retry_loop action strategies attempt err s =
     (if attempt = 0 \<or> err \<noteq> None then
        (case shouldAttempt attempt strategies s of
           (Inl p, s1) \<Rightarrow> Some (Inl p, s1)
         | (Inr b, s1) \<Rightarrow>
             if b then (case action attempt s1 of
               (err1, s2) \<Rightarrow> retry_loop action strategies (attempt + 1) err1 s2)
             else Some (Inr err, s1))
      else Some (Inr err, s))"

definition Retry :: "('s, 'e) action \<Rightarrow> 's strategy list \<Rightarrow> 's \<Rightarrow> ((go_panic + 'e option) \<times> 's) option" where
  "Retry action strategies s = retry_loop action strategies 0 None s"

text \<open>\<open>MustRetry\<close> panics with the error.\<close>

datatype 'e must_result = Returned | PanickedWith 'e | Crashed go_panic

definition MustRetry :: "('s, 'e) action \<Rightarrow> 's strategy list \<Rightarrow> 's \<Rightarrow> ('e must_result \<times> 's) option" where
  "MustRetry action strategies s = (case Retry action strategies s of
     None \<Rightarrow> None
   | Some (Inl p, s1) \<Rightarrow> Some (Crashed p, s1)
   | Some (Inr None, s1) \<Rightarrow> Some (Returned, s1)
   | Some (Inr (Some err), s1) \<Rightarrow> Some (PanickedWith err, s1))"

section \<open>Strategies\<close>

text \<open>\<open>sleep_around\<close> stands for \<open>time.Sleep(unstable.AroundDuration(d))\<close>.\<close>

definition Limit :: "u64 \<Rightarrow> 's strategy" where
  "Limit attemptLimit = (\<lambda>attempt s. (Inr (attempt < attemptLimit), s))"

definition Delay :: "(int \<Rightarrow> 's \<Rightarrow> 's) \<Rightarrow> int \<Rightarrow> 's strategy" where
  "Delay sleep_around duration = (\<lambda>attempt s. (Inr True, if attempt = 0 then sleep_around duration s else s))"

definition Wait :: "(int \<Rightarrow> 's \<Rightarrow> 's) \<Rightarrow> int list \<Rightarrow> 's strategy" where
  "Wait sleep_around durations = (\<lambda>attempt s.
     if attempt > 0 \<and> durations \<noteq> [] then
       (let i = int64_of (attempt - 1);
            durationIndex = (if int (length durations) \<le> i then int (length durations) - 1 else i)
        in if durationIndex < 0 then (Inl IndexOutOfRange, s)
           else (Inr True, sleep_around (durations ! nat durationIndex) s))
     else (Inr True, s))"

definition run_fail_action :: "('s, 'e) action option \<Rightarrow> u64 \<Rightarrow> 's \<Rightarrow> 's" where
  "run_fail_action failAction attempt s = (case failAction of None \<Rightarrow> s | Some act \<Rightarrow> snd (act attempt s))"

definition FailLimit :: "u64 \<Rightarrow> ('s, 'e) action option \<Rightarrow> 's strategy" where
  "FailLimit attemptLimit failAction = (\<lambda>attempt s.
     if attempt < attemptLimit then (Inr True, s)
     else (Inr False, run_fail_action failAction attempt s))"

definition Fail :: "u64 \<Rightarrow> ('s, 'e) action option \<Rightarrow> 's strategy" where
  "Fail attemptLimit failAction = (\<lambda>attempt s.
     if attemptLimit = 0 then (Inl DivideByZero, s)
     else if attempt mod attemptLimit = 0 \<and> failAction \<noteq> None
     then (Inr True, run_fail_action failAction attempt s)
     else (Inr True, s))"

section \<open>The retry loop of the backend\<close>

text \<open>\<open>Retry(name, attempts, sleep, fn)\<close>: True for success, False for \<open>retry time over\<close>.\<close>

fun retry_times :: "nat \<Rightarrow> ('s \<Rightarrow> 's) \<Rightarrow> ('s \<Rightarrow> 'e option \<times> 's) \<Rightarrow> 's \<Rightarrow> bool \<times> 's" where
  "retry_times 0 sleep fn s = (False, s)"
| "retry_times (Suc n) sleep fn s =
     (case fn s of
        (None, s1) \<Rightarrow> (True, s1)
      | (Some _, s1) \<Rightarrow> retry_times n sleep fn (sleep s1))"

definition BackendRetry :: "int \<Rightarrow> ('s \<Rightarrow> 's) \<Rightarrow> ('s \<Rightarrow> 'e option \<times> 's) \<Rightarrow> 's \<Rightarrow> bool \<times> 's" where
  "BackendRetry attempts sleep fn s = retry_times (nat attempts) sleep fn s"


section \<open>The filter as a set of addresses\<close>

text \<open>What users of the filter rely on: addresses are compared by a key, an addition puts one key in and a
  removal takes one out. \<open>add_all\<close> is the loop that fills the filter.\<close>

locale keyed_set =
  fixes key :: "'a \<Rightarrow> 'k"
    and add :: "'f \<Rightarrow> 'a \<Rightarrow> 'f"
    and remove :: "'f \<Rightarrow> 'a \<Rightarrow> 'f"
    and contains :: "'f \<Rightarrow> 'a \<Rightarrow> bool"
  assumes contains_add: "contains (add f x) y \<longleftrightarrow> key y = key x \<or> contains f y"
    and contains_remove: "contains (remove f x) y \<longleftrightarrow> key y \<noteq> key x \<and> contains f y"
begin

definition add_all :: "'f \<Rightarrow> 'a list \<Rightarrow> 'f" where
  "add_all f xs = foldl add f xs"

lemma contains_add_all: "contains (add_all f xs) y \<longleftrightarrow> key y \<in> key ` set xs \<or> contains f y"
  unfolding add_all_def by (induction xs arbitrary: f) (auto simp: contains_add)

lemma remove_add: "contains (remove (add f x) x) y \<longleftrightarrow> contains (remove f x) y"
  by (auto simp: contains_add contains_remove)

lemma contains_key: "key x = key y \<Longrightarrow> contains (add f x) y"
  by (simp add: contains_add)

end

interpretation collection_filter: keyed_set ToLower FilterAdd FilterRemove FilterContains
  by unfold_locales (auto simp: FilterAdd_def FilterRemove_def FilterContains_def)

text \<open>Preloading adds to the filter exactly the imported collections of the chain, whatever the case in which
  their addresses are written; when the query fails the filter is unchanged and the error is returned.\<close>

theorem preloaded_filter_is_exact:
  "case fst (run_state (PreloadCollections e f) w) of
      (Inl err, g) \<Rightarrow> g = f
    | (Inr _, g) \<Rightarrow> FilterContains g x \<longleftrightarrow> FilterContains f x \<or>
         (\<exists>c \<in> set (t_collections (tbl w)). EqualFold (col_address c) x \<and>
            col_floor_price_status c = CollectionFloorPriceImported)"
proof -
  have adds: "FilterContains (foldl FilterAdd f (imported_addresses t)) x \<longleftrightarrow> FilterContains f x \<or>
      (\<exists>c \<in> set (t_collections t). EqualFold (col_address c) x \<and> col_floor_price_status c = CollectionFloorPriceImported)" for t
    using collection_filter.contains_add_all [of f "imported_addresses t" x]
    by (auto simp: collection_filter.add_all_def imported_addresses_def EqualFold_def image_iff)
  show ?thesis
    by (simp add: PreloadCollections_def on_named_def db_query_def db_exec_def adds Let_def split: outcome.split)
qed

section \<open>Circular sleep\<close>

fun inc_times :: "nat \<Rightarrow> CircularSleepTime \<Rightarrow> go_panic + CircularSleepTime" where
  "inc_times 0 c = Inr c"
| "inc_times (Suc n) c = (case inc_times n c of Inl p \<Rightarrow> Inl p | Inr c' \<Rightarrow> CircularInc c')"

text \<open>The sleep time runs through 1, ..., m and starts again at 1: after k increments it is 1 + k mod m.\<close>

theorem circular_sleep_cycles:
  assumes "0 < m" "in_i64 m"
  shows "\<exists>c. inc_times k (NewCircularSleepTime m) = Inr c \<and> CircularGet c = 1 + int k mod m \<and> cst_max c = m"
proof (induction k)
  case 0
  then show ?case by (simp add: NewCircularSleepTime_def CircularGet_def)
next
  case (Suc k)
  then obtain c where c: "inc_times k (NewCircularSleepTime m) = Inr c" "cst_value c = 1 + int k mod m" "cst_max c = m"
    by (auto simp: CircularGet_def)
  have mod: "0 \<le> int k mod m" "int k mod m < m" using assms by simp_all
  then have "go_rem (go_rem (cst_value c) m) m = (1 + int k) mod m"
    using assms by (simp add: c go_rem_nonneg mod_simps)
  moreover have "in_i64 (1 + (1 + int k) mod m)"
  proof -
    have "0 \<le> (1 + int k) mod m" "(1 + int k) mod m < m" using assms by simp_all
    then show ?thesis using assms(2) unfolding in_i64_def by simp
  qed
  ultimately show ?case
    using assms c by (simp add: CircularInc_def CircularGet_def wrap64_id add.commute)
qed

theorem circular_sleep_cycles_witness:
  "\<exists>c. inc_times 7 (NewCircularSleepTime 3) = Inr c \<and> CircularGet c = 2 \<and> cst_max c = 3"
  using circular_sleep_cycles [of 3 7] by (simp add: in_i64_def)

section \<open>Retries\<close>

text \<open>The state after \<open>k\<close> attempts.\<close>

fun after_attempts :: "('s, 'e) action \<Rightarrow> nat \<Rightarrow> 's \<Rightarrow> 's" where
  "after_attempts action 0 s = s"
| "after_attempts action (Suc k) s = snd (action (word_of_nat k) (after_attempts action k s))"

definition attempt_error :: "('s, 'e) action \<Rightarrow> nat \<Rightarrow> 's \<Rightarrow> 'e option" where
  "attempt_error action k s = fst (action (word_of_nat k) (after_attempts action k s))"

lemma retry_loop_run:
  assumes "k \<le> unat n" "k = 0 \<or> err \<noteq> None" "k = 0 \<longrightarrow> err = None"
  shows "\<exists>m err'. retry_loop action [Limit n] (word_of_nat k) err (after_attempts action k s)
      = Some (Inr err', after_attempts action m s) \<and> k \<le> m \<and> m \<le> unat n \<and>
    (\<forall>j. k \<le> j \<longrightarrow> Suc j < m \<longrightarrow> attempt_error action j s \<noteq> None) \<and>
    err' = (if m = k then err else attempt_error action (m - 1) s) \<and> (m < unat n \<longrightarrow> err' = None) \<and>
    (k < unat n \<longrightarrow> k < m)"
  using assms
proof (induction "unat n - k" arbitrary: k err)
  case 0
  then have "k = unat n" by simp
  then have "word_of_nat k = n" by simp
  with 0 have "retry_loop action [Limit n] (word_of_nat k) err (after_attempts action k s)
      = Some (Inr err, after_attempts action k s)"
    by (subst retry_loop.simps) (auto simp: Limit_def)
  with 0 show ?case by (intro exI [of _ k] exI [of _ err]) auto
next
  case (Suc d)
  have un: "unat (word_of_nat j :: u64) = j" if "j \<le> unat n" for j
    using that unsigned_less [of n, where ?'a = nat] by (simp add: unsigned_of_nat take_bit_nat_eq_self)
  have lt: "(word_of_nat k :: u64) < n" using Suc(2) un [of k] by (simp add: word_less_nat_alt)
  have zero: "(word_of_nat j :: u64) = 0 \<longleftrightarrow> j = 0" if "j \<le> unat n" for j
    using un [OF that] by fastforce
  have Sk: "Suc k \<le> unat n" using Suc(2) by simp
  let ?e = "attempt_error action k s"
  have step: "retry_loop action [Limit n] (word_of_nat k) err (after_attempts action k s)
      = retry_loop action [Limit n] (word_of_nat (Suc k)) ?e (after_attempts action (Suc k) s)"
    by (subst retry_loop.simps)
      (use Suc(4) lt zero [of k] Sk in \<open>auto simp: Limit_def attempt_error_def add.commute split: prod.split\<close>)
  show ?case
  proof (cases ?e)
    case None
    have "retry_loop action [Limit n] (word_of_nat (Suc k)) ?e (after_attempts action (Suc k) s)
        = Some (Inr None, after_attempts action (Suc k) s)"
      using None zero [OF Sk] by (subst retry_loop.simps) simp
    then show ?thesis
      unfolding step using Suc(2,3) None by (intro exI [of _ "Suc k"] exI [of _ None]) auto
  next
    case (Some x)
    have d: "d = unat n - Suc k" using Suc(2) by simp
    have e: "Suc k = 0 \<or> ?e \<noteq> None" "Suc k = 0 \<longrightarrow> ?e = None" using Some by simp_all
    obtain m err' where m: "retry_loop action [Limit n] (word_of_nat (Suc k)) ?e (after_attempts action (Suc k) s)
        = Some (Inr err', after_attempts action m s)" "Suc k \<le> m" "m \<le> unat n"
      "\<forall>j. Suc k \<le> j \<longrightarrow> Suc j < m \<longrightarrow> attempt_error action j s \<noteq> None"
      "err' = (if m = Suc k then ?e else attempt_error action (m - 1) s)" "m < unat n \<longrightarrow> err' = None"
      using Suc(1) [OF d Sk e] by blast
    have "attempt_error action j s \<noteq> None" if "k \<le> j" "Suc j < m" for j
      using m(4) Some that by (cases "j = k") auto
    then show ?thesis
      unfolding step using m(1-3,5,6) by (intro exI [of _ m] exI [of _ err']) auto
  qed
qed


text \<open>C32: With a limit of \<open>n\<close> the retry loop ends: it makes \<open>m \<le> n\<close> attempts, all but the last of which
  fail, stops before the limit only after a success, and reports the outcome of the last attempt. With
  the limit 0 it reports success without having tried.\<close>

theorem retry_stops_at_first_success:
  "\<exists>m err. Retry action [Limit n] s = Some (Inr err, after_attempts action m s) \<and> m \<le> unat n \<and>
     (\<forall>j. Suc j < m \<longrightarrow> attempt_error action j s \<noteq> None) \<and>
     err = (if m = 0 then None else attempt_error action (m - 1) s) \<and> (m < unat n \<longrightarrow> err = None) \<and>
     (m = 0 \<longleftrightarrow> n = 0)"
proof -
  obtain m err where m: "retry_loop action [Limit n] 0 None s = Some (Inr err, after_attempts action m s)"
    "m \<le> unat n" "\<forall>j. Suc j < m \<longrightarrow> attempt_error action j s \<noteq> None"
    "err = (if m = 0 then None else attempt_error action (m - 1) s)" "m < unat n \<longrightarrow> err = None"
    "0 < unat n \<longrightarrow> 0 < m"
    using retry_loop_run [of 0 n None action s] by auto
  then have "m = 0 \<longleftrightarrow> n = 0" by (auto simp: unat_gt_0)
  then show ?thesis
    using m unfolding Retry_def by (intro exI [of _ m] exI [of _ err]) auto
qed


text \<open>An action that fails twice, its state counting the attempts.\<close>

definition flaky :: "(nat, unit) action" where
  "flaky attempt s = (if attempt < 2 then Some () else None, Suc s)"

theorem retry_stops_at_first_success_witness:
  "\<exists>m err. Retry flaky [Limit 5] 0 = Some (Inr err, after_attempts flaky m 0) \<and> m \<in> {1..5}"
proof -
  obtain m err where "Retry flaky [Limit 5] 0 = Some (Inr err, after_attempts flaky m 0)" "m \<le> unat (5 :: u64)"
    "m = 0 \<longleftrightarrow> (5 :: u64) = 0"
    using retry_stops_at_first_success [of flaky 5 0] by blast
  moreover have "unat (5 :: u64) = 5" by simp
  ultimately show ?thesis by (intro exI [of _ m] exI [of _ err]) auto
qed

end
