(* ===== verification/Backend.thy ===== *)
theory Backend
  imports UserBids Ranking
begin

text \<open>
  The state the request handlers of the backend share: the tables of every chain, by the name of the chain, and
  the key-value store with values that expire. A statement may span the tables of several chains.
\<close>

section \<open>State\<close>

text \<open>
  \<open>PastedText\<close> stands for a request whose values, pasted into the text of a statement, change that text: what the
  server does then is not modelled; \<open>Panicked\<close> for a panic, which ends the request. Auto-increment ids are assigned by the server.
\<close>

datatype backend_error = DBFailed | KVFailed | PastedText | InvalidRequest | NodeFailed | Panicked go_panic

record backend =
  bk_tables :: "string \<rightharpoonup> tables"
  bk_cache :: "string \<rightharpoonup> (string \<times> int option)"
  bk_sets :: "string \<Rightarrow> string list"
  bk_lists :: "string \<Rightarrow> string list"
  bk_db :: nat
  bk_kv :: nat
  bk_clock :: nat

record backend_env =
  be_env :: env
  be_kv_time :: "nat \<Rightarrow> int"
  be_act_id :: "string \<Rightarrow> ActivityRow \<Rightarrow> int"
  be_item_id :: "string \<Rightarrow> ItemRow \<Rightarrow> int"
  be_act_order :: "(string \<times> ActivityRow) list \<Rightarrow> (string \<times> ActivityRow) list"
  be_item_order :: "(string \<times> ItemRow) list \<Rightarrow> (string \<times> ItemRow) list"

type_synonym 'a B = "(backend, backend_error + 'a) state"

abbreviation collates :: "backend_env \<Rightarrow> string \<Rightarrow> string \<Rightarrow> bool" where
  "collates be \<equiv> coll_eq (be_env be)"

section \<open>Statements and commands\<close>

text \<open>A query the server rejects (an unknown table, a syntax error) is \<open>None\<close>.\<close>

definition bk_query :: "backend_env \<Rightarrow> ((string \<rightharpoonup> tables) \<Rightarrow> 'a option) \<Rightarrow> 'a B" where
  "bk_query be q = State (\<lambda>b.
     (case db_outcome (be_env be) (bk_db b) of
        Done \<Rightarrow> (case q (bk_tables b) of None \<Rightarrow> Inl DBFailed | Some r \<Rightarrow> Inr r)
      | _ \<Rightarrow> Inl DBFailed, b\<lparr>bk_db := Suc (bk_db b)\<rparr>))"

definition bk_raw :: "backend_env \<Rightarrow> string list \<Rightarrow> ((string \<rightharpoonup> tables) \<Rightarrow> 'a option) \<Rightarrow> 'a B" where
  "bk_raw be pasted q =
     (if list_all sql_literal pasted then bk_query be q else State_Monad.return (Inl PastedText))"

definition bk_update :: "backend_env \<Rightarrow> string \<Rightarrow> (tables \<Rightarrow> tables) \<Rightarrow> unit B" where
  "bk_update be chain f = State (\<lambda>b.
     let b1 = b\<lparr>bk_db := Suc (bk_db b)\<rparr> in
     case bk_tables b chain of
       None \<Rightarrow> (Inl DBFailed, b1)
     | Some t \<Rightarrow> (case db_outcome (be_env be) (bk_db b) of
           Done \<Rightarrow> (Inr (), b1\<lparr>bk_tables := (bk_tables b)(chain \<mapsto> f t)\<rparr>)
         | Rejected \<Rightarrow> (Inl DBFailed, b1)
         | Lost \<Rightarrow> (Inl DBFailed, b1\<lparr>bk_tables := (bk_tables b)(chain \<mapsto> f t)\<rparr>)))"

definition bk_kv_exec :: "backend_env \<Rightarrow> (int \<Rightarrow> backend \<Rightarrow> 'a \<times> backend) \<Rightarrow> 'a B" where
  "bk_kv_exec be f = State (\<lambda>b.
     let b1 = b\<lparr>bk_kv := Suc (bk_kv b)\<rparr>; (r, b2) = f (be_kv_time be (bk_kv b)) b1
     in case kv_outcome (be_env be) (bk_kv b) of
          Done \<Rightarrow> (Inr r, b2)
        | Rejected \<Rightarrow> (Inl KVFailed, b1)
        | Lost \<Rightarrow> (Inl KVFailed, b2))"

text \<open>\<open>Get\<close> (the empty string for a key that is absent or expired), \<open>Setex\<close>, \<open>Set\<close>, \<open>Sadd\<close> and \<open>Lpush\<close>.\<close>

definition bk_live :: "int \<Rightarrow> backend \<Rightarrow> string \<Rightarrow> string" where
  "bk_live t b key = (case bk_cache b key of
       None \<Rightarrow> '''' | Some (v, expiry) \<Rightarrow> if (case expiry of None \<Rightarrow> True | Some x \<Rightarrow> t < x) then v else '''')"

lemma bk_live_other [simp]:
  "bk_live t (b\<lparr>bk_db := n\<rparr>) = bk_live t b" "bk_live t (b\<lparr>bk_kv := n\<rparr>) = bk_live t b"
  "bk_live t (b\<lparr>bk_tables := ts\<rparr>) = bk_live t b" "bk_live t (b\<lparr>bk_clock := n\<rparr>) = bk_live t b"
  by (simp_all add: bk_live_def fun_eq_iff)

definition bk_get :: "backend_env \<Rightarrow> string \<Rightarrow> string B" where
  "bk_get be key = bk_kv_exec be (\<lambda>t b. (bk_live t b key, b))"

definition bk_setex :: "backend_env \<Rightarrow> string \<Rightarrow> string \<Rightarrow> int \<Rightarrow> unit B" where
  "bk_setex be key v secs = bk_kv_exec be (\<lambda>t b. ((), b\<lparr>bk_cache := (bk_cache b)(key \<mapsto> (v, Some (t + secs)))\<rparr>))"

definition bk_set :: "backend_env \<Rightarrow> string \<Rightarrow> string \<Rightarrow> unit B" where
  "bk_set be key v = bk_kv_exec be (\<lambda>t b. ((), b\<lparr>bk_cache := (bk_cache b)(key \<mapsto> (v, None))\<rparr>))"

definition bk_sadd :: "backend_env \<Rightarrow> string \<Rightarrow> string \<Rightarrow> unit B" where
  "bk_sadd be key v = bk_kv_exec be (\<lambda>t b.
     ((), b\<lparr>bk_sets := (bk_sets b)(key := if v \<in> set (bk_sets b key) then bk_sets b key else bk_sets b key @ [v])\<rparr>))"

definition bk_rpush :: "backend_env \<Rightarrow> string \<Rightarrow> string \<Rightarrow> unit B" where
  "bk_rpush be key v = bk_kv_exec be (\<lambda>t b. ((), b\<lparr>bk_lists := (bk_lists b)(key := bk_lists b key @ [v])\<rparr>))"

definition bk_now :: "backend_env \<Rightarrow> (backend, int) state" where
  "bk_now be = State (\<lambda>b. (clock (be_env be) (bk_clock b), b\<lparr>bk_clock := Suc (bk_clock b)\<rparr>))"

text \<open>Continue with the value of a call that succeeded.\<close>

definition and_then :: "'a B \<Rightarrow> ('a \<Rightarrow> 'b B) \<Rightarrow> 'b B" where
  "and_then m f = do { r \<leftarrow> m; case r of Inl err \<Rightarrow> State_Monad.return (Inl err) | Inr a \<Rightarrow> f a }"

section \<open>Clauses shared by the statements\<close>

text \<open>\<open>LIMIT n OFFSET m\<close> in the text of a statement: a negative number is a syntax error.\<close>

definition limit_offset :: "int \<Rightarrow> int \<Rightarrow> 'a list \<Rightarrow> 'a list option" where
  "limit_offset n m rows = (if n < 0 \<or> m < 0 then None else Some (take (nat n) (drop (nat m) rows)))"

text \<open>\<open>LIMIT\<close> and \<open>OFFSET\<close> as gorm writes them: neither when it is negative.\<close>

definition gorm_page :: "int \<Rightarrow> int \<Rightarrow> 'a list \<Rightarrow> 'a list" where
  "gorm_page n m rows = (let rest = drop (nat m) rows in if n < 0 then rest else take (nat n) rest)"

text \<open>\<open>column IN (...)\<close> over a nonempty list.\<close>

definition among :: "backend_env \<Rightarrow> string list \<Rightarrow> string \<Rightarrow> bool" where
  "among be xs x \<longleftrightarrow> list_ex (collates be x) xs"

section \<open>Runs\<close>

lemma run_and_then [simp]:
  "run_state (and_then m f) b = (case run_state m b of (Inl err, b1) \<Rightarrow> (Inl err, b1) | (Inr a, b1) \<Rightarrow> run_state (f a) b1)"
  by (auto simp: and_then_def split: prod.split sum.split)

definition only_queries :: "backend \<Rightarrow> backend \<Rightarrow> bool" where
  "only_queries b b' \<longleftrightarrow> bk_tables b' = bk_tables b \<and> bk_cache b' = bk_cache b \<and> bk_sets b' = bk_sets b \<and>
     bk_lists b' = bk_lists b"

lemma run_bk_query:
  "run_state (bk_query be q) b = (r, b1) \<Longrightarrow> b1 = b\<lparr>bk_db := Suc (bk_db b)\<rparr> \<and>
     (case r of Inl err \<Rightarrow> err = DBFailed | Inr a \<Rightarrow> q (bk_tables b) = Some a) \<and>
     (db_works (be_env be) \<longrightarrow> r = (case q (bk_tables b) of None \<Rightarrow> Inl DBFailed | Some a \<Rightarrow> Inr a))"
  by (auto simp: bk_query_def db_works_def split: outcome.splits option.splits)

lemma run_bk_query_works:
  "db_works (be_env be) \<Longrightarrow> run_state (bk_query be q) b =
     (case q (bk_tables b) of None \<Rightarrow> Inl DBFailed | Some a \<Rightarrow> Inr a, b\<lparr>bk_db := Suc (bk_db b)\<rparr>)"
  by (simp add: bk_query_def db_works_def)

lemma run_bk_raw_works:
  "db_works (be_env be) \<Longrightarrow> list_all sql_literal pasted \<Longrightarrow> run_state (bk_raw be pasted q) b =
     (case q (bk_tables b) of None \<Rightarrow> Inl DBFailed | Some a \<Rightarrow> Inr a, b\<lparr>bk_db := Suc (bk_db b)\<rparr>)"
  by (simp add: bk_raw_def run_bk_query_works)

lemma run_bk_raw_Inr:
  "run_state (bk_raw be pasted q) b = (Inr a, b1) \<Longrightarrow> q (bk_tables b) = Some a \<and> b1 = b\<lparr>bk_db := Suc (bk_db b)\<rparr>"
  using run_bk_query [of be q b "Inr a" b1] by (simp add: bk_raw_def split: if_splits)

lemma run_bk_get_works:
  "kv_works (be_env be) \<Longrightarrow> run_state (bk_get be key) b =
     (Inr (bk_live (be_kv_time be (bk_kv b)) b key), b\<lparr>bk_kv := Suc (bk_kv b)\<rparr>)"
  by (simp add: bk_get_def bk_kv_exec_def kv_works_def bk_live_def)

lemma run_bk_setex_works:
  "kv_works (be_env be) \<Longrightarrow> run_state (bk_setex be key v secs) b = (Inr (), b\<lparr>bk_kv := Suc (bk_kv b),
     bk_cache := (bk_cache b)(key \<mapsto> (v, Some (be_kv_time be (bk_kv b) + secs)))\<rparr>)"
  by (simp add: bk_setex_def bk_kv_exec_def kv_works_def)

lemmas backend_runs = run_bk_query_works run_bk_raw_works run_bk_get_works run_bk_setex_works

lemma limit_offset_Some: "limit_offset n m rows = Some out \<Longrightarrow> 0 \<le> n \<and> 0 \<le> m \<and> out = take (nat n) (drop (nat m) rows)"
  by (auto simp: limit_offset_def split: if_splits)

section \<open>Trimmed names\<close>

definition plain_char :: "char \<Rightarrow> bool" where
  "plain_char c \<longleftrightarrow> 32 < (of_char c :: nat) \<and> (of_char c :: nat) < 128"

lemma literal_seqs_ends:
  "q \<in> set space_seqs \<Longrightarrow> q \<noteq> [] \<and> \<not> plain_char (hd q) \<and> \<not> plain_char (last q)"
  by (auto simp: space_seqs_def plain_char_def of_char_of)

lemma trim_seqs_plain:
  assumes "\<forall>q \<in> set qs. q \<noteq> [] \<and> \<not> plain_char (hd q)" "s = [] \<or> plain_char (hd s)"
  shows "trim_seqs qs s = s"
proof -
  have "\<not> (q \<noteq> [] \<and> is_prefix q s)" if "q \<in> set qs" for q
    using assms that by (cases q; cases s) (auto simp: is_prefix_def)
  then have "find (\<lambda>q. q \<noteq> [] \<and> is_prefix q s) qs = None" by (simp add: find_None_iff)
  then show ?thesis by (simp add: trim_seqs.simps)
qed

lemma TrimSpace_plain:
  assumes "s = [] \<or> plain_char (hd s) \<and> plain_char (last s)"
  shows "TrimSpace s = s"
proof -
  have "trim_seqs space_seqs s = s"
    using assms by (intro trim_seqs_plain) (auto dest: literal_seqs_ends)
  moreover have "trim_seqs (map rev space_seqs) (rev s) = rev s"
    using assms by (intro trim_seqs_plain) (auto simp: hd_rev dest!: literal_seqs_ends)
  ultimately show ?thesis by (simp add: TrimSpace_def)
qed

section \<open>A concrete environment\<close>

definition plain_backend :: backend_env where
  "plain_backend = \<lparr>be_env = plain_env, be_kv_time = (\<lambda>_. 1000), be_act_id = (\<lambda>_ _. 1), be_item_id = (\<lambda>_ _. 1),
     be_act_order = (\<lambda>rs. rs), be_item_order = (\<lambda>rs. rs)\<rparr>"

definition empty_backend :: backend where
  "empty_backend = \<lparr>bk_tables = Map.empty, bk_cache = Map.empty, bk_sets = (\<lambda>_. []), bk_lists = (\<lambda>_. []),
     bk_db = 0, bk_kv = 0, bk_clock = 0\<rparr>"

lemma plain_backend_works [simp]: "db_works (be_env plain_backend)" "kv_works (be_env plain_backend)"
  by (simp_all add: plain_backend_def)

end
