(* ===== verification/ApiCache.thy ===== *)
theory ApiCache
  imports Backend Login
begin

text \<open>
  The cache of answers in front of some routes, \<open>api/middleware/cacheapi.go\<close> of \<open>NFTMarket-backend\<close>. Parameters are the
  JSON decoding of an answer (its \<open>code\<close>, and the name and image of token metadata), the serialisation with \<open>gob\<close> and
  the hash SHA-512. A handler is a state transformer with an answer; the headers of answers are left out.
\<close>

section \<open>The middleware\<close>

record responseCache =
  rc_Status :: int
  rc_Data :: string

record api_env =
  api_backend :: backend_env
  api_code :: "int \<Rightarrow> string \<Rightarrow> int option"
  api_token :: "string \<Rightarrow> (string \<times> string) option"
  api_serialize :: "responseCache \<Rightarrow> string"
  api_unserialize :: "string \<Rightarrow> responseCache option"
  api_sha512 :: "string \<Rightarrow> bytes"

definition StatusOK :: int where "StatusOK = 200"

definition CacheApiPrefix :: string where "CacheApiPrefix = ''apicache:''"

definition CreateKey :: "api_env \<Rightarrow> string \<Rightarrow> string \<Rightarrow> string \<Rightarrow> string" where
  "CreateKey a path query body = (let cacheKey = path @ '','' @ query @ body
     in CacheApiPrefix @ (if 128 < length cacheKey then EncodeToString (api_sha512 a cacheKey) else cacheKey))"

text \<open>\<open>SetnxEx\<close> sets a key that is absent or expired.\<close>

definition bk_setnxex :: "backend_env \<Rightarrow> string \<Rightarrow> string \<Rightarrow> int \<Rightarrow> unit B" where
  "bk_setnxex be key v secs = bk_kv_exec be (\<lambda>t b. ((),
     case bk_cache b key of
       Some (_, expiry) \<Rightarrow> if (case expiry of None \<Rightarrow> True | Some x \<Rightarrow> t < x) then b
         else b\<lparr>bk_cache := (bk_cache b)(key \<mapsto> (v, Some (t + secs)))\<rparr>
     | None \<Rightarrow> b\<lparr>bk_cache := (bk_cache b)(key \<mapsto> (v, Some (t + secs)))\<rparr>))"

text \<open>The variable \<open>data\<close> keeps the code of the cached answer when the new answer has none.\<close>

definition CacheApi ::
  "api_env \<Rightarrow> int \<Rightarrow> string \<Rightarrow> string \<Rightarrow> string \<Rightarrow> (backend, responseCache) state \<Rightarrow> (backend, responseCache) state" where
  "CacheApi a expireSeconds path query body handler =
     (let be = api_backend a; cacheKey = CreateKey a path query body
      in do {
        r \<leftarrow> bk_get be cacheKey;
        let cache = (case r of Inl _ \<Rightarrow> None | Inr v \<Rightarrow> if v = '''' then None else api_unserialize a v);
        let code = (case cache of None \<Rightarrow> None | Some c \<Rightarrow> api_code a 0 (rc_Data c));
        if code = Some StatusOK then State_Monad.return (the cache)
        else do {
          resp \<leftarrow> handler;
          let sent = resp\<lparr>rc_Status := (case cache of None \<Rightarrow> rc_Status resp | Some c \<Rightarrow> rc_Status c)\<rparr>;
          _ \<leftarrow> (if api_code a (case code of None \<Rightarrow> 0 | Some n \<Rightarrow> n) (rc_Data sent) = Some StatusOK
                then bk_setnxex be cacheKey (api_serialize a sent) expireSeconds else State_Monad.return (Inr ()));
          _ \<leftarrow> (case api_token a (rc_Data sent) of
                  Some (name, img) \<Rightarrow> if name \<noteq> '''' \<or> img \<noteq> ''''
                    then bk_setnxex be cacheKey (api_serialize a sent) expireSeconds else State_Monad.return (Inr ())
                | None \<Rightarrow> State_Monad.return (Inr ()));
          State_Monad.return sent
        }
      })"

section \<open>Answers from the cache\<close>

lemma run_setnxex:
  assumes "kv_works (be_env be)" "bk_cache b key = None"
  shows "run_state (bk_setnxex be key v secs) b =
    (Inr (), b\<lparr>bk_kv := Suc (bk_kv b), bk_cache := (bk_cache b)(key \<mapsto> (v, Some (be_kv_time be (bk_kv b) + secs)))\<rparr>)"
  using assms by (simp add: bk_setnxex_def bk_kv_exec_def kv_works_def)

text \<open>C23: an answer with code 200 that is not token metadata is stored; until it expires, every request whose path, query
  and body run together to the same text gets that answer and its handler is not called: whether it is the same request
  or one whose body is the end of the other's query.\<close>

theorem cached_answer_is_served:
  assumes "kv_works (be_env (api_backend a))" "api_unserialize a (api_serialize a resp) = Some resp" "api_serialize a resp \<noteq> ''''"
    and "bk_cache b (CreateKey a path query body) = None"
    and "run_state h (b\<lparr>bk_kv := Suc (bk_kv b)\<rparr>) = (resp, b1)" "bk_cache b1 (CreateKey a path query body) = None"
    and "\<And>n. api_code a n (rc_Data resp) = Some StatusOK" "api_token a (rc_Data resp) = None"
    and "path' @ '','' @ query' @ body' = path @ '','' @ query @ body"
    and "run_state (CacheApi a expireSeconds path query body h) b = (first, b2)"
    and "be_kv_time (api_backend a) (bk_kv b2) < be_kv_time (api_backend a) (bk_kv b1) + expireSeconds"
  shows "first = resp \<and> run_state (CacheApi a expireSeconds path' query' body' h') b2 = (resp, b2\<lparr>bk_kv := Suc (bk_kv b2)\<rparr>)"
proof -
  let ?be = "api_backend a" and ?k = "CreateKey a path query body"
  have key: "CreateKey a path' query' body' = ?k" unfolding CreateKey_def Let_def assms(9) by simp
  have miss: "bk_live t b ?k = ''''" "bk_live t b1 ?k = ''''" for t using assms(4,6) by (simp_all add: bk_live_def)
  have set: "run_state (bk_setnxex ?be ?k v secs) b1 =
      (Inr (), b1\<lparr>bk_kv := Suc (bk_kv b1), bk_cache := (bk_cache b1)(?k \<mapsto> (v, Some (be_kv_time ?be (bk_kv b1) + secs)))\<rparr>)" for v secs
    by (rule run_setnxex [OF assms(1,6)])
  have r: "resp = first" "b2 = b1\<lparr>bk_kv := Suc (bk_kv b1),
      bk_cache := (bk_cache b1)(?k \<mapsto> (api_serialize a first, Some (be_kv_time ?be (bk_kv b1) + expireSeconds)))\<rparr>"
    using assms(10) by (auto simp: CacheApi_def Let_def run_bk_get_works [OF assms(1)] miss assms(5,7,8) set)
  have "bk_live (be_kv_time ?be (bk_kv b2)) b2 ?k = api_serialize a resp"
    using assms(11) by (simp add: r bk_live_def)
  then have "run_state (CacheApi a expireSeconds path' query' body' h') b2 = (resp, b2\<lparr>bk_kv := Suc (bk_kv b2)\<rparr>)"
    by (simp add: CacheApi_def Let_def key run_bk_get_works [OF assms(1)] assms(2,3,7))
  then show ?thesis using r(1) by simp
qed

definition sample_api :: api_env where
  "sample_api = \<lparr>api_backend = plain_backend, api_code = (\<lambda>_ s. if s = ''ok'' then Some 200 else None), api_token = (\<lambda>_. None),
     api_serialize = (\<lambda>_. ''s''), api_unserialize = (\<lambda>s. if s = ''s'' then Some \<lparr>rc_Status = 200, rc_Data = ''ok''\<rparr> else None),
     api_sha512 = (\<lambda>_. [])\<rparr>"

definition answer_ok :: "(backend, responseCache) state" where
  "answer_ok = State_Monad.return \<lparr>rc_Status = 200, rc_Data = ''ok''\<rparr>"

text \<open>The request \<open>/a?bc\<close> is answered with what was computed for \<open>/a?b\<close> with the body \<open>c\<close>.\<close>

theorem cached_answer_is_served_witness:
  "fst (run_state (CacheApi sample_api 60 ''/a'' ''bc'' '''' (State_Monad.return \<lparr>rc_Status = 500, rc_Data = ''no''\<rparr>))
     (snd (run_state (CacheApi sample_api 60 ''/a'' ''b'' ''c'' answer_ok) empty_backend))) = \<lparr>rc_Status = 200, rc_Data = ''ok''\<rparr>"
proof -
  obtain first b2 where r: "run_state (CacheApi sample_api 60 ''/a'' ''b'' ''c'' answer_ok) empty_backend = (first, b2)" by fastforce
  have kv: "kv_works (be_env (api_backend sample_api))" and time: "be_kv_time (api_backend sample_api) n = 1000" for n
    by (simp_all add: sample_api_def plain_backend_def)
  have none: "bk_cache empty_backend k = None" for k by (simp add: empty_backend_def)
  have h: "run_state answer_ok b = (\<lparr>rc_Status = 200, rc_Data = ''ok''\<rparr>, b)" for b by (simp add: answer_ok_def)
  have same: "''/a'' @ '','' @ ''bc'' @ '''' = ''/a'' @ '','' @ ''b'' @ ''c''" by simp
  note served = cached_answer_is_served [where a = sample_api and h = answer_ok, OF kv _ _ none h _ _ _ same r,
      of "State_Monad.return \<lparr>rc_Status = 500, rc_Data = ''no''\<rparr>"]
  then show ?thesis by (simp add: r time none) (simp add: sample_api_def StatusOK_def)
qed

end
