(* ===== verification/Answers.thy ===== *)
theory Answers
  imports ApiCache
begin

text \<open>
  Errors and answers: \<open>EasySwapBase/errcode\<close> (business errors, their codes, and how they travel through gRPC) and the
  JSON envelope of \<open>EasySwapBase/xhttp/xhttp.go\<close>, with the middleware that recovers panics
  (\<open>NFTMarket-backend/src/api/middleware/recover.go\<close>). The gRPC status package is modelled as far as it is used: an
  error is a business error, a status, or any other error with its text; errors that wrap a status are left out.
\<close>

section \<open>Business errors\<close>

record Err =
  err_code :: nat
  err_httpCode :: int
  err_msg :: string

definition CodeOK :: nat where "CodeOK = 200"
definition MsgOK :: string where "MsgOK = ''Successful''"
definition CodeCustom :: nat where "CodeCustom = 7000"
definition MsgCustom :: string where "MsgCustom = ''Custom error''"

definition NewErr :: "nat \<Rightarrow> string \<Rightarrow> int list \<Rightarrow> Err" where
  "NewErr code msg httpCode = \<lparr>err_code = code, err_httpCode = (case httpCode of [] \<Rightarrow> 200 | hc # _ \<Rightarrow> hc), err_msg = msg\<rparr>"

definition NoErr :: Err where "NoErr = NewErr CodeOK MsgOK []"
definition ErrCustom :: Err where "ErrCustom = NewErr CodeCustom MsgCustom []"
definition ErrUnexpected :: Err where "ErrUnexpected = NewErr 7777 ''Network error, please try again later'' [500]"
definition ErrTokenNotValidYet :: Err where "ErrTokenNotValidYet = NewErr 9999 ''Token illegal'' [401]"
definition ErrInvalidParams :: Err where "ErrInvalidParams = NewErr 10002 ''Parameter is illegal'' []"
definition ErrTokenVerify :: Err where "ErrTokenVerify = NewErr 10003 ''Token check error'' [401]"
definition ErrTokenExpire :: Err where "ErrTokenExpire = NewErr 10004 ''Expired token'' [401]"

definition codeToErr :: "nat \<rightharpoonup> Err" where
  "codeToErr = [200 \<mapsto> NoErr, 7000 \<mapsto> ErrCustom, 7777 \<mapsto> ErrUnexpected, 9999 \<mapsto> ErrTokenNotValidYet,
     10002 \<mapsto> ErrInvalidParams, 10003 \<mapsto> ErrTokenVerify, 10004 \<mapsto> ErrTokenExpire]"

text \<open>The map is a variable of the package; \<open>SetCodeToErr\<close> adds a code that is not taken.\<close>

definition SetCodeToErr :: "nat \<Rightarrow> Err \<Rightarrow> (nat \<rightharpoonup> Err) \<Rightarrow> (string option \<times> (nat \<rightharpoonup> Err))" where
  "SetCodeToErr code err m = (if m code \<noteq> None then (Some ''has exist'', m) else (None, m(code \<mapsto> err)))"

definition NewCustomErr :: "string \<Rightarrow> int list \<Rightarrow> Err" where
  "NewCustomErr msg httpCode = NewErr CodeCustom msg httpCode"

text \<open>Go errors: a business error, a gRPC status, any other error; \<open>None\<close> is nil.\<close>

datatype go_error = Business Err | Status nat string | Plain string

definition IsErr :: "go_error option \<Rightarrow> bool" where
  "IsErr err = (case err of None \<Rightarrow> True | Some (Business _) \<Rightarrow> True | Some _ \<Rightarrow> False)"

text \<open>\<open>status.FromError\<close>: an error that is no status has the code \<open>Unknown\<close>, 2, and its text.\<close>

definition error_text :: "go_error \<Rightarrow> string" where
  "error_text err = (case err of Business e \<Rightarrow> err_msg e | Status c m \<Rightarrow> m | Plain m \<Rightarrow> m)"

definition FromError :: "go_error \<Rightarrow> nat \<times> string" where
  "FromError err = (case err of Status c m \<Rightarrow> (c, m) | _ \<Rightarrow> (2, error_text err))"

definition ParseCode :: "(nat \<rightharpoonup> Err) \<Rightarrow> nat \<Rightarrow> Err" where
  "ParseCode m code = (case m code of Some e \<Rightarrow> e | None \<Rightarrow> ErrUnexpected)"

definition ParseErr :: "(nat \<rightharpoonup> Err) \<Rightarrow> go_error option \<Rightarrow> Err" where
  "ParseErr m err = (case err of
       None \<Rightarrow> NoErr
     | Some (Business e) \<Rightarrow> e
     | Some x \<Rightarrow> let (c, msg) = FromError x in if c = CodeCustom then NewCustomErr msg [] else ParseCode m c)"

section \<open>Errors through gRPC\<close>

text \<open>\<open>status.Error\<close>: the code \<open>OK\<close>, 0, is no error.\<close>

definition status_Error :: "nat \<Rightarrow> string \<Rightarrow> go_error option" where
  "status_Error c msg = (if c = 0 then None else Some (Status c msg))"

definition WrapErr :: "go_error option \<Rightarrow> go_error option" where
  "WrapErr err = (case err of
       None \<Rightarrow> None
     | Some (Status c msg) \<Rightarrow> status_Error c msg
     | Some (Business e) \<Rightarrow> status_Error (err_code e) (err_msg e)
     | Some (Plain msg) \<Rightarrow> status_Error 2 msg)"

definition UnwrapErr :: "(nat \<rightharpoonup> Err) \<Rightarrow> go_error option \<Rightarrow> go_error option" where
  "UnwrapErr m err = (case err of
       None \<Rightarrow> None
     | Some x \<Rightarrow> let (c, msg) = FromError x in
         if c = CodeCustom then Some (Business (NewCustomErr msg []))
         else (case m c of Some e \<Rightarrow> Some (Business e) | None \<Rightarrow> Some x))"

text \<open>The interceptors wrap on the side of the server and unwrap on the side of the client.\<close>

definition ErrInterceptor :: "('q \<Rightarrow> 'r \<times> go_error option) \<Rightarrow> 'q \<Rightarrow> 'r \<times> go_error option" where
  "ErrInterceptor handler req = (let (resp, err) = handler req in (resp, WrapErr err))"

definition ErrClientInterceptor :: "(nat \<rightharpoonup> Err) \<Rightarrow> ('q \<Rightarrow> 'r \<times> go_error option) \<Rightarrow> 'q \<Rightarrow> 'r \<times> go_error option" where
  "ErrClientInterceptor m invoker req = (let (reply, err) = invoker req in (reply, UnwrapErr m err))"

section \<open>Answers\<close>

record 'a Response =
  an_HTTPCode :: int
  an_Code :: nat
  an_Msg :: string
  an_Data :: "'a option"

definition OkJson :: "'a \<Rightarrow> 'a Response" where
  "OkJson v = \<lparr>an_HTTPCode = 200, an_Code = CodeOK, an_Msg = MsgOK, an_Data = Some v\<rparr>"

definition ErrorJson :: "(nat \<rightharpoonup> Err) \<Rightarrow> go_error option \<Rightarrow> 'a Response" where
  "ErrorJson m err = (let e = ParseErr m err
     in \<lparr>an_HTTPCode = err_httpCode e, an_Code = err_code e, an_Msg = err_msg e, an_Data = None\<rparr>)"

definition CustomError :: "(nat \<rightharpoonup> Err) \<Rightarrow> go_error option \<Rightarrow> int \<Rightarrow> 'a Response" where
  "CustomError m err httpCode = (ErrorJson m err)\<lparr>an_HTTPCode := httpCode\<rparr>"

text \<open>
  The trace id, and the two headers that repeat code and message, are left out. The outcome of a handler is a panic, an
  error it answers with (\<open>xhttp.Error\<close>) or a value it answers with (\<open>xhttp.OkJson\<close>); a handler that returns is past
  \<open>c.Next()\<close>, a panic is recovered and answered by \<open>RecoverMiddleware\<close>.
\<close>

type_synonym 'a handled = "go_panic + (go_error + 'a)"

definition RecoverMiddleware :: "'a handled \<Rightarrow> 'a Response" where
  "RecoverMiddleware r = (case r of
       Inl _ \<Rightarrow> ErrorJson codeToErr (Some (Business ErrUnexpected))
     | Inr (Inl err) \<Rightarrow> ErrorJson codeToErr (Some err)
     | Inr (Inr v) \<Rightarrow> OkJson v)"

section \<open>Round trip\<close>

text \<open>Which business errors reach the client as they were.\<close>

definition survives :: "Err \<Rightarrow> bool" where
  "survives e \<longleftrightarrow> codeToErr (err_code e) = Some e \<or> err_code e = CodeCustom \<and> err_httpCode e = 200"

lemma codeToErr_custom: "codeToErr CodeCustom = Some (NewCustomErr MsgCustom [])"
  by (simp add: codeToErr_def CodeCustom_def ErrCustom_def NewCustomErr_def)

lemma codeToErr_zero: "codeToErr 0 = None"
  by (simp add: codeToErr_def)

lemma custom_eq: "NewCustomErr (err_msg e) [] = e \<longleftrightarrow> err_code e = CodeCustom \<and> err_httpCode e = 200"
  by (cases e) (auto simp: NewCustomErr_def NewErr_def)

lemma unwrap_wrap_business:
  "UnwrapErr codeToErr (WrapErr (Some (Business e))) = Some (Business e) \<longleftrightarrow> survives e"
proof (cases "err_code e = CodeCustom")
  case True
  have "survives e \<longleftrightarrow> err_httpCode e = 200"
    using True by (cases e) (auto simp: survives_def codeToErr_custom NewCustomErr_def NewErr_def)
  then show ?thesis using True custom_eq [of e]
    by (simp add: WrapErr_def UnwrapErr_def status_Error_def FromError_def CodeCustom_def)
next
  case False
  then show ?thesis
    by (auto simp: WrapErr_def UnwrapErr_def status_Error_def FromError_def survives_def codeToErr_zero split: option.splits)
qed

text \<open>A client behind the two interceptors sees the answer of the handler; no error stays no error, a business error
  arrives unchanged exactly when it is the one registered under its code or a custom error answered with HTTP 200, and
  any other error arrives as an unknown status with its text, which the envelope shows as \<open>ErrUnexpected\<close>.\<close>

theorem errors_cross_the_wire:
  assumes "handler req = (resp, err)" "ErrClientInterceptor codeToErr (ErrInterceptor handler) req = (reply, err')"
  shows "reply = resp \<and> (err = None \<longrightarrow> err' = None) \<and>
    (\<forall>e. err = Some (Business e) \<longrightarrow> (err' = err \<longleftrightarrow> survives e)) \<and>
    (\<forall>msg. err = Some (Plain msg) \<longrightarrow> err' = Some (Status 2 msg) \<and> ParseErr codeToErr err' = ErrUnexpected)"
proof -
  have *: "reply = resp" "err' = UnwrapErr codeToErr (WrapErr err)"
    using assms by (auto simp: ErrClientInterceptor_def ErrInterceptor_def)
  have "UnwrapErr codeToErr (WrapErr (Some (Plain msg))) = Some (Status 2 msg)" for msg
    by (simp add: WrapErr_def UnwrapErr_def status_Error_def FromError_def CodeCustom_def codeToErr_def)
  moreover have "ParseErr codeToErr (Some (Status 2 msg)) = ErrUnexpected" for msg
    by (simp add: ParseErr_def FromError_def CodeCustom_def ParseCode_def codeToErr_def)
  ultimately show ?thesis using * unwrap_wrap_business by (auto simp: WrapErr_def UnwrapErr_def)
qed

theorem errors_cross_the_wire_witness:
  "ErrClientInterceptor codeToErr (ErrInterceptor (\<lambda>_::unit. ((), Some (Business ErrTokenExpire)))) () =
     ((), Some (Business ErrTokenExpire)) \<and>
   snd (ErrClientInterceptor codeToErr (ErrInterceptor (\<lambda>_::unit. ((), Some (Business (NewCustomErr ''no'' [404]))))) ()) \<noteq>
     Some (Business (NewCustomErr ''no'' [404]))"
proof -
  have "survives ErrTokenExpire" by (simp add: survives_def codeToErr_def ErrTokenExpire_def NewErr_def)
  moreover have "\<not> survives (NewCustomErr ''no'' [404])"
    by (simp add: survives_def codeToErr_def ErrCustom_def NewCustomErr_def NewErr_def CodeCustom_def)
  ultimately show ?thesis
    using errors_cross_the_wire [of "\<lambda>_::unit. ((), Some (Business ErrTokenExpire))" "()"]
      errors_cross_the_wire [of "\<lambda>_::unit. ((), Some (Business (NewCustomErr ''no'' [404])))" "()"]
    by (auto simp: prod_eq_iff)
qed

text \<open>An answer has data exactly when the handler has a value.\<close>

lemma RecoverMiddleware_data: "an_Data (RecoverMiddleware r) = (case r of Inr (Inr v) \<Rightarrow> Some v | _ \<Rightarrow> None)"
  by (auto simp: RecoverMiddleware_def ErrorJson_def OkJson_def Let_def split: sum.split)

end
