(* ===== verification/Address.thy ===== *)
theory Address
  imports Login
begin

text \<open>
  Checksummed addresses. Two implementations of the mixed-case notation of EIP-55: \<open>ToCheckSumAddress\<close>
  (\<open>EasySwapBase/evm/eip/eip55.go\<close>), on the decoded bytes, and \<open>ToValidateAddress\<close>
  (\<open>NFTMarket-backend/src/common/utils/utils.go\<close>), on the characters; with \<open>UnifyAddress\<close> and
  \<open>UniformAddress\<close>, which use them. The Keccak hash is a parameter, as is \<open>common.IsHexAddress\<close> of go-ethereum.
\<close>

section \<open>The two implementations\<close>

datatype address_error = EmptyAddress | NotHexadecimal | IllegalAddress

definition upper_char :: "char \<Rightarrow> char" where
  "upper_char c = (let n = (of_char c :: nat) in if 97 \<le> n \<and> n \<le> 122 then char_of (n - 32) else c)"

definition checksumByte :: "nat \<Rightarrow> nat \<Rightarrow> string" where
  "checksumByte addr hash = (if 8 \<le> hash then [upper_char (hex_digit addr)] else [hex_digit addr])"

definition checksum_bytes :: "bytes \<Rightarrow> bytes \<Rightarrow> string" where
  "checksum_bytes bs hash = concat (map2 (\<lambda>b h. checksumByte (unat b div 16) (unat h div 16) @
     checksumByte (unat b mod 16) (unat h mod 16)) bs hash)"

definition ToCheckSumAddress :: "(bytes \<Rightarrow> bytes) \<Rightarrow> string \<Rightarrow> go_panic + (address_error + string)" where
  "ToCheckSumAddress keccak address =
     (if address = '''' then Inr (Inl EmptyAddress)
      else let addr = (if is_prefix ''0x'' address then drop 2 address else address) in
        (case DecodeString addr of
           None \<Rightarrow> Inr (Inl NotHexadecimal)
         | Some bs \<Rightarrow> let hash = keccak (string_bytes (ToLower addr)) in
             if length hash < length bs then Inl IndexOutOfRange
             else Inr (Inr (''0x'' @ checksum_bytes bs hash))))"

text \<open>A character that is not a digit loses 32 when the high bit of its half byte of the hash is set. The loop is over the
  characters of an ASCII text; a byte wraps around.\<close>

definition hash_bit :: "bytes \<Rightarrow> nat \<Rightarrow> bool" where
  "hash_bit hash i = bit (hash ! (i div 2)) (7 - 4 * (i mod 2))"

definition validate_char :: "bytes \<Rightarrow> nat \<Rightarrow> char \<Rightarrow> char" where
  "validate_char hash i c = (if is_digit c then c else if hash_bit hash i then char_of ((of_char c + 224 :: nat) mod 256) else c)"

definition ToValidateAddress :: "(bytes \<Rightarrow> bytes) \<Rightarrow> string \<Rightarrow> go_panic + string" where
  "ToValidateAddress keccak address =
     (let lowered = ToLower address; addr = (if is_prefix ''0x'' lowered then drop 2 lowered else lowered);
          hash = keccak (string_bytes addr)
      in if list_ex (\<lambda>(i, c). \<not> is_digit c \<and> length hash \<le> i div 2) (enumerate 0 addr) then Inl IndexOutOfRange
         else Inr (''0x'' @ map (\<lambda>(i, c). validate_char hash i c) (enumerate 0 addr)))"

text \<open>When the two differ, the error wrapped is the nil of the call before: an empty address and no error.\<close>

definition UnifyAddress :: "(string \<Rightarrow> bool) \<Rightarrow> (bytes \<Rightarrow> bytes) \<Rightarrow> string \<Rightarrow> go_panic + (address_error + string)" where
  "UnifyAddress isHexAddress keccak address =
     (if length address \<le> 2 \<or> \<not> isHexAddress address then Inr (Inl IllegalAddress)
      else case ToCheckSumAddress keccak address of
          Inr (Inr addr) \<Rightarrow> (case ToValidateAddress keccak addr of
              Inl p \<Rightarrow> Inl p
            | Inr v \<Rightarrow> if addr \<noteq> v then Inr (Inr '''') else Inr (Inr addr))
        | r \<Rightarrow> r)"

definition UniformAddress :: "(bytes \<Rightarrow> bytes) \<Rightarrow> string \<Rightarrow> string \<Rightarrow> go_panic + (address_error + string)" where
  "UniformAddress keccak chainName address = (case ToCheckSumAddress keccak address of
       Inr (Inr addr) \<Rightarrow> Inr (Inr (ToLower addr))
     | r \<Rightarrow> r)"

section \<open>Characters\<close>

definition lower_hex :: "char \<Rightarrow> bool" where
  "lower_hex c \<longleftrightarrow> (let n = (of_char c :: nat) in 48 \<le> n \<and> n \<le> 57 \<or> 97 \<le> n \<and> n \<le> 102)"

lemma hex_char_cases:
  assumes "is_hex c"
  obtains d where "d < 10" "c = char_of (48 + d :: nat)" | d where "d < 6" "c = char_of (97 + d :: nat)" | d where "d < 6" "c = char_of (65 + d :: nat)"
proof -
  have c: "c = char_of (of_char c :: nat)" by simp
  consider "48 \<le> (of_char c :: nat)" "(of_char c :: nat) \<le> 57" | "97 \<le> (of_char c :: nat)" "(of_char c :: nat) \<le> 102"
    | "65 \<le> (of_char c :: nat)" "(of_char c :: nat) \<le> 70"
    using assms by (auto simp: is_hex_def Let_def)
  then show ?thesis
  proof cases
    case 1 then show ?thesis using that(1) [of "of_char c - 48"] c by simp
  next
    case 2 then show ?thesis using that(2) [of "of_char c - 97"] c by simp
  next
    case 3 then show ?thesis using that(3) [of "of_char c - 65"] c by simp
  qed
qed

lemma of_char_small: "n < 128 \<Longrightarrow> (of_char (char_of n) :: nat) = n"
  by (simp add: of_char_of)

lemma hex_digit_of_value: "is_hex c \<Longrightarrow> hex_digit (hex_value c) = lower_char c \<and> lower_hex (lower_char c) \<and> hex_value c < 16"
  by (erule hex_char_cases) (simp_all add: hex_value_def of_char_small hex_digit_def lower_char_def lower_hex_def Let_def)

lemma minus_32: "97 \<le> n \<Longrightarrow> n \<le> 102 \<Longrightarrow> (n + 224) mod 256 = n - (32 :: nat)"
proof -
  assume "97 \<le> n" "n \<le> 102"
  then have "n + 224 = n - 32 + 256" "n - 32 < 256" by simp_all
  then show ?thesis by (simp only: mod_add_self2 mod_less)
qed

lemma lower_hex_facts:
  assumes "lower_hex c"
  shows "is_hex c" "lower_char c = c" "lower_char (upper_char c) = c" "is_hex (upper_char c)"
    "(if is_digit c then c else char_of ((of_char c + 224 :: nat) mod 256)) = upper_char c" "is_digit c \<Longrightarrow> upper_char c = c"
proof -
  have "is_hex c" using assms by (auto simp: lower_hex_def is_hex_def Let_def)
  then show "is_hex c" "lower_char c = c" "lower_char (upper_char c) = c" "is_hex (upper_char c)"
    "(if is_digit c then c else char_of ((of_char c + 224 :: nat) mod 256)) = upper_char c" "is_digit c \<Longrightarrow> upper_char c = c"
    using assms by (auto elim!: hex_char_cases simp: lower_hex_def of_char_small lower_char_def upper_char_def is_hex_def is_digit_def Let_def minus_32)
qed

section \<open>Both compute the same address\<close>

definition half_bytes :: "bytes \<Rightarrow> nat list" where
  "half_bytes hash = concat (map (\<lambda>h. [unat h div 16, unat h mod 16]) hash)"

definition raise_case :: "nat list \<Rightarrow> string \<Rightarrow> string" where
  "raise_case ns s = map2 (\<lambda>n c. if 8 \<le> n then upper_char c else c) ns s"

lemma hex_decodes:
  "list_all is_hex s \<Longrightarrow> even (length s) \<Longrightarrow> \<exists>bs. DecodeString s = Some bs \<and> EncodeToString bs = ToLower s \<and> 2 * length bs = length s"
proof (induction s rule: DecodeString.induct)
  case (3 a b s)
  then obtain bs where bs: "DecodeString s = Some bs" "EncodeToString bs = ToLower s" "2 * length bs = length s" by auto
  have h: "is_hex a" "is_hex b" using 3 by simp_all
  have "hex_value a * 16 + hex_value b < 256"
    using hex_digit_of_value [OF h(1)] hex_digit_of_value [OF h(2)] by simp
  then have "unat (word_of_nat (hex_value a * 16 + hex_value b) :: 8 word) = hex_value a * 16 + hex_value b"
    by (simp add: unsigned_of_nat take_bit_nat_eq_self del: of_nat_add of_nat_mult)
  then show ?case using bs h hex_digit_of_value [OF h(1)] hex_digit_of_value [OF h(2)]
    by (simp add: EncodeToString_def ToLower_def)
qed (simp_all add: EncodeToString_def)

lemma checksum_bytes_raise: "checksum_bytes bs hash = raise_case (half_bytes hash) (EncodeToString bs)"
  by (induction bs hash rule: list_induct2')
    (simp_all add: checksum_bytes_def raise_case_def half_bytes_def EncodeToString_def checksumByte_def)

lemma length_half_bytes [simp]: "length (half_bytes hash) = 2 * length hash"
  by (induction hash) (simp_all add: half_bytes_def)

lemma half_bytes_nth:
  "i < 2 * length hash \<Longrightarrow> half_bytes hash ! i = (if even i then unat (hash ! (i div 2)) div 16 else unat (hash ! (i div 2)) mod 16)"
proof (induction hash arbitrary: i)
  case (Cons h hash)
  show ?case
  proof (cases "i < 2")
    case True
    then have "i = 0 \<or> i = 1" by auto
    then show ?thesis by (auto simp: half_bytes_def)
  next
    case False
    then obtain j where j: "i = Suc (Suc j)" by (metis add_2_eq_Suc le_add_diff_inverse not_le)
    then show ?thesis using Cons by (simp add: half_bytes_def)
  qed
qed simp

lemma high_bits:
  fixes n :: nat
  shows "n < 256 \<Longrightarrow> odd (n div 128) \<longleftrightarrow> 8 \<le> n div 16" and "odd (n div 8) \<longleftrightarrow> 8 \<le> n mod 16"
proof -
  have d: "n div 128 = n div 16 div 8" by (simp add: div_mult2_eq [symmetric])
  show "odd (n div 128) \<longleftrightarrow> 8 \<le> n div 16" if "n < 256"
  proof (cases "8 \<le> n div 16")
    case True
    have "n div 16 < 16" using that by (simp add: less_mult_imp_div_less)
    then have "n div 16 div 8 = 1" using True by (intro div_nat_eqI) simp_all
    then show ?thesis using True d by simp
  qed (simp add: d)
  have "n mod 16 = 8 * (n div 8 mod 2) + n mod 8" using mod_mult2_eq [of n 8 2] by simp
  moreover have "n div 8 mod 2 = (if odd (n div 8) then 1 else 0)" by presburger
  moreover have "n mod 8 < 8" by simp
  ultimately show "odd (n div 8) \<longleftrightarrow> 8 \<le> n mod 16" by (simp split: if_splits)
qed

lemma hash_bit_half: "i < 2 * length hash \<Longrightarrow> hash_bit hash i \<longleftrightarrow> 8 \<le> half_bytes hash ! i"
proof -
  assume i: "i < 2 * length hash"
  let ?n = "unat (hash ! (i div 2))"
  have n: "?n < 256" using unsigned_less [of "hash ! (i div 2)", where ?'a = nat] by simp
  have b: "bit (hash ! (i div 2)) k \<longleftrightarrow> odd (?n div 2 ^ k)" if "k < 8" for k
  proof -
    have "bit ?n k = bit (hash ! (i div 2)) k" by (simp add: bit_unsigned_iff)
    then show ?thesis by (simp only: bit_iff_odd [of ?n k])
  qed
  show ?thesis
  proof (cases "even i")
    case True
    then have "i mod 2 = 0" by presburger
    then show ?thesis using high_bits(1) [OF n] True b [of 7] by (simp add: hash_bit_def half_bytes_nth [OF i])
  next
    case False
    then have "i mod 2 = 1" by presburger
    then show ?thesis using high_bits(2) [of ?n] False b [of 3] by (simp add: hash_bit_def half_bytes_nth [OF i])
  qed
qed

lemma length_raise_case [simp]: "length (raise_case ns s) = min (length ns) (length s)"
  by (simp add: raise_case_def)

lemma lower_hex_ToLower: "list_all is_hex s \<Longrightarrow> list_all lower_hex (ToLower s)"
  by (auto simp: list_all_iff ToLower_def hex_digit_of_value)

lemma raise_case_chars:
  "list_all lower_hex s \<Longrightarrow> length s \<le> length ns \<Longrightarrow> list_all is_hex (raise_case ns s) \<and> ToLower (raise_case ns s) = s"
  by (induction ns s rule: list_induct2') (auto simp: raise_case_def ToLower_def lower_hex_facts)

lemma validate_raise:
  assumes "list_all lower_hex s" "length s \<le> 2 * length hash"
  shows "map (\<lambda>(i, c). validate_char hash i c) (enumerate 0 s) = raise_case (half_bytes hash) s"
proof (rule nth_equalityI)
  fix i assume "i < length (map (\<lambda>(i, c). validate_char hash i c) (enumerate 0 s))"
  then have i: "i < length s" by simp
  then have c: "lower_hex (s ! i)" using assms(1) by (simp add: list_all_length)
  show "map (\<lambda>(i, c). validate_char hash i c) (enumerate 0 s) ! i = raise_case (half_bytes hash) s ! i"
    using i assms(2) lower_hex_facts(5,6) [OF c]
    by (auto simp: nth_enumerate_eq validate_char_def raise_case_def hash_bit_half)
qed (use assms in simp)

lemma string_0x: "is_prefix ''0x'' (''0x'' @ s)" "ToLower (''0x'' @ s) = ''0x'' @ ToLower s" "''0x'' @ s \<noteq> ''''" "drop 2 (''0x'' @ s) = s"
  by (simp_all add: is_prefix_def ToLower_def lower_char_def)

lemma both_checksums:
  assumes "length (keccak (string_bytes (ToLower h))) = 32" "length h = 40" "list_all is_hex h"
  defines "a \<equiv> ''0x'' @ raise_case (half_bytes (keccak (string_bytes (ToLower h)))) (ToLower h)"
  shows "ToCheckSumAddress keccak (''0x'' @ h) = Inr (Inr a)" "ToValidateAddress keccak (''0x'' @ h) = Inr a"
proof -
  obtain bs where bs: "DecodeString h = Some bs" "EncodeToString bs = ToLower h" "2 * length bs = length h"
    using hex_decodes [OF assms(3)] assms(2) by auto
  show "ToCheckSumAddress keccak (''0x'' @ h) = Inr (Inr a)"
    unfolding ToCheckSumAddress_def string_0x(4) Let_def if_P [OF string_0x(1)]
    using assms(1,2) bs by (simp add: checksum_bytes_raise a_def)
  have len: "length (ToLower h) = 40" using assms(2) by (simp add: ToLower_def)
  have chars: "list_all lower_hex (ToLower h)" by (rule lower_hex_ToLower [OF assms(3)])
  have "\<not> list_ex (\<lambda>(i, c). \<not> is_digit c \<and> (32 :: nat) \<le> i div 2) (enumerate 0 (ToLower h))"
    using len by (auto simp: list_ex_iff in_set_enumerate_eq)
  then show "ToValidateAddress keccak (''0x'' @ h) = Inr a"
    unfolding ToValidateAddress_def string_0x(2) Let_def if_P [OF string_0x(1)] string_0x(4)
    using validate_raise [OF chars, of "keccak (string_bytes (ToLower h))"] assms(1) len by (simp add: a_def)
qed

text \<open>C35: on an address of forty hexadecimal digits the two implementations compute the same text; it is the address up to
  case and both leave it as it is, so \<open>UnifyAddress\<close> accepts the address and returns it checksummed, whatever the case
  it was written in.\<close>

theorem checksums_agree:
  assumes "\<forall>m. length (keccak m) = 32" "length h = 40" "list_all is_hex h" "isHexAddress (''0x'' @ h)"
  shows "\<exists>a. ToCheckSumAddress keccak (''0x'' @ h) = Inr (Inr a) \<and> ToValidateAddress keccak (''0x'' @ h) = Inr a \<and>
    ToLower a = ''0x'' @ ToLower h \<and> ToCheckSumAddress keccak a = Inr (Inr a) \<and> ToValidateAddress keccak a = Inr a \<and>
    UnifyAddress isHexAddress keccak (''0x'' @ h) = Inr (Inr a)"
proof -
  let ?hash = "keccak (string_bytes (ToLower h))"
  let ?r = "raise_case (half_bytes ?hash) (ToLower h)"
  have len: "length (ToLower h) = 40" "length ?r = 40" using assms(1,2) by (simp_all add: ToLower_def)
  have r: "list_all is_hex ?r" "ToLower ?r = ToLower h"
    using raise_case_chars [OF lower_hex_ToLower [OF assms(3)], of "half_bytes ?hash"] assms(1) len by simp_all
  note given = both_checksums [of keccak h, OF _ assms(2,3)] and again = both_checksums [of keccak ?r, OF _ len(2) r(1), unfolded r(2)]
  have "ToCheckSumAddress keccak (''0x'' @ h) = Inr (Inr (''0x'' @ ?r))" "ToValidateAddress keccak (''0x'' @ h) = Inr (''0x'' @ ?r)"
    "ToCheckSumAddress keccak (''0x'' @ ?r) = Inr (Inr (''0x'' @ ?r))" "ToValidateAddress keccak (''0x'' @ ?r) = Inr (''0x'' @ ?r)"
    using assms(1) given again by simp_all
  moreover from this have "UnifyAddress isHexAddress keccak (''0x'' @ h) = Inr (Inr (''0x'' @ ?r))"
    unfolding UnifyAddress_def using assms(2,4) by simp
  moreover have "ToLower (''0x'' @ ?r) = ''0x'' @ ToLower h" by (simp only: string_0x(2) r(2))
  ultimately show ?thesis by (intro exI [of _ "''0x'' @ ?r"] conjI)
qed

theorem checksums_agree_witness:
  "\<exists>a. UnifyAddress (\<lambda>s. length s = 42) (\<lambda>_. replicate 32 0x80) (''0x'' @ replicate 40 (CHR ''a'')) = Inr (Inr a) \<and>
     ToLower a = ''0x'' @ ToLower (replicate 40 (CHR ''a''))"
  using checksums_agree [of "\<lambda>_. replicate 32 0x80" "replicate 40 (CHR ''a'')" "\<lambda>s. length s = 42"]
  by (auto simp: is_hex_def list_all_iff)

end
