(* ===== verification/Activities.thy ===== *)
theory Activities
  imports Backend
begin

text \<open>
  The activity feed over several chains: \<open>dao/activity.go\<close> and \<open>service/v1/activity.go\<close> of \<open>NFTMarket-backend\<close>.
  A feed is one statement over the activity tables of the chains; its total is cached for half a minute. The
  JSON text of a cache key is a parameter.
\<close>

section \<open>Event types\<close>

definition act_Buy :: int where "act_Buy = 1"
definition act_Mint :: int where "act_Mint = 2"
definition act_CancelOffer :: int where "act_CancelOffer = 5"
definition act_MakeOffer :: int where "act_MakeOffer = 6"
definition act_Transfer :: int where "act_Transfer = 8"

definition eventTypesToID :: "string \<rightharpoonup> int" where
  "eventTypesToID = [''sale'' \<mapsto> act_Sale, ''transfer'' \<mapsto> act_Transfer, ''offer'' \<mapsto> act_MakeOffer,
     ''cancel_offer'' \<mapsto> act_CancelOffer, ''cancel_list'' \<mapsto> act_CancelListing, ''list'' \<mapsto> act_Listing,
     ''mint'' \<mapsto> act_Mint, ''buy'' \<mapsto> act_Buy, ''collection_bid'' \<mapsto> act_CollectionBid, ''item_bid'' \<mapsto> act_ItemBid,
     ''cancel_collection_bid'' \<mapsto> act_CancelCollectionBid, ''cancel_item_bid'' \<mapsto> act_CancelItemBid]"

definition idToEventTypes :: "int \<rightharpoonup> string" where
  "idToEventTypes = [act_Sale \<mapsto> ''sale'', act_Transfer \<mapsto> ''transfer'', act_MakeOffer \<mapsto> ''offer'',
     act_CancelOffer \<mapsto> ''cancel_offer'', act_CancelListing \<mapsto> ''cancel_list'', act_Listing \<mapsto> ''list'',
     act_Mint \<mapsto> ''mint'', act_Buy \<mapsto> ''buy'', act_CollectionBid \<mapsto> ''collection_bid'', act_ItemBid \<mapsto> ''item_bid'',
     act_CancelCollectionBid \<mapsto> ''cancel_collection_bid'', act_CancelItemBid \<mapsto> ''cancel_item_bid'']"

definition event_ids :: "string list \<Rightarrow> int list" where
  "event_ids eventTypes = List.map_filter eventTypesToID eventTypes"

section \<open>The statement\<close>

record ActivityCountCache =
  acc_Chain :: string
  acc_ContractAddresses :: "string list"
  acc_TokenId :: string
  acc_UserAddress :: string
  acc_EventTypes :: "string list"

definition CacheActivityNumPrefix :: string where
  "CacheActivityNumPrefix = ''cache:orderbookdex:activity:count:''"

definition getActivityCountCacheKey :: "(ActivityCountCache \<Rightarrow> string) \<Rightarrow> ActivityCountCache \<Rightarrow> string" where
  "getActivityCountCacheKey json activity = CacheActivityNumPrefix @ json activity"

text \<open>\<open>ActivityMultiChainInfo\<close> is a row with the name of its chain; the block is not selected.\<close>

type_synonym chain_act = "string \<times> ActivityRow"

definition act_columns :: "ActivityRow \<Rightarrow> ActivityRow" where
  "act_columns r = r\<lparr>act_block_number := 0\<rparr>"

definition by_users :: "backend_env \<Rightarrow> string list \<Rightarrow> ActivityRow \<Rightarrow> bool" where
  "by_users be userAddrs r = (case userAddrs of
       [] \<Rightarrow> True
     | [u] \<Rightarrow> collates be (act_maker r) (ToLower u) \<or> collates be (act_taker r) (ToLower u)
     | _ \<Rightarrow> among be userAddrs (act_maker r) \<or> among be userAddrs (act_taker r))"

definition in_feed :: "backend_env \<Rightarrow> string list \<Rightarrow> string \<Rightarrow> int list \<Rightarrow> ActivityRow \<Rightarrow> bool" where
  "in_feed be collectionAddrs tokenId events r \<longleftrightarrow>
     (collectionAddrs = [] \<or> among be collectionAddrs (act_collection_address r)) \<and>
     (tokenId = '''' \<or> collates be (act_token_id r) tokenId) \<and> (events = [] \<or> act_type r \<in> set events)"

text \<open>\<open>sqlMid\<close>: the rows of all chains, \<open>UNION ALL\<close>; a chain without tables fails the statement.\<close>

fun union_acts :: "backend_env \<Rightarrow> string list \<Rightarrow> string list \<Rightarrow> (string \<rightharpoonup> tables) \<Rightarrow> chain_act list option" where
  "union_acts be userAddrs [] ts = Some []"
| "union_acts be userAddrs (chain # chns) ts =
     (case (ts chain, union_acts be userAddrs chns ts) of
        (Some t, Some rest) \<Rightarrow> Some (map (\<lambda>r. (chain, act_columns r)) (filter (by_users be userAddrs) (t_activities t)) @ rest)
      | _ \<Rightarrow> None)"

definition feed_rows ::
  "backend_env \<Rightarrow> string list \<Rightarrow> string list \<Rightarrow> string \<Rightarrow> string list \<Rightarrow> string list \<Rightarrow> (string \<rightharpoonup> tables) \<Rightarrow> chain_act list option" where
  "feed_rows be chns collectionAddrs tokenId userAddrs eventTypes ts =
     (if chns = [] then None
      else map_option (filter (\<lambda>(_, r). in_feed be collectionAddrs tokenId (event_ids eventTypes) r))
        (union_acts be userAddrs chns ts))"

text \<open>\<open>ORDER BY combined.event_time DESC, combined.id DESC\<close>; rows that agree on both come in any order.\<close>

definition latest_first :: "backend_env \<Rightarrow> chain_act list \<Rightarrow> chain_act list" where
  "latest_first be rows = sort_key (\<lambda>(_, r). - act_event_time r)
     (sort_key (\<lambda>(c, r). - be_act_id be c r) (be_act_order be rows))"

text \<open>The same tail ends the statement that counts: \<open>LIMIT\<close> and \<open>OFFSET\<close> then apply to its single row.\<close>

definition page_query where
  "page_query be chns collectionAddrs tokenId userAddrs eventTypes limit offset ts =
     Option.bind (feed_rows be chns collectionAddrs tokenId userAddrs eventTypes ts)
       (\<lambda>rows. limit_offset limit offset (latest_first be rows))"

definition count_query where
  "count_query be chns collectionAddrs tokenId userAddrs eventTypes limit offset ts =
     Option.bind (feed_rows be chns collectionAddrs tokenId userAddrs eventTypes ts)
       (\<lambda>rows. map_option (\<lambda>ns. case ns of [] \<Rightarrow> 0 | n # _ \<Rightarrow> n) (limit_offset limit offset [int (length rows)]))"

fun join_commas :: "string list \<Rightarrow> string" where
  "join_commas [] = []"
| "join_commas [s] = s"
| "join_commas (s # ss) = s @ '','' @ join_commas ss"

definition pasted_addresses :: "string list \<Rightarrow> string list \<Rightarrow> string \<Rightarrow> string list" where
  "pasted_addresses collectionAddrs userAddrs tokenId =
     collectionAddrs @ (case userAddrs of [u] \<Rightarrow> [ToLower u] | _ \<Rightarrow> userAddrs) @ [tokenId]"

definition multi_chain_key where
  "multi_chain_key json collectionAddrs tokenId userAddrs eventTypes = getActivityCountCacheKey json
     \<lparr>acc_Chain = ''MultiChain'', acc_ContractAddresses = collectionAddrs, acc_TokenId = tokenId,
      acc_UserAddress = ToLower (join_commas userAddrs), acc_EventTypes = eventTypes\<rparr>"

definition QueryAllChainActivities ::
  "backend_env \<Rightarrow> (ActivityCountCache \<Rightarrow> string) \<Rightarrow> string list \<Rightarrow> string list \<Rightarrow> string \<Rightarrow> string list \<Rightarrow> string list \<Rightarrow>
   int \<Rightarrow> int \<Rightarrow> (chain_act list \<times> int) B" where
  "QueryAllChainActivities be json chns collectionAddrs tokenId userAddrs eventTypes page pageSize =
     (let pasted = pasted_addresses collectionAddrs userAddrs tokenId;
          offset = wrap64 (pageSize * (page - 1));
          key = multi_chain_key json collectionAddrs tokenId userAddrs eventTypes
      in and_then (bk_raw be pasted (page_query be chns collectionAddrs tokenId userAddrs eventTypes pageSize offset)) (\<lambda>activities.
         and_then (bk_get be key) (\<lambda>strNum.
           if strNum \<noteq> '''' then State_Monad.return (Inr (activities, parse_int64 strNum))
           else and_then (bk_raw be pasted (count_query be chns collectionAddrs tokenId userAddrs eventTypes pageSize offset)) (\<lambda>total.
             and_then (bk_setex be key (int_text total) 30) (\<lambda>_. State_Monad.return (Inr (activities, total)))))))"

text \<open>The statement over chosen chains is written out again, with the same text and the same key.\<close>

definition QueryMultiChainActivities where
  "QueryMultiChainActivities be json chainName collectionAddrs tokenId userAddrs eventTypes page pageSize =
     QueryAllChainActivities be json chainName collectionAddrs tokenId userAddrs eventTypes page pageSize"

section \<open>Names and images\<close>

fun removeRepeatedElementArr :: "string list list \<Rightarrow> string list list \<Rightarrow> string list \<Rightarrow> string list list" where
  "removeRepeatedElementArr [] filteredTokenIds seen = filteredTokenIds"
| "removeRepeatedElementArr (pair # arr) filteredTokenIds seen =
     (if length pair = 2 \<or> length pair = 3
      then let key = join_commas pair
           in if key \<in> set seen then removeRepeatedElementArr arr filteredTokenIds seen
              else removeRepeatedElementArr arr (filteredTokenIds @ [pair]) (key # seen)
      else removeRepeatedElementArr arr filteredTokenIds seen)"

text \<open>
  One query after the other into the same variable: a query without a row leaves the variable as it is, and the row
  of an earlier query is appended once more. Before the first row the variable is zero.
\<close>

fun read_each :: "backend_env \<Rightarrow> ('k \<Rightarrow> (string \<rightharpoonup> tables) \<Rightarrow> 'r option option) \<Rightarrow> 'k list \<Rightarrow> 'r \<Rightarrow> 'r list \<Rightarrow> 'r list B" where
  "read_each be q [] var acc = State_Monad.return (Inr acc)"
| "read_each be q (k # ks) var acc = and_then (bk_query be (q k)) (\<lambda>row.
     let v = (case row of None \<Rightarrow> var | Some r \<Rightarrow> r) in read_each be q ks v (acc @ [v]))"

text \<open>\<open>(address, token, name)\<close> of an item, \<open>(address, token, image)\<close> with the uploaded image preferred, and
  \<open>(address, name, image)\<close> of a collection.\<close>

definition find_item :: "backend_env \<Rightarrow> string list \<Rightarrow> (string \<rightharpoonup> tables) \<Rightarrow> (string \<times> string \<times> string) option option" where
  "find_item be k ts = map_option (\<lambda>t. map_option (\<lambda>r. (item_collection_address r, item_token_id r, item_name r))
     (find (\<lambda>r. collates be (item_collection_address r) (k ! 0) \<and> collates be (item_token_id r) (k ! 1)) (t_items t))) (ts (k ! 2))"

definition shown_image :: "ItemExternalRow \<Rightarrow> string" where
  "shown_image r = (if ext_is_uploaded_oss r then ext_oss_uri r else ext_image_uri r)"

definition find_image :: "backend_env \<Rightarrow> string list \<Rightarrow> (string \<rightharpoonup> tables) \<Rightarrow> (string \<times> string \<times> string) option option" where
  "find_image be k ts = map_option (\<lambda>t. map_option (\<lambda>r. (ext_collection_address r, ext_token_id r, shown_image r))
     (find (\<lambda>r. collates be (ext_collection_address r) (k ! 0) \<and> collates be (ext_token_id r) (k ! 1)) (t_item_external t))) (ts (k ! 2))"

definition find_collection :: "backend_env \<Rightarrow> string list \<Rightarrow> (string \<rightharpoonup> tables) \<Rightarrow> (string \<times> string \<times> string) option option" where
  "find_collection be k ts = map_option (\<lambda>t. map_option (\<lambda>r. (col_address r, col_name r, col_image_uri r))
     (find (\<lambda>r. collates be (col_address r) (k ! 0)) (t_collections t))) (ts (k ! 1))"

definition item_key :: "string \<Rightarrow> string \<Rightarrow> string" where
  "item_key address token = ToLower (address @ token)"

definition token_map :: "(string \<times> string \<times> string) list \<Rightarrow> (string \<rightharpoonup> string)" where
  "token_map rows = foldl (\<lambda>m (a, tok, v). m(item_key a tok \<mapsto> v)) Map.empty rows"

definition collection_map :: "(string \<times> string \<times> string) list \<Rightarrow> (string \<rightharpoonup> (string \<times> string))" where
  "collection_map rows = foldl (\<lambda>m (a, n, i). m(ToLower a \<mapsto> (n, i))) Map.empty rows"

record ActivityInfo =
  ai_EventType :: string
  ai_EventTime :: int
  ai_ImageURI :: string
  ai_CollectionAddress :: string
  ai_CollectionName :: string
  ai_CollectionImageURI :: string
  ai_TokenID :: string
  ai_ItemName :: string
  ai_Currency :: string
  ai_Price :: price
  ai_Maker :: string
  ai_Taker :: string
  ai_TxHash :: string
  ai_MarketplaceID :: int
  ai_ChainID :: int

text \<open>One entry of the answer; the feed over chosen chains hides the transaction of a listing.\<close>

definition activity_info ::
  "bool \<Rightarrow> (string \<rightharpoonup> int) \<Rightarrow> (string \<rightharpoonup> string) \<Rightarrow> (string \<rightharpoonup> string) \<Rightarrow> (string \<rightharpoonup> (string \<times> string)) \<Rightarrow> chain_act \<Rightarrow> ActivityInfo" where
  "activity_info hide_listing chainIds itemInfos itemExternals collections ca = (let (chain, act) = ca;
      k = item_key (act_collection_address act) (act_token_id act);
      name = (case itemInfos k of None \<Rightarrow> '''' | Some n \<Rightarrow> n);
      coll = (case collections (ToLower (act_collection_address act)) of None \<Rightarrow> ('''', '''') | Some ni \<Rightarrow> ni)
    in \<lparr>ai_EventType = (case idToEventTypes (act_type act) of None \<Rightarrow> ''unknown'' | Some n \<Rightarrow> n),
        ai_EventTime = act_event_time act, ai_ImageURI = (case itemExternals k of None \<Rightarrow> '''' | Some i \<Rightarrow> i),
        ai_CollectionAddress = act_collection_address act, ai_CollectionName = fst coll, ai_CollectionImageURI = snd coll,
        ai_TokenID = act_token_id act, ai_ItemName = (if name = '''' then ''#'' @ act_token_id act else name),
        ai_Currency = act_currency_address act, ai_Price = act_price act, ai_Maker = act_maker act, ai_Taker = act_taker act,
        ai_TxHash = (if hide_listing \<and> act_type act = act_Listing then '''' else act_tx_hash act),
        ai_MarketplaceID = act_marketplace_id act, ai_ChainID = (case chainIds chain of None \<Rightarrow> 0 | Some i \<Rightarrow> i)\<rparr>)"

text \<open>The three goroutines read different tables into different variables; they run one after the other here.\<close>

definition external_info ::
  "bool \<Rightarrow> backend_env \<Rightarrow> (string \<rightharpoonup> int) \<Rightarrow> chain_act list \<Rightarrow> ActivityInfo list B" where
  "external_info hide_listing be chainIds activities =
     (let items = removeRepeatedElementArr (map (\<lambda>(c, a). [act_collection_address a, act_token_id a, c]) activities) [] [];
          collectionAddrs = removeRepeatedElementArr (map (\<lambda>(c, a). [act_collection_address a, c]) activities) [] []
      in and_then (read_each be (find_item be) items ('''', '''', '''') []) (\<lambda>newItems.
         and_then (read_each be (find_image be) items ('''', '''', '''') []) (\<lambda>newImages.
         and_then (read_each be (find_collection be) collectionAddrs ('''', '''', '''') []) (\<lambda>colls.
           State_Monad.return (Inr (map (activity_info hide_listing chainIds (token_map newItems) (token_map newImages) (collection_map colls))
             activities))))))"

definition QueryAllChainActivityExternalInfo ::
  "backend_env \<Rightarrow> (int \<times> string) list \<Rightarrow> chain_act list \<Rightarrow> ActivityInfo list B" where
  "QueryAllChainActivityExternalInfo be chainSupported activities =
     external_info False be (foldl (\<lambda>m (i, n). m(n \<mapsto> i)) Map.empty chainSupported) activities"

definition QueryMultiChainActivityExternalInfo ::
  "backend_env \<Rightarrow> int list \<Rightarrow> string list \<Rightarrow> chain_act list \<Rightarrow> ActivityInfo list B" where
  "QueryMultiChainActivityExternalInfo be chainID chainName activities =
     external_info True be (foldl (\<lambda>m (i, n). m(n \<mapsto> i)) Map.empty (zip chainID chainName)) activities"

section \<open>The service\<close>

record ActivityResp =
  ar_Result :: "ActivityInfo list"
  ar_Count :: int

definition GetAllChainActivities ::
  "backend_env \<Rightarrow> (ActivityCountCache \<Rightarrow> string) \<Rightarrow> (int \<times> string) list \<Rightarrow> string list \<Rightarrow> string \<Rightarrow> string list \<Rightarrow> string list \<Rightarrow>
   int \<Rightarrow> int \<Rightarrow> ActivityResp B" where
  "GetAllChainActivities be json chainSupported collectionAddrs tokenId userAddrs eventTypes page pageSize =
     and_then (QueryAllChainActivities be json (map snd chainSupported) collectionAddrs tokenId userAddrs eventTypes page pageSize)
       (\<lambda>(activities, total).
          if total = 0 \<or> activities = [] then State_Monad.return (Inr \<lparr>ar_Result = [], ar_Count = 0\<rparr>)
          else and_then (QueryAllChainActivityExternalInfo be chainSupported activities)
            (\<lambda>results. State_Monad.return (Inr \<lparr>ar_Result = results, ar_Count = total\<rparr>)))"

definition GetMultiChainActivities ::
  "backend_env \<Rightarrow> (ActivityCountCache \<Rightarrow> string) \<Rightarrow> int list \<Rightarrow> string list \<Rightarrow> string list \<Rightarrow> string \<Rightarrow> string list \<Rightarrow> string list \<Rightarrow>
   int \<Rightarrow> int \<Rightarrow> ActivityResp B" where
  "GetMultiChainActivities be json chainID chainName collectionAddrs tokenId userAddrs eventTypes page pageSize =
     and_then (QueryMultiChainActivities be json chainName collectionAddrs tokenId userAddrs eventTypes page pageSize)
       (\<lambda>(activities, total).
          if total = 0 \<or> activities = [] then State_Monad.return (Inr \<lparr>ar_Result = [], ar_Count = 0\<rparr>)
          else and_then (QueryMultiChainActivityExternalInfo be chainID chainName activities)
            (\<lambda>results. State_Monad.return (Inr \<lparr>ar_Result = results, ar_Count = total\<rparr>)))"

text \<open>\<open>ActivityMultiChainHandler\<close>: without chain ids the feed of all chains; an unknown id stands for the chain
  without a name.\<close>

definition chainIDToChain :: "int \<rightharpoonup> string" where
  "chainIDToChain = [1 \<mapsto> ''eth'', 10 \<mapsto> ''optimism'', 11155111 \<mapsto> ''sepolia'']"

record ActivityMultiChainFilterParams =
  af_ChainID :: "int list"
  af_CollectionAddresses :: "string list"
  af_TokenID :: string
  af_UserAddresses :: "string list"
  af_EventTypes :: "string list"
  af_Page :: int
  af_PageSize :: int

definition ActivityMultiChainHandler ::
  "backend_env \<Rightarrow> (ActivityCountCache \<Rightarrow> string) \<Rightarrow> (int \<times> string) list \<Rightarrow> ActivityMultiChainFilterParams option \<Rightarrow> ActivityResp B" where
  "ActivityMultiChainHandler be json chainSupported filters = (case filters of
       None \<Rightarrow> State_Monad.return (Inl InvalidRequest)
     | Some f \<Rightarrow>
         if af_ChainID f = []
         then GetAllChainActivities be json chainSupported (af_CollectionAddresses f) (af_TokenID f) (af_UserAddresses f)
                (af_EventTypes f) (af_Page f) (af_PageSize f)
         else GetMultiChainActivities be json (af_ChainID f) (map (\<lambda>i. case chainIDToChain i of None \<Rightarrow> '''' | Some n \<Rightarrow> n) (af_ChainID f))
                (af_CollectionAddresses f) (af_TokenID f) (af_UserAddresses f) (af_EventTypes f) (af_Page f) (af_PageSize f))"

section \<open>Pages\<close>

definition known_chains :: "(string \<rightharpoonup> tables) \<Rightarrow> string list \<Rightarrow> bool" where
  "known_chains ts chns \<longleftrightarrow> chns \<noteq> [] \<and> list_all (\<lambda>c. ts c \<noteq> None) chns"

definition matching_acts ::
  "backend_env \<Rightarrow> string list \<Rightarrow> string list \<Rightarrow> string \<Rightarrow> string list \<Rightarrow> string list \<Rightarrow> (string \<rightharpoonup> tables) \<Rightarrow> chain_act list" where
  "matching_acts be chns collectionAddrs tokenId userAddrs eventTypes ts =
     concat (map (\<lambda>c. map (\<lambda>r. (c, act_columns r)) (filter (\<lambda>r. by_users be userAddrs r \<and>
       in_feed be collectionAddrs tokenId (event_ids eventTypes) r) (t_activities (the (ts c))))) chns)"

definition later_act :: "backend_env \<Rightarrow> chain_act \<Rightarrow> chain_act \<Rightarrow> bool" where
  "later_act be = (\<lambda>(c, r) (c', r'). act_event_time r > act_event_time r' \<or>
     act_event_time r = act_event_time r' \<and> be_act_id be c r \<ge> be_act_id be c' r')"

lemma in_feed_columns [simp]: "in_feed be cs tok evs (act_columns r) = in_feed be cs tok evs r"
  by (simp add: in_feed_def act_columns_def)

lemma feed_rows_known:
  assumes "feed_rows be chns cs tok us evs ts = Some rows"
  shows "known_chains ts chns" "rows = matching_acts be chns cs tok us evs ts"
proof -
  have "union_acts be us chns ts = Some all \<Longrightarrow> list_all (\<lambda>c. ts c \<noteq> None) chns \<and>
      filter (\<lambda>(_, r). in_feed be cs tok (event_ids evs) r) all = matching_acts be chns cs tok us evs ts" for all
    by (induction chns arbitrary: all)
      (auto simp: matching_acts_def filter_map o_def conj_commute split: option.splits)
  then show "known_chains ts chns" "rows = matching_acts be chns cs tok us evs ts"
    using assms by (auto simp: feed_rows_def known_chains_def split: if_splits)
qed

lemma known_feed_rows:
  assumes "known_chains ts chns"
  shows "feed_rows be chns cs tok us evs ts = Some (matching_acts be chns cs tok us evs ts)"
proof -
  have "list_all (\<lambda>c. ts c \<noteq> None) chns \<Longrightarrow> union_acts be us chns ts \<noteq> None"
    by (induction chns) auto
  then obtain all where "union_acts be us chns ts = Some all" using assms by (auto simp: known_chains_def)
  then have "\<exists>rows. feed_rows be chns cs tok us evs ts = Some rows" using assms by (simp add: feed_rows_def known_chains_def)
  then show ?thesis using feed_rows_known(2) by metis
qed

text \<open>Sorting by a second key first and by the first key, stably, afterwards.\<close>

lemma stable_sort_two_keys:
  fixes f g :: "'a \<Rightarrow> int"
  shows "sorted_wrt (\<lambda>x y. f x < f y \<or> f x = f y \<and> g x \<le> g y) (sort_key f (sort_key g xs))"
proof -
  have sorted: "sorted (map f (sort_key f ys))" for ys by simp
  have "sorted_wrt (\<lambda>x y. f x < f y \<or> f x = f y \<and> g x \<le> g y) zs"
    if "sorted (map f zs)" "\<And>k. sorted (map g (filter (\<lambda>x. f x = k) zs))" for zs
    using that
  proof (induction zs)
    case (Cons z zs)
    have "f z < f y \<or> f z = f y \<and> g z \<le> g y" if "y \<in> set zs" for y
    proof (cases "f z = f y")
      case True
      then have "y \<in> set (filter (\<lambda>x. f x = f z) zs)" using that by simp
      then show ?thesis using Cons.prems(2) [of "f z"] True by auto
    next
      case False
      then show ?thesis using Cons.prems(1) that by (simp add: order_less_le)
    qed
    moreover have "sorted (map g (filter (\<lambda>x. f x = k) zs))" for k
      using Cons.prems(2) [of k] by (auto split: if_splits)
    ultimately show ?case using Cons by simp
  qed simp
  moreover have "sorted (map g (filter (\<lambda>x. f x = k) (sort_key f (sort_key g xs))))" for k
  proof -
    have "filter (\<lambda>x. f x = k) (sort_key f (sort_key g xs)) = filter (\<lambda>x. f x = k) (sort_key g xs)"
      using sort_key_stable [of f k "sort_key g xs"] by (simp add: eq_commute)
    then show ?thesis by (simp add: sorted_filter)
  qed
  ultimately show ?thesis using sorted by blast
qed

lemma latest_first_sorted: "sorted_wrt (later_act be) (latest_first be rows)"
  unfolding latest_first_def
  by (rule sorted_wrt_mono_rel [OF _ stable_sort_two_keys]) (auto simp: later_act_def)

definition orders_acts :: "backend_env \<Rightarrow> bool" where
  "orders_acts be \<longleftrightarrow> (\<forall>rows. mset (be_act_order be rows) = mset rows)"


section \<open>The cached total\<close>

lemma int_text_format: "int_text i = format_int 10 i"
  by (simp add: int_text_def format_int_def itoa_nat_text)

lemma parse_int_text: "in_i64 i \<Longrightarrow> parse_int64 (int_text i) = i"
  using ParseInt_format_int [of 10 i] by (simp add: parse_int64_def int_text_format)

lemma parse_total: "0 \<le> i \<Longrightarrow> i < 2 ^ 63 \<Longrightarrow> parse_int64 (int_text i) = i"
  by (rule parse_int_text) (simp add: in_i64_def)

definition feed_ready :: "backend_env \<Rightarrow> string list \<Rightarrow> string list \<Rightarrow> string \<Rightarrow> backend \<Rightarrow> string list \<Rightarrow> bool" where
  "feed_ready be cs us tok b chns \<longleftrightarrow> db_works (be_env be) \<and> kv_works (be_env be) \<and>
     list_all sql_literal (pasted_addresses cs us tok) \<and> known_chains (bk_tables b) chns"

text \<open>A run of the query without a cached total, and one with it.\<close>

lemma run_query_uncached:
  assumes "feed_ready be cs us tok b chns" "0 \<le> pageSize" "0 \<le> pageSize * (page - 1)" "in_i64 (pageSize * (page - 1))"
    and "bk_live (be_kv_time be (bk_kv b)) b (multi_chain_key json cs tok us evs) = ''''"
  defines "n \<equiv> (if 0 < pageSize \<and> pageSize * (page - 1) = 0
      then int (length (matching_acts be chns cs tok us evs (bk_tables b))) else 0)"
  shows "\<exists>acts. run_state (QueryAllChainActivities be json chns cs tok us evs page pageSize) b = (Inr (acts, n),
    b\<lparr>bk_db := Suc (Suc (bk_db b)), bk_kv := Suc (Suc (bk_kv b)),
      bk_cache := (bk_cache b)(multi_chain_key json cs tok us evs \<mapsto> (int_text n, Some (be_kv_time be (Suc (bk_kv b)) + 30)))\<rparr>)"
proof -
  let ?off = "pageSize * (page - 1)"
  have count: "count_query be chns cs tok us evs pageSize ?off (bk_tables b) = Some n"
    using assms(1-3) by (auto simp: count_query_def known_feed_rows feed_ready_def limit_offset_def n_def take_Cons' drop_Cons')
  have "\<exists>acts. page_query be chns cs tok us evs pageSize ?off (bk_tables b) = Some acts"
    using assms(1-3) by (simp add: page_query_def known_feed_rows feed_ready_def limit_offset_def)
  then show ?thesis
    using assms(1,4,5) count by (auto simp: QueryAllChainActivities_def Let_def wrap64_id feed_ready_def backend_runs)
qed

lemma run_query_cached:
  assumes "feed_ready be cs us tok b chns" "0 \<le> pageSize" "0 \<le> pageSize * (page - 1)" "in_i64 (pageSize * (page - 1))"
    and "bk_live (be_kv_time be (bk_kv b)) b (multi_chain_key json cs tok us evs) = int_text n" "0 \<le> n" "n < 2 ^ 63"
  shows "\<exists>acts. run_state (QueryAllChainActivities be json chns cs tok us evs page pageSize) b =
    (Inr (acts, n), b\<lparr>bk_db := Suc (bk_db b), bk_kv := Suc (bk_kv b)\<rparr>)"
proof -
  have "\<exists>acts. page_query be chns cs tok us evs pageSize (pageSize * (page - 1)) (bk_tables b) = Some acts"
    using assms(1-3) by (simp add: page_query_def known_feed_rows feed_ready_def limit_offset_def)
  moreover have "int_text n \<noteq> ''''" using itoa_not_empty by (simp add: int_text_def)
  ultimately show ?thesis
    using assms(1,4-7) by (auto simp: QueryAllChainActivities_def Let_def wrap64_id feed_ready_def backend_runs parse_total)
qed

lemma feed_ready_after: "bk_tables b' = bk_tables b \<Longrightarrow> feed_ready be cs us tok b' chns = feed_ready be cs us tok b chns"
  by (simp add: feed_ready_def)

abbreviation no_activities :: ActivityResp where
  "no_activities \<equiv> \<lparr>ar_Result = [], ar_Count = 0\<rparr>"


text \<open>The key of the cached total does not name the chains: the total reported for one choice of chains is, for
  half a minute, the number of activities of the choice asked for before.\<close>

theorem total_of_other_chains:
  assumes "feed_ready be cs us tok b as" "feed_ready be cs us tok b cs'" "0 < ps" "0 \<le> ps'"
    and "int (length (matching_acts be as cs tok us evs (bk_tables b))) < 2 ^ 63"
    and "bk_live (be_kv_time be (bk_kv b)) b (multi_chain_key json cs tok us evs) = ''''"
    and "be_kv_time be (Suc (Suc (bk_kv b))) < be_kv_time be (Suc (bk_kv b)) + 30"
    and "run_state (QueryMultiChainActivities be json as cs tok us evs 1 ps) b = (r1, b1)"
    and "run_state (QueryMultiChainActivities be json cs' cs tok us evs 1 ps') b1 = (r2, b2)"
  shows "\<exists>acts. r2 = Inr (acts, int (length (matching_acts be as cs tok us evs (bk_tables b))))"
proof -
  let ?k = "multi_chain_key json cs tok us evs"
  let ?n = "int (length (matching_acts be as cs tok us evs (bk_tables b)))"
  have b1: "bk_tables b1 = bk_tables b" "bk_kv b1 = Suc (Suc (bk_kv b))"
      "bk_cache b1 ?k = Some (int_text ?n, Some (be_kv_time be (Suc (bk_kv b)) + 30))"
    using run_query_uncached [OF assms(1) _ _ _ assms(6), of ps 1] assms(3,8)
    by (auto simp: QueryMultiChainActivities_def in_i64_def)
  have live: "bk_live (be_kv_time be (bk_kv b1)) b1 ?k = int_text ?n" using b1 assms(7) by (simp add: bk_live_def)
  have ready: "feed_ready be cs us tok b1 cs'" using assms(2) feed_ready_after [OF b1(1)] by simp
  show ?thesis
    using run_query_cached [OF ready assms(4) _ _ live, of 1] assms(5,9) by (auto simp: QueryMultiChainActivities_def in_i64_def)
qed

section \<open>Concrete runs\<close>

definition sample_act :: ActivityRow where
  "sample_act = \<lparr>act_type = act_Sale, act_maker = ''0xa'', act_taker = ''0xb'', act_marketplace_id = 0,
     act_collection_address = ''0xc'', act_token_id = ''1'', act_currency_address = ''0'', act_price = 5,
     act_block_number = 7, act_tx_hash = ''0x1'', act_event_time = 900\<rparr>"

definition feed_backend :: backend where
  "feed_backend = empty_backend\<lparr>bk_tables := [''eth'' \<mapsto> empty_tables\<lparr>t_activities := [sample_act]\<rparr>,
     ''optimism'' \<mapsto> empty_tables]\<rparr>"

lemma feed_backend_ready:
  "chns \<noteq> [] \<Longrightarrow> set chns \<subseteq> {''eth'', ''optimism''} \<Longrightarrow> feed_ready plain_backend [] [] '''' feed_backend chns"
  "bk_live t feed_backend k = ''''" "bk_kv feed_backend = 0"
  by (auto simp: feed_ready_def pasted_addresses_def sql_literal_def known_chains_def feed_backend_def empty_backend_def
      bk_live_def list_all_iff)

lemma feed_backend_acts:
  "matching_acts plain_backend [''eth''] [] '''' [] [] (bk_tables feed_backend) = [(''eth'', act_columns sample_act)]"
  by (simp add: matching_acts_def feed_backend_def by_users_def in_feed_def event_ids_def map_filter_def)



theorem total_of_other_chains_witness:
  "\<exists>acts. fst (run_state (QueryMultiChainActivities plain_backend (\<lambda>_. ''k'') [''optimism''] [] '''' [] [] 1 10)
     (snd (run_state (QueryMultiChainActivities plain_backend (\<lambda>_. ''k'') [''eth''] [] '''' [] [] 1 10) feed_backend))) = Inr (acts, 1)"
proof -
  obtain r1 b1 where 1: "run_state (QueryMultiChainActivities plain_backend (\<lambda>_. ''k'') [''eth''] [] '''' [] [] 1 10) feed_backend = (r1, b1)"
    by fastforce
  obtain r2 b2 where 2: "run_state (QueryMultiChainActivities plain_backend (\<lambda>_. ''k'') [''optimism''] [] '''' [] [] 1 10) b1 = (r2, b2)"
    by fastforce
  show ?thesis
    using total_of_other_chains [OF _ _ _ _ _ _ _ 1 2] feed_backend_ready 1 2 feed_backend_acts by (simp add: plain_backend_def)
qed

end
