(* ===== verification/Portfolio.thy ===== *)
theory Portfolio
  imports Activities
begin

text \<open>
  The portfolio of a user over several chains: collections, items and listings of \<open>service/v1/portfolio.go\<close> with their
  statements in \<open>dao/collection.go\<close>, \<open>dao/items.go\<close> and \<open>dao/item_external.go\<close> of \<open>NFTMarket-backend\<close>. The order in which
  the server returns equal rows, and goroutines finish, are parameters.
\<close>

section \<open>Calls on one chain\<close>

text \<open>A statement of an earlier part, run on the tables of one chain.\<close>

definition on_chain :: "backend_env \<Rightarrow> string \<Rightarrow> 'a result M \<Rightarrow> 'a B" where
  "on_chain be chain m = State (\<lambda>b.
     (case bk_tables b chain of
        None \<Rightarrow> (Inl DBFailed, b\<lparr>bk_db := Suc (bk_db b)\<rparr>)
      | Some t \<Rightarrow> (case run_state m (start_world\<lparr>tbl := t, n_db := bk_db b, n_clock := bk_clock b\<rparr>) of (r, w) \<Rightarrow>
          (case r of Inl _ \<Rightarrow> Inl DBFailed | Inr a \<Rightarrow> Inr a,
           b\<lparr>bk_tables := (bk_tables b)(chain \<mapsto> tbl w), bk_db := n_db w, bk_clock := n_clock w\<rparr>))))"

text \<open>\<open>QueryCollectionsBestBid\<close>: the live bids whose price is the greatest of a live bid for their collection.\<close>

definition best_bid_columns :: "OrderRow \<Rightarrow> OrderRow" where
  "best_bid_columns r = r\<lparr>ord_id := 0, ord_marketplace_id := 0, ord_token_id := [], ord_order_status := 0,
     ord_currency_address := [], ord_taker := []\<rparr>"

definition dearest_bid :: "env \<Rightarrow> int \<Rightarrow> string \<Rightarrow> string list \<Rightarrow> OrderRow list \<Rightarrow> OrderRow \<Rightarrow> bool" where
  "dearest_bid e t userAddr addrs rows m \<longleftrightarrow>
     live_bid e t userAddr CollectionBidOrder m \<and> list_ex (coll_eq e (ord_collection_address m)) addrs \<and>
     list_all (\<lambda>r. live_bid e t userAddr CollectionBidOrder r \<longrightarrow> list_ex (coll_eq e (ord_collection_address r)) addrs \<longrightarrow>
       coll_eq e (ord_collection_address r) (ord_collection_address m) \<longrightarrow> ord_price r \<le> ord_price m) rows"

definition QueryCollectionsBestBid ::
  "backend_env \<Rightarrow> string \<Rightarrow> string \<Rightarrow> string list \<Rightarrow> OrderRow list B" where
  "QueryCollectionsBestBid be chain userAddr addrs = (let e = be_env be in do {
     t1 \<leftarrow> bk_now be;
     t2 \<leftarrow> bk_now be;
     bk_raw be [userAddr] (\<lambda>ts. map_option (\<lambda>t. map best_bid_columns (row_order e (filter (\<lambda>r.
         live_bid e t2 userAddr CollectionBidOrder r \<and>
         list_ex (\<lambda>m. dearest_bid e t1 userAddr addrs (t_orders t) m \<and> ord_price m = ord_price r \<and>
           coll_eq e (ord_collection_address m) (ord_collection_address r)) (t_orders t)) (t_orders t)))) (ts chain))
   })"

section \<open>Items and listings of users\<close>

text \<open>\<open>MultiChainItemInfo\<close>: address, token and chain.\<close>

record MultiChainItemInfo =
  mi_CollectionAddress :: string
  mi_TokenID :: string
  mi_ChainName :: string

text \<open>The fields of an entry that describe its listing, and those that describe a bid for it.\<close>

record shown_listing =
  sl_OrderID :: string
  sl_Time :: int
  sl_ExpireTime :: int
  sl_Salt :: int
  sl_Maker :: string

record shown_bid =
  sb_OrderID :: string
  sb_Time :: int
  sb_ExpireTime :: int
  sb_Price :: price
  sb_Salt :: int
  sb_Maker :: string
  sb_Type :: int
  sb_Size :: int
  sb_Unfilled :: int

definition no_listing :: shown_listing where
  "no_listing = \<lparr>sl_OrderID = [], sl_Time = 0, sl_ExpireTime = 0, sl_Salt = 0, sl_Maker = []\<rparr>"

definition no_bid :: shown_bid where
  "no_bid = \<lparr>sb_OrderID = [], sb_Time = 0, sb_ExpireTime = 0, sb_Price = 0, sb_Salt = 0, sb_Maker = [], sb_Type = 0,
     sb_Size = 0, sb_Unfilled = 0\<rparr>"

definition show_bid :: "OrderRow \<Rightarrow> shown_bid" where
  "show_bid r = \<lparr>sb_OrderID = ord_order_id r, sb_Time = ord_event_time r, sb_ExpireTime = ord_expire_time r,
     sb_Price = ord_price r, sb_Salt = ord_salt r, sb_Maker = ord_maker r, sb_Type = getBidType (ord_order_type r),
     sb_Size = ord_size r, sb_Unfilled = ord_quantity_remaining r\<rparr>"

text \<open>The columns \<open>last_cost_price\<close> and \<open>rarity_rank\<close> are never filled and left out.\<close>

record PortfolioItemInfo =
  pi_ChainID :: int
  pi_CollectionAddress :: string
  pi_CollectionName :: string
  pi_CollectionImageURI :: string
  pi_TokenID :: string
  pi_ImageURI :: string
  pi_OwnedTime :: int
  pi_Owner :: string
  pi_Listing :: bool
  pi_MarketplaceID :: int
  pi_Name :: string
  pi_FloorPrice :: price
  pi_ListPrice :: price
  pi_List :: shown_listing
  pi_Bid :: shown_bid

definition owned_by :: "backend_env \<Rightarrow> string list \<Rightarrow> ItemRow \<Rightarrow> bool" where
  "owned_by be userAddrs i = (case item_owner i of None \<Rightarrow> False | Some o' \<Rightarrow> among be userAddrs o')"

definition of_contracts :: "backend_env \<Rightarrow> string list \<Rightarrow> ItemRow \<Rightarrow> bool" where
  "of_contracts be contractAddrs i \<longleftrightarrow> contractAddrs = [] \<or> among be contractAddrs (item_collection_address i)"

definition sale_of :: "backend_env \<Rightarrow> ItemRow \<Rightarrow> ActivityRow \<Rightarrow> bool" where
  "sale_of be i a \<longleftrightarrow> act_type a = act_Sale \<and> collates be (act_collection_address a) (item_collection_address i) \<and>
     collates be (act_token_id a) (item_token_id i)"

text \<open>\<open>MAX(event_time)\<close> of the sales of an item, \<open>NULL\<close> without one.\<close>

definition owned_since :: "backend_env \<Rightarrow> tables \<Rightarrow> ItemRow \<Rightarrow> int option" where
  "owned_since be t i = (case map act_event_time (filter (sale_of be i) (t_activities t)) of
       [] \<Rightarrow> None | x # xs \<Rightarrow> Some (fold max xs x))"

definition portfolio_item :: "int option \<Rightarrow> ItemRow \<Rightarrow> PortfolioItemInfo" where
  "portfolio_item since i = \<lparr>pi_ChainID = item_chain_id i, pi_CollectionAddress = item_collection_address i,
     pi_CollectionName = [], pi_CollectionImageURI = [], pi_TokenID = item_token_id i, pi_ImageURI = [],
     pi_OwnedTime = (case since of None \<Rightarrow> 0 | Some t \<Rightarrow> t), pi_Owner = (case item_owner i of None \<Rightarrow> [] | Some o' \<Rightarrow> o'),
     pi_Listing = False, pi_MarketplaceID = 0, pi_Name = item_name i, pi_FloorPrice = 0, pi_ListPrice = 0,
     pi_List = no_listing, pi_Bid = no_bid\<rparr>"

text \<open>The union over the chains, with the time each item was bought; an empty list of users or of chains is a syntax error.\<close>

fun union_items :: "backend_env \<Rightarrow> string list \<Rightarrow> string list \<Rightarrow> string list \<Rightarrow> (string \<rightharpoonup> tables) \<Rightarrow> (int option \<times> ItemRow) list option" where
  "union_items be userAddrs contractAddrs [] ts = Some []"
| "union_items be userAddrs contractAddrs (chain # chns) ts =
     (case (ts chain, union_items be userAddrs contractAddrs chns ts) of
        (Some t, Some rest) \<Rightarrow> Some (map (\<lambda>i. (owned_since be t i, i))
            (filter (\<lambda>i. owned_by be userAddrs i \<and> of_contracts be contractAddrs i) (t_items t)) @ rest)
      | _ \<Rightarrow> None)"

definition user_items ::
  "backend_env \<Rightarrow> string list \<Rightarrow> string list \<Rightarrow> string list \<Rightarrow> (string \<rightharpoonup> tables) \<Rightarrow> (int option \<times> ItemRow) list option" where
  "user_items be chns userAddrs contractAddrs ts =
     (if chns = [] \<or> userAddrs = [] then None else union_items be userAddrs contractAddrs chns ts)"

record portfolio_env =
  pf_env :: backend_env
  pf_item_order :: "(int option \<times> ItemRow) list \<Rightarrow> (int option \<times> ItemRow) list"
  pf_key_order :: "string list \<Rightarrow> string list"

text \<open>\<open>ORDER BY owned_time DESC\<close>: \<open>NULL\<close> comes last.\<close>

definition last_bought_first :: "portfolio_env \<Rightarrow> (int option \<times> ItemRow) list \<Rightarrow> (int option \<times> ItemRow) list" where
  "last_bought_first pf rows =
     (let sorted = sort_key (\<lambda>(s, _). case s of None \<Rightarrow> 0 | Some t \<Rightarrow> - t) (pf_item_order pf rows)
      in filter (\<lambda>(s, _). s \<noteq> None) sorted @ filter (\<lambda>(s, _). s = None) sorted)"

definition QueryMultiChainUserItemInfos ::
  "portfolio_env \<Rightarrow> string list \<Rightarrow> string list \<Rightarrow> string list \<Rightarrow> int \<Rightarrow> int \<Rightarrow> (PortfolioItemInfo list \<times> int) B" where
  "QueryMultiChainUserItemInfos pf chns userAddrs contractAddrs page pageSize =
     (let be = pf_env pf; pasted = userAddrs @ contractAddrs
      in and_then (bk_raw be pasted (\<lambda>ts. map_option length (user_items be chns userAddrs contractAddrs ts))) (\<lambda>count.
         and_then (bk_raw be pasted (\<lambda>ts. Option.bind (user_items be chns userAddrs contractAddrs ts)
             (\<lambda>rows. limit_offset pageSize (wrap64 (page - 1)) (last_bought_first pf rows)))) (\<lambda>rows.
           State_Monad.return (Inr (map (\<lambda>(s, i). portfolio_item s i) rows, int count)))))"

text \<open>The statement for listings is the same text.\<close>

definition QueryMultiChainUserListingItemInfos where
  "QueryMultiChainUserListingItemInfos pf chns userAddrs contractAddrs page pageSize =
     QueryMultiChainUserItemInfos pf chns userAddrs contractAddrs page pageSize"

section \<open>Grouping by chain\<close>

text \<open>Go maps from a chain's name to a slice, kept in the order of their first insertion.\<close>

definition add_group :: "string \<Rightarrow> 'a \<Rightarrow> (string \<times> 'a list) list \<Rightarrow> (string \<times> 'a list) list" where
  "add_group k v m = AList.update k (case map_of m k of None \<Rightarrow> [v] | Some vs \<Rightarrow> vs @ [v]) m"

definition group_on :: "('a \<Rightarrow> string) \<Rightarrow> ('a \<Rightarrow> 'b) \<Rightarrow> 'a list \<Rightarrow> (string \<times> 'b list) list" where
  "group_on k f xs = foldl (\<lambda>m x. add_group (k x) (f x) m) [] xs"

definition walk_groups :: "portfolio_env \<Rightarrow> (string \<times> 'a list) list \<Rightarrow> (string \<times> 'a list) list" where
  "walk_groups pf m = map (\<lambda>k. (k, the (map_of m k))) (pf_key_order pf (map fst m))"

text \<open>A union over the groups of one statement: each group reads the tables of its chain.\<close>

fun union_groups :: "(tables \<Rightarrow> 'a list \<Rightarrow> 'r list) \<Rightarrow> (string \<rightharpoonup> tables) \<Rightarrow> (string \<times> 'a list) list \<Rightarrow> 'r list option" where
  "union_groups q ts [] = Some []"
| "union_groups q ts ((chain, xs) # gs) = (case (ts chain, union_groups q ts gs) of
       (Some t, Some rest) \<Rightarrow> Some (q t xs @ rest) | _ \<Rightarrow> None)"

definition nonempty_union :: "(tables \<Rightarrow> 'a list \<Rightarrow> 'r list) \<Rightarrow> (string \<times> 'a list) list \<Rightarrow> (string \<rightharpoonup> tables) \<Rightarrow> 'r list option" where
  "nonempty_union q gs ts = (if gs = [] then None else union_groups q ts gs)"

text \<open>The values of the items pasted into a statement.\<close>

definition pasted_items :: "MultiChainItemInfo list \<Rightarrow> string list" where
  "pasted_items infos = concat (map (\<lambda>m. [mi_CollectionAddress m, mi_TokenID m]) infos)"

definition is_info :: "backend_env \<Rightarrow> string \<Rightarrow> string \<Rightarrow> MultiChainItemInfo \<Rightarrow> bool" where
  "is_info be addr tok m \<longleftrightarrow> collates be addr (mi_CollectionAddress m) \<and> collates be tok (mi_TokenID m)"

section \<open>Listings\<close>

record CollectionItem =
  li_Item :: ItemRow
  li_ListPrice :: price
  li_MarketID :: int
  li_Listing :: bool
  li_OrderStatus :: int

text \<open>The cheapest order of a group decides the price and the market (\<open>SUBSTRING_INDEX(GROUP_CONCAT(...))\<close>); the status
  shown is that of any row of the group.\<close>

definition listing_of_group :: "env \<Rightarrow> ItemRow \<Rightarrow> OrderRow list \<Rightarrow> CollectionItem" where
  "listing_of_group e i os = (let cheapest = hd (sort_key ord_price (sort_key ord_marketplace_id os))
     in \<lparr>li_Item = i, li_ListPrice = ord_price cheapest, li_MarketID = ord_marketplace_id cheapest,
         li_Listing = (ord_price cheapest \<noteq> 0), li_OrderStatus = ord_order_status (hd (row_order e os))\<rparr>)"

definition joins_item :: "backend_env \<Rightarrow> OrderRow \<Rightarrow> ItemRow \<Rightarrow> bool" where
  "joins_item be co ci \<longleftrightarrow> collates be (ord_collection_address co) (item_collection_address ci) \<and>
     collates be (ord_token_id co) (item_token_id ci)"

definition owner_lists :: "backend_env \<Rightarrow> OrderRow \<Rightarrow> ItemRow \<Rightarrow> bool" where
  "owner_lists be co ci = (case item_owner ci of
       None \<Rightarrow> False | Some o' \<Rightarrow> collates be (ToLower (ord_maker co)) (ToLower o'))"

definition grouped_listings ::
  "backend_env \<Rightarrow> (OrderRow \<Rightarrow> ItemRow \<Rightarrow> bool) \<Rightarrow> tables \<Rightarrow> CollectionItem list" where
  "grouped_listings be P t = concat (map (\<lambda>i.
     let os = filter (\<lambda>co. joins_item be co i \<and> P co i) (t_orders t)
     in if os = [] then [] else [listing_of_group (be_env be) i os]) (t_items t))"

definition user_listing ::
  "backend_env \<Rightarrow> string list \<Rightarrow> int set \<Rightarrow> MultiChainItemInfo list \<Rightarrow> OrderRow \<Rightarrow> ItemRow \<Rightarrow> bool" where
  "user_listing be userAddrs statuses infos co ci \<longleftrightarrow>
     list_ex (is_info be (ord_collection_address co) (ord_token_id co)) infos \<and> ord_order_type co = ListingOrder \<and>
     ord_order_status co \<in> statuses \<and> owner_lists be co ci \<and> among be userAddrs (ord_maker co)"

definition QueryMultiChainUserItemsListInfo ::
  "portfolio_env \<Rightarrow> string list \<Rightarrow> MultiChainItemInfo list \<Rightarrow> CollectionItem list B" where
  "QueryMultiChainUserItemsListInfo pf userAddrs itemInfos = (let be = pf_env pf in
     bk_raw be (userAddrs @ pasted_items itemInfos)
       (nonempty_union (\<lambda>t infos. map (\<lambda>l. l\<lparr>li_OrderStatus := 0\<rparr>)
            (grouped_listings be (user_listing be userAddrs {OrderStatusActive} infos) t))
          (walk_groups pf (group_on (\<lambda>m. ToLower (mi_ChainName m)) (\<lambda>m. m) itemInfos))))"

text \<open>With expired listings: one statement for each item asked for, each over all pairs asked for, and the first
  element is read without a check.\<close>

definition not_banned :: "OrderRow \<Rightarrow> ItemRow \<Rightarrow> bool" where
  "not_banned co ci \<longleftrightarrow> \<not> (item_is_opensea_banned ci \<and> ord_marketplace_id co = 1)"

definition QueryMultiChainUserItemsExpireListInfo ::
  "portfolio_env \<Rightarrow> string list \<Rightarrow> MultiChainItemInfo list \<Rightarrow> CollectionItem list B" where
  "QueryMultiChainUserItemsExpireListInfo pf userAddrs itemInfos = (let be = pf_env pf in
     if itemInfos = [] then State_Monad.return (Inl (Panicked IndexOutOfRange))
     else bk_raw be (userAddrs @ pasted_items itemInfos)
       (nonempty_union (\<lambda>t infos. grouped_listings be (\<lambda>co ci.
            user_listing be userAddrs {OrderStatusActive, OrderStatusExpired} itemInfos co ci \<and> not_banned co ci) t)
          (map (\<lambda>m. (mi_ChainName m, [m])) itemInfos)))"

record MultiChainItemPriceInfo =
  mp_CollectionAddress :: string
  mp_TokenID :: string
  mp_Maker :: string
  mp_Price :: price
  mp_OrderStatus :: int
  mp_ChainName :: string

definition listing_order_columns :: "OrderRow \<Rightarrow> OrderRow" where
  "listing_order_columns r = r\<lparr>ord_id := 0, ord_marketplace_id := 0, ord_order_status := 0, ord_currency_address := [],
     ord_price := 0, ord_taker := [], ord_quantity_remaining := 0, ord_size := 0, ord_order_type := 0\<rparr>"

definition priced_as :: "backend_env \<Rightarrow> OrderRow \<Rightarrow> MultiChainItemPriceInfo \<Rightarrow> bool" where
  "priced_as be co p \<longleftrightarrow> collates be (ord_collection_address co) (mp_CollectionAddress p) \<and>
     collates be (ord_token_id co) (mp_TokenID p) \<and> collates be (ord_maker co) (mp_Maker p) \<and>
     ord_order_status co = mp_OrderStatus p \<and> ord_price co = mp_Price p"

definition pasted_prices :: "MultiChainItemPriceInfo list \<Rightarrow> string list" where
  "pasted_prices ps = concat (map (\<lambda>p. [mp_CollectionAddress p, mp_TokenID p, mp_Maker p]) ps)"

definition QueryMultiChainListingInfo ::
  "portfolio_env \<Rightarrow> MultiChainItemPriceInfo list \<Rightarrow> OrderRow list B" where
  "QueryMultiChainListingInfo pf priceInfos = (let be = pf_env pf in
     bk_raw be (pasted_prices priceInfos)
       (nonempty_union (\<lambda>t ps. map listing_order_columns (row_order (be_env be)
            (filter (\<lambda>co. list_ex (priced_as be co) ps) (t_orders t))))
          (walk_groups pf (group_on (\<lambda>p. ToLower (mp_ChainName p)) (\<lambda>p. p) priceInfos))))"

definition external_columns :: "ItemExternalRow \<Rightarrow> ItemExternalRow" where
  "external_columns r = r\<lparr>ext_meta_data_uri := [], ext_is_video_uploaded := False, ext_video_type := [],
     ext_video_uri := [], ext_video_oss_uri := []\<rparr>"

definition QueryMultiChainCollectionsItemsImage ::
  "portfolio_env \<Rightarrow> MultiChainItemInfo list \<Rightarrow> ItemExternalRow list B" where
  "QueryMultiChainCollectionsItemsImage pf itemInfos = (let be = pf_env pf in
     bk_raw be (pasted_items itemInfos)
       (nonempty_union (\<lambda>t infos. map external_columns
            (filter (\<lambda>r. list_ex (is_info be (ext_collection_address r) (ext_token_id r)) infos) (t_item_external t)))
          (walk_groups pf (group_on (\<lambda>m. ToLower (mi_ChainName m)) (\<lambda>m. m) itemInfos))))"

definition zero_collection :: CollectionRow where
  "zero_collection = \<lparr>col_address = [], col_chain_id = 0, col_symbol = [], col_name = [], col_image_uri = [],
     col_creator = [], col_token_standard = 0, col_floor_price = None, col_sale_price = None, col_volume_total = 0,
     col_floor_price_status = 0, col_update_time = 0, col_id = 0, col_banner = [], col_banner_uri = [],
     col_item_amount = 0, col_owner_amount = 0\<rparr>"

definition QueryMultiChainCollectionsInfo :: "backend_env \<Rightarrow> string list list \<Rightarrow> CollectionRow list B" where
  "QueryMultiChainCollectionsInfo be collectionAddrs = read_each be
     (\<lambda>k ts. map_option (\<lambda>t. map_option collectionDetailFields (find (\<lambda>c. collates be (col_address c) (k ! 0)) (t_collections t)))
        (ts (k ! 1)))
     (removeRepeatedElementArr collectionAddrs [] []) zero_collection []"

section \<open>Bids, names and images of a page of items\<close>

text \<open>Goroutines over the groups of a map, each with a result of its own; when some fail, one error is reported.\<close>

fun gather :: "('g \<Rightarrow> 'r B) \<Rightarrow> 'g list \<Rightarrow> 'r list \<Rightarrow> backend_error option \<Rightarrow> 'r list B" where
  "gather f [] acc queryErr = State_Monad.return (case queryErr of None \<Rightarrow> Inr acc | Some err \<Rightarrow> Inl err)"
| "gather f (g # gs) acc queryErr = do {
     r \<leftarrow> f g;
     case r of Inl err \<Rightarrow> gather f gs acc (Some err) | Inr x \<Rightarrow> gather f gs (acc @ [x]) queryErr
   }"

definition resolveChainName :: "(int \<rightharpoonup> string) \<Rightarrow> string list \<Rightarrow> int \<Rightarrow> string" where
  "resolveChainName chainIDToChainName chain i =
     (let chainName = TrimSpace (case chainIDToChainName i of None \<Rightarrow> '''' | Some n \<Rightarrow> n);
          fallbackChainName = (case chain of [] \<Rightarrow> '''' | n # _ \<Rightarrow> n)
      in if chainName = '''' then TrimSpace fallbackChainName else chainName)"

definition item_infos :: "(int \<Rightarrow> string) \<Rightarrow> PortfolioItemInfo list \<Rightarrow> MultiChainItemInfo list" where
  "item_infos resolve items = concat (map (\<lambda>i. let n = resolve (pi_ChainID i) in
     if n = '''' then [] else [\<lparr>mi_CollectionAddress = pi_CollectionAddress i, mi_TokenID = pi_TokenID i, mi_ChainName = n\<rparr>]) items)"

type_synonym bid_map = "string \<times> string \<times> string \<rightharpoonup> OrderRow"

definition put_collection_bid :: "string \<Rightarrow> bid_map \<Rightarrow> OrderRow \<Rightarrow> bid_map" where
  "put_collection_bid chain m r = m((ToLower (ord_collection_address r), '''', chain) \<mapsto> r)"

definition put_item_bid :: "string \<Rightarrow> bid_map \<Rightarrow> OrderRow \<Rightarrow> bid_map" where
  "put_item_bid chain m r = (let k = (ToLower (ord_collection_address r), ord_token_id r, chain) in
     case m k of None \<Rightarrow> m(k \<mapsto> r) | Some old \<Rightarrow> if ord_price r > ord_price old then m(k \<mapsto> r) else m)"

definition add_bids :: "(string \<Rightarrow> bid_map \<Rightarrow> OrderRow \<Rightarrow> bid_map) \<Rightarrow> bid_map \<Rightarrow> string \<times> OrderRow list \<Rightarrow> bid_map" where
  "add_bids put m = (\<lambda>(chain, bids). foldl (put chain) m bids)"

record portfolio_maps =
  pm_collectionBestBids :: bid_map
  pm_itemsBestBids :: bid_map
  pm_collectionInfos :: "string \<rightharpoonup> CollectionRow"

text \<open>The address of the user whose bids are left out is the first one asked for.\<close>

definition portfolio_queries ::
  "portfolio_env \<Rightarrow> string list \<Rightarrow> MultiChainItemInfo list \<Rightarrow> portfolio_maps B" where
  "portfolio_queries pf userAddrs infos =
     (let be = pf_env pf; userAddr = (case userAddrs of [] \<Rightarrow> '''' | u # _ \<Rightarrow> u);
          chainCollections = walk_groups pf (group_on (\<lambda>m. ToLower (mi_ChainName m)) mi_CollectionAddress infos);
          multichainItems = walk_groups pf (group_on mi_ChainName (\<lambda>m. (mi_CollectionAddress m, mi_TokenID m)) infos)
      in and_then (gather (\<lambda>(chain, cs). and_then (QueryCollectionsBestBid be chain userAddr cs)
             (\<lambda>bids. State_Monad.return (Inr (chain, bids)))) chainCollections [] None) (\<lambda>cbids.
         and_then (gather (\<lambda>(chain, its).
             if sql_literal userAddr
             then and_then (on_chain be chain (QueryItemsBestBids (be_env be) (\<lambda>_ t. ([], t)) userAddr its))
               (\<lambda>bids. State_Monad.return (Inr (chain, bids)))
             else State_Monad.return (Inl PastedText)) multichainItems [] None) (\<lambda>ibids.
         and_then (QueryMultiChainCollectionsInfo be (map (\<lambda>m. [ToLower (mi_CollectionAddress m), mi_ChainName m]) infos))
           (\<lambda>collections. State_Monad.return (Inr
             \<lparr>pm_collectionBestBids = foldl (add_bids put_collection_bid) Map.empty cbids,
              pm_itemsBestBids = foldl (add_bids put_item_bid) Map.empty ibids,
              pm_collectionInfos = foldl (\<lambda>m c. m(ToLower (col_address c) \<mapsto> c)) Map.empty collections\<rparr>)))))"

text \<open>The bid shown for an item: its own best bid when dearer than the best bid for its collection, and without a bid of
  its own the best bid for the collection.\<close>

definition bid_shown :: "portfolio_maps \<Rightarrow> (int \<rightharpoonup> string) \<Rightarrow> PortfolioItemInfo \<Rightarrow> shown_bid" where
  "bid_shown pm chainIDToChainName i =
     (let chain = (case chainIDToChainName (pi_ChainID i) of None \<Rightarrow> '''' | Some n \<Rightarrow> n);
          addr = ToLower (pi_CollectionAddress i);
          cBid = pm_collectionBestBids pm (addr, '''', chain)
      in case pm_itemsBestBids pm (addr, pi_TokenID i, chain) of
           Some bidOrder \<Rightarrow> if ord_price bidOrder > (case cBid of None \<Rightarrow> 0 | Some c \<Rightarrow> ord_price c) then show_bid bidOrder else no_bid
         | None \<Rightarrow> (case cBid of None \<Rightarrow> no_bid | Some c \<Rightarrow> show_bid c))"

text \<open>The map of listings by item, the orders behind them, and the images.\<close>

definition listing_map :: "CollectionItem list \<Rightarrow> (string \<times> CollectionItem) list" where
  "listing_map listings = foldl (\<lambda>m l. AList.update
     (item_key (item_collection_address (li_Item l)) (item_token_id (li_Item l))) l m) [] listings"

definition price_infos ::
  "portfolio_env \<Rightarrow> (int \<rightharpoonup> string) \<Rightarrow> (CollectionItem \<Rightarrow> int) \<Rightarrow> (string \<times> CollectionItem) list \<Rightarrow> MultiChainItemPriceInfo list" where
  "price_infos pf chainIDToChainName status listingInfos = concat (map (\<lambda>k.
     let l = the (map_of listingInfos k); i = li_Item l in
     if \<not> li_Listing l then []
     else (case chainIDToChainName (item_chain_id i) of
         None \<Rightarrow> []
       | Some n \<Rightarrow> if TrimSpace n = '''' then []
           else [\<lparr>mp_CollectionAddress = item_collection_address i, mp_TokenID = item_token_id i,
                  mp_Maker = (case item_owner i of None \<Rightarrow> '''' | Some o' \<Rightarrow> o'), mp_Price = li_ListPrice l,
                  mp_OrderStatus = status l, mp_ChainName = n\<rparr>])) (pf_key_order pf (map fst listingInfos)))"

definition order_map :: "OrderRow list \<Rightarrow> (string \<rightharpoonup> OrderRow)" where
  "order_map os = foldl (\<lambda>m r. m(item_key (ord_collection_address r) (ord_token_id r) \<mapsto> r)) Map.empty os"

definition image_map :: "ItemExternalRow list \<Rightarrow> (string \<rightharpoonup> ItemExternalRow)" where
  "image_map rows = foldl (\<lambda>m r. m(item_key (ext_collection_address r) (ext_token_id r) \<mapsto> r)) Map.empty rows"

text \<open>The orders of the listings, when there are any, and the images of the items.\<close>

definition listing_queries ::
  "portfolio_env \<Rightarrow> (int \<rightharpoonup> string) \<Rightarrow> (CollectionItem \<Rightarrow> int) \<Rightarrow> (string \<times> CollectionItem) list \<Rightarrow> MultiChainItemInfo list \<Rightarrow>
   ((string \<rightharpoonup> OrderRow) \<times> (string \<rightharpoonup> ItemExternalRow)) B" where
  "listing_queries pf chainIDToChainName status listingInfos infos =
     (let itemPrice = price_infos pf chainIDToChainName status listingInfos
      in and_then (if itemPrice = [] then State_Monad.return (Inr []) else QueryMultiChainListingInfo pf itemPrice) (\<lambda>os.
         and_then (QueryMultiChainCollectionsItemsImage pf infos) (\<lambda>images.
           State_Monad.return (Inr (order_map os, image_map images)))))"

section \<open>User items\<close>

definition fill_item ::
  "portfolio_maps \<Rightarrow> (int \<rightharpoonup> string) \<Rightarrow> (string \<times> CollectionItem) list \<Rightarrow> (string \<rightharpoonup> OrderRow) \<Rightarrow> (string \<rightharpoonup> ItemExternalRow) \<Rightarrow>
   PortfolioItemInfo \<Rightarrow> PortfolioItemInfo" where
  "fill_item pm chainIDToChainName listingInfos orderIds itemExternals i =
     (let k = item_key (pi_CollectionAddress i) (pi_TokenID i);
          i1 = i\<lparr>pi_Bid := bid_shown pm chainIDToChainName i\<rparr>;
          i2 = (case pm_collectionInfos pm (ToLower (pi_CollectionAddress i)) of
                  None \<Rightarrow> i1
                | Some c \<Rightarrow> i1\<lparr>pi_CollectionName := col_name c, pi_FloorPrice := (case col_floor_price c of None \<Rightarrow> 0 | Some p \<Rightarrow> p),
                    pi_CollectionImageURI := col_image_uri c,
                    pi_Name := (if pi_Name i = '''' then col_name c @ '' #'' @ pi_TokenID i else pi_Name i)\<rparr>);
          i3 = (case map_of listingInfos k of
                  None \<Rightarrow> i2
                | Some l \<Rightarrow> i2\<lparr>pi_ListPrice := li_ListPrice l, pi_Listing := li_Listing l, pi_MarketplaceID := li_MarketID l\<rparr>);
          i4 = (case orderIds k of
                  None \<Rightarrow> i3
                | Some r \<Rightarrow> i3\<lparr>pi_List := \<lparr>sl_OrderID = ord_order_id r, sl_Time = ord_event_time r,
                    sl_ExpireTime = ord_expire_time r, sl_Salt = ord_salt r, sl_Maker = ord_maker r\<rparr>\<rparr>)
      in case itemExternals k of None \<Rightarrow> i4 | Some x \<Rightarrow> i4\<lparr>pi_ImageURI := shown_image x\<rparr>)"

record UserItemsResp =
  ui_Result :: "PortfolioItemInfo list"
  ui_Count :: int

definition GetMultiChainUserItems ::
  "portfolio_env \<Rightarrow> (int \<times> string) list \<Rightarrow> string list \<Rightarrow> string list \<Rightarrow> int \<Rightarrow> int \<Rightarrow> UserItemsResp B" where
  "GetMultiChainUserItems pf chns userAddrs contractAddrs page pageSize =
     and_then (QueryMultiChainUserItemInfos pf (map snd chns) userAddrs contractAddrs page pageSize) (\<lambda>(items, count).
       if count = 0 then State_Monad.return (Inr \<lparr>ui_Result = items, ui_Count = count\<rparr>)
       else (let chainIDToChainName = foldl (\<lambda>m (i, n). m(i \<mapsto> n)) Map.empty chns;
                 infos = item_infos (resolveChainName chainIDToChainName (map snd chns)) items
         in and_then (portfolio_queries pf userAddrs infos) (\<lambda>pm.
            and_then (QueryMultiChainUserItemsListInfo pf userAddrs infos) (\<lambda>listings.
            let listingInfos = listing_map listings in
            and_then (listing_queries pf chainIDToChainName (\<lambda>_. OrderStatusActive) listingInfos infos) (\<lambda>(orderIds, itemExternals).
              State_Monad.return (Inr \<lparr>ui_Result = map (fill_item pm chainIDToChainName listingInfos orderIds itemExternals) items,
                ui_Count = count\<rparr>))))))"

section \<open>User listings\<close>

record Listing =
  lst_CollectionAddress :: string
  lst_CollectionName :: string
  lst_ImageURI :: string
  lst_Name :: string
  lst_TokenID :: string
  lst_MarketplaceID :: int
  lst_ChainID :: int
  lst_ListPrice :: price
  lst_List :: shown_listing
  lst_Bid :: shown_bid
  lst_FloorPrice :: price

text \<open>The entry of an item with a listing; the time of the listing is not filled in.\<close>

definition listing_entry ::
  "portfolio_maps \<Rightarrow> (int \<rightharpoonup> string) \<Rightarrow> (string \<rightharpoonup> OrderRow) \<Rightarrow> (string \<rightharpoonup> ItemExternalRow) \<Rightarrow> CollectionItem \<Rightarrow> PortfolioItemInfo \<Rightarrow> Listing" where
  "listing_entry pm chainIDToChainName orderIds itemExternals l i =
     (let k = item_key (pi_CollectionAddress i) (pi_TokenID i); c = pm_collectionInfos pm (ToLower (pi_CollectionAddress i))
      in \<lparr>lst_CollectionAddress = pi_CollectionAddress i, lst_CollectionName = (case c of None \<Rightarrow> '''' | Some c \<Rightarrow> col_name c),
          lst_ImageURI = (case itemExternals k of None \<Rightarrow> '''' | Some x \<Rightarrow> shown_image x),
          lst_Name = (case c of None \<Rightarrow> '''' | Some c \<Rightarrow> col_name c @ '' #'' @ pi_TokenID i), lst_TokenID = pi_TokenID i,
          lst_MarketplaceID = li_MarketID l, lst_ChainID = pi_ChainID i, lst_ListPrice = li_ListPrice l,
          lst_List = (case orderIds k of None \<Rightarrow> no_listing | Some r \<Rightarrow> no_listing\<lparr>sl_OrderID := ord_order_id r,
              sl_ExpireTime := ord_expire_time r, sl_Maker := ord_maker r, sl_Salt := ord_salt r\<rparr>),
          lst_Bid = bid_shown pm chainIDToChainName i,
          lst_FloorPrice = (case c of None \<Rightarrow> 0 | Some c \<Rightarrow> (case col_floor_price c of None \<Rightarrow> 0 | Some p \<Rightarrow> p))\<rparr>)"

record UserListingsResp =
  ul_Count :: int
  ul_Result :: "Listing list"

fun listing_entries ::
  "(CollectionItem \<Rightarrow> PortfolioItemInfo \<Rightarrow> Listing) \<Rightarrow> (string \<times> CollectionItem) list \<Rightarrow> PortfolioItemInfo list \<Rightarrow> int \<Rightarrow> Listing list \<Rightarrow>
   UserListingsResp" where
  "listing_entries entry listingInfos [] cnt result = \<lparr>ul_Count = cnt, ul_Result = result\<rparr>"
| "listing_entries entry listingInfos (i # items) cnt result =
     (case map_of listingInfos (item_key (pi_CollectionAddress i) (pi_TokenID i)) of
        None \<Rightarrow> listing_entries entry listingInfos items (cnt - 1) result
      | Some l \<Rightarrow> listing_entries entry listingInfos items cnt (result @ [entry l i]))"

definition GetMultiChainUserListings ::
  "portfolio_env \<Rightarrow> (int \<times> string) list \<Rightarrow> string list \<Rightarrow> string list \<Rightarrow> int \<Rightarrow> int \<Rightarrow> UserListingsResp B" where
  "GetMultiChainUserListings pf chns userAddrs contractAddrs page pageSize =
     and_then (QueryMultiChainUserListingItemInfos pf (map snd chns) userAddrs contractAddrs page pageSize) (\<lambda>(items, count).
       if count = 0 then State_Monad.return (Inr \<lparr>ul_Count = count, ul_Result = []\<rparr>)
       else (let chainIDToChainName = foldl (\<lambda>m (i, n). m(i \<mapsto> n)) Map.empty chns;
                 infos = item_infos (resolveChainName chainIDToChainName (map snd chns)) items
         in and_then (portfolio_queries pf userAddrs infos) (\<lambda>pm.
            and_then (QueryMultiChainUserItemsExpireListInfo pf userAddrs infos) (\<lambda>listings.
            let listingInfos = listing_map listings in
            and_then (listing_queries pf chainIDToChainName li_OrderStatus listingInfos infos) (\<lambda>(orderIds, itemExternals).
              State_Monad.return (Inr (listing_entries (listing_entry pm chainIDToChainName orderIds itemExternals)
                listingInfos items count [])))))))"

section \<open>User collections\<close>

record UserCollections =
  uc_ChainID :: int
  uc_Address :: string
  uc_Name :: string
  uc_Symbol :: string
  uc_ImageURI :: string
  uc_ItemCount :: int
  uc_FloorPrice :: price
  uc_ItemAmount :: int

definition user_collection :: "CollectionRow \<Rightarrow> nat \<Rightarrow> UserCollections" where
  "user_collection c n = \<lparr>uc_ChainID = col_chain_id c, uc_Address = col_address c, uc_Name = col_name c,
     uc_Symbol = col_symbol c, uc_ImageURI = col_image_uri c, uc_ItemCount = int n,
     uc_FloorPrice = (case col_floor_price c of None \<Rightarrow> 0 | Some p \<Rightarrow> p), uc_ItemAmount = col_item_amount c\<rparr>"

text \<open>\<open>... GROUP BY gc.address\<close>: the collections with at least one item of the users, and how many.\<close>

definition owned_in :: "backend_env \<Rightarrow> string list \<Rightarrow> tables \<Rightarrow> CollectionRow \<Rightarrow> nat" where
  "owned_in be userAddrs t c = length (filter (\<lambda>i. collates be (col_address c) (item_collection_address i) \<and>
     owned_by be userAddrs i) (t_items t))"

fun union_collections :: "backend_env \<Rightarrow> string list \<Rightarrow> string list \<Rightarrow> (string \<rightharpoonup> tables) \<Rightarrow> (CollectionRow \<times> nat) list option" where
  "union_collections be userAddrs [] ts = Some []"
| "union_collections be userAddrs (chain # chns) ts = (case (ts chain, union_collections be userAddrs chns ts) of
       (Some t, Some rest) \<Rightarrow> Some (filter (\<lambda>(_, n). 0 < n) (map (\<lambda>c. (c, owned_in be userAddrs t c)) (t_collections t)) @ rest)
     | _ \<Rightarrow> None)"

text \<open>\<open>ORDER BY floor_price * item_count DESC\<close>: a collection without a floor price comes last.\<close>

definition by_value :: "(CollectionRow \<times> nat) list \<Rightarrow> (CollectionRow \<times> nat) list" where
  "by_value rows =
     (let sorted = sort_key (\<lambda>(c, n). case col_floor_price c of None \<Rightarrow> 0 | Some p \<Rightarrow> - (p * of_nat n)) rows
      in filter (\<lambda>(c, _). col_floor_price c \<noteq> None) sorted @ filter (\<lambda>(c, _). col_floor_price c = None) sorted)"

definition QueryMultiChainUserCollectionInfos ::
  "backend_env \<Rightarrow> ((CollectionRow \<times> nat) list \<Rightarrow> (CollectionRow \<times> nat) list) \<Rightarrow> string list \<Rightarrow> string list \<Rightarrow> UserCollections list B" where
  "QueryMultiChainUserCollectionInfos be rows_as chainNames userAddrs =
     bk_raw be userAddrs (\<lambda>ts. if chainNames = [] \<or> userAddrs = [] then None
       else map_option (\<lambda>rows. map (\<lambda>(c, n). user_collection c n) (by_value (rows_as rows)))
         (union_collections be userAddrs chainNames ts))"

definition listed_orders :: "backend_env \<Rightarrow> string list \<Rightarrow> string list \<Rightarrow> tables \<Rightarrow> (OrderRow \<times> ItemRow) list" where
  "listed_orders be addrs userAddrs t = concat (map (\<lambda>ci. map (\<lambda>co. (co, ci)) (filter (\<lambda>co. joins_item be co ci \<and>
     among be addrs (ord_collection_address co) \<and> owned_by be userAddrs ci \<and> ord_order_type co = ListingOrder \<and>
     ord_order_status co = OrderStatusActive \<and> owner_lists be co ci \<and> not_banned co ci) (t_orders t))) (t_items t))"

text \<open>\<open>COUNT(DISTINCT token_id)\<close> of the listed items of each collection.\<close>

definition QueryListedAmountEachCollection ::
  "backend_env \<Rightarrow> string \<Rightarrow> string list \<Rightarrow> string list \<Rightarrow> (string \<times> int) list B" where
  "QueryListedAmountEachCollection be chain addrs userAddrs = bk_query be (\<lambda>ts. map_option (\<lambda>t.
     let rows = listed_orders be addrs userAddrs t
     in map (\<lambda>a. (a, int (length (distinct_up_to (collates be)
            (map (\<lambda>(co, _). ord_token_id co) (filter (\<lambda>(_, ci). collates be (item_collection_address ci) a) rows))))))
          (distinct_up_to (collates be) (map (\<lambda>(_, ci). item_collection_address ci) rows))) (ts chain))"

record CollectionInfo =
  ci_ChainID :: int
  ci_Name :: string
  ci_Address :: string
  ci_Symbol :: string
  ci_ImageURI :: string
  ci_ListAmount :: int
  ci_ItemAmount :: int
  ci_FloorPrice :: price

record ChainInfo =
  ch_ChainID :: int
  ch_ItemOwned :: int
  ch_ItemValue :: price

definition collection_info :: "(string \<rightharpoonup> int) \<Rightarrow> UserCollections \<Rightarrow> CollectionInfo" where
  "collection_info listed c = \<lparr>ci_ChainID = uc_ChainID c, ci_Name = uc_Name c, ci_Address = uc_Address c,
     ci_Symbol = uc_Symbol c, ci_ImageURI = uc_ImageURI c,
     ci_ListAmount = (case listed (ToLower (uc_Address c)) of None \<Rightarrow> 0 | Some n \<Rightarrow> n),
     ci_ItemAmount = uc_ItemCount c, ci_FloorPrice = uc_FloorPrice c\<rparr>"

definition add_chain_info :: "(int \<rightharpoonup> ChainInfo) \<Rightarrow> UserCollections \<Rightarrow> (int \<rightharpoonup> ChainInfo)" where
  "add_chain_info m c = (let v = of_int (uc_ItemCount c) * uc_FloorPrice c in
     case m (uc_ChainID c) of
       Some ch \<Rightarrow> m(uc_ChainID c \<mapsto> ch\<lparr>ch_ItemOwned := wrap64 (ch_ItemOwned ch + uc_ItemCount c), ch_ItemValue := ch_ItemValue ch + v\<rparr>)
     | None \<Rightarrow> m(uc_ChainID c \<mapsto> \<lparr>ch_ChainID = uc_ChainID c, ch_ItemOwned = uc_ItemCount c, ch_ItemValue = v\<rparr>))"

text \<open>The orders of the server and of Go's walks over the two maps by chain; a failed count of listings is left out.\<close>

record collections_env =
  ce_rows :: "(CollectionRow \<times> nat) list \<Rightarrow> (CollectionRow \<times> nat) list"
  ce_ids :: "int list \<Rightarrow> int list"
  ce_out :: "int list \<Rightarrow> int list"

fun listed_amounts ::
  "backend_env \<Rightarrow> (int \<rightharpoonup> string) \<Rightarrow> string list \<Rightarrow> UserCollections list \<Rightarrow> int list \<Rightarrow> (string \<times> int) list \<Rightarrow> (string \<times> int) list B" where
  "listed_amounts be names userAddrs collections [] listed = State_Monad.return (Inr listed)"
| "listed_amounts be names userAddrs collections (i # ids) listed = do {
     r \<leftarrow> QueryListedAmountEachCollection be (case names i of None \<Rightarrow> '''' | Some n \<Rightarrow> n)
            (map uc_Address (filter (\<lambda>c. uc_ChainID c = i) collections)) userAddrs;
     listed_amounts be names userAddrs collections ids (case r of Inl _ \<Rightarrow> listed | Inr ns \<Rightarrow> listed @ ns)
   }"

definition GetMultiChainUserCollections ::
  "backend_env \<Rightarrow> collections_env \<Rightarrow> (int \<times> string) list \<Rightarrow> string list \<Rightarrow> string list \<Rightarrow> (CollectionInfo list \<times> ChainInfo list) B" where
  "GetMultiChainUserCollections be ce chainSupported chainNames userAddrs =
     and_then (QueryMultiChainUserCollectionInfos be (ce_rows ce) chainNames userAddrs) (\<lambda>collections.
       let chainIDToChainName = foldl (\<lambda>m (i, n). m(i \<mapsto> n)) Map.empty chainSupported;
           ids = remdups (map uc_ChainID collections)
       in and_then (listed_amounts be chainIDToChainName userAddrs collections (ce_ids ce ids) []) (\<lambda>listed.
         let collectionsListed = foldl (\<lambda>m (a, n). m(ToLower a \<mapsto> n)) Map.empty listed;
             chainInfos = foldl add_chain_info Map.empty collections
         in State_Monad.return (Inr (map (collection_info collectionsListed) collections,
              map (\<lambda>i. the (chainInfos i)) (ce_out ce ids)))))"

section \<open>Item bids are lost\<close>

text \<open>A result of a call: what \<open>P\<close> says holds whenever the call answers.\<close>

definition answers :: "'a B \<Rightarrow> ('a \<Rightarrow> bool) \<Rightarrow> bool" where
  "answers m P \<longleftrightarrow> (\<forall>b a b'. run_state m b = (Inr a, b') \<longrightarrow> P a)"

lemma answersI: "(\<And>b a b'. run_state m b = (Inr a, b') \<Longrightarrow> P a) \<Longrightarrow> answers m P"
  by (simp add: answers_def)

lemma answersD: "answers m P \<Longrightarrow> run_state m b = (Inr a, b') \<Longrightarrow> P a"
  by (auto simp: answers_def)

lemma answers_and_then: "answers m P \<Longrightarrow> (\<And>a. P a \<Longrightarrow> answers (f a) Q) \<Longrightarrow> answers (and_then m f) Q"
  unfolding answers_def by (fastforce split: prod.splits sum.splits)

lemma answers_True: "answers m (\<lambda>_. True)"
  by (simp add: answers_def)

lemma answers_return: "P a \<Longrightarrow> answers (State_Monad.return (Inr a)) P"
  by (simp add: answers_def)

lemma answers_gather: "(\<And>g. g \<in> set gs \<Longrightarrow> answers (f g) P) \<Longrightarrow> list_all P acc \<Longrightarrow> answers (gather f gs acc err) (list_all P)"
proof (induction gs arbitrary: acc err)
  case Nil
  then show ?case by (auto simp: answers_def split: option.splits)
next
  case (Cons g gs)
  show ?case
  proof (rule answersI)
    fix b rs b'
    assume r: "run_state (gather f (g # gs) acc err) b = (Inr rs, b')"
    obtain x b1 where x: "run_state (f g) b = (x, b1)" by fastforce
    show "list_all P rs"
    proof (cases x)
      case (Inl err')
      then show ?thesis using r x Cons.IH [of acc "Some err'"] Cons.prems by (auto simp: answers_def)
    next
      case (Inr y)
      then have "P y" using x Cons.prems(1) [of g] by (auto simp: answers_def)
      then show ?thesis using r x Inr Cons.IH [of "acc @ [y]" err] Cons.prems by (auto simp: answers_def)
    qed
  qed
qed

lemma item_bids_have_no_address:
  "answers (on_chain be chain (QueryItemsBestBids e sp u its)) (list_all (\<lambda>r. ord_collection_address r = ''''))"
  if "sql_literal u"
proof (rule answersI)
  fix b bids b'
  assume "run_state (on_chain be chain (QueryItemsBestBids e sp u its)) b = (Inr bids, b')"
  then obtain w w' where "run_state (QueryItemsBestBids e sp u its) w = (Inr bids, w')"
    by (auto simp: on_chain_def split: option.splits prod.splits sum.splits)
  then show "list_all (\<lambda>r. ord_collection_address r = '''') bids"
    using that by (auto simp: QueryItemsBestBids_def raw_query_def db_exec_def item_columns_def Let_def list_all_iff
        split: if_splits outcome.splits prod.splits)
qed

lemma collection_bids_are_collection_bids:
  assumes "server_orders_rows (be_env be)"
  shows "answers (QueryCollectionsBestBid be chain u addrs) (list_all (\<lambda>r. ord_order_type r = CollectionBidOrder))"
proof (rule answersI)
  fix b bids b'
  assume r: "run_state (QueryCollectionsBestBid be chain u addrs) b = (Inr bids, b')"
  obtain t2 t rows where "bids = map best_bid_columns (row_order (be_env be) rows)"
      "list_all (live_bid (be_env be) t2 u CollectionBidOrder) rows"
    using run_bk_raw_Inr [OF r [unfolded QueryCollectionsBestBid_def Let_def bk_now_def, simplified]]
    by (fastforce simp: list_all_iff)
  moreover have "set (row_order (be_env be) rows) = set rows"
    using assms unfolding server_orders_rows_def by (metis set_mset_mset)
  ultimately show "list_all (\<lambda>r. ord_order_type r = CollectionBidOrder) bids"
    by (auto simp: list_all_iff best_bid_columns_def live_bid_def)
qed

definition no_address_keys :: "bid_map \<Rightarrow> bool" where
  "no_address_keys m \<longleftrightarrow> (\<forall>k r. m k = Some r \<longrightarrow> fst k = '''')"

definition only_collection_bids :: "bid_map \<Rightarrow> bool" where
  "only_collection_bids m \<longleftrightarrow> (\<forall>k r. m k = Some r \<longrightarrow> ord_order_type r = CollectionBidOrder)"

lemma foldl_inv: "(\<And>m x. x \<in> set xs \<Longrightarrow> I m \<Longrightarrow> I (f m x)) \<Longrightarrow> I m \<Longrightarrow> I (foldl f m xs)"
  by (induction xs arbitrary: m) auto

lemma put_item_bid_keys: "ord_collection_address r = '''' \<Longrightarrow> no_address_keys m \<Longrightarrow> no_address_keys (put_item_bid c m r)"
  by (auto simp: put_item_bid_def no_address_keys_def ToLower_def Let_def split: option.split)

lemma put_collection_bid_type:
  "ord_order_type r = CollectionBidOrder \<Longrightarrow> only_collection_bids m \<Longrightarrow> only_collection_bids (put_collection_bid c m r)"
  by (auto simp: put_collection_bid_def only_collection_bids_def)

lemma add_bids_inv:
  assumes "\<And>c m r. P r \<Longrightarrow> I m \<Longrightarrow> I (put c m r)" "list_all (\<lambda>cb. list_all P (snd cb)) cbs" "I Map.empty"
  shows "I (foldl (add_bids put) Map.empty cbs)"
proof (rule foldl_inv [where I = I and m = Map.empty, OF _ assms(3)])
  fix m and cb :: "string \<times> OrderRow list"
  assume "cb \<in> set cbs" "I m"
  then show "I (add_bids put m cb)"
    using assms(1,2) unfolding add_bids_def by (auto simp: list_all_iff split: prod.split intro!: foldl_inv [where I = I])
qed

lemma no_bid_keys:
  "list_all (\<lambda>cb. list_all (\<lambda>r. ord_collection_address r = '''') (snd cb)) cbs \<Longrightarrow>
     no_address_keys (foldl (add_bids put_item_bid) Map.empty cbs)"
  by (rule add_bids_inv [where I = no_address_keys and P = "\<lambda>r. ord_collection_address r = ''''"])
    (auto simp: put_item_bid_keys, simp add: no_address_keys_def)

lemma no_bid_types:
  "list_all (\<lambda>cb. list_all (\<lambda>r. ord_order_type r = CollectionBidOrder) (snd cb)) cbs \<Longrightarrow>
     only_collection_bids (foldl (add_bids put_collection_bid) Map.empty cbs)"
  by (rule add_bids_inv [where I = only_collection_bids and P = "\<lambda>r. ord_order_type r = CollectionBidOrder"])
    (auto simp: put_collection_bid_type, simp add: only_collection_bids_def)

lemma portfolio_queries_answer:
  assumes "server_orders_rows (be_env (pf_env pf))"
  shows "answers (portfolio_queries pf us infos)
    (\<lambda>pm. no_address_keys (pm_itemsBestBids pm) \<and> only_collection_bids (pm_collectionBestBids pm))"
proof -
  let ?coll = "list_all (\<lambda>r. ord_order_type r = CollectionBidOrder)"
  let ?addr = "list_all (\<lambda>r. ord_collection_address r = '''')"
  show ?thesis
    unfolding portfolio_queries_def Let_def
    apply (rule answers_and_then [where P = "list_all (\<lambda>cb. ?coll (snd cb))"])
     apply (rule answers_gather)
      apply (clarsimp split: prod.split)
      apply (rule answers_and_then [OF collection_bids_are_collection_bids [OF assms]])
      apply (simp add: answers_return)
     apply simp
    apply (rule answers_and_then [where P = "list_all (\<lambda>cb. ?addr (snd cb))"])
     apply (rule answers_gather)
      apply (clarsimp split: prod.split)
    subgoal by (auto simp: answers_def [of "State_Monad.return (Inl PastedText)"] intro!: answers_and_then [OF item_bids_have_no_address] answers_return)
     apply simp
    apply (rule answers_and_then [OF answers_True])
    apply (rule answers_return)
    by (simp add: no_bid_keys no_bid_types)
qed

text \<open>What the answer of \<open>GetMultiChainUserItems\<close> is made of.\<close>

lemma user_items_answer:
  assumes "run_state (GetMultiChainUserItems pf chns us cs page ps) b = (Inr resp, b')"
  obtains items n b1 where
    "run_state (QueryMultiChainUserItemInfos pf (map snd chns) us cs page ps) b = (Inr (items, n), b1)"
    "ui_Count resp = n"
    "n = 0 \<and> ui_Result resp = items \<or>
     (\<exists>pm infos b2 b3 names li os im. run_state (portfolio_queries pf us infos) b2 = (Inr pm, b3) \<and>
        ui_Result resp = map (fill_item pm names li os im) items)"
  using assms unfolding GetMultiChainUserItems_def
  by (fastforce simp: Let_def split: prod.splits sum.splits if_splits)

lemma query_items_answer:
  assumes "run_state (QueryMultiChainUserItemInfos pf chns us cs page ps) b = (Inr (items, n), b1)"
  obtains rows where "user_items (pf_env pf) chns us cs (bk_tables b) = Some rows" "n = int (length rows)"
    "0 \<le> ps" "0 \<le> wrap64 (page - 1)"
    "items = map (\<lambda>(s, i). portfolio_item s i) (take (nat ps) (drop (nat (wrap64 (page - 1))) (last_bought_first pf rows)))"
proof -
  let ?be = "pf_env pf"
  obtain cnt b2 shown where q: "run_state (bk_raw ?be (us @ cs) (\<lambda>ts. map_option length (user_items ?be chns us cs ts))) b = (Inr cnt, b2)"
      "run_state (bk_raw ?be (us @ cs) (\<lambda>ts. Option.bind (user_items ?be chns us cs ts)
         (\<lambda>rows. limit_offset ps (wrap64 (page - 1)) (last_bought_first pf rows)))) b2 = (Inr shown, b1)"
      "items = map (\<lambda>(s, i). portfolio_item s i) shown" "n = int cnt"
    using assms by (auto simp: QueryMultiChainUserItemInfos_def Let_def split: prod.splits sum.splits)
  show ?thesis
    using run_bk_raw_Inr [OF q(1)] run_bk_raw_Inr [OF q(2)] q(3,4) that
    by (auto simp: bind_eq_Some_conv dest!: limit_offset_Some)
qed

lemma fill_item_keeps [simp]:
  "pi_Bid (fill_item pm names li os im i) = bid_shown pm names i"
  "pi_ChainID (fill_item pm names li os im i) = pi_ChainID i"
  "pi_CollectionAddress (fill_item pm names li os im i) = pi_CollectionAddress i"
  "pi_TokenID (fill_item pm names li os im i) = pi_TokenID i"
  "pi_Owner (fill_item pm names li os im i) = pi_Owner i"
  by (simp_all add: fill_item_def Let_def split: option.split)

lemma collection_bid_shown:
  assumes "no_address_keys (pm_itemsBestBids pm)" "only_collection_bids (pm_collectionBestBids pm)" "pi_CollectionAddress i \<noteq> ''''"
  shows "bid_shown pm names i = no_bid \<or> sb_Type (bid_shown pm names i) = getBidType CollectionBidOrder"
proof -
  have "ToLower (pi_CollectionAddress i) \<noteq> ''''" using assms(3) by (simp add: ToLower_def)
  then have "pm_itemsBestBids pm (ToLower (pi_CollectionAddress i), tok, c) = None" for tok c
    using assms(1) by (force simp: no_address_keys_def)
  then show ?thesis
    using assms(2) by (auto simp: bid_shown_def Let_def only_collection_bids_def show_bid_def split: option.split)
qed

text \<open>C25: The statement for the bids on single items does not select the address of the collection, so its rows are filed
  under an empty address and never found: whatever bids there are on a user's item, its entry shows no bid or a bid
  for the whole collection.\<close>

theorem item_bids_are_never_shown:
  assumes "server_orders_rows (be_env (pf_env pf))"
    and "run_state (GetMultiChainUserItems pf chns us cs page ps) b = (Inr resp, b')"
    and "i \<in> set (ui_Result resp)" "pi_CollectionAddress i \<noteq> ''''"
  shows "pi_Bid i = no_bid \<or> sb_Type (pi_Bid i) = getBidType CollectionBidOrder"
proof -
  obtain items n b1 where items: "run_state (QueryMultiChainUserItemInfos pf (map snd chns) us cs page ps) b = (Inr (items, n), b1)"
    and res: "n = 0 \<and> ui_Result resp = items \<or>
      (\<exists>pm infos b2 b3 names li os im. run_state (portfolio_queries pf us infos) b2 = (Inr pm, b3) \<and>
        ui_Result resp = map (fill_item pm names li os im) items)"
    by (rule user_items_answer [OF assms(2)]) simp
  show ?thesis
  proof (cases "ui_Result resp = items")
    case True
    obtain shown where "items = map (\<lambda>(s, i). portfolio_item s i) shown" by (rule query_items_answer [OF items]) simp
    then show ?thesis using True assms(3) by (auto simp: portfolio_item_def)
  next
    case False
    then obtain pm infos b2 b3 names li os im where pm: "run_state (portfolio_queries pf us infos) b2 = (Inr pm, b3)"
        "ui_Result resp = map (fill_item pm names li os im) items" using res by blast
    have "no_address_keys (pm_itemsBestBids pm) \<and> only_collection_bids (pm_collectionBestBids pm)"
      by (rule answersD [OF portfolio_queries_answer [OF assms(1)] pm(1)])
    moreover obtain x where "i = fill_item pm names li os im x" "pi_CollectionAddress x \<noteq> ''''"
      using assms(3,4) pm(2) by auto
    ultimately show ?thesis using collection_bid_shown [of pm x names] by simp
  qed
qed

section \<open>Pages of items\<close>

text \<open>The items of the users on the chains, and the columns that identify an entry.\<close>

definition owned_items :: "backend_env \<Rightarrow> string list \<Rightarrow> string list \<Rightarrow> string list \<Rightarrow> (string \<rightharpoonup> tables) \<Rightarrow> ItemRow list" where
  "owned_items be chns userAddrs contractAddrs ts = concat (map (\<lambda>c. filter (\<lambda>i. owned_by be userAddrs i \<and>
     of_contracts be contractAddrs i) (t_items (the (ts c)))) chns)"

definition item_columns3 :: "ItemRow \<Rightarrow> int \<times> string \<times> string" where
  "item_columns3 i = (item_chain_id i, item_collection_address i, item_token_id i)"

definition entry_columns :: "PortfolioItemInfo \<Rightarrow> int \<times> string \<times> string" where
  "entry_columns p = (pi_ChainID p, pi_CollectionAddress p, pi_TokenID p)"

lemma entry_columns_simps [simp]:
  "entry_columns (fill_item pm names li os im i) = entry_columns i" "entry_columns (portfolio_item s r) = item_columns3 r"
  by (simp_all add: entry_columns_def item_columns3_def portfolio_item_def)

lemma user_items_owned:
  "user_items be chns us cs ts = Some rows \<Longrightarrow> map snd rows = owned_items be chns us cs ts"
proof -
  have "union_items be us cs chns ts = Some rows \<Longrightarrow> map snd rows = owned_items be chns us cs ts" for rows
    by (induction chns arbitrary: rows) (auto simp: owned_items_def o_def split: option.splits)
  then show "user_items be chns us cs ts = Some rows \<Longrightarrow> map snd rows = owned_items be chns us cs ts"
    by (simp add: user_items_def split: if_splits)
qed

definition orders_items :: "portfolio_env \<Rightarrow> bool" where
  "orders_items pf \<longleftrightarrow> (\<forall>rows. mset (pf_item_order pf rows) = mset rows)"

lemma mset_last_bought_first: "orders_items pf \<Longrightarrow> mset (last_bought_first pf rows) = mset rows"
  unfolding last_bought_first_def Let_def mset_append mset_filter
  by (simp add: orders_items_def)

lemma user_items_entries:
  assumes "run_state (GetMultiChainUserItems pf chns us cs page ps) b = (Inr resp, b')"
  obtains rows where "user_items (pf_env pf) (map snd chns) us cs (bk_tables b) = Some rows"
    "ui_Count resp = int (length rows)" "0 \<le> ps" "0 \<le> wrap64 (page - 1)"
    "map entry_columns (ui_Result resp) =
       map (\<lambda>(s, i). item_columns3 i) (take (nat ps) (drop (nat (wrap64 (page - 1))) (last_bought_first pf rows)))"
proof -
  obtain items n b1 where items: "run_state (QueryMultiChainUserItemInfos pf (map snd chns) us cs page ps) b = (Inr (items, n), b1)"
    and n: "ui_Count resp = n" and res: "n = 0 \<and> ui_Result resp = items \<or>
      (\<exists>pm infos b2 b3 names li os im. run_state (portfolio_queries pf us infos) b2 = (Inr pm, b3) \<and>
        ui_Result resp = map (fill_item pm names li os im) items)"
    by (rule user_items_answer [OF assms]) simp
  have entries: "map entry_columns (ui_Result resp) = map entry_columns items" using res by auto
  show ?thesis
    by (rule query_items_answer [OF items], rule that) (simp_all add: n entries o_def case_prod_beta')
qed

text \<open>Pages of a user's items are one item apart, whatever their size: page \<open>p\<close> of size \<open>n\<close> shows the \<open>n\<close> items from
  the \<open>p\<close>-th on, in a fixed order of all items of the user; the count is the number of all items.\<close>

theorem item_pages_overlap:
  assumes "orders_items pf" "1 \<le> page" "in_i64 page"
    and "run_state (GetMultiChainUserItems pf chns us cs page ps) b = (Inr resp, b')"
  shows "\<exists>all. mset all = mset (map item_columns3 (owned_items (pf_env pf) (map snd chns) us cs (bk_tables b))) \<and>
    map entry_columns (ui_Result resp) = take (nat ps) (drop (nat page - 1) all) \<and>
    ui_Count resp = int (length all)"
proof -
  obtain rows where rows: "user_items (pf_env pf) (map snd chns) us cs (bk_tables b) = Some rows"
      "ui_Count resp = int (length rows)"
      "map entry_columns (ui_Result resp) =
         map (\<lambda>(s, i). item_columns3 i) (take (nat ps) (drop (nat (wrap64 (page - 1))) (last_bought_first pf rows)))"
    by (rule user_items_entries [OF assms(4)]) simp
  let ?all = "map (\<lambda>(s, i). item_columns3 i) (last_bought_first pf rows)"
  have "mset ?all = mset (map item_columns3 (map snd rows))"
    unfolding mset_map mset_last_bought_first [OF assms(1)] by (simp add: multiset.map_comp o_def case_prod_beta')
  then have "mset ?all = mset (map item_columns3 (owned_items (pf_env pf) (map snd chns) us cs (bk_tables b)))"
    unfolding user_items_owned [OF rows(1)] .
  moreover have "length ?all = length rows"
    using mset_last_bought_first [OF assms(1), of rows] by (metis length_map size_mset)
  moreover have "nat (wrap64 (page - 1)) = nat page - 1"
    using assms(2,3) by (simp add: wrap64_id in_i64_def nat_diff_distrib)
  ultimately show ?thesis using rows by (intro exI [of _ ?all]) (simp add: take_map drop_map)
qed

lemma known_user_items:
  assumes "known_chains ts chns" "us \<noteq> []"
  shows "\<exists>rows. user_items be chns us cs ts = Some rows \<and> map snd rows = owned_items be chns us cs ts"
proof -
  have "list_all (\<lambda>c. ts c \<noteq> None) chns \<Longrightarrow> union_items be us cs chns ts \<noteq> None"
    by (induction chns) auto
  then show ?thesis using assms user_items_owned by (force simp: user_items_def known_chains_def)
qed

text \<open>Without an item on the page the queries for bids and collections do not reach the database.\<close>

lemma portfolio_queries_empty:
  "pf_key_order pf [] = [] \<Longrightarrow> \<exists>pm. run_state (portfolio_queries pf us []) b = (Inr pm, b)"
  by (simp add: portfolio_queries_def walk_groups_def group_on_def Let_def QueryMultiChainCollectionsInfo_def)

lemma query_items_past_end:
  assumes "db_works (be_env (pf_env pf))" "orders_items pf" "list_all sql_literal (us @ cs)"
    and "known_chains (bk_tables b) chns" "us \<noteq> []" "0 \<le> ps" "1 \<le> page" "in_i64 page"
    and "int (length (owned_items (pf_env pf) chns us cs (bk_tables b))) < page"
  shows "\<exists>b1. run_state (QueryMultiChainUserItemInfos pf chns us cs page ps) b =
    (Inr ([], int (length (owned_items (pf_env pf) chns us cs (bk_tables b)))), b1) \<and> bk_tables b1 = bk_tables b"
proof -
  obtain rows where rows: "user_items (pf_env pf) chns us cs (bk_tables b) = Some rows"
      "map snd rows = owned_items (pf_env pf) chns us cs (bk_tables b)"
    using known_user_items [OF assms(4,5)] by blast
  have n: "length (owned_items (pf_env pf) chns us cs (bk_tables b)) = length rows" by (simp flip: rows(2))
  have len: "length (last_bought_first pf rows) = length rows"
    using mset_last_bought_first [OF assms(2), of rows] by (metis size_mset)
  have off: "wrap64 (page - 1) = page - 1" using assms(7,8) by (simp add: wrap64_id in_i64_def)
  have "limit_offset ps (wrap64 (page - 1)) (last_bought_first pf rows) = Some []"
    using assms(6,7,9) len n off by (simp add: limit_offset_def)
  then show ?thesis
    using assms(1,3) rows n by (simp add: QueryMultiChainUserItemInfos_def Let_def run_bk_raw_works)
qed

text \<open>A page past the last item is an error: \<open>GetMultiChainUserItems\<close> sends a statement without a table, which the
  server rejects, and \<open>GetMultiChainUserListings\<close> panics.\<close>

theorem page_past_the_end_fails:
  assumes "db_works (be_env (pf_env pf))" "orders_items pf" "pf_key_order pf [] = []" "list_all sql_literal (us @ cs)"
    and "known_chains (bk_tables b) (map snd chns)" "us \<noteq> []" "0 \<le> ps" "in_i64 page"
    and "owned_items (pf_env pf) (map snd chns) us cs (bk_tables b) \<noteq> []"
    and "int (length (owned_items (pf_env pf) (map snd chns) us cs (bk_tables b))) < page"
  shows "fst (run_state (GetMultiChainUserItems pf chns us cs page ps) b) = Inl DBFailed \<and>
    fst (run_state (GetMultiChainUserListings pf chns us cs page ps) b) = Inl (Panicked IndexOutOfRange)"
proof -
  let ?n = "length (owned_items (pf_env pf) (map snd chns) us cs (bk_tables b))"
  have "1 \<le> page" using assms(10) by simp
  then obtain b1 where q: "run_state (QueryMultiChainUserItemInfos pf (map snd chns) us cs page ps) b = (Inr ([], int ?n), b1)"
    using query_items_past_end [OF assms(1,2,4,5,6,7) _ assms(8,10)] by blast
  obtain pm where pm: "run_state (portfolio_queries pf us []) b1 = (Inr pm, b1)"
    using portfolio_queries_empty [of pf us b1] assms(3) by blast
  have infos: "item_infos f [] = []" for f by (simp add: item_infos_def)
  have "\<exists>b2. run_state (QueryMultiChainUserItemsListInfo pf us []) b1 = (Inl DBFailed, b2)"
    using assms(1,3,4) by (simp add: QueryMultiChainUserItemsListInfo_def Let_def pasted_items_def run_bk_raw_works
        nonempty_union_def walk_groups_def group_on_def)
  moreover have "run_state (QueryMultiChainUserItemsExpireListInfo pf us []) b1 = (Inl (Panicked IndexOutOfRange), b1)"
    by (simp add: QueryMultiChainUserItemsExpireListInfo_def)
  ultimately show ?thesis
    using q pm assms(9) by (auto simp: GetMultiChainUserItems_def GetMultiChainUserListings_def
        QueryMultiChainUserListingItemInfos_def infos Let_def)
qed

section \<open>Value of a portfolio\<close>

definition chain_sum :: "UserCollections list \<Rightarrow> int \<Rightarrow> price \<times> int" where
  "chain_sum cs i = (let own = filter (\<lambda>c. uc_ChainID c = i) cs
     in (\<Sum>c\<leftarrow>own. of_int (uc_ItemCount c) * uc_FloorPrice c, wrap64 (\<Sum>c\<leftarrow>own. uc_ItemCount c)))"

lemma chain_infos_sum:
  assumes "list_all (\<lambda>c. in_i64 (uc_ItemCount c)) cs"
  shows "foldl add_chain_info Map.empty cs = (\<lambda>i. if i \<in> uc_ChainID ` set cs
    then Some \<lparr>ch_ChainID = i, ch_ItemOwned = snd (chain_sum cs i), ch_ItemValue = fst (chain_sum cs i)\<rparr> else None)"
  using assms
proof (induction cs rule: rev_induct)
  case (snoc c cs)
  have none: "filter (\<lambda>ca. uc_ChainID ca = uc_ChainID c) cs = []" if "uc_ChainID c \<notin> uc_ChainID ` set cs"
    using that by (induction cs) auto
  from snoc show ?case
    by (cases "uc_ChainID c \<in> uc_ChainID ` set cs")
      (auto simp: none add_chain_info_def Let_def chain_sum_def wrap64_add wrap64_id fun_eq_iff)
qed simp

text \<open>C24: The value shown for a chain is the sum, over the collections shown for it, of the number of the user's items
  times the floor price, and the number of items is the sum in 64 bits; every chain of a collection is shown once.\<close>

theorem chain_totals_add_up:
  assumes "\<And>ids. mset (ce_out ce ids) = mset ids"
    and "run_state (GetMultiChainUserCollections be ce supported names us) b = (Inr (infos, chns), b')"
    and "list_all (\<lambda>c. in_i64 (ci_ItemAmount c)) infos"
  shows "distinct (map ch_ChainID chns) \<and> set (map ch_ChainID chns) = set (map ci_ChainID infos) \<and>
    list_all (\<lambda>ch. ch_ItemValue ch = (\<Sum>c\<leftarrow>filter (\<lambda>c. ci_ChainID c = ch_ChainID ch) infos. of_int (ci_ItemAmount c) * ci_FloorPrice c) \<and>
      ch_ItemOwned ch = wrap64 (\<Sum>c\<leftarrow>filter (\<lambda>c. ci_ChainID c = ch_ChainID ch) infos. ci_ItemAmount c)) chns"
proof -
  obtain cs listed where cs: "infos = map (collection_info listed) cs"
      "chns = map (\<lambda>i. the (foldl add_chain_info Map.empty cs i)) (ce_out ce (remdups (map uc_ChainID cs)))"
    using assms(2) by (auto simp: GetMultiChainUserCollections_def Let_def split: prod.splits sum.splits)
  have "list_all (\<lambda>c. in_i64 (uc_ItemCount c)) cs"
    using assms(3) cs(1) by (simp add: list_all_iff collection_info_def)
  note m = chain_infos_sum [OF this]
  have ids: "set (ce_out ce (remdups (map uc_ChainID cs))) = uc_ChainID ` set cs" "distinct (ce_out ce (remdups (map uc_ChainID cs)))"
    using assms(1) by (metis set_mset_mset set_remdups set_map, metis distinct_remdups mset_eq_imp_distinct_iff)
  have chns: "chns = map (\<lambda>i. \<lparr>ch_ChainID = i, ch_ItemOwned = snd (chain_sum cs i), ch_ItemValue = fst (chain_sum cs i)\<rparr>)
      (ce_out ce (remdups (map uc_ChainID cs)))"
    unfolding cs(2) m using ids(1) by simp
  show ?thesis
    using ids by (auto simp: chns cs(1) list_all_iff chain_sum_def Let_def collection_info_def o_def filter_map)
qed

section \<open>Concrete runs\<close>

definition sample_pf :: portfolio_env where
  "sample_pf = \<lparr>pf_env = plain_backend, pf_item_order = (\<lambda>rs. rs), pf_key_order = (\<lambda>ks. ks)\<rparr>"

definition wallet_item :: "string \<Rightarrow> ItemRow" where
  "wallet_item tok = \<lparr>item_chain_id = 1, item_collection_address = ''c'', item_token_id = tok, item_name = [],
     item_owner = Some ''u'', item_creator = [], item_supply = 1, item_list_price = None, item_list_time = 0,
     item_sale_price = None, item_views = 0, item_is_opensea_banned = False, item_update_time = 0\<rparr>"

definition wallet_backend :: backend where
  "wallet_backend = empty_backend\<lparr>bk_tables := [''e'' \<mapsto> empty_tables\<lparr>t_items := [wallet_item ''1''],
     t_orders := map (\<lambda>r. r\<lparr>ord_collection_address := ''c'', ord_maker := ''b''\<rparr>)
       [sample_bid ''a'' ''1'' ItemBidOrder 9 1, sample_bid ''b'' '''' CollectionBidOrder 5 1]\<rparr>]\<rparr>"

text \<open>One user with one item that has a bid of its own (9) and a collection with a bid (5).\<close>

lemma trim_e: "TrimSpace ''e'' = ''e''"
  by (rule TrimSpace_plain) (simp add: plain_char_def)

lemma lower_e: "ToLower ''e'' = ''e''"
  by (simp add: ToLower_def lower_char_def)

abbreviation wallet_info :: MultiChainItemInfo where
  "wallet_info \<equiv> \<lparr>mi_CollectionAddress = ''c'', mi_TokenID = ''1'', mi_ChainName = ''e''\<rparr>"

lemmas wallet_simps = sample_pf_def Let_def bk_raw_def sql_literal_def bk_query_def plain_backend_def
  plain_env_def [THEN arg_cong [of _ _ db_outcome]] plain_env_def [THEN arg_cong [of _ _ coll_eq]]
  plain_env_def [THEN arg_cong [of _ _ row_order]] EqualFold_def walk_groups_def group_on_def add_group_def lower_e
lemma wallet_queries:
  "bk_tables b = bk_tables wallet_backend \<Longrightarrow> \<exists>pm b1. run_state (portfolio_queries sample_pf [''u''] [wallet_info]) b = (Inr pm, b1) \<and>
     bk_tables b1 = bk_tables wallet_backend"
  by (simp add: portfolio_queries_def wallet_simps QueryCollectionsBestBid_def bk_now_def wallet_backend_def on_chain_def
      QueryItemsBestBids_def raw_query_def db_exec_def now_def QueryMultiChainCollectionsInfo_def fun_upd_idem empty_tables_def start_world_def)

lemma wallet_listings:
  "bk_tables b = bk_tables wallet_backend \<Longrightarrow> \<exists>b1. run_state (QueryMultiChainUserItemsListInfo sample_pf [''u''] [wallet_info]) b = (Inr [], b1) \<and>
     bk_tables b1 = bk_tables wallet_backend"
  by (simp add: QueryMultiChainUserItemsListInfo_def wallet_simps pasted_items_def nonempty_union_def wallet_backend_def
      grouped_listings_def user_listing_def sample_bid_def order_type_defs empty_tables_def)

lemma wallet_orders:
  "bk_tables b = bk_tables wallet_backend \<Longrightarrow> \<exists>x b1. run_state (listing_queries sample_pf names st (listing_map []) [wallet_info]) b = (Inr x, b1)"
  by (simp add: listing_queries_def wallet_simps price_infos_def listing_map_def QueryMultiChainCollectionsItemsImage_def
      pasted_items_def nonempty_union_def wallet_backend_def empty_tables_def)

lemma wallet_query:
  "\<exists>i b1. run_state (QueryMultiChainUserItemInfos sample_pf [''e''] [''u''] [] 1 10) wallet_backend = (Inr ([i], 1), b1) \<and>
     bk_tables b1 = bk_tables wallet_backend \<and> pi_ChainID i = 1 \<and> pi_CollectionAddress i = ''c'' \<and> pi_TokenID i = ''1''"
  by (simp add: QueryMultiChainUserItemInfos_def wallet_simps wallet_backend_def user_items_def wallet_item_def owned_by_def among_def
      of_contracts_def limit_offset_def wrap64_def last_bought_first_def owned_since_def empty_tables_def portfolio_item_def empty_backend_def)

lemma wallet_answer:
  obtains resp b' i where "run_state (GetMultiChainUserItems sample_pf [(1, ''e'')] [''u''] [] 1 10) wallet_backend = (Inr resp, b')"
    "ui_Result resp = [i]" "pi_CollectionAddress i = ''c''"
proof -
  obtain i b1 where q: "run_state (QueryMultiChainUserItemInfos sample_pf [''e''] [''u''] [] 1 10) wallet_backend = (Inr ([i], 1), b1)"
      "bk_tables b1 = bk_tables wallet_backend" and i: "pi_ChainID i = 1" "pi_CollectionAddress i = ''c''" "pi_TokenID i = ''1''"
    using wallet_query by blast
  obtain pm b2 where pm: "run_state (portfolio_queries sample_pf [''u''] [wallet_info]) b1 = (Inr pm, b2)" "bk_tables b2 = bk_tables wallet_backend"
    using wallet_queries [OF q(2)] by blast
  obtain b3 where li: "run_state (QueryMultiChainUserItemsListInfo sample_pf [''u''] [wallet_info]) b2 = (Inr [], b3)" "bk_tables b3 = bk_tables wallet_backend"
    using wallet_listings [OF pm(2)] by blast
  obtain os im b4 where lq: "run_state (listing_queries sample_pf [1 \<mapsto> ''e''] (\<lambda>_. OrderStatusActive) (listing_map []) [wallet_info]) b3 = (Inr (os, im), b4)"
    using wallet_orders [OF li(2)] by (metis prod.collapse)
  have "item_infos (resolveChainName [1 \<mapsto> ''e''] [''e'']) [i] = [wallet_info]"
    by (simp add: item_infos_def resolveChainName_def i trim_e)
  then have "run_state (GetMultiChainUserItems sample_pf [(1, ''e'')] [''u''] [] 1 10) wallet_backend =
      (Inr \<lparr>ui_Result = [fill_item pm [1 \<mapsto> ''e''] (listing_map []) os im i], ui_Count = 1\<rparr>, b4)"
    by (simp add: GetMultiChainUserItems_def q pm li lq Let_def)
  moreover have "pi_CollectionAddress (fill_item pm [1 \<mapsto> ''e''] (listing_map []) os im i) = ''c''"
    unfolding fill_item_keeps(3) by (rule i)
  ultimately show ?thesis using that by simp
qed

lemma sample_pf_env:
  "db_works (be_env (pf_env sample_pf))" "orders_items sample_pf" "pf_key_order sample_pf [] = []"
  "server_orders_rows (be_env (pf_env sample_pf))"
  using bid_market by (simp_all add: sample_pf_def orders_items_def plain_backend_def market_def)

lemma wallet_items:
  "owned_items (pf_env sample_pf) [''e''] [''u''] [] (bk_tables wallet_backend) = [wallet_item ''1'']"
  by (simp add: owned_items_def wallet_backend_def wallet_item_def owned_by_def of_contracts_def among_def sample_pf_def
      plain_backend_def plain_env_def EqualFold_def)

lemma wallet_chains: "known_chains (bk_tables wallet_backend) [''e'']"
  by (simp add: known_chains_def wallet_backend_def)

theorem item_bids_are_never_shown_witness:
  "\<exists>resp i. fst (run_state (GetMultiChainUserItems sample_pf [(1, ''e'')] [''u''] [] 1 10) wallet_backend) = Inr resp \<and>
     ui_Result resp = [i] \<and> (pi_Bid i = no_bid \<or> sb_Type (pi_Bid i) = getBidType CollectionBidOrder)"
proof -
  obtain resp b' i where r: "run_state (GetMultiChainUserItems sample_pf [(1, ''e'')] [''u''] [] 1 10) wallet_backend = (Inr resp, b')"
    "ui_Result resp = [i]" "pi_CollectionAddress i = ''c''" by (rule wallet_answer)

  then show ?thesis using item_bids_are_never_shown [OF sample_pf_env(4) r(1), of i] r by auto
qed

theorem item_pages_overlap_witness:
  "\<exists>resp. fst (run_state (GetMultiChainUserItems sample_pf [(1, ''e'')] [''u''] [] 1 10) wallet_backend) = Inr resp \<and>
     map entry_columns (ui_Result resp) = [(1, ''c'', ''1'')] \<and> ui_Count resp = 1"
proof -
  obtain resp b' i where r: "run_state (GetMultiChainUserItems sample_pf [(1, ''e'')] [''u''] [] 1 10) wallet_backend = (Inr resp, b')"
    by (rule wallet_answer)
  obtain all where "mset all = {#(1, ''c'', ''1'')#}" "map entry_columns (ui_Result resp) = take 10 all"
      "ui_Count resp = int (length all)"
    using item_pages_overlap [OF sample_pf_env(2) _ _ r] wallet_items
    by (auto simp: in_i64_def item_columns3_def wallet_item_def)
  then show ?thesis using r by auto
qed

theorem page_past_the_end_fails_witness:
  "fst (run_state (GetMultiChainUserItems sample_pf [(1, ''e'')] [''u''] [] 2 10) wallet_backend) = Inl DBFailed \<and>
   fst (run_state (GetMultiChainUserListings sample_pf [(1, ''e'')] [''u''] [] 2 10) wallet_backend) = Inl (Panicked IndexOutOfRange)"
  by (rule page_past_the_end_fails [OF sample_pf_env(1-3)])
    (simp_all add: wallet_items in_i64_def sql_literal_def wallet_chains)

definition collections_backend :: backend where
  "collections_backend = empty_backend\<lparr>bk_tables := [''e'' \<mapsto> empty_tables\<lparr>t_items := [wallet_item ''1'', wallet_item ''2''],
     t_collections := [sample_collection\<lparr>col_address := ''c'', col_chain_id := 1, col_floor_price := Some 3\<rparr>]\<rparr>]\<rparr>"

definition sample_ce :: collections_env where
  "sample_ce = \<lparr>ce_rows = (\<lambda>rs. rs), ce_ids = (\<lambda>ids. ids), ce_out = (\<lambda>ids. ids)\<rparr>"

theorem chain_totals_add_up_witness:
  "\<exists>infos chns. fst (run_state (GetMultiChainUserCollections plain_backend sample_ce [(1, ''e'')] [''e''] [''u'']) collections_backend)
     = Inr (infos, chns) \<and> set (map ch_ChainID chns) = {1} \<and> list_all (\<lambda>ch. ch_ItemValue ch = 6 \<and> ch_ItemOwned ch = 2) chns"
proof -
  have r: "\<exists>infos chns b'. run_state (GetMultiChainUserCollections plain_backend sample_ce [(1, ''e'')] [''e''] [''u'']) collections_backend
      = (Inr (infos, chns), b') \<and> map (\<lambda>c. (ci_ChainID c, ci_ItemAmount c, ci_FloorPrice c)) infos = [(1, 2, 3)]"
    by (simp add: GetMultiChainUserCollections_def QueryMultiChainUserCollectionInfos_def run_bk_raw_works sql_literal_def
        collections_backend_def by_value_def sample_ce_def owned_in_def wallet_item_def owned_by_def among_def EqualFold_def
        plain_backend_def plain_env_def [THEN arg_cong [of _ _ coll_eq]] user_collection_def QueryListedAmountEachCollection_def
        collection_info_def run_bk_query_works Let_def listed_orders_def)
  then obtain infos chns b' where r: "run_state (GetMultiChainUserCollections plain_backend sample_ce [(1, ''e'')] [''e''] [''u'']) collections_backend
      = (Inr (infos, chns), b')" and infos: "map (\<lambda>c. (ci_ChainID c, ci_ItemAmount c, ci_FloorPrice c)) infos = [(1, 2, 3)]" by (elim exE conjE)
  have "list_all (\<lambda>c. in_i64 (ci_ItemAmount c)) infos" using infos by (auto simp: in_i64_def)
  then show ?thesis
    using chain_totals_add_up [OF _ r] infos r
    by (auto simp: sample_ce_def wrap64_def list_all_iff)
qed

end
