(* ===== verification/Catalog.thy ===== *)
theory Catalog
  imports Portfolio
begin

text \<open>
  Pages of a collection: bids by price, items for sale, and the detail of an item, with its bids and listings.
  \<open>service/v1/collection.go\<close> and \<open>item.go\<close> with their statements in \<open>dao/items.go\<close> and \<open>dao/item_external.go\<close> of
  \<open>NFTMarket-backend\<close>.
\<close>

section \<open>Bids by price\<close>

record CollectionBids =
  cb_Price :: price
  cb_Size :: int
  cb_Total :: price
  cb_Bidders :: int

record 'a page_resp =
  pr_Result :: "'a list"
  pr_Count :: int

definition open_collection_bid :: "backend_env \<Rightarrow> int \<Rightarrow> string \<Rightarrow> OrderRow \<Rightarrow> bool" where
  "open_collection_bid be t collectionAddr r \<longleftrightarrow> collates be (ord_collection_address r) collectionAddr \<and>
     ord_order_type r = CollectionBidOrder \<and> ord_order_status r = OrderStatusActive \<and> t < ord_expire_time r"

text \<open>\<open>GROUP BY price ORDER BY price DESC\<close>\<close>

definition price_levels :: "OrderRow list \<Rightarrow> price list" where
  "price_levels rows = rev (sort (remdups (map ord_price rows)))"

definition bid_level :: "backend_env \<Rightarrow> OrderRow list \<Rightarrow> price \<Rightarrow> CollectionBids" where
  "bid_level be rows p = (let own = filter (\<lambda>r. ord_price r = p) rows; size = (\<Sum>r\<leftarrow>own. ord_quantity_remaining r)
     in \<lparr>cb_Price = p, cb_Size = size, cb_Total = of_int size * p,
         cb_Bidders = int (length (distinct_up_to (collates be) (map ord_maker own)))\<rparr>)"

text \<open>The count is over all open bids, the page over those with something left. An offset without a limit is a
  syntax error.\<close>

definition gorm_limit :: "int \<Rightarrow> int \<Rightarrow> 'a list \<Rightarrow> 'a list option" where
  "gorm_limit n m rows = (if n < 0 \<and> 0 < m then None else Some (gorm_page n m rows))"

definition QueryCollectionBids ::
  "backend_env \<Rightarrow> string \<Rightarrow> string \<Rightarrow> int \<Rightarrow> int \<Rightarrow> (CollectionBids list \<times> int) B" where
  "QueryCollectionBids be chain collectionAddr page pageSize = do {
     t1 \<leftarrow> bk_now be;
     and_then (bk_query be (\<lambda>ts. map_option (\<lambda>t. length (price_levels (filter (open_collection_bid be t1 collectionAddr) (t_orders t)))) (ts chain)))
       (\<lambda>cnt. do {
          t2 \<leftarrow> bk_now be;
          and_then (bk_query be (\<lambda>ts. Option.bind (ts chain) (\<lambda>t.
              let rows = filter (\<lambda>r. open_collection_bid be t2 collectionAddr r \<and> 0 < ord_quantity_remaining r) (t_orders t)
              in gorm_limit pageSize (wrap64 (pageSize * wrap64 (page - 1))) (map (bid_level be rows) (price_levels rows)))))
            (\<lambda>bids. State_Monad.return (Inr (bids, int cnt))) })
   }"

definition GetBids :: "backend_env \<Rightarrow> string \<Rightarrow> string \<Rightarrow> int \<Rightarrow> int \<Rightarrow> CollectionBids page_resp B" where
  "GetBids be chain collectionAddr page pageSize =
     and_then (QueryCollectionBids be chain collectionAddr page pageSize)
       (\<lambda>(bids, cnt). State_Monad.return (Inr \<lparr>pr_Result = bids, pr_Count = cnt\<rparr>))"

section \<open>Items for sale\<close>

definition listTime :: int where "listTime = 0"
definition listPriceAsc :: int where "listPriceAsc = 1"
definition listPriceDesc :: int where "listPriceDesc = 2"
definition salePriceDesc :: int where "salePriceDesc = 3"
definition salePriceAsc :: int where "salePriceAsc = 4"

record CollectionItemFilterParams =
  cf_Sort :: int
  cf_TokenID :: string
  cf_UserAddress :: string
  cf_Page :: int
  cf_PageSize :: int

text \<open>Sorting by a nullable price: \<open>NULL\<close> is the least value. Equal rows are ordered by id, and rows without an
  order come as the server chooses.\<close>

definition sort_price_asc :: "('r \<Rightarrow> price option) \<Rightarrow> 'r list \<Rightarrow> 'r list" where
  "sort_price_asc f rows = filter (\<lambda>r. f r = None) rows @
     sort_key (\<lambda>r. case f r of None \<Rightarrow> 0 | Some p \<Rightarrow> p) (filter (\<lambda>r. f r \<noteq> None) rows)"

definition sort_price_desc :: "('r \<Rightarrow> price option) \<Rightarrow> 'r list \<Rightarrow> 'r list" where
  "sort_price_desc f rows = sort_key (\<lambda>r. case f r of None \<Rightarrow> 0 | Some p \<Rightarrow> - p) (filter (\<lambda>r. f r \<noteq> None) rows) @
     filter (\<lambda>r. f r = None) rows"

definition order_items :: "backend_env \<Rightarrow> string \<Rightarrow> int \<Rightarrow> ItemRow list \<Rightarrow> ItemRow list" where
  "order_items be chain srt rows = (let by_id = sort_key (be_item_id be chain) rows
     in if srt = listTime then sort_key (\<lambda>i. - item_list_time i) by_id
        else if srt = listPriceAsc then sort_price_asc item_sale_price by_id
        else if srt = listPriceDesc \<or> srt = salePriceDesc then sort_price_desc item_sale_price by_id
        else if srt = salePriceAsc
          then filter (\<lambda>i. item_sale_price i = None) by_id @
               sort_price_asc item_sale_price (filter (\<lambda>i. item_sale_price i \<noteq> None \<and> item_sale_price i \<noteq> Some 0) by_id) @
               filter (\<lambda>i. item_sale_price i = Some 0) by_id
        else map snd (be_item_order be (map (Pair chain) rows)))"

definition for_sale :: "backend_env \<Rightarrow> CollectionItemFilterParams \<Rightarrow> string \<Rightarrow> ItemRow \<Rightarrow> bool" where
  "for_sale be f collectionAddr i \<longleftrightarrow> collates be (item_collection_address i) collectionAddr \<and> 1 \<le> item_supply i \<and>
     (cf_TokenID f = '''' \<or> collates be (item_token_id i) (cf_TokenID f)) \<and>
     (cf_UserAddress f = '''' \<or> (case item_owner i of None \<Rightarrow> False | Some o' \<Rightarrow> collates be o' (cf_UserAddress f)))"

text \<open>The filter as the code completes it.\<close>

definition complete_filter :: "CollectionItemFilterParams \<Rightarrow> CollectionItemFilterParams" where
  "complete_filter f = f\<lparr>cf_Sort := (if cf_Sort f = 0 then listPriceAsc else cf_Sort f),
     cf_Page := (if cf_Page f \<le> 0 then 1 else cf_Page f), cf_PageSize := (if cf_PageSize f \<le> 0 then 20 else cf_PageSize f)\<rparr>"

definition QueryCollectionItemBySupply ::
  "backend_env \<Rightarrow> string \<Rightarrow> CollectionItemFilterParams \<Rightarrow> string \<Rightarrow> (ItemRow list \<times> int) B" where
  "QueryCollectionItemBySupply be chain f collectionAddr =
     and_then (bk_query be (\<lambda>ts. map_option (\<lambda>t. length (filter (for_sale be f collectionAddr) (t_items t))) (ts chain))) (\<lambda>cnt.
       let g = complete_filter f in
       and_then (bk_query be (\<lambda>ts. Option.bind (ts chain) (\<lambda>t. gorm_limit (cf_PageSize g) (wrap64 (wrap64 (cf_Page g - 1) * cf_PageSize g))
           (order_items be chain (cf_Sort g) (filter (for_sale be f collectionAddr) (t_items t))))))
         (\<lambda>items. State_Monad.return (Inr (items, int cnt))))"

definition QueryCollectionItemsImage ::
  "backend_env \<Rightarrow> string \<Rightarrow> string \<Rightarrow> string list \<Rightarrow> ItemExternalRow list B" where
  "QueryCollectionItemsImage be chain collectionAddr tokenIds = bk_query be (\<lambda>ts. map_option (\<lambda>t.
     map (\<lambda>r. r\<lparr>ext_meta_data_uri := []\<rparr>) (filter (\<lambda>r. collates be (ext_collection_address r) collectionAddr \<and>
       among be tokenIds (ext_token_id r)) (t_item_external t))) (ts chain))"

text \<open>\<open>GROUP BY owner\<close>: a group is shown under one of its spellings.\<close>

definition QueryUsersItemCount :: "backend_env \<Rightarrow> string \<Rightarrow> string \<Rightarrow> string list \<Rightarrow> (string \<times> int) list B" where
  "QueryUsersItemCount be chain collectionAddr owners = bk_query be (\<lambda>ts. map_option (\<lambda>t.
     let names = List.map_filter item_owner (filter (\<lambda>i. collates be (item_collection_address i) collectionAddr \<and>
            owned_by be owners i) (t_items t))
     in map (\<lambda>o'. (o', int (length (filter (collates be o') names)))) (distinct_up_to (collates be) names)) (ts chain))"

text \<open>The sales of an item at the latest time it was sold at.\<close>

definition sale_in :: "backend_env \<Rightarrow> string \<Rightarrow> string list \<Rightarrow> ActivityRow \<Rightarrow> bool" where
  "sale_in be collectionAddr tokenIds a \<longleftrightarrow> act_type a = act_Sale \<and> collates be (act_collection_address a) collectionAddr \<and>
     among be tokenIds (act_token_id a)"

definition QueryLastSalePrice :: "backend_env \<Rightarrow> string \<Rightarrow> string \<Rightarrow> string list \<Rightarrow> (string \<times> price) list B" where
  "QueryLastSalePrice be chain collectionAddr tokenIds = bk_query be (\<lambda>ts. map_option (\<lambda>t.
     let sales = filter (sale_in be collectionAddr tokenIds) (t_activities t)
     in map (\<lambda>a. (act_token_id a, act_price a)) (act_order (be_env be) (filter (\<lambda>a. list_all (\<lambda>a'.
          collates be (act_token_id a') (act_token_id a) \<longrightarrow> act_event_time a' \<le> act_event_time a) sales) sales))) (ts chain))"

record NFTListingInfo =
  nl_Name :: string
  nl_ImageURI :: string
  nl_VideoType :: string
  nl_VideoURI :: string
  nl_CollectionAddress :: string
  nl_TokenID :: string
  nl_OwnerAddress :: string
  nl_ListPrice :: price
  nl_LastSellPrice :: price
  nl_MarketID :: int
  nl_OwnerOwnedAmount :: int

definition shown_video :: "ItemExternalRow \<Rightarrow> string \<times> string" where
  "shown_video x = (if ext_video_uri x = '''' then ('''', '''')
     else (ext_video_type x, if ext_is_video_uploaded x then ext_video_oss_uri x else ext_video_uri x))"

definition lower_map :: "('r \<Rightarrow> string) \<Rightarrow> ('r \<Rightarrow> 'v) \<Rightarrow> 'r list \<Rightarrow> (string \<rightharpoonup> 'v)" where
  "lower_map k v rows = foldl (\<lambda>m r. m(ToLower (k r) \<mapsto> v r)) Map.empty rows"

definition listing_info ::
  "(string \<rightharpoonup> ItemExternalRow) \<Rightarrow> (string \<rightharpoonup> int) \<Rightarrow> (string \<rightharpoonup> price) \<Rightarrow> ItemRow \<Rightarrow> NFTListingInfo" where
  "listing_info externals counts sales i =
     (let tok = item_token_id i; owner = (case item_owner i of None \<Rightarrow> '''' | Some o' \<Rightarrow> o'); x = externals (ToLower tok)
      in \<lparr>nl_Name = (if item_name i = '''' then ''#'' @ tok else item_name i),
          nl_ImageURI = (case x of None \<Rightarrow> '''' | Some x \<Rightarrow> shown_image x),
          nl_VideoType = (case x of None \<Rightarrow> '''' | Some x \<Rightarrow> fst (shown_video x)),
          nl_VideoURI = (case x of None \<Rightarrow> '''' | Some x \<Rightarrow> snd (shown_video x)),
          nl_CollectionAddress = item_collection_address i, nl_TokenID = tok, nl_OwnerAddress = owner,
          nl_ListPrice = (case item_sale_price i of None \<Rightarrow> 0 | Some p \<Rightarrow> p),
          nl_LastSellPrice = (case sales (ToLower tok) of None \<Rightarrow> 0 | Some p \<Rightarrow> p),
          nl_MarketID = 0,
          nl_OwnerOwnedAmount = (case counts (ToLower owner) of None \<Rightarrow> 0 | Some n \<Rightarrow> n)\<rparr>)"


text \<open>The three queries beside the page; when some fail, one error is reported.\<close>

definition GetItems ::
  "backend_env \<Rightarrow> string \<Rightarrow> CollectionItemFilterParams \<Rightarrow> string \<Rightarrow> NFTListingInfo page_resp B" where
  "GetItems be chain f collectionAddr = and_then (QueryCollectionItemBySupply be chain f collectionAddr) (\<lambda>(items, cnt).
     let ItemIds = filter (\<lambda>tok. tok \<noteq> '''') (map item_token_id items);
         ItemOwners = filter (\<lambda>o'. o' \<noteq> '''') (List.map_filter item_owner items)
     in do {
       images \<leftarrow> (if ItemIds = [] then State_Monad.return (Inr []) else QueryCollectionItemsImage be chain collectionAddr ItemIds);
       counts \<leftarrow> (if ItemIds = [] then State_Monad.return (Inr []) else QueryUsersItemCount be chain collectionAddr ItemOwners);
       sales \<leftarrow> (if ItemIds = [] then State_Monad.return (Inr []) else QueryLastSalePrice be chain collectionAddr ItemIds);
       State_Monad.return (case (images, counts, sales) of
           (Inr xs, Inr cs, Inr ss) \<Rightarrow> Inr \<lparr>pr_Result = map (listing_info (lower_map ext_token_id (\<lambda>x. x) xs) (lower_map fst snd cs)
               (lower_map fst snd ss)) items, pr_Count = cnt\<rparr>
         | (Inl err, _, _) \<Rightarrow> Inl err
         | (_, Inl err, _) \<Rightarrow> Inl err
         | (_, _, Inl err) \<Rightarrow> Inl err)
     })"

section \<open>Item detail\<close>

definition QueryCollectionInfo :: "backend_env \<Rightarrow> string \<Rightarrow> string \<Rightarrow> CollectionRow B" where
  "QueryCollectionInfo be chain collectionAddr = bk_query be (\<lambda>ts. Option.bind (ts chain) (\<lambda>t.
     map_option collectionDetailFields (find (\<lambda>c. collates be (col_address c) collectionAddr) (t_collections t))))"

text \<open>The columns of an item the detail shows, empty without a row: name, address, token and owner.\<close>

definition QueryItemInfo :: "backend_env \<Rightarrow> string \<Rightarrow> string \<Rightarrow> string \<Rightarrow> (string \<times> string \<times> string \<times> string) B" where
  "QueryItemInfo be chain collectionAddr tokenId = bk_query be (\<lambda>ts. map_option (\<lambda>t.
     case find (\<lambda>i. collates be (item_collection_address i) collectionAddr \<and> collates be (item_token_id i) tokenId) (t_items t) of
       None \<Rightarrow> ('''', '''', '''', '''')
     | Some i \<Rightarrow> (item_name i, item_collection_address i, item_token_id i,
         case item_owner i of None \<Rightarrow> '''' | Some o' \<Rightarrow> o')) (ts chain))"

definition zero_order :: OrderRow where
  "zero_order = \<lparr>ord_id = 0, ord_marketplace_id = 0, ord_collection_address = [], ord_token_id = [], ord_order_id = [],
     ord_order_status = 0, ord_event_time = 0, ord_expire_time = 0, ord_currency_address = [], ord_price = 0, ord_maker = [],
     ord_taker = [], ord_quantity_remaining = 0, ord_size = 0, ord_order_type = 0, ord_salt = 0\<rparr>"

definition first_row :: "OrderRow list \<Rightarrow> OrderRow" where
  "first_row rows = (case rows of [] \<Rightarrow> zero_order | r # _ \<Rightarrow> r)"

text \<open>The listing of an item: price, market and the order behind it.\<close>

definition active_listing :: "backend_env \<Rightarrow> string \<Rightarrow> string \<Rightarrow> OrderRow \<Rightarrow> ItemRow \<Rightarrow> bool" where
  "active_listing be collectionAddr tokenId co ci \<longleftrightarrow> collates be (item_collection_address ci) collectionAddr \<and>
     collates be (item_token_id ci) tokenId \<and> ord_order_type co = ListingOrder \<and> ord_order_status co = OrderStatusActive \<and>
     owner_lists be co ci \<and> not_banned co ci"

definition listing_order :: "backend_env \<Rightarrow> CollectionItem \<Rightarrow> OrderRow \<Rightarrow> bool" where
  "listing_order be l co \<longleftrightarrow> (let i = li_Item l in collates be (ord_collection_address co) (item_collection_address i) \<and>
     collates be (ord_token_id co) (item_token_id i) \<and>
     collates be (ord_maker co) (case item_owner i of None \<Rightarrow> '''' | Some o' \<Rightarrow> o') \<and>
     ord_order_status co = OrderStatusActive \<and> ord_price co = li_ListPrice l)"

definition QueryItemListInfo :: "backend_env \<Rightarrow> string \<Rightarrow> string \<Rightarrow> string \<Rightarrow> (price \<times> int \<times> shown_listing) B" where
  "QueryItemListInfo be chain collectionAddr tokenId =
     and_then (bk_query be (\<lambda>ts. map_option (grouped_listings be (active_listing be collectionAddr tokenId)) (ts chain))) (\<lambda>ls.
       case ls of
         [] \<Rightarrow> State_Monad.return (Inr (0, 0, no_listing))
       | l # _ \<Rightarrow>
           if \<not> li_Listing l then State_Monad.return (Inr (li_ListPrice l, li_MarketID l, no_listing))
           else and_then (bk_query be (\<lambda>ts. map_option (\<lambda>t. first_row (row_order (be_env be) (filter (listing_order be l) (t_orders t)))) (ts chain)))
             (\<lambda>r. State_Monad.return (Inr (li_ListPrice l, li_MarketID l, \<lparr>sl_OrderID = ord_order_id r, sl_Time = ord_event_time r,
                sl_ExpireTime = ord_expire_time r, sl_Salt = ord_salt r, sl_Maker = ord_maker r\<rparr>))))"

definition QueryBestBids :: "backend_env \<Rightarrow> string \<Rightarrow> string \<Rightarrow> string \<Rightarrow> string list \<Rightarrow> OrderRow list B" where
  "QueryBestBids be chain userAddr collectionAddr tokenIds = (let e = be_env be in do {
     t0 \<leftarrow> bk_now be;
     bk_raw be [userAddr] (\<lambda>ts. map_option (\<lambda>t. map item_columns (row_order e (filter (\<lambda>r.
       list_ex (\<lambda>tok. live_item_bid e t0 userAddr collectionAddr tok r) tokenIds) (t_orders t)))) (ts chain))
   })"

definition QueryCollectionBestBid :: "backend_env \<Rightarrow> string \<Rightarrow> string \<Rightarrow> string \<Rightarrow> OrderRow B" where
  "QueryCollectionBestBid be chain userAddr collectionAddr = (let e = be_env be in do {
     t0 \<leftarrow> bk_now be;
     bk_raw be [userAddr] (\<lambda>ts. map_option (\<lambda>t. coll_columns (first_row (order_by e (\<lambda>r. - ord_price r)
       (filter (live_coll_bid e t0 userAddr collectionAddr) (t_orders t))))) (ts chain))
   })"

definition best_bid_map :: "OrderRow list \<Rightarrow> (string \<rightharpoonup> OrderRow)" where
  "best_bid_map bids = foldl (\<lambda>m bid. let k = ToLower (ord_token_id bid) in
     case m k of None \<Rightarrow> m(k \<mapsto> bid) | Some order \<Rightarrow> if ord_price bid > ord_price order then m(k \<mapsto> bid) else m) Map.empty bids"

record ItemDetailInfo =
  idt_ChainID :: int
  idt_Name :: string
  idt_CollectionAddress :: string
  idt_CollectionName :: string
  idt_CollectionImageURI :: string
  idt_TokenID :: string
  idt_ImageURI :: string
  idt_VideoType :: string
  idt_VideoURI :: string
  idt_LastSellPrice :: price
  idt_FloorPrice :: price
  idt_OwnerAddress :: string
  idt_MarketplaceID :: int
  idt_ListPrice :: price
  idt_List :: shown_listing
  idt_Bid :: shown_bid

text \<open>
  Seven goroutines. The first three assign to the shared error whether they fail or not, the others only when they
  fail; \<open>done_order\<close> lists the goroutines in the order of these assignments, and the last one counts.
\<close>

definition shared_error :: "nat list \<Rightarrow> (nat \<Rightarrow> backend_error option) \<Rightarrow> backend_error option" where
  "shared_error done_order errs = foldl (\<lambda>err g. case errs g of Some x \<Rightarrow> Some x | None \<Rightarrow> if g < 3 then None else err) None done_order"

definition error_of :: "backend_error + 'a \<Rightarrow> backend_error option" where
  "error_of r = (case r of Inl err \<Rightarrow> Some err | Inr _ \<Rightarrow> None)"

definition outcome_of :: "backend_error option list \<Rightarrow> nat \<Rightarrow> backend_error option" where
  "outcome_of errs g = (if g < length errs then errs ! g else None)"

definition backend_value :: "'a \<Rightarrow> backend_error + 'a \<Rightarrow> 'a" where
  "backend_value z r = (case r of Inl _ \<Rightarrow> z | Inr a \<Rightarrow> a)"

text \<open>The answer, once the item is known. An error that was overwritten leaves the variables of its goroutine empty.\<close>

definition item_detail where
  "item_detail chainID tokenId item collection listInfo images sales bids cBid =
     (let (name, addr, tok, owner) = item;
          externals = lower_map ext_token_id (\<lambda>x. x) (backend_value [] images); x = externals (ToLower tokenId);
          own = best_bid_map (backend_value [] bids) (ToLower tok);
          best = backend_value zero_order cBid;
          (price, market, listing) = backend_value (0, 0, no_listing) listInfo
      in \<lparr>idt_ChainID = chainID,
          idt_Name = (case collection of Inl _ \<Rightarrow> name | Inr c \<Rightarrow> if name = '''' then col_name c @ '' #'' @ tokenId else name),
          idt_CollectionAddress = addr,
          idt_CollectionName = (case collection of Inl _ \<Rightarrow> '''' | Inr c \<Rightarrow> col_name c),
          idt_CollectionImageURI = (case collection of Inl _ \<Rightarrow> '''' | Inr c \<Rightarrow> col_image_uri c),
          idt_TokenID = tok, idt_ImageURI = (case x of None \<Rightarrow> '''' | Some x \<Rightarrow> shown_image x),
          idt_VideoType = (case x of None \<Rightarrow> '''' | Some x \<Rightarrow> fst (shown_video x)),
          idt_VideoURI = (case x of None \<Rightarrow> '''' | Some x \<Rightarrow> snd (shown_video x)),
          idt_LastSellPrice = (case lower_map fst snd (backend_value [] sales) (ToLower tokenId) of None \<Rightarrow> 0 | Some p \<Rightarrow> p),
          idt_FloorPrice = (case collection of Inl _ \<Rightarrow> 0 | Inr c \<Rightarrow> (case col_floor_price c of None \<Rightarrow> 0 | Some p \<Rightarrow> p)),
          idt_OwnerAddress = owner, idt_MarketplaceID = market, idt_ListPrice = price, idt_List = listing,
          idt_Bid = (case own of None \<Rightarrow> show_bid best
                     | Some bidOrder \<Rightarrow> if ord_price bidOrder > ord_price best then show_bid bidOrder else show_bid best)\<rparr>)"

definition GetItem ::
  "backend_env \<Rightarrow> nat list \<Rightarrow> string \<Rightarrow> int \<Rightarrow> string \<Rightarrow> string \<Rightarrow> ItemDetailInfo B" where
  "GetItem be done_order chain chainID collectionAddr tokenId = do {
     collection \<leftarrow> QueryCollectionInfo be chain collectionAddr;
     item \<leftarrow> QueryItemInfo be chain collectionAddr tokenId;
     listInfo \<leftarrow> QueryItemListInfo be chain collectionAddr tokenId;
     images \<leftarrow> QueryCollectionItemsImage be chain collectionAddr [tokenId];
     sales \<leftarrow> QueryLastSalePrice be chain collectionAddr [tokenId];
     bids \<leftarrow> QueryBestBids be chain '''' collectionAddr [tokenId];
     cBid \<leftarrow> QueryCollectionBestBid be chain '''' collectionAddr;
     let errs = [error_of collection, error_of item, error_of listInfo, error_of images, error_of sales, error_of bids, error_of cBid];
     State_Monad.return (case shared_error done_order (outcome_of errs) of
         Some err \<Rightarrow> Inl err
       | None \<Rightarrow> (case item of
           Inl _ \<Rightarrow> Inl (Panicked NilDereference)
         | Inr i \<Rightarrow> Inr (item_detail chainID tokenId i collection listInfo images sales bids cBid)))
   }"

section \<open>Bids and listings of an item\<close>

definition item_bid_row :: "OrderRow \<Rightarrow> ItemBid" where
  "item_bid_row r = item_bid (ord_collection_address r) (ord_token_id r) r"

text \<open>A bid of the item or a bid of its collection.\<close>

definition open_bid :: "int \<Rightarrow> int \<Rightarrow> OrderRow \<Rightarrow> bool" where
  "open_bid t ty r \<longleftrightarrow> ord_order_type r = ty \<and> ord_order_status r = OrderStatusActive \<and> t < ord_expire_time r \<and>
     0 < ord_quantity_remaining r"

definition open_item_bid :: "backend_env \<Rightarrow> int \<Rightarrow> int \<Rightarrow> string \<Rightarrow> string \<Rightarrow> OrderRow \<Rightarrow> bool" where
  "open_item_bid be t1 t2 collectionAddr tokenId r \<longleftrightarrow> collates be (ord_collection_address r) collectionAddr \<and>
     (open_bid t1 CollectionBidOrder r \<or> collates be (ord_token_id r) tokenId \<and> open_bid t2 ItemBidOrder r)"

text \<open>When the count fails, the error returned is the one of the statement it was taken from, which is none.\<close>

definition QueryItemBids ::
  "backend_env \<Rightarrow> string \<Rightarrow> string \<Rightarrow> string \<Rightarrow> int \<Rightarrow> int \<Rightarrow> (ItemBid list \<times> int) B" where
  "QueryItemBids be chain collectionAddr tokenId page pageSize = do {
     t1 \<leftarrow> bk_now be;
     t2 \<leftarrow> bk_now be;
     let rows = (\<lambda>t. filter (open_item_bid be t1 t2 collectionAddr tokenId) (t_orders t));
     r \<leftarrow> bk_query be (\<lambda>ts. map_option (\<lambda>t. length (rows t)) (ts chain));
     case r of
       Inl _ \<Rightarrow> State_Monad.return (Inr ([], 0))
     | Inr cnt \<Rightarrow>
         if cnt = 0 then State_Monad.return (Inr ([], 0))
         else and_then (bk_query be (\<lambda>ts. Option.bind (ts chain) (\<lambda>t.
               gorm_limit pageSize (wrap64 (wrap64 (page - 1) * pageSize)) (order_by (be_env be) (\<lambda>r. - ord_price r) (rows t)))))
           (\<lambda>bids. State_Monad.return (Inr (map (\<lambda>r. (item_bid_row r)\<lparr>ib_OrderType := ord_order_type r\<rparr>) bids, int cnt)))
   }"

definition GetItemBidsInfo ::
  "backend_env \<Rightarrow> string \<Rightarrow> string \<Rightarrow> string \<Rightarrow> int \<Rightarrow> int \<Rightarrow> ItemBid page_resp B" where
  "GetItemBidsInfo be chain collectionAddr tokenId page pageSize =
     and_then (QueryItemBids be chain collectionAddr tokenId page pageSize) (\<lambda>(bids, cnt). State_Monad.return (Inr
       \<lparr>pr_Result = map (\<lambda>b. b\<lparr>ib_OrderType := getBidType (ib_OrderType b)\<rparr>) bids, pr_Count = cnt\<rparr>))"

text \<open>The cheapest listing of the item on every market.\<close>

definition listed_by :: "backend_env \<Rightarrow> string \<Rightarrow> string \<Rightarrow> string list \<Rightarrow> OrderRow \<Rightarrow> bool" where
  "listed_by be collectionAddr tokenId user r \<longleftrightarrow> collates be (ord_collection_address r) collectionAddr \<and>
     collates be (ord_token_id r) tokenId \<and> among be user (ord_maker r) \<and> ord_order_type r = ListingOrder \<and>
     ord_order_status r = OrderStatusActive"

definition QueryItemListingAcrossPlatforms ::
  "backend_env \<Rightarrow> string \<Rightarrow> string \<Rightarrow> string \<Rightarrow> string list \<Rightarrow> (int \<times> price) list B" where
  "QueryItemListingAcrossPlatforms be chain collectionAddr tokenId user = bk_query be (\<lambda>ts. map_option (\<lambda>t.
     let rows = filter (listed_by be collectionAddr tokenId user) (t_orders t)
     in map (\<lambda>m. (m, Min (ord_price ` set (filter (\<lambda>r. ord_marketplace_id r = m) rows)))) (remdups (map ord_marketplace_id rows))) (ts chain))"

definition GetItemListingInfo ::
  "backend_env \<Rightarrow> string \<Rightarrow> string \<Rightarrow> string \<Rightarrow> string list \<Rightarrow> (int \<times> price) list B" where
  "GetItemListingInfo be chain collectionAddr tokenId user =
     and_then (QueryItemListingAcrossPlatforms be chain collectionAddr tokenId user)
       (\<lambda>listings. State_Monad.return (Inr (filter (\<lambda>l. 0 < snd l) listings)))"

section \<open>The bid of the detail page\<close>

lemma run_bk_now [simp]: "run_state (bk_now be) b = (clock (be_env be) (bk_clock b), b\<lparr>bk_clock := Suc (bk_clock b)\<rparr>)"
  by (simp add: bk_now_def)

lemma best_bid_map_spec:
  "case best_bid_map bids k of
     None \<Rightarrow> \<forall>r \<in> set bids. ToLower (ord_token_id r) \<noteq> k
   | Some m \<Rightarrow> m \<in> set bids \<and> ToLower (ord_token_id m) = k \<and> (\<forall>r \<in> set bids. ToLower (ord_token_id r) = k \<longrightarrow> ord_price r \<le> ord_price m)"
proof (induction bids rule: rev_induct)
  case Nil
  then show ?case by (simp add: best_bid_map_def)
next
  case (snoc x xs)
  have step: "best_bid_map (xs @ [x]) = (let k = ToLower (ord_token_id x) in case best_bid_map xs k of None \<Rightarrow> (best_bid_map xs)(k \<mapsto> x)
      | Some order \<Rightarrow> if ord_price x > ord_price order then (best_bid_map xs)(k \<mapsto> x) else best_bid_map xs)"
    by (simp only: best_bid_map_def foldl_append foldl.simps)
  show ?case using snoc.IH by (auto simp: step Let_def split: option.splits)
qed

lemma first_row_greatest:
  fixes rows :: "OrderRow list"
  assumes "server_orders_rows e"
  defines "m \<equiv> first_row (order_by e (\<lambda>r. - ord_price r) rows)"
  shows "rows = [] \<Longrightarrow> m = zero_order" "rows \<noteq> [] \<Longrightarrow> m \<in> set rows" "r \<in> set rows \<Longrightarrow> ord_price r \<le> ord_price m"
proof -
  let ?xs = "order_by e (\<lambda>r. - ord_price r) rows"
  have set: "set ?xs = set rows" by (rule set_order_by [OF assms(1)])
  have sorted: "sorted (map (\<lambda>r. - ord_price r) ?xs)" by (simp add: order_by_def)
  show "rows = [] \<Longrightarrow> m = zero_order" using set by (simp add: m_def first_row_def)
  show "rows \<noteq> [] \<Longrightarrow> m \<in> set rows" using set by (cases ?xs) (auto simp: m_def first_row_def)
  show "ord_price r \<le> ord_price m" if "r \<in> set rows"
  proof -
    have "r \<in> set ?xs" using set that by simp
    then show ?thesis using sorted by (cases ?xs) (auto simp: m_def first_row_def)
  qed
qed

lemma show_bid_columns [simp]: "show_bid (item_columns r) = show_bid r" "show_bid (coll_columns r) = show_bid r"
  by (simp_all add: show_bid_def item_columns_def coll_columns_def)

lemma shown_columns_keep [simp]: "ord_price (item_columns r) = ord_price r" "ord_token_id (item_columns r) = ord_token_id r"
  "ord_price (coll_columns r) = ord_price r"
  by (simp_all add: item_columns_def coll_columns_def)

lemma run_best_bids:
  assumes "db_works (be_env be)" "bk_tables b chain = Some t"
  shows "run_state (QueryBestBids be chain '''' collectionAddr toks) b = (Inr (map item_columns (row_order (be_env be) (filter (\<lambda>r.
       list_ex (\<lambda>tok. live_item_bid (be_env be) (clock (be_env be) (bk_clock b)) '''' collectionAddr tok r) toks) (t_orders t)))),
     b\<lparr>bk_clock := Suc (bk_clock b), bk_db := Suc (bk_db b)\<rparr>)"
  using assms by (simp add: QueryBestBids_def Let_def run_bk_raw_works sql_literal_def)

lemma run_coll_best_bid:
  assumes "db_works (be_env be)" "bk_tables b chain = Some t"
  shows "run_state (QueryCollectionBestBid be chain '''' collectionAddr) b = (Inr (coll_columns (first_row (order_by (be_env be)
       (\<lambda>r. - ord_price r) (filter (live_coll_bid (be_env be) (clock (be_env be) (bk_clock b)) '''' collectionAddr) (t_orders t))))),
     b\<lparr>bk_clock := Suc (bk_clock b), bk_db := Suc (bk_db b)\<rparr>)"
  using assms by (simp add: QueryCollectionBestBid_def Let_def run_bk_raw_works sql_literal_def)

lemma run_query_parts:
  "run_state (bk_query be q) b = (r, b1) \<Longrightarrow> bk_tables b1 = bk_tables b \<and> bk_clock b1 = bk_clock b"
  using run_bk_query [of be q b r b1] by auto

lemma list_info_parts:
  "run_state (QueryItemListInfo be chain collectionAddr tokenId) b = (r, b1) \<Longrightarrow> bk_tables b1 = bk_tables b \<and> bk_clock b1 = bk_clock b"
  unfolding QueryItemListInfo_def
  by (auto split: prod.splits sum.splits list.splits if_splits dest!: run_query_parts)

lemma GetItem_runs:
  assumes "run_state (GetItem be done_order chain chainID collectionAddr tokenId) b = (res, b')"
  obtains collection item listInfo images sales bids cBid b1 b2 b3 b4 b5 b6 where
    "run_state (QueryCollectionInfo be chain collectionAddr) b = (collection, b1)"
    "run_state (QueryItemInfo be chain collectionAddr tokenId) b1 = (item, b2)"
    "run_state (QueryItemListInfo be chain collectionAddr tokenId) b2 = (listInfo, b3)"
    "run_state (QueryCollectionItemsImage be chain collectionAddr [tokenId]) b3 = (images, b4)"
    "run_state (QueryLastSalePrice be chain collectionAddr [tokenId]) b4 = (sales, b5)"
    "run_state (QueryBestBids be chain '''' collectionAddr [tokenId]) b5 = (bids, b6)"
    "run_state (QueryCollectionBestBid be chain '''' collectionAddr) b6 = (cBid, b')"
    "res = (case shared_error done_order (outcome_of [error_of collection, error_of item, error_of listInfo, error_of images,
        error_of sales, error_of bids, error_of cBid]) of
         Some err \<Rightarrow> Inl err
       | None \<Rightarrow> (case item of
           Inl _ \<Rightarrow> Inl (Panicked NilDereference)
         | Inr i \<Rightarrow> Inr (item_detail chainID tokenId i collection listInfo images sales bids cBid)))"
  using assms unfolding GetItem_def by (simp add: Let_def split: prod.splits)

definition live_bids :: "backend_env \<Rightarrow> backend \<Rightarrow> string \<Rightarrow> string \<Rightarrow> OrderRow list \<Rightarrow> OrderRow set" where
  "live_bids be b collectionAddr tokenId rows = {r \<in> set rows.
     live_item_bid (be_env be) (clock (be_env be) (bk_clock b)) '''' collectionAddr tokenId r \<or>
     live_coll_bid (be_env be) (clock (be_env be) (Suc (bk_clock b))) '''' collectionAddr r}"

lemma detail_bid:
  "idt_Bid (item_detail chainID tokenId (name, addr, tok, owner) collection listInfo images sales bids cBid) =
     (let best = backend_value zero_order cBid in
      case best_bid_map (backend_value [] bids) (ToLower tok) of
        None \<Rightarrow> show_bid best
      | Some own \<Rightarrow> if ord_price own > ord_price best then show_bid own else show_bid best)"
  by (simp add: item_detail_def Let_def split: prod.split option.split)

lemma best_of_both:
  fixes rows :: "OrderRow list" and c :: string and t1 t2 :: int
  assumes "server_orders_rows e" "folds_case e" "ToLower tok = ToLower tokenId"
  defines "I \<equiv> filter (\<lambda>r. live_item_bid e t1 '''' c tokenId r) rows"
    and "C \<equiv> filter (live_coll_bid e t2 '''' c) rows"
  defines "m \<equiv> first_row (order_by e (\<lambda>r. - ord_price r) C)"
    and "own \<equiv> best_bid_map (map item_columns (row_order e I)) (ToLower tok)"
  defines "s \<equiv> (case own of None \<Rightarrow> show_bid m | Some r \<Rightarrow> if ord_price r > ord_price m then show_bid r else show_bid m)"
  shows "r \<in> set I \<union> set C \<Longrightarrow> ord_price r \<le> sb_Price s"
    and "(\<exists>r \<in> set I \<union> set C. s = show_bid r) \<or> C = [] \<and> s = show_bid zero_order"
proof -
  have I: "set (row_order e I) = set I" using assms(1) by (metis server_orders_rows_def set_mset_mset)
  have tokens: "ToLower (ord_token_id r) = ToLower tok" if "r \<in> set I" for r
    using that assms(2,3) by (simp add: I_def live_item_bid_def folds_case_def)
  have own: "case own of None \<Rightarrow> I = [] | Some k \<Rightarrow> (\<exists>r \<in> set I. k = item_columns r) \<and> (\<forall>r \<in> set I. ord_price r \<le> ord_price k)"
    using best_bid_map_spec [of "map item_columns (row_order e I)" "ToLower tok"] tokens I
    by (auto simp: own_def [symmetric] split: option.splits)
  note first = first_row_greatest [OF assms(1), where rows = C, folded m_def]
  show "r \<in> set I \<union> set C \<Longrightarrow> ord_price r \<le> sb_Price s"
    using own first(3) by (fastforce simp: s_def show_bid_def split: option.splits)
  show "(\<exists>r \<in> set I \<union> set C. s = show_bid r) \<or> C = [] \<and> s = show_bid zero_order"
    using own first(1,2) by (cases "C = []") (auto simp: s_def split: option.splits)
qed

lemma detail_answers:
  assumes "db_works (be_env be)" "bk_tables b chain = Some t"
    and "find (\<lambda>i. collates be (item_collection_address i) collectionAddr \<and> collates be (item_token_id i) tokenId) (t_items t) = Some i"
    and "run_state (GetItem be done_order chain chainID collectionAddr tokenId) b = (Inr d, b')"
  shows "idt_Bid d = (let e = be_env be;
      m = first_row (order_by e (\<lambda>r. - ord_price r) (filter (live_coll_bid e (clock e (Suc (bk_clock b))) '''' collectionAddr) (t_orders t)));
      own = best_bid_map (map item_columns (row_order e (filter (\<lambda>r. live_item_bid e (clock e (bk_clock b)) '''' collectionAddr tokenId r) (t_orders t))))
        (ToLower (item_token_id i))
    in case own of None \<Rightarrow> show_bid m | Some r \<Rightarrow> if ord_price r > ord_price m then show_bid r else show_bid m)"
  using assms(4)
proof (rule GetItem_runs)
  fix collection item listInfo images sales bids cBid b1 b2 b3 b4 b5 b6
  assume c: "run_state (QueryCollectionInfo be chain collectionAddr) b = (collection, b1)"
    and i: "run_state (QueryItemInfo be chain collectionAddr tokenId) b1 = (item, b2)"
    and l: "run_state (QueryItemListInfo be chain collectionAddr tokenId) b2 = (listInfo, b3)"
    and x: "run_state (QueryCollectionItemsImage be chain collectionAddr [tokenId]) b3 = (images, b4)"
    and s: "run_state (QueryLastSalePrice be chain collectionAddr [tokenId]) b4 = (sales, b5)"
    and o': "run_state (QueryBestBids be chain '''' collectionAddr [tokenId]) b5 = (bids, b6)"
    and m: "run_state (QueryCollectionBestBid be chain '''' collectionAddr) b6 = (cBid, b')"
    and res: "Inr d = (case shared_error done_order (outcome_of [error_of collection, error_of item, error_of listInfo, error_of images,
        error_of sales, error_of bids, error_of cBid]) of
         Some err \<Rightarrow> Inl err
       | None \<Rightarrow> (case item of
           Inl _ \<Rightarrow> Inl (Panicked NilDereference)
         | Inr i \<Rightarrow> Inr (item_detail chainID tokenId i collection listInfo images sales bids cBid)))"
  have b1: "bk_tables b1 = bk_tables b" "bk_clock b1 = bk_clock b" using c by (auto simp: QueryCollectionInfo_def dest: run_query_parts)
  have b2: "bk_tables b2 = bk_tables b" "bk_clock b2 = bk_clock b" using i b1 by (auto simp: QueryItemInfo_def dest!: run_query_parts)
  have b3: "bk_tables b3 = bk_tables b" "bk_clock b3 = bk_clock b" using list_info_parts [OF l] b2 by simp_all
  have b4: "bk_tables b4 = bk_tables b" "bk_clock b4 = bk_clock b" using x b3 by (auto simp: QueryCollectionItemsImage_def dest!: run_query_parts)
  have b5: "bk_tables b5 = bk_tables b" "bk_clock b5 = bk_clock b" using s b4 by (auto simp: QueryLastSalePrice_def dest!: run_query_parts)
  have tb5: "bk_tables b5 chain = Some t" using b5 assms(2) by simp
  note bids = o' [unfolded run_best_bids [OF assms(1) tb5], unfolded b5]
  have tb6: "bk_tables b6 chain = Some t" and cl6: "bk_clock b6 = Suc (bk_clock b)" using bids tb5 by auto
  note best = m [unfolded run_coll_best_bid [OF assms(1) tb6], unfolded cl6]
  have item: "item = Inr (item_name i, item_collection_address i, item_token_id i, case item_owner i of None \<Rightarrow> '''' | Some o' \<Rightarrow> o')"
    using i assms(1-3) b1 by (simp add: QueryItemInfo_def run_bk_query_works)
  have d: "d = item_detail chainID tokenId (item_name i, item_collection_address i, item_token_id i,
      case item_owner i of None \<Rightarrow> '''' | Some o' \<Rightarrow> o') collection listInfo images sales bids cBid"
    using res by (simp add: item split: option.splits)
  show ?thesis using bids best by (auto simp: d detail_bid Let_def backend_value_def split: option.split)
qed

text \<open>C15: \<open>GetItem\<close> shows, for an item that is stored, the dearest of the live bids for the item and the live bids for its
  collection (live at the time each statement was sent): no live bid is dearer, and what is shown is one of them, or
  nothing (price 0) when there is no bid for the collection and none for the item above 0.\<close>

theorem detail_bid_is_best:
  assumes "db_works (be_env be)" "server_orders_rows (be_env be)" "folds_case (be_env be)" "bk_tables b chain = Some t"
    and "find (\<lambda>i. collates be (item_collection_address i) collectionAddr \<and> collates be (item_token_id i) tokenId) (t_items t) = Some i"
    and "run_state (GetItem be done_order chain chainID collectionAddr tokenId) b = (Inr d, b')"
  shows "(\<forall>r. r \<in> live_bids be b collectionAddr tokenId (t_orders t) \<longrightarrow> ord_price r \<le> sb_Price (idt_Bid d)) \<and>
    ((\<exists>r. r \<in> live_bids be b collectionAddr tokenId (t_orders t) \<and> idt_Bid d = show_bid r) \<or> idt_Bid d = no_bid)"
proof -
  have "ToLower (item_token_id i) = ToLower tokenId" using assms(3,5) by (auto simp: find_Some_iff folds_case_def)
  note best = best_of_both [OF assms(2,3) this, where ?t1.0 = "clock (be_env be) (bk_clock b)" and c = collectionAddr and rows = "t_orders t"
      and ?t2.0 = "clock (be_env be) (Suc (bk_clock b))", folded detail_answers [OF assms(1,4,5,6), unfolded Let_def]]
  have "show_bid zero_order = no_bid" by (simp add: show_bid_def zero_order_def no_bid_def getBidType_def BidTypeOffset_def)
  then show ?thesis using best unfolding live_bids_def by auto
qed

section \<open>A failed query that is forgotten\<close>

definition last_writer :: "nat list \<Rightarrow> nat option" where
  "last_writer done_order = (let gs = filter (\<lambda>g. g < 3) done_order in if gs = [] then None else Some (last gs))"

lemma shared_error_of_one:
  "shared_error done_order (\<lambda>g. if g = 1 then Some err else None) = (if last_writer done_order = Some 1 then Some err else None)"
proof (induction done_order rule: rev_induct)
  case (snoc g gs)
  have step: "shared_error (gs @ [g]) f = (case f g of Some x \<Rightarrow> Some x | None \<Rightarrow> if g < 3 then None else shared_error gs f)" for f
    by (simp only: shared_error_def foldl_append foldl.simps)
  have last: "last_writer (gs @ [g]) = (if g < 3 then Some g else last_writer gs)"
    by (simp add: last_writer_def)
  show ?case by (auto simp: step last snoc.IH simp del: One_nat_def)
qed (simp add: shared_error_def last_writer_def)

definition done_from :: "backend_env \<Rightarrow> nat \<Rightarrow> tables \<Rightarrow> string \<Rightarrow> backend \<Rightarrow> bool" where
  "done_from be n t chain b \<longleftrightarrow> (\<forall>k\<ge>n. db_outcome (be_env be) k = Done) \<and> n \<le> bk_db b \<and> bk_tables b chain = Some t"

definition succeeds_from :: "backend_env \<Rightarrow> nat \<Rightarrow> tables \<Rightarrow> string \<Rightarrow> 'a B \<Rightarrow> bool" where
  "succeeds_from be n t chain m \<longleftrightarrow> (\<forall>b. done_from be n t chain b \<longrightarrow>
     (\<exists>a b1. run_state m b = (Inr a, b1) \<and> done_from be n t chain b1))"

lemma query_succeeds: "(\<And>ts. ts chain = Some t \<Longrightarrow> q ts \<noteq> None) \<Longrightarrow> succeeds_from be n t chain (bk_query be q)"
  by (force simp: succeeds_from_def done_from_def bk_query_def)

lemma and_then_succeeds:
  "succeeds_from be n t chain m \<Longrightarrow> (\<And>a. succeeds_from be n t chain (f a)) \<Longrightarrow> succeeds_from be n t chain (and_then m f)"
  unfolding succeeds_from_def
proof (intro allI impI)
  fix b assume m: "\<forall>b. done_from be n t chain b \<longrightarrow> (\<exists>a b1. run_state m b = (Inr a, b1) \<and> done_from be n t chain b1)"
    and f: "\<And>a. \<forall>b. done_from be n t chain b \<longrightarrow> (\<exists>a' b1. run_state (f a) b = (Inr a', b1) \<and> done_from be n t chain b1)"
    and b: "done_from be n t chain b"
  from m b obtain a b1 where 1: "run_state m b = (Inr a, b1)" "done_from be n t chain b1" by blast
  then show "\<exists>a b1. run_state (and_then m f) b = (Inr a, b1) \<and> done_from be n t chain b1" using f [of a] by simp
qed

lemma return_succeeds: "succeeds_from be n t chain (State_Monad.return (Inr a))"
  by (simp add: succeeds_from_def)

lemma now_succeeds: "(\<And>k. succeeds_from be n t chain (f k)) \<Longrightarrow> succeeds_from be n t chain (bk_now be \<bind> f)"
  by (simp add: succeeds_from_def done_from_def)

lemma raw_succeeds:
  "list_all sql_literal pasted \<Longrightarrow> (\<And>ts. ts chain = Some t \<Longrightarrow> q ts \<noteq> None) \<Longrightarrow> succeeds_from be n t chain (bk_raw be pasted q)"
  by (simp add: bk_raw_def query_succeeds)

lemma detail_queries_succeed:
  "succeeds_from be n t chain (QueryItemListInfo be chain collectionAddr tokenId)"
  "succeeds_from be n t chain (QueryCollectionItemsImage be chain collectionAddr toks)"
  "succeeds_from be n t chain (QueryLastSalePrice be chain collectionAddr toks)"
  "succeeds_from be n t chain (QueryBestBids be chain '''' collectionAddr toks)"
  "succeeds_from be n t chain (QueryCollectionBestBid be chain '''' collectionAddr)"
  unfolding QueryItemListInfo_def QueryCollectionItemsImage_def QueryLastSalePrice_def QueryBestBids_def QueryCollectionBestBid_def Let_def
  by (auto intro!: query_succeeds and_then_succeeds return_succeeds now_succeeds raw_succeeds simp: sql_literal_def split: list.split)

lemma succeeds_run:
  "succeeds_from be n t chain m \<Longrightarrow> done_from be n t chain b \<Longrightarrow> run_state m b = (r, b1) \<Longrightarrow>
   error_of r = None \<and> done_from be n t chain b1"
  unfolding succeeds_from_def by (erule allE [where x = b]) (auto simp: error_of_def)

text \<open>When the query of the item fails and nothing else does, \<open>GetItem\<close> returns the error only if that goroutine is the
  last of the first three to assign the shared error: otherwise a later success erases it and the answer is built from
  a missing item, which panics.\<close>

theorem lost_item_error_panics:
  assumes "db_outcome (be_env be) = (\<lambda>n. if n = Suc (bk_db b) then Rejected else Done)"
    and "bk_tables b chain = Some t" "list_ex (\<lambda>c. collates be (col_address c) collectionAddr) (t_collections t)"
  shows "fst (run_state (GetItem be done_order chain chainID collectionAddr tokenId) b) =
    (if last_writer done_order = Some 1 then Inl DBFailed else Inl (Panicked NilDereference))"
proof -
  obtain res b' where run: "run_state (GetItem be done_order chain chainID collectionAddr tokenId) b = (res, b')" by fastforce
  from run show ?thesis
  proof (rule GetItem_runs)
    fix collection item listInfo images sales bids cBid b1 b2 b3 b4 b5 b6
    assume c: "run_state (QueryCollectionInfo be chain collectionAddr) b = (collection, b1)"
      and i: "run_state (QueryItemInfo be chain collectionAddr tokenId) b1 = (item, b2)"
      and l: "run_state (QueryItemListInfo be chain collectionAddr tokenId) b2 = (listInfo, b3)"
      and x: "run_state (QueryCollectionItemsImage be chain collectionAddr [tokenId]) b3 = (images, b4)"
      and s: "run_state (QueryLastSalePrice be chain collectionAddr [tokenId]) b4 = (sales, b5)"
      and o': "run_state (QueryBestBids be chain '''' collectionAddr [tokenId]) b5 = (bids, b6)"
      and m: "run_state (QueryCollectionBestBid be chain '''' collectionAddr) b6 = (cBid, b')"
      and res: "res = (case shared_error done_order (outcome_of [error_of collection, error_of item, error_of listInfo, error_of images,
        error_of sales, error_of bids, error_of cBid]) of
           Some err \<Rightarrow> Inl err
         | None \<Rightarrow> (case item of
             Inl _ \<Rightarrow> Inl (Panicked NilDereference)
           | Inr i \<Rightarrow> Inr (item_detail chainID tokenId i collection listInfo images sales bids cBid)))"
    have b1: "bk_tables b1 chain = Some t" "bk_db b1 = Suc (bk_db b)" "error_of collection = None"
      using c assms by (auto simp: QueryCollectionInfo_def bk_query_def error_of_def list_ex_iff find_None_iff split: option.splits)
    have b2: "done_from be (Suc (Suc (bk_db b))) t chain b2" "item = Inl DBFailed"
      using i b1 assms(1) by (auto simp: QueryItemInfo_def bk_query_def done_from_def)
    note l = succeeds_run [OF detail_queries_succeed(1) b2(1) l]
    note x = succeeds_run [OF detail_queries_succeed(2) conjunct2 [OF l] x]
    note s = succeeds_run [OF detail_queries_succeed(3) conjunct2 [OF x] s]
    note o' = succeeds_run [OF detail_queries_succeed(4) conjunct2 [OF s] o']
    note m = succeeds_run [OF detail_queries_succeed(5) conjunct2 [OF o'] m]
    have "outcome_of [None, Some DBFailed, None, None, None, None, None] = (\<lambda>g. if g = 1 then Some DBFailed else None)"
      by (auto simp: outcome_of_def fun_eq_iff nth_Cons split: nat.split)
    then have "outcome_of [error_of collection, error_of item, error_of listInfo, error_of images,
        error_of sales, error_of bids, error_of cBid] = (\<lambda>g. if g = 1 then Some DBFailed else None)"
      using b1(3) b2(2) l x s o' m by (simp add: error_of_def [of "Inl DBFailed"])
    then show ?thesis using res by (simp only: run fst_conv shared_error_of_one b2(2)) (simp split: if_splits)
  qed
qed

section \<open>Witnesses\<close>

lemma wallet_detail:
  "\<exists>d. fst (run_state (GetItem plain_backend [0, 1, 2, 3, 4, 5, 6] ''e'' 1 ''c'' ''1'') wallet_backend) = Inr d"
proof -
  obtain res b' where run: "run_state (GetItem plain_backend [0, 1, 2, 3, 4, 5, 6] ''e'' 1 ''c'' ''1'') wallet_backend = (res, b')" by fastforce
  obtain t where t: "bk_tables wallet_backend ''e'' = Some t" by (simp add: wallet_backend_def)
  from run show ?thesis
  proof (rule GetItem_runs)
    fix collection item listInfo images sales bids cBid b1 b2 b3 b4 b5 b6
    assume c: "run_state (QueryCollectionInfo plain_backend ''e'' ''c'') wallet_backend = (collection, b1)"
      and i: "run_state (QueryItemInfo plain_backend ''e'' ''c'' ''1'') b1 = (item, b2)"
      and l: "run_state (QueryItemListInfo plain_backend ''e'' ''c'' ''1'') b2 = (listInfo, b3)"
      and x: "run_state (QueryCollectionItemsImage plain_backend ''e'' ''c'' [''1'']) b3 = (images, b4)"
      and s: "run_state (QueryLastSalePrice plain_backend ''e'' ''c'' [''1'']) b4 = (sales, b5)"
      and o': "run_state (QueryBestBids plain_backend ''e'' '''' ''c'' [''1'']) b5 = (bids, b6)"
      and m: "run_state (QueryCollectionBestBid plain_backend ''e'' '''' ''c'') b6 = (cBid, b')"
      and res: "res = (case shared_error [0, 1, 2, 3, 4, 5, 6] (outcome_of [error_of collection, error_of item, error_of listInfo, error_of images,
          error_of sales, error_of bids, error_of cBid]) of
           Some err \<Rightarrow> Inl err
         | None \<Rightarrow> (case item of
             Inl _ \<Rightarrow> Inl (Panicked NilDereference)
           | Inr i \<Rightarrow> Inr (item_detail 1 ''1'' i collection listInfo images sales bids cBid)))"
    have works: "db_outcome (be_env plain_backend) k = Done" for k using plain_backend_works(1) by (simp add: db_works_def)
    have "done_from plain_backend 0 t ''e'' b1"
      using c t works by (auto simp: done_from_def QueryCollectionInfo_def dest!: run_query_parts)
    moreover have "succeeds_from plain_backend 0 t ''e'' (QueryItemInfo plain_backend ''e'' ''c'' ''1'')"
      by (simp add: QueryItemInfo_def query_succeeds)
    ultimately have i: "error_of item = None" "done_from plain_backend 0 t ''e'' b2" using i succeeds_run by blast+
    note l = succeeds_run [OF detail_queries_succeed(1) i(2) l]
    note x = succeeds_run [OF detail_queries_succeed(2) conjunct2 [OF l] x]
    note s = succeeds_run [OF detail_queries_succeed(3) conjunct2 [OF x] s]
    note o' = succeeds_run [OF detail_queries_succeed(4) conjunct2 [OF s] o']
    note m = succeeds_run [OF detail_queries_succeed(5) conjunct2 [OF o'] m]
    obtain v where v: "item = Inr v" using i(1) by (auto simp: error_of_def split: sum.splits)
    have "shared_error [0, 1, 2, 3, 4, 5, 6] (outcome_of [error_of collection, None, None, None, None, None, None]) = None"
      by (simp add: shared_error_def outcome_of_def split: option.split)
    then have "res = Inr (item_detail 1 ''1'' v collection listInfo images sales bids cBid)"
      using res i(1) l x s o' m by (simp add: v)
    then show ?thesis unfolding run by simp
  qed
qed

theorem detail_bid_is_best_witness:
  "\<exists>d. fst (run_state (GetItem plain_backend [0, 1, 2, 3, 4, 5, 6] ''e'' 1 ''c'' ''1'') wallet_backend) = Inr d \<and> sb_Price (idt_Bid d) = 9"
proof -
  obtain d b' where d: "run_state (GetItem plain_backend [0, 1, 2, 3, 4, 5, 6] ''e'' 1 ''c'' ''1'') wallet_backend = (Inr d, b')"
    using wallet_detail by (metis prod.collapse)
  let ?t = "empty_tables\<lparr>t_items := [wallet_item ''1''],
     t_orders := map (\<lambda>r. r\<lparr>ord_collection_address := ''c'', ord_maker := ''b''\<rparr>)
       [sample_bid ''a'' ''1'' ItemBidOrder 9 1, sample_bid ''b'' '''' CollectionBidOrder 5 1]\<rparr>"
  have facts: "server_orders_rows (be_env plain_backend)" "folds_case (be_env plain_backend)"
    using bid_market by (simp_all add: plain_backend_def market_def)
  have t: "bk_tables wallet_backend ''e'' = Some ?t" by (simp add: wallet_backend_def)
  have i: "find (\<lambda>i. collates plain_backend (item_collection_address i) ''c'' \<and> collates plain_backend (item_token_id i) ''1'') (t_items ?t) = Some (wallet_item ''1'')"
    using facts(2) by (simp add: wallet_item_def folds_case_def)
  note best = detail_bid_is_best [OF plain_backend_works(1) facts t i d]
  let ?r = "(sample_bid ''a'' ''1'' ItemBidOrder 9 1)\<lparr>ord_collection_address := ''c'', ord_maker := ''b''\<rparr>"
  have clock: "clock (be_env plain_backend) n = 1000" for n by (simp add: plain_backend_def plain_env_def)
  have live: "?r \<in> live_bids plain_backend wallet_backend ''c'' ''1'' (t_orders ?t)"
    using facts(2) by (simp add: live_bids_def live_item_bid_def live_bid_def clock folds_case_def sample_bid_def status_defs)
  have price: "ord_price r \<in> {9, 5}" if "r \<in> live_bids plain_backend wallet_backend ''c'' ''1'' (t_orders ?t)" for r
    using that by (auto simp: live_bids_def sample_bid_def)
  have nine: "ord_price ?r = 9" by (simp add: sample_bid_def)
  have "9 \<le> sb_Price (idt_Bid d)" using conjunct1 [OF best] live nine by metis
  moreover have "sb_Price (idt_Bid d) \<in> {9, 5, 0}" using conjunct2 [OF best]
  proof
    assume "\<exists>r. r \<in> live_bids plain_backend wallet_backend ''c'' ''1'' (t_orders ?t) \<and> idt_Bid d = show_bid r"
    then obtain r where "r \<in> live_bids plain_backend wallet_backend ''c'' ''1'' (t_orders ?t)" "idt_Bid d = show_bid r" by blast
    then show ?thesis using price [of r] by (auto simp: show_bid_def)
  qed (simp add: no_bid_def)
  ultimately show ?thesis using d by auto
qed

definition flaky_backend :: backend_env where
  "flaky_backend = plain_backend\<lparr>be_env := plain_env\<lparr>db_outcome := (\<lambda>n. if n = 1 then Rejected else Done)\<rparr>\<rparr>"

definition one_collection :: backend where
  "one_collection = empty_backend\<lparr>bk_tables := [''e'' \<mapsto> empty_tables\<lparr>t_collections := [zero_collection]\<rparr>]\<rparr>"

theorem lost_item_error_panics_witness:
  "fst (run_state (GetItem flaky_backend [1, 0, 2, 3, 4, 5, 6] ''e'' 1 '''' ''1'') one_collection) = Inl (Panicked NilDereference) \<and>
   fst (run_state (GetItem flaky_backend [0, 2, 1, 3, 4, 5, 6] ''e'' 1 '''' ''1'') one_collection) = Inl DBFailed"
proof -
  have "db_outcome (be_env flaky_backend) = (\<lambda>n. if n = Suc (bk_db one_collection) then Rejected else Done)"
    by (simp add: flaky_backend_def one_collection_def empty_backend_def)
  moreover have "bk_tables one_collection ''e'' = Some (empty_tables\<lparr>t_collections := [zero_collection]\<rparr>)" by (simp add: one_collection_def)
  moreover have "list_ex (\<lambda>c. collates flaky_backend (col_address c) '''') (t_collections (empty_tables\<lparr>t_collections := [zero_collection]\<rparr>))"
    by (simp add: flaky_backend_def plain_env_def zero_collection_def EqualFold_def)
  ultimately have "fst (run_state (GetItem flaky_backend done_order ''e'' 1 '''' ''1'') one_collection) =
      (if last_writer done_order = Some 1 then Inl DBFailed else Inl (Panicked NilDereference))" for done_order
    by (rule lost_item_error_panics)
  then show ?thesis by (simp add: last_writer_def)
qed

end
