(* ===== verification/CollectionPage.thy ===== *)
theory CollectionPage
  imports Catalog
begin

text \<open>
  The page of a collection: the traits of its items, their prices, past sales, floor and volume; refreshing metadata,
  the image of an item and minting. \<open>service/v1/collection.go\<close> with its statements in \<open>dao/collection.go\<close>, \<open>items.go\<close> and
  \<open>trait.go\<close>, \<open>service/mq/metadata.go\<close>, and the handlers of \<open>api/v1/collection.go\<close> with more than a call in them.
\<close>

section \<open>Traits\<close>

definition trait_of :: "backend_env \<Rightarrow> string \<Rightarrow> string list \<Rightarrow> ItemTraitRow \<Rightarrow> bool" where
  "trait_of be collectionAddr tokenIds a \<longleftrightarrow> collates be (trait_collection_address a) collectionAddr \<and>
     among be tokenIds (trait_token_id a)"

definition QueryItemTraits :: "backend_env \<Rightarrow> string \<Rightarrow> string \<Rightarrow> string \<Rightarrow> ItemTraitRow list B" where
  "QueryItemTraits be chain collectionAddr tokenId = bk_query be (\<lambda>ts. map_option (\<lambda>t.
     filter (\<lambda>a. collates be (trait_collection_address a) collectionAddr \<and> collates be (trait_token_id a) tokenId) (t_item_traits t)) (ts chain))"

definition QueryItemsTraits :: "backend_env \<Rightarrow> string \<Rightarrow> string \<Rightarrow> string list \<Rightarrow> ItemTraitRow list B" where
  "QueryItemsTraits be chain collectionAddr tokenIds = bk_query be (\<lambda>ts. map_option (\<lambda>t.
     filter (trait_of be collectionAddr tokenIds) (t_item_traits t)) (ts chain))"

text \<open>Groups of equal trait and value, each under one of its spellings.\<close>

definition same_trait :: "backend_env \<Rightarrow> string \<times> string \<Rightarrow> string \<times> string \<Rightarrow> bool" where
  "same_trait be x y \<longleftrightarrow> collates be (fst x) (fst y) \<and> collates be (snd x) (snd y)"

definition trait_pair :: "ItemTraitRow \<Rightarrow> string \<times> string" where
  "trait_pair a = (trait_Trait a, trait_TraitValue a)"

definition QueryCollectionTraits :: "backend_env \<Rightarrow> string \<Rightarrow> string \<Rightarrow> ((string \<times> string) \<times> int) list B" where
  "QueryCollectionTraits be chain collectionAddr = bk_query be (\<lambda>ts. map_option (\<lambda>t.
     let pairs = map trait_pair (filter (\<lambda>a. collates be (trait_collection_address a) collectionAddr) (t_item_traits t))
     in map (\<lambda>g. (g, int (length (filter (same_trait be g) pairs)))) (distinct_up_to (same_trait be) pairs)) (ts chain))"

text \<open>The cheapest listing of a token with the trait, for the traits of the given tokens.\<close>

definition priced_traits :: "backend_env \<Rightarrow> string \<Rightarrow> string list \<Rightarrow> tables \<Rightarrow> ((string \<times> string) \<times> price) list" where
  "priced_traits be collectionAddr tokenIds t =
     (let wanted = map trait_pair (filter (trait_of be collectionAddr tokenIds) (t_item_traits t));
          rows = filter (\<lambda>r. collates be (ord_collection_address r) collectionAddr \<and> ord_order_type r = ListingOrder \<and>
                   ord_order_status r = OrderStatusActive) (t_orders t)
      in [(trait_pair a, ord_price r). r \<leftarrow> rows, a \<leftarrow> t_item_traits t, collates be (ord_collection_address r) (trait_collection_address a) \<and>
            collates be (ord_token_id r) (trait_token_id a) \<and> list_ex (same_trait be (trait_pair a)) wanted])"

definition QueryTraitsPrice :: "backend_env \<Rightarrow> string \<Rightarrow> string \<Rightarrow> string list \<Rightarrow> ((string \<times> string) \<times> price) list B" where
  "QueryTraitsPrice be chain collectionAddr tokenIds = bk_query be (\<lambda>ts. map_option (\<lambda>t.
     let priced = priced_traits be collectionAddr tokenIds t
     in map (\<lambda>g. (g, Min (set (map snd (filter (\<lambda>p. same_trait be g (fst p)) priced)))))
          (distinct_up_to (same_trait be) (map fst priced))) (ts chain))"

record TraitPrice =
  tp_CollectionAddress :: string
  tp_TokenID :: string
  tp_Trait :: string
  tp_TraitValue :: string
  tp_Price :: price

definition trait_key :: "string \<Rightarrow> string \<times> string \<Rightarrow> string" where
  "trait_key sep p = fst p @ sep @ snd p"

text \<open>The dearest trait of every token, in the order Go walks the map.\<close>

definition top_trait ::
  "string \<Rightarrow> (string \<rightharpoonup> price) \<Rightarrow> (string \<times> TraitPrice) list \<Rightarrow> ItemTraitRow \<Rightarrow> (string \<times> TraitPrice) list" where
  "top_trait collectionAddr dear topTraits a = (case dear (ToLower (trait_key '':'' (trait_pair a))) of
       None \<Rightarrow> topTraits
     | Some p \<Rightarrow>
         let new = AList.update (trait_token_id a) \<lparr>tp_CollectionAddress = collectionAddr, tp_TokenID = trait_token_id a,
               tp_Trait = trait_Trait a, tp_TraitValue = trait_TraitValue a, tp_Price = p\<rparr> topTraits
         in (case map_of topTraits (trait_token_id a) of
               None \<Rightarrow> new
             | Some kept \<Rightarrow> if p \<le> tp_Price kept then topTraits else new))"

definition GetItemTopTraitPrice :: "backend_env \<Rightarrow> string \<Rightarrow> string \<Rightarrow> string list \<Rightarrow> TraitPrice list B" where
  "GetItemTopTraitPrice be chain collectionAddr tokenIds =
     and_then (QueryTraitsPrice be chain collectionAddr tokenIds) (\<lambda>priced.
       if priced = [] then State_Monad.return (Inr [])
       else let dear = lower_map (\<lambda>p. trait_key '':'' (fst p)) snd priced
         in and_then (QueryItemsTraits be chain collectionAddr tokenIds) (\<lambda>traits.
              let tops = foldl (top_trait collectionAddr dear) [] traits
              in State_Monad.return (Inr (map (\<lambda>k. the (map_of tops k)) (map_order (be_env be) (map fst tops))))))"

text \<open>
  \<open>DivRound\<close>: the quotient at \<open>n\<close> decimals, halves away from zero. The percentage is this decimal; its conversion to
  a float is not modelled.
\<close>

definition DivRound :: "int \<Rightarrow> int \<Rightarrow> nat \<Rightarrow> rat" where
  "DivRound d d2 n = (let m = \<bar>d\<bar> * 10 ^ n; q = m div \<bar>d2\<bar>; r = m mod \<bar>d2\<bar>
     in of_int (sgn d * sgn d2 * (if 2 * r < \<bar>d2\<bar> then q else q + 1)) / 10 ^ n)"

record TraitInfo =
  ti_Trait :: string
  ti_TraitValue :: string
  ti_TraitAmount :: int
  ti_TraitPercent :: rat

definition trait_percent :: "int \<Rightarrow> int \<Rightarrow> rat" where
  "trait_percent cnt itemAmount = (if itemAmount \<noteq> 0 then DivRound cnt itemAmount 4 * 100 else 0)"

definition trait_infos :: "(string \<rightharpoonup> int) \<Rightarrow> CollectionRow \<Rightarrow> ItemTraitRow list \<Rightarrow> TraitInfo list" where
  "trait_infos counts c traits = List.map_filter (\<lambda>a. map_option (\<lambda>cnt. \<lparr>ti_Trait = trait_Trait a,
     ti_TraitValue = trait_TraitValue a, ti_TraitAmount = cnt, ti_TraitPercent = trait_percent cnt (col_item_amount c)\<rparr>)
     (counts (trait_key ''-'' (trait_pair a)))) traits"

definition count_map :: "((string \<times> string) \<times> int) list \<Rightarrow> (string \<rightharpoonup> int)" where
  "count_map traitCounts = foldl (\<lambda>m x. m(trait_key ''-'' (fst x) \<mapsto> snd x)) Map.empty traitCounts"

text \<open>Three goroutines that assign the shared error whether they fail or not; \<open>done_order\<close> ends with the last one.\<close>

definition GetItemTraits :: "backend_env \<Rightarrow> nat list \<Rightarrow> string \<Rightarrow> string \<Rightarrow> string \<Rightarrow> TraitInfo list B" where
  "GetItemTraits be done_order chain collectionAddr tokenId = do {
     traits \<leftarrow> QueryItemTraits be chain collectionAddr tokenId;
     traitCounts \<leftarrow> QueryCollectionTraits be chain collectionAddr;
     collection \<leftarrow> QueryCollectionInfo be chain collectionAddr;
     let errs = [error_of traits, error_of traitCounts, error_of collection];
     let itemTraits = backend_value [] traits;
     let counts = count_map (backend_value [] traitCounts);
     State_Monad.return (case shared_error done_order (outcome_of errs) of
         Some err \<Rightarrow> Inl err
       | None \<Rightarrow> (case collection of
           Inr c \<Rightarrow> Inr (trait_infos counts c itemTraits)
         | Inl _ \<Rightarrow> if list_ex (\<lambda>a. counts (trait_key ''-'' (trait_pair a)) \<noteq> None) itemTraits then Inl (Panicked NilDereference)
                    else Inr []))
   }"

section \<open>Past sales\<close>

record HistorySalesPriceInfo =
  hs_Price :: price
  hs_TokenID :: string
  hs_TimeStamp :: int

definition sold_between :: "backend_env \<Rightarrow> string \<Rightarrow> int \<Rightarrow> int \<Rightarrow> ActivityRow \<Rightarrow> bool" where
  "sold_between be collectionAddr t1 t2 a \<longleftrightarrow> act_type a = act_Sale \<and> collates be (act_collection_address a) collectionAddr \<and>
     t1 \<le> act_event_time a \<and> act_event_time a \<le> t2"

definition QueryHistorySalesPriceInfo :: "backend_env \<Rightarrow> string \<Rightarrow> string \<Rightarrow> int \<Rightarrow> ActivityRow list B" where
  "QueryHistorySalesPriceInfo be chain collectionAddr durationTimeStamp = do {
     t \<leftarrow> bk_now be;
     bk_query be (\<lambda>ts. map_option (\<lambda>tb.
       filter (sold_between be collectionAddr (wrap64 (t - durationTimeStamp)) t) (t_activities tb)) (ts chain))
   }"

definition GetHistorySalesPrice :: "backend_env \<Rightarrow> string \<Rightarrow> string \<Rightarrow> string \<Rightarrow> HistorySalesPriceInfo list B" where
  "GetHistorySalesPrice be chain collectionAddr duration =
     (let infos = (\<lambda>secs. and_then (QueryHistorySalesPriceInfo be chain collectionAddr secs) (\<lambda>sales. State_Monad.return (Inr
            (map (\<lambda>a. \<lparr>hs_Price = act_price a, hs_TokenID = act_token_id a, hs_TimeStamp = act_event_time a\<rparr>) sales))))
      in if duration = ''24h'' then infos (24 * 60 * 60)
         else if duration = ''7d'' then infos (7 * 24 * 60 * 60)
         else if duration = ''30d'' then infos (30 * 24 * 60 * 60)
         else State_Monad.return (Inl InvalidRequest))"

text \<open>Parameters of a request, decoded: the chain is a number, or what is given is not one.\<close>

definition HistorySalesHandler ::
  "backend_env \<Rightarrow> string \<Rightarrow> int option \<Rightarrow> string \<Rightarrow> HistorySalesPriceInfo list B" where
  "HistorySalesHandler be collectionAddr chain_id duration =
     (if collectionAddr = '''' then State_Monad.return (Inl InvalidRequest)
      else case Option.bind chain_id chainIDToChain of
          None \<Rightarrow> State_Monad.return (Inl InvalidRequest)
        | Some chain \<Rightarrow>
            if duration = '''' then GetHistorySalesPrice be chain collectionAddr ''7d''
            else if duration \<notin> {''24h'', ''7d'', ''30d''} then State_Monad.return (Inl InvalidRequest)
            else GetHistorySalesPrice be chain collectionAddr duration)"

section \<open>Detail of a collection\<close>

text \<open>Parameters: the JSON codecs, the notation of a price, and the name of the project.\<close>

record page_env =
  pg_backend :: backend_env
  pg_trades :: "string \<Rightarrow> CollectionTrade list option"
  pg_volume :: "string \<Rightarrow> price option"
  pg_refresh :: "int \<Rightarrow> string \<Rightarrow> string \<Rightarrow> string"
  pg_price_text :: "price \<Rightarrow> string"
  pg_project :: string

text \<open>The trades of a day, from the cache.\<close>

definition day_trades :: "page_env \<Rightarrow> string \<Rightarrow> CollectionTrade list B" where
  "day_trades pg chain = and_then (bk_get (pg_backend pg) (GenRankingKey (pg_project pg) chain (the (periodToEpoch ''1d'')))) (\<lambda>cacheInfo.
     State_Monad.return (if cacheInfo = '''' then Inr []
       else case pg_trades pg cacheInfo of None \<Rightarrow> Inl InvalidRequest | Some ts \<Rightarrow> Inr ts))"

definition joined :: "backend_env \<Rightarrow> string \<Rightarrow> OrderRow \<Rightarrow> ItemRow \<Rightarrow> bool" where
  "joined be collectionAddr co ci \<longleftrightarrow> joins_item be co ci \<and> collates be (ord_collection_address co) collectionAddr \<and>
     ord_order_type co = ListingOrder \<and> ord_order_status co = OrderStatusActive \<and> not_banned co ci"

definition QueryListedAmount :: "backend_env \<Rightarrow> string \<Rightarrow> string \<Rightarrow> int B" where
  "QueryListedAmount be chain collectionAddr = bk_query be (\<lambda>ts. map_option (\<lambda>t. int (length (distinct_up_to (collates be)
     [ord_token_id co. ci \<leftarrow> t_items t, co \<leftarrow> t_orders t, joined be collectionAddr co ci \<and> owner_lists be co ci]))) (ts chain))"

definition CacheCollectionsListed :: "backend_env \<Rightarrow> string \<Rightarrow> string \<Rightarrow> int \<Rightarrow> unit B" where
  "CacheCollectionsListed be chain collectionAddr listedCount =
     bk_set be (GenCollectionListedKey chain collectionAddr) (int_text listedCount)"

text \<open>The maker is the owner as the collation compares them; zero without a listing.\<close>

definition owned_listing_prices :: "backend_env \<Rightarrow> string \<Rightarrow> tables \<Rightarrow> price list" where
  "owned_listing_prices be collectionAddr t = [ord_price co. ci \<leftarrow> t_items t, co \<leftarrow> t_orders t, joined be collectionAddr co ci \<and>
     (case item_owner ci of None \<Rightarrow> False | Some o' \<Rightarrow> collates be (ord_maker co) o')]"

definition QueryFloorPrice :: "backend_env \<Rightarrow> string \<Rightarrow> string \<Rightarrow> price B" where
  "QueryFloorPrice be chain collectionAddr = bk_query be (\<lambda>ts. map_option (\<lambda>t.
     case sort (owned_listing_prices be collectionAddr t) of [] \<Rightarrow> 0 | p # _ \<Rightarrow> p) (ts chain))"

definition QueryCollectionSellPrice :: "backend_env \<Rightarrow> string \<Rightarrow> string \<Rightarrow> price B" where
  "QueryCollectionSellPrice be chain collectionAddr = do {
     t0 \<leftarrow> bk_now be;
     bk_query be (\<lambda>ts. map_option (\<lambda>t. ord_price (first_row (order_by (be_env be) (\<lambda>r. - ord_price r)
       (filter (live_coll_bid (be_env be) t0 '''' collectionAddr) (t_orders t))))) (ts chain))
   }"

definition GetCollectionTradeInfoKey :: "string \<Rightarrow> string \<Rightarrow> string \<Rightarrow> string" where
  "GetCollectionTradeInfoKey project chain collectionAddr =
     ''cache:'' @ ToLower project @ '':'' @ ToLower chain @ '':collection:'' @ ToLower collectionAddr @ '':trade''"

text \<open>A key that is absent is an empty text, which is not JSON.\<close>

definition QueryCollectionAllVolume :: "page_env \<Rightarrow> string \<Rightarrow> string \<Rightarrow> price B" where
  "QueryCollectionAllVolume pg chain collectionAddr =
     and_then (bk_get (pg_backend pg) (GetCollectionTradeInfoKey (pg_project pg) chain collectionAddr)) (\<lambda>rawInfo.
       State_Monad.return (case pg_volume pg rawInfo of None \<Rightarrow> Inl InvalidRequest | Some v \<Rightarrow> Inr v))"

text \<open>\<open>AddUpdatePriceEvent\<close> of an event that passes its guards.\<close>

definition push_floor_event :: "backend_env \<Rightarrow> string \<Rightarrow> string \<Rightarrow> price \<Rightarrow> unit B" where
  "push_floor_event be chain collectionAddr p =
     (case marshal_event (be_env be) (zero_event\<lparr>EventType := UpdateCollection, ev_CollectionAddr := collectionAddr, ev_Price := p\<rparr>) of
        None \<Rightarrow> State_Monad.return (Inl InvalidRequest)
      | Some rawEvent \<Rightarrow> bk_rpush be (genTradeEventsCacheKey chain) rawEvent)"

record CollectionDetail =
  cd_ImageUri :: string
  cd_Name :: string
  cd_Address :: string
  cd_ChainId :: int
  cd_FloorPrice :: price
  cd_SellPrice :: string
  cd_VolumeTotal :: price
  cd_Volume24h :: price
  cd_Sold24h :: int
  cd_ListAmount :: int
  cd_TotalSupply :: int
  cd_OwnerAmount :: int

text \<open>The last trade of the collection in the list.\<close>

definition traded :: "string \<Rightarrow> CollectionTrade list \<Rightarrow> price \<times> int" where
  "traded collectionAddr trades = foldl (\<lambda>v t. if ToLower (ct_ContractAddress t) = ToLower collectionAddr
     then (ct_Volume t, ct_ItemCount t) else v) (0, 0) trades"

definition GetCollectionDetail :: "page_env \<Rightarrow> string \<Rightarrow> string \<Rightarrow> CollectionDetail B" where
  "GetCollectionDetail pg chain collectionAddr = (let be = pg_backend pg in
     and_then (QueryCollectionInfo be chain collectionAddr) (\<lambda>c. do {
       trades \<leftarrow> day_trades pg chain;
       listed \<leftarrow> QueryListedAmount be chain collectionAddr;
       _ \<leftarrow> (case listed of Inl _ \<Rightarrow> State_Monad.return (Inr ()) | Inr n \<Rightarrow> CacheCollectionsListed be chain collectionAddr n);
       floor \<leftarrow> QueryFloorPrice be chain collectionAddr;
       sell \<leftarrow> QueryCollectionSellPrice be chain collectionAddr;
       let p = backend_value 0 floor;
       let (volume24h, sold) = traded collectionAddr (backend_value [] trades);
       _ \<leftarrow> (if p \<noteq> (case col_floor_price c of None \<Rightarrow> 0 | Some q \<Rightarrow> q) then push_floor_event be chain collectionAddr p
             else State_Monad.return (Inr ()));
       vol \<leftarrow> QueryCollectionAllVolume pg chain collectionAddr;
       State_Monad.return (case sell of
           Inl _ \<Rightarrow> Inl (Panicked NilDereference)
         | Inr s \<Rightarrow> Inr \<lparr>cd_ImageUri = col_image_uri c, cd_Name = col_name c, cd_Address = col_address c, cd_ChainId = col_chain_id c,
             cd_FloorPrice = p, cd_SellPrice = pg_price_text pg s, cd_VolumeTotal = backend_value 0 vol, cd_Volume24h = volume24h,
             cd_Sold24h = sold, cd_ListAmount = backend_value 0 listed, cd_TotalSupply = col_item_amount c,
             cd_OwnerAmount = col_owner_amount c\<rparr>)
     }))"

text \<open>The handler answers with what it has: an error of the service is an empty answer.\<close>

definition CollectionDetailHandler :: "page_env \<Rightarrow> string \<Rightarrow> int option \<Rightarrow> CollectionDetail option B" where
  "CollectionDetailHandler pg collectionAddr chain_id = (case Option.bind chain_id chainIDToChain of
       None \<Rightarrow> State_Monad.return (Inl InvalidRequest)
     | Some chain \<Rightarrow>
         if collectionAddr = '''' then State_Monad.return (Inl InvalidRequest)
         else do {
           r \<leftarrow> GetCollectionDetail pg chain collectionAddr;
           State_Monad.return (case r of
               Inr d \<Rightarrow> Inr (Some d)
             | Inl (Panicked p) \<Rightarrow> Inl (Panicked p)
             | Inl _ \<Rightarrow> Inr None)
         })"

section \<open>Metadata, image and minting\<close>

definition GetRefreshSingleItemMetadataKey :: "string \<Rightarrow> string \<Rightarrow> string" where
  "GetRefreshSingleItemMetadataKey project chain =
     ''cache:'' @ ToLower project @ '':'' @ ToLower chain @ '':item:refresh:metadata''"

definition reentrancy_key :: "int \<Rightarrow> string \<Rightarrow> string \<Rightarrow> string" where
  "reentrancy_key chainID collectionAddr tokenId =
     ''cache:orderbookdex:item:refresh:prevent:reentrancy:'' @ int_text chainID @ '':'' @ collectionAddr @ '':'' @ tokenId"

definition PreventReentrancyPeriod :: int where "PreventReentrancyPeriod = 10"

definition AddSingleItemToRefreshMetadataQueue :: "page_env \<Rightarrow> string \<Rightarrow> int \<Rightarrow> string \<Rightarrow> string \<Rightarrow> unit B" where
  "AddSingleItemToRefreshMetadataQueue pg chainName chainID collectionAddr tokenId = (let be = pg_backend pg in
     and_then (bk_get be (reentrancy_key chainID collectionAddr tokenId)) (\<lambda>isRefreshed.
       if isRefreshed \<noteq> '''' then State_Monad.return (Inr ())
       else and_then (bk_sadd be (GetRefreshSingleItemMetadataKey (pg_project pg) chainName) (pg_refresh pg chainID collectionAddr tokenId))
         (\<lambda>_. do {
            _ \<leftarrow> bk_setex be (reentrancy_key chainID collectionAddr tokenId) ''true'' PreventReentrancyPeriod;
            State_Monad.return (Inr ())
          })))"

text \<open>The service, and the handler, which checks the collection twice and the token never.\<close>

definition RefreshItemMetadata :: "page_env \<Rightarrow> string \<Rightarrow> int \<Rightarrow> string \<Rightarrow> string \<Rightarrow> unit B" where
  "RefreshItemMetadata pg chainName chainNum collectionAddress tokenId = do {
     r \<leftarrow> AddSingleItemToRefreshMetadataQueue pg chainName chainNum collectionAddress tokenId;
     State_Monad.return (case r of Inl _ \<Rightarrow> Inl KVFailed | Inr _ \<Rightarrow> Inr ())
   }"

definition ItemMetadataRefreshHandler :: "page_env \<Rightarrow> string \<Rightarrow> string \<Rightarrow> int option \<Rightarrow> unit B" where
  "ItemMetadataRefreshHandler pg collectionAddr tokenId chain_id = (case chain_id of
       None \<Rightarrow> State_Monad.return (Inl InvalidRequest)
     | Some chainNum \<Rightarrow> (case chainIDToChain chainNum of
         None \<Rightarrow> State_Monad.return (Inl InvalidRequest)
       | Some chain \<Rightarrow> if collectionAddr = '''' then State_Monad.return (Inl InvalidRequest)
           else RefreshItemMetadata pg chain chainNum collectionAddr tokenId))"

record ItemImage =
  im_CollectionAddress :: string
  im_TokenID :: string
  im_ImageUri :: string

text \<open>Without a row the error returned wraps no error: nothing and no error.\<close>

definition GetItemImage :: "backend_env \<Rightarrow> string \<Rightarrow> string \<Rightarrow> string \<Rightarrow> ItemImage option B" where
  "GetItemImage be chain collectionAddress tokenId = and_then (QueryCollectionItemsImage be chain collectionAddress [tokenId]) (\<lambda>items.
     State_Monad.return (Inr (case items of
         [] \<Rightarrow> None
       | x # _ \<Rightarrow> Some \<lparr>im_CollectionAddress = collectionAddress, im_TokenID = tokenId, im_ImageUri = shown_image x\<rparr>)))"

record MintRequest =
  mr_ChainID :: int
  mr_ToAddress :: string
  mr_TokenURI :: string

record MintResult =
  mt_TxHash :: string
  mt_TokenID :: string
  mt_Status :: string

datatype mint_error = UnauthorizedMinter | ToAddressRequired | TokenURIRequired | InvalidToAddress | UnauthorizedContract | BadRequest

definition isAuthorizedMinter :: "string \<Rightarrow> bool" where
  "isAuthorizedMinter userAddr \<longleftrightarrow> userAddr = ''0x742d35Cc6634C0532925a3b8D0Ac9C4C0C0C0C0C''"

definition isValidEthereumAddress :: "string \<Rightarrow> bool" where
  "isValidEthereumAddress address \<longleftrightarrow> length address = 42 \<and> take 2 address = ''0x''"

definition validateMintRequest :: "MintRequest \<Rightarrow> mint_error option" where
  "validateMintRequest req = (if mr_ToAddress req = '''' then Some ToAddressRequired
     else if mr_TokenURI req = '''' then Some TokenURIRequired
     else if \<not> isValidEthereumAddress (mr_ToAddress req) then Some InvalidToAddress else None)"

definition generateMockTxHash :: string where
  "generateMockTxHash = ''1234567890abcdef1234567890abcdef1234567890abcdef1234567890abcdef''"

definition generateNextTokenID :: string where
  "generateNextTokenID = ''1001''"

definition performMint :: "string \<Rightarrow> string \<Rightarrow> MintRequest \<Rightarrow> MintResult" where
  "performMint chain collectionAddr req =
     \<lparr>mt_TxHash = ''0x'' @ generateMockTxHash, mt_TokenID = generateNextTokenID, mt_Status = ''pending''\<rparr>"

definition MintNFT :: "string \<Rightarrow> string \<Rightarrow> string \<Rightarrow> MintRequest \<Rightarrow> mint_error + MintResult" where
  "MintNFT chain collectionAddr userAddr req =
     (if \<not> isAuthorizedMinter userAddr then Inl UnauthorizedMinter
      else case validateMintRequest req of Some err \<Rightarrow> Inl err | None \<Rightarrow> Inr (performMint chain collectionAddr req))"

text \<open>The addresses are those of the session; without one the index panics. \<open>binding:"required"\<close> rejects zero values.\<close>

definition MintNFTHandler :: "string list \<Rightarrow> string \<Rightarrow> MintRequest option \<Rightarrow> go_panic + (mint_error + MintResult)" where
  "MintNFTHandler address collectionAddr body =
     (if collectionAddr = '''' then Inr (Inl BadRequest)
      else if collectionAddr \<noteq> ''0xF7367110305e0419425441e2280eBbAa980A9e42'' then Inr (Inl UnauthorizedContract)
      else case body of
          None \<Rightarrow> Inr (Inl BadRequest)
        | Some mintReq \<Rightarrow>
            if mr_ChainID mintReq = 0 \<or> mr_ToAddress mintReq = '''' \<or> mr_TokenURI mintReq = '''' then Inr (Inl BadRequest)
            else (case chainIDToChain (mr_ChainID mintReq) of
                None \<Rightarrow> Inr (Inl BadRequest)
              | Some chain \<Rightarrow> if address = [] then Inl IndexOutOfRange
                  else Inr (MintNFT chain collectionAddr (hd address) mintReq)))"

section \<open>Percentages\<close>

lemma DivRound_close:
  fixes d d2 :: int and n :: nat
  assumes "0 \<le> d" "0 < d2"
  shows "\<bar>DivRound d d2 n - of_int d / of_int d2\<bar> \<le> 1 / (2 * 10 ^ n)"
proof -
  define m where "m = d * 10 ^ n"
  define q where "q = m div d2"
  define r where "r = m mod d2"
  define k where "k = (if 2 * r < d2 then q else q + 1)"
  have m: "m = q * d2 + r" "0 \<le> r" "r < d2" using assms(2) by (simp_all add: q_def r_def)
  have sgn: "sgn d * k = k"
  proof (cases "d = 0")
    case True
    then have "q = 0" "r = 0" by (simp_all add: q_def r_def m_def)
    then show ?thesis using assms(2) True by (simp add: k_def)
  qed (use assms in simp)
  have pos: "\<bar>d\<bar> * 10 ^ n = m" "\<bar>d2\<bar> = d2" "sgn d * sgn d2 * k = k" using assms sgn by (simp_all add: m_def)
  have D: "DivRound d d2 n = of_int k / 10 ^ n"
    by (simp only: DivRound_def Let_def pos q_def [symmetric] r_def [symmetric] k_def [symmetric])
  have near: "2 * \<bar>k * d2 - m\<bar> \<le> d2" 
  proof (cases "2 * r < d2")
    case True
    then have "k * d2 - m = - r" using m(1) by (simp add: k_def)
    then show ?thesis using True m by simp
  next
    case False
    then have "k * d2 - m = d2 - r" using m(1) by (simp add: k_def distrib_right)
    then show ?thesis using False m by simp
  qed
  have "(of_int (2 * \<bar>k * d2 - m\<bar>) :: rat) \<le> of_int d2" using near by (simp only: of_int_le_iff)
  then have "\<bar>of_int k * of_int d2 - of_int m\<bar> * 2 \<le> (of_int d2 :: rat)" by simp
  moreover define y where "y = (of_int k - of_int m / of_int d2 :: rat)"
  moreover have "of_int k * of_int d2 - of_int m = y * (of_int d2 :: rat)" using assms(2) by (simp add: y_def field_simps)
  ultimately have "\<bar>y\<bar> * 2 * of_int d2 \<le> 1 * of_int d2" using assms(2) by (simp add: abs_mult mult.commute mult.left_commute)
  then have "\<bar>y\<bar> * 2 \<le> 1" using assms(2) by (simp only: mult_le_cancel_right_pos of_int_0_less_iff)
  then have "\<bar>y\<bar> / 10 ^ n \<le> (1 / 2) / 10 ^ n" by (intro divide_right_mono) simp_all
  then have "\<bar>of_int k / 10 ^ n - of_int m / of_int d2 / 10 ^ n\<bar> \<le> (1 / 2 / 10 ^ n :: rat)"
    by (simp add: diff_divide_distrib [symmetric] y_def [symmetric] abs_divide del: divide_divide_eq_left)
  moreover have "of_int m / of_int d2 / 10 ^ n = (of_int d / of_int d2 :: rat)" by (simp add: m_def)
  ultimately show ?thesis by (simp add: D)
qed

lemma trait_percent_close:
  assumes "0 \<le> cnt" "0 < amount"
  shows "\<bar>trait_percent cnt amount - 100 * of_int cnt / of_int amount\<bar> \<le> 1 / 200"
proof -
  define x where "x = DivRound cnt amount 4 - of_int cnt / of_int amount"
  have "\<bar>x\<bar> \<le> 1 / 20000" using DivRound_close [OF assms, of 4] by (simp add: x_def)
  then have "\<bar>x * 100\<bar> \<le> 1 / 200" by (simp add: abs_mult)
  moreover have "x * 100 = trait_percent cnt amount - 100 * of_int cnt / of_int amount"
    using assms(2) by (simp add: trait_percent_def x_def algebra_simps)
  ultimately show ?thesis by simp
qed

lemma count_map_value: "count_map xs k = Some n \<Longrightarrow> n \<in> snd ` set xs"
proof (induction xs rule: rev_induct)
  case (snoc x xs)
  have "count_map (xs @ [x]) = (count_map xs)(trait_key ''-'' (fst x) \<mapsto> snd x)" by (simp only: count_map_def foldl_append foldl.simps)
  with snoc show ?case by (auto split: if_splits)
qed (simp add: count_map_def)

definition collection_traits :: "backend_env \<Rightarrow> string \<Rightarrow> tables \<Rightarrow> ItemTraitRow list" where
  "collection_traits be collectionAddr t = filter (\<lambda>a. collates be (trait_collection_address a) collectionAddr) (t_item_traits t)"

lemma distinct_up_to_subset: "set (distinct_up_to eq xs) \<subseteq> set xs"
  by (induction xs) (auto simp: distinct_up_to.simps)

lemma trait_counts_bounded:
  assumes "run_state (QueryCollectionTraits be chain collectionAddr) b = (Inr cs, b1)" "bk_tables b chain = Some t" "x \<in> set cs"
    and "folds_case (be_env be)"
  shows "1 \<le> snd x \<and> snd x \<le> int (length (collection_traits be collectionAddr t))"
proof -
  let ?pairs = "map trait_pair (collection_traits be collectionAddr t)"
  have cs: "cs = map (\<lambda>g. (g, int (length (filter (same_trait be g) ?pairs)))) (distinct_up_to (same_trait be) ?pairs)"
    using run_bk_query [OF assms(1) [unfolded QueryCollectionTraits_def]] assms(2) by (simp add: Let_def collection_traits_def)
  then obtain g where g: "g \<in> set ?pairs" "snd x = int (length (filter (same_trait be g) ?pairs))"
    using assms(3) distinct_up_to_subset by fastforce
  have "same_trait be g g" using assms(4) by (simp add: same_trait_def folds_case_def)
  then have "filter (same_trait be g) ?pairs \<noteq> []" using g(1) by (auto simp: filter_empty_conv)
  moreover have "length (filter (same_trait be g) ?pairs) \<le> length (collection_traits be collectionAddr t)"
    using length_filter_le [of "same_trait be g" ?pairs] by simp
  ultimately show ?thesis using g(2) by (cases "filter (same_trait be g) ?pairs") auto
qed

lemma GetItemTraits_runs:
  assumes "run_state (GetItemTraits be done_order chain collectionAddr tokenId) b = (Inr infos, b')"
  obtains traits counts collection b1 b2 where
    "run_state (QueryItemTraits be chain collectionAddr tokenId) b = (traits, b1)"
    "run_state (QueryCollectionTraits be chain collectionAddr) b1 = (counts, b2)"
    "run_state (QueryCollectionInfo be chain collectionAddr) b2 = (collection, b')"
    "infos = [] \<or> (\<exists>c. collection = Inr c \<and> infos = trait_infos (count_map (backend_value [] counts)) c (backend_value [] traits))"
  using assms unfolding GetItemTraits_def
  by (simp add: Let_def split: prod.splits option.splits sum.splits if_splits)

text \<open>The percentages of \<open>GetItemTraits\<close> are off by at most half a hundredth, and every trait shown is counted at
  least once and at most as often as the collection has traits.\<close>

theorem trait_percentages:
  assumes "folds_case (be_env be)" "bk_tables b chain = Some t"
    and "find (\<lambda>c. collates be (col_address c) collectionAddr) (t_collections t) = Some c" "0 < col_item_amount c"
    and "run_state (GetItemTraits be done_order chain collectionAddr tokenId) b = (Inr infos, b')" "ti \<in> set infos"
  shows "\<bar>ti_TraitPercent ti - 100 * of_int (ti_TraitAmount ti) / of_int (col_item_amount c)\<bar> \<le> 1 / 200 \<and>
    1 \<le> ti_TraitAmount ti \<and> ti_TraitAmount ti \<le> int (length (collection_traits be collectionAddr t))"
  using assms(5)
proof (rule GetItemTraits_runs)
  fix traits counts collection b1 b2
  assume tr: "run_state (QueryItemTraits be chain collectionAddr tokenId) b = (traits, b1)"
    and cn: "run_state (QueryCollectionTraits be chain collectionAddr) b1 = (counts, b2)"
    and co: "run_state (QueryCollectionInfo be chain collectionAddr) b2 = (collection, b')"
    and infos: "infos = [] \<or> (\<exists>c. collection = Inr c \<and> infos = trait_infos (count_map (backend_value [] counts)) c (backend_value [] traits))"
  have t1: "bk_tables b1 chain = Some t" using tr assms(2) by (auto simp: QueryItemTraits_def dest!: run_query_parts)
  then have t2: "bk_tables b2 chain = Some t" using cn by (auto simp: QueryCollectionTraits_def dest!: run_query_parts)
  from infos assms(6) obtain c' where c': "collection = Inr c'"
    and i: "infos = trait_infos (count_map (backend_value [] counts)) c' (backend_value [] traits)" by auto
  have amount: "col_item_amount c' = col_item_amount c"
    using run_bk_query [OF co [unfolded c' QueryCollectionInfo_def]] t2 assms(3) by (auto simp: collectionDetailFields_def)
  from assms(6) obtain k cnt where cnt: "count_map (backend_value [] counts) k = Some cnt"
    and ti: "ti_TraitAmount ti = cnt" "ti_TraitPercent ti = trait_percent cnt (col_item_amount c)"
    by (auto simp: i trait_infos_def List.map_filter_def amount)
  obtain cs where cs: "counts = Inr cs" "cnt \<in> snd ` set cs"
    using count_map_value [OF cnt] by (cases counts) (auto simp: backend_value_def)
  then have "1 \<le> cnt \<and> cnt \<le> int (length (collection_traits be collectionAddr t))"
    using trait_counts_bounded [OF cn [unfolded cs(1)] t1 _ assms(1)] by auto
  then show ?thesis using trait_percent_close [of cnt "col_item_amount c"] assms(4) by (simp add: ti)
qed

section \<open>Refreshing metadata\<close>

lemma run_bk_sadd_works:
  "kv_works (be_env be) \<Longrightarrow> run_state (bk_sadd be key v) b = (Inr (), b\<lparr>bk_kv := Suc (bk_kv b),
     bk_sets := (bk_sets b)(key := if v \<in> set (bk_sets b key) then bk_sets b key else bk_sets b key @ [v])\<rparr>)"
  by (simp add: bk_sadd_def bk_kv_exec_def kv_works_def)

lemma run_refresh:
  fixes chainName :: string
  assumes "kv_works (be_env (pg_backend pg))"
    and "bk_live (be_kv_time (pg_backend pg) (bk_kv b)) b (reentrancy_key chainID collectionAddr tokenId) = ''''"
  defines "q \<equiv> GetRefreshSingleItemMetadataKey (pg_project pg) chainName" and "v \<equiv> pg_refresh pg chainID collectionAddr tokenId"
  shows "run_state (RefreshItemMetadata pg chainName chainID collectionAddr tokenId) b = (Inr (), b\<lparr>
     bk_sets := (bk_sets b)(q := if v \<in> set (bk_sets b q) then bk_sets b q else bk_sets b q @ [v]), bk_kv := bk_kv b + 3,
     bk_cache := (bk_cache b)(reentrancy_key chainID collectionAddr tokenId \<mapsto>
       (''true'', Some (be_kv_time (pg_backend pg) (bk_kv b + 2) + 10)))\<rparr>)"
  using assms by (simp add: RefreshItemMetadata_def AddSingleItemToRefreshMetadataQueue_def Let_def run_bk_get_works run_bk_sadd_works
      run_bk_setex_works PreventReentrancyPeriod_def eval_nat_numeral)

text \<open>After a request to refresh an item was queued, whatever the consumers of the queue take out, a second request
  within ten seconds succeeds and queues nothing.\<close>

theorem refresh_once_per_period:
  assumes "kv_works (be_env (pg_backend pg))"
    and "bk_live (be_kv_time (pg_backend pg) (bk_kv b)) b (reentrancy_key chainID collectionAddr tokenId) = ''''"
    and "run_state (RefreshItemMetadata pg chainName chainID collectionAddr tokenId) b = (r, b1)"
    and "be_kv_time (pg_backend pg) (bk_kv b1) < be_kv_time (pg_backend pg) (bk_kv b + 2) + 10"
  shows "r = Inr () \<and>
    pg_refresh pg chainID collectionAddr tokenId \<in> set (bk_sets b1 (GetRefreshSingleItemMetadataKey (pg_project pg) chainName)) \<and>
    run_state (RefreshItemMetadata pg chainName chainID collectionAddr tokenId) (b1\<lparr>bk_sets := taken\<rparr>) =
      (Inr (), b1\<lparr>bk_sets := taken, bk_kv := Suc (bk_kv b1)\<rparr>)"
proof -
  note first = assms(3) [unfolded run_refresh [OF assms(1,2)]]
  have "bk_live (be_kv_time (pg_backend pg) (bk_kv b1)) (b1\<lparr>bk_sets := taken\<rparr>) (reentrancy_key chainID collectionAddr tokenId) = ''true''"
    using first assms(4) by (auto simp: bk_live_def)
  then show ?thesis
    using first assms(1) by (auto simp: RefreshItemMetadata_def AddSingleItemToRefreshMetadataQueue_def Let_def run_bk_get_works)
qed

section \<open>The detail page\<close>

lemma first_of_sorted: "(case sort ps of [] \<Rightarrow> 0 | p # _ \<Rightarrow> p) = (if ps = [] then 0 else Min (set ps))"
proof (cases "sort ps")
  case (Cons p qs)
  have "sorted (sort ps)" "set (sort ps) = set ps" by simp_all
  then have "Min (set ps) = p" using Cons by (intro Min_eqI) auto
  moreover have "ps \<noteq> []" using Cons by auto
  ultimately show ?thesis using Cons by simp
next
  case Nil
  then have "ps = []" by (metis length_0_conv length_sort)
  then show ?thesis by simp
qed

lemma run_kv_pushes:
  assumes "kv_works (be_env be)"
  shows "run_state (bk_set be key v) b = (Inr (), b\<lparr>bk_kv := Suc (bk_kv b), bk_cache := (bk_cache b)(key \<mapsto> (v, None))\<rparr>)"
    and "run_state (bk_rpush be key v) b = (Inr (), b\<lparr>bk_kv := Suc (bk_kv b), bk_lists := (bk_lists b)(key := bk_lists b key @ [v])\<rparr>)"
  using assms by (simp_all add: bk_set_def bk_rpush_def bk_kv_exec_def kv_works_def)

lemma run_cached:
  assumes "kv_works (be_env (pg_backend pg))"
  shows "run_state (day_trades pg chain) b = (let cacheInfo = bk_live (be_kv_time (pg_backend pg) (bk_kv b)) b
       (GenRankingKey (pg_project pg) chain (the (periodToEpoch ''1d''))) in
     if cacheInfo = '''' then Inr [] else case pg_trades pg cacheInfo of None \<Rightarrow> Inl InvalidRequest | Some ts \<Rightarrow> Inr ts, b\<lparr>bk_kv := Suc (bk_kv b)\<rparr>)"
    and "run_state (QueryCollectionAllVolume pg chain collectionAddr) b = (case pg_volume pg (bk_live (be_kv_time (pg_backend pg) (bk_kv b)) b
       (GetCollectionTradeInfoKey (pg_project pg) chain collectionAddr)) of None \<Rightarrow> Inl InvalidRequest | Some v \<Rightarrow> Inr v, b\<lparr>bk_kv := Suc (bk_kv b)\<rparr>)"
  using assms by (simp_all add: day_trades_def QueryCollectionAllVolume_def run_bk_get_works Let_def)

lemma run_detail_queries:
  assumes "db_works (be_env be)" "bk_tables b chain = Some t"
  shows "run_state (QueryListedAmount be chain collectionAddr) b = (Inr (int (length (distinct_up_to (collates be)
       [ord_token_id co. ci \<leftarrow> t_items t, co \<leftarrow> t_orders t, joined be collectionAddr co ci \<and> owner_lists be co ci]))), b\<lparr>bk_db := Suc (bk_db b)\<rparr>)"
    and "run_state (QueryFloorPrice be chain collectionAddr) b = (Inr (let ps = owned_listing_prices be collectionAddr t in
       if ps = [] then 0 else Min (set ps)), b\<lparr>bk_db := Suc (bk_db b)\<rparr>)"
    and "run_state (QueryCollectionSellPrice be chain collectionAddr) b = (Inr (ord_price (first_row (order_by (be_env be) (\<lambda>r. - ord_price r)
       (filter (live_coll_bid (be_env be) (clock (be_env be) (bk_clock b)) '''' collectionAddr) (t_orders t))))), b\<lparr>bk_clock := Suc (bk_clock b), bk_db := Suc (bk_db b)\<rparr>)"
  using assms by (simp_all add: QueryListedAmount_def QueryFloorPrice_def QueryCollectionSellPrice_def run_bk_query_works first_of_sorted Let_def)

definition listed_tokens :: "backend_env \<Rightarrow> string \<Rightarrow> tables \<Rightarrow> string list" where
  "listed_tokens be collectionAddr t = distinct_up_to (collates be)
     [ord_token_id co. ci \<leftarrow> t_items t, co \<leftarrow> t_orders t, joined be collectionAddr co ci \<and> owner_lists be co ci]"

definition update_event :: "string \<Rightarrow> price \<Rightarrow> TradeEvent" where
  "update_event collectionAddr p = zero_event\<lparr>EventType := UpdateCollection, ev_CollectionAddr := collectionAddr, ev_Price := p\<rparr>"

text \<open>C19: without failures \<open>GetCollectionDetail\<close> shows the least price of an open listing by the owner of its item (0 without
  one) and the number of tokens listed, caches that number for the ranking, changes no table, and queues an update of
  the floor price exactly when the stored floor is another.\<close>

theorem collection_page_is_current:
  assumes "db_works (be_env (pg_backend pg))" "kv_works (be_env (pg_backend pg))" "bk_tables b chain = Some t"
    and "find (\<lambda>c. collates (pg_backend pg) (col_address c) collectionAddr) (t_collections t) = Some c"
    and "marshal_event (be_env (pg_backend pg)) (update_event collectionAddr p) = Some msg"
    and "p = (let ps = owned_listing_prices (pg_backend pg) collectionAddr t in if ps = [] then 0 else Min (set ps))"
    and "run_state (GetCollectionDetail pg chain collectionAddr) b = (r, b')"
  shows "(\<exists>d. r = Inr d \<and> cd_FloorPrice d = p \<and> cd_ListAmount d = int (length (listed_tokens (pg_backend pg) collectionAddr t))) \<and>
    bk_cache b' (GenCollectionListedKey chain collectionAddr) = Some (int_text (int (length (listed_tokens (pg_backend pg) collectionAddr t))), None) \<and>
    bk_tables b' = bk_tables b \<and>
    bk_lists b' = (if p = (case col_floor_price c of None \<Rightarrow> 0 | Some q \<Rightarrow> q) then bk_lists b
      else (bk_lists b)(genTradeEventsCacheKey chain := bk_lists b (genTradeEventsCacheKey chain) @ [msg]))"
proof -
  let ?be = "pg_backend pg"
  define n where "n = int (length (listed_tokens ?be collectionAddr t))"
  have c: "run_state (QueryCollectionInfo ?be chain collectionAddr) b = (Inr (collectionDetailFields c), b\<lparr>bk_db := Suc (bk_db b)\<rparr>)"
    using assms(1,3,4) by (simp add: QueryCollectionInfo_def run_bk_query_works)
  have fields: "col_floor_price (collectionDetailFields c) = col_floor_price c" by (simp add: collectionDetailFields_def)
  note q = run_detail_queries [OF assms(1), of _ chain t collectionAddr, folded assms(6) listed_tokens_def n_def]
  note kv = run_kv_pushes [OF assms(2)]
  note runs = c q kv run_cached [OF assms(2)]
  have push: "push_floor_event ?be chain collectionAddr p = bk_rpush ?be (genTradeEventsCacheKey chain) msg"
    using assms(5) by (simp add: push_floor_event_def update_event_def)
  show ?thesis unfolding n_def [symmetric]
    using assms(3,7) by (auto simp: GetCollectionDetail_def Let_def runs push fields CacheCollectionsListed_def backend_value_def split: prod.splits)
qed

section \<open>Witnesses\<close>

definition sample_pg :: page_env where
  "sample_pg = \<lparr>pg_backend = plain_backend, pg_trades = (\<lambda>_. None), pg_volume = (\<lambda>_. None), pg_refresh = (\<lambda>_ _ _. ''{}''),
     pg_price_text = (\<lambda>_. ''0''), pg_project = ''p''\<rparr>"

definition trait_tables :: tables where
  "trait_tables = empty_tables\<lparr>t_collections := [zero_collection\<lparr>col_address := ''c'', col_item_amount := 3\<rparr>],
     t_item_traits := [\<lparr>trait_collection_address = ''c'', trait_token_id = ''1'', trait_Trait = ''t'', trait_TraitValue = ''v''\<rparr>],
     t_items := [wallet_item ''1''],
     t_orders := [(sample_bid ''a'' ''1'' ListingOrder 7 1)\<lparr>ord_collection_address := ''c'', ord_maker := ''u''\<rparr>]\<rparr>"

definition trait_backend :: backend where
  "trait_backend = empty_backend\<lparr>bk_tables := [''e'' \<mapsto> trait_tables]\<rparr>"

lemma plain_backend_facts:
  "folds_case (be_env plain_backend)" "collates plain_backend a b \<longleftrightarrow> ToLower a = ToLower b"
  by (simp_all add: plain_backend_def plain_env_works(3) [unfolded folds_case_def])

theorem trait_percentages_witness:
  "\<exists>ti. fst (run_state (GetItemTraits plain_backend [0, 1, 2] ''e'' ''c'' ''1'') trait_backend) = Inr [ti] \<and>
     \<bar>ti_TraitPercent ti - 100 / 3\<bar> \<le> 1 / 200"
proof -
  have t: "bk_tables trait_backend ''e'' = Some trait_tables" by (simp add: trait_backend_def)
  have c: "find (\<lambda>c. collates plain_backend (col_address c) ''c'') (t_collections trait_tables) =
      Some (zero_collection\<lparr>col_address := ''c'', col_item_amount := 3\<rparr>)"
    by (simp add: trait_tables_def plain_backend_facts)
  let ?ti = "\<lparr>ti_Trait = ''t'', ti_TraitValue = ''v'', ti_TraitAmount = 1, ti_TraitPercent = trait_percent 1 3\<rparr>"
  have run: "\<exists>b'. run_state (GetItemTraits plain_backend [0, 1, 2] ''e'' ''c'' ''1'') trait_backend = (Inr [?ti], b')"
    by (simp add: GetItemTraits_def QueryItemTraits_def QueryCollectionTraits_def QueryCollectionInfo_def run_bk_query_works Let_def trait_backend_def
        shared_error_def outcome_of_def error_of_def backend_value_def trait_infos_def List.map_filter_def count_map_def trait_pair_def
        trait_tables_def plain_backend_facts collectionDetailFields_def same_trait_def)
  then obtain b' where r: "run_state (GetItemTraits plain_backend [0, 1, 2] ''e'' ''c'' ''1'') trait_backend = (Inr [?ti], b')" ..
  have "\<bar>trait_percent 1 3 - 100 / 3\<bar> \<le> 1 / 200"
    using trait_percentages [OF plain_backend_facts(1) t c _ r, of ?ti] by simp
  then have "fst (run_state (GetItemTraits plain_backend [0, 1, 2] ''e'' ''c'' ''1'') trait_backend) = Inr [?ti] \<and>
      \<bar>ti_TraitPercent ?ti - 100 / 3\<bar> \<le> 1 / 200"
    by (simp only: r fst_conv) simp
  then show ?thesis by (rule exI)
qed

theorem refresh_once_per_period_witness:
  "snd (run_state (RefreshItemMetadata sample_pg ''e'' 1 ''c'' ''1'') (empty_backend\<lparr>bk_kv := 3,
     bk_cache := [reentrancy_key 1 ''c'' ''1'' \<mapsto> (''true'', Some 1010)]\<rparr>)) =
   empty_backend\<lparr>bk_kv := 4, bk_cache := [reentrancy_key 1 ''c'' ''1'' \<mapsto> (''true'', Some 1010)]\<rparr>"
proof -
  have kv: "kv_works (be_env (pg_backend sample_pg))" by (simp add: sample_pg_def)
  have time: "be_kv_time (pg_backend sample_pg) n = 1000" for n by (simp add: sample_pg_def plain_backend_def)
  have new: "bk_live (be_kv_time (pg_backend sample_pg) (bk_kv empty_backend)) empty_backend (reentrancy_key 1 ''c'' ''1'') = ''''"
    by (simp add: bk_live_def empty_backend_def)
  note run = run_refresh [OF kv new, of "''e''"]
  show ?thesis
    using refresh_once_per_period [OF kv new run, of "\<lambda>_. []"] by (simp add: time empty_backend_def)
qed

theorem collection_page_is_current_witness:
  "\<exists>d. fst (run_state (GetCollectionDetail sample_pg ''e'' ''c'') trait_backend) = Inr d \<and> cd_FloorPrice d = 7 \<and> cd_ListAmount d = 1 \<and>
     bk_lists (snd (run_state (GetCollectionDetail sample_pg ''e'' ''c'') trait_backend)) (genTradeEventsCacheKey ''e'') = [''{}'']"
proof -
  obtain r b' where r: "run_state (GetCollectionDetail sample_pg ''e'' ''c'') trait_backend = (r, b')" by fastforce
  have works: "db_works (be_env (pg_backend sample_pg))" "kv_works (be_env (pg_backend sample_pg))" by (simp_all add: sample_pg_def)
  have pg: "pg_backend sample_pg = plain_backend" by (simp add: sample_pg_def)
  have t: "bk_tables trait_backend ''e'' = Some trait_tables" by (simp add: trait_backend_def)
  have c: "find (\<lambda>c. collates (pg_backend sample_pg) (col_address c) ''c'') (t_collections trait_tables) =
      Some (zero_collection\<lparr>col_address := ''c'', col_item_amount := 3\<rparr>)"
    by (simp add: trait_tables_def plain_backend_facts pg)
  have msg: "marshal_event (be_env (pg_backend sample_pg)) (update_event ''c'' 7) = Some ''{}''"
    by (simp add: pg plain_backend_def plain_env_def)
  have rows: "joined plain_backend ''c'' ((sample_bid ''a'' ''1'' ListingOrder 7 1)\<lparr>ord_collection_address := ''c'', ord_maker := ''u''\<rparr>) (wallet_item ''1'')"
    by (simp add: joined_def joins_item_def plain_backend_facts sample_bid_def wallet_item_def not_banned_def)
  have floor: "owned_listing_prices (pg_backend sample_pg) ''c'' trait_tables = [7]"
    using rows by (simp add: pg owned_listing_prices_def trait_tables_def plain_backend_facts wallet_item_def sample_bid_def)
  have listed: "listed_tokens (pg_backend sample_pg) ''c'' trait_tables = [''1'']"
    using rows by (simp add: pg listed_tokens_def trait_tables_def plain_backend_facts wallet_item_def sample_bid_def owner_lists_def)
  have "(7 :: price) = (let ps = owned_listing_prices (pg_backend sample_pg) ''c'' trait_tables in if ps = [] then 0 else Min (set ps))"
    by (simp add: floor)
  from collection_page_is_current [OF works t c msg this r]
  have "(\<exists>d. r = Inr d \<and> cd_FloorPrice d = 7 \<and> cd_ListAmount d = 1) \<and> bk_lists b' = (bk_lists trait_backend)(genTradeEventsCacheKey ''e'' :=
      bk_lists trait_backend (genTradeEventsCacheKey ''e'') @ [''{}''])"
    by (simp add: listed zero_collection_def)
  moreover have "bk_lists trait_backend = (\<lambda>_. [])" by (simp add: trait_backend_def empty_backend_def)
  ultimately show ?thesis by (auto simp: r)
qed

end
