(* ===== verification/Import.thy ===== *)
theory Import
  imports Address CollectionPage
begin

text \<open>
  Owners read from the chain: \<open>GetItemOwner\<close> (\<open>service/v1/collection.go\<close>), which refreshes the owner of an item, and
  \<open>ImportPortfolioItem\<close> (\<open>service/v1/portfolio_import.go\<close>, \<open>api/v1/portfolio.go\<close>), which enters an item its owner names.
  The services of the chains are parameters: the owner of a token (as the text of its address) and name and image of its
  metadata, or nothing after an error; \<open>NodeService\<close> models the service.
\<close>

section \<open>Owner of an item\<close>

record chain_service =
  FetchNftOwner :: "string \<Rightarrow> string \<Rightarrow> go_panic + string option"
  FetchOnChainMetadata :: "string \<Rightarrow> string \<Rightarrow> go_panic + (string \<times> string) option"

record ItemOwner =
  io_CollectionAddress :: string
  io_TokenID :: string
  io_Owner :: string

definition item_key_is :: "backend_env \<Rightarrow> string \<Rightarrow> string \<Rightarrow> ItemRow \<Rightarrow> bool" where
  "item_key_is be collectionAddr tokenId i \<longleftrightarrow> collates be (item_collection_address i) collectionAddr \<and>
     collates be (item_token_id i) tokenId"

definition UpdateItemOwner :: "backend_env \<Rightarrow> string \<Rightarrow> string \<Rightarrow> string \<Rightarrow> string \<Rightarrow> unit B" where
  "UpdateItemOwner be chain collectionAddr tokenId owner = bk_update be chain (\<lambda>t. t\<lparr>t_items :=
     map (\<lambda>i. if item_key_is be collectionAddr tokenId i then i\<lparr>item_owner := Some owner\<rparr> else i) (t_items t)\<rparr>)"

text \<open>A chain without a service is a nil pointer. A failed update is only logged.\<close>

definition GetItemOwner ::
  "backend_env \<Rightarrow> (int \<rightharpoonup> chain_service) \<Rightarrow> (bytes \<Rightarrow> bytes) \<Rightarrow> int \<Rightarrow> string \<Rightarrow> string \<Rightarrow> string \<Rightarrow> ItemOwner B" where
  "GetItemOwner be NodeSrvs keccak chainID chain collectionAddr tokenId = (case NodeSrvs chainID of
       None \<Rightarrow> State_Monad.return (Inl (Panicked NilDereference))
     | Some srv \<Rightarrow> (case FetchNftOwner srv collectionAddr tokenId of
         Inl p \<Rightarrow> State_Monad.return (Inl (Panicked p))
       | Inr None \<Rightarrow> State_Monad.return (Inl NodeFailed)
       | Inr (Some address) \<Rightarrow> (case ToCheckSumAddress keccak address of
           Inl p \<Rightarrow> State_Monad.return (Inl (Panicked p))
         | Inr (Inl _) \<Rightarrow> State_Monad.return (Inl InvalidRequest)
         | Inr (Inr owner) \<Rightarrow> do {
             _ \<leftarrow> UpdateItemOwner be chain collectionAddr tokenId owner;
             State_Monad.return (Inr \<lparr>io_CollectionAddress = collectionAddr, io_TokenID = tokenId, io_Owner = owner\<rparr>)
           })))"

section \<open>Import of an item\<close>

record PortfolioImportItemRequest =
  rq_ChainID :: int
  rq_UserAddress :: string
  rq_CollectionAddress :: string
  rq_TokenID :: string
  rq_LogoURI :: string

record PortfolioImportItemResponse =
  rs_ChainID :: int
  rs_CollectionAddress :: string
  rs_TokenID :: string
  rs_Owner :: string
  rs_Name :: string
  rs_ImageURI :: string

definition maxImageURILength :: nat where "maxImageURILength = 255"

definition sanitizeImageURI :: "string \<Rightarrow> string" where
  "sanitizeImageURI imageURI = (let uri = TrimSpace imageURI
     in if uri = '''' then ''''
        else if is_prefix ''data:image/'' (ToLower uri) then ''''
        else if maxImageURILength < length uri then ''''
        else uri)"

definition ValidatePortfolioImportRequest :: "(string \<Rightarrow> bool) \<Rightarrow> PortfolioImportItemRequest \<Rightarrow> bool" where
  "ValidatePortfolioImportRequest isHexAddress req \<longleftrightarrow> 0 < rq_ChainID req \<and> isHexAddress (rq_UserAddress req) \<and>
     isHexAddress (rq_CollectionAddress req) \<and> TrimSpace (rq_TokenID req) \<noteq> ''''"

text \<open>\<open>INSERT ... ON DUPLICATE KEY UPDATE\<close>: the rows with the key are changed, or the new row is added.\<close>

definition upsert :: "('r \<Rightarrow> bool) \<Rightarrow> ('r \<Rightarrow> 'r) \<Rightarrow> 'r \<Rightarrow> 'r list \<Rightarrow> 'r list" where
  "upsert key change new_row rows =
     (if list_ex key rows then map (\<lambda>r. if key r then change r else r) rows else rows @ [new_row])"

definition imported_collection :: "backend_env \<Rightarrow> int \<Rightarrow> PortfolioImportItemRequest \<Rightarrow> string \<Rightarrow> string \<Rightarrow> tables \<Rightarrow> CollectionRow" where
  "imported_collection be t req owner imageURI tb =
     zero_collection\<lparr>col_id := auto_id (be_env be) (map col_id (t_collections tb)), col_address := ToLower (rq_CollectionAddress req),
       col_chain_id := rq_ChainID req, col_symbol := ''UNKNOWN'', col_name := ''Unknown Collection'', col_image_uri := imageURI,
       col_creator := owner, col_token_standard := 1, col_floor_price := Some 0, col_sale_price := Some 0, col_update_time := t\<rparr>"

definition import_collection :: "backend_env \<Rightarrow> int \<Rightarrow> PortfolioImportItemRequest \<Rightarrow> string \<Rightarrow> string \<Rightarrow> tables \<Rightarrow> tables" where
  "import_collection be t req owner imageURI tb = (let addr = ToLower (rq_CollectionAddress req) in
     tb\<lparr>t_collections := upsert (\<lambda>c. collates be (col_address c) addr) (\<lambda>c. c\<lparr>col_image_uri := imageURI, col_update_time := t\<rparr>)
       (imported_collection be t req owner imageURI tb)
       (t_collections tb)\<rparr>)"

definition imported_item :: "int \<Rightarrow> PortfolioImportItemRequest \<Rightarrow> string \<Rightarrow> string \<Rightarrow> ItemRow" where
  "imported_item t req owner itemName =
     \<lparr>item_chain_id = rq_ChainID req, item_collection_address = ToLower (rq_CollectionAddress req), item_token_id = rq_TokenID req,
      item_name = itemName, item_owner = Some owner, item_creator = owner, item_supply = 1, item_list_price = Some 0, item_list_time = 0,
      item_sale_price = Some 0, item_views = 0, item_is_opensea_banned = False, item_update_time = t\<rparr>"

definition import_item :: "backend_env \<Rightarrow> int \<Rightarrow> PortfolioImportItemRequest \<Rightarrow> string \<Rightarrow> string \<Rightarrow> tables \<Rightarrow> tables" where
  "import_item be t req owner itemName tb = (let addr = ToLower (rq_CollectionAddress req) in
     tb\<lparr>t_items := upsert (item_key_is be addr (rq_TokenID req))
       (\<lambda>i. i\<lparr>item_owner := Some owner, item_name := itemName, item_update_time := t\<rparr>)
       (imported_item t req owner itemName)
       (t_items tb)\<rparr>)"

definition import_external :: "backend_env \<Rightarrow> PortfolioImportItemRequest \<Rightarrow> string \<Rightarrow> tables \<Rightarrow> tables" where
  "import_external be req imageURI tb = (let addr = ToLower (rq_CollectionAddress req) in
     tb\<lparr>t_item_external := upsert (\<lambda>x. collates be (ext_collection_address x) addr \<and> collates be (ext_token_id x) (rq_TokenID req))
       (\<lambda>x. x\<lparr>ext_image_uri := imageURI\<rparr>)
       \<lparr>ext_collection_address = addr, ext_token_id = rq_TokenID req, ext_meta_data_uri = '''', ext_image_uri = imageURI,
        ext_is_uploaded_oss = False, ext_oss_uri = '''', ext_is_video_uploaded = False, ext_video_type = '''', ext_video_uri = '''',
        ext_video_oss_uri = ''''\<rparr>
       (t_item_external tb)\<rparr>)"

text \<open>Name and image: from the metadata when it has them, the image only when the request names none.\<close>

definition import_name :: "PortfolioImportItemRequest \<Rightarrow> (string \<times> string) option \<Rightarrow> string" where
  "import_name req metadata = (case metadata of
       Some (name, _) \<Rightarrow> if TrimSpace name \<noteq> '''' then name else ''NFT #'' @ rq_TokenID req
     | None \<Rightarrow> ''NFT #'' @ rq_TokenID req)"

definition import_image :: "PortfolioImportItemRequest \<Rightarrow> (string \<times> string) option \<Rightarrow> string" where
  "import_image req metadata = (let imageURI = TrimSpace (rq_LogoURI req) in sanitizeImageURI (case metadata of
       Some (_, img) \<Rightarrow> if imageURI = '''' \<and> TrimSpace img \<noteq> '''' then img else imageURI
     | None \<Rightarrow> imageURI))"

definition ImportPortfolioItem ::
  "backend_env \<Rightarrow> (int \<rightharpoonup> chain_service) \<Rightarrow> string \<Rightarrow> PortfolioImportItemRequest \<Rightarrow> PortfolioImportItemResponse B" where
  "ImportPortfolioItem be NodeSrvs chainName req = (case NodeSrvs (rq_ChainID req) of
       None \<Rightarrow> State_Monad.return (Inl InvalidRequest)
     | Some srv \<Rightarrow> (case FetchNftOwner srv (rq_CollectionAddress req) (rq_TokenID req) of
         Inl p \<Rightarrow> State_Monad.return (Inl (Panicked p))
       | Inr None \<Rightarrow> State_Monad.return (Inl NodeFailed)
       | Inr (Some owner) \<Rightarrow>
           if \<not> EqualFold owner (rq_UserAddress req) then State_Monad.return (Inl InvalidRequest)
           else (case FetchOnChainMetadata srv (rq_CollectionAddress req) (rq_TokenID req) of
             Inl p \<Rightarrow> State_Monad.return (Inl (Panicked p))
           | Inr metadata \<Rightarrow> let itemName = import_name req metadata; imageURI = import_image req metadata in do {
               t \<leftarrow> bk_now be;
               and_then (bk_update be chainName (import_collection be t req owner imageURI)) (\<lambda>_.
                 and_then (bk_update be chainName (import_item be t req owner itemName)) (\<lambda>_. do {
                   _ \<leftarrow> (if imageURI = '''' then State_Monad.return (Inr ()) else bk_update be chainName (import_external be req imageURI));
                   State_Monad.return (Inr \<lparr>rs_ChainID = rq_ChainID req, rs_CollectionAddress = ToLower (rq_CollectionAddress req),
                     rs_TokenID = rq_TokenID req, rs_Owner = owner, rs_Name = itemName, rs_ImageURI = imageURI\<rparr>)
                 }))
             })))"

definition ImportPortfolioItemHandler ::
  "backend_env \<Rightarrow> (int \<rightharpoonup> chain_service) \<Rightarrow> (string \<Rightarrow> bool) \<Rightarrow> PortfolioImportItemRequest option \<Rightarrow> PortfolioImportItemResponse B" where
  "ImportPortfolioItemHandler be NodeSrvs isHexAddress body = (case body of
       None \<Rightarrow> State_Monad.return (Inl InvalidRequest)
     | Some req \<Rightarrow>
         if \<not> ValidatePortfolioImportRequest isHexAddress req then State_Monad.return (Inl InvalidRequest)
         else (case chainIDToChain (rq_ChainID req) of
             None \<Rightarrow> State_Monad.return (Inl InvalidRequest)
           | Some chain \<Rightarrow> ImportPortfolioItem be NodeSrvs chain req))"

section \<open>Only the owner imports\<close>

lemma run_bk_update_works:
  "db_works (be_env be) \<Longrightarrow> bk_tables b chain = Some t \<Longrightarrow> run_state (bk_update be chain f) b =
     (Inr (), b\<lparr>bk_db := Suc (bk_db b), bk_tables := (bk_tables b)(chain \<mapsto> f t)\<rparr>)"
  by (simp add: bk_update_def db_works_def Let_def)

text \<open>
  What an import needs of the service of a chain so that it cannot panic: that neither of the two calls does for the token
  ids it accepts. \<open>NodeService\<close> provides it.
\<close>

lemma bk_update_answers: "fst (run_state (bk_update be chain f) b) \<in> {Inr (), Inl DBFailed}"
  by (auto simp: bk_update_def Let_def split: option.split outcome.split)

locale chain_source =
  fixes srv :: chain_service
    and token_ok :: "string \<Rightarrow> bool"
  assumes owner_returns: "token_ok tok \<Longrightarrow> FetchNftOwner srv addr tok \<noteq> Inl p"
    and metadata_returns: "token_ok tok \<Longrightarrow> FetchOnChainMetadata srv addr tok \<noteq> Inl p"
begin

lemma import_returns:
  assumes "NodeSrvs (rq_ChainID req) = Some srv" "token_ok (rq_TokenID req)"
  shows "fst (run_state (ImportPortfolioItem be NodeSrvs chainName req) b) \<noteq> Inl (Backend.Panicked p)"
proof -
  have u: "run_state (bk_update be chain f) b \<noteq> (Inl (Backend.Panicked p), b')" for chain f b b'
    using bk_update_answers [of be chain f b] by auto
  obtain o' m where "FetchNftOwner srv (rq_CollectionAddress req) (rq_TokenID req) = Inr o'"
    "FetchOnChainMetadata srv (rq_CollectionAddress req) (rq_TokenID req) = Inr m"
    using owner_returns [OF assms(2)] metadata_returns [OF assms(2)] by (metis obj_sumE)
  then show ?thesis using assms(1) u
    by (auto simp: ImportPortfolioItem_def Let_def split: option.split sum.split prod.split)
qed

end

text \<open>C16: \<open>ImportPortfolioItem\<close> succeeds or changes a table only for the user that the service of the chain names as the
  owner of the token.\<close>

theorem import_needs_owner:
  assumes "run_state (ImportPortfolioItem be NodeSrvs chainName req) b = (r, b')"
    and "(\<exists>a. r = Inr a) \<or> bk_tables b' \<noteq> bk_tables b"
  shows "\<exists>srv owner. NodeSrvs (rq_ChainID req) = Some srv \<and>
    FetchNftOwner srv (rq_CollectionAddress req) (rq_TokenID req) = Inr (Some owner) \<and> EqualFold owner (rq_UserAddress req)"
  using assms unfolding ImportPortfolioItem_def by (auto split: option.splits sum.splits if_splits)

lemma upsert_others: "(\<And>r. key (change r) = key r) \<Longrightarrow> key new_row \<Longrightarrow>
  filter (\<lambda>r. \<not> key r) (upsert key change new_row rows) = filter (\<lambda>r. \<not> key r) rows"
proof -
  assume keep: "\<And>r. key (change r) = key r" and new: "key new_row"
  have "filter (\<lambda>r. \<not> key r) (map (\<lambda>r. if key r then change r else r) rows) = filter (\<lambda>r. \<not> key r) rows"
    by (induction rows) (auto simp: keep)
  then show ?thesis using new by (simp add: upsert_def)
qed

lemma upsert_key:
  assumes "\<And>r. key r \<Longrightarrow> P (change r)" "P new_row" "\<And>r. key (change r) = key r" "key new_row"
  shows "filter key (upsert key change new_row rows) \<noteq> [] \<and> list_all P (filter key (upsert key change new_row rows))"
proof (cases "list_ex key rows")
  case True
  then have "filter key (map (\<lambda>r. if key r then change r else r) rows) \<noteq> []"
    using assms(3) by (induction rows) auto
  moreover have "list_all P (filter key (map (\<lambda>r. if key r then change r else r) rows))"
    using assms(1) by (induction rows) auto
  ultimately show ?thesis using True by (simp add: upsert_def)
next
  case False
  then have "filter key rows = []" by (simp add: list_ex_iff filter_empty_conv)
  then show ?thesis using False assms(2,4) by (simp add: upsert_def)
qed

text \<open>An import that succeeds leaves the item of the request in the table with the owner and name of the answer, whether it
  was there before or not, no other item changed, and every collection of that address with the image of the request.\<close>

theorem import_records_owner:
  assumes "db_works (be_env be)" "folds_case (be_env be)" "bk_tables b chainName = Some t"
    and "run_state (ImportPortfolioItem be NodeSrvs chainName req) b = (Inr a, b')"
  defines "key \<equiv> item_key_is be (ToLower (rq_CollectionAddress req)) (rq_TokenID req)"
    and "named \<equiv> \<lambda>c. collates be (col_address c) (ToLower (rq_CollectionAddress req))"
  shows "\<exists>t'. bk_tables b' = (bk_tables b)(chainName \<mapsto> t') \<and>
    filter (\<lambda>i. \<not> key i) (t_items t') = filter (\<lambda>i. \<not> key i) (t_items t) \<and>
    filter key (t_items t') \<noteq> [] \<and>
    list_all (\<lambda>i. item_owner i = Some (rs_Owner a) \<and> item_name i = rs_Name a) (filter key (t_items t')) \<and>
    list_all (\<lambda>c. col_image_uri c = rs_ImageURI a) (filter named (t_collections t'))"
proof -
  obtain srv owner md where srv: "NodeSrvs (rq_ChainID req) = Some srv"
      "FetchNftOwner srv (rq_CollectionAddress req) (rq_TokenID req) = Inr (Some owner)" "EqualFold owner (rq_UserAddress req)"
      "FetchOnChainMetadata srv (rq_CollectionAddress req) (rq_TokenID req) = Inr md"
    using assms(4) unfolding ImportPortfolioItem_def by (auto split: option.splits sum.splits if_splits)
  define nm where "nm = import_name req md"
  define im where "im = import_image req md"
  define t0 where "t0 = clock (be_env be) (bk_clock b)"
  define t1 where "t1 = import_item be t0 req owner nm (import_collection be t0 req owner im t)"
  define t' where "t' = (if im = '''' then t1 else import_external be req im t1)"
  have run: "bk_tables b' = (bk_tables b)(chainName \<mapsto> t') \<and> rs_Owner a = owner \<and> rs_Name a = nm \<and> rs_ImageURI a = im"
    using assms(1,3,4) srv unfolding ImportPortfolioItem_def nm_def [symmetric] im_def [symmetric]
    by (auto simp: run_bk_update_works Let_def nm_def [symmetric] im_def [symmetric] t0_def [symmetric] t1_def t'_def split: if_splits)
  have items: "t_items t' = upsert key (\<lambda>i. i\<lparr>item_owner := Some owner, item_name := nm, item_update_time := t0\<rparr>)
      (imported_item t0 req owner nm) (t_items t)"
    by (simp add: t'_def t1_def import_external_def import_item_def import_collection_def Let_def key_def)
  have cols: "t_collections t' = upsert named (\<lambda>c. c\<lparr>col_image_uri := im, col_update_time := t0\<rparr>)
      (imported_collection be t0 req owner im t) (t_collections t)"
    by (simp add: t'_def t1_def import_external_def import_item_def import_collection_def Let_def named_def)
  have new: "key (imported_item t0 req owner nm)" "named (imported_collection be t0 req owner im t)"
    using assms(2) by (simp_all add: key_def named_def item_key_is_def imported_item_def imported_collection_def folds_case_def)
  have "filter (\<lambda>i. \<not> key i) (t_items t') = filter (\<lambda>i. \<not> key i) (t_items t)"
    unfolding items by (rule upsert_others) (use new(1) in \<open>simp_all add: key_def item_key_is_def\<close>)
  moreover have "filter key (t_items t') \<noteq> [] \<and>
      list_all (\<lambda>i. item_owner i = Some owner \<and> item_name i = nm) (filter key (t_items t'))"
    unfolding items by (rule upsert_key) (use new(1) in \<open>simp_all add: key_def item_key_is_def imported_item_def\<close>)
  moreover have "list_all (\<lambda>c. col_image_uri c = im) (filter named (t_collections t'))"
    unfolding cols by (rule conjunct2 [OF upsert_key]) (use new(2) in \<open>simp_all add: named_def imported_collection_def\<close>)
  ultimately show ?thesis using run by auto
qed

section \<open>Witnesses\<close>

definition sample_srv :: "int \<rightharpoonup> chain_service" where
  "sample_srv = [1 \<mapsto> \<lparr>FetchNftOwner = (\<lambda>_ _. Inr (Some ''u'')), FetchOnChainMetadata = (\<lambda>_ _. Inr None)\<rparr>]"

definition sample_request :: PortfolioImportItemRequest where
  "sample_request = \<lparr>rq_ChainID = 1, rq_UserAddress = ''u'', rq_CollectionAddress = ''c'', rq_TokenID = ''2'', rq_LogoURI = ''''\<rparr>"

lemma sample_import:
  "\<exists>b'. run_state (ImportPortfolioItem plain_backend sample_srv ''e'' sample_request) trait_backend =
     (Inr \<lparr>rs_ChainID = 1, rs_CollectionAddress = ToLower ''c'', rs_TokenID = ''2'', rs_Owner = ''u'', rs_Name = ''NFT #2'', rs_ImageURI = ''''\<rparr>, b')"
proof -
  have "TrimSpace '''' = ''''" by (rule TrimSpace_plain) simp
  then show ?thesis
    by (simp add: ImportPortfolioItem_def sample_srv_def sample_request_def import_name_def import_image_def sanitizeImageURI_def
        EqualFold_def trait_backend_def run_bk_update_works Let_def)
qed

theorem import_needs_owner_witness: "EqualFold ''u'' (rq_UserAddress sample_request)"
proof -
  obtain b' where "run_state (ImportPortfolioItem plain_backend sample_srv ''e'' sample_request) trait_backend =
     (Inr \<lparr>rs_ChainID = 1, rs_CollectionAddress = ToLower ''c'', rs_TokenID = ''2'', rs_Owner = ''u'', rs_Name = ''NFT #2'', rs_ImageURI = ''''\<rparr>, b')"
    using sample_import ..
  from import_needs_owner [OF this] show ?thesis by (auto simp: sample_srv_def sample_request_def)
qed

theorem import_records_owner_witness:
  "\<exists>t. bk_tables (snd (run_state (ImportPortfolioItem plain_backend sample_srv ''e'' sample_request) trait_backend)) ''e'' = Some t \<and>
     list_all (\<lambda>i. item_owner i = Some ''u'') (filter (item_key_is plain_backend (ToLower ''c'') ''2'') (t_items t))"
proof -
  obtain b' where run: "run_state (ImportPortfolioItem plain_backend sample_srv ''e'' sample_request) trait_backend =
     (Inr \<lparr>rs_ChainID = 1, rs_CollectionAddress = ToLower ''c'', rs_TokenID = ''2'', rs_Owner = ''u'', rs_Name = ''NFT #2'', rs_ImageURI = ''''\<rparr>, b')"
    using sample_import ..
  have t: "bk_tables trait_backend ''e'' = Some trait_tables" by (simp add: trait_backend_def)
  from import_records_owner [OF plain_backend_works(1) plain_backend_facts(1) t run]
  have "\<exists>t. bk_tables b' ''e'' = Some t \<and>
      list_all (\<lambda>i. item_owner i = Some ''u'') (filter (item_key_is plain_backend (ToLower ''c'') ''2'') (t_items t))"
    by (auto simp: sample_request_def list_all_iff)
  then show ?thesis by (simp only: run snd_conv)
qed

end
