(* ===== verification/Admin.thy ===== *)
theory Admin
  imports Import
begin

text \<open>
  Administration of contracts: \<open>api/v1/admin.go\<close>, \<open>service/v1/admin.go\<close> and \<open>dao/admin.go\<close> of \<open>NFTMarket-backend\<close>. The
  state is the collection tables by their names, with the columns of \<open>types.Contract\<close>. The server decides how texts
  compare and match patterns, the order of rows of one time, and the ids. Synchronising and refreshing only wait: they
  change the flag \<open>is_syncing\<close> and nothing else.
\<close>

section \<open>State\<close>

record Contract =
  ctr_ID :: int
  ctr_Symbol :: string
  ctr_ChainID :: int
  ctr_Auth :: int
  ctr_TokenStandard :: int
  ctr_Name :: string
  ctr_Creator :: string
  ctr_Address :: string
  ctr_OwnerAmount :: int
  ctr_ItemAmount :: int
  ctr_Description :: "string option"
  ctr_Website :: "string option"
  ctr_Twitter :: "string option"
  ctr_Discord :: "string option"
  ctr_Instagram :: "string option"
  ctr_FloorPrice :: "string option"
  ctr_SalePrice :: "string option"
  ctr_VolumeTotal :: "string option"
  ctr_ImageURI :: "string option"
  ctr_Banner :: "string option"
  ctr_BannerURI :: "string option"
  ctr_OpenseaBanScan :: int
  ctr_IsSyncing :: bool
  ctr_HistorySaleSync :: int
  ctr_HistoryOverview :: int
  ctr_FloorPriceStatus :: int
  ctr_CreateTime :: "int option"
  ctr_UpdateTime :: "int option"

record admin_db =
  adm_tables :: "string \<rightharpoonup> Contract list"
  adm_calls :: nat
  adm_readings :: nat

record admin_env =
  adm_outcome :: "nat \<Rightarrow> outcome"
  adm_same :: "string \<Rightarrow> string \<Rightarrow> bool"
  adm_like :: "string \<Rightarrow> string \<Rightarrow> bool"
  adm_milli :: "nat \<Rightarrow> int"
  adm_order :: "Contract list \<Rightarrow> Contract list"
  adm_id :: "int list \<Rightarrow> int"
  adm_found_rows :: bool
  adm_uuid :: "nat \<Rightarrow> string"

datatype admin_error = AdminDBFailed | InvalidAddress | ContractExists | ContractNotFound | BadAdminRequest

type_synonym 'a A = "(admin_db, admin_error + 'a) state"

definition admin_then :: "'a A \<Rightarrow> ('a \<Rightarrow> 'b A) \<Rightarrow> 'b A" where
  "admin_then m f = do { r \<leftarrow> m; case r of Inl err \<Rightarrow> State_Monad.return (Inl err) | Inr a \<Rightarrow> f a }"

text \<open>A statement on one table: its answer, \<open>None\<close> when the server rejects it, and the new rows.\<close>

definition admin_exec :: "admin_env \<Rightarrow> string \<Rightarrow> (Contract list \<Rightarrow> ('a \<times> Contract list) option) \<Rightarrow> 'a A" where
  "admin_exec e table f = State (\<lambda>s.
     let s1 = s\<lparr>adm_calls := Suc (adm_calls s)\<rparr>
     in case Option.bind (adm_tables s table) f of
          None \<Rightarrow> (Inl AdminDBFailed, s1)
        | Some (a, rows) \<Rightarrow>
            let s2 = s1\<lparr>adm_tables := (adm_tables s)(table \<mapsto> rows)\<rparr>
            in (case adm_outcome e (adm_calls s) of
                  Done \<Rightarrow> (Inr a, s2) | Rejected \<Rightarrow> (Inl AdminDBFailed, s1) | Lost \<Rightarrow> (Inl AdminDBFailed, s2)))"

definition admin_milli :: "admin_env \<Rightarrow> (admin_db, int) state" where
  "admin_milli e = State (\<lambda>s. (adm_milli e (adm_readings s), s\<lparr>adm_readings := Suc (adm_readings s)\<rparr>))"

section \<open>Statements\<close>

definition getCollectionTableName :: "string \<Rightarrow> string" where
  "getCollectionTableName chainName = ''ob_collection_'' @ ToLower chainName"

definition getChainName :: "int \<Rightarrow> string" where
  "getChainName chainID = (if chainID = 1 then ''ethereum'' else if chainID = 11155111 then ''sepolia''
     else if chainID = 137 then ''polygon'' else if chainID = 80001 then ''mumbai'' else ''sepolia'')"

definition admin_table :: "int \<Rightarrow> string" where
  "admin_table chainID = getCollectionTableName (getChainName chainID)"

record AdminGetContractsReq =
  gc_Page :: int
  gc_PageSize :: int
  gc_ChainID :: int
  gc_Auth :: "int option"
  gc_IsSyncing :: "bool option"
  gc_Keyword :: string

definition contract_matches :: "admin_env \<Rightarrow> AdminGetContractsReq \<Rightarrow> Contract \<Rightarrow> bool" where
  "contract_matches e req c \<longleftrightarrow> (0 < gc_ChainID req \<longrightarrow> ctr_ChainID c = gc_ChainID req) \<and>
     (case gc_Auth req of None \<Rightarrow> True | Some a \<Rightarrow> ctr_Auth c = a) \<and>
     (case gc_IsSyncing req of None \<Rightarrow> True | Some s \<Rightarrow> ctr_IsSyncing c = s) \<and>
     (gc_Keyword req = '''' \<or> (let keyword = ''%'' @ gc_Keyword req @ ''%''
        in adm_like e (ctr_Name c) keyword \<or> adm_like e (ctr_Address c) keyword \<or> adm_like e (ctr_Symbol c) keyword))"

text \<open>Newest first; a row without a time comes last.\<close>

definition newest_contracts :: "admin_env \<Rightarrow> Contract list \<Rightarrow> Contract list" where
  "newest_contracts e rows = (let rs = adm_order e rows
     in sort_key (\<lambda>c. case ctr_CreateTime c of None \<Rightarrow> 0 | Some t \<Rightarrow> - t) (filter (\<lambda>c. ctr_CreateTime c \<noteq> None) rs) @
        filter (\<lambda>c. ctr_CreateTime c = None) rs)"

definition dao_AdminGetContracts :: "admin_env \<Rightarrow> AdminGetContractsReq \<Rightarrow> (Contract list \<times> int) A" where
  "dao_AdminGetContracts e req = (let table = admin_table (gc_ChainID req) in
     admin_then (admin_exec e table (\<lambda>rows. Some (length (filter (contract_matches e req) rows), rows))) (\<lambda>n.
       admin_then (admin_exec e table (\<lambda>rows. map_option (\<lambda>page. (page, rows))
           (gorm_limit (gc_PageSize req) (wrap64 (wrap64 (gc_Page req - 1) * gc_PageSize req)) (newest_contracts e (filter (contract_matches e req) rows)))))
         (\<lambda>contracts. State_Monad.return (Inr (contracts, int n)))))"

record AdminAddContractReq =
  ac_Address :: string
  ac_Name :: string
  ac_Symbol :: string
  ac_ChainID :: int
  ac_TokenStandard :: int
  ac_Creator :: string
  ac_Description :: "string option"
  ac_Website :: "string option"
  ac_Twitter :: "string option"
  ac_Discord :: "string option"
  ac_Instagram :: "string option"
  ac_ImageURI :: "string option"
  ac_Banner :: "string option"
  ac_BannerURI :: "string option"

definition added_contract :: "int \<Rightarrow> int \<Rightarrow> AdminAddContractReq \<Rightarrow> Contract" where
  "added_contract i t req = \<lparr>ctr_ID = i, ctr_Symbol = ac_Symbol req, ctr_ChainID = ac_ChainID req, ctr_Auth = 0,
     ctr_TokenStandard = ac_TokenStandard req, ctr_Name = ac_Name req, ctr_Creator = ac_Creator req,
     ctr_Address = ToLower (ac_Address req), ctr_OwnerAmount = 0, ctr_ItemAmount = 0, ctr_Description = ac_Description req,
     ctr_Website = ac_Website req, ctr_Twitter = ac_Twitter req, ctr_Discord = ac_Discord req, ctr_Instagram = ac_Instagram req,
     ctr_FloorPrice = None, ctr_SalePrice = None, ctr_VolumeTotal = None, ctr_ImageURI = ac_ImageURI req,
     ctr_Banner = ac_Banner req, ctr_BannerURI = ac_BannerURI req, ctr_OpenseaBanScan = 0, ctr_IsSyncing = False,
     ctr_HistorySaleSync = 0, ctr_HistoryOverview = 1, ctr_FloorPriceStatus = 0, ctr_CreateTime = Some t, ctr_UpdateTime = Some t\<rparr>"

text \<open>The address is a unique key of the table.\<close>

definition dao_AdminAddContract :: "admin_env \<Rightarrow> AdminAddContractReq \<Rightarrow> unit A" where
  "dao_AdminAddContract e req = do {
     t \<leftarrow> admin_milli e;
     admin_exec e (admin_table (ac_ChainID req)) (\<lambda>rows.
       if list_ex (\<lambda>c. adm_same e (ctr_Address c) (ToLower (ac_Address req))) rows then None
       else Some ((), rows @ [added_contract (adm_id e (map ctr_ID rows)) t req]))
   }"

record AdminUpdateContractReq =
  up_Name :: "string option"
  up_Symbol :: "string option"
  up_Description :: "string option"
  up_Website :: "string option"
  up_Twitter :: "string option"
  up_Discord :: "string option"
  up_Instagram :: "string option"
  up_ImageURI :: "string option"
  up_Banner :: "string option"
  up_BannerURI :: "string option"
  up_Auth :: "int option"

definition or_else :: "'a option \<Rightarrow> 'a option \<Rightarrow> 'a option" where
  "or_else x y = (case x of None \<Rightarrow> y | Some _ \<Rightarrow> x)"

definition updated_contract :: "int \<Rightarrow> AdminUpdateContractReq \<Rightarrow> Contract \<Rightarrow> Contract" where
  "updated_contract t req c = c\<lparr>ctr_UpdateTime := Some t,
     ctr_Name := (case up_Name req of None \<Rightarrow> ctr_Name c | Some x \<Rightarrow> x),
     ctr_Symbol := (case up_Symbol req of None \<Rightarrow> ctr_Symbol c | Some x \<Rightarrow> x),
     ctr_Description := or_else (up_Description req) (ctr_Description c), ctr_Website := or_else (up_Website req) (ctr_Website c),
     ctr_Twitter := or_else (up_Twitter req) (ctr_Twitter c), ctr_Discord := or_else (up_Discord req) (ctr_Discord c),
     ctr_Instagram := or_else (up_Instagram req) (ctr_Instagram c), ctr_ImageURI := or_else (up_ImageURI req) (ctr_ImageURI c),
     ctr_Banner := or_else (up_Banner req) (ctr_Banner c), ctr_BannerURI := or_else (up_BannerURI req) (ctr_BannerURI c),
     ctr_Auth := (case up_Auth req of None \<Rightarrow> ctr_Auth c | Some x \<Rightarrow> x)\<rparr>"

text \<open>The number of rows affected: those found, or those changed, by the setting of the connection.\<close>

definition change_contract :: "admin_env \<Rightarrow> string \<Rightarrow> (Contract \<Rightarrow> Contract) \<Rightarrow> Contract list \<Rightarrow> (nat \<times> Contract list) option" where
  "change_contract e address f rows = (let own = (\<lambda>c. adm_same e (ctr_Address c) (ToLower address)) in
     Some (length (filter (\<lambda>c. own c \<and> (adm_found_rows e \<or> f c \<noteq> c)) rows), map (\<lambda>c. if own c then f c else c) rows))"

definition need_rows :: "nat A \<Rightarrow> unit A" where
  "need_rows m = admin_then m (\<lambda>n. State_Monad.return (if n = 0 then Inl ContractNotFound else Inr ()))"

definition dao_AdminUpdateContract :: "admin_env \<Rightarrow> int \<Rightarrow> string \<Rightarrow> AdminUpdateContractReq \<Rightarrow> unit A" where
  "dao_AdminUpdateContract e chainID address req = do {
     t \<leftarrow> admin_milli e;
     need_rows (admin_exec e (admin_table chainID) (change_contract e address (updated_contract t req)))
   }"

definition dao_AdminDeleteContract :: "admin_env \<Rightarrow> int \<Rightarrow> string \<Rightarrow> unit A" where
  "dao_AdminDeleteContract e chainID address = need_rows (admin_exec e (admin_table chainID) (\<lambda>rows.
     let own = (\<lambda>c. adm_same e (ctr_Address c) (ToLower address))
     in Some (length (filter own rows), filter (\<lambda>c. \<not> own c) rows)))"

definition dao_AdminGetContract :: "admin_env \<Rightarrow> int \<Rightarrow> string \<Rightarrow> Contract A" where
  "dao_AdminGetContract e chainID address =
     admin_then (admin_exec e (admin_table chainID) (\<lambda>rows. Some (find (\<lambda>c. adm_same e (ctr_Address c) (ToLower address)) rows, rows)))
       (\<lambda>c. State_Monad.return (case c of None \<Rightarrow> Inl ContractNotFound | Some c \<Rightarrow> Inr c))"

definition AdminSetContractSyncStatus :: "admin_env \<Rightarrow> int \<Rightarrow> string \<Rightarrow> bool \<Rightarrow> unit A" where
  "AdminSetContractSyncStatus e chainID address isSyncing = do {
     t \<leftarrow> admin_milli e;
     admin_then (admin_exec e (admin_table chainID) (change_contract e address (\<lambda>c. c\<lparr>ctr_IsSyncing := isSyncing, ctr_UpdateTime := Some t\<rparr>)))
       (\<lambda>_. State_Monad.return (Inr ()))
   }"

record SystemStats =
  st_TotalContracts :: int
  st_EnabledContracts :: int
  st_TotalNFTs :: int
  st_RunningTasks :: int
  st_TotalUsers :: int
  st_TotalOrders :: int

definition AdminGetSystemStats :: "admin_env \<Rightarrow> SystemStats A" where
  "AdminGetSystemStats e = (let table = getCollectionTableName ''sepolia'' in
     admin_then (admin_exec e table (\<lambda>rows. Some (length rows, rows))) (\<lambda>n.
     admin_then (admin_exec e table (\<lambda>rows. Some (length (filter (\<lambda>c. ctr_Auth c = 1) rows), rows))) (\<lambda>enabled.
     admin_then (admin_exec e table (\<lambda>rows. Some (\<Sum>c\<leftarrow>rows. ctr_ItemAmount c, rows))) (\<lambda>nfts.
     admin_then (admin_exec e table (\<lambda>rows. Some (length (filter ctr_IsSyncing rows), rows))) (\<lambda>running.
     State_Monad.return (Inr \<lparr>st_TotalContracts = int n, st_EnabledContracts = int enabled, st_TotalNFTs = nfts,
       st_RunningTasks = int running, st_TotalUsers = 0, st_TotalOrders = 0\<rparr>))))))"

definition AdminCheckContractExists :: "admin_env \<Rightarrow> int \<Rightarrow> string \<Rightarrow> bool A" where
  "AdminCheckContractExists e chainID address = admin_exec e (admin_table chainID) (\<lambda>rows.
     Some (list_ex (\<lambda>c. adm_same e (ctr_Address c) (ToLower address)) rows, rows))"

section \<open>Services\<close>

definition isValidAddress :: "string \<Rightarrow> bool" where
  "isValidAddress address \<longleftrightarrow> length address = 42 \<and> is_prefix ''0x'' (ToLower address)"

definition valid_then :: "string \<Rightarrow> 'a A \<Rightarrow> 'a A" where
  "valid_then address m = (if isValidAddress address then m else State_Monad.return (Inl InvalidAddress))"

record AdminGetContractsResp =
  gr_Total :: int
  gr_Page :: int
  gr_PageSize :: int
  gr_Contracts :: "Contract list"

definition AdminGetContracts :: "admin_env \<Rightarrow> AdminGetContractsReq \<Rightarrow> AdminGetContractsResp A" where
  "AdminGetContracts e req = (let req = (if gc_ChainID req = 0 then req\<lparr>gc_ChainID := 11155111\<rparr> else req) in
     admin_then (dao_AdminGetContracts e req) (\<lambda>(contracts, n). State_Monad.return (Inr
       \<lparr>gr_Total = n, gr_Page = gc_Page req, gr_PageSize = gc_PageSize req, gr_Contracts = contracts\<rparr>)))"

definition AdminGetContract :: "admin_env \<Rightarrow> int \<Rightarrow> string \<Rightarrow> Contract A" where
  "AdminGetContract e chainID address = valid_then address (dao_AdminGetContract e chainID address)"

definition AdminAddContract :: "admin_env \<Rightarrow> AdminAddContractReq \<Rightarrow> unit A" where
  "AdminAddContract e req = valid_then (ac_Address req)
     (admin_then (AdminCheckContractExists e (ac_ChainID req) (ac_Address req)) (\<lambda>exists.
        if exists then State_Monad.return (Inl ContractExists) else dao_AdminAddContract e req))"

definition AdminUpdateContractWithChainID :: "admin_env \<Rightarrow> int \<Rightarrow> string \<Rightarrow> AdminUpdateContractReq \<Rightarrow> unit A" where
  "AdminUpdateContractWithChainID e chainID address req = valid_then address (dao_AdminUpdateContract e chainID address req)"

definition AdminDeleteContractWithChainID :: "admin_env \<Rightarrow> int \<Rightarrow> string \<Rightarrow> unit A" where
  "AdminDeleteContractWithChainID e chainID address = valid_then address (dao_AdminDeleteContract e chainID address)"

text \<open>The variants without a chain use the test network.\<close>

definition AdminUpdateContract :: "admin_env \<Rightarrow> string \<Rightarrow> AdminUpdateContractReq \<Rightarrow> unit A" where
  "AdminUpdateContract e address req = AdminUpdateContractWithChainID e 11155111 address req"

definition AdminDeleteContract :: "admin_env \<Rightarrow> string \<Rightarrow> unit A" where
  "AdminDeleteContract e address = AdminDeleteContractWithChainID e 11155111 address"

definition auth_only :: "int \<Rightarrow> AdminUpdateContractReq" where
  "auth_only auth = \<lparr>up_Name = None, up_Symbol = None, up_Description = None, up_Website = None, up_Twitter = None,
     up_Discord = None, up_Instagram = None, up_ImageURI = None, up_Banner = None, up_BannerURI = None, up_Auth = Some auth\<rparr>"

definition AdminToggleContractWithChainID :: "admin_env \<Rightarrow> int \<Rightarrow> string \<Rightarrow> bool \<Rightarrow> unit A" where
  "AdminToggleContractWithChainID e chainID address enabled = valid_then address
     (dao_AdminUpdateContract e chainID address (auth_only (if enabled then 1 else 2)))"

definition AdminToggleContract :: "admin_env \<Rightarrow> string \<Rightarrow> bool \<Rightarrow> unit A" where
  "AdminToggleContract e address enabled = AdminToggleContractWithChainID e 11155111 address enabled"

text \<open>The task runs on its own: five seconds after the answer the flag is reset, whatever the outcome.\<close>

definition AdminSyncContract :: "admin_env \<Rightarrow> int \<Rightarrow> string \<Rightarrow> string A" where
  "AdminSyncContract e chainID contractAddr = valid_then contractAddr
     (admin_then (AdminCheckContractExists e chainID contractAddr) (\<lambda>exists.
        if \<not> exists then State_Monad.return (Inl ContractNotFound)
        else admin_then (AdminSetContractSyncStatus e chainID contractAddr True)
          (\<lambda>_. State (\<lambda>s. (Inr (adm_uuid e (adm_calls s)), s)))))"

definition sync_task :: "admin_env \<Rightarrow> int \<Rightarrow> string \<Rightarrow> unit A" where
  "sync_task e chainID contractAddr = AdminSetContractSyncStatus e chainID contractAddr False"

definition AdminSyncToken :: "admin_env \<Rightarrow> int \<Rightarrow> string \<Rightarrow> string A" where
  "AdminSyncToken e chainID contractAddr = valid_then contractAddr
     (admin_then (AdminCheckContractExists e chainID contractAddr) (\<lambda>exists.
        if \<not> exists then State_Monad.return (Inl ContractNotFound)
        else State (\<lambda>s. (Inr (adm_uuid e (adm_calls s)), s))))"

definition AdminRefreshMetadata :: "admin_env \<Rightarrow> int \<Rightarrow> string \<Rightarrow> unit A" where
  "AdminRefreshMetadata e chainID contractAddr = valid_then contractAddr
     (admin_then (AdminCheckContractExists e chainID contractAddr) (\<lambda>exists.
        State_Monad.return (if exists then Inr () else Inl ContractNotFound)))"

section \<open>Handlers\<close>

definition AdminGetContractsHandler :: "admin_env \<Rightarrow> AdminGetContractsReq option \<Rightarrow> AdminGetContractsResp A" where
  "AdminGetContractsHandler e query = (case query of
       None \<Rightarrow> State_Monad.return (Inl BadAdminRequest)
     | Some req \<Rightarrow> if 1 \<le> gc_Page req \<and> 1 \<le> gc_PageSize req \<and> gc_PageSize req \<le> 100 then AdminGetContracts e req
         else State_Monad.return (Inl BadAdminRequest))"

definition with_params :: "int option \<Rightarrow> string \<Rightarrow> (int \<Rightarrow> 'a A) \<Rightarrow> 'a A" where
  "with_params chain_id address f = (case chain_id of
       None \<Rightarrow> State_Monad.return (Inl BadAdminRequest)
     | Some chainID \<Rightarrow> if address = '''' then State_Monad.return (Inl BadAdminRequest) else f chainID)"

definition AdminGetContractHandler :: "admin_env \<Rightarrow> int option \<Rightarrow> string \<Rightarrow> Contract A" where
  "AdminGetContractHandler e chain_id address = with_params chain_id address (\<lambda>chainID. AdminGetContract e chainID address)"

definition AdminAddContractHandler :: "admin_env \<Rightarrow> AdminAddContractReq option \<Rightarrow> unit A" where
  "AdminAddContractHandler e body = (case body of
       None \<Rightarrow> State_Monad.return (Inl BadAdminRequest)
     | Some req \<Rightarrow> if ac_Address req = '''' \<or> ac_Name req = '''' \<or> ac_Symbol req = '''' \<or> ac_ChainID req = 0 \<or> ac_TokenStandard req = 0
         then State_Monad.return (Inl BadAdminRequest) else AdminAddContract e req)"

definition AdminUpdateContractHandler :: "admin_env \<Rightarrow> int option \<Rightarrow> string \<Rightarrow> AdminUpdateContractReq option \<Rightarrow> unit A" where
  "AdminUpdateContractHandler e chain_id address body = with_params chain_id address (\<lambda>chainID. case body of
       None \<Rightarrow> State_Monad.return (Inl BadAdminRequest)
     | Some req \<Rightarrow> AdminUpdateContractWithChainID e chainID address req)"

definition AdminDeleteContractHandler :: "admin_env \<Rightarrow> int option \<Rightarrow> string \<Rightarrow> unit A" where
  "AdminDeleteContractHandler e chain_id address =
     with_params chain_id address (\<lambda>chainID. AdminDeleteContractWithChainID e chainID address)"

definition AdminEnableContractHandler :: "admin_env \<Rightarrow> int option \<Rightarrow> string \<Rightarrow> unit A" where
  "AdminEnableContractHandler e chain_id address =
     with_params chain_id address (\<lambda>chainID. AdminToggleContractWithChainID e chainID address True)"

definition AdminDisableContractHandler :: "admin_env \<Rightarrow> int option \<Rightarrow> string \<Rightarrow> unit A" where
  "AdminDisableContractHandler e chain_id address =
     with_params chain_id address (\<lambda>chainID. AdminToggleContractWithChainID e chainID address False)"

definition AdminSyncContractFromParamsHandler :: "admin_env \<Rightarrow> int option \<Rightarrow> string \<Rightarrow> string A" where
  "AdminSyncContractFromParamsHandler e chain_id address =
     with_params chain_id address (\<lambda>chainID. AdminSyncContract e chainID address)"

section \<open>The tables that are administered\<close>

text \<open>\<open>multi.CollectionTableName\<close>, the table the marketplace reads.\<close>

definition CollectionTableName :: "string \<Rightarrow> string" where
  "CollectionTableName chainName = ''ob_collection_'' @ chainName"

text \<open>Of the chains the marketplace serves, the administration works on the table the marketplace reads only for
  Sepolia: contracts of Ethereum are kept in \<open>ob_collection_ethereum\<close>, which nothing else reads, and contracts of
  Optimism among those of Sepolia.\<close>

theorem administered_tables:
  assumes "chainIDToChain chainID = Some chain"
  shows "(admin_table chainID = CollectionTableName chain) = (chainID = 11155111)"
proof -
  have lower: "ToLower ''ethereum'' = ''ethereum''" "ToLower ''sepolia'' = ''sepolia''"
    by (simp_all add: ToLower_def lower_char_def)
  consider "chainID = 1" "chain = ''eth''" | "chainID = 10" "chain = ''optimism''" | "chainID = 11155111" "chain = ''sepolia''"
    using assms by (auto simp: chainIDToChain_def split: if_splits)
  then show ?thesis
    by cases (simp_all add: admin_table_def getCollectionTableName_def getChainName_def CollectionTableName_def lower)
qed

theorem administered_tables_witness: "\<not> admin_table 1 = CollectionTableName ''eth''"
  using administered_tables [of 1 "''eth''"] by (simp add: chainIDToChain_def)

section \<open>Adding and removing a contract\<close>

lemma run_admin_then [simp]:
  "run_state (admin_then m f) s = (case run_state m s of (Inl err, s1) \<Rightarrow> (Inl err, s1) | (Inr a, s1) \<Rightarrow> run_state (f a) s1)"
  by (auto simp: admin_then_def split: prod.split sum.split)

lemma run_admin_exec:
  "adm_outcome e = (\<lambda>_. Done) \<Longrightarrow> adm_tables s table = Some rows \<Longrightarrow> f rows = Some (a, rows') \<Longrightarrow>
   run_state (admin_exec e table f) s = (Inr a, s\<lparr>adm_calls := Suc (adm_calls s), adm_tables := (adm_tables s)(table \<mapsto> rows')\<rparr>)"
  by (simp add: admin_exec_def Let_def)

lemma run_admin_milli [simp]:
  "run_state (admin_milli e) s = (adm_milli e (adm_readings s), s\<lparr>adm_readings := Suc (adm_readings s)\<rparr>)"
  by (simp add: admin_milli_def)

definition own_contract :: "admin_env \<Rightarrow> string \<Rightarrow> Contract \<Rightarrow> bool" where
  "own_contract e address c \<longleftrightarrow> adm_same e (ctr_Address c) (ToLower address)"

lemma find_last: "find P rows = None \<Longrightarrow> P c \<Longrightarrow> find P (rows @ [c]) = Some c"
  by (induction rows) (auto split: if_splits)

lemma run_add:
  assumes "adm_outcome e = (\<lambda>_. Done)" "adm_tables s (admin_table (ac_ChainID req)) = Some rows" "isValidAddress (ac_Address req)"
  shows "\<exists>s'. run_state (AdminAddContract e req) s =
      (if list_ex (own_contract e (ac_Address req)) rows then Inl ContractExists else Inr (), s') \<and>
    adm_tables s' = (adm_tables s)(admin_table (ac_ChainID req) \<mapsto> if list_ex (own_contract e (ac_Address req)) rows then rows
      else rows @ [added_contract (adm_id e (map ctr_ID rows)) (adm_milli e (adm_readings s)) req])"
  using assms(2,3)
  by (simp add: AdminAddContract_def valid_then_def AdminCheckContractExists_def dao_AdminAddContract_def run_admin_exec [OF assms(1)]
      own_contract_def [abs_def] fun_upd_idem)

lemma run_get:
  assumes "adm_outcome e = (\<lambda>_. Done)" "adm_tables s (admin_table chainID) = Some rows" "isValidAddress address"
  shows "fst (run_state (AdminGetContract e chainID address) s) =
    (case find (own_contract e address) rows of None \<Rightarrow> Inl ContractNotFound | Some c \<Rightarrow> Inr c)"
  using assms(2,3)
  by (simp add: AdminGetContract_def valid_then_def dao_AdminGetContract_def run_admin_exec [OF assms(1)] own_contract_def [abs_def])

lemma run_delete:
  assumes "adm_outcome e = (\<lambda>_. Done)" "adm_tables s (admin_table chainID) = Some rows" "isValidAddress address"
  shows "\<exists>s'. run_state (AdminDeleteContractWithChainID e chainID address) s =
      (if list_ex (own_contract e address) rows then Inr () else Inl ContractNotFound, s') \<and>
    adm_tables s' = (adm_tables s)(admin_table chainID \<mapsto> filter (\<lambda>c. \<not> own_contract e address c) rows)"
  using assms(2,3)
  by (simp add: AdminDeleteContractWithChainID_def valid_then_def dao_AdminDeleteContract_def need_rows_def run_admin_exec [OF assms(1)]
      own_contract_def [abs_def] filter_empty_conv list_ex_iff Let_def)

text \<open>C33: without failures, adding a contract whose address is not in the table stores it as requested, unverified and not
  synchronising; it is found under its address, it cannot be added again, and deleting it restores the table.\<close>

theorem added_contract_round_trip:
  assumes "adm_outcome e = (\<lambda>_. Done)" "adm_same e = (\<lambda>a b. ToLower a = ToLower b)"
    and "adm_tables s (admin_table (ac_ChainID req)) = Some rows" "isValidAddress (ac_Address req)"
    and "\<not> list_ex (own_contract e (ac_Address req)) rows"
    and "run_state (AdminAddContract e req) s = (r, s1)" "run_state (AdminDeleteContractWithChainID e (ac_ChainID req) (ac_Address req)) s1 = (r', s2)"
  shows "r = Inr () \<and>
    fst (run_state (AdminGetContract e (ac_ChainID req) (ac_Address req)) s1) =
      Inr (added_contract (adm_id e (map ctr_ID rows)) (adm_milli e (adm_readings s)) req) \<and>
    fst (run_state (AdminAddContract e req) s1) = Inl ContractExists \<and> r' = Inr () \<and> adm_tables s2 = adm_tables s"
proof -
  let ?own = "own_contract e (ac_Address req)" and ?t = "admin_table (ac_ChainID req)"
  let ?c = "added_contract (adm_id e (map ctr_ID rows)) (adm_milli e (adm_readings s)) req"
  have c: "?own ?c" using assms(2) by (simp add: own_contract_def added_contract_def)
  have none: "filter (\<lambda>c. \<not> ?own c) rows = rows" "find ?own rows = None"
    using assms(5) by (auto simp: list_ex_iff find_None_iff intro!: filter_True)
  have s1: "r = Inr ()" "adm_tables s1 = (adm_tables s)(?t \<mapsto> rows @ [?c])"
    using run_add [OF assms(1,3,4)] assms(5,6) by auto
  then have t1: "adm_tables s1 ?t = Some (rows @ [?c])" by simp
  have found: "find ?own (rows @ [?c]) = Some ?c"
    by (rule find_last [OF none(2) c])
  obtain s3 where again: "run_state (AdminAddContract e req) s1 = (Inl ContractExists, s3)"
    using run_add [OF assms(1) t1 assms(4)] c by auto
  have "r' = Inr ()" "adm_tables s2 = (adm_tables s1)(?t \<mapsto> rows)"
    using run_delete [OF assms(1) t1 assms(4)] assms(7) c none(1) by auto
  then show ?thesis
    using s1 again run_get [OF assms(1) t1 assms(4)] found assms(3) by (simp add: fun_upd_idem)
qed

definition sample_admin :: admin_env where
  "sample_admin = \<lparr>adm_outcome = (\<lambda>_. Done), adm_same = (\<lambda>a b. ToLower a = ToLower b), adm_like = (\<lambda>_ _. False), adm_milli = (\<lambda>_. 5),
     adm_order = (\<lambda>rs. rs), adm_id = (\<lambda>ids. fold max ids 0 + 1), adm_found_rows = False, adm_uuid = (\<lambda>_. ''t'')\<rparr>"

definition sample_add :: AdminAddContractReq where
  "sample_add = \<lparr>ac_Address = ''0x'' @ replicate 40 (CHR ''1''), ac_Name = ''n'', ac_Symbol = ''s'', ac_ChainID = 11155111, ac_TokenStandard = 721,
     ac_Creator = '''', ac_Description = None, ac_Website = None, ac_Twitter = None, ac_Discord = None, ac_Instagram = None,
     ac_ImageURI = None, ac_Banner = None, ac_BannerURI = None\<rparr>"

definition no_contracts :: admin_db where
  "no_contracts = \<lparr>adm_tables = [admin_table 11155111 \<mapsto> []], adm_calls = 0, adm_readings = 0\<rparr>"

theorem added_contract_round_trip_witness:
  "fst (run_state (AdminGetContract sample_admin 11155111 (ac_Address sample_add)) (snd (run_state (AdminAddContract sample_admin sample_add) no_contracts))) =
     Inr (added_contract 1 5 sample_add)"
proof -
  obtain r s1 where add: "run_state (AdminAddContract sample_admin sample_add) no_contracts = (r, s1)" by fastforce
  obtain r' s2 where del: "run_state (AdminDeleteContractWithChainID sample_admin (ac_ChainID sample_add) (ac_Address sample_add)) s1 = (r', s2)" by fastforce
  have chain: "ac_ChainID sample_add = 11155111" by (simp add: sample_add_def)
  have valid: "isValidAddress (ac_Address sample_add)"
    by (simp add: isValidAddress_def sample_add_def ToLower_def lower_char_def is_prefix_def)
  have t: "adm_tables no_contracts (admin_table (ac_ChainID sample_add)) = Some []" by (simp add: no_contracts_def chain)
  have e: "adm_outcome sample_admin = (\<lambda>_. Done)" "adm_same sample_admin = (\<lambda>a b. ToLower a = ToLower b)" by (simp_all add: sample_admin_def)
  have "adm_id sample_admin [] = 1" "adm_milli sample_admin n = 5" for n by (simp_all add: sample_admin_def)
  with added_contract_round_trip [OF e t valid _ add del] show ?thesis by (simp add: add chain)
qed

end
