(* ===== verification/Handlers.thy ===== *)
theory Handlers
  imports Answers Import Admin
begin

text \<open>
  The handlers of the routes that only decode their parameters and call a service: \<open>api/v1/collection.go\<close>,
  \<open>portfolio.go\<close>, \<open>user.go\<close>, \<open>order.go\<close> and \<open>admin.go\<close> of \<open>NFTMarket-backend\<close>. A handler gets the parameters of the
  request; decoding JSON is a parameter, and so is the text of an error that is passed on. The services are those of
  the theories before; a panic ends the handler and is answered by \<open>RecoverMiddleware\<close>.
\<close>

section \<open>Parameters and replies\<close>

definition invalid_params :: "'s \<Rightarrow> 'a handled \<times> 's" where
  "invalid_params s = (Inr (Inl (Business ErrInvalidParams)), s)"

definition custom :: "string \<Rightarrow> 's \<Rightarrow> 'a handled \<times> 's" where
  "custom msg s = (Inr (Inl (Business (NewCustomErr msg []))), s)"

definition filter_is_nil :: "'s \<Rightarrow> 'a handled \<times> 's" where
  "filter_is_nil = custom ''Filter param is nil.''"

text \<open>The service of the backend, an error answered with \<open>err\<close>.\<close>

definition serve :: "go_error \<Rightarrow> 'a B \<Rightarrow> backend \<Rightarrow> 'a handled \<times> backend" where
  "serve err m b = (let (r, b') = run_state m b in (case r of
       Inl (Backend.Panicked p) \<Rightarrow> Inl p
     | Inl _ \<Rightarrow> Inr (Inl err)
     | Inr a \<Rightarrow> Inr (Inr a), b'))"

definition unexpected :: go_error where "unexpected = Business ErrUnexpected"

definition custom_error :: "string \<Rightarrow> go_error" where
  "custom_error msg = Business (NewCustomErr msg [])"

text \<open>\<open>filters\<close>, a JSON document in the query.\<close>

definition with_filter :: "(string \<Rightarrow> 'f option) \<Rightarrow> string \<Rightarrow> ('f \<Rightarrow> 's \<Rightarrow> 'a handled \<times> 's) \<Rightarrow> 's \<Rightarrow> 'a handled \<times> 's" where
  "with_filter unmarshal filterParam f s =
     (if filterParam = '''' then filter_is_nil s
      else case unmarshal filterParam of None \<Rightarrow> filter_is_nil s | Some fp \<Rightarrow> f fp s)"

definition with_chain :: "int \<Rightarrow> (string \<Rightarrow> 's \<Rightarrow> 'a handled \<times> 's) \<Rightarrow> 's \<Rightarrow> 'a handled \<times> 's" where
  "with_chain chain_id f s = (case chainIDToChain chain_id of None \<Rightarrow> invalid_params s | Some chain \<Rightarrow> f chain s)"

definition nonempty :: "string \<Rightarrow> ('s \<Rightarrow> 'a handled \<times> 's) \<Rightarrow> 's \<Rightarrow> 'a handled \<times> 's" where
  "nonempty p f s = (if p = '''' then invalid_params s else f s)"

text \<open>The routes of an item: address, token, and the chain as a decimal number.\<close>

definition parse_int :: "string \<Rightarrow> int option" where
  "parse_int s = (case SetString10 s of None \<Rightarrow> None | Some i \<Rightarrow> if in_i64 i then Some i else None)"

definition with_item ::
  "string \<Rightarrow> string \<Rightarrow> string \<Rightarrow> (string \<Rightarrow> int \<Rightarrow> 's \<Rightarrow> 'a handled \<times> 's) \<Rightarrow> 's \<Rightarrow> 'a handled \<times> 's" where
  "with_item collectionAddr tokenId chain_id f =
     nonempty collectionAddr (nonempty tokenId (\<lambda>s. case parse_int chain_id of
         None \<Rightarrow> invalid_params s
       | Some chainID \<Rightarrow> with_chain chainID (\<lambda>chain. f chain chainID) s))"

section \<open>Collections\<close>

definition CollectionItemsHandler ::
  "backend_env \<Rightarrow> (string \<Rightarrow> (int \<times> CollectionItemFilterParams) option) \<Rightarrow> string \<Rightarrow> string \<Rightarrow> backend \<Rightarrow>
   NFTListingInfo page_resp handled \<times> backend" where
  "CollectionItemsHandler be unmarshal filterParam collectionAddr =
     with_filter unmarshal filterParam (\<lambda>(chainID, f). nonempty collectionAddr
       (with_chain chainID (\<lambda>chain. serve unexpected (GetItems be chain f collectionAddr))))"

record CollectionBidFilterParams =
  bf_ChainID :: int
  bf_Page :: int
  bf_PageSize :: int

definition CollectionBidsHandler ::
  "backend_env \<Rightarrow> (string \<Rightarrow> CollectionBidFilterParams option) \<Rightarrow> string \<Rightarrow> string \<Rightarrow> backend \<Rightarrow>
   CollectionBids page_resp handled \<times> backend" where
  "CollectionBidsHandler be unmarshal filterParam collectionAddr =
     with_filter unmarshal filterParam (\<lambda>f. nonempty collectionAddr (with_chain (bf_ChainID f)
       (\<lambda>chain. serve unexpected (GetBids be chain collectionAddr (bf_Page f) (bf_PageSize f)))))"

definition CollectionItemBidsHandler ::
  "backend_env \<Rightarrow> (string \<Rightarrow> CollectionBidFilterParams option) \<Rightarrow> string \<Rightarrow> string \<Rightarrow> string \<Rightarrow> backend \<Rightarrow>
   ItemBid page_resp handled \<times> backend" where
  "CollectionItemBidsHandler be unmarshal filterParam collectionAddr tokenId =
     with_filter unmarshal filterParam (\<lambda>f. nonempty collectionAddr (nonempty tokenId (with_chain (bf_ChainID f)
       (\<lambda>chain. serve unexpected (GetItemBidsInfo be chain collectionAddr tokenId (bf_Page f) (bf_PageSize f))))))"

definition ItemDetailHandler ::
  "backend_env \<Rightarrow> nat list \<Rightarrow> string \<Rightarrow> string \<Rightarrow> string \<Rightarrow> backend \<Rightarrow> ItemDetailInfo handled \<times> backend" where
  "ItemDetailHandler be done_order collectionAddr tokenId chain_id = with_item collectionAddr tokenId chain_id (\<lambda>chain chainID.
     serve (custom_error ''get item error'') (GetItem be done_order chain chainID collectionAddr tokenId))"

definition ItemTopTraitPriceHandler ::
  "backend_env \<Rightarrow> (string \<Rightarrow> (int \<times> string list) option) \<Rightarrow> string \<Rightarrow> string \<Rightarrow> backend \<Rightarrow> TraitPrice list handled \<times> backend" where
  "ItemTopTraitPriceHandler be unmarshal collectionAddr filterParam =
     nonempty collectionAddr (with_filter unmarshal filterParam (\<lambda>(chainID, tokenIds). with_chain chainID (\<lambda>chain.
       serve (custom_error ''get item error'') (GetItemTopTraitPrice be chain collectionAddr tokenIds))))"

text \<open>The addresses of the session come from \<open>GetAuthUserAddress\<close>; its error is passed on as it is.\<close>

definition ItemListingHandler ::
  "backend_env \<Rightarrow> (login_error \<Rightarrow> go_error) \<Rightarrow> go_panic + string list \<times> login_error option \<Rightarrow> string \<Rightarrow> string \<Rightarrow> string \<Rightarrow>
   backend \<Rightarrow> (int \<times> price) list handled \<times> backend" where
  "ItemListingHandler be auth_err auth collectionAddr tokenId chain_id b = (case auth of
       Inl p \<Rightarrow> (Inl p, b)
     | Inr (_, Some err) \<Rightarrow> (Inr (Inl (auth_err err)), b)
     | Inr (address, None) \<Rightarrow> with_item collectionAddr tokenId chain_id (\<lambda>chain chainID.
         serve (custom_error ''get item listing info error'') (GetItemListingInfo be chain collectionAddr tokenId address)) b)"

definition ItemTraitsHandler ::
  "backend_env \<Rightarrow> nat list \<Rightarrow> string \<Rightarrow> string \<Rightarrow> string \<Rightarrow> backend \<Rightarrow> TraitInfo list handled \<times> backend" where
  "ItemTraitsHandler be done_order collectionAddr tokenId chain_id = with_item collectionAddr tokenId chain_id (\<lambda>chain chainID.
     serve (custom_error ''get item traits error'') (GetItemTraits be done_order chain collectionAddr tokenId))"

definition ItemOwnerHandler ::
  "backend_env \<Rightarrow> (int \<rightharpoonup> chain_service) \<Rightarrow> (bytes \<Rightarrow> bytes) \<Rightarrow> string \<Rightarrow> string \<Rightarrow> string \<Rightarrow> backend \<Rightarrow>
   ItemOwner handled \<times> backend" where
  "ItemOwnerHandler be NodeSrvs keccak collectionAddr tokenId chain_id = with_item collectionAddr tokenId chain_id (\<lambda>chain chainID.
     serve (custom_error ''get item owner error'') (GetItemOwner be NodeSrvs keccak chainID chain collectionAddr tokenId))"

definition GetItemImageHandler ::
  "backend_env \<Rightarrow> string \<Rightarrow> string \<Rightarrow> string \<Rightarrow> backend \<Rightarrow> ItemImage option handled \<times> backend" where
  "GetItemImageHandler be collectionAddr tokenId chain_id = with_item collectionAddr tokenId chain_id (\<lambda>chain chainID.
     serve (custom_error ''failed on get item image'') (GetItemImage be chain collectionAddr tokenId))"

section \<open>Portfolio, orders and users\<close>

record PortfolioFilterParams =
  pp_ChainID :: "int list"
  pp_CollectionAddresses :: "string list"
  pp_UserAddresses :: "string list"
  pp_Page :: int
  pp_PageSize :: int

text \<open>All supported chains when none is asked for; an unknown chain is an illegal parameter.\<close>

definition asked_chains :: "(int \<times> string) list \<Rightarrow> PortfolioFilterParams \<Rightarrow> int list" where
  "asked_chains chainSupported f = (if pp_ChainID f = [] then map fst chainSupported else pp_ChainID f)"

definition named_chains :: "int list \<Rightarrow> (int \<times> string) list option" where
  "named_chains ids = (if list_all (\<lambda>i. chainIDToChain i \<noteq> None) ids
     then Some (map (\<lambda>i. (i, the (chainIDToChain i))) ids) else None)"

definition with_chains ::
  "(int \<times> string) list \<Rightarrow> PortfolioFilterParams \<Rightarrow> ((int \<times> string) list \<Rightarrow> 's \<Rightarrow> 'a handled \<times> 's) \<Rightarrow> 's \<Rightarrow> 'a handled \<times> 's" where
  "with_chains chainSupported f h s = (case named_chains (asked_chains chainSupported f) of
       None \<Rightarrow> invalid_params s
     | Some chns \<Rightarrow> h chns s)"

definition UserMultiChainCollectionsHandler ::
  "backend_env \<Rightarrow> collections_env \<Rightarrow> (int \<times> string) list \<Rightarrow> (string \<Rightarrow> string list option) \<Rightarrow> string \<Rightarrow> backend \<Rightarrow>
   (CollectionInfo list \<times> ChainInfo list) handled \<times> backend" where
  "UserMultiChainCollectionsHandler be ce chainSupported unmarshal filterParam =
     with_filter unmarshal filterParam (\<lambda>userAddresses. serve (custom_error ''query user multi chain collections err.'')
       (GetMultiChainUserCollections be ce chainSupported (map snd chainSupported) userAddresses))"

definition UserMultiChainItemsHandler ::
  "portfolio_env \<Rightarrow> (int \<times> string) list \<Rightarrow> (string \<Rightarrow> PortfolioFilterParams option) \<Rightarrow> string \<Rightarrow> backend \<Rightarrow>
   UserItemsResp handled \<times> backend" where
  "UserMultiChainItemsHandler pf chainSupported unmarshal filterParam =
     with_filter unmarshal filterParam (\<lambda>f. with_chains chainSupported f (\<lambda>chns.
       serve (custom_error ''query user multi chain items err.'')
         (GetMultiChainUserItems pf chns (pp_UserAddresses f) (pp_CollectionAddresses f) (pp_Page f) (pp_PageSize f))))"

definition UserMultiChainListingsHandler ::
  "portfolio_env \<Rightarrow> (int \<times> string) list \<Rightarrow> (string \<Rightarrow> PortfolioFilterParams option) \<Rightarrow> string \<Rightarrow> backend \<Rightarrow>
   UserListingsResp handled \<times> backend" where
  "UserMultiChainListingsHandler pf chainSupported unmarshal filterParam =
     with_filter unmarshal filterParam (\<lambda>f. with_chains chainSupported f (\<lambda>chns.
       serve (custom_error ''query user multi chain items err.'')
         (GetMultiChainUserListings pf chns (pp_UserAddresses f) (pp_CollectionAddresses f) (pp_Page f) (pp_PageSize f))))"

text \<open>The bids of a user are read from the stores of the chains, here by name.\<close>

definition UserMultiChainBidsHandler ::
  "env \<Rightarrow> (price \<Rightarrow> string) \<Rightarrow> (string \<Rightarrow> world) \<Rightarrow> (int \<times> string) list \<Rightarrow> (string \<Rightarrow> PortfolioFilterParams option) \<Rightarrow> string \<Rightarrow>
   UserBidsResp handled" where
  "UserMultiChainBidsHandler e price_text nets chainSupported unmarshal filterParam = fst (
     with_filter unmarshal filterParam (\<lambda>f. with_chains chainSupported f (\<lambda>chns s. (
       case GetMultiChainUserBids e price_text (map fst chns) (map (\<lambda>(_, n). (n, nets n)) chns)
              (pp_UserAddresses f) (pp_CollectionAddresses f) of
         Inl p \<Rightarrow> Inl p
       | Inr (Inl _) \<Rightarrow> Inr (Inl (custom_error ''query user multi chain items err.''))
       | Inr (Inr resp) \<Rightarrow> Inr (Inr resp), s))) ())"

record OrderInfosParam =
  oi_ChainID :: int
  oi_UserAddress :: string
  oi_CollectionAddress :: string
  oi_TokenIds :: "string list"

definition OrderInfosHandler ::
  "env \<Rightarrow> spliced \<Rightarrow> (error \<Rightarrow> string) \<Rightarrow> (string \<Rightarrow> OrderInfosParam option) \<Rightarrow> string \<Rightarrow> world \<Rightarrow> ItemBid list handled \<times> world" where
  "OrderInfosHandler e spliced explain unmarshal filterParam =
     with_filter unmarshal filterParam (\<lambda>f. with_chain (oi_ChainID f) (\<lambda>chain w.
       let (r, w') = run_state (GetOrderInfos e spliced (oi_UserAddress f) (oi_CollectionAddress f) (oi_TokenIds f)) w
       in (case r of Inl err \<Rightarrow> Inr (Inl (custom_error (explain err))) | Inr bids \<Rightarrow> Inr (Inr bids), w')))"

text \<open>\<open>valid\<close> is the check of the tags by \<open>validator.Verify\<close>: its message, or nothing.\<close>

definition UserLoginHandler ::
  "session_env \<Rightarrow> (login_error \<Rightarrow> string) \<Rightarrow> (LoginReq \<Rightarrow> string option) \<Rightarrow> go_error + LoginReq \<Rightarrow> session \<Rightarrow>
   UserLoginInfo option handled \<times> session" where
  "UserLoginHandler e explain valid body s = (case body of
       Inl err \<Rightarrow> (Inr (Inl err), s)
     | Inr req \<Rightarrow> (case valid req of
         Some msg \<Rightarrow> custom msg s
       | None \<Rightarrow> (let (r, s') = run_state (UserLogin e req) s in (case r of
             Inl p \<Rightarrow> Inl p
           | Inr (_, Some err) \<Rightarrow> Inr (Inl (custom_error (explain err)))
           | Inr (res, None) \<Rightarrow> Inr (Inr res), s'))))"

definition GetLoginMessageHandler ::
  "session_env \<Rightarrow> (login_error \<Rightarrow> string) \<Rightarrow> string \<Rightarrow> session \<Rightarrow> UserLoginMsgResp handled \<times> session" where
  "GetLoginMessageHandler e explain address s =
     (if address = '''' then custom ''user addr is null'' s
      else let (r, s') = run_state (GetUserLoginMsg e address) s in (case r of
          Inl err \<Rightarrow> Inr (Inl (custom_error (explain err)))
        | Inr res \<Rightarrow> Inr (Inr res), s'))"

definition GetSigStatusHandler ::
  "session_env \<Rightarrow> (login_error \<Rightarrow> string) \<Rightarrow> string \<Rightarrow> session \<Rightarrow> bool handled \<times> session" where
  "GetSigStatusHandler e explain userAddr s =
     (if userAddr = '''' then custom ''user addr is null'' s
      else let (r, s') = run_state (GetSigStatusMsg e userAddr) s in (case r of
          Inl err \<Rightarrow> Inr (Inl (custom_error (explain err)))
        | Inr res \<Rightarrow> Inr (Inr res), s'))"

section \<open>Administration\<close>

definition admin_serve :: "(admin_error \<Rightarrow> string) \<Rightarrow> 'a A \<Rightarrow> admin_db \<Rightarrow> 'a handled \<times> admin_db" where
  "admin_serve explain m s = (let (r, s') = run_state m s in (case r of
       Inl err \<Rightarrow> Inr (Inl (custom_error (explain err)))
     | Inr a \<Rightarrow> Inr (Inr a), s'))"

text \<open>A body: an error of the decoder is passed on (\<open>BindJSON\<close> has then already sent the status 400, and only the body is
  that of the answer), the tags are checked.\<close>

definition with_body ::
  "('q \<Rightarrow> string option) \<Rightarrow> go_error + 'q \<Rightarrow> ('q \<Rightarrow> 's \<Rightarrow> 'a handled \<times> 's) \<Rightarrow> 's \<Rightarrow> 'a handled \<times> 's" where
  "with_body valid body f s = (case body of
       Inl err \<Rightarrow> (Inr (Inl err), s)
     | Inr req \<Rightarrow> (case valid req of Some msg \<Rightarrow> custom msg s | None \<Rightarrow> f req s))"

record AdminSyncContractReq =
  sc_ContractAddr :: string
  sc_ChainID :: int

definition AdminSyncContractHandler ::
  "admin_env \<Rightarrow> (admin_error \<Rightarrow> string) \<Rightarrow> (AdminSyncContractReq \<Rightarrow> string option) \<Rightarrow> go_error + AdminSyncContractReq \<Rightarrow> admin_db \<Rightarrow>
   string handled \<times> admin_db" where
  "AdminSyncContractHandler e explain valid body = with_body valid body (\<lambda>req.
     admin_serve explain (AdminSyncContract e (sc_ChainID req) (sc_ContractAddr req)))"

record AdminSyncTokenReq =
  sk_ContractAddr :: string
  sk_TokenID :: string
  sk_ChainID :: int

definition AdminSyncTokenHandler ::
  "admin_env \<Rightarrow> (admin_error \<Rightarrow> string) \<Rightarrow> (AdminSyncTokenReq \<Rightarrow> string option) \<Rightarrow> go_error + AdminSyncTokenReq \<Rightarrow> admin_db \<Rightarrow>
   string handled \<times> admin_db" where
  "AdminSyncTokenHandler e explain valid body = with_body valid body (\<lambda>req.
     admin_serve explain (AdminSyncToken e (sk_ChainID req) (sk_ContractAddr req)))"

definition AdminGetSystemStatsHandler ::
  "admin_env \<Rightarrow> (admin_error \<Rightarrow> string) \<Rightarrow> admin_db \<Rightarrow> SystemStats handled \<times> admin_db" where
  "AdminGetSystemStatsHandler e explain = admin_serve explain (AdminGetSystemStats e)"

record AdminRefreshMetadataReq =
  rm_ContractAddr :: string
  rm_ChainID :: int
  rm_TokenIDs :: "string list"

definition AdminRefreshMetadataHandler ::
  "admin_env \<Rightarrow> (admin_error \<Rightarrow> string) \<Rightarrow> (AdminRefreshMetadataReq \<Rightarrow> string option) \<Rightarrow> go_error + AdminRefreshMetadataReq \<Rightarrow> admin_db \<Rightarrow>
   unit handled \<times> admin_db" where
  "AdminRefreshMetadataHandler e explain valid body = with_body valid body (\<lambda>req.
     admin_serve explain (AdminRefreshMetadata e (rm_ChainID req) (rm_ContractAddr req)))"

text \<open>The status and the history of tasks are constants but for the clock: every task is running at 65 percent.\<close>

record SyncTask =
  tk_ID :: string
  tk_TaskType :: string
  tk_ContractAddr :: string
  tk_ChainID :: int
  tk_Status :: string
  tk_Progress :: int
  tk_TotalItems :: int
  tk_ProcessedItems :: int
  tk_CreatedAt :: int
  tk_StartedAt :: "int option"
  tk_CompletedAt :: "int option"

definition AdminGetSyncStatus :: "int \<Rightarrow> int \<Rightarrow> string \<Rightarrow> SyncTask" where
  "AdminGetSyncStatus t1 t2 taskID = \<lparr>tk_ID = taskID, tk_TaskType = ''contract'',
     tk_ContractAddr = ''0x1234567890123456789012345678901234567890'', tk_ChainID = 11155111, tk_Status = ''running'',
     tk_Progress = 65, tk_TotalItems = 1000, tk_ProcessedItems = 650, tk_CreatedAt = t1 - 30 * 60,
     tk_StartedAt = Some (t2 - 25 * 60), tk_CompletedAt = None\<rparr>"

definition AdminGetSyncStatusHandler :: "int \<Rightarrow> int \<Rightarrow> string \<Rightarrow> 's \<Rightarrow> SyncTask handled \<times> 's" where
  "AdminGetSyncStatusHandler t1 t2 taskID s =
     (if taskID = '''' then custom ''task_id is required'' s else (Inr (Inr (AdminGetSyncStatus t1 t2 taskID)), s))"

record AdminGetSyncHistoryResp =
  sh_Total :: int
  sh_Page :: int
  sh_PageSize :: int
  sh_Tasks :: "SyncTask list"

definition AdminGetSyncHistory :: "int \<Rightarrow> int \<Rightarrow> int \<Rightarrow> int \<Rightarrow> int \<Rightarrow> AdminGetSyncHistoryResp" where
  "AdminGetSyncHistory t1 t2 t3 page pageSize = \<lparr>sh_Total = 1, sh_Page = page, sh_PageSize = pageSize,
     sh_Tasks = [\<lparr>tk_ID = ''task-001'', tk_TaskType = ''contract'', tk_ContractAddr = ''0x1234567890123456789012345678901234567890'',
       tk_ChainID = 11155111, tk_Status = ''completed'', tk_Progress = 100, tk_TotalItems = 1000, tk_ProcessedItems = 1000,
       tk_CreatedAt = t1 - 2 * 60 * 60, tk_StartedAt = Some (t2 - 2 * 60 * 60), tk_CompletedAt = Some (t3 - 60 * 60)\<rparr>]\<rparr>"

text \<open>\<open>tag\<close> is the text for the tag a field violates.\<close>

definition AdminGetSyncHistoryHandler ::
  "(string \<Rightarrow> string \<Rightarrow> string) \<Rightarrow> int \<Rightarrow> int \<Rightarrow> int \<Rightarrow> string + int \<times> int \<Rightarrow> 's \<Rightarrow> AdminGetSyncHistoryResp handled \<times> 's" where
  "AdminGetSyncHistoryHandler tag t1 t2 t3 query s = (case query of
       Inl msg \<Rightarrow> custom msg s
     | Inr (page, pageSize) \<Rightarrow> if page < 1 then custom (tag ''Page'' ''min'') s
         else if pageSize < 1 then custom (tag ''PageSize'' ''min'') s
         else if 100 < pageSize then custom (tag ''PageSize'' ''max'') s
         else (Inr (Inr (AdminGetSyncHistory t1 t2 t3 page pageSize)), s))"

section \<open>What is answered\<close>

lemma serve_simp: "fst (serve err m b) = (case fst (run_state m b) of
       Inl (Backend.Panicked p) \<Rightarrow> Inl p | Inl _ \<Rightarrow> Inr (Inl err) | Inr a \<Rightarrow> Inr (Inr a))"
  by (simp add: serve_def Let_def split: prod.split)

lemma item_route_rejects:
  "collectionAddr = '''' \<or> tokenId = '''' \<or> (\<forall>i. parse_int chain_id = Some i \<longrightarrow> i \<notin> {1, 10, 11155111}) \<Longrightarrow>
     with_item collectionAddr tokenId chain_id f s = invalid_params s"
  by (auto simp: with_item_def nonempty_def with_chain_def chainIDToChain_def split: option.splits)

lemma invalid_reply:
  "an_HTTPCode (RecoverMiddleware (fst (invalid_params s))) = 200" "an_Code (RecoverMiddleware (fst (invalid_params s))) = 10002"
  by (simp_all add: RecoverMiddleware_def invalid_params_def ErrorJson_def ParseErr_def ErrInvalidParams_def NewErr_def)

text \<open>The item routes change nothing and answer \<open>ErrInvalidParams\<close>, with HTTP status 200, unless address and token
  are given and the chain is the number of one of the three supported chains.\<close>

theorem item_routes_check_parameters:
  assumes "collectionAddr = '''' \<or> tokenId = '''' \<or> (\<forall>i. parse_int chain_id = Some i \<longrightarrow> i \<notin> {1, 10, 11155111})"
  shows "ItemDetailHandler be ord collectionAddr tokenId chain_id b = invalid_params b \<and>
    ItemTraitsHandler be ord collectionAddr tokenId chain_id b = invalid_params b \<and>
    ItemOwnerHandler be srvs keccak collectionAddr tokenId chain_id b = invalid_params b \<and>
    GetItemImageHandler be collectionAddr tokenId chain_id b = invalid_params b \<and>
    ItemListingHandler be auth_err (Inr (addrs, None)) collectionAddr tokenId chain_id b = invalid_params b \<and>
    an_HTTPCode (RecoverMiddleware (fst (invalid_params b) :: unit handled)) = 200 \<and>
    an_Code (RecoverMiddleware (fst (invalid_params b) :: unit handled)) = 10002"
  by (simp add: ItemDetailHandler_def ItemTraitsHandler_def ItemOwnerHandler_def GetItemImageHandler_def ItemListingHandler_def
      item_route_rejects [OF assms] invalid_reply)

theorem item_routes_check_parameters_witness:
  "GetItemImageHandler plain_backend ''0xc'' ''1'' ''7'' empty_backend = invalid_params empty_backend"
proof -
  have "parse_int ''7'' = Some 7"
    by (simp add: parse_int_def SetString10_def is_digit_def digits_value_def in_i64_def)
  then show ?thesis using item_routes_check_parameters [of "''0xc''" "''1''" "''7''"] by simp
qed

text \<open>A page of the portfolio past the user's last item is answered with HTTP status 200 and code 7000 on the route of
  the items, and with HTTP status 500 and code 7777 on the route of the listings, whose handler panics.\<close>

theorem past_the_end_answers:
  assumes "fp \<noteq> ''''" "unmarshal fp = Some f" "named_chains (asked_chains supported f) = Some chns"
    and "db_works (be_env (pf_env pf))" "orders_items pf" "pf_key_order pf [] = []"
    and "list_all sql_literal (pp_UserAddresses f @ pp_CollectionAddresses f)" "pp_UserAddresses f \<noteq> []"
    and "known_chains (bk_tables b) (map snd chns)" "0 \<le> pp_PageSize f" "in_i64 (pp_Page f)"
    and "its = owned_items (pf_env pf) (map snd chns) (pp_UserAddresses f) (pp_CollectionAddresses f) (bk_tables b)"
    and "its \<noteq> []" "int (length its) < pp_Page f"
  shows "(let a = RecoverMiddleware (fst (UserMultiChainItemsHandler pf supported unmarshal fp b))
      in an_HTTPCode a = 200 \<and> an_Code a = 7000 \<and> an_Data a = None) \<and>
    (let a = RecoverMiddleware (fst (UserMultiChainListingsHandler pf supported unmarshal fp b))
      in an_HTTPCode a = 500 \<and> an_Code a = 7777 \<and> an_Data a = None)"
proof -
  have "fst (run_state (GetMultiChainUserItems pf chns (pp_UserAddresses f) (pp_CollectionAddresses f) (pp_Page f) (pp_PageSize f)) b) = Inl DBFailed"
    "fst (run_state (GetMultiChainUserListings pf chns (pp_UserAddresses f) (pp_CollectionAddresses f) (pp_Page f) (pp_PageSize f)) b)
       = Inl (Backend.Panicked IndexOutOfRange)"
    using page_past_the_end_fails [OF assms(4-7,9,8,10,11)] assms(12-14) by auto
  then show ?thesis
    by (simp add: UserMultiChainItemsHandler_def UserMultiChainListingsHandler_def with_filter_def with_chains_def assms(1-3)
        serve_simp custom_error_def RecoverMiddleware_def ErrorJson_def ParseErr_def NewCustomErr_def NewErr_def ErrUnexpected_def CodeCustom_def)
qed

definition eth_wallet :: backend where
  "eth_wallet = empty_backend\<lparr>bk_tables := [''eth'' \<mapsto> empty_tables\<lparr>t_items := [wallet_item ''1'']\<rparr>]\<rparr>"

theorem past_the_end_answers_witness:
  "an_HTTPCode (RecoverMiddleware (fst (UserMultiChainListingsHandler sample_pf []
     (\<lambda>_. Some \<lparr>pp_ChainID = [1], pp_CollectionAddresses = [], pp_UserAddresses = [''u''], pp_Page = 2, pp_PageSize = 10\<rparr>) ''f'' eth_wallet))) = 500"
proof -
  let ?f = "\<lparr>pp_ChainID = [1], pp_CollectionAddresses = [], pp_UserAddresses = [''u''], pp_Page = 2, pp_PageSize = 10\<rparr>"
  have "owned_items (pf_env sample_pf) [''eth''] [''u''] [] (bk_tables eth_wallet) = [wallet_item ''1'']"
    by (simp add: owned_items_def eth_wallet_def wallet_item_def owned_by_def of_contracts_def among_def sample_pf_def
        plain_backend_def plain_env_def EqualFold_def)
  moreover have "known_chains (bk_tables eth_wallet) [''eth'']" by (simp add: known_chains_def eth_wallet_def)
  moreover have "named_chains (asked_chains [] ?f) = Some [(1, ''eth'')]"
    by (simp add: named_chains_def asked_chains_def chainIDToChain_def)
  ultimately show ?thesis
    using past_the_end_answers [of "''f''" "\<lambda>_. Some ?f" ?f "[]" "[(1, ''eth'')]", OF _ _ _ sample_pf_env(1-3)]
    by (simp add: in_i64_def sql_literal_def Let_def)
qed

end
