(* ===== verification/Mint.thy ===== *)
theory Mint
  imports Handlers "HOL-Library.Sublist"
begin

text \<open>
  Minting through the MetaNode contract: \<open>service/v1/metanode.go\<close> and \<open>api/v1/metanode.go\<close>. Every mint opens a client,
  signs a transaction with the key of the server, waits half a minute for its receipt, reads the token from the receipt
  and writes a row of the item table. The node is a parameter: its answers depend on how many calls were made before. The state
  keeps the transactions the node has accepted. Contexts, logging and the closing of clients are left out.
\<close>

section \<open>Requests and results\<close>

record MetaNodeMintRequest =
  mt_ChainID :: int
  mt_ToAddress :: string
  mt_TokenURI :: string
  mt_Name :: string
  mt_Description :: string

record MetaNodeMintResult =
  mres_TxHash :: string
  mres_TokenID :: string
  mres_Status :: string
  mres_BlockNumber :: int
  mres_GasUsed :: int
  mres_GasPrice :: string

record MetaNodeSingleMintInfo =
  si_ToAddress :: string
  si_TokenURI :: string
  si_Name :: string
  si_Description :: string

record MetaNodeBatchMintRequest =
  bm_ChainID :: int
  bm_Mints :: "MetaNodeSingleMintInfo list"

record MetaNodeBatchMintResult =
  bres_TxHash :: string
  bres_TokenIDs :: "string list"
  bres_SuccessCount :: nat
  bres_FailedCount :: nat
  bres_Status :: string
  bres_GasUsed :: int

record MetaNodeQueryRequest =
  mq_ChainID :: int
  mq_ContractAddr :: string
  mq_TokenID :: string
  mq_Owner :: string
  mq_Page :: int
  mq_PageSize :: int

record MetaNodeTokenInfo =
  ti_TokenID :: string
  ti_Owner :: string
  ti_TokenURI :: string
  ti_Name :: string
  ti_Description :: string
  ti_Image :: string
  ti_Attributes :: string
  ti_MintedAt :: int
  ti_MintTxHash :: string

record MetaNodeQueryResponse =
  qr_Tokens :: "MetaNodeTokenInfo list"
  qr_Total :: int
  qr_Page :: int
  qr_Size :: int

text \<open>The configuration file (\<open>config.MetaNodeConfig\<close>), and what the service makes of it for one chain (\<open>MetaNodeConfig\<close>).\<close>

record MetaNodeSettings =
  set_OwnerPrivateKey :: string
  set_ContractAddresses :: "string \<rightharpoonup> string"
  set_RPCEndpoints :: "string \<rightharpoonup> string"
  set_GasLimit :: u64
  set_GasPrice :: string

record MetaNodeConfig =
  mn_ContractAddress :: string
  mn_OwnerPrivateKey :: string
  mn_RPCEndpoint :: string
  mn_ChainID :: int
  mn_GasLimit :: u64
  mn_GasPrice :: "int option"

datatype metanode_error =
    NoConfiguration
  | NoContract int
  | NoEndpoint int
  | NoOwnerKey
  | BadGasPrice
  | NoToAddress
  | BadToAddress
  | NoTokenURI
  | BadChainID
  | DialFailed
  | ChainIDFailed
  | BadPrivateKey
  | NonceFailed
  | GasPriceFailed
  | ABIFailed
  | MintFailed
  | NoMints
  | TooManyMints
  | BadTokenID
  | TokenURIFailed
  | OwnerFailed

section \<open>The node\<close>

text \<open>
  A legacy transaction that calls \<open>safeMint\<close>, and what the code reads of a receipt; a receipt may come without a block
  number. \<open>send_outcome\<close> is what becomes of a transaction that is sent: accepted, refused, or accepted although the
  answer is lost. \<open>polls\<close> is how often the ticker fires before the deadline or the end of the request is seen, in the
  wait that begins with the given call. \<open>key_address\<close> reads a private key in hexadecimal and derives its address.
\<close>

record transaction =
  tx_nonce :: int
  tx_gas_limit :: u64
  tx_gas_price :: int
  tx_chain :: int
  tx_from :: "160 word"
  tx_contract :: "160 word"
  tx_to :: "160 word"
  tx_uri :: string

record receipt_log =
  rl_Address :: "160 word"
  rl_Topics :: "256 word list"

record Receipt =
  rc_Status :: u64
  rc_BlockNumber :: "int option"
  rc_GasUsed :: u64
  rc_Logs :: "receipt_log list"

record mint_env =
  me_backend :: backend_env
  me_settings :: "MetaNodeSettings option"
  me_strict :: bool
  is_hex_address :: "string \<Rightarrow> bool"
  hex_to_address :: "string \<Rightarrow> 160 word"
  address_hex :: "160 word \<Rightarrow> string"
  key_address :: "string \<Rightarrow> (160 word) option"
  abi_parses :: bool
  transfer_topic :: "256 word"
  dial :: "nat \<Rightarrow> string \<Rightarrow> bool"
  client_chain_id :: "nat \<Rightarrow> string \<Rightarrow> int option"
  pending_nonce :: "nat \<Rightarrow> string \<Rightarrow> 160 word \<Rightarrow> u64 option"
  suggested_gas_price :: "nat \<Rightarrow> string \<Rightarrow> int option"
  send_outcome :: "nat \<Rightarrow> string \<Rightarrow> transaction \<Rightarrow> outcome"
  tx_hash :: "transaction \<Rightarrow> string"
  polls :: "nat \<Rightarrow> nat"
  receipt_of :: "nat \<Rightarrow> string \<Rightarrow> string \<Rightarrow> Receipt option"
  token_uri_call :: "nat \<Rightarrow> string \<Rightarrow> 160 word \<Rightarrow> int \<Rightarrow> string option"
  owner_call :: "nat \<Rightarrow> string \<Rightarrow> 160 word \<Rightarrow> int \<Rightarrow> (160 word) option"

record mint_state =
  ms_backend :: backend
  ms_sent :: "transaction list"
  ms_calls :: nat

datatype mint_fault = MintPanic go_panic | MintError metanode_error

type_synonym 'a mint = "(mint_state, mint_fault + 'a) state"

definition ok :: "'a \<Rightarrow> 'a mint" where
  "ok a = State_Monad.return (Inr a)"

definition fail :: "metanode_error \<Rightarrow> 'a mint" where
  "fail err = State_Monad.return (Inl (MintError err))"

definition andThen :: "'a mint \<Rightarrow> ('a \<Rightarrow> 'b mint) \<Rightarrow> 'b mint" where
  "andThen m f = do { r \<leftarrow> m; case r of Inl err \<Rightarrow> State_Monad.return (Inl err) | Inr a \<Rightarrow> f a }"

definition ensure :: "bool \<Rightarrow> metanode_error \<Rightarrow> unit mint" where
  "ensure b err = (if b then ok () else fail err)"

definition lift_sum :: "metanode_error + 'a \<Rightarrow> 'a mint" where
  "lift_sum r = (case r of Inl err \<Rightarrow> fail err | Inr a \<Rightarrow> ok a)"

text \<open>A call of the client; \<open>None\<close> is an error.\<close>

definition call_client :: "(nat \<Rightarrow> 'a option) \<Rightarrow> metanode_error \<Rightarrow> 'a mint" where
  "call_client f err = State (\<lambda>s.
     (case f (ms_calls s) of None \<Rightarrow> Inl (MintError err) | Some a \<Rightarrow> Inr a, s\<lparr>ms_calls := Suc (ms_calls s)\<rparr>))"

definition on_backend :: "(backend, 'a) state \<Rightarrow> (mint_state, 'a) state" where
  "on_backend m = State (\<lambda>s. let (r, b) = run_state m (ms_backend s) in (r, s\<lparr>ms_backend := b\<rparr>))"

text \<open>\<open>contract.Transact\<close>, with nonce, gas limit and gas price given: the transaction is signed and sent.\<close>

definition Transact :: "mint_env \<Rightarrow> string \<Rightarrow> transaction \<Rightarrow> string mint" where
  "Transact e endpoint tx = State (\<lambda>s. let s1 = s\<lparr>ms_calls := Suc (ms_calls s)\<rparr> in
     case send_outcome e (ms_calls s) endpoint tx of
       Done \<Rightarrow> (Inr (tx_hash e tx), s1\<lparr>ms_sent := ms_sent s @ [tx]\<rparr>)
     | Rejected \<Rightarrow> (Inl (MintError MintFailed), s1)
     | Lost \<Rightarrow> (Inl (MintError MintFailed), s1\<lparr>ms_sent := ms_sent s @ [tx]\<rparr>))"

section \<open>Configuration and checks\<close>

definition getMetaNodeConfig :: "MetaNodeSettings option \<Rightarrow> int \<Rightarrow> metanode_error + MetaNodeConfig" where
  "getMetaNodeConfig settings chainID = (case settings of None \<Rightarrow> Inl NoConfiguration | Some config \<Rightarrow>
     let chainIDStr = int_text chainID in
     case set_ContractAddresses config chainIDStr of None \<Rightarrow> Inl (NoContract chainID) | Some contractAddr \<Rightarrow>
     if contractAddr = '''' then Inl (NoContract chainID) else
     case set_RPCEndpoints config chainIDStr of None \<Rightarrow> Inl (NoEndpoint chainID) | Some rpcEndpoint \<Rightarrow>
     if rpcEndpoint = '''' then Inl (NoEndpoint chainID)
     else if set_OwnerPrivateKey config = '''' then Inl NoOwnerKey
     else let gasLimit = (if set_GasLimit config = 0 then 300000 else set_GasLimit config);
              result = (\<lambda>gasPrice. \<lparr>mn_ContractAddress = contractAddr, mn_OwnerPrivateKey = set_OwnerPrivateKey config,
                mn_RPCEndpoint = rpcEndpoint, mn_ChainID = chainID, mn_GasLimit = gasLimit, mn_GasPrice = gasPrice\<rparr>)
     in if set_GasPrice config = '''' then Inr (result None)
        else case SetString10 (set_GasPrice config) of None \<Rightarrow> Inl BadGasPrice | Some p \<Rightarrow> Inr (result (Some p)))"

definition validateMetaNodeMintRequest :: "(string \<Rightarrow> bool) \<Rightarrow> MetaNodeMintRequest \<Rightarrow> metanode_error + unit" where
  "validateMetaNodeMintRequest isHexAddress req =
     (if mt_ToAddress req = '''' then Inl NoToAddress
      else if \<not> isHexAddress (mt_ToAddress req) then Inl BadToAddress
      else if mt_TokenURI req = '''' then Inl NoTokenURI
      else if mt_ChainID req \<le> 0 then Inl BadChainID
      else Inr ())"

section \<open>Receipts\<close>

fun waitForTransaction :: "mint_env \<Rightarrow> string \<Rightarrow> string \<Rightarrow> nat \<Rightarrow> (mint_state, Receipt option) state" where
  "waitForTransaction e endpoint txHash 0 = State_Monad.return None"
| "waitForTransaction e endpoint txHash (Suc n) = do {
     r \<leftarrow> State (\<lambda>s. (receipt_of e (ms_calls s) endpoint txHash, s\<lparr>ms_calls := Suc (ms_calls s)\<rparr>));
     case r of Some receipt \<Rightarrow> State_Monad.return (Some receipt) | None \<Rightarrow> waitForTransaction e endpoint txHash n
   }"

fun parseTokenIDFromReceipt :: "256 word \<Rightarrow> receipt_log list \<Rightarrow> string option" where
  "parseTokenIDFromReceipt transferEventSignature [] = None"
| "parseTokenIDFromReceipt transferEventSignature (l # logs) = (let topics = rl_Topics l in
     if topics \<noteq> [] \<and> topics ! 0 = transferEventSignature \<and> 4 \<le> length topics \<and> ucast (topics ! 1) = (0 :: 160 word)
     then Some (itoa (unat (topics ! 3)))
     else parseTokenIDFromReceipt transferEventSignature logs)"

definition getTransactionStatus :: "Receipt \<Rightarrow> string" where
  "getTransactionStatus receipt = (if rc_Status receipt = 1 then ''confirmed'' else ''failed'')"

definition getBatchStatus :: "nat \<Rightarrow> nat \<Rightarrow> string" where
  "getBatchStatus successCount failedCount =
     (if failedCount = 0 then ''all_success'' else if successCount = 0 then ''all_failed'' else ''partial_success'')"

section \<open>The row of a minted item\<close>

definition metanode_chain_name :: "int \<Rightarrow> string" where
  "metanode_chain_name chainID = (if chainID = 1 then ''ethereum'' else if chainID = 11155111 then ''sepolia''
     else if chainID = 56 then ''bsc'' else if chainID = 137 then ''polygon'' else if chainID = 43114 then ''avalanche''
     else ''chain_'' @ int_text chainID)"

text \<open>
  The insertion names neither \<open>creator\<close> nor \<open>supply\<close>, which have no default and are not null: a server in strict mode
  rejects it, any other stores the empty text and 0. Columns that may be null stay null; the counters, which are read
  as numbers, are 0.
\<close>

definition minted_item :: "int \<Rightarrow> string \<Rightarrow> string \<Rightarrow> string \<Rightarrow> string \<Rightarrow> int \<Rightarrow> ItemRow" where
  "minted_item chainID collectionAddress tokenId owner name t =
     \<lparr>item_chain_id = chainID, item_collection_address = collectionAddress, item_token_id = tokenId, item_name = name,
      item_owner = Some owner, item_creator = '''', item_supply = 0, item_list_price = None, item_list_time = 0,
      item_sale_price = None, item_views = 0, item_is_opensea_banned = False, item_update_time = t\<rparr>"

definition insert_item :: "backend_env \<Rightarrow> bool \<Rightarrow> string \<Rightarrow> ItemRow \<Rightarrow> unit B" where
  "insert_item be strict chain row = State (\<lambda>b.
     if strict \<or> (case bk_tables b chain of None \<Rightarrow> True | Some t \<Rightarrow> list_ex (\<lambda>r. same_item (be_env be) r row) (t_items t))
     then (Inl DBFailed, b\<lparr>bk_db := Suc (bk_db b)\<rparr>)
     else run_state (bk_update be chain (\<lambda>t. t\<lparr>t_items := t_items t @ [row]\<rparr>)) b)"

definition insertMintedItemToDB :: "backend_env \<Rightarrow> bool \<Rightarrow> int \<Rightarrow> string \<Rightarrow> string \<Rightarrow> string \<Rightarrow> string \<Rightarrow> unit B" where
  "insertMintedItemToDB be strict chainID collectionAddress tokenId owner name = do {
     _ \<leftarrow> bk_now be;
     t \<leftarrow> bk_now be;
     insert_item be strict (metanode_chain_name chainID) (minted_item chainID collectionAddress tokenId owner name t)
   }"

section \<open>Minting\<close>

definition trim_0x :: "string \<Rightarrow> string" where
  "trim_0x s = (if is_prefix ''0x'' s then drop 2 s else s)"

text \<open>The transaction of a mint; \<open>NewKeyedTransactorWithChainID\<close> fails only without a chain id.\<close>

definition mint_transaction :: "mint_env \<Rightarrow> MetaNodeConfig \<Rightarrow> 160 word \<Rightarrow> u64 \<Rightarrow> int \<Rightarrow> MetaNodeMintRequest \<Rightarrow> transaction" where
  "mint_transaction e config fromAddress nonce gasPrice req =
     \<lparr>tx_nonce = int64_of nonce, tx_gas_limit = mn_GasLimit config, tx_gas_price = gasPrice, tx_chain = mn_ChainID config,
      tx_from = fromAddress, tx_contract = hex_to_address e (mn_ContractAddress config),
      tx_to = hex_to_address e (mt_ToAddress req), tx_uri = mt_TokenURI req\<rparr>"

text \<open>What follows the transaction: a receipt that does not come leaves the mint pending.\<close>

definition mint_outcome :: "mint_env \<Rightarrow> MetaNodeConfig \<Rightarrow> int \<Rightarrow> MetaNodeMintRequest \<Rightarrow> string \<Rightarrow> MetaNodeMintResult mint" where
  "mint_outcome e config gasPrice req txHash = do {
     s \<leftarrow> State_Monad.get;
     r \<leftarrow> waitForTransaction e (mn_RPCEndpoint config) txHash (polls e (ms_calls s));
     case r of
       None \<Rightarrow> ok \<lparr>mres_TxHash = txHash, mres_TokenID = '''', mres_Status = ''pending'', mres_BlockNumber = 0, mres_GasUsed = 0,
         mres_GasPrice = int_text gasPrice\<rparr>
     | Some receipt \<Rightarrow> do {
         let tokenId = (case parseTokenIDFromReceipt (transfer_topic e) (rc_Logs receipt) of None \<Rightarrow> '''' | Some t \<Rightarrow> t);
         _ \<leftarrow> (if tokenId \<noteq> '''' \<and> getTransactionStatus receipt = ''confirmed''
              then on_backend (insertMintedItemToDB (me_backend e) (me_strict e) (mt_ChainID req) (mn_ContractAddress config)
                tokenId (mt_ToAddress req) (mt_Name req))
              else State_Monad.return (Inr ()));
         case rc_BlockNumber receipt of
           None \<Rightarrow> State_Monad.return (Inl (MintPanic NilDereference))
         | Some n \<Rightarrow> ok \<lparr>mres_TxHash = txHash, mres_TokenID = tokenId, mres_Status = getTransactionStatus receipt,
             mres_BlockNumber = wrap64 n, mres_GasUsed = int64_of (rc_GasUsed receipt), mres_GasPrice = int_text gasPrice\<rparr>
       }
   }"

definition MintMetaNodeNFT :: "mint_env \<Rightarrow> MetaNodeMintRequest \<Rightarrow> MetaNodeMintResult mint" where
  "MintMetaNodeNFT e req =
     andThen (lift_sum (getMetaNodeConfig (me_settings e) (mt_ChainID req))) (\<lambda>config.
     andThen (lift_sum (validateMetaNodeMintRequest (is_hex_address e) req)) (\<lambda>_.
     let endpoint = mn_RPCEndpoint config in
     andThen (call_client (\<lambda>n. if dial e n endpoint then Some () else None) DialFailed) (\<lambda>_.
     andThen (call_client (\<lambda>n. client_chain_id e n endpoint) ChainIDFailed) (\<lambda>_.
     case key_address e (trim_0x (mn_OwnerPrivateKey config)) of None \<Rightarrow> fail BadPrivateKey | Some fromAddress \<Rightarrow>
     andThen (call_client (\<lambda>n. pending_nonce e n endpoint fromAddress) NonceFailed) (\<lambda>nonce.
     andThen (case mn_GasPrice config of Some p \<Rightarrow> ok p
        | None \<Rightarrow> call_client (\<lambda>n. suggested_gas_price e n endpoint) GasPriceFailed) (\<lambda>gasPrice.
     andThen (ensure (abi_parses e) ABIFailed) (\<lambda>_.
     andThen (Transact e endpoint (mint_transaction e config fromAddress nonce gasPrice req)) (\<lambda>txHash.
     mint_outcome e config gasPrice req txHash))))))))"

definition single_request :: "int \<Rightarrow> MetaNodeSingleMintInfo \<Rightarrow> MetaNodeMintRequest" where
  "single_request chainID m = \<lparr>mt_ChainID = chainID, mt_ToAddress = si_ToAddress m, mt_TokenURI = si_TokenURI m,
     mt_Name = si_Name m, mt_Description = si_Description m\<rparr>"

text \<open>The loop: the tokens so far, how many mints succeeded and how many failed. A panic ends it.\<close>

fun mint_each ::
  "mint_env \<Rightarrow> int \<Rightarrow> MetaNodeSingleMintInfo list \<Rightarrow> string list \<times> nat \<times> nat \<Rightarrow> (mint_state, go_panic + string list \<times> nat \<times> nat) state" where
  "mint_each e chainID [] acc = State_Monad.return (Inr acc)"
| "mint_each e chainID (m # ms) (tokenIDs, successCount, failedCount) = do {
     r \<leftarrow> MintMetaNodeNFT e (single_request chainID m);
     case r of
       Inl (MintPanic p) \<Rightarrow> State_Monad.return (Inl p)
     | Inl (MintError err) \<Rightarrow> mint_each e chainID ms (tokenIDs @ [''''], successCount, failedCount + 1)
     | Inr result \<Rightarrow> mint_each e chainID ms (tokenIDs @ [mres_TokenID result], successCount + 1, failedCount)
   }"

definition BatchMintMetaNodeNFT :: "mint_env \<Rightarrow> MetaNodeBatchMintRequest \<Rightarrow> MetaNodeBatchMintResult mint" where
  "BatchMintMetaNodeNFT e req =
     andThen (lift_sum (getMetaNodeConfig (me_settings e) (bm_ChainID req))) (\<lambda>_.
     andThen (ensure (bm_Mints req \<noteq> []) NoMints) (\<lambda>_.
     andThen (ensure (length (bm_Mints req) \<le> 50) TooManyMints) (\<lambda>_. do {
       r \<leftarrow> mint_each e (bm_ChainID req) (bm_Mints req) ([], 0, 0);
       case r of
         Inl p \<Rightarrow> State_Monad.return (Inl (MintPanic p))
       | Inr (tokenIDs, successCount, failedCount) \<Rightarrow> ok \<lparr>bres_TxHash = '''', bres_TokenIDs = tokenIDs,
           bres_SuccessCount = successCount, bres_FailedCount = failedCount,
           bres_Status = getBatchStatus successCount failedCount, bres_GasUsed = 0\<rparr>
     })))"

section \<open>Queries\<close>

definition queryTokenInfo :: "mint_env \<Rightarrow> string \<Rightarrow> string \<Rightarrow> string \<Rightarrow> MetaNodeTokenInfo mint" where
  "queryTokenInfo e endpoint contractAddr tokenIDStr = (let contract = hex_to_address e contractAddr in
     case SetString10 tokenIDStr of None \<Rightarrow> fail BadTokenID | Some tokenId \<Rightarrow>
     andThen (call_client (\<lambda>n. token_uri_call e n endpoint contract tokenId) TokenURIFailed) (\<lambda>tokenURI.
     andThen (call_client (\<lambda>n. owner_call e n endpoint contract tokenId) OwnerFailed) (\<lambda>owner. do {
       t \<leftarrow> on_backend (bk_now (me_backend e));
       ok \<lparr>ti_TokenID = tokenIDStr, ti_Owner = address_hex e owner, ti_TokenURI = tokenURI, ti_Name = '''', ti_Description = '''',
         ti_Image = '''', ti_Attributes = '''', ti_MintedAt = t, ti_MintTxHash = ''''\<rparr>
     })))"

definition QueryMetaNodeNFT :: "mint_env \<Rightarrow> MetaNodeQueryRequest \<Rightarrow> MetaNodeQueryResponse mint" where
  "QueryMetaNodeNFT e req =
     andThen (lift_sum (getMetaNodeConfig (me_settings e) (mq_ChainID req))) (\<lambda>config.
     let endpoint = mn_RPCEndpoint config in
     andThen (call_client (\<lambda>n. if dial e n endpoint then Some () else None) DialFailed) (\<lambda>_.
     andThen (ensure (abi_parses e) ABIFailed) (\<lambda>_.
     andThen (if mq_TokenID req \<noteq> ''''
        then andThen (queryTokenInfo e endpoint (mn_ContractAddress config) (mq_TokenID req)) (\<lambda>tokenInfo. ok [tokenInfo])
        else ok []) (\<lambda>tokens.
     ok \<lparr>qr_Tokens = tokens, qr_Total = int (length tokens), qr_Page = mq_Page req, qr_Size = int (length tokens)\<rparr>))))"

section \<open>Handlers\<close>

text \<open>An error is answered with its text behind a prefix; a body that cannot be bound (\<open>ShouldBindJSON\<close>, which also checks the
  required fields) is \<open>None\<close>.\<close>

definition mint_serve ::
  "string \<Rightarrow> (metanode_error \<Rightarrow> string) \<Rightarrow> 'a mint \<Rightarrow> ('a \<Rightarrow> 'b handled) \<Rightarrow> mint_state \<Rightarrow> 'b handled \<times> mint_state" where
  "mint_serve prefix_text explain m f s = (let (r, s') = run_state m s in (case r of
       Inl (MintPanic p) \<Rightarrow> Inl p
     | Inl (MintError err) \<Rightarrow> Inr (Inl (custom_error (prefix_text @ explain err)))
     | Inr a \<Rightarrow> f a, s'))"

definition answer :: "'a \<Rightarrow> 'a handled" where
  "answer a = Inr (Inr a)"

definition getContractAddress :: "MetaNodeSettings option \<Rightarrow> int \<Rightarrow> string" where
  "getContractAddress settings chainID = (case settings of None \<Rightarrow> ZeroAddress
     | Some config \<Rightarrow> (case set_ContractAddresses config (int_text chainID) of None \<Rightarrow> ZeroAddress | Some addr \<Rightarrow> addr))"

definition getContractOwner :: "MetaNodeSettings option \<Rightarrow> int \<Rightarrow> string" where
  "getContractOwner settings chainID = ZeroAddress"

record MetaNodeMintResponse =
  mrsp_Result :: MetaNodeMintResult
  mrsp_TransactionID :: string
  mrsp_TokenID :: string
  mrsp_ContractAddr :: string
  mrsp_Message :: string

definition MetaNodeMintHandler ::
  "mint_env \<Rightarrow> (metanode_error \<Rightarrow> string) \<Rightarrow> MetaNodeMintRequest option \<Rightarrow> mint_state \<Rightarrow> MetaNodeMintResponse handled \<times> mint_state" where
  "MetaNodeMintHandler e explain body s = (case body of None \<Rightarrow> custom ''Invalid request parameters'' s | Some req \<Rightarrow>
     if mt_ChainID req \<le> 0 then custom ''Invalid chain_id'' s
     else if mt_ToAddress req = '''' then custom ''to_address is required'' s
     else if mt_TokenURI req = '''' then custom ''token_uri is required'' s
     else mint_serve ''Failed to mint NFT: '' explain (MintMetaNodeNFT e req) (\<lambda>res. answer
       \<lparr>mrsp_Result = res, mrsp_TransactionID = mres_TxHash res, mrsp_TokenID = mres_TokenID res,
        mrsp_ContractAddr = getContractAddress (me_settings e) (mt_ChainID req), mrsp_Message = ''MetaNodeNFT minted successfully''\<rparr>) s)"

text \<open>The first mint of a batch that lacks a field, with its number.\<close>

fun missing_field :: "nat \<Rightarrow> MetaNodeSingleMintInfo list \<Rightarrow> string option" where
  "missing_field i [] = None"
| "missing_field i (m # ms) =
     (if si_ToAddress m = '''' then Some (''to_address is required for mint #'' @ itoa (i + 1))
      else if si_TokenURI m = '''' then Some (''token_uri is required for mint #'' @ itoa (i + 1))
      else missing_field (i + 1) ms)"

definition MetaNodeBatchMintHandler ::
  "mint_env \<Rightarrow> (metanode_error \<Rightarrow> string) \<Rightarrow> MetaNodeBatchMintRequest option \<Rightarrow> mint_state \<Rightarrow> MetaNodeBatchMintResult handled \<times> mint_state" where
  "MetaNodeBatchMintHandler e explain body s = (case body of None \<Rightarrow> custom ''Invalid request parameters'' s | Some req \<Rightarrow>
     if bm_ChainID req \<le> 0 then custom ''Invalid chain_id'' s
     else if bm_Mints req = [] then custom ''No mint requests provided'' s
     else if 50 < length (bm_Mints req) then custom ''Too many mint requests, maximum 50 allowed'' s
     else case missing_field 0 (bm_Mints req) of
       Some msg \<Rightarrow> custom msg s
     | None \<Rightarrow> mint_serve ''Failed to batch mint NFT: '' explain (BatchMintMetaNodeNFT e req) answer s)"

text \<open>\<open>chain_id\<close> of the query, and a page parameter with its default and bound.\<close>

definition query_chain :: "string \<Rightarrow> (int \<Rightarrow> 's \<Rightarrow> 'a handled \<times> 's) \<Rightarrow> 's \<Rightarrow> 'a handled \<times> 's" where
  "query_chain chainIDStr f s = (if chainIDStr = '''' then custom ''chain_id parameter is required'' s
     else case parse_int chainIDStr of None \<Rightarrow> custom ''Invalid chain_id parameter'' s | Some chainID \<Rightarrow> f chainID s)"

definition page_param :: "string \<Rightarrow> int \<Rightarrow> (int \<Rightarrow> bool) \<Rightarrow> int" where
  "page_param str dflt allowed = (case parse_int str of None \<Rightarrow> dflt | Some p \<Rightarrow> if 0 < p \<and> allowed p then p else dflt)"

definition MetaNodeQueryHandler ::
  "mint_env \<Rightarrow> (metanode_error \<Rightarrow> string) \<Rightarrow> string \<Rightarrow> string \<Rightarrow> string \<Rightarrow> string \<Rightarrow> string \<Rightarrow> string \<Rightarrow> mint_state \<Rightarrow>
   MetaNodeQueryResponse handled \<times> mint_state" where
  "MetaNodeQueryHandler e explain chainIDStr contractAddr tokenId owner pageStr sizeStr = query_chain chainIDStr (\<lambda>chainID.
     mint_serve ''Failed to query NFT: '' explain (QueryMetaNodeNFT e \<lparr>mq_ChainID = chainID, mq_ContractAddr = contractAddr,
       mq_TokenID = tokenId, mq_Owner = owner, mq_Page = page_param pageStr 1 (\<lambda>_. True),
       mq_PageSize = page_param sizeStr 20 (\<lambda>p. p \<le> 100)\<rparr>) answer)"

record MetaNodeContractInfo =
  ci_Address :: string
  ci_Name :: string
  ci_Symbol :: string
  ci_Owner :: string
  ci_TotalSupply :: int
  ci_ChainID :: int

definition MetaNodeContractInfoHandler :: "MetaNodeSettings option \<Rightarrow> string \<Rightarrow> 's \<Rightarrow> MetaNodeContractInfo handled \<times> 's" where
  "MetaNodeContractInfoHandler settings chainIDStr = query_chain chainIDStr (\<lambda>chainID s. (answer
     \<lparr>ci_Address = getContractAddress settings chainID, ci_Name = ''MetaNodeNFT'', ci_Symbol = ''MetaNode'',
      ci_Owner = getContractOwner settings chainID, ci_TotalSupply = 0, ci_ChainID = chainID\<rparr>, s))"

definition MetaNodeTokenInfoHandler ::
  "mint_env \<Rightarrow> (metanode_error \<Rightarrow> string) \<Rightarrow> string \<Rightarrow> string \<Rightarrow> mint_state \<Rightarrow> MetaNodeTokenInfo handled \<times> mint_state" where
  "MetaNodeTokenInfoHandler e explain tokenId chainIDStr s = (if tokenId = '''' then custom ''token_id parameter is required'' s
     else query_chain chainIDStr (\<lambda>chainID. mint_serve ''Failed to query token info: '' explain
       (QueryMetaNodeNFT e \<lparr>mq_ChainID = chainID, mq_ContractAddr = '''', mq_TokenID = tokenId, mq_Owner = '''', mq_Page = 0, mq_PageSize = 0\<rparr>)
       (\<lambda>result. case qr_Tokens result of [] \<Rightarrow> Inr (Inl (custom_error ''Token not found'')) | token # _ \<Rightarrow> answer token)) s)"

section \<open>What is sent\<close>

lemma run_andThen [simp]:
  "run_state (andThen m f) s = (case run_state m s of (Inl err, t) \<Rightarrow> (Inl err, t) | (Inr a, t) \<Rightarrow> run_state (f a) t)"
  by (auto simp: andThen_def split: prod.split sum.split)

lemma run_ok [simp]: "run_state (ok a) s = (Inr a, s)"
  and run_fail [simp]: "run_state (fail err) s = (Inl (MintError err), s)"
  by (simp_all add: ok_def fail_def)

lemma keeps_andThen [keeps_intro]: "keeps P m \<Longrightarrow> (\<And>a. keeps P (f a)) \<Longrightarrow> keeps P (andThen m f)"
  unfolding andThen_def by (intro keeps_intro)

lemma keeps_plain [keeps_intro]: "keeps P (ok a)" "keeps P (fail err)" "keeps P (ensure b err)" "keeps P (lift_sum r)"
  by (simp_all add: keeps_def ensure_def lift_sum_def split: sum.split)

lemma keeps_get [keeps_intro]: "keeps P State_Monad.get"
  by (simp add: keeps_def State_Monad.get_def)

lemma keeps_call_client: "(\<And>s. P s \<Longrightarrow> P (s\<lparr>ms_calls := Suc (ms_calls s)\<rparr>)) \<Longrightarrow> keeps P (call_client f err)"
  by (simp add: keeps_def call_client_def)

lemma keeps_waitForTransaction:
  "(\<And>s. P s \<Longrightarrow> P (s\<lparr>ms_calls := Suc (ms_calls s)\<rparr>)) \<Longrightarrow> keeps P (waitForTransaction e endpoint txHash n)"
  by (induction n) (auto simp: keeps_def split: option.split)

definition sent_is :: "transaction list \<Rightarrow> mint_state \<Rightarrow> bool" where
  "sent_is txs s \<longleftrightarrow> ms_sent s = txs"

lemma keeps_sent_is [keeps_intro]:
  "keeps (sent_is txs) (call_client f err)" "keeps (sent_is txs) (waitForTransaction e endpoint txHash n)"
  "keeps (sent_is txs) (on_backend m)"
  by (auto intro!: keeps_call_client keeps_waitForTransaction simp: sent_is_def)
    (simp add: keeps_def on_backend_def sent_is_def split: prod.split)

lemma keeps_sent_outcome: "keeps (sent_is txs) (mint_outcome e config gasPrice req txHash)"
  unfolding mint_outcome_def Let_def by (intro keeps_intro)

text \<open>\<open>sends P m\<close>: the node accepts at most one transaction of \<open>m\<close>, one with \<open>P\<close>, and one when \<open>m\<close> succeeds.\<close>

definition sends :: "(transaction \<Rightarrow> bool) \<Rightarrow> 'a mint \<Rightarrow> bool" where
  "sends P m \<longleftrightarrow> (\<forall>s. \<exists>txs. ms_sent (snd (run_state m s)) = ms_sent s @ txs \<and> length txs \<le> 1 \<and> list_all P txs \<and>
     (\<forall>a. fst (run_state m s) = Inr a \<longrightarrow> length txs = 1))"

lemma sends_after: "(\<And>txs. keeps (sent_is txs) m) \<Longrightarrow> (\<And>a. sends P (f a)) \<Longrightarrow> sends P (andThen m f)"
  unfolding sends_def
proof (intro allI)
  fix s
  assume "\<And>txs. keeps (sent_is txs) m" and f: "\<And>a. \<forall>s. \<exists>txs. ms_sent (snd (run_state (f a) s)) = ms_sent s @ txs \<and> length txs \<le> 1 \<and>
    list_all P txs \<and> (\<forall>b. fst (run_state (f a) s) = Inr b \<longrightarrow> length txs = 1)"
  then have *: "ms_sent (snd (run_state m s)) = ms_sent s" by (simp add: keeps_def sent_is_def)
  show "\<exists>txs. ms_sent (snd (run_state (andThen m f) s)) = ms_sent s @ txs \<and> length txs \<le> 1 \<and> list_all P txs \<and>
    (\<forall>b. fst (run_state (andThen m f) s) = Inr b \<longrightarrow> length txs = 1)"
  proof (cases "run_state m s")
    case (Pair r t)
    show ?thesis
    proof (cases r)
      case (Inr a)
      show ?thesis using f [of a, THEN spec, of t] * Pair Inr by simp
    qed (use * Pair in simp)
  qed
qed

lemma sends_before: "sends P m \<Longrightarrow> (\<And>a txs. keeps (sent_is txs) (f a)) \<Longrightarrow> sends P (andThen m f)"
  unfolding sends_def
proof (intro allI)
  fix s
  assume m: "\<forall>s. \<exists>txs. ms_sent (snd (run_state m s)) = ms_sent s @ txs \<and> length txs \<le> 1 \<and> list_all P txs \<and>
      (\<forall>a. fst (run_state m s) = Inr a \<longrightarrow> length txs = 1)"
    and f: "\<And>a txs. keeps (sent_is txs) (f a)"
  then have *: "ms_sent (snd (run_state (f a) t)) = ms_sent t" for a t by (simp add: keeps_def sent_is_def)
  show "\<exists>txs. ms_sent (snd (run_state (andThen m f) s)) = ms_sent s @ txs \<and> length txs \<le> 1 \<and> list_all P txs \<and>
    (\<forall>b. fst (run_state (andThen m f) s) = Inr b \<longrightarrow> length txs = 1)"
  proof (cases "run_state m s")
    case (Pair r t)
    then show ?thesis using * spec [OF m, of s] by (cases r) auto
  qed
qed

lemma sends_fail: "sends P (fail err)"
  by (simp add: sends_def)

lemma sends_option: "sends P m \<Longrightarrow> (\<And>a. sends P (f a)) \<Longrightarrow> sends P (case x of None \<Rightarrow> m | Some a \<Rightarrow> f a)"
  by (simp split: option.split)

lemma sends_Transact: "P tx \<Longrightarrow> sends P (Transact e endpoint tx)"
  by (simp add: sends_def Transact_def Let_def split: outcome.split)

lemma sends_mint:
  "sends (\<lambda>tx. tx_to tx = hex_to_address e (mt_ToAddress req) \<and> tx_uri tx = mt_TokenURI req) (MintMetaNodeNFT e req)"
  unfolding MintMetaNodeNFT_def Let_def
  apply (rule sends_after, intro keeps_intro)+
  apply (rule sends_option [OF sends_fail])
  apply (rule sends_after, intro keeps_intro)+
  apply (rule sends_before [OF sends_Transact keeps_sent_outcome])
  apply (simp add: mint_transaction_def)
  done

section \<open>Batches\<close>

text \<open>Whom a transaction, or a mint of a batch, is for.\<close>

definition recipient :: "transaction \<Rightarrow> 160 word \<times> string" where
  "recipient tx = (tx_to tx, tx_uri tx)"

definition asked_recipient :: "mint_env \<Rightarrow> MetaNodeSingleMintInfo \<Rightarrow> 160 word \<times> string" where
  "asked_recipient e m = (hex_to_address e (si_ToAddress m), si_TokenURI m)"

lemma mint_sends:
  assumes "run_state (MintMetaNodeNFT e (single_request chainID m)) s = (r, t)"
  obtains (one) tx where "ms_sent t = ms_sent s @ [tx]" "recipient tx = asked_recipient e m"
    | (none) "ms_sent t = ms_sent s" "\<And>a. r \<noteq> Inr a"
proof -
  have "sends (\<lambda>tx. recipient tx = asked_recipient e m) (MintMetaNodeNFT e (single_request chainID m))"
    using sends_mint [of e "single_request chainID m"] by (simp add: recipient_def asked_recipient_def single_request_def)
  then obtain txs where txs: "ms_sent t = ms_sent s @ txs" "length txs \<le> 1" "list_all (\<lambda>tx. recipient tx = asked_recipient e m) txs"
    "\<And>a. r = Inr a \<Longrightarrow> length txs = 1"
    using assms unfolding sends_def by (metis fst_conv snd_conv)
  show thesis
  proof (cases txs)
    case Nil
    then show thesis using txs none by auto
  next
    case (Cons tx ts)
    then show thesis using txs one by simp
  qed
qed

lemma mint_each_counts:
  "run_state (mint_each e chainID ms (toks, sc, fc)) s = (Inr (toks', sc', fc'), t) \<Longrightarrow>
     length toks' = length toks + length ms \<and> sc' + fc' = sc + fc + length ms \<and>
     (\<exists>txs. ms_sent t = ms_sent s @ txs \<and> sc' \<le> sc + length txs \<and> subseq (map recipient txs) (map (asked_recipient e) ms))"
proof (induction ms arbitrary: toks sc fc s)
  case (Cons m ms)
  obtain r u where mint: "run_state (MintMetaNodeNFT e (single_request chainID m)) s = (r, u)" by fastforce
  define acc where "acc = (case r of Inr res \<Rightarrow> (toks @ [mres_TokenID res], sc + 1, fc) | Inl _ \<Rightarrow> (toks @ [''''], sc, fc + 1))"
  obtain toks1 sc1 fc1 where acc: "acc = (toks1, sc1, fc1)" by (cases acc)
  have "run_state (mint_each e chainID ms acc) u = (Inr (toks', sc', fc'), t)"
    using Cons.prems mint by (auto simp: acc_def split: sum.splits mint_fault.splits)
  from Cons.IH [OF this [unfolded acc]] obtain txs where
    IH: "length toks' = length toks1 + length ms" "sc' + fc' = sc1 + fc1 + length ms" "ms_sent t = ms_sent u @ txs"
      "sc' \<le> sc1 + length txs" "subseq (map recipient txs) (map (asked_recipient e) ms)" by blast
  have counts: "length toks1 = Suc (length toks)" "sc1 + fc1 = Suc (sc + fc)" "sc1 \<le> Suc sc"
    using acc by (auto simp: acc_def split: sum.splits)
  from mint show ?case
  proof (cases rule: mint_sends)
    case (one tx)
    then show ?thesis using IH counts by (intro conjI exI [of _ "tx # txs"]) auto
  next
    case none
    then have "sc1 = sc" using acc by (cases r) (auto simp: acc_def)
    then show ?thesis using IH counts none by (intro conjI exI [of _ txs]) auto
  qed
qed auto

lemma batch_run:
  assumes "run_state (BatchMintMetaNodeNFT e req) s = (Inr res, t)"
  obtains "bm_Mints req \<noteq> []" "length (bm_Mints req) \<le> 50"
    "run_state (mint_each e (bm_ChainID req) (bm_Mints req) ([], 0, 0)) s =
       (Inr (bres_TokenIDs res, bres_SuccessCount res, bres_FailedCount res), t)"
    "bres_Status res = getBatchStatus (bres_SuccessCount res) (bres_FailedCount res)"
  using assms
  by (auto simp: BatchMintMetaNodeNFT_def lift_sum_def ensure_def split: sum.splits if_splits prod.splits)

text \<open>C38: a batch that is answered had between 1 and 50 mints, and is answered with one token (or empty text) for each and with
  counts that add up; for every mint counted as a success the node accepted a transaction, the accepted transactions are
  for mints of the batch in their order, at most one each, and a mint counted as failed may be among them.\<close>

theorem batch_answers_every_mint:
  assumes "run_state (BatchMintMetaNodeNFT e req) s = (Inr res, t)"
  shows "1 \<le> length (bm_Mints req) \<and> length (bm_Mints req) \<le> 50 \<and> length (bres_TokenIDs res) = length (bm_Mints req) \<and>
    bres_SuccessCount res + bres_FailedCount res = length (bm_Mints req) \<and>
    (bres_Status res = ''all_success'' \<longleftrightarrow> bres_FailedCount res = 0) \<and>
    (\<exists>txs. ms_sent t = ms_sent s @ txs \<and> bres_SuccessCount res \<le> length txs \<and> length txs \<le> length (bm_Mints req) \<and>
       subseq (map recipient txs) (map (asked_recipient e) (bm_Mints req)))"
  using assms
proof (cases rule: batch_run)
  case 1
  from mint_each_counts [OF 1(3)] obtain txs where txs: "ms_sent t = ms_sent s @ txs" "bres_SuccessCount res \<le> length txs"
    "subseq (map recipient txs) (map (asked_recipient e) (bm_Mints req))" by auto
  moreover have "length txs \<le> length (bm_Mints req)" using list_emb_length [OF txs(3)] by simp
  moreover have "1 \<le> length (bm_Mints req)" using 1(1) by (cases "bm_Mints req") auto
  ultimately show ?thesis using mint_each_counts [OF 1(3)] 1 by (auto simp: getBatchStatus_def)
qed

section \<open>Reverted mints\<close>

text \<open>A node that answers every call, accepts every transaction, and has the receipt \<open>rc\<close> for each of them in time.\<close>

definition node_answers :: "mint_env \<Rightarrow> Receipt \<Rightarrow> bool" where
  "node_answers e rc \<longleftrightarrow> abi_parses e \<and> (\<forall>n p. dial e n p) \<and> (\<forall>n p. client_chain_id e n p \<noteq> None) \<and>
     (\<forall>n p a. pending_nonce e n p a \<noteq> None) \<and> (\<forall>n p. suggested_gas_price e n p \<noteq> None) \<and>
     (\<forall>n p tx. send_outcome e n p tx = Done) \<and> (\<forall>n. 0 < polls e n) \<and> (\<forall>n p h. receipt_of e n p h = Some rc)"

definition ready :: "mint_env \<Rightarrow> int \<Rightarrow> bool" where
  "ready e chainID \<longleftrightarrow> (\<exists>config. getMetaNodeConfig (me_settings e) chainID = Inr config \<and>
     key_address e (trim_0x (mn_OwnerPrivateKey config)) \<noteq> None)"

lemma wait_receipt:
  "node_answers e rc \<Longrightarrow> 0 < n \<Longrightarrow>
     run_state (waitForTransaction e endpoint txHash n) s = (Some rc, s\<lparr>ms_calls := Suc (ms_calls s)\<rparr>)"
  by (cases n) (simp_all add: node_answers_def)

lemma run_get_state [simp]: "run_state State_Monad.get s = (s, s)"
  by (simp add: State_Monad.get_def)

lemma outcome_reverted:
  assumes "node_answers e rc" "rc_Status rc \<noteq> 1" "rc_BlockNumber rc = Some n"
    and "parseTokenIDFromReceipt (transfer_topic e) (rc_Logs rc) = None"
  obtains res t where "run_state (mint_outcome e config gasPrice req txHash) s = (Inr res, t)"
    "mres_TokenID res = ''''" "mres_Status res = ''failed''" "ms_sent t = ms_sent s"
proof -
  have "0 < polls e (ms_calls s)" using assms(1) by (simp add: node_answers_def)
  then show thesis using that
    by (simp add: mint_outcome_def wait_receipt [OF assms(1)] assms(3,4) getTransactionStatus_def assms(2))
qed

lemma mint_reverted:
  assumes "node_answers e rc" "rc_Status rc \<noteq> 1" "rc_BlockNumber rc = Some n"
    and "parseTokenIDFromReceipt (transfer_topic e) (rc_Logs rc) = None"
    and "ready e (mt_ChainID req)" "validateMetaNodeMintRequest (is_hex_address e) req = Inr ()"
  obtains res t where "run_state (MintMetaNodeNFT e req) s = (Inr res, t)" "mres_TokenID res = ''''" "mres_Status res = ''failed''"
proof -
  obtain config a where config: "getMetaNodeConfig (me_settings e) (mt_ChainID req) = Inr config"
    "key_address e (trim_0x (mn_OwnerPrivateKey config)) = Some a" using assms(5) by (auto simp: ready_def)
  have gas: "\<exists>p t. run_state (case mn_GasPrice config of Some p \<Rightarrow> ok p
      | None \<Rightarrow> call_client (\<lambda>n. suggested_gas_price e n endpoint) GasPriceFailed) s = (Inr p, t)" for endpoint s
  proof -
    have "\<exists>q. suggested_gas_price e (ms_calls s) endpoint = Some q"
      using assms(1) by (simp add: node_answers_def)
    then obtain q where "suggested_gas_price e (ms_calls s) endpoint = Some q" ..
    then show ?thesis by (cases "mn_GasPrice config") (simp_all add: call_client_def)
  qed
  let ?ep = "mn_RPCEndpoint config"
  define s1 where "s1 = s\<lparr>ms_calls := Suc (Suc (ms_calls s))\<rparr>"
  have "\<exists>nonce. pending_nonce e (ms_calls s1) ?ep a = Some nonce"
    using assms(1) by (simp add: node_answers_def)
  then obtain nonce where nonce: "pending_nonce e (ms_calls s1) ?ep a = Some nonce" ..
  obtain p s2 where p: "run_state (case mn_GasPrice config of Some p \<Rightarrow> ok p
      | None \<Rightarrow> call_client (\<lambda>n. suggested_gas_price e n ?ep) GasPriceFailed) (s1\<lparr>ms_calls := Suc (ms_calls s1)\<rparr>) = (Inr p, s2)"
    using gas by blast
  let ?tx = "mint_transaction e config a nonce p req"
  obtain s3 where tx: "run_state (Transact e ?ep ?tx) s2 = (Inr (tx_hash e ?tx), s3)"
    using assms(1) by (simp add: node_answers_def Transact_def)
  obtain res t where out: "run_state (mint_outcome e config p req (tx_hash e ?tx)) s3 = (Inr res, t)"
    "mres_TokenID res = ''''" "mres_Status res = ''failed''"
    by (rule outcome_reverted [OF assms(1-4)])
  have chain: "client_chain_id e n ?ep \<noteq> None" for n using assms(1) by (simp add: node_answers_def)
  have "run_state (call_client (\<lambda>n. if dial e n ?ep then Some () else None) DialFailed) s = (Inr (), s\<lparr>ms_calls := Suc (ms_calls s)\<rparr>)"
    using assms(1) by (simp add: node_answers_def call_client_def)
  moreover have "\<exists>c. run_state (call_client (\<lambda>n. client_chain_id e n ?ep) ChainIDFailed) (s\<lparr>ms_calls := Suc (ms_calls s)\<rparr>) = (Inr c, s1)"
    using chain by (auto simp: call_client_def s1_def split: option.split)
  moreover have "run_state (call_client (\<lambda>n. pending_nonce e n ?ep a) NonceFailed) s1 = (Inr nonce, s1\<lparr>ms_calls := Suc (ms_calls s1)\<rparr>)"
    using nonce by (simp add: call_client_def)
  moreover have "abi_parses e" using assms(1) by (simp add: node_answers_def)
  ultimately have "run_state (MintMetaNodeNFT e req) s = (Inr res, t)"
    using config p tx out(1) assms(6) by (auto simp: MintMetaNodeNFT_def Let_def lift_sum_def ensure_def)
  then show thesis using that out by blast
qed

lemma mint_each_reverted:
  assumes "node_answers e rc" "rc_Status rc \<noteq> 1" "rc_BlockNumber rc = Some n"
    and "parseTokenIDFromReceipt (transfer_topic e) (rc_Logs rc) = None" "ready e chainID"
  shows "\<forall>m \<in> set ms. validateMetaNodeMintRequest (is_hex_address e) (single_request chainID m) = Inr () \<Longrightarrow>
    fst (run_state (mint_each e chainID ms (toks, sc, fc)) s) = Inr (toks @ replicate (length ms) '''', sc + length ms, fc)"
proof (induction ms arbitrary: toks sc s)
  case (Cons m ms)
  have *: "ready e (mt_ChainID (single_request chainID m))" using assms(5) by (simp add: single_request_def)
  have "validateMetaNodeMintRequest (is_hex_address e) (single_request chainID m) = Inr ()" using Cons.prems by simp
  from mint_reverted [OF assms(1-4) * this] obtain res t
    where "run_state (MintMetaNodeNFT e (single_request chainID m)) s = (Inr res, t)" "mres_TokenID res = ''''" by metis
  then show ?case using Cons by simp
qed simp


section \<open>What is stored\<close>

definition tables_are :: "(string \<rightharpoonup> tables) \<Rightarrow> mint_state \<Rightarrow> bool" where
  "tables_are T s \<longleftrightarrow> bk_tables (ms_backend s) = T"

lemma keeps_tables_are [keeps_intro]:
  "keeps (tables_are T) (call_client f err)" "keeps (tables_are T) (waitForTransaction e endpoint txHash n)"
  "keeps (tables_are T) (Transact e endpoint tx)"
  by (auto intro!: keeps_call_client keeps_waitForTransaction simp: tables_are_def)
    (simp add: keeps_def Transact_def Let_def tables_are_def split: outcome.split)

lemma insertMinted_tables:
  assumes "strict \<or> bk_tables b (metanode_chain_name chainID) = None"
  shows "bk_tables (snd (run_state (insertMintedItemToDB be strict chainID addr tok owner name) b)) = bk_tables b"
  using assms by (auto simp: insertMintedItemToDB_def insert_item_def bk_now_def)

lemma keeps_insertMinted:
  assumes "me_strict e \<or> T (metanode_chain_name chainID) = None"
  shows "keeps (tables_are T) (on_backend (insertMintedItemToDB (me_backend e) (me_strict e) chainID addr tok owner name))"
  unfolding keeps_def
proof (intro allI impI)
  fix s assume s: "tables_are T s"
  show "tables_are T (snd (run_state (on_backend (insertMintedItemToDB (me_backend e) (me_strict e) chainID addr tok owner name)) s))"
    using insertMinted_tables [of "me_strict e" "ms_backend s" chainID "me_backend e" addr tok owner name] assms s
    by (auto simp: on_backend_def tables_are_def case_prod_beta)
qed

lemma keeps_mint:
  assumes "me_strict e \<or> T (metanode_chain_name (mt_ChainID req)) = None"
  shows "keeps (tables_are T) (MintMetaNodeNFT e req)"
  unfolding MintMetaNodeNFT_def mint_outcome_def Let_def by (intro keeps_intro keeps_insertMinted [where T = T, OF assms])

lemma keeps_mint_each:
  assumes "me_strict e \<or> T (metanode_chain_name chainID) = None"
  shows "keeps (tables_are T) (mint_each e chainID ms acc)"
proof (induction ms arbitrary: acc)
  case (Cons m ms)
  have "me_strict e \<or> T (metanode_chain_name (mt_ChainID (single_request chainID m))) = None"
    using assms by (simp add: single_request_def)
  note mint = keeps_mint [where T = T, OF this]
  show ?case using Cons.IH by (cases acc) (auto intro!: keeps_intro mint simp: keeps_return split: sum.split mint_fault.split)
qed (simp add: keeps_return)

text \<open>No mint reaches the tables when the server is strict, or when no item table has the name minting makes of the
  chain id; of the chains of the marketplace only Sepolia has a name that agrees.\<close>

theorem mints_are_not_stored:
  assumes "me_strict e \<or> bk_tables (ms_backend s) (metanode_chain_name (bm_ChainID req)) = None"
  shows "bk_tables (ms_backend (snd (run_state (BatchMintMetaNodeNFT e req) s))) = bk_tables (ms_backend s) \<and>
    (\<forall>chainID chain. chainIDToChain chainID = Some chain \<and> metanode_chain_name chainID = chain \<longrightarrow> chainID = 11155111)"
proof -
  have "keeps (tables_are (bk_tables (ms_backend s))) (BatchMintMetaNodeNFT e req)"
    unfolding BatchMintMetaNodeNFT_def
    by (intro keeps_intro keeps_mint_each [where T = "bk_tables (ms_backend s)", OF assms])
  then have "tables_are (bk_tables (ms_backend s)) (snd (run_state (BatchMintMetaNodeNFT e req) s))"
    by (rule keepsD) (simp add: tables_are_def)
  then show ?thesis by (auto simp: tables_are_def chainIDToChain_def metanode_chain_name_def split: if_splits)
qed

section \<open>Witnesses\<close>

definition reverted_receipt :: Receipt where
  "reverted_receipt = \<lparr>rc_Status = 0, rc_BlockNumber = Some 7, rc_GasUsed = 21000, rc_Logs = []\<rparr>"

definition sample_mint_env :: mint_env where
  "sample_mint_env = \<lparr>me_backend = plain_backend,
     me_settings = Some \<lparr>set_OwnerPrivateKey = ''0x1'', set_ContractAddresses = (\<lambda>_. Some ''0xc''), set_RPCEndpoints = (\<lambda>_. Some ''node''),
       set_GasLimit = 0, set_GasPrice = ''''\<rparr>,
     me_strict = True, is_hex_address = (\<lambda>_. True), hex_to_address = (\<lambda>_. 5), address_hex = (\<lambda>_. ''0x5''), key_address = (\<lambda>_. Some 9),
     abi_parses = True, transfer_topic = 1, dial = (\<lambda>_ _. True), client_chain_id = (\<lambda>_ _. Some 1), pending_nonce = (\<lambda>n _ _. Some (of_nat n)),
     suggested_gas_price = (\<lambda>_ _. Some 20), send_outcome = (\<lambda>_ _ _. Done), tx_hash = (\<lambda>_. ''0xh''), polls = (\<lambda>_. 14),
     receipt_of = (\<lambda>_ _ _. Some reverted_receipt), token_uri_call = (\<lambda>_ _ _ _. None), owner_call = (\<lambda>_ _ _ _. None)\<rparr>"

definition sample_mint_state :: mint_state where
  "sample_mint_state = \<lparr>ms_backend = empty_backend, ms_sent = [], ms_calls = 0\<rparr>"

definition sample_batch :: MetaNodeBatchMintRequest where
  "sample_batch = \<lparr>bm_ChainID = 11155111, bm_Mints = [\<lparr>si_ToAddress = ''0xa'', si_TokenURI = ''u'', si_Name = '''', si_Description = ''''\<rparr>,
     \<lparr>si_ToAddress = ''0xb'', si_TokenURI = ''v'', si_Name = '''', si_Description = ''''\<rparr>]\<rparr>"

lemma sample_mint_node: "node_answers sample_mint_env reverted_receipt"
  by (simp add: node_answers_def sample_mint_env_def)

lemma sample_ready: "ready sample_mint_env (bm_ChainID sample_batch)"
  by (simp add: ready_def getMetaNodeConfig_def sample_mint_env_def Let_def)

lemma sample_valid:
  "\<forall>m \<in> set (bm_Mints sample_batch).
     validateMetaNodeMintRequest (is_hex_address sample_mint_env) (single_request (bm_ChainID sample_batch) m) = Inr ()"
  by (simp add: validateMetaNodeMintRequest_def sample_mint_env_def sample_batch_def single_request_def)

lemma sample_batch_run:
  obtains res t where "run_state (BatchMintMetaNodeNFT sample_mint_env sample_batch) sample_mint_state = (Inr res, t)"
proof -
  have "fst (run_state (mint_each sample_mint_env (bm_ChainID sample_batch) (bm_Mints sample_batch) ([], 0, 0)) sample_mint_state) =
      Inr (replicate 2 '''', 2, 0)"
    using mint_each_reverted [OF sample_mint_node _ _ _ sample_ready sample_valid, of 7 "[]" 0 0 sample_mint_state]
    by (simp add: reverted_receipt_def sample_batch_def numeral_2_eq_2)
  moreover obtain config where "getMetaNodeConfig (me_settings sample_mint_env) (bm_ChainID sample_batch) = Inr config"
    using sample_ready by (auto simp: ready_def)
  moreover have "bm_Mints sample_batch \<noteq> []" "length (bm_Mints sample_batch) \<le> 50" by (simp_all add: sample_batch_def)
  ultimately show thesis using that
    by (cases "run_state (mint_each sample_mint_env (bm_ChainID sample_batch) (bm_Mints sample_batch) ([], 0, 0)) sample_mint_state")
      (simp add: BatchMintMetaNodeNFT_def lift_sum_def ensure_def)
qed

theorem batch_answers_every_mint_witness:
  "\<exists>res t. run_state (BatchMintMetaNodeNFT sample_mint_env sample_batch) sample_mint_state = (Inr res, t) \<and>
     length (bres_TokenIDs res) = 2 \<and> bres_SuccessCount res \<le> length (ms_sent t)"
proof -
  obtain res t where *: "run_state (BatchMintMetaNodeNFT sample_mint_env sample_batch) sample_mint_state = (Inr res, t)"
    by (rule sample_batch_run)
  have "length (bres_TokenIDs res) = 2" using batch_answers_every_mint [OF *] by (simp add: sample_batch_def)
  moreover have "bres_SuccessCount res \<le> length (ms_sent t)"
    using batch_answers_every_mint [OF *] by (auto simp: sample_mint_state_def)
  ultimately show ?thesis using * by blast
qed


theorem mints_are_not_stored_witness:
  "bk_tables (ms_backend (snd (run_state (BatchMintMetaNodeNFT sample_mint_env sample_batch) sample_mint_state))) = Map.empty"
  using mints_are_not_stored [of sample_mint_env sample_mint_state sample_batch]
  by (simp add: sample_mint_env_def sample_mint_state_def empty_backend_def)

end
