(* ===== verification/NodeService.thy ===== *)
theory NodeService
  imports Handlers
begin

text \<open>
  The service of a chain (\<open>EasySwapBase/chain/nftchainservice/metadata.go\<close>, \<open>transferevent.go\<close>, \<open>service.go\<close>): owner and
  metadata of a token, and the transfers of a range of blocks. What it calls is a parameter: the ABI codec, the node, the
  metadata servers, and of the standard library the parsing of JSON, URLs and base64, the detection of content types and
  the text of a number. The loggers are left out.
\<close>

section \<open>Parameters\<close>

text \<open>A decoded JSON document. The entries of an object have distinct names; numbers are IEEE doubles.\<close>

datatype json =
    JNull
  | JBool bool
  | JNumber "64 word"
  | JString string
  | JArray "json list"
  | JObject "(string \<times> json) list"

record nftInfoSimple =
  ni_Name :: string
  ni_Image :: string
  ni_Description :: string
  ni_ExternalLink :: string
  ni_Attributes :: json

text \<open>A request fails, or has a status and a body, which may fail to be read.\<close>

datatype http_reply = RequestFailed | Reply int "string option"

record node_service =
  ns_ChainName :: string
  NameTags :: "string list"
  ImageTags :: "string list"
  AttributesTags :: "string list"
  TraitNameTags :: "string list"
  TraitValueTags :: "string list"

record evm_log =
  el_Address :: "160 word"
  el_Topics :: "256 word list"
  el_Data :: bytes
  el_BlockNumber :: u64
  el_BlockHash :: "256 word"
  el_TxHash :: "256 word"
  el_TxIndex :: u64
  el_Index :: u64
  el_Removed :: bool

text \<open>
  \<open>abi_pack\<close> packs the call of a method with one number, which may be a nil pointer; \<open>in_time\<close> says which of the gateways
  answers within 30 seconds, \<open>race_order\<close> in which order they do, \<open>map_iteration\<close> in which order Go walks an object.
\<close>

record node_env =
  abi_pack :: "string \<Rightarrow> int option \<Rightarrow> go_panic + bytes option"
  node_call :: "160 word \<Rightarrow> bytes \<Rightarrow> bytes option"
  unpack_uri :: "bytes \<Rightarrow> string option"
  unpack_owner :: "bytes \<Rightarrow> (160 word) option"
  to_address :: "string \<Rightarrow> 160 word"
  address_text :: "160 word \<Rightarrow> string"
  base64_decode :: "string \<Rightarrow> string option"
  get_url :: "string \<Rightarrow> http_reply"
  in_time :: "string \<Rightarrow> bool"
  race_order :: "string list \<Rightarrow> string list"
  unmarshal_squid :: "string \<Rightarrow> nftInfoSimple option"
  marshal_simple :: "nftInfoSimple \<Rightarrow> string option"
  unmarshal_object :: "string \<Rightarrow> (string \<times> json) list option"
  url_parses :: "string \<Rightarrow> bool"
  content_type :: "string \<Rightarrow> string"
  float_text :: "64 word \<Rightarrow> string"
  map_iteration :: "(string \<times> json) list \<Rightarrow> (string \<times> json) list"
  block_time_of :: "int \<Rightarrow> u64 option"
  logs_between :: "u64 \<Rightarrow> u64 \<Rightarrow> 256 word \<Rightarrow> evm_log list option"

section \<open>Calls of the contract\<close>

text \<open>
  The token id is read as a decimal number; the flag that says it is none is ignored, and the pointer is then nil.
\<close>

definition contract_call ::
  "node_env \<Rightarrow> string \<Rightarrow> (bytes \<Rightarrow> 'a option) \<Rightarrow> string \<Rightarrow> string \<Rightarrow> go_panic + 'a option" where
  "contract_call n mthd unpack collectionAddr tokenId = (case abi_pack n mthd (SetString10 tokenId) of
       Inl p \<Rightarrow> Inl p
     | Inr None \<Rightarrow> Inr None
     | Inr (Some reqData) \<Rightarrow> (case node_call n (to_address n collectionAddr) reqData of
         None \<Rightarrow> Inr None
       | Some respData \<Rightarrow> Inr (unpack respData)))"

definition Fetch_NftOwner :: "node_env \<Rightarrow> string \<Rightarrow> string \<Rightarrow> go_panic + (160 word) option" where
  "Fetch_NftOwner n collectionAddr tokenId = contract_call n ''ownerOf'' (unpack_owner n) collectionAddr tokenId"

section \<open>Metadata\<close>

definition ipfs_hosts :: "string list" where
  "ipfs_hosts = [''https://ipfs.io/ipfs/'', ''https://cf-ipfs.com/ipfs/'', ''https://infura-ipfs.io/ipfs/'', ''https://cloudflare-ipfs.com/ipfs/'']"

text \<open>\<open>strings.Contains\<close>, and \<open>strings.Replace\<close> of the first occurrence.\<close>

fun contains_text :: "string \<Rightarrow> string \<Rightarrow> bool" where
  "contains_text sub [] = (sub = [])"
| "contains_text sub (c # cs) = (is_prefix sub (c # cs) \<or> contains_text sub cs)"

fun replace_first :: "string \<Rightarrow> string \<Rightarrow> string \<Rightarrow> string" where
  "replace_first old_text new_text [] = (if old_text = [] then new_text else [])"
| "replace_first old_text new_text (c # cs) =
     (if is_prefix old_text (c # cs) then new_text @ drop (length old_text) (c # cs) else c # replace_first old_text new_text cs)"

definition delivered :: "node_env \<Rightarrow> string \<Rightarrow> string option" where
  "delivered n url = (case get_url n url of Reply status body \<Rightarrow> if status = 200 \<and> in_time n url then body else None | RequestFailed \<Rightarrow> None)"

text \<open>The first gateway with a body wins; without one the request times out.\<close>

fun first_delivered :: "node_env \<Rightarrow> string list \<Rightarrow> string option" where
  "first_delivered n [] = None"
| "first_delivered n (u # us) = (case delivered n u of Some body \<Rightarrow> Some body | None \<Rightarrow> first_delivered n us)"

definition fetchIpfsData :: "node_env \<Rightarrow> string \<Rightarrow> string option" where
  "fetchIpfsData n tokenUri = first_delivered n (race_order n (map (\<lambda>host. replace_first ''ipfs://'' host tokenUri) ipfs_hosts))"

text \<open>An error is \<open>Inl\<close>; a status other than 200 leaves the body nil without an error.\<close>

definition fetchJsonData :: "node_env \<Rightarrow> string \<Rightarrow> unit + string option" where
  "fetchJsonData n tokenUri = (case get_url n tokenUri of
       RequestFailed \<Rightarrow> Inl ()
     | Reply status body \<Rightarrow>
         if status \<noteq> 200 then Inr None
         else case body of None \<Rightarrow> Inl () | Some text \<Rightarrow>
           if \<not> contains_text ''squid-app-o5c27.ondigitalocean'' tokenUri then Inr (Some text)
           else case unmarshal_squid n text of None \<Rightarrow> Inl () | Some info \<Rightarrow>
             if ni_Name info = '''' then Inr (Some text)
             else case marshal_simple n info of None \<Rightarrow> Inl () | Some text' \<Rightarrow> Inr (Some text'))"

definition trim_bom :: "string \<Rightarrow> string" where
  "trim_bom s = (let bom = [char_of (239 :: nat), char_of (187 :: nat), char_of (191 :: nat)]
     in if is_prefix bom s then drop 3 s else s)"

text \<open>The document a token URI leads to; \<open>Inl\<close> is an error, \<open>None\<close> no document.\<close>

definition read_uri :: "node_env \<Rightarrow> string \<Rightarrow> unit + string option" where
  "read_uri n tokenUri = (let data = ''data:application/json;base64,'' in
     if 29 < length tokenUri \<and> is_prefix data tokenUri
     then (case base64_decode n (drop 29 tokenUri) of None \<Rightarrow> Inl () | Some body \<Rightarrow> Inr (Some body))
     else if 5 < length tokenUri \<and> is_prefix ''ipfs:'' tokenUri
     then (case fetchIpfsData n tokenUri of None \<Rightarrow> Inl () | Some body \<Rightarrow> Inr (Some body))
     else if 5 < length tokenUri \<and> \<not> is_prefix ''http'' tokenUri then Inl ()
     else if 5 < length tokenUri \<and> is_prefix ''http'' tokenUri then fetchJsonData n tokenUri
     else Inr None)"

definition fetchNftMetadata :: "node_env \<Rightarrow> string \<Rightarrow> string \<Rightarrow> go_panic + (string \<times> string) option" where
  "fetchNftMetadata n collectionAddr tokenId = (case contract_call n ''tokenURI'' (unpack_uri n) collectionAddr tokenId of
       Inl p \<Rightarrow> Inl p
     | Inr None \<Rightarrow> Inr None
     | Inr (Some tokenUri) \<Rightarrow> (case read_uri n tokenUri of
         Inr (Some body) \<Rightarrow> Inr (Some (trim_bom body, tokenUri))
       | _ \<Rightarrow> Inr None))"

record OpenseaMetadataProps =
  TraitType :: string
  PropsValue :: string

record JsonMetadata =
  jm_Name :: string
  jm_Image :: string
  jm_Attributes :: "OpenseaMetadataProps list"

definition isTextFile :: "node_env \<Rightarrow> string \<Rightarrow> bool" where
  "isTextFile n data \<longleftrightarrow> data = '''' \<or> contains_text ''text/'' (content_type n data)"

definition isImageFile :: "node_env \<Rightarrow> string \<Rightarrow> bool" where
  "isImageFile n data \<longleftrightarrow> contains_text ''image/'' (content_type n data)"

text \<open>The text of a value: of a string or a number; any other leaves the text \<open>cur\<close> as it was.\<close>

definition value_text :: "node_env \<Rightarrow> string \<Rightarrow> json \<Rightarrow> string" where
  "value_text n cur v = (case v of JString s \<Rightarrow> s | JNumber f \<Rightarrow> float_text n f | _ \<Rightarrow> cur)"

fun parse_name :: "node_env \<Rightarrow> (string \<rightharpoonup> json) \<Rightarrow> string list \<Rightarrow> string \<Rightarrow> string" where
  "parse_name n metadatas [] cur = cur"
| "parse_name n metadatas (tag # tags) cur = (case metadatas tag of
       None \<Rightarrow> parse_name n metadatas tags cur
     | Some v \<Rightarrow> (let name = value_text n cur v in if name \<noteq> '''' then name else parse_name n metadatas tags name))"

fun parse_image :: "(string \<rightharpoonup> json) \<Rightarrow> string list \<Rightarrow> string \<Rightarrow> string" where
  "parse_image metadatas [] cur = cur"
| "parse_image metadatas (tag # tags) cur = (case metadatas tag of
       None \<Rightarrow> parse_image metadatas tags cur
     | Some v \<Rightarrow> (let img = (case v of JString s \<Rightarrow> s | _ \<Rightarrow> cur) in if img \<noteq> '''' then img else parse_image metadatas tags img))"

text \<open>The first of the tags that is present decides, whatever it holds.\<close>

fun first_present :: "node_env \<Rightarrow> (string \<rightharpoonup> json) \<Rightarrow> string list \<Rightarrow> string" where
  "first_present n m [] = ''''"
| "first_present n m (tag # tags) = (case m tag of None \<Rightarrow> first_present n m tags | Some v \<Rightarrow> value_text n '''' v)"

text \<open>An array: the first element that is no object ends the loop.\<close>

fun array_attributes :: "node_env \<Rightarrow> string list \<Rightarrow> string list \<Rightarrow> json list \<Rightarrow> OpenseaMetadataProps list" where
  "array_attributes n nameTags valueTags (JObject kvs # vs) =
     (let trait = first_present n (map_of kvs) nameTags; v = first_present n (map_of kvs) valueTags
      in (if trait \<noteq> '''' \<and> v \<noteq> '''' then [\<lparr>TraitType = trait, PropsValue = v\<rparr>] else []) @ array_attributes n nameTags valueTags vs)"
| "array_attributes n nameTags valueTags vs = []"

fun parse_attributes ::
  "node_env \<Rightarrow> string list \<Rightarrow> string list \<Rightarrow> (string \<rightharpoonup> json) \<Rightarrow> string list \<Rightarrow> OpenseaMetadataProps list" where
  "parse_attributes n nameTags valueTags metadatas [] = []"
| "parse_attributes n nameTags valueTags metadatas (tag # tags) = (case metadatas tag of
       Some (JObject kvs) \<Rightarrow> map (\<lambda>(k, v). \<lparr>TraitType = k, PropsValue = value_text n '''' v\<rparr>) (map_iteration n kvs)
     | Some (JArray vs) \<Rightarrow> array_attributes n nameTags valueTags vs
     | _ \<Rightarrow> parse_attributes n nameTags valueTags metadatas tags)"

definition DecodeJsonMetadata :: "node_env \<Rightarrow> node_service \<Rightarrow> string \<Rightarrow> string \<Rightarrow> JsonMetadata option" where
  "DecodeJsonMetadata n s content tokenUri =
     (if url_parses n content then Some \<lparr>jm_Name = '''', jm_Image = content, jm_Attributes = []\<rparr>
      else if isImageFile n content then Some \<lparr>jm_Name = '''', jm_Image = tokenUri, jm_Attributes = []\<rparr>
      else if isTextFile n content then
        (case unmarshal_object n content of None \<Rightarrow> None | Some kvs \<Rightarrow> let metadatas = map_of kvs in
           Some \<lparr>jm_Name = parse_name n metadatas (NameTags s) '''', jm_Image = parse_image metadatas (ImageTags s) '''',
             jm_Attributes = parse_attributes n (TraitNameTags s) (TraitValueTags s) metadatas (AttributesTags s)\<rparr>)
      else None)"

definition Fetch_OnChainMetadata :: "node_env \<Rightarrow> node_service \<Rightarrow> string \<Rightarrow> string \<Rightarrow> go_panic + JsonMetadata option" where
  "Fetch_OnChainMetadata n s collectionAddr tokenId = (case fetchNftMetadata n collectionAddr tokenId of
       Inl p \<Rightarrow> Inl p
     | Inr None \<Rightarrow> Inr None
     | Inr (Some (rawData, tokenUri)) \<Rightarrow>
         if rawData = '''' then Inr None else Inr (DecodeJsonMetadata n s rawData tokenUri))"

text \<open>The service as the handlers of the backend use it.\<close>

definition chain_service_of :: "node_env \<Rightarrow> node_service \<Rightarrow> chain_service" where
  "chain_service_of n s = \<lparr>
     FetchNftOwner = (\<lambda>addr tok. case Fetch_NftOwner n addr tok of Inl p \<Rightarrow> Inl p | Inr a \<Rightarrow> Inr (map_option (address_text n) a)),
     FetchOnChainMetadata = (\<lambda>addr tok. case Fetch_OnChainMetadata n s addr tok of
        Inl p \<Rightarrow> Inl p | Inr m \<Rightarrow> Inr (map_option (\<lambda>md. (jm_Name md, jm_Image md)) m))\<rparr>"

section \<open>Transfers\<close>

definition EVMTransferTopic :: "256 word" where
  "EVMTransferTopic = 0xddf252ad1be2c89b69c2b068fc378daa952ba7f163c4a11628f55a4df523b3ef"

definition BlockTimeGap :: "string \<Rightarrow> u64" where
  "BlockTimeGap chain = (if chain = ''eth'' then 12 else if chain = ''optimism'' then 2 else if chain = ''sepolia'' then 12 else 0)"

record TransferLog =
  tl_Address :: "160 word"
  tl_TransactionHash :: "256 word"
  tl_BlockNumber :: u64
  tl_BlockTime :: u64
  tl_BlockHash :: "256 word"
  tl_Data :: bytes
  tl_Topics :: "256 word list"
  tl_Topic0 :: "256 word"
  tl_From :: "160 word"
  tl_To :: "160 word"
  tl_TokenID :: string
  tl_TxIndex :: u64
  tl_Index :: u64
  tl_Removed :: bool

text \<open>A log: one with more topics than four panics, one with fewer is passed over. Hashes and addresses stay words.\<close>

definition transfer_log :: "u64 \<Rightarrow> u64 \<Rightarrow> u64 \<Rightarrow> evm_log \<Rightarrow> go_panic + TransferLog option" where
  "transfer_log startBlockTime fromBlock gap l = (case el_Topics l of
       [t0, t1, t2, t3] \<Rightarrow> Inr (Some \<lparr>tl_Address = el_Address l, tl_TransactionHash = el_TxHash l, tl_BlockNumber = el_BlockNumber l,
         tl_BlockTime = startBlockTime + (el_BlockNumber l - fromBlock) * gap, tl_BlockHash = el_BlockHash l, tl_Data = el_Data l,
         tl_Topics = el_Topics l, tl_Topic0 = t0, tl_From = ucast t1, tl_To = ucast t2, tl_TokenID = itoa (unat t3),
         tl_TxIndex = el_TxIndex l, tl_Index = el_Index l, tl_Removed = el_Removed l\<rparr>)
     | _ \<Rightarrow> if 4 < length (el_Topics l) then Inl IndexOutOfRange else Inr None)"

fun transfer_logs :: "u64 \<Rightarrow> u64 \<Rightarrow> u64 \<Rightarrow> evm_log list \<Rightarrow> go_panic + TransferLog list" where
  "transfer_logs startBlockTime fromBlock gap [] = Inr []"
| "transfer_logs startBlockTime fromBlock gap (l # ls) = (case transfer_log startBlockTime fromBlock gap l of
       Inl p \<Rightarrow> Inl p
     | Inr t \<Rightarrow> (case transfer_logs startBlockTime fromBlock gap ls of
         Inl p \<Rightarrow> Inl p
       | Inr tls \<Rightarrow> Inr ((case t of None \<Rightarrow> [] | Some x \<Rightarrow> [x]) @ tls)))"

text \<open>
  \<open>sort_slice\<close> is \<open>sort.Slice\<close>, which may reorder entries of one block. On a chain the service does not know, the error that
  is wrapped is nil, and so is the error of the answer.
\<close>

definition GetNFTTransferEvent ::
  "node_env \<Rightarrow> (TransferLog list \<Rightarrow> TransferLog list) \<Rightarrow> node_service \<Rightarrow> u64 \<Rightarrow> u64 \<Rightarrow> go_panic + TransferLog list option" where
  "GetNFTTransferEvent n sort_slice s fromBlock toBlock =
     (if ns_ChainName s \<notin> {''eth'', ''optimism'', ''sepolia''} then Inr (Some [])
      else case block_time_of n (int64_of fromBlock) of None \<Rightarrow> Inr None | Some startBlockTime \<Rightarrow>
        case logs_between n fromBlock toBlock EVMTransferTopic of None \<Rightarrow> Inr None | Some ls \<Rightarrow>
        case transfer_logs startBlockTime fromBlock (BlockTimeGap (ns_ChainName s)) ls of
          Inl p \<Rightarrow> Inl p
        | Inr tls \<Rightarrow> Inr (Some (sort_slice tls)))"

text \<open>\<open>isInSlice\<close>: an item that is no address is compared as the empty text.\<close>

fun among_addresses :: "(bytes \<Rightarrow> bytes) \<Rightarrow> string \<Rightarrow> string \<Rightarrow> string list \<Rightarrow> go_panic + bool" where
  "among_addresses keccak chain addr [] = Inr False"
| "among_addresses keccak chain addr (x # xs) = (case UniformAddress keccak chain x of
       Inl p \<Rightarrow> Inl p
     | Inr r \<Rightarrow> if (case r of Inl _ \<Rightarrow> '''' | Inr a \<Rightarrow> a) = addr then Inr True else among_addresses keccak chain addr xs)"

definition isInSlice :: "(bytes \<Rightarrow> bytes) \<Rightarrow> node_service \<Rightarrow> string \<Rightarrow> string list \<Rightarrow> go_panic + bool" where
  "isInSlice keccak s str addrs = (case UniformAddress keccak (ns_ChainName s) str of
       Inl p \<Rightarrow> Inl p
     | Inr (Inl _) \<Rightarrow> Inr False
     | Inr (Inr addr) \<Rightarrow> among_addresses keccak (ns_ChainName s) addr addrs)"

section \<open>Metadata that is decoded\<close>

lemma parse_name_first:
  "parse_name n m tags '''' = (case filter (\<lambda>t. t \<noteq> '''') (map (value_text n '''') (List.map_filter m tags)) of [] \<Rightarrow> '''' | t # _ \<Rightarrow> t)"
  by (induction tags) (auto simp: map_filter_simps split: option.split)

lemma parse_image_first:
  "parse_image m tags '''' = (case List.map_filter (\<lambda>tag. case m tag of Some (JString s) \<Rightarrow> if s = '''' then None else Some s | _ \<Rightarrow> None) tags of
     [] \<Rightarrow> '''' | t # _ \<Rightarrow> t)"
  by (induction tags) (auto simp: map_filter_simps split: option.split json.split)

lemma array_attributes_nonempty:
  "a \<in> set (array_attributes n ns vs js) \<Longrightarrow> TraitType a \<noteq> '''' \<and> PropsValue a \<noteq> ''''"
  by (induction n ns vs js rule: array_attributes.induct) (auto simp: Let_def split: if_splits)

lemma array_attributes_prefix:
  "array_attributes n ns vs js = array_attributes n ns vs (takeWhile (\<lambda>j. \<exists>kvs. j = JObject kvs) js)"
  by (induction n ns vs js rule: array_attributes.induct) auto

definition compound :: "json option \<Rightarrow> bool" where
  "compound v \<longleftrightarrow> (case v of Some (JObject _) \<Rightarrow> True | Some (JArray _) \<Rightarrow> True | _ \<Rightarrow> False)"

lemma parse_attributes_find:
  "parse_attributes n ns vs m tags = (case find (\<lambda>tag. compound (m tag)) tags of
     None \<Rightarrow> [] | Some tag \<Rightarrow> parse_attributes n ns vs m [tag])"
  by (induction tags) (auto simp: compound_def split: option.splits json.splits)


section \<open>Transfers that are answered\<close>

definition sorts_by_block :: "(TransferLog list \<Rightarrow> TransferLog list) \<Rightarrow> bool" where
  "sorts_by_block f \<longleftrightarrow> (\<forall>xs. mset (f xs) = mset xs \<and> sorted (map (unat \<circ> tl_BlockNumber) (f xs)))"

definition is_transfer :: "evm_log \<Rightarrow> bool" where
  "is_transfer l \<longleftrightarrow> length (el_Topics l) = 4"

lemma transfer_log_cases:
  "transfer_log t0 from gap l = (if 4 < length (el_Topics l) then Inl IndexOutOfRange else
     if is_transfer l then Inr (Some \<lparr>tl_Address = el_Address l, tl_TransactionHash = el_TxHash l, tl_BlockNumber = el_BlockNumber l,
         tl_BlockTime = t0 + (el_BlockNumber l - from) * gap, tl_BlockHash = el_BlockHash l, tl_Data = el_Data l,
         tl_Topics = el_Topics l, tl_Topic0 = el_Topics l ! 0, tl_From = ucast (el_Topics l ! 1), tl_To = ucast (el_Topics l ! 2),
         tl_TokenID = itoa (unat (el_Topics l ! 3)), tl_TxIndex = el_TxIndex l, tl_Index = el_Index l, tl_Removed = el_Removed l\<rparr>)
     else Inr None)"
  by (auto simp: transfer_log_def is_transfer_def split: list.split)

lemma transfer_logs_ok:
  assumes "transfer_logs t0 from gap ls = Inr tls"
  shows "list_all (\<lambda>l. length (el_Topics l) \<le> 4) ls \<and>
    map (\<lambda>x. (tl_TransactionHash x, tl_Index x, tl_BlockNumber x, tl_Topics x)) tls =
      map (\<lambda>l. (el_TxHash l, el_Index l, el_BlockNumber l, el_Topics l)) (filter is_transfer ls) \<and>
    list_all (\<lambda>x. tl_BlockTime x = t0 + (tl_BlockNumber x - from) * gap \<and> tl_TokenID x = itoa (unat (tl_Topics x ! 3)) \<and>
      tl_From x = ucast (tl_Topics x ! 1) \<and> tl_To x = ucast (tl_Topics x ! 2)) tls"
  using assms
proof (induction ls arbitrary: tls)
  case (Cons l ls)
  then show ?case by (auto simp: transfer_log_cases not_less split: sum.splits if_splits)
qed simp

text \<open>The transfers answered for a chain the service knows are exactly the logs with four topics, in the order of their
  blocks, with the token of the last topic and the time of the first block moved on by the gap of the chain; no log has
  more topics then.\<close>

theorem transfers_in_block_order:
  assumes "GetNFTTransferEvent n sort_slice s fromBlock toBlock = Inr (Some tls)" "sorts_by_block sort_slice"
    and "ns_ChainName s \<in> {''eth'', ''optimism'', ''sepolia''}"
  shows "\<exists>ls t0. logs_between n fromBlock toBlock EVMTransferTopic = Some ls \<and> block_time_of n (int64_of fromBlock) = Some t0 \<and>
    list_all (\<lambda>l. length (el_Topics l) \<le> 4) ls \<and>
    image_mset (\<lambda>x. (tl_TransactionHash x, tl_Index x, tl_BlockNumber x, tl_Topics x)) (mset tls) =
      image_mset (\<lambda>l. (el_TxHash l, el_Index l, el_BlockNumber l, el_Topics l)) (mset (filter is_transfer ls)) \<and>
    sorted (map (unat \<circ> tl_BlockNumber) tls) \<and>
    list_all (\<lambda>x. tl_BlockTime x = t0 + (tl_BlockNumber x - fromBlock) * BlockTimeGap (ns_ChainName s) \<and>
      tl_TokenID x = itoa (unat (tl_Topics x ! 3))) tls"
proof -
  obtain t0 ls tls0 where *: "block_time_of n (int64_of fromBlock) = Some t0" "logs_between n fromBlock toBlock EVMTransferTopic = Some ls"
    "transfer_logs t0 fromBlock (BlockTimeGap (ns_ChainName s)) ls = Inr tls0" "tls = sort_slice tls0"
    using assms(1,3) by (auto simp: GetNFTTransferEvent_def split: option.splits sum.splits if_splits)
  have s: "mset tls = mset tls0" "sorted (map (unat \<circ> tl_BlockNumber) tls)"
    using assms(2) *(4) by (simp_all add: sorts_by_block_def)
  note ok = transfer_logs_ok [OF *(3)]
  have "image_mset (\<lambda>x. (tl_TransactionHash x, tl_Index x, tl_BlockNumber x, tl_Topics x)) (mset tls) =
      image_mset (\<lambda>l. (el_TxHash l, el_Index l, el_BlockNumber l, el_Topics l)) (mset (filter is_transfer ls))"
    using ok unfolding s(1) mset_map [symmetric] by simp
  moreover have "set tls = set tls0" using s(1) by (metis set_mset_mset)
  ultimately show ?thesis using * s ok by (auto simp: list_all_iff)
qed

section \<open>Token ids that are no numbers\<close>

definition null_panics :: "node_env \<Rightarrow> bool" where
  "null_panics n \<longleftrightarrow> (\<forall>m. abi_pack n m None = Inl NilDereference)"

text \<open>When packing a nil number panics, the route of an owner answers a token id that is no decimal number with HTTP status 500
  and code 7777, and changes nothing.\<close>

theorem owner_of_no_number_panics:
  assumes "null_panics n" "SetString10 tokenId = None" "tokenId \<noteq> ''''" "collectionAddr \<noteq> ''''"
    and "parse_int chain_id = Some i" "i \<in> {1, 10, 11155111}" "srvs i = Some (chain_service_of n s)"
  shows "let (r, b') = ItemOwnerHandler be srvs keccak collectionAddr tokenId chain_id b
    in b' = b \<and> an_HTTPCode (RecoverMiddleware r) = 500 \<and> an_Code (RecoverMiddleware r) = 7777"
proof -
  have "Fetch_NftOwner n collectionAddr tokenId = Inl NilDereference"
    using assms(1,2) by (simp add: Fetch_NftOwner_def contract_call_def null_panics_def)
  moreover obtain chain where "chainIDToChain i = Some chain" using assms(6) by (auto simp: chainIDToChain_def)
  ultimately show ?thesis using assms(3-5,7)
    by (simp add: ItemOwnerHandler_def with_item_def nonempty_def with_chain_def GetItemOwner_def chain_service_of_def serve_def
        RecoverMiddleware_def ErrorJson_def ParseErr_def ErrUnexpected_def NewErr_def)
qed

text \<open>On decimal token ids the service never panics, provided that packing a number does not; so no import of one does.\<close>

definition packs_numbers :: "node_env \<Rightarrow> bool" where
  "packs_numbers n \<longleftrightarrow> (\<forall>m i p. abi_pack n m (Some i) \<noteq> Inl p)"

lemma contract_call_returns:
  "packs_numbers n \<Longrightarrow> SetString10 tok \<noteq> None \<Longrightarrow> contract_call n mthd unpack addr tok \<noteq> Inl p"
  by (auto simp: contract_call_def packs_numbers_def split: sum.split option.split)

interpretation node: chain_source "chain_service_of n s" "\<lambda>tok. packs_numbers n \<and> SetString10 tok \<noteq> None" for n s
proof unfold_locales
  fix tok addr p
  assume tok: "packs_numbers n \<and> SetString10 tok \<noteq> None"
  show "FetchNftOwner (chain_service_of n s) addr tok \<noteq> Inl p"
    using contract_call_returns [of n tok "''ownerOf''" "unpack_owner n" addr] tok
    by (auto simp: chain_service_of_def Fetch_NftOwner_def split: sum.split)
  show "FetchOnChainMetadata (chain_service_of n s) addr tok \<noteq> Inl p"
    using contract_call_returns [of n tok "''tokenURI''" "unpack_uri n" addr] tok
    by (auto simp: chain_service_of_def Fetch_OnChainMetadata_def fetchNftMetadata_def split: sum.splits option.splits if_splits)
qed

lemma import_never_panics:
  assumes "packs_numbers n" "SetString10 (rq_TokenID req) = Some i" "NodeSrvs (rq_ChainID req) = Some (chain_service_of n s)"
  shows "fst (run_state (ImportPortfolioItem be NodeSrvs chainName req) b) \<noteq> Inl (Backend.Panicked p)"
  by (rule node.import_returns [where n = n and s = s]) (use assms in simp_all)

section \<open>Witnesses\<close>

definition sample_service :: node_service where
  "sample_service = \<lparr>ns_ChainName = ''eth'', NameTags = [''name'', ''title''], ImageTags = [''image''], AttributesTags = [''attributes''],
     TraitNameTags = [''trait_type''], TraitValueTags = [''value'']\<rparr>"

definition sample_document :: "(string \<times> json) list" where
  "sample_document = [(''name'', JString ''''), (''title'', JString ''t''),
     (''attributes'', JArray [JObject [(''trait_type'', JString ''a''), (''value'', JString ''b'')], JNull,
       JObject [(''trait_type'', JString ''c''), (''value'', JString ''d'')]])]"

definition sample_log :: "u64 \<Rightarrow> evm_log" where
  "sample_log b = \<lparr>el_Address = 1, el_Topics = [EVMTransferTopic, 2, 3, 4], el_Data = [], el_BlockNumber = b, el_BlockHash = 0, el_TxHash = 5,
     el_TxIndex = 0, el_Index = 0, el_Removed = False\<rparr>"

definition sample_node_env :: node_env where
  "sample_node_env = \<lparr>abi_pack = (\<lambda>_ i. case i of None \<Rightarrow> Inl NilDereference | Some _ \<Rightarrow> Inr (Some [])), node_call = (\<lambda>_ _. None),
     unpack_uri = (\<lambda>_. None), unpack_owner = (\<lambda>_. None), to_address = (\<lambda>_. 0), address_text = (\<lambda>_. ''''), base64_decode = (\<lambda>_. None),
     get_url = (\<lambda>_. RequestFailed), in_time = (\<lambda>_. False), race_order = (\<lambda>us. us), unmarshal_squid = (\<lambda>_. None),
     marshal_simple = (\<lambda>_. None), unmarshal_object = (\<lambda>_. Some sample_document), url_parses = (\<lambda>_. False),
     content_type = (\<lambda>_. ''text/plain''), float_text = (\<lambda>_. ''1''), map_iteration = (\<lambda>kvs. kvs), block_time_of = (\<lambda>_. Some 1000),
     logs_between = (\<lambda>_ _ _. Some [sample_log 8, (sample_log 9)\<lparr>el_Topics := [EVMTransferTopic]\<rparr>])\<rparr>"

lemma sample_content:
  "\<not> url_parses sample_node_env ''d''" "\<not> isImageFile sample_node_env ''d''" "isTextFile sample_node_env ''d''"
  "unmarshal_object sample_node_env ''d'' = Some sample_document"
  by (simp_all add: sample_node_env_def isImageFile_def isTextFile_def is_prefix_def)


theorem owner_of_no_number_panics_witness:
  "an_HTTPCode (RecoverMiddleware (fst (ItemOwnerHandler plain_backend [1 \<mapsto> chain_service_of sample_node_env sample_service] (\<lambda>_. [])
     ''0xc'' ''x1'' ''1'' empty_backend))) = 500"
proof -
  have "parse_int ''1'' = Some 1" by (simp add: parse_int_def SetString10_def is_digit_def digits_value_def in_i64_def)
  moreover have "SetString10 ''x1'' = None" by (simp add: SetString10_def is_digit_def)
  moreover have "null_panics sample_node_env" by (simp add: null_panics_def sample_node_env_def)
  ultimately show ?thesis
    using owner_of_no_number_panics [of sample_node_env "''x1''" "''0xc''" "''1''" 1 "[1 \<mapsto> chain_service_of sample_node_env sample_service]"
        sample_service plain_backend "\<lambda>_. []" empty_backend]
    by (simp add: Let_def case_prod_beta)
qed

theorem transfers_in_block_order_witness:
  "\<exists>tls. GetNFTTransferEvent sample_node_env (sort_key (unat \<circ> tl_BlockNumber)) sample_service 7 9 = Inr (Some tls) \<and>
     image_mset tl_BlockNumber (mset tls) = {#8#}"
proof -
  obtain tls where run: "GetNFTTransferEvent sample_node_env (sort_key (unat \<circ> tl_BlockNumber)) sample_service 7 9 = Inr (Some tls)"
    by (simp add: GetNFTTransferEvent_def sample_node_env_def sample_service_def transfer_log_def sample_log_def)
  have "sorts_by_block (sort_key (unat \<circ> tl_BlockNumber))" by (simp add: sorts_by_block_def)
  from transfers_in_block_order [OF run this]
  have "image_mset (\<lambda>x. (tl_TransactionHash x, tl_Index x, tl_BlockNumber x, tl_Topics x)) (mset tls) =
      {#(5, 0, 8, [EVMTransferTopic, 2, 3, 4])#}"
    by (simp add: sample_service_def sample_node_env_def is_transfer_def sample_log_def)
  then have "image_mset (\<lambda>(_, _, b, _). b) (image_mset (\<lambda>x. (tl_TransactionHash x, tl_Index x, tl_BlockNumber x, tl_Topics x)) (mset tls)) = {#8#}"
    by simp
  then show ?thesis using run by (simp add: multiset.map_comp comp_def)
qed

end
