(* ===== verification/Upload.thy ===== *)
theory Upload
  imports NodeService
begin

text \<open>
  Credentials for uploads: \<open>service/v1/cos.go\<close> and \<open>api/v1/cos.go\<close>. The address of the client as gin reports it, the random
  bytes, the clock and the text of a time are parameters; nothing is sent to the cloud.
\<close>

section \<open>Requests and answers\<close>

record COSTokenRequest =
  up_FileType :: string
  up_FileName :: string
  up_FileSize :: int

record COSCredentials =
  cr_TmpSecretID :: string
  cr_TmpSecretKey :: string
  cr_SessionToken :: string

record COSTokenResponse =
  ut_Credentials :: COSCredentials
  ut_RequestID :: string
  ut_Expiration :: string
  ut_StartTime :: string
  ut_ExpiredTime :: int
  ut_Bucket :: string
  ut_Region :: string
  ut_AllowPrefix :: string
  ut_AllowActions :: "string list"
  ut_UploadURL :: string
  ut_Key :: string

record COSUploadResult =
  ur_Key :: string
  ur_Location :: string
  ur_Bucket :: string
  ur_ETag :: string

record COSSettings =
  cs_SecretID :: string
  cs_SecretKey :: string
  cs_Bucket :: string
  cs_Region :: string
  cs_AppID :: string
  cs_Domain :: string

record COSConfig =
  cc_SecretID :: string
  cc_SecretKey :: string
  cc_Bucket :: string
  cc_Region :: string
  cc_AppID :: string

text \<open>The readings of the clock and the random bytes of one request, in their order.\<close>

record upload_env =
  ue_settings :: "COSSettings option"
  ue_clock :: "nat \<Rightarrow> int"
  ue_random :: "nat \<Rightarrow> nat \<Rightarrow> bytes"
  rfc3339 :: "int \<Rightarrow> string"
  policy_time :: "int \<Rightarrow> string"

datatype upload_error = InvalidFileType | FileSizeExceeded | InvalidCOSConfig

section \<open>Files\<close>

text \<open>\<open>filepath.Ext\<close>: the text from the last dot on, unless a slash follows it.\<close>

fun ext_of_rev :: "string \<Rightarrow> string \<Rightarrow> string" where
  "ext_of_rev [] acc = ''''"
| "ext_of_rev (c # cs) acc = (if c = CHR ''/'' then '''' else if c = CHR ''.'' then c # acc else ext_of_rev cs (c # acc))"

definition Ext :: "string \<Rightarrow> string" where
  "Ext path = ext_of_rev (rev path) ''''"

definition validTypes :: "string \<rightharpoonup> string list" where
  "validTypes = [''image'' \<mapsto> [''.jpg'', ''.jpeg'', ''.png'', ''.gif'', ''.webp'', ''.svg''],
     ''video'' \<mapsto> [''.mp4'', ''.avi'', ''.mov'', ''.wmv'', ''.flv'', ''.webm''],
     ''audio'' \<mapsto> [''.mp3'', ''.wav'', ''.flac'', ''.aac'', ''.ogg''],
     ''document'' \<mapsto> [''.pdf'', ''.doc'', ''.docx'', ''.txt'', ''.json'']]"

definition isValidFileType :: "string \<Rightarrow> string \<Rightarrow> bool" where
  "isValidFileType fileType fileName =
     (case validTypes fileType of None \<Rightarrow> False | Some allowedExts \<Rightarrow> ToLower (Ext fileName) \<in> set allowedExts)"

definition size_limits :: "string \<rightharpoonup> int" where
  "size_limits = [''image'' \<mapsto> 50 * 1024 * 1024, ''video'' \<mapsto> 500 * 1024 * 1024, ''audio'' \<mapsto> 100 * 1024 * 1024,
     ''document'' \<mapsto> 20 * 1024 * 1024]"

definition isValidFileSize :: "string \<Rightarrow> int \<Rightarrow> bool" where
  "isValidFileSize fileType fileSize = (case size_limits fileType of None \<Rightarrow> False | Some limit \<Rightarrow> fileSize \<le> limit)"

definition getMaxFileSize :: "string \<Rightarrow> int" where
  "getMaxFileSize fileType = (case size_limits fileType of Some limit \<Rightarrow> limit | None \<Rightarrow> 10 * 1024 * 1024)"

definition generateFileKey :: "int \<Rightarrow> bytes \<Rightarrow> string \<Rightarrow> string \<Rightarrow> string \<Rightarrow> string" where
  "generateFileKey timestamp randomBytes userAddr fileType fileName =
     fileType @ ''/'' @ userAddr @ ''/'' @ int_text timestamp @ ''_'' @ EncodeToString randomBytes @ Ext fileName"

definition generateRequestID :: "bytes \<Rightarrow> string" where
  "generateRequestID randomBytes = EncodeToString randomBytes"

section \<open>Credentials\<close>

definition getCOSConfig :: "COSSettings option \<Rightarrow> COSConfig" where
  "getCOSConfig settings = (case settings of
       None \<Rightarrow> \<lparr>cc_SecretID = ''YOUR_SECRET_ID'', cc_SecretKey = ''YOUR_SECRET_KEY'', cc_Bucket = ''nft-assets'',
         cc_Region = ''ap-beijing'', cc_AppID = ''1234567890''\<rparr>
     | Some cosCfg \<Rightarrow> \<lparr>cc_SecretID = cs_SecretID cosCfg, cc_SecretKey = cs_SecretKey cosCfg, cc_Bucket = cs_Bucket cosCfg,
         cc_Region = cs_Region cosCfg, cc_AppID = cs_AppID cosCfg\<rparr>)"

definition generateTemporaryCredentials :: "COSConfig \<Rightarrow> string \<Rightarrow> upload_error + COSCredentials" where
  "generateTemporaryCredentials config allowPrefix =
     (let tmpSecretID = TrimSpace (cc_SecretID config); tmpSecretKey = TrimSpace (cc_SecretKey config)
      in if tmpSecretID = '''' \<or> tmpSecretKey = '''' \<or> contains_text ''YOUR_'' tmpSecretID then Inl InvalidCOSConfig
         else Inr \<lparr>cr_TmpSecretID = tmpSecretID, cr_TmpSecretKey = tmpSecretKey, cr_SessionToken = ''''\<rparr>)"

definition GetCOSTemporaryToken :: "upload_env \<Rightarrow> string \<Rightarrow> COSTokenRequest \<Rightarrow> upload_error + COSTokenResponse" where
  "GetCOSTemporaryToken e userAddr req =
     (if \<not> isValidFileType (up_FileType req) (up_FileName req) then Inl InvalidFileType
      else if \<not> isValidFileSize (up_FileType req) (up_FileSize req) then Inl FileSizeExceeded
      else let fileKey = generateFileKey (ue_clock e 0) (ue_random e 0 8) userAddr (up_FileType req) (up_FileName req);
               cosConfig = getCOSConfig (ue_settings e)
        in case generateTemporaryCredentials cosConfig fileKey of
          Inl err \<Rightarrow> Inl err
        | Inr credentials \<Rightarrow> Inr \<lparr>ut_Credentials = credentials, ut_RequestID = generateRequestID (ue_random e 1 16),
            ut_Expiration = rfc3339 e (ue_clock e 2 + 3600), ut_StartTime = rfc3339 e (ue_clock e 1),
            ut_ExpiredTime = ue_clock e 3 + 3600, ut_Bucket = cc_Bucket cosConfig, ut_Region = cc_Region cosConfig,
            ut_AllowPrefix = fileKey, ut_AllowActions = [''name/cos:PutObject'', ''name/cos:PostObject'', ''name/cos:PutObjectAcl''],
            ut_UploadURL = ''https://'' @ cc_Bucket cosConfig @ ''.cos.'' @ cc_Region cosConfig @ ''.myqcloud.com'', ut_Key = fileKey\<rparr>)"

text \<open>The policy, a JSON object of an expiration and three conditions: bucket, prefix of the key, and range of the length.\<close>

record upload_policy =
  po_expiration :: string
  po_bucket :: string
  po_key_prefix :: string
  po_length_range :: "int \<times> int"

definition GetCOSUploadPolicy :: "upload_env \<Rightarrow> string \<Rightarrow> string \<Rightarrow> upload_policy" where
  "GetCOSUploadPolicy e userAddr fileType = \<lparr>po_expiration = policy_time e (ue_clock e 0 + 3600),
     po_bucket = cc_Bucket (getCOSConfig (ue_settings e)), po_key_prefix = fileType @ ''/'' @ userAddr @ ''/'',
     po_length_range = (0, getMaxFileSize fileType)\<rparr>"

section \<open>Handlers\<close>

definition valid_file_type :: "string \<Rightarrow> bool" where
  "valid_file_type fileType \<longleftrightarrow> fileType \<in> {''image'', ''video'', ''audio'', ''document''}"

definition GetCOSTokenHandler :: "upload_env \<Rightarrow> string \<Rightarrow> COSTokenRequest option \<Rightarrow> 's \<Rightarrow> COSTokenResponse handled \<times> 's" where
  "GetCOSTokenHandler e clientIP body s = (case body of None \<Rightarrow> custom ''Invalid request parameters'' s | Some req \<Rightarrow>
     if \<not> valid_file_type (up_FileType req) then custom ''Invalid file type'' s
     else if up_FileName req = '''' then custom ''File name is required'' s
     else if up_FileSize req \<le> 0 then custom ''Invalid file size'' s
     else let userAddr = (if clientIP \<noteq> '''' then ''guest_'' @ clientIP else ''anonymous'')
       in case GetCOSTemporaryToken e userAddr req of
         Inl _ \<Rightarrow> custom ''Failed to get temporary token'' s
       | Inr result \<Rightarrow> (Inr (Inr result), s))"

text \<open>The session is read first. An error is passed on as it is (\<open>auth_err\<close>).\<close>

definition with_session ::
  "session_env \<Rightarrow> (login_error \<Rightarrow> go_error) \<Rightarrow> string \<Rightarrow> (string list \<Rightarrow> session \<Rightarrow> 'a handled \<times> session) \<Rightarrow> session \<Rightarrow>
   'a handled \<times> session" where
  "with_session se auth_err header f s = (let (r, s') = run_state (GetAuthUserAddress se header) s in (case r of
       Inl p \<Rightarrow> (Inl p, s')
     | Inr (_, Some err) \<Rightarrow> (Inr (Inl (auth_err err)), s')
     | Inr (address, None) \<Rightarrow> f address s'))"

definition GetCOSUploadPolicyHandler ::
  "upload_env \<Rightarrow> session_env \<Rightarrow> (login_error \<Rightarrow> go_error) \<Rightarrow> string \<Rightarrow> string \<Rightarrow> session \<Rightarrow> upload_policy handled \<times> session" where
  "GetCOSUploadPolicyHandler e se auth_err header fileType = with_session se auth_err header (\<lambda>address s.
     if fileType = '''' then custom ''file_type parameter is required'' s
     else if \<not> valid_file_type fileType then custom ''Invalid file type'' s
     else case address of [] \<Rightarrow> (Inl IndexOutOfRange, s) | a # _ \<Rightarrow> (Inr (Inr (GetCOSUploadPolicy e a fileType)), s))"

definition COSCallbackHandler ::
  "session_env \<Rightarrow> (login_error \<Rightarrow> go_error) \<Rightarrow> string \<Rightarrow> COSUploadResult option \<Rightarrow> session \<Rightarrow> string handled \<times> session" where
  "COSCallbackHandler se auth_err header body = with_session se auth_err header (\<lambda>address s. case body of
       None \<Rightarrow> custom ''Invalid upload result'' s
     | Some uploadResult \<Rightarrow> (case address of [] \<Rightarrow> (Inl IndexOutOfRange, s)
       | _ # _ \<Rightarrow> (Inr (Inr ''Upload callback processed successfully''), s)))"

section \<open>Who gets the credentials\<close>

lemma ext_of_rev_no_slash: "CHR ''/'' \<notin> set acc \<Longrightarrow> CHR ''/'' \<notin> set (ext_of_rev cs acc)"
  by (induction cs acc rule: ext_of_rev.induct) auto

lemma Ext_no_slash: "CHR ''/'' \<notin> set (Ext path)"
  unfolding Ext_def by (rule ext_of_rev_no_slash) simp

lemma type_has_limit: "valid_file_type fileType \<Longrightarrow> \<exists>limit. size_limits fileType = Some limit"
  by (auto simp: valid_file_type_def size_limits_def)

lemma size_limit_of_type: "valid_file_type fileType \<Longrightarrow> isValidFileSize fileType n \<longleftrightarrow> n \<le> getMaxFileSize fileType"
  using type_has_limit [of fileType] by (auto simp: isValidFileSize_def getMaxFileSize_def)

lemma policy_admits_keys:
  "is_prefix (po_key_prefix (GetCOSUploadPolicy e userAddr fileType)) (generateFileKey t bs userAddr fileType fileName)"
  by (simp add: GetCOSUploadPolicy_def generateFileKey_def is_prefix_def)

text \<open>C11: the route for upload tokens, which needs no login, answers every request for a file of an allowed kind and size with the
  configured secret id and secret key themselves, and a key inside the folder of the kind and the caller; every other
  request is answered without credentials.\<close>

theorem upload_token_is_master_key:
  assumes "ue_settings e = Some cosCfg" "TrimSpace (cs_SecretID cosCfg) \<noteq> ''''" "TrimSpace (cs_SecretKey cosCfg) \<noteq> ''''"
    and "\<not> contains_text ''YOUR_'' (TrimSpace (cs_SecretID cosCfg))" "up_FileName req \<noteq> ''''"
  defines "admitted \<equiv> isValidFileType (up_FileType req) (up_FileName req) \<and> 0 < up_FileSize req \<and>
    up_FileSize req \<le> getMaxFileSize (up_FileType req)"
  shows "case fst (GetCOSTokenHandler e clientIP (Some req) s) of
      Inr (Inr t) \<Rightarrow> admitted \<and>
        ut_Credentials t = \<lparr>cr_TmpSecretID = TrimSpace (cs_SecretID cosCfg), cr_TmpSecretKey = TrimSpace (cs_SecretKey cosCfg), cr_SessionToken = ''''\<rparr> \<and>
        ut_AllowPrefix t = ut_Key t \<and>
        (\<exists>name. ut_Key t = up_FileType req @ ''/'' @ (if clientIP \<noteq> '''' then ''guest_'' @ clientIP else ''anonymous'') @ ''/'' @ name)
    | Inr (Inl _) \<Rightarrow> \<not> admitted
    | Inl _ \<Rightarrow> False"
proof -
  have t: "valid_file_type (up_FileType req)" if "isValidFileType (up_FileType req) (up_FileName req)"
    using that by (auto simp: isValidFileType_def validTypes_def valid_file_type_def split: if_splits)
  have c: "generateTemporaryCredentials (getCOSConfig (ue_settings e)) k =
      Inr \<lparr>cr_TmpSecretID = TrimSpace (cs_SecretID cosCfg), cr_TmpSecretKey = TrimSpace (cs_SecretKey cosCfg), cr_SessionToken = ''''\<rparr>" for k
    using assms(1-4) by (simp add: generateTemporaryCredentials_def getCOSConfig_def Let_def)
  show ?thesis
  proof (cases admitted)
    case True
    then have "isValidFileSize (up_FileType req) (up_FileSize req)"
      using t size_limit_of_type unfolding admitted_def by blast
    then show ?thesis using True t assms(5) unfolding admitted_def
      by (simp add: GetCOSTokenHandler_def GetCOSTemporaryToken_def c Let_def generateFileKey_def)
  next
    case False
    then have "\<not> isValidFileType (up_FileType req) (up_FileName req) \<or> up_FileSize req \<le> 0 \<or>
        (valid_file_type (up_FileType req) \<longrightarrow> \<not> isValidFileSize (up_FileType req) (up_FileSize req))"
      using size_limit_of_type unfolding admitted_def by force
    then show ?thesis using False assms(5)
      by (auto simp: GetCOSTokenHandler_def GetCOSTemporaryToken_def custom_def Let_def)
  qed
qed

section \<open>Sessions that expire\<close>

definition entry_expired :: "session_env \<Rightarrow> string \<Rightarrow> session \<Rightarrow> bool" where
  "entry_expired se key s \<longleftrightarrow> ses_kv se (calls s) = Done \<and>
     (\<forall>v expiry. cached s key = Some (v, expiry) \<longrightarrow> expiry \<le> ses_time se (calls s))"

lemma expired_session:
  assumes "ses_cipher se (string_bytes CR_LOGIN_SALT) = Some block" "blocks_of_16 block" "length iv = BlockSize"
    and "entry_expired se key s"
  shows "fst (run_state (GetAuthUserAddress se (token_for block iv key)) s) = Inr ([], None)"
proof -
  obtain bs where bs: "DecodeString (token_for block iv key) = Some bs"
      "AesDecryptOFB se bs (string_bytes CR_LOGIN_SALT) = Inr (Inr (string_bytes key))"
    using decode_token [OF assms(1-3)] by blast
  have "fst (run_state (CacheGet se key) s) = Inr ''''"
    using assms(4) by (auto simp: entry_expired_def CacheGet_def call_def split: option.split)
  then show ?thesis using token_not_empty [OF assms(3)]
    by (cases "run_state (CacheGet se key) s") (simp add: GetAuthUserAddress_def Split_token bs bytes_string_bytes)
qed

text \<open>When the session expires between its check and the handler, or was never there, the handlers for upload policies and
  callbacks read the first of no addresses: they panic, and the answer is HTTP status 500.\<close>

theorem expired_session_panics:
  assumes "ses_cipher se (string_bytes CR_LOGIN_SALT) = Some block" "blocks_of_16 block" "length iv = BlockSize"
    and "entry_expired se key s" "valid_file_type fileType"
  shows "fst (GetCOSUploadPolicyHandler e se auth_err (token_for block iv key) fileType s) = Inl IndexOutOfRange \<and>
    fst (COSCallbackHandler se auth_err (token_for block iv key) (Some uploadResult) s) = Inl IndexOutOfRange \<and>
    an_HTTPCode (RecoverMiddleware (fst (GetCOSUploadPolicyHandler e se auth_err (token_for block iv key) fileType s))) = 500"
proof -
  have "fileType \<noteq> ''''" using assms(5) by (auto simp: valid_file_type_def)
  then show ?thesis using expired_session [OF assms(1-4)] assms(5)
    by (cases "run_state (GetAuthUserAddress se (token_for block iv key)) s")
      (simp add: GetCOSUploadPolicyHandler_def COSCallbackHandler_def with_session_def RecoverMiddleware_def ErrorJson_def
        ParseErr_def ErrUnexpected_def NewErr_def)
qed

section \<open>Witnesses\<close>

definition sample_upload_env :: upload_env where
  "sample_upload_env = \<lparr>ue_settings = Some \<lparr>cs_SecretID = ''id'', cs_SecretKey = ''key'', cs_Bucket = ''b'', cs_Region = ''r'', cs_AppID = ''1'',
       cs_Domain = ''''\<rparr>,
     ue_clock = (\<lambda>n. 1000), ue_random = (\<lambda>_ n. replicate n 7), rfc3339 = (\<lambda>_. ''t''), policy_time = (\<lambda>_. ''t'')\<rparr>"

definition sample_upload :: COSTokenRequest where
  "sample_upload = \<lparr>up_FileType = ''image'', up_FileName = ''a.png'', up_FileSize = 100\<rparr>"

theorem upload_token_is_master_key_witness:
  "\<exists>t. fst (GetCOSTokenHandler sample_upload_env ''1.2.3.4'' (Some sample_upload) ()) = Inr (Inr t) \<and> cr_TmpSecretKey (ut_Credentials t) = ''key''"
proof -
  have s: "TrimSpace ''id'' = ''id''" "TrimSpace ''key'' = ''key''"
    by (rule TrimSpace_plain, simp add: plain_char_def)+
  let ?cosCfg = "\<lparr>cs_SecretID = ''id'', cs_SecretKey = ''key'', cs_Bucket = ''b'', cs_Region = ''r'', cs_AppID = ''1'', cs_Domain = ''''\<rparr>"
  have h: "ue_settings sample_upload_env = Some ?cosCfg" by (simp add: sample_upload_env_def)
  have a: "isValidFileType (up_FileType sample_upload) (up_FileName sample_upload)"
    by (simp add: sample_upload_def isValidFileType_def validTypes_def Ext_def ToLower_def lower_char_def Let_def)
  show ?thesis
    using upload_token_is_master_key [OF h, of sample_upload "''1.2.3.4''" "()"] a
    by (auto simp: s sample_upload_def is_prefix_def getMaxFileSize_def size_limits_def split: sum.splits)
qed

theorem expired_session_panics_witness:
  "fst (COSCallbackHandler sample_session_env (\<lambda>_. unexpected) (token_for (map (\<lambda>b. b + 1)) (replicate 16 7) ''k'')
     (Some \<lparr>ur_Key = '''', ur_Location = '''', ur_Bucket = '''', ur_ETag = ''''\<rparr>) empty_session) = Inl IndexOutOfRange"
  by (rule expired_session_panics [of _ _ _ _ _ "''image''" sample_upload_env, THEN conjunct2, THEN conjunct1])
    (simp_all add: sample_session_env_def sample_blocks empty_session_def BlockSize_def valid_file_type_def entry_expired_def)

end
