(* ===== verification/KvStore.thy ===== *)
theory KvStore
  imports Activities
begin

text \<open>
  The key-value store of the services, \<open>EasySwapBase/stores/xkv/xkv.go\<close>: typed values over the commands of Redis, and reading
  through the cache. The JSON codec of the values is a parameter; that objects are pointers of the type stored is
  checked at run time by reflection and holds here by typing.
\<close>

section \<open>Typed values\<close>

definition kv_GetInt :: "backend_env \<Rightarrow> string \<Rightarrow> int B" where
  "kv_GetInt be key = and_then (bk_get be key) (\<lambda>v. State_Monad.return (Inr (ToInt v)))"

definition kv_GetInt64 :: "backend_env \<Rightarrow> string \<Rightarrow> int B" where
  "kv_GetInt64 be key = and_then (bk_get be key) (\<lambda>v. State_Monad.return (Inr (ToInt64 v)))"

text \<open>The time to live is an optional argument, of which the first counts.\<close>

definition kv_SetString :: "backend_env \<Rightarrow> string \<Rightarrow> string \<Rightarrow> int list \<Rightarrow> unit B" where
  "kv_SetString be key v seconds = (case seconds of [] \<Rightarrow> bk_set be key v | secs # _ \<Rightarrow> bk_setex be key v secs)"

definition kv_SetInt :: "backend_env \<Rightarrow> string \<Rightarrow> int \<Rightarrow> int list \<Rightarrow> unit B" where
  "kv_SetInt be key v seconds = kv_SetString be key (int_text v) seconds"

definition kv_SetInt64 :: "backend_env \<Rightarrow> string \<Rightarrow> int \<Rightarrow> int list \<Rightarrow> unit B" where
  "kv_SetInt64 be key v seconds = kv_SetString be key (int_text v) seconds"

definition kv_GetBytes :: "backend_env \<Rightarrow> string \<Rightarrow> string B" where
  "kv_GetBytes be key = bk_get be key"

text \<open>\<open>Read\<close>: \<open>None\<close> for a key without a value; a value that cannot be decoded is an error.\<close>

definition kv_Read :: "backend_env \<Rightarrow> (string \<Rightarrow> 'v option) \<Rightarrow> string \<Rightarrow> 'v option B" where
  "kv_Read be unmarshal key = and_then (kv_GetBytes be key) (\<lambda>v.
     if v = '''' then State_Monad.return (Inr None)
     else State_Monad.return (case unmarshal v of None \<Rightarrow> Inl InvalidRequest | Some obj \<Rightarrow> Inr (Some obj)))"

definition kv_Write :: "backend_env \<Rightarrow> ('v \<Rightarrow> string option) \<Rightarrow> string \<Rightarrow> 'v \<Rightarrow> int list \<Rightarrow> unit B" where
  "kv_Write be marshal key obj seconds = (case marshal obj of
       None \<Rightarrow> State_Monad.return (Inl InvalidRequest)
     | Some v \<Rightarrow> kv_SetString be key v seconds)"

text \<open>\<open>ReadOrGet\<close>: the object stored, or else the one \<open>gf\<close> gets, which is then stored; a failure to store it is ignored.\<close>

definition kv_ReadOrGet ::
  "backend_env \<Rightarrow> (string \<Rightarrow> 'v option) \<Rightarrow> ('v \<Rightarrow> string option) \<Rightarrow> string \<Rightarrow> 'v B \<Rightarrow> int list \<Rightarrow> 'v B" where
  "kv_ReadOrGet be unmarshal marshal key gf seconds = and_then (kv_Read be unmarshal key) (\<lambda>found. case found of
       Some obj \<Rightarrow> State_Monad.return (Inr obj)
     | None \<Rightarrow> and_then gf (\<lambda>obj. do {
         _ \<leftarrow> kv_Write be marshal key obj seconds;
         State_Monad.return (Inr obj)
       }))"

section \<open>What is read back\<close>

lemma run_bk_set_works:
  "kv_works (be_env be) \<Longrightarrow> run_state (bk_set be key v) b =
     (Inr (), b\<lparr>bk_kv := Suc (bk_kv b), bk_cache := (bk_cache b)(key \<mapsto> (v, None))\<rparr>)"
  by (simp add: bk_set_def bk_kv_exec_def kv_works_def)

text \<open>The time at which a value stored by command number \<open>n\<close> expires.\<close>

definition expires :: "backend_env \<Rightarrow> nat \<Rightarrow> int list \<Rightarrow> int option" where
  "expires be n seconds = (case seconds of [] \<Rightarrow> None | secs # _ \<Rightarrow> Some (be_kv_time be n + secs))"

lemma run_SetString:
  "kv_works (be_env be) \<Longrightarrow> run_state (kv_SetString be key v seconds) b =
     (Inr (), b\<lparr>bk_kv := Suc (bk_kv b), bk_cache := (bk_cache b)(key \<mapsto> (v, expires be (bk_kv b) seconds))\<rparr>)"
  by (simp add: kv_SetString_def expires_def run_bk_set_works run_bk_setex_works split: list.split)

lemma digit_plain: "is_digit c \<Longrightarrow> plain_char c \<and> c \<noteq> CHR ''.''"
  by (auto simp: is_digit_def plain_char_def Let_def)

lemma ToInt_int_text: "in_i64 i \<Longrightarrow> ToInt (int_text i) = i"
proof -
  assume i: "in_i64 i"
  have digits: "list_all (\<lambda>c. plain_char c \<and> c \<noteq> CHR ''.'') (itoa n)" for n
    using itoa_digits [of n] digit_plain by (auto simp: list_all_iff)
  have plain: "list_all (\<lambda>c. plain_char c \<and> c \<noteq> CHR ''.'') (int_text i)"
    using digits by (simp add: int_text_def plain_char_def)
  have "int_text i \<noteq> []" using itoa_not_empty by (simp add: int_text_def)
  then have "TrimSpace (int_text i) = int_text i"
    using plain by (intro TrimSpace_plain) (auto simp: list_all_iff)
  moreover have "takeWhile (\<lambda>c. c \<noteq> CHR ''.'') (int_text i) = int_text i"
    using plain by (simp add: list_all_iff)
  ultimately show ?thesis using i by (simp add: ToInt_def ToInt64_def parse_int_text del: takeWhile_eq_all_conv)
qed

text \<open>A number that was stored is read back until it expires.\<close>

theorem stored_number_is_read:
  assumes "kv_works (be_env be)" "in_i64 i" "expires be (bk_kv b) seconds = None \<or>
      (\<exists>x. expires be (bk_kv b) seconds = Some x \<and> be_kv_time be (Suc (bk_kv b)) < x)"
  shows "fst (run_state (and_then (kv_SetInt be key i seconds) (\<lambda>_. kv_GetInt be key)) b) = Inr i"
  using assms(3)
  by (auto simp: kv_SetInt_def kv_GetInt_def run_SetString [OF assms(1)] run_bk_get_works [OF assms(1)] bk_live_def
      ToInt_int_text [OF assms(2)])

text \<open>Reading through: what \<open>gf\<close> gets is answered, and then answered again from the store without \<open>gf\<close> until it expires.\<close>

theorem read_through:
  assumes "kv_works (be_env be)" "bk_live (be_kv_time be (bk_kv b)) b key = ''''"
    and "marshal obj = Some v" "unmarshal v = Some obj" "v \<noteq> ''''"
    and "run_state gf (b\<lparr>bk_kv := Suc (bk_kv b)\<rparr>) = (Inr obj, b1)"
    and "expires be (bk_kv b1) seconds = None \<or> (\<exists>x. expires be (bk_kv b1) seconds = Some x \<and> be_kv_time be (Suc (bk_kv b1)) < x)"
  obtains b2 where "run_state (kv_ReadOrGet be unmarshal marshal key gf seconds) b = (Inr obj, b2)"
    "fst (run_state (kv_ReadOrGet be unmarshal marshal key gf' seconds') b2) = Inr obj"
proof -
  define b2 where "b2 = b1\<lparr>bk_kv := Suc (bk_kv b1), bk_cache := (bk_cache b1)(key \<mapsto> (v, expires be (bk_kv b1) seconds))\<rparr>"
  have "run_state (kv_ReadOrGet be unmarshal marshal key gf seconds) b = (Inr obj, b2)"
    using assms(2,3,6) by (simp add: kv_ReadOrGet_def kv_Read_def kv_GetBytes_def kv_Write_def run_bk_get_works [OF assms(1)]
        run_SetString [OF assms(1)] b2_def)
  moreover have "bk_live (be_kv_time be (bk_kv b2)) b2 key = v" using assms(7) by (auto simp: bk_live_def b2_def)
  then have "fst (run_state (kv_ReadOrGet be unmarshal marshal key gf' seconds') b2) = Inr obj"
    using assms(4,5) by (simp add: kv_ReadOrGet_def kv_Read_def kv_GetBytes_def run_bk_get_works [OF assms(1)])
  ultimately show thesis by (rule that)
qed

end
