(* ===== verification/Floats.thy ===== *)
theory Floats
  imports Prelude
begin

text \<open>
  Go's \<open>float64\<close> and \<open>float32\<close>: IEEE 754 numbers with their rounding. A number is a sign and the magnitude it
  denotes, so that the two zeros are distinct values; an operation computes the exact rational result and rounds it to the
  nearest representable number, ties to the even one, with gradual underflow and overflow to infinity. All not-a-number
  patterns are one value. A \<open>float32\<close> is the \<open>float64\<close> of the same value, which the conversion gives exactly.
\<close>

datatype float64 = NaN | Infinite bool | Number bool rat

section \<open>Rounding\<close>

definition pow2 :: "int \<Rightarrow> rat" where
  "pow2 k = (if 0 \<le> k then 2 ^ nat k else 1 / 2 ^ nat (- k))"

function bit_length :: "int \<Rightarrow> nat" where
  "bit_length n = (if n \<le> 0 then 0 else Suc (bit_length (n div 2)))"
  by pat_completeness auto
termination by (relation "measure nat") auto

declare bit_length.simps [simp del]

text \<open>The exponent of the greatest power of two below a positive number.\<close>

definition ilog2 :: "rat \<Rightarrow> int" where
  "ilog2 x = (case quotient_of x of (p, q) \<Rightarrow>
     let k = int (bit_length p) - int (bit_length q) in if pow2 k \<le> x then k else k - 1)"

definition nearest_even :: "rat \<Rightarrow> int" where
  "nearest_even x = (let n = \<lfloor>x\<rfloor>; r = x - of_int n in
     if r < 1 / 2 then n else if 1 / 2 < r then n + 1 else if even n then n else n + 1)"

definition round_to :: "nat \<Rightarrow> int \<Rightarrow> int \<Rightarrow> bool \<Rightarrow> rat \<Rightarrow> float64" where
  "round_to precision emin emax neg x = (if x = 0 then Number neg 0 else
     let e = max emin (ilog2 x - int precision + 1); y = of_int (nearest_even (x / pow2 e)) * pow2 e
     in if pow2 emax \<le> y then Infinite neg else Number neg y)"

definition round64 :: "bool \<Rightarrow> rat \<Rightarrow> float64" where
  "round64 = round_to 53 (- 1074) 1024"

definition round32 :: "bool \<Rightarrow> rat \<Rightarrow> float64" where
  "round32 = round_to 24 (- 149) 128"

definition fl_of_rat :: "rat \<Rightarrow> float64" where
  "fl_of_rat r = round64 (r < 0) \<bar>r\<bar>"

definition fl_of_int :: "int \<Rightarrow> float64" where
  "fl_of_int i = fl_of_rat (of_int i)"

section \<open>Operations\<close>

definition signed :: "bool \<Rightarrow> rat \<Rightarrow> rat" where
  "signed neg x = (if neg then - x else x)"

fun fl_neg :: "float64 \<Rightarrow> float64" where
  "fl_neg NaN = NaN"
| "fl_neg (Infinite a) = Infinite (\<not> a)"
| "fl_neg (Number a x) = Number (\<not> a) x"

fun fl_abs :: "float64 \<Rightarrow> float64" where
  "fl_abs NaN = NaN"
| "fl_abs (Infinite a) = Infinite False"
| "fl_abs (Number a x) = Number False x"

fun fl_add :: "float64 \<Rightarrow> float64 \<Rightarrow> float64" where
  "fl_add (Number a x) (Number b y) = (let s = signed a x + signed b y in
     if s = 0 then Number (a \<and> b) 0 else fl_of_rat s)"
| "fl_add (Infinite a) (Infinite b) = (if a = b then Infinite a else NaN)"
| "fl_add (Infinite a) (Number _ _) = Infinite a"
| "fl_add (Number _ _) (Infinite b) = Infinite b"
| "fl_add _ _ = NaN"

definition fl_sub :: "float64 \<Rightarrow> float64 \<Rightarrow> float64" where
  "fl_sub f g = fl_add f (fl_neg g)"

fun fl_mul :: "float64 \<Rightarrow> float64 \<Rightarrow> float64" where
  "fl_mul (Number a x) (Number b y) = round64 (a \<noteq> b) (x * y)"
| "fl_mul (Infinite a) (Infinite b) = Infinite (a \<noteq> b)"
| "fl_mul (Infinite a) (Number b y) = (if y = 0 then NaN else Infinite (a \<noteq> b))"
| "fl_mul (Number a x) (Infinite b) = (if x = 0 then NaN else Infinite (a \<noteq> b))"
| "fl_mul _ _ = NaN"

fun fl_div :: "float64 \<Rightarrow> float64 \<Rightarrow> float64" where
  "fl_div (Number a x) (Number b y) =
     (if y = 0 then (if x = 0 then NaN else Infinite (a \<noteq> b)) else round64 (a \<noteq> b) (x / y))"
| "fl_div (Infinite a) (Number b y) = Infinite (a \<noteq> b)"
| "fl_div (Number a x) (Infinite b) = Number (a \<noteq> b) 0"
| "fl_div _ _ = NaN"

text \<open>Comparisons are false when an operand is not a number; the two zeros are equal.\<close>

fun fl_less :: "float64 \<Rightarrow> float64 \<Rightarrow> bool" where
  "fl_less (Number a x) (Number b y) \<longleftrightarrow> signed a x < signed b y"
| "fl_less (Infinite a) (Infinite b) \<longleftrightarrow> a \<and> \<not> b"
| "fl_less (Infinite a) (Number _ _) \<longleftrightarrow> a"
| "fl_less (Number _ _) (Infinite b) \<longleftrightarrow> \<not> b"
| "fl_less _ _ \<longleftrightarrow> False"

fun fl_eq :: "float64 \<Rightarrow> float64 \<Rightarrow> bool" where
  "fl_eq (Number a x) (Number b y) \<longleftrightarrow> signed a x = signed b y"
| "fl_eq (Infinite a) (Infinite b) \<longleftrightarrow> a = b"
| "fl_eq _ _ \<longleftrightarrow> False"

definition fl_le :: "float64 \<Rightarrow> float64 \<Rightarrow> bool" where
  "fl_le f g \<longleftrightarrow> fl_less f g \<or> fl_eq f g"

text \<open>\<open>math.Max\<close> and \<open>math.Min\<close>: infinities first, then not a number, then the signs of the zeros.\<close>

definition fl_max :: "float64 \<Rightarrow> float64 \<Rightarrow> float64" where
  "fl_max x y = (if x = Infinite False \<or> y = Infinite False then Infinite False
     else if x = NaN \<or> y = NaN then NaN
     else if fl_eq x (Number False 0) \<and> fl_eq x y then (if x = Number True 0 then y else x)
     else if fl_less y x then x else y)"

definition fl_min :: "float64 \<Rightarrow> float64 \<Rightarrow> float64" where
  "fl_min x y = (if x = Infinite True \<or> y = Infinite True then Infinite True
     else if x = NaN \<or> y = NaN then NaN
     else if fl_eq x (Number False 0) \<and> fl_eq x y then (if x = Number True 0 then x else y)
     else if fl_less x y then x else y)"

text \<open>\<open>math.Pow10\<close> with its tables of powers, the entries of which are rounded constants.\<close>

definition Pow10 :: "int \<Rightarrow> float64" where
  "Pow10 n = (if 0 \<le> n \<and> n \<le> 308 then fl_mul (fl_of_rat (10 ^ (32 * (nat n div 32)))) (fl_of_rat (10 ^ (nat n mod 32)))
     else if - 323 \<le> n \<and> n \<le> 0 then
       fl_div (fl_of_rat (1 / 10 ^ (32 * (nat (- n) div 32)))) (fl_of_rat (10 ^ (nat (- n) mod 32)))
     else if 0 < n then Infinite False else Number False 0)"

text \<open>\<open>float32(f)\<close>.\<close>

fun to_float32 :: "float64 \<Rightarrow> float64" where
  "to_float32 (Number a x) = round32 a x"
| "to_float32 f = f"

text \<open>\<open>int64(f)\<close> and \<open>uint64(f)\<close> drop the fraction; where the result does not fit it depends on the machine (\<open>big\<close>).\<close>

definition trunc :: "float64 \<Rightarrow> int option" where
  "trunc f = (case f of Number a x \<Rightarrow> Some (if a then - \<lfloor>x\<rfloor> else \<lfloor>x\<rfloor>) | _ \<Rightarrow> None)"

definition fl_to_int64 :: "(float64 \<Rightarrow> int) \<Rightarrow> float64 \<Rightarrow> int" where
  "fl_to_int64 big f = (case trunc f of Some i \<Rightarrow> (if in_i64 i then i else big f) | None \<Rightarrow> big f)"

definition fl_to_uint64 :: "(float64 \<Rightarrow> int) \<Rightarrow> float64 \<Rightarrow> int" where
  "fl_to_uint64 big f = (case trunc f of Some i \<Rightarrow> (if 0 \<le> i \<and> i < 2 ^ 64 then i else big f) | None \<Rightarrow> big f)"

section \<open>The rounding\<close>

lemma pow2_pos [simp]: "0 < pow2 k"
  by (simp add: pow2_def)

lemma pow2_nz [simp]: "pow2 k \<noteq> 0"
  using pow2_pos [of k] by linarith

lemma pow2_diff: "pow2 (int a - int b) = 2 ^ a / 2 ^ b"
proof (cases "b \<le> a")
  case True
  then have "nat (int a - int b) = a - b" by simp
  then show ?thesis using True by (simp add: pow2_def power_diff)
next
  case False
  then have "nat (- (int a - int b)) = b - a" by simp
  then show ?thesis using False by (simp add: pow2_def power_diff)
qed

lemma pow2_minus_1: "pow2 (k - 1) = pow2 k / 2"
proof (cases k)
  case (nonneg n)
  then show ?thesis using pow2_diff [of n 1] pow2_diff [of n 0] by simp
next
  case (neg n)
  then have k: "k = int 0 - int (Suc n)" "k - 1 = int 0 - int (Suc (Suc n))" by simp_all
  show ?thesis by (simp only: k(2), simp only: k(1) pow2_diff) simp
qed

lemma pow2_mono: "i \<le> j \<Longrightarrow> pow2 i \<le> pow2 j"
proof (induction "nat (j - i)" arbitrary: j)
  case 0
  then have "i = j" by simp
  then show ?case by simp
next
  case (Suc n)
  then have "pow2 i \<le> pow2 (j - 1)" by simp
  then have "2 * pow2 i \<le> pow2 j" by (simp add: pow2_minus_1)
  then show ?case using pow2_pos [of i] by linarith
qed

lemma nearest_even_near: "\<bar>of_int (nearest_even x) - x\<bar> \<le> 1 / 2"
proof -
  define n where "n = \<lfloor>x\<rfloor>"
  have "of_int n \<le> x" "x < of_int n + 1" using floor_correct [of x] by (simp_all add: n_def)
  then show ?thesis by (simp add: nearest_even_def Let_def abs_if flip: n_def)
qed

lemma nearest_even_nonneg: "0 \<le> x \<Longrightarrow> 0 \<le> nearest_even x"
  by (simp add: nearest_even_def Let_def)

lemma nearest_even_of_int [simp]: "nearest_even (of_int n) = n"
  by (simp add: nearest_even_def)

lemma bit_length_bounds: "0 < n \<Longrightarrow> 0 < bit_length n \<and> 2 ^ bit_length n \<le> 2 * n \<and> n < 2 ^ bit_length n"
proof (induction n rule: bit_length.induct)
  case (1 n)
  show ?case
  proof (cases "n = 1")
    case True
    then show ?thesis by (simp add: bit_length.simps)
  next
    case False
    with 1 have "2 ^ bit_length (n div 2) \<le> 2 * (n div 2)" "n div 2 < 2 ^ bit_length (n div 2)" by auto
    then show ?thesis using 1(2) by (subst (1 2 3) bit_length.simps) auto
  qed
qed

lemma bit_length_pow:
  assumes "0 < n"
  shows "(2::rat) ^ bit_length n \<le> 2 * of_int n" and "of_int n < (2::rat) ^ bit_length n"
proof -
  have "2 ^ bit_length n \<le> 2 * n" "n < 2 ^ bit_length n" using bit_length_bounds [OF assms] by auto
  then have "(of_int (2 ^ bit_length n) :: rat) \<le> of_int (2 * n)" "(of_int n :: rat) < of_int (2 ^ bit_length n)"
    by (simp_all only: of_int_le_iff of_int_less_iff)
  then show "(2::rat) ^ bit_length n \<le> 2 * of_int n" "of_int n < (2::rat) ^ bit_length n" by simp_all
qed

lemma ilog2_bounds:
  assumes "0 < x"
  shows "pow2 (ilog2 x) \<le> x" and "x < 2 * pow2 (ilog2 x)"
proof -
  obtain p q where pq: "quotient_of x = (p, q)" by fastforce
  have q: "0 < q" using quotient_of_denom_pos [OF pq] .
  have x: "x = of_int p / of_int q" using quotient_of_div [OF pq] .
  with assms q have p: "0 < p" by (simp add: zero_less_divide_iff)
  define a where "a = bit_length p"
  define b where "b = bit_length q"
  have P: "(2::rat) ^ a \<le> 2 * of_int p" "of_int p < (2::rat) ^ a"
    using bit_length_pow [OF p] by (simp_all add: a_def)
  have Q: "(2::rat) ^ b \<le> 2 * of_int q" "of_int q < (2::rat) ^ b"
    using bit_length_pow [OF q] by (simp_all add: b_def)

  have upper: "x < 2 * pow2 (int a - int b)"
  proof -
    have "of_int p * (2::rat) ^ b < 2 ^ a * (2 * of_int q)"
      using P(2) Q(1) p q by (intro mult_less_le_imp_less) auto
    then show ?thesis using q by (simp add: x pow2_diff field_simps)
  qed
  have lower: "pow2 (int a - int b) < 2 * x"
  proof -
    have "(2::rat) ^ a * of_int q < 2 * of_int p * 2 ^ b"
      using P(1) Q(2) p q by (intro mult_le_less_imp_less) auto
    then show ?thesis using q by (simp add: x pow2_diff field_simps)
  qed
  have i: "ilog2 x = (if pow2 (int a - int b) \<le> x then int a - int b else int a - int b - 1)"
    by (simp add: ilog2_def pq a_def b_def)
  show "pow2 (ilog2 x) \<le> x" "x < 2 * pow2 (ilog2 x)"
    using upper lower by (auto simp: i pow2_minus_1)
qed

text \<open>A number of the normal range is rounded by less than half of itself.\<close>

lemma round64_near:
  assumes "1 \<le> x" "x < pow2 1020"
  obtains y where "round64 neg x = Number neg y" "x / 2 \<le> y" "y \<le> 2 * x"
proof -
  have l: "pow2 (ilog2 x) \<le> x" "x < 2 * pow2 (ilog2 x)" using ilog2_bounds [of x] assms by simp_all
  have "- 1 < ilog2 x"
  proof (rule ccontr)
    assume "\<not> - 1 < ilog2 x"
    then have "pow2 (ilog2 x) \<le> pow2 (- 1)" by (intro pow2_mono) simp
    then show False using l(2) assms(1) by (simp add: pow2_def)
  qed
  define e where "e = max (- 1074) (ilog2 x - int 53 + 1)"
  then have "e \<le> ilog2 x" using \<open>- 1 < ilog2 x\<close> by simp
  then have e: "pow2 e \<le> x" using pow2_mono l(1) by fastforce
  define y where "y = of_int (nearest_even (x / pow2 e)) * pow2 e"
  have "\<bar>(of_int (nearest_even (x / pow2 e)) - x / pow2 e) * pow2 e\<bar> \<le> 1 / 2 * pow2 e"
    unfolding abs_mult using nearest_even_near [of "x / pow2 e"] less_imp_le [OF pow2_pos, of e] by (intro mult_mono) simp_all
  then have d: "\<bar>y - x\<bar> \<le> x / 2" using e by (simp add: y_def left_diff_distrib)
  have "pow2 1020 * 2 \<le> pow2 1024" by (simp add: pow2_def)
  then have "\<not> pow2 1024 \<le> y" using d assms(2) pow2_pos [of 1020] by linarith
  moreover have "round64 neg x = (if pow2 1024 \<le> y then Infinite neg else Number neg y)"
    using assms(1) by (auto simp: round64_def round_to_def e_def y_def Let_def)
  ultimately have "round64 neg x = Number neg y" by simp
  moreover have "x / 2 \<le> y" "y \<le> 2 * x" using d by linarith+
  ultimately show thesis by (rule that)
qed

lemma fl_eq_refl: "f \<noteq> NaN \<Longrightarrow> fl_eq f f"
  by (cases f) simp_all

lemma fl_less_irrefl [simp]: "\<not> fl_less f f"
  by (cases f) simp_all

lemma fl_less_asym: "fl_less f g \<Longrightarrow> \<not> fl_less g f"
  by (cases f; cases g) auto

lemma fl_trichotomy: "f \<noteq> NaN \<Longrightarrow> g \<noteq> NaN \<Longrightarrow> fl_less f g \<or> fl_eq f g \<or> fl_less g f"
  by (cases f; cases g) auto

lemma fl_abs_of_rat_minus: "fl_abs (fl_of_rat (- s)) = fl_abs (fl_of_rat s)"
  by (simp add: fl_of_rat_def round64_def round_to_def Let_def)

lemma fl_abs_sub_commute: "fl_abs (fl_sub f g) = fl_abs (fl_sub g f)"
proof (cases "\<exists>a x b y. f = Number a x \<and> g = Number b y")
  case True
  then obtain a x b y where fg: "f = Number a x" "g = Number b y" by blast
  have "signed (\<not> a) x + signed b y = - (signed a x + signed (\<not> b) y)" by (simp add: signed_def)
  then show ?thesis using fl_abs_of_rat_minus [of "signed a x + signed (\<not> b) y"]
    by (auto simp: fg fl_sub_def Let_def add.commute)
next
  case False
  then show ?thesis by (cases f; cases g) (auto simp: fl_sub_def)
qed

lemma round64_nonneg:
  assumes "0 \<le> x"
  shows "round64 neg x = Infinite neg \<or> (\<exists>y. 0 \<le> y \<and> y < pow2 1024 \<and> round64 neg x = Number neg y)"
proof -
  define e where "e = max (- 1074) (ilog2 x - int 53 + 1)"
  define y where "y = of_int (nearest_even (x / pow2 e)) * pow2 e"
  have "0 \<le> y" using nearest_even_nonneg [of "x / pow2 e"] less_imp_le [OF pow2_pos, of e] assms by (simp add: y_def)
  moreover have "round64 neg x = (if x = 0 then Number neg 0 else if pow2 1024 \<le> y then Infinite neg else Number neg y)"
    by (simp add: round64_def round_to_def e_def y_def Let_def)
  ultimately show ?thesis by auto
qed

lemma fl_of_int_1024: obtains x where "fl_of_int 1024 = Number False x" "512 \<le> x" "x \<le> 2048"
proof -
  have "(1024::rat) < pow2 1020" by (simp add: pow2_def)
  then show thesis
  proof (rule round64_near [of 1024 False, rotated])
    fix y :: rat
    assume "round64 False 1024 = Number False y" "1024 / 2 \<le> y" "y \<le> 2 * 1024"
    then show thesis by (intro that [of y]) (simp_all add: fl_of_int_def fl_of_rat_def)
  qed simp
qed


text \<open>A power of ten is a number that is not negative, or infinite.\<close>

definition fl_nonneg :: "float64 \<Rightarrow> bool" where
  "fl_nonneg f \<longleftrightarrow> f = Infinite False \<or> (\<exists>y\<ge>0. f = Number False y)"

lemma fl_nonneg_round: "0 \<le> x \<Longrightarrow> fl_nonneg (round64 False x)"
  using round64_nonneg [of x False] by (auto simp: fl_nonneg_def)

lemma fl_of_rat_small_power: "n < 32 \<Longrightarrow> \<exists>y>0. fl_of_rat (10 ^ n) = Number False y"
proof -
  assume n: "n < 32"
  have "(10::rat) ^ n \<le> 10 ^ 32" using n by (intro power_increasing) simp_all
  also have "\<dots> < pow2 1020" by (simp add: pow2_def)
  finally have "(10::rat) ^ n < pow2 1020" .
  moreover have one: "(1::rat) \<le> 10 ^ n" by simp
  ultimately obtain y where y: "round64 False (10 ^ n) = Number False y" "10 ^ n / 2 \<le> y"
    using round64_near [of "10 ^ n" False] by metis
  then have "0 < y" using one by linarith
  with y show ?thesis by (auto simp: fl_of_rat_def)
qed

lemma Pow10_nonneg: "fl_nonneg (Pow10 n)"
proof -
  have pos: "fl_nonneg (fl_of_rat x)" if "0 \<le> x" for x using fl_nonneg_round that by (simp add: fl_of_rat_def)
  have m: "fl_nonneg (fl_mul f g) \<and> fl_nonneg (fl_div f g)" if f: "fl_nonneg f" and g: "\<exists>y>0. g = Number False y" for f g
  proof -
    obtain y where y: "0 < y" "g = Number False y" using g by blast
    show ?thesis
    proof (cases "f = Infinite False")
      case True
      then show ?thesis using y by (simp add: fl_nonneg_def)
    next
      case False
      then obtain x where "0 \<le> x" "f = Number False x" using f by (auto simp: fl_nonneg_def)
      then show ?thesis using y fl_nonneg_round [of "x * y"] fl_nonneg_round [of "x / y"] by simp
    qed
  qed
  have z: "fl_nonneg (Number False 0)" "fl_nonneg (Infinite False)" by (simp_all add: fl_nonneg_def)
  show ?thesis unfolding Pow10_def using fl_of_rat_small_power [of 0] by (auto intro!: m [THEN conjunct1] m [THEN conjunct2] pos z fl_of_rat_small_power)
qed

lemma zero_le_nonneg: "fl_nonneg f \<Longrightarrow> fl_le (Number False 0) f"
  by (auto simp: fl_nonneg_def fl_le_def signed_def)

lemma fl_sub_equal: "fl_eq f g \<Longrightarrow> \<forall>neg. f \<noteq> Infinite neg \<Longrightarrow> fl_abs (fl_sub f g) = Number False 0"
  by (cases f; cases g) (auto simp: fl_sub_def signed_def Let_def split: if_splits)

end
