(* ===== verification/Utf8.thy ===== *)
theory Utf8
  imports ChainCalls
begin

text \<open>
  Go's \<open>unicode/utf8\<close> as \<open>BytesToRunes\<close> and \<open>RunesToBytes\<close> of \<open>EasySwapBase/kit/convert/convert.go\<close> use it, with these two
  functions. A rune is an \<open>int32\<close>; a byte that starts no well-formed sequence decodes to the replacement character, of
  width 1.
\<close>

section \<open>Runes\<close>

definition RuneError :: int where "RuneError = 65533"

definition valid_rune :: "int \<Rightarrow> bool" where
  "valid_rune r \<longleftrightarrow> 0 \<le> r \<and> r < 55296 \<or> 57343 < r \<and> r \<le> 1114111"

definition RuneLen :: "int \<Rightarrow> int" where
  "RuneLen r = (if r < 0 then - 1 else if r \<le> 127 then 1 else if r \<le> 2047 then 2
     else if 55296 \<le> r \<and> r \<le> 57343 then - 1 else if r \<le> 65535 then 3 else if r \<le> 1114111 then 4 else - 1)"

abbreviation byte :: "int \<Rightarrow> 8 word" where "byte \<equiv> word_of_int"

definition rune_bytes :: "int \<Rightarrow> bytes" where
  "rune_bytes r = (if 0 \<le> r \<and> r \<le> 127 then [byte r]
     else if 0 \<le> r \<and> r \<le> 2047 then [byte (192 + r div 64), byte (128 + r mod 64)]
     else let r = (if valid_rune r then r else RuneError) in
       if r \<le> 65535 then [byte (224 + r div 4096), byte (128 + r div 64 mod 64), byte (128 + r mod 64)]
       else [byte (240 + r div 262144), byte (128 + r div 4096 mod 64), byte (128 + r div 64 mod 64), byte (128 + r mod 64)])"

text \<open>A sequence of two, three or four bytes; the second byte has a range of its own that depends on the first.\<close>

definition follows :: "int \<Rightarrow> bool" where
  "follows b \<longleftrightarrow> 128 \<le> b \<and> b \<le> 191"

definition second_range :: "int \<Rightarrow> int \<times> int" where
  "second_range a = (if a = 224 then (160, 191) else if a = 237 then (128, 159) else if a = 240 then (144, 191)
     else if a = 244 then (128, 143) else (128, 191))"

definition second_ok :: "int \<Rightarrow> int \<Rightarrow> bool" where
  "second_ok a b \<longleftrightarrow> fst (second_range a) \<le> b \<and> b \<le> snd (second_range a)"

definition decode_ints :: "int list \<Rightarrow> int \<times> nat" where
  "decode_ints p = (case p of [] \<Rightarrow> (RuneError, 0) | a # q \<Rightarrow>
     if a < 128 then (a, 1)
     else if a < 194 \<or> 244 < a then (RuneError, 1)
     else (case q of [] \<Rightarrow> (RuneError, 1) | b # q2 \<Rightarrow>
       if \<not> second_ok a b then (RuneError, 1)
       else if a < 224 then ((a - 192) * 64 + (b - 128), 2)
       else (case q2 of [] \<Rightarrow> (RuneError, 1) | c # q3 \<Rightarrow>
         if \<not> follows c then (RuneError, 1)
         else if a < 240 then ((a - 224) * 4096 + (b - 128) * 64 + (c - 128), 3)
         else (case q3 of [] \<Rightarrow> (RuneError, 1) | d # _ \<Rightarrow>
           if \<not> follows d then (RuneError, 1)
           else ((a - 240) * 262144 + (b - 128) * 4096 + (c - 128) * 64 + (d - 128), 4)))))"

definition DecodeRune :: "bytes \<Rightarrow> int \<times> nat" where
  "DecodeRune p = decode_ints (map uint p)"

lemma DecodeRune_width: "p \<noteq> [] \<Longrightarrow> 0 < snd (DecodeRune p)"
  by (cases p) (auto simp: DecodeRune_def decode_ints_def split: list.splits)

function RuneCount :: "bytes \<Rightarrow> nat" where
  "RuneCount p = (if p = [] then 0 else Suc (RuneCount (drop (snd (DecodeRune p)) p)))"
  by pat_completeness auto
termination
proof (relation "measure length")
  fix p :: bytes
  assume "p \<noteq> []"
  then show "(drop (snd (DecodeRune p)) p, p) \<in> measure length" using DecodeRune_width [of p] by simp
qed simp

declare RuneCount.simps [simp del]

section \<open>Conversions\<close>

text \<open>The loop of \<open>BytesToRunes\<close> runs \<open>RuneCount\<close> times over the rest of the bytes.\<close>

fun decode_loop :: "nat \<Rightarrow> bytes \<Rightarrow> int list" where
  "decode_loop 0 rest = []"
| "decode_loop (Suc n) rest = (case DecodeRune rest of (r, c) \<Rightarrow> r # decode_loop n (drop c rest))"

definition BytesToRunes :: "bytes \<Rightarrow> int list" where
  "BytesToRunes bs = decode_loop (RuneCount bs) bs"

text \<open>The buffer of \<open>RunesToBytes\<close> has the sum of the lengths; a negative one cannot be made, and a sequence that does not fit
  into what is left of it is an index out of range. \<open>None\<close> stands for both panics.\<close>

fun encode_loop :: "int list \<Rightarrow> nat \<Rightarrow> bytes \<Rightarrow> bytes option" where
  "encode_loop [] room acc = Some (acc @ replicate room 0)"
| "encode_loop (r # rs) room acc = (let bs = rune_bytes r in
     if length bs \<le> room then encode_loop rs (room - length bs) (acc @ bs) else None)"

definition RunesToBytes :: "int list \<Rightarrow> bytes option" where
  "RunesToBytes runes = (let size = sum_list (map RuneLen runes) in
     if size < 0 then None else encode_loop runes (nat size) [])"

section \<open>Round trip\<close>

lemma length_rune_bytes: "int (length (rune_bytes r)) = (if valid_rune r then RuneLen r else 3)"
  by (auto simp: rune_bytes_def RuneLen_def valid_rune_def RuneError_def Let_def)

lemma uint_byte: "0 \<le> n \<Longrightarrow> n < 256 \<Longrightarrow> uint (byte n) = n"
  by (simp add: uint_word_of_int)

lemma sextets: "(r::int) = r div 64 * 64 + r mod 64"
  by simp

lemma div_4096: "(r::int) div 4096 = r div 64 div 64"
  using zdiv_zmult2_eq [of 64 r 64] by simp

lemma div_262144: "(r::int) div 262144 = r div 64 div 64 div 64"
  using zdiv_zmult2_eq [of 64 r 4096] by (simp add: div_4096)

lemma decode_two:
  assumes "127 < r" "r \<le> 2047"
  shows "decode_ints ((192 + r div 64) # (128 + r mod 64) # rest) = (r, 2)"
proof -
  have "2 \<le> r div 64" "r div 64 < 32" using assms by presburger+
  then show ?thesis by (simp add: decode_ints_def second_ok_def second_range_def)
qed

lemma decode_three:
  assumes "2047 < r" "r \<le> 65535" "valid_rune r"
  shows "decode_ints ((224 + r div 4096) # (128 + r div 64 mod 64) # (128 + r mod 64) # rest) = (r, 3)"
proof -
  define h m where "h = r div 4096" and "m = r div 64 mod 64"
  have h: "0 \<le> h" "h < 16" using assms by (simp_all add: h_def) 
  have m: "0 \<le> m" "m < 64" by (simp_all add: m_def)
  have r: "r = h * 4096 + m * 64 + r mod 64"     using sextets [of r] sextets [of "r div 64"] unfolding h_def m_def div_4096 by linarith
  have l: "0 \<le> r mod 64" "r mod 64 < 64" by simp_all
  have "h = 0 \<Longrightarrow> 32 \<le> m" using r l assms(1) by linarith
  moreover have "h = 13 \<Longrightarrow> m < 32" using r l m assms(3) unfolding valid_rune_def by linarith
  ultimately have "second_ok (224 + h) (128 + m)" using h m by (auto simp: second_ok_def second_range_def)
  then show ?thesis using h m l r by (simp add: decode_ints_def follows_def flip: h_def m_def)
qed

lemma decode_four:
  assumes "65535 < r" "r \<le> 1114111"
  shows "decode_ints ((240 + r div 262144) # (128 + r div 4096 mod 64) # (128 + r div 64 mod 64) # (128 + r mod 64) # rest) = (r, 4)"
proof -
  define h m k where "h = r div 262144" and "m = r div 4096 mod 64" and "k = r div 64 mod 64"
  have h: "0 \<le> h" "h \<le> 4" using assms by (simp_all add: h_def)
  have m: "0 \<le> m" "m < 64" "0 \<le> k" "k < 64" by (simp_all add: m_def k_def)
  have r: "r = h * 262144 + m * 4096 + k * 64 + r mod 64"     using sextets [of r] sextets [of "r div 64"] sextets [of "r div 64 div 64"]
    unfolding h_def m_def k_def div_4096 div_262144 by linarith
  have l: "0 \<le> r mod 64" "r mod 64 < 64" by simp_all
  have "h = 0 \<Longrightarrow> 16 \<le> m" using r l m assms(1) by linarith
  moreover have "h = 4 \<Longrightarrow> m < 16" using r l m assms(2) by linarith
  ultimately have "second_ok (240 + h) (128 + m)" using h m by (auto simp: second_ok_def second_range_def)
  then show ?thesis using h m l r by (simp add: decode_ints_def follows_def flip: h_def m_def k_def)
qed

lemma DecodeRune_rune_bytes:
  assumes "valid_rune r"
  shows "DecodeRune (rune_bytes r @ rest) = (r, length (rune_bytes r))"
proof -
  consider "0 \<le> r" "r \<le> 127" | "127 < r" "r \<le> 2047" | "2047 < r" "r \<le> 65535" | "65535 < r" "r \<le> 1114111"
  proof -
    have "0 \<le> r \<and> r \<le> 127 \<or> 127 < r \<and> r \<le> 2047 \<or> 2047 < r \<and> r \<le> 65535 \<or> 65535 < r \<and> r \<le> 1114111"
      using assms unfolding valid_rune_def by linarith
    then show thesis using that by blast
  qed
  then show ?thesis
  proof cases
    case 1
    then show ?thesis by (simp add: rune_bytes_def DecodeRune_def uint_byte) (simp add: decode_ints_def)
  next
    case 2
    then have "r div 64 < 32" "0 \<le> r div 64" by presburger+
    then show ?thesis using 2 decode_two [OF 2] by (simp add: rune_bytes_def DecodeRune_def uint_byte del: of_int_add)
  next
    case 3
    then have "r div 4096 < 16" "0 \<le> r div 4096" using zdiv_mono1 [of r 65535 4096] by simp_all
    then show ?thesis using 3 decode_three [OF 3 assms] assms by (simp add: rune_bytes_def DecodeRune_def uint_byte del: of_int_add)
  next
    case 4
    then have "r div 262144 < 5" "0 \<le> r div 262144" using zdiv_mono1 [of r 1114111 262144] by simp_all
    then show ?thesis using 4 decode_four [OF 4] assms by (simp add: rune_bytes_def DecodeRune_def uint_byte del: of_int_add)
  qed
qed

lemma rune_bytes_not_Nil [simp]: "rune_bytes r \<noteq> []"
  by (simp add: rune_bytes_def Let_def)

lemma RuneCount_encoded: "list_all valid_rune rs \<Longrightarrow> RuneCount (concat (map rune_bytes rs)) = length rs"
  by (induction rs) (simp_all add: RuneCount.simps [of "[]"] RuneCount.simps [of "rune_bytes _ @ _"] DecodeRune_rune_bytes)

lemma decode_loop_encoded: "list_all valid_rune rs \<Longrightarrow> decode_loop (length rs) (concat (map rune_bytes rs)) = rs"
  by (induction rs) (simp_all add: DecodeRune_rune_bytes)

lemma encode_loop_fits:
  "length (concat (map rune_bytes rs)) \<le> room \<Longrightarrow>
   encode_loop rs room acc = Some (acc @ concat (map rune_bytes rs) @ replicate (room - length (concat (map rune_bytes rs))) 0)"
  by (induction rs arbitrary: room acc) (simp_all add: Let_def)

lemma encode_loop_too_long: "room < length (concat (map rune_bytes rs)) \<Longrightarrow> encode_loop rs room acc = None"
  by (induction rs arbitrary: room acc) (auto simp: Let_def)

lemma encoded_length:
  "sum_list (map RuneLen rs) \<le> int (length (concat (map rune_bytes rs)))"
  "list_all valid_rune rs \<longleftrightarrow> sum_list (map RuneLen rs) = int (length (concat (map rune_bytes rs)))"
proof -
  have le: "RuneLen r \<le> int (length (rune_bytes r))" for r
    unfolding length_rune_bytes by (simp add: RuneLen_def valid_rune_def)
  have eq: "valid_rune r \<longleftrightarrow> RuneLen r = int (length (rune_bytes r))" for r
    unfolding length_rune_bytes by (auto simp: RuneLen_def valid_rune_def)
  show 1: "sum_list (map RuneLen rs) \<le> int (length (concat (map rune_bytes rs)))" for rs
    by (induction rs) (use le in \<open>simp_all add: add_mono\<close>)
  show "list_all valid_rune rs \<longleftrightarrow> sum_list (map RuneLen rs) = int (length (concat (map rune_bytes rs)))"
  proof (induction rs)
    case (Cons r rs)
    then show ?case using le [of r] 1 [of rs] eq [of r] by auto
  qed simp
qed

text \<open>Runes are written, and read back as they were, exactly when all of them are valid; otherwise the buffer is too small.\<close>

lemma RunesToBytes_result:
  "RunesToBytes rs = (if list_all valid_rune rs then Some (concat (map rune_bytes rs)) else None)"
  using encoded_length [of rs] encode_loop_fits [of rs "length (concat (map rune_bytes rs))" "[]"]
    encode_loop_too_long [of "nat (sum_list (map RuneLen rs))" rs "[]"]
  by (auto simp: RunesToBytes_def Let_def)

lemma runes_read_back:
  "case RunesToBytes rs of Some bs \<Rightarrow> BytesToRunes bs = rs \<and> list_all valid_rune rs | None \<Rightarrow> \<not> list_all valid_rune rs"
  by (simp add: RunesToBytes_result BytesToRunes_def RuneCount_encoded decode_loop_encoded)

end
