(* ===== verification/AnyConvert.thy ===== *)
theory AnyConvert
  imports Convert Floats Utf8 Login
begin

text \<open>
  \<open>EasySwapBase/kit/convert/convert.go\<close>: conversions of a value of any type (\<open>interface{}\<close>), of numbers to bytes and
  hexadecimal digits, and of structures to maps. The notation of floating-point numbers (\<open>strconv.ParseFloat\<close>,
  \<open>FormatFloat\<close>), \<open>fmt.Sprint\<close> and what a processor makes of a float outside the range of an integer are parameters.
\<close>

section \<open>Values\<close>

datatype width = W | W8 | W16 | W32 | W64

text \<open>The last constructor is a value of a type the switches do not name, with its text and whether it is the zero value; the
  integers carry the width of their type. A nil slice of bytes or runes is \<open>None\<close>.\<close>

datatype anyval = AnyNil | AnyInt width int | AnyUint width int | AnyUintptr int | AnyFloat32 float64 | AnyFloat64 float64
  | AnyComplex64 float64 float64 | AnyComplex128 float64 float64 | AnyBool bool | AnyString string | AnyBytes "8 word list option"
  | AnyRunes "int list option" | AnyOther string bool

definition slice_elems :: "'a list option \<Rightarrow> 'a list" where
  "slice_elems v = (case v of None \<Rightarrow> [] | Some xs \<Rightarrow> xs)"

record float_env =
  ParseFloat :: "string \<Rightarrow> float64"
  FormatFloat :: "float64 \<Rightarrow> string"
  FormatFloat32 :: "float64 \<Rightarrow> string"
  int_of_big :: "float64 \<Rightarrow> int"
  uint_of_big :: "float64 \<Rightarrow> int"

datatype kit_panic = Runtime go_panic | PanicText string

section \<open>Bytes\<close>

text \<open>\<open>binary.BigEndian.Uint64\<close> reads eight bytes; a shorter slice is an index out of range.\<close>

definition BytesToUint64 :: "bytes \<Rightarrow> kit_panic + u64" where
  "BytesToUint64 bs = (if length bs < 8 then Inl (Runtime IndexOutOfRange)
     else Inr (foldl (\<lambda>w b. or (push_bit 8 w) (ucast b)) 0 (take 8 bs)))"

definition BytesToInt64 :: "bytes \<Rightarrow> kit_panic + int" where
  "BytesToInt64 bs = map_sum (\<lambda>p. p) int64_of (BytesToUint64 bs)"

definition Uint64ToBytes :: "u64 \<Rightarrow> bytes" where
  "Uint64ToBytes i = map (\<lambda>k. ucast (drop_bit (8 * (7 - k)) i)) [0..<8]"

definition Int64ToBytes :: "int \<Rightarrow> bytes" where
  "Int64ToBytes i = Uint64ToBytes (word_of_int i)"

text \<open>The bits of a \<open>float64\<close>. Of the patterns that are not a number, Go's is written.\<close>

definition Float64frombits :: "u64 \<Rightarrow> float64" where
  "Float64frombits w = (let neg = bit w 63; e = unat (and (drop_bit 52 w) 2047); m = uint (and w (mask 52)) in
     if e = 2047 then (if m = 0 then Infinite neg else NaN)
     else if e = 0 then Number neg (of_int m * pow2 (- 1074))
     else Number neg (of_int (m + 2 ^ 52) * pow2 (int e - 1075)))"

definition Float64bits :: "float64 \<Rightarrow> u64" where
  "Float64bits f = (case f of
       NaN \<Rightarrow> 9221120237041090561
     | Infinite neg \<Rightarrow> or (if neg then push_bit 63 1 else 0) (push_bit 52 2047)
     | Number neg x \<Rightarrow> or (if neg then push_bit 63 1 else 0)
         (if x < pow2 (- 1022) then word_of_int \<lfloor>x / pow2 (- 1074)\<rfloor>
          else let k = ilog2 x in word_of_int ((k + 1023) * 2 ^ 52 + (\<lfloor>x / pow2 (k - 52)\<rfloor> - 2 ^ 52))))"

definition BytesToFloat64 :: "bytes \<Rightarrow> kit_panic + float64" where
  "BytesToFloat64 bs = map_sum (\<lambda>p. p) Float64frombits (BytesToUint64 bs)"

definition Float64ToBytes :: "float64 \<Rightarrow> bytes" where
  "Float64ToBytes f = Uint64ToBytes (Float64bits f)"

section \<open>Hexadecimal digits\<close>

text \<open>\<open>hex.Decode\<close> gives the bytes in front of the first error, and whether there was one.\<close>

fun hex_decode :: "string \<Rightarrow> bytes \<times> bool" where
  "hex_decode [] = ([], True)"
| "hex_decode [c] = ([], False)"
| "hex_decode (a # b # s) = (if is_hex a \<and> is_hex b
     then let (bs, ok) = hex_decode s in (word_of_nat (hex_value a * 16 + hex_value b) # bs, ok) else ([], False))"

definition BytesEncodeHex :: "bytes \<Rightarrow> string" where
  "BytesEncodeHex bs = EncodeToString bs"

definition HexDecodeBytes :: "string \<Rightarrow> bytes" where
  "HexDecodeBytes h = fst (hex_decode h)"

definition BytesEncodeHexs :: "bytes \<Rightarrow> bytes" where
  "BytesEncodeHexs bs = string_bytes (EncodeToString bs)"

definition HexsDecodeBytes :: "bytes \<Rightarrow> bytes option" where
  "HexsDecodeBytes hs = (case hex_decode (bytes_string hs) of (bs, ok) \<Rightarrow> if ok then Some bs else None)"

section \<open>Values of any type\<close>

definition before_dot :: "string \<Rightarrow> string" where
  "before_dot v = takeWhile (\<lambda>c. c \<noteq> CHR ''.'') (TrimSpace v)"

fun ToInt64_any :: "float_env \<Rightarrow> anyval \<Rightarrow> kit_panic + int" where
  "ToInt64_any e (AnyInt _ v) = Inr v"
| "ToInt64_any e (AnyUint _ v) = Inr (wrap64 v)"
| "ToInt64_any e (AnyUintptr v) = Inr (wrap64 v)"
| "ToInt64_any e (AnyFloat32 v) = Inr (fl_to_int64 (int_of_big e) v)"
| "ToInt64_any e (AnyFloat64 v) = Inr (fl_to_int64 (int_of_big e) v)"
| "ToInt64_any e (AnyComplex64 re _) = Inr (fl_to_int64 (int_of_big e) re)"
| "ToInt64_any e (AnyComplex128 re _) = Inr (fl_to_int64 (int_of_big e) re)"
| "ToInt64_any e (AnyBool v) = Inr (if v then 1 else 0)"
| "ToInt64_any e (AnyString v) = Inr (fst (ParseInt 10 (before_dot v)))"
| "ToInt64_any e (AnyBytes v) = BytesToInt64 (slice_elems v)"
| "ToInt64_any e _ = Inr 0"

fun ToUint64_any :: "float_env \<Rightarrow> anyval \<Rightarrow> kit_panic + int" where
  "ToUint64_any e (AnyInt _ v) = Inr (v mod 2 ^ 64)"
| "ToUint64_any e (AnyUint _ v) = Inr v"
| "ToUint64_any e (AnyUintptr v) = Inr v"
| "ToUint64_any e (AnyFloat32 v) = Inr (fl_to_uint64 (uint_of_big e) v)"
| "ToUint64_any e (AnyFloat64 v) = Inr (fl_to_uint64 (uint_of_big e) v)"
| "ToUint64_any e (AnyComplex64 re _) = Inr (fl_to_uint64 (uint_of_big e) re)"
| "ToUint64_any e (AnyComplex128 re _) = Inr (fl_to_uint64 (uint_of_big e) re)"
| "ToUint64_any e (AnyBool v) = Inr (if v then 1 else 0)"
| "ToUint64_any e (AnyString v) = Inr (int (fst (ParseUint 10 (before_dot v))))"
| "ToUint64_any e (AnyBytes v) = map_sum (\<lambda>p. p) uint (BytesToUint64 (slice_elems v))"
| "ToUint64_any e _ = Inr 0"

fun ToFloat64_any :: "float_env \<Rightarrow> anyval \<Rightarrow> kit_panic + float64" where
  "ToFloat64_any e (AnyInt _ v) = Inr (fl_of_int v)"
| "ToFloat64_any e (AnyUint _ v) = Inr (fl_of_int v)"
| "ToFloat64_any e (AnyUintptr v) = Inr (fl_of_int v)"
| "ToFloat64_any e (AnyFloat32 v) = Inr v"
| "ToFloat64_any e (AnyFloat64 v) = Inr v"
| "ToFloat64_any e (AnyComplex64 re _) = Inr re"
| "ToFloat64_any e (AnyComplex128 re _) = Inr re"
| "ToFloat64_any e (AnyBool v) = Inr (if v then fl_of_int 1 else fl_of_int 0)"
| "ToFloat64_any e (AnyString v) = Inr (ParseFloat e (TrimSpace v))"
| "ToFloat64_any e (AnyBytes v) = BytesToFloat64 (slice_elems v)"
| "ToFloat64_any e _ = Inr (Number False 0)"

definition ToFloat_any :: "float_env \<Rightarrow> anyval \<Rightarrow> kit_panic + float64" where
  "ToFloat_any e src = ToFloat64_any e src"

definition ToFloat32_any :: "float_env \<Rightarrow> anyval \<Rightarrow> kit_panic + float64" where
  "ToFloat32_any e src = map_sum (\<lambda>p. p) to_float32 (ToFloat64_any e src)"

definition ToInt_any :: "float_env \<Rightarrow> anyval \<Rightarrow> kit_panic + int" where
  "ToInt_any e src = ToInt64_any e src"

definition wrap32 :: "int \<Rightarrow> int" where
  "wrap32 x = (x + 2 ^ 31) mod 2 ^ 32 - 2 ^ 31"

definition ToInt32_any :: "float_env \<Rightarrow> anyval \<Rightarrow> kit_panic + int" where
  "ToInt32_any e src = map_sum (\<lambda>p. p) wrap32 (ToInt64_any e src)"

definition ToUint_any :: "float_env \<Rightarrow> anyval \<Rightarrow> kit_panic + int" where
  "ToUint_any e src = ToUint64_any e src"

definition ToUint32_any :: "float_env \<Rightarrow> anyval \<Rightarrow> kit_panic + int" where
  "ToUint32_any e src = map_sum (\<lambda>p. p) (\<lambda>i. i mod 2 ^ 32) (ToUint64_any e src)"

text \<open>\<open>string\<close> of runes writes the replacement character for an invalid one; \<open>rune_bytes\<close> does.\<close>

definition FormatBool :: "bool \<Rightarrow> string" where
  "FormatBool b = (if b then ''true'' else ''false'')"

fun ToString_any :: "float_env \<Rightarrow> anyval \<Rightarrow> string" where
  "ToString_any e (AnyInt _ v) = format_int 10 v"
| "ToString_any e (AnyUint _ v) = nat_text 10 (nat v)"
| "ToString_any e (AnyUintptr v) = nat_text 10 (nat v)"
| "ToString_any e (AnyFloat32 v) = FormatFloat e v"
| "ToString_any e (AnyFloat64 v) = FormatFloat e v"
| "ToString_any e (AnyComplex64 re _) = FormatFloat e re"
| "ToString_any e (AnyComplex128 re _) = FormatFloat e re"
| "ToString_any e (AnyString v) = v"
| "ToString_any e (AnyBytes v) = bytes_string (slice_elems v)"
| "ToString_any e (AnyRunes v) = bytes_string (concat (map rune_bytes (slice_elems v)))"
| "ToString_any e (AnyBool v) = FormatBool v"
| "ToString_any e AnyNil = ''''"
| "ToString_any e (AnyOther text _) = text"

definition ParseBool :: "string \<Rightarrow> bool option" where
  "ParseBool s = (if s \<in> {''1'', ''t'', ''T'', ''true'', ''TRUE'', ''True''} then Some True
     else if s \<in> {''0'', ''f'', ''F'', ''false'', ''FALSE'', ''False''} then Some False else None)"

definition parses_true :: "string \<Rightarrow> bool" where
  "parses_true s \<longleftrightarrow> ParseBool s = Some True"

fun ToBool_any :: "float_env \<Rightarrow> anyval \<Rightarrow> bool" where
  "ToBool_any e (AnyInt _ v) = (0 < v)"
| "ToBool_any e (AnyUint _ v) = (0 < v)"
| "ToBool_any e (AnyUintptr v) = (0 < v)"
| "ToBool_any e (AnyFloat32 v) = fl_less (Number False 0) v"
| "ToBool_any e (AnyFloat64 v) = fl_less (Number False 0) v"
| "ToBool_any e (AnyComplex64 re _) = fl_less (Number False 0) re"
| "ToBool_any e (AnyComplex128 re _) = fl_less (Number False 0) re"
| "ToBool_any e (AnyBool v) = v"
| "ToBool_any e (AnyString v) = parses_true v"
| "ToBool_any e (AnyBytes v) = parses_true (bytes_string (slice_elems v))"
| "ToBool_any e (AnyRunes v) = parses_true (bytes_string (concat (map rune_bytes (slice_elems v))))"
| "ToBool_any e _ = False"

section \<open>Structures\<close>

text \<open>A value as reflection sees it: a plain value, a pointer, a field of an interface type, a structure. A field has its
  name, its \<open>json\<close> tag, and whether it is exported; the value of one that is not cannot be taken.\<close>

datatype gvalue = Plain anyval | Pointer "gvalue option" | Iface "gvalue option" | Struct "gfield list"
  and gfield = Field string string bool gvalue

text \<open>Following pointers; \<open>None\<close> is the invalid value of a nil pointer.\<close>

fun elem :: "gvalue \<Rightarrow> gvalue option" where
  "elem (Pointer None) = None"
| "elem (Pointer (Some v)) = elem v"
| "elem v = Some v"

definition isStruct :: "gvalue \<Rightarrow> gfield list option" where
  "isStruct i = (case elem i of Some (Struct fs) \<Rightarrow> Some fs | _ \<Rightarrow> None)"

definition getStructFieldName :: "string \<Rightarrow> string \<Rightarrow> string" where
  "getStructFieldName name tag = (let tagged = takeWhile (\<lambda>c. c \<noteq> CHR '','') tag in
     if tagged = ''-'' then '''' else if tagged = '''' then name else tagged)"

definition float_zero :: "float64 \<Rightarrow> bool" where
  "float_zero f \<longleftrightarrow> f = Number False 0"

fun any_zero :: "anyval \<Rightarrow> bool" where
  "any_zero (AnyInt _ v) \<longleftrightarrow> v = 0"
| "any_zero (AnyUint _ v) \<longleftrightarrow> v = 0"
| "any_zero (AnyUintptr v) \<longleftrightarrow> v = 0"
| "any_zero (AnyFloat32 v) \<longleftrightarrow> float_zero v"
| "any_zero (AnyFloat64 v) \<longleftrightarrow> float_zero v"
| "any_zero (AnyComplex64 re im) \<longleftrightarrow> float_zero re \<and> float_zero im"
| "any_zero (AnyComplex128 re im) \<longleftrightarrow> float_zero re \<and> float_zero im"
| "any_zero (AnyBool v) \<longleftrightarrow> \<not> v"
| "any_zero (AnyString v) \<longleftrightarrow> v = ''''"
| "any_zero (AnyOther _ z) \<longleftrightarrow> z"
| "any_zero (AnyBytes v) \<longleftrightarrow> v = None"
| "any_zero (AnyRunes v) \<longleftrightarrow> v = None"
| "any_zero AnyNil \<longleftrightarrow> True"

fun IsZero :: "gvalue \<Rightarrow> bool" where
  "IsZero (Plain v) \<longleftrightarrow> any_zero v"
| "IsZero (Pointer p) \<longleftrightarrow> p = None"
| "IsZero (Iface p) \<longleftrightarrow> p = None"
| "IsZero (Struct fs) \<longleftrightarrow> list_all (\<lambda>f. case f of Field _ _ _ v \<Rightarrow> IsZero v) fs"

fun interface_of :: "gvalue \<Rightarrow> gvalue" where
  "interface_of (Iface None) = Plain AnyNil"
| "interface_of (Iface (Some v)) = v"
| "interface_of v = v"

definition reflect_panic :: kit_panic where
  "reflect_panic = PanicText ''reflect: cannot return value obtained from unexported field or method''"

text \<open>The loop over the fields that the two conversions share; \<open>conv\<close> is what they store of a valid value and \<open>missing\<close> of a
  nil pointer.\<close>

fun fields_map :: "(gvalue \<Rightarrow> 'a) \<Rightarrow> 'a \<Rightarrow> bool \<Rightarrow> gfield list \<Rightarrow> (string \<rightharpoonup> 'a) \<Rightarrow> kit_panic + (string \<rightharpoonup> 'a)" where
  "fields_map conv missing ignore [] m = Inr m"
| "fields_map conv missing ignore (Field fname tag exported v # fs) m =
     (let name = getStructFieldName fname tag in
      if name = '''' then fields_map conv missing ignore fs m
      else case elem v of
        Some f \<Rightarrow> if ignore \<and> IsZero f then fields_map conv missing ignore fs m
          else if \<not> exported then Inl reflect_panic
          else fields_map conv missing ignore fs (m(name \<mapsto> conv (interface_of f)))
      | None \<Rightarrow> if ignore then fields_map conv missing ignore fs m
          else fields_map conv missing ignore fs (m(name \<mapsto> missing)))"

definition first_flag :: "bool list \<Rightarrow> bool" where
  "first_flag ignoreZeroValue = (case ignoreZeroValue of [] \<Rightarrow> False | b # _ \<Rightarrow> b)"

definition StructToInterfaceMap :: "gvalue \<Rightarrow> bool list \<Rightarrow> kit_panic + (string \<rightharpoonup> gvalue)" where
  "StructToInterfaceMap s ignoreZeroValue = (case isStruct s of None \<Rightarrow> Inr Map.empty
     | Some fs \<Rightarrow> fields_map (\<lambda>v. v) (Plain AnyNil) (first_flag ignoreZeroValue) fs Map.empty)"

text \<open>\<open>ToString\<close> of a value that is not plain is \<open>fmt.Sprint\<close>.\<close>

definition value_string :: "float_env \<Rightarrow> (gvalue \<Rightarrow> string) \<Rightarrow> gvalue \<Rightarrow> string" where
  "value_string e sprint v = (case v of Plain a \<Rightarrow> ToString_any e a | _ \<Rightarrow> sprint v)"

definition StructToStringMap :: "float_env \<Rightarrow> (gvalue \<Rightarrow> string) \<Rightarrow> gvalue \<Rightarrow> bool list \<Rightarrow> kit_panic + (string \<rightharpoonup> string)" where
  "StructToStringMap e sprint s ignoreZeroValue = (case isStruct s of None \<Rightarrow> Inr Map.empty
     | Some fs \<Rightarrow> fields_map (value_string e sprint) '''' (first_flag ignoreZeroValue) fs Map.empty)"

section \<open>Properties\<close>

lemma bit_big_endian:
  "n < 64 \<Longrightarrow> bit (foldl (\<lambda>w b. or (push_bit 8 w) (ucast b)) (0::u64) (bs :: bytes)) n \<longleftrightarrow>
     n < 8 * length bs \<and> bit (rev bs ! (n div 8)) (n mod 8)"
proof (induction bs arbitrary: n rule: rev_induct)
  case (snoc b bs)
  show ?case
  proof (cases "n < 8")
    case True
    then show ?thesis by (simp add: bit_or_iff bit_push_bit_iff bit_ucast_iff)
  next
    case False
    have "\<not> bit b n" using False bit_imp_le_length [of b n] by auto
    moreover have "n div 8 = Suc ((n - 8) div 8)" "n mod 8 = (n - 8) mod 8" using False by (simp_all add: le_div_geq le_mod_geq)
    ultimately show ?thesis using False snoc by (auto simp: bit_or_iff bit_push_bit_iff bit_ucast_iff)
  qed
qed simp

lemma Uint64ToBytes_nth: "k < 8 \<Longrightarrow> rev (Uint64ToBytes i) ! k = ucast (drop_bit (8 * k) i)"
  using nth_upt [of 0 "7 - k" 8] by (simp add: Uint64ToBytes_def rev_nth del: upt_Suc)
lemma length_Uint64ToBytes [simp]: "length (Uint64ToBytes i) = 8"
  by (simp add: Uint64ToBytes_def)

lemma BytesToUint64_read_back: "BytesToUint64 (Uint64ToBytes i @ rest) = Inr i"
proof -
  have "bit (foldl (\<lambda>w b. or (push_bit 8 w) (ucast b)) (0::u64) (Uint64ToBytes i)) n \<longleftrightarrow> bit i n" if n: "n < 64" for n
  proof -
    have k: "n div 8 < 8" using n by simp
    have "8 * (n div 8) + n mod 8 = n" by simp
    then show ?thesis using n Uint64ToBytes_nth [OF k]
      by (simp add: bit_big_endian bit_ucast_iff bit_drop_bit_eq)
  qed
  then have "foldl (\<lambda>w b. or (push_bit 8 w) (ucast b)) (0::u64) (Uint64ToBytes i) = i" by (intro bit_word_eqI) simp
  then show ?thesis by (simp add: BytesToUint64_def)
qed

lemma BytesToInt64_read_back: "in_i64 i \<Longrightarrow> BytesToInt64 (Int64ToBytes i) = Inr i"
  using BytesToUint64_read_back [of "word_of_int i" "[]"]
  by (simp add: BytesToInt64_def Int64ToBytes_def int64_of_def in_i64_def signed_of_int signed_take_bit_int_eq_self)

lemma hex_decode_encode: "hex_decode (EncodeToString bs) = (bs, True)"
proof (induction bs)
  case (Cons b bs)
  have "unat b div 16 < 16" using unsigned_less [of b, where ?'a = nat] by (simp add: less_mult_imp_div_less)
  moreover have "unat b div 16 * 16 + unat b mod 16 = unat b" by simp
  ultimately show ?case using Cons hex_digit_value [of "unat b div 16"] hex_digit_value [of "unat b mod 16"]
    by (simp add: EncodeToString_def)
qed (simp add: EncodeToString_def)

text \<open>Hexadecimal digits are read back, also those written as bytes.\<close>

lemma hex_read_back: "HexDecodeBytes (BytesEncodeHex bs) = bs" "HexsDecodeBytes (BytesEncodeHexs bs) = Some bs"
  by (simp_all add: HexDecodeBytes_def BytesEncodeHex_def HexsDecodeBytes_def BytesEncodeHexs_def hex_decode_encode
      bytes_string_bytes)

text \<open>Numbers written in a base are read back from it.\<close>

lemma bases_read_back:
  assumes "in_i64 i"
  shows "BinToDec (DecToBin i) = i" "HexToDec (DecToHex i) = i" "HexToBin (DecToHex i) = DecToBin i"
    "BinToHex (DecToBin i) = DecToHex i"
  using ParseInt_format_int [of 2 i] ParseInt_format_int [of 16 i] assms
  by (simp_all add: BinToDec_def DecToBin_def HexToDec_def DecToHex_def HexToBin_def BinToHex_def no_prefix_bin no_prefix_hex)

text \<open>\<open>ToInt64\<close> of a text is the one of \<open>Convert\<close>.\<close>

lemma ToInt64_any_text: "ToInt64_any e (AnyString s) = Inr (Convert.ToInt64 s)"
  by (simp add: Convert.ToInt64_def parse_int64_def before_dot_def)

text \<open>The two maps of a structure have the same keys, and the strings are those of the values.\<close>

definition map_values :: "('a \<Rightarrow> 'b) \<Rightarrow> (string \<rightharpoonup> 'a) \<Rightarrow> (string \<rightharpoonup> 'b)" where
  "map_values f m = (\<lambda>k. map_option f (m k))"

lemma map_values_upd: "(map_values f m)(name \<mapsto> f x) = map_values f (m(name \<mapsto> x))"
  by (auto simp: map_values_def)

lemma map_values_empty [simp]: "map_values f Map.empty = Map.empty"
  by (simp add: map_values_def)

lemma fields_map_image:
  "fields_map (\<lambda>v. f (conv v)) (f missing) ignore fs (map_values f m) =
     map_sum (\<lambda>p. p) (map_values f) (fields_map conv missing ignore fs m)"
proof (induction fs arbitrary: m)
  case (Cons fld fs)
  obtain fname tag exported v where fld: "fld = Field fname tag exported v" by (cases fld)
  show ?case
    using Cons.IH by (cases ignore) (simp_all add: fld Let_def map_values_upd split: option.split, simp_all add: fun_upd_def)
qed simp

lemma string_map_of_interface_map:
  "StructToStringMap e sprint s flags =
     map_sum (\<lambda>p. p) (map_values (value_string e sprint)) (StructToInterfaceMap s flags)"
proof -
  have "value_string e sprint (Plain AnyNil) = ''''" by (simp add: value_string_def)
  then show ?thesis
    using fields_map_image [of "value_string e sprint" "\<lambda>v. v" "Plain AnyNil" "first_flag flags" _ Map.empty]
    by (simp add: StructToStringMap_def StructToInterfaceMap_def split: option.split)
qed

end
