(* ===== verification/MathKit.thy ===== *)
theory MathKit
  imports AnyConvert
begin

text \<open>
  \<open>EasySwapBase/kit/math/math.go\<close>: comparison of floating-point numbers up to a number of places, ranges, extremes,
  sums and averages, formats of sizes and of numbers with grouped thousands. Integers are 64-bit numbers, computed with
  \<open>wrap64\<close>. The decimal library that rounds (\<open>shopspring/decimal\<close>) and the random generator are parameters.
\<close>

record decimal_env =
  dec_Round :: "float64 \<Rightarrow> int \<Rightarrow> kit_panic + float64"
  dec_RoundBank :: "float64 \<Rightarrow> int \<Rightarrow> kit_panic + float64"
  dec_StringFixed :: "float64 \<Rightarrow> int \<Rightarrow> kit_panic + string"
  dec_StringFixedBank :: "float64 \<Rightarrow> int \<Rightarrow> kit_panic + string"

definition floatPlaces :: int where "floatPlaces = 9"
definition floatSeparator :: string where "floatSeparator = '',''"

definition sizeUnits :: "string list" where
  "sizeUnits = [''B'', ''KB'', ''MB'', ''GB'', ''TB'', ''PB'', ''EB'', ''ZB'', ''YB'', ''BB'', ''NB'', ''DB'', ''CB'', ''XB'', ''UnKnown'']"

section \<open>Rounding and signs\<close>

definition Round :: "decimal_env \<Rightarrow> float64 \<Rightarrow> int \<Rightarrow> kit_panic + float64" where
  "Round d f places = dec_Round d f (wrap32 places)"

definition RoundBank :: "decimal_env \<Rightarrow> float64 \<Rightarrow> int \<Rightarrow> kit_panic + float64" where
  "RoundBank d f places = dec_RoundBank d f (wrap32 places)"

definition RoundToString :: "decimal_env \<Rightarrow> float64 \<Rightarrow> int \<Rightarrow> kit_panic + string" where
  "RoundToString d f places = dec_StringFixed d f (wrap32 places)"

definition RoundBankToString :: "decimal_env \<Rightarrow> float64 \<Rightarrow> int \<Rightarrow> kit_panic + string" where
  "RoundBankToString d f places = dec_StringFixedBank d f (wrap32 places)"

text \<open>Only the positive zero has no bit set.\<close>

definition Sign :: "float64 \<Rightarrow> int" where
  "Sign f = (if f \<noteq> Number False 0 then (if fl_less (Number False 0) f then 1 else - 1) else 0)"

definition IsPositive :: "float64 \<Rightarrow> bool" where "IsPositive f \<longleftrightarrow> Sign f = 1"
definition IsNonPositive :: "float64 \<Rightarrow> bool" where "IsNonPositive f \<longleftrightarrow> Sign f = - 1 \<or> Sign f = 0"
definition IsNegative :: "float64 \<Rightarrow> bool" where "IsNegative f \<longleftrightarrow> Sign f = - 1"
definition IsNonNegative :: "float64 \<Rightarrow> bool" where "IsNonNegative f \<longleftrightarrow> Sign f = 1 \<or> Sign f = 0"
definition IsZeroFloat :: "float64 \<Rightarrow> bool" where "IsZeroFloat f \<longleftrightarrow> Sign f = 0"

section \<open>Comparison\<close>

definition compare_places :: "int list \<Rightarrow> int" where
  "compare_places places = (case places of p # _ \<Rightarrow> if 1 \<le> p then p else floatPlaces | [] \<Rightarrow> floatPlaces)"

definition Compare :: "float64 \<Rightarrow> float64 \<Rightarrow> int list \<Rightarrow> int" where
  "Compare f1 f2 places = (let isEqual = fl_le (fl_abs (fl_sub f1 f2)) (Pow10 (wrap64 (- compare_places places)))
     in if \<not> isEqual then (if fl_less f2 f1 then 1 else - 1) else 0)"

definition EqualFloat :: "float64 \<Rightarrow> float64 \<Rightarrow> int list \<Rightarrow> bool" where
  "EqualFloat f1 f2 places \<longleftrightarrow> Compare f1 f2 places = 0"

definition GreaterThan :: "float64 \<Rightarrow> float64 \<Rightarrow> int list \<Rightarrow> bool" where
  "GreaterThan f1 f2 places \<longleftrightarrow> Compare f1 f2 places = 1"

definition LessThan :: "float64 \<Rightarrow> float64 \<Rightarrow> int list \<Rightarrow> bool" where
  "LessThan f1 f2 places \<longleftrightarrow> Compare f1 f2 places = - 1"

definition GreaterThanOrEqual :: "float64 \<Rightarrow> float64 \<Rightarrow> int list \<Rightarrow> bool" where
  "GreaterThanOrEqual f1 f2 places \<longleftrightarrow> (let cmp = Compare f1 f2 places in cmp = 1 \<or> cmp = 0)"

definition LessThanOrEqual :: "float64 \<Rightarrow> float64 \<Rightarrow> int list \<Rightarrow> bool" where
  "LessThanOrEqual f1 f2 places \<longleftrightarrow> (let cmp = Compare f1 f2 places in cmp = - 1 \<or> cmp = 0)"

definition IsOdd :: "int \<Rightarrow> bool" where "IsOdd num \<longleftrightarrow> go_rem num 2 \<noteq> 0"
definition IsEven :: "int \<Rightarrow> bool" where "IsEven num \<longleftrightarrow> go_rem num 2 = 0"

section \<open>Ranges\<close>

text \<open>The loops add the step before they test for the end, and the addition can wrap around: a range near the end of the
  integers may never be complete, and then the code runs out of memory. \<open>None\<close> is such a run.\<close>

partial_function (option) range_up :: "int \<Rightarrow> int \<Rightarrow> int \<Rightarrow> int list option" where
  "range_up s stop start = (let next = wrap64 (start + s) in
     if stop \<le> next then Some [start] else Option.bind (range_up s stop next) (\<lambda>rest. Some (start # rest)))"

partial_function (option) range_down :: "int \<Rightarrow> int \<Rightarrow> int \<Rightarrow> int list option" where
  "range_down s stop start = (let next = wrap64 (start + s) in
     if next \<le> stop then Some [start] else Option.bind (range_down s stop next) (\<lambda>rest. Some (start # rest)))"

definition RangeInt64 :: "int \<Rightarrow> int \<Rightarrow> int list \<Rightarrow> int list option" where
  "RangeInt64 start stop step =
     (if start < stop then range_up (case step of s # _ \<Rightarrow> if 1 < s then s else 1 | [] \<Rightarrow> 1) stop start
      else if stop < start then range_down (case step of s # _ \<Rightarrow> if s < - 1 then s else - 1 | [] \<Rightarrow> - 1) stop start
      else Some [])"

definition RangeInt :: "int \<Rightarrow> int \<Rightarrow> int list \<Rightarrow> int list option" where
  "RangeInt start stop step =
     (if start < stop then range_up (case step of s # _ \<Rightarrow> if 1 < s then s else 1 | [] \<Rightarrow> 1) stop start
      else if stop < start then range_down (case step of s # _ \<Rightarrow> if s < - 1 then s else - 1 | [] \<Rightarrow> - 1) stop start
      else Some [])"

partial_function (option) frange_up :: "float64 \<Rightarrow> float64 \<Rightarrow> float64 \<Rightarrow> float64 list option" where
  "frange_up s stop start = (let next = fl_add start s in
     if GreaterThanOrEqual next stop [] then Some [start] else Option.bind (frange_up s stop next) (\<lambda>rest. Some (start # rest)))"

partial_function (option) frange_down :: "float64 \<Rightarrow> float64 \<Rightarrow> float64 \<Rightarrow> float64 list option" where
  "frange_down s stop start = (let next = fl_add start s in
     if LessThanOrEqual next stop [] then Some [start] else Option.bind (frange_down s stop next) (\<lambda>rest. Some (start # rest)))"

definition RangeFloat64 :: "float64 \<Rightarrow> float64 \<Rightarrow> float64 list \<Rightarrow> float64 list option" where
  "RangeFloat64 start stop step =
     (if fl_less start stop then
        frange_up (case step of s # _ \<Rightarrow> if fl_less (Number False 0) s then s else fl_of_int 1 | [] \<Rightarrow> fl_of_int 1) stop start
      else if fl_less stop start then
        frange_down (case step of s # _ \<Rightarrow> if fl_less s (Number False 0) then s else fl_of_int (- 1) | [] \<Rightarrow> fl_of_int (- 1)) stop start
      else Some [])"

definition RangeFloat :: "float64 \<Rightarrow> float64 \<Rightarrow> float64 list \<Rightarrow> float64 list option" where
  "RangeFloat start stop step = RangeFloat64 start stop step"

section \<open>Random numbers\<close>

text \<open>\<open>rand.Intn\<close> and \<open>Int63n\<close> panic for a bound that is not positive, which the difference is when it wraps around.\<close>

definition min_above_max :: kit_panic where
  "min_above_max = PanicText ''math: min cannot be greater than max''"

definition Int63n :: "(int \<Rightarrow> int) \<Rightarrow> int \<Rightarrow> kit_panic + int" where
  "Int63n rand n = (if n \<le> 0 then Inl (PanicText ''invalid argument'') else Inr (rand n))"

definition RandInt64 :: "(int \<Rightarrow> int) \<Rightarrow> int \<Rightarrow> int \<Rightarrow> kit_panic + int" where
  "RandInt64 rand lo hi = (if hi < lo then Inl min_above_max else if lo = hi then Inr lo
     else map_sum (\<lambda>p. p) (\<lambda>r. wrap64 (r + lo)) (Int63n rand (wrap64 (hi - lo))))"

definition RandInt :: "(int \<Rightarrow> int) \<Rightarrow> int \<Rightarrow> int \<Rightarrow> kit_panic + int" where
  "RandInt rand lo hi = (if hi < lo then Inl min_above_max else if lo = hi then Inr lo
     else map_sum (\<lambda>p. p) (\<lambda>r. wrap64 (r + lo)) (Int63n rand (wrap64 (hi - lo))))"

definition RandFloat64 :: "float64 \<Rightarrow> float64 \<Rightarrow> float64 \<Rightarrow> kit_panic + float64" where
  "RandFloat64 rand lo hi = (if fl_less hi lo then Inl min_above_max else Inr (fl_add (fl_mul rand (fl_sub hi lo)) lo))"

definition RandFloat :: "float64 \<Rightarrow> float64 \<Rightarrow> float64 \<Rightarrow> kit_panic + float64" where
  "RandFloat rand lo hi = RandFloat64 rand lo hi"

section \<open>Extremes\<close>

definition no_numbers :: kit_panic where
  "no_numbers = PanicText ''math: nums length cannot be less than 1''"

text \<open>The numbers of a list of values of any type; the first that cannot be read panics.\<close>

fun all_floats :: "float_env \<Rightarrow> anyval list \<Rightarrow> kit_panic + float64 list" where
  "all_floats e [] = Inr []"
| "all_floats e (v # vs) = (case ToFloat64_any e v of Inl p \<Rightarrow> Inl p
     | Inr f \<Rightarrow> map_sum (\<lambda>p. p) ((#) f) (all_floats e vs))"

definition MaxFloat64 :: "float64 list \<Rightarrow> kit_panic + float64" where
  "MaxFloat64 nums = (case nums of [] \<Rightarrow> Inl no_numbers | n # _ \<Rightarrow> Inr (foldl fl_max n nums))"

definition MaxFloat :: "float64 list \<Rightarrow> kit_panic + float64" where
  "MaxFloat nums = MaxFloat64 nums"

definition MaxAny :: "float_env \<Rightarrow> anyval list \<Rightarrow> kit_panic + float64" where
  "MaxAny e nums = (if nums = [] then Inl no_numbers
     else case all_floats e nums of Inl p \<Rightarrow> Inl p | Inr fs \<Rightarrow> Inr (foldl fl_max (hd fs) fs))"

definition MinFloat64 :: "float64 list \<Rightarrow> kit_panic + float64" where
  "MinFloat64 nums = (case nums of [] \<Rightarrow> Inl no_numbers | n # _ \<Rightarrow> Inr (foldl fl_min n nums))"

definition MinFloat :: "float64 list \<Rightarrow> kit_panic + float64" where
  "MinFloat nums = MinFloat64 nums"

definition MinAny :: "float_env \<Rightarrow> anyval list \<Rightarrow> kit_panic + float64" where
  "MinAny e nums = (if nums = [] then Inl no_numbers
     else case all_floats e nums of Inl p \<Rightarrow> Inl p | Inr fs \<Rightarrow> Inr (foldl fl_min (hd fs) fs))"

definition MaxInt64 :: "int list \<Rightarrow> kit_panic + int" where
  "MaxInt64 nums = (case nums of [] \<Rightarrow> Inl no_numbers
     | n # _ \<Rightarrow> Inr (foldl (\<lambda>m num. if m < num then num else m) n nums))"

definition MaxInt :: "int list \<Rightarrow> kit_panic + int" where
  "MaxInt nums = (case nums of [] \<Rightarrow> Inl no_numbers
     | n # _ \<Rightarrow> Inr (foldl (\<lambda>m num. if m < num then num else m) n nums))"

definition MinInt64 :: "int list \<Rightarrow> kit_panic + int" where
  "MinInt64 nums = (case nums of [] \<Rightarrow> Inl no_numbers
     | n # _ \<Rightarrow> Inr (foldl (\<lambda>m num. if num < m then num else m) n nums))"

definition MinInt :: "int list \<Rightarrow> kit_panic + int" where
  "MinInt nums = (case nums of [] \<Rightarrow> Inl no_numbers
     | n # _ \<Rightarrow> Inr (foldl (\<lambda>m num. if num < m then num else m) n nums))"

section \<open>Sums, averages, absolute values\<close>

definition SumFloat64 :: "float64 list \<Rightarrow> float64" where
  "SumFloat64 nums = foldl fl_add (Number False 0) nums"

definition SumFloat :: "float64 list \<Rightarrow> float64" where
  "SumFloat nums = foldl fl_add (Number False 0) nums"

definition SumAny :: "float_env \<Rightarrow> anyval list \<Rightarrow> kit_panic + float64" where
  "SumAny e nums = map_sum (\<lambda>p. p) (foldl fl_add (Number False 0)) (all_floats e nums)"

definition SumInt64 :: "int list \<Rightarrow> int" where
  "SumInt64 nums = foldl (\<lambda>sum num. wrap64 (sum + num)) 0 nums"

definition SumInt :: "int list \<Rightarrow> int" where
  "SumInt nums = foldl (\<lambda>sum num. wrap64 (sum + num)) 0 nums"

definition AverageFloat64 :: "float64 list \<Rightarrow> float64" where
  "AverageFloat64 nums = (if nums = [] then Number False 0 else fl_div (SumFloat64 nums) (fl_of_int (int (length nums))))"

definition AverageFloat :: "float64 list \<Rightarrow> float64" where
  "AverageFloat nums = AverageFloat64 nums"

definition AverageAny :: "float_env \<Rightarrow> anyval list \<Rightarrow> kit_panic + float64" where
  "AverageAny e nums = (if nums = [] then Inr (Number False 0)
     else map_sum (\<lambda>p. p) (\<lambda>s. fl_div s (fl_of_int (int (length nums)))) (SumAny e nums))"

definition AverageInt64 :: "int list \<Rightarrow> float64" where
  "AverageInt64 nums = (if nums = [] then Number False 0
     else fl_div (fl_of_int (SumInt64 nums)) (fl_of_int (int (length nums))))"

definition AverageInt :: "int list \<Rightarrow> float64" where
  "AverageInt nums = (if nums = [] then Number False 0
     else fl_div (fl_of_int (SumInt nums)) (fl_of_int (int (length nums))))"

definition AbsInt :: "int \<Rightarrow> int" where
  "AbsInt num = (if num < 0 then wrap64 (- num) else num)"

text \<open>The shift of a signed number copies the sign.\<close>

definition AbsInt64 :: "int \<Rightarrow> int" where
  "AbsInt64 num = (let w = word_of_int num :: u64; sgn_bits = signed_drop_bit 63 w in int64_of (xor w sgn_bits - sgn_bits))"

definition AbsFloat64 :: "float64 \<Rightarrow> float64" where
  "AbsFloat64 num = fl_abs num"

definition AbsFloat :: "float64 \<Rightarrow> float64" where
  "AbsFloat num = AbsFloat64 num"

definition Percent :: "float_env \<Rightarrow> anyval \<Rightarrow> anyval \<Rightarrow> kit_panic + float64" where
  "Percent e num tot = (case ToFloat64_any e tot of Inl p \<Rightarrow> Inl p
     | Inr t \<Rightarrow> if fl_eq t (Number False 0) then Inr (Number False 0)
       else map_sum (\<lambda>p. p) (\<lambda>n. fl_mul (fl_div n t) (fl_of_int 100)) (ToFloat64_any e num))"

section \<open>Formats\<close>

partial_function (option) size_loop :: "float64 \<Rightarrow> nat \<Rightarrow> (float64 \<times> nat) option" where
  "size_loop sz index = (if fl_le (fl_of_int 1024) sz then size_loop (fl_div sz (fl_of_int 1024)) (Suc index)
     else Some (sz, index))"

definition SizeFormat :: "decimal_env \<Rightarrow> float64 \<Rightarrow> int \<Rightarrow> string list \<Rightarrow> (kit_panic + string) option" where
  "SizeFormat d sz places separator = map_option (\<lambda>(sz, index).
     let sep = (case separator of [] \<Rightarrow> '' '' | s # _ \<Rightarrow> s);
         index = (if length sizeUnits \<le> index then length sizeUnits - 1 else index)
     in map_sum (\<lambda>p. p) (\<lambda>text. text @ sep @ sizeUnits ! index) (RoundToString d sz places)) (size_loop sz 0)"

text \<open>The digits are copied from the right into a new array, a separator before every third; an index outside the array
  panics.\<close>

definition put :: "string \<Rightarrow> int \<Rightarrow> char \<Rightarrow> kit_panic + string" where
  "put arr pos c = (if 0 \<le> pos \<and> pos < int (length arr) then Inr (arr[nat pos := c]) else Inl (Runtime IndexOutOfRange))"

fun put_all :: "string \<Rightarrow> int \<Rightarrow> string \<Rightarrow> kit_panic + string \<times> int" where
  "put_all arr pos [] = Inr (arr, pos)"
| "put_all arr pos (c # cs) = (case put arr pos c of Inl p \<Rightarrow> Inl p | Inr arr' \<Rightarrow> put_all arr' (pos - 1) cs)"

fun group_loop :: "string \<Rightarrow> string \<Rightarrow> nat \<Rightarrow> string \<Rightarrow> int \<Rightarrow> kit_panic + string" where
  "group_loop sep [] cnt arr pos = Inr arr"
| "group_loop sep (c # rest) cnt arr pos =
     (case (if 0 < length sep \<and> 0 < cnt \<and> cnt mod 3 = 0 then put_all arr pos (rev sep) else Inr (arr, pos)) of
        Inl p \<Rightarrow> Inl p
      | Inr (arr, pos) \<Rightarrow> (case put arr pos c of Inl p \<Rightarrow> Inl p | Inr arr \<Rightarrow> group_loop sep rest (cnt + 1) arr (pos - 1)))"

definition group_digits :: "string \<Rightarrow> string \<Rightarrow> kit_panic + string" where
  "group_digits sep prefix = (let preLength = int (length prefix); sepNum = go_div (preLength - 1) 3;
       len = int (length sep) * sepNum + preLength
     in group_loop sep (rev prefix) 0 (replicate (nat len) (CHR 0x00)) (len - 1))"

definition NumberFormat :: "decimal_env \<Rightarrow> float64 \<Rightarrow> int \<Rightarrow> string list \<Rightarrow> kit_panic + string" where
  "NumberFormat d num places separator = (let isNegative = fl_less num (Number False 0);
       num = (if isNegative then fl_neg num else num)
     in case RoundToString d num places of Inl p \<Rightarrow> Inl p
     | Inr roundStr \<Rightarrow> (let splits = Split roundStr ''.'' in
       if 0 < places \<and> length splits < 2 then Inl (Runtime IndexOutOfRange)
       else let prefix = (if 0 < places then splits ! 0 else roundStr); suffix = (if 0 < places then splits ! 1 else '''');
           sep = (case separator of [] \<Rightarrow> floatSeparator | s # _ \<Rightarrow> s)
         in map_sum (\<lambda>p. p) (\<lambda>result.
              let result = (if 0 < places then result @ ''.'' @ suffix else result)
              in if isNegative then ''-'' @ result else result) (group_digits sep prefix)))"

section \<open>Integers\<close>

lemma AbsInt64_is_AbsInt:
  assumes "in_i64 i"
  shows "AbsInt64 i = AbsInt i"
proof -
  define w where "w = (word_of_int i :: u64)"
  have s: "sint w = i" using assms by (simp add: w_def in_i64_def signed_of_int signed_take_bit_int_eq_self)
  have n: "sint (- w) = wrap64 (- i)"
    by (simp add: w_def wrap64_def signed_of_int signed_take_bit_eq_take_bit_shift take_bit_eq_mod flip: of_int_minus)
  have sgn: "sint (signed_drop_bit 63 w) = (if i < 0 then - 1 else 0)"
    using assms int_div_pos_eq [of i "2 ^ 63" "- 1" "i + 2 ^ 63"]
    by (simp add: sint_signed_drop_bit_eq s drop_bit_eq_div in_i64_def)
  then have sgn': "signed_drop_bit 63 w = (if i < 0 then - 1 else 0)"
    by (metis signed_0 signed_minus_1 signed_word_eqI)
  show ?thesis
  proof (cases "i < 0")
    case True
    have "xor w (- 1) - (- 1) = - w" by (simp add: not_eq_complement)
    then show ?thesis using True sgn' n by (simp add: AbsInt64_def AbsInt_def Let_def int64_of_def flip: w_def)
  next
    case False
    then show ?thesis using sgn' s by (simp add: AbsInt64_def AbsInt_def Let_def int64_of_def flip: w_def)
  qed
qed

lemma SumInt64_sum: "SumInt64 nums = wrap64 (sum_list nums)"
proof -
  have w: "wrap64 (wrap64 a + b) = wrap64 (a + b)" for a b by (simp add: wrap64_def mod_simps algebra_simps)
  have "foldl (\<lambda>sum num. wrap64 (sum + num)) (wrap64 a) nums = wrap64 (a + sum_list nums)" for a
    by (induction nums arbitrary: a) (simp_all add: w add.assoc)
  from this [of 0] show ?thesis by (simp add: SumInt64_def wrap64_def)
qed

lemma foldl_max: "foldl (\<lambda>m num. if m < num then num else m) (n::int) nums = Max (set (n # nums))"
proof -
  have "(\<lambda>m num::int. if m < num then num else m) = max" by (auto simp: max_def fun_eq_iff)
  then show ?thesis using Max.set_eq_fold [of n nums] by (simp add: foldl_conv_fold max.commute cong: fold_cong)
qed

lemma MaxInt64_is_Max: "nums \<noteq> [] \<Longrightarrow> MaxInt64 nums = Inr (Max (set nums))"
  by (cases nums) (simp_all add: MaxInt64_def foldl_max insert_absorb)

lemma foldl_min: "foldl (\<lambda>m num. if num < m then num else m) (n::int) nums = Min (set (n # nums))"
proof -
  have "(\<lambda>m num::int. if num < m then num else m) = min" by (auto simp: min_def fun_eq_iff)
  then show ?thesis using Min.set_eq_fold [of n nums] by (simp add: foldl_conv_fold min.commute cong: fold_cong)
qed

lemma MinInt64_is_Min: "nums \<noteq> [] \<Longrightarrow> MinInt64 nums = Inr (Min (set nums))"
  by (cases nums) (simp_all add: MinInt64_def foldl_min insert_absorb)

section \<open>Ranges\<close>

text \<open>The numbers from \<open>start\<close> in steps of \<open>s\<close> that lie before \<open>stop\<close>.\<close>

definition steps :: "int \<Rightarrow> int \<Rightarrow> int \<Rightarrow> int list" where
  "steps s start stop = map (\<lambda>k. start + int k * s) [0..<nat ((stop - start + s - 1) div s)]"

lemma steps_next:
  assumes "0 < s" "start < stop"
  shows "steps s start stop = start # steps s (start + s) stop"
proof -
  define q where "q = (stop - (start + s) + s - 1) div s"
  have "stop - start + s - 1 = (stop - (start + s) + s - 1) + s" by simp
  then have "(stop - start + s - 1) div s = q + 1" using assms(1) unfolding q_def by (metis div_add_self2 less_irrefl)
  moreover have "0 \<le> q" using assms by (simp add: q_def pos_imp_zdiv_nonneg_iff)
  ultimately have n: "nat ((stop - start + s - 1) div s) = Suc (nat q)" by simp
  have "[0..<Suc (nat q)] = 0 # map Suc [0..<nat q]" by (simp add: upt_conv_Cons map_Suc_upt del: upt_Suc)
  moreover have "steps s (start + s) stop = map (\<lambda>k. start + s + int k * s) [0..<nat q]" by (simp only: steps_def q_def)
  ultimately show ?thesis unfolding steps_def n by (simp add: algebra_simps)
qed

lemma steps_empty:
  assumes "0 < s" "stop \<le> start"
  shows "steps s start stop = []"
proof -
  have "(stop - start + s - 1) div s \<le> (s - 1) div s" using assms by (intro zdiv_mono1) simp_all
  also have "\<dots> = 0" using assms(1) by (intro div_pos_pos_trivial) simp_all
  finally show ?thesis by (simp add: steps_def)
qed

lemma range_up_complete:
  assumes "0 < s" "in_i64 start" "start < stop" "stop + s \<le> 2 ^ 63"
  shows "range_up s stop start = Some (steps s start stop)"
  using assms(2,3)
proof (induction "nat (stop - start)" arbitrary: start rule: less_induct)
  case less
  have i: "in_i64 (start + s)" using less.prems assms(1,4) by (simp add: in_i64_def)
  show ?case
  proof (cases "stop \<le> start + s")
    case True
    then show ?thesis using less.prems assms(1) i
      by (subst range_up.simps) (simp add: wrap64_id Let_def steps_next steps_empty)
  next
    case False
    have "range_up s stop (start + s) = Some (steps s (start + s) stop)"
      using False assms(1) i by (intro less.hyps) simp_all
    then show ?thesis using False less.prems assms(1) i
      by (subst range_up.simps) (simp add: wrap64_id Let_def steps_next)
  qed
qed

text \<open>A range by twos up to the greatest integer steps over it and starts again from the least one.\<close>

lemma range_up_never:
  assumes "range_up s stop start = Some xs"
  shows "\<not> (s = 2 \<and> stop = 2 ^ 63 - 1 \<and> even start)"
proof (rule range_up.raw_induct [where P = "\<lambda>s stop start _. \<not> (s = 2 \<and> stop = 2 ^ 63 - 1 \<and> even start)", OF _ assms])
  fix up :: "int \<Rightarrow> int \<Rightarrow> int \<Rightarrow> int list option" and s stop start xs
  assume IH: "\<And>s stop start xs. up s stop start = Some xs \<Longrightarrow> \<not> (s = 2 \<and> stop = 2 ^ 63 - 1 \<and> even start)"
    and run: "(let next = wrap64 (start + s) in
      if stop \<le> next then Some [start] else Option.bind (up s stop next) (\<lambda>rest. Some (start # rest))) = Some xs"
  show "\<not> (s = 2 \<and> stop = 2 ^ 63 - 1 \<and> even start)"
  proof
    assume h: "s = 2 \<and> stop = 2 ^ 63 - 1 \<and> even start"
    have "even ((start + 2 + 2 ^ 63) mod 2 ^ 64)" using h by (subst dvd_mod_iff) simp_all
    then have e: "even (wrap64 (start + 2))" by (simp add: wrap64_def)
    have "wrap64 (start + 2) < 2 ^ 63" using in_i64_wrap64 by (simp add: in_i64_def)
    moreover have "wrap64 (start + 2) \<noteq> 2 ^ 63 - 1" using e by auto
    ultimately have "\<not> stop \<le> wrap64 (start + s)" using h by simp
    then obtain rest where "up s stop (wrap64 (start + s)) = Some rest"
      using run by (auto simp: Let_def bind_eq_Some_conv)
    then show False using IH h e by blast
  qed
qed

section \<open>Comparison\<close>

lemma Compare_self:
  assumes "fl_eq f g" "\<forall>neg. f \<noteq> Infinite neg"
  shows "Compare f g places = 0"
  using fl_sub_equal [OF assms] zero_le_nonneg [OF Pow10_nonneg] by (simp add: Compare_def Let_def)

lemma fl_eq_sym: "fl_eq f g \<Longrightarrow> fl_eq g f"
  by (cases f; cases g) auto

text \<open>Comparison with a tolerance is antisymmetric, but not for infinity, which is less than itself.\<close>

lemma Compare_swap:
  assumes "f \<noteq> NaN" "g \<noteq> NaN" "f = g \<longrightarrow> (\<forall>neg. f \<noteq> Infinite neg)"
  shows "Compare g f places = - Compare f g places"
proof (cases "fl_eq f g")
  case True
  moreover from this have "\<forall>neg. f \<noteq> Infinite neg" "\<forall>neg. g \<noteq> Infinite neg"
    using assms(3) by (cases f; cases g; auto)+
  ultimately show ?thesis using Compare_self fl_eq_sym by simp
next
  case False
  then have "fl_less f g \<or> fl_less g f" using fl_trichotomy assms by blast
  then show ?thesis using fl_less_asym [of f g] fl_abs_sub_commute [of f g] by (auto simp: Compare_def Let_def)
qed

lemma Compare_infinite: "Compare (Infinite neg) (Infinite neg) places = - 1"
  by (simp add: Compare_def fl_sub_def fl_le_def)

lemma Sign_negative_zero: "Sign (Number True 0) = - 1 \<and> fl_eq (Number True 0) (Number False 0)"
  by (simp add: Sign_def signed_def)

section \<open>Sizes\<close>

text \<open>The size is divided until it is small; an infinite one never is.\<close>

lemma size_loop_infinite:
  assumes "size_loop f k = Some r"
  shows "f \<noteq> Infinite False"
proof (rule size_loop.raw_induct [where P = "\<lambda>f _ _. f \<noteq> Infinite False", OF _ assms])
  fix loop :: "float64 \<Rightarrow> nat \<Rightarrow> (float64 \<times> nat) option" and f k r
  assume IH: "\<And>f k r. loop f k = Some r \<Longrightarrow> f \<noteq> Infinite False"
    and run: "(if fl_le (fl_of_int 1024) f then loop (fl_div f (fl_of_int 1024)) (Suc k) else Some (f, k)) = Some r"
  obtain x where x: "fl_of_int 1024 = Number False x" using fl_of_int_1024 by blast
  show "f \<noteq> Infinite False"
  proof
    assume "f = Infinite False"
    then show False using run x IH [of "Infinite False" "Suc k" r] by (simp add: fl_le_def)
  qed
qed

lemma size_loop_ends:
  assumes "0 \<le> x" "x < pow2 1024"
  shows "\<exists>y n. size_loop (Number a x) k = Some (Number a y, n)"
  using assms
proof (induction "nat \<lfloor>x\<rfloor>" arbitrary: x k rule: less_induct)
  case less
  obtain b where b: "fl_of_int 1024 = Number False b" "512 \<le> b" "b \<le> 2048" using fl_of_int_1024 by blast
  show ?case
  proof (cases "fl_le (Number False b) (Number a x)")
    case False
    then show ?thesis by (subst size_loop.simps) (simp add: b(1))
  next
    case True
    then have x: "b \<le> x" "\<not> a" using b(2) less.prems(1) by (auto simp: fl_le_def signed_def split: if_splits)
    have "1 \<le> x / b" using x b(2) by (simp add: le_divide_eq)
    moreover have q: "x / b \<le> x / 512" using b(2) less.prems(1) by (intro divide_left_mono) simp_all
    moreover have "pow2 1024 / 512 < pow2 1020" by (simp add: pow2_def)
    ultimately have r: "1 \<le> x / b" "x / b < pow2 1020" using less.prems(2) by linarith+
    obtain y where y: "round64 False (x / b) = Number False y" "x / b / 2 \<le> y" "y \<le> 2 * (x / b)"
      by (rule round64_near [OF r])
    define z where "z = x / b"
    have "0 \<le> y" "y \<le> x / 256" using y(2,3) q r(1) unfolding z_def [symmetric] by linarith+
    note ys = this
    have x1: "512 \<le> x" using x b(2) by linarith
    then have "\<lfloor>y\<rfloor> < \<lfloor>x\<rfloor>" using ys by linarith
    moreover have "0 \<le> \<lfloor>y\<rfloor>" using ys by simp
    ultimately have "nat \<lfloor>y\<rfloor> < nat \<lfloor>x\<rfloor>" by linarith
    moreover have "y < pow2 1024" using ys x1 less.prems(2) by linarith
    ultimately obtain z n where "size_loop (Number a y) (Suc k) = Some (Number a z, n)"
      using less.hyps ys(1) by blast
    then show ?thesis using True x(2) y(1) b(2) by (subst size_loop.simps) (simp add: b(1))
  qed
qed

section \<open>Grouped thousands\<close>

text \<open>The digits from the right, with the separators, and the specification: a separator before the last three digits of a
  longer number.\<close>

fun grouped :: "string \<Rightarrow> nat \<Rightarrow> string \<Rightarrow> string" where
  "grouped sep n [] = []"
| "grouped sep n (c # cs) = (if 0 < n \<and> n mod 3 = 0 then rev sep else []) @ c # grouped sep (Suc n) cs"

function thousands :: "string \<Rightarrow> string \<Rightarrow> string" where
  "thousands sep s = (if length s \<le> 3 then s
     else thousands sep (take (length s - 3) s) @ sep @ drop (length s - 3) s)"
  by pat_completeness auto
termination by (relation "measure (\<lambda>(sep, s). length s)") auto

declare thousands.simps [simp del]

lemma grouped_shift: "0 < n \<Longrightarrow> grouped sep (Suc (Suc (Suc n))) cs = grouped sep n cs"
proof (induction cs arbitrary: n)
  case (Cons c cs)
  have "Suc (Suc (Suc n)) mod 3 = n mod 3" by presburger
  then show ?case using Cons by simp
qed simp

lemma grouped_three: "length cs \<le> 3 \<Longrightarrow> grouped sep 0 cs = cs"
proof -
  assume "length cs \<le> 3"
  then consider "cs = []" | a where "cs = [a]" | a b where "cs = [a, b]" | a b c where "cs = [a, b, c]"
    by (cases cs; cases "tl cs"; cases "tl (tl cs)"; cases "tl (tl (tl cs))") auto
  then show ?thesis by cases simp_all
qed
lemma thousands_grouped: "rev (grouped sep 0 (rev s)) = thousands sep s"
proof (induction s rule: length_induct)
  case (1 s)
  show ?case
  proof (cases "length s \<le> 3")
    case True
    then show ?thesis by (simp add: grouped_three thousands.simps)
  next
    case False
    define t u where "t = take (length s - 3) s" and "u = drop (length s - 3) s"
    have s: "s = t @ u" and u: "length u = 3" and t: "t \<noteq> []" using False by (auto simp: t_def u_def)
    obtain d ds where d: "rev t = d # ds" using t by (cases "rev t") auto
    have "length (rev u) = 3" using u by simp
    then obtain x y z where xyz: "rev u = [x, y, z]" by (auto simp: length_Suc_conv numeral_3_eq_3)
    have "grouped sep 0 (rev s) = rev u @ grouped sep (Suc (Suc (Suc 0))) (rev t)" by (simp add: s xyz d)
    also have "grouped sep (Suc (Suc (Suc 0))) (rev t) = rev sep @ grouped sep 0 (rev t)"
      using grouped_shift [of "Suc 0" sep ds] by (simp add: d)
    finally show ?thesis using 1 False t u by (subst thousands.simps) (simp add: s flip: t_def u_def)
  qed
qed

lemma put_at: "0 < p \<Longrightarrow> p \<le> length arr \<Longrightarrow> put arr (int p - 1) c = Inr (take (p - 1) arr @ c # drop p arr)"
  by (simp add: put_def nat_diff_distrib' upd_conv_take_nth_drop)

lemma put_all_at:
  "length cs \<le> p \<Longrightarrow> p \<le> length arr \<Longrightarrow>
   put_all arr (int p - 1) cs = Inr (take (p - length cs) arr @ rev cs @ drop p arr, int (p - length cs) - 1)"
proof (induction cs arbitrary: arr p)
  case (Cons c cs)
  define arr' where "arr' = take (p - 1) arr @ c # drop p arr"
  have p: "0 < p" "\<not> length arr \<le> p - Suc 0" using Cons.prems by auto
  have i: "int p - 1 - 1 = int (p - 1) - 1" using p by simp
  have "put arr (int p - 1) c = Inr arr'" using put_at [of p arr c] p Cons.prems by (simp add: arr'_def)
  then have "put_all arr (int p - 1) (c # cs) = put_all arr' (int (p - 1) - 1) cs" unfolding i [symmetric] by simp
  also have "\<dots> = Inr (take (p - 1 - length cs) arr' @ rev cs @ drop (p - 1) arr', int (p - 1 - length cs) - 1)"
    using Cons.prems p by (intro Cons.IH) (simp_all add: arr'_def)
  also have "take (p - 1 - length cs) arr' = take (p - 1 - length cs) arr"
    using Cons.prems p by (simp add: arr'_def min_def)
  also have "drop (p - 1) arr' = c # drop p arr"
    using Cons.prems p by (simp add: arr'_def min_def)
  finally show ?case by simp
qed simp

lemma group_loop_at:
  "length (grouped sep n cs) = p \<Longrightarrow> p \<le> length arr \<Longrightarrow>
   group_loop sep cs n arr (int p - 1) = Inr (rev (grouped sep n cs) @ drop p arr)"
proof (induction cs arbitrary: n arr p)
  case (Cons c cs)
  define q where "q = length (grouped sep (Suc n) cs)"
  define b where "b = (0 < n \<and> n mod 3 = 0)"
  define sp where "sp = (if b then rev sep else [])"
  have p: "p = length sp + Suc q" using Cons.prems(1) by (simp add: q_def sp_def b_def)
  define arr' where "arr' = take (Suc q) arr @ rev sp @ drop p arr"
  have first: "(if 0 < length sep \<and> 0 < n \<and> n mod 3 = 0 then put_all arr (int p - 1) (rev sep) else Inr (arr, int p - 1)) =
      Inr (arr', int (Suc q) - 1)"
    using Cons.prems(2) p put_all_at [of sp p arr] by (auto simp: sp_def b_def arr'_def)
  have len: "Suc q \<le> length arr'" using Cons.prems(2) p by (simp add: arr'_def)
  have "group_loop sep cs (Suc n) (take q arr' @ c # drop (Suc q) arr') (int q - 1) =
      Inr (rev (grouped sep (Suc n) cs) @ drop q (take q arr' @ c # drop (Suc q) arr'))"
    using len by (intro Cons.IH) (simp_all add: q_def)
  moreover have "drop q (take q arr' @ c # drop (Suc q) arr') = c # rev sp @ drop p arr"
    using len Cons.prems(2) p by (simp add: arr'_def min_def)
  moreover have "rev (grouped sep n (c # cs)) = rev (grouped sep (Suc n) cs) @ c # rev sp" by (simp add: sp_def b_def)
  ultimately show ?case using len put_at [of "Suc q" arr' c] unfolding group_loop.simps first by simp
qed simp

lemma length_grouped:
  "length (grouped sep (Suc n) cs) + length sep * (n div 3) = length cs + length sep * ((n + length cs) div 3)"
proof (induction cs arbitrary: n)
  case (Cons c cs)
  have "Suc n div 3 = (if Suc n mod 3 = 0 then Suc (n div 3) else n div 3)" by (simp add: div_Suc)
  then show ?case using Cons [of "Suc n"] by (auto simp: algebra_simps split: if_splits)
qed simp

lemma group_digits_thousands: "group_digits sep prefix = Inr (thousands sep prefix)"
proof -
  define g where "g = grouped sep 0 (rev prefix)"
  have len: "int (length sep) * go_div (int (length prefix) - 1) 3 + int (length prefix) = int (length g)"
  proof (cases "rev prefix")
    case Nil
    then show ?thesis by (simp add: g_def go_div_def)
  next
    case (Cons c cs)
    then have n: "length prefix = Suc (length cs)" by (metis length_Cons length_rev)
    have "length g = Suc (length cs + length sep * (length cs div 3))"
      using length_grouped [of sep 0 cs] by (simp add: g_def Cons)
    then show ?thesis by (simp add: n go_div_nonneg zdiv_int)
  qed
  have "group_loop sep (rev prefix) 0 (replicate (length g) (CHR 0x00)) (int (length g) - 1) = Inr (rev g @ drop (length g) (replicate (length g) (CHR 0x00)))"
    unfolding g_def by (rule group_loop_at) simp_all
  then show ?thesis using thousands_grouped [of sep prefix]
    by (simp add: group_digits_def Let_def len flip: g_def)
qed

section \<open>What the functions compute\<close>

text \<open>C34: an ascending range is the list of the numbers below its end in steps of the given size, whenever the end and the
  step together do not pass the greatest integer; a range by twos from an even number to the greatest integer never ends,
  because the addition wraps around before the end is tested.\<close>

theorem ranges_end_unless_they_wrap:
  fixes step :: "int list"
  assumes "in_i64 start" "start < stop" "stop < 2 ^ 63"
  defines "s \<equiv> (case step of s # _ \<Rightarrow> if 1 < s then s else 1 | [] \<Rightarrow> 1)"
  shows "(stop + s \<le> 2 ^ 63 \<longrightarrow> RangeInt64 start stop step = Some (map (\<lambda>k. start + int k * s) [0..<nat ((stop - start + s - 1) div s)])) \<and>
    (stop = 2 ^ 63 - 1 \<and> s = 2 \<and> even start \<longrightarrow> RangeInt64 start stop step = None)"
proof (intro conjI impI)
  have s: "0 < s" "RangeInt64 start stop step = range_up s stop start"
    using assms(2) by (auto simp: s_def RangeInt64_def split: list.split)
  {
    assume "stop + s \<le> 2 ^ 63"
    then show "RangeInt64 start stop step = Some (map (\<lambda>k. start + int k * s) [0..<nat ((stop - start + s - 1) div s)])"
      using range_up_complete [OF s(1) assms(1,2)] s(2) by (simp add: steps_def)
  }
  assume "stop = 2 ^ 63 - 1 \<and> s = 2 \<and> even start"
  then have "\<And>xs. range_up s stop start \<noteq> Some xs" using range_up_never by blast
  then show "RangeInt64 start stop step = None" using s(2) by (cases "range_up s stop start") auto
qed

theorem ranges_end_unless_they_wrap_witness:
  "RangeInt64 0 7 [3] = Some [0, 3, 6] \<and> RangeInt64 (2 ^ 63 - 2) (2 ^ 63 - 1) [2] = None"
proof
  have "[0..<3] = [0, 1, 2::nat]" by (simp add: upt_rec)
  then show "RangeInt64 0 7 [3] = Some [0, 3, 6]"
    using ranges_end_unless_they_wrap [of 0 7 "[3]"] by (simp add: in_i64_def)
  show "RangeInt64 (2 ^ 63 - 2) (2 ^ 63 - 1) [2] = None"
    using ranges_end_unless_they_wrap [of "2 ^ 63 - 2" "2 ^ 63 - 1" "[2]"] by (simp add: in_i64_def)
qed

text \<open>A number is formatted as the sign, the digits before the point in groups of three, and the digits after it.\<close>

lemma number_is_grouped:
  assumes "RoundToString d (if fl_less num (Number False 0) then fl_neg num else num) places = Inr (whole @ ''.'' @ part)"
    and "0 < places" "CHR ''.'' \<notin> set whole" "CHR ''.'' \<notin> set part"
  shows "NumberFormat d num places separator =
    Inr ((if fl_less num (Number False 0) then ''-'' else '''') @ thousands (case separator of [] \<Rightarrow> '','' | s # _ \<Rightarrow> s) whole @ ''.'' @ part)"
proof -
  have "Split (whole @ ''.'' @ part) ''.'' = [whole, part]"
  proof -
    have "split_from ''.'' acc (whole @ ''.'' @ part) = (acc @ whole) # split_from ''.'' [] part" for acc
      using assms(3) by (induction whole arbitrary: acc) (auto simp: is_prefix_def)
    then show ?thesis using Split_without [of "CHR ''.''" "''.''" part "[]"] assms(4) by (simp add: Split_def)
  qed
  then show ?thesis using assms(1,2)
    by (simp add: NumberFormat_def Let_def group_digits_thousands floatSeparator_def split: list.split)
qed

end
