(* ===== verification/SliceKit.thy ===== *)
theory SliceKit
  imports MathKit
begin

text \<open>
  \<open>EasySwapBase/kit/slice/\<close>: searching, deleting, uniqueness, counting, equality, reversal, filling, random extraction.
  The package repeats each function for every element type; the copies for one function are the loop of that function with
  the comparison of the type. A slice may be nil (\<open>None\<close>). The functions on \<open>interface{}\<close> take a value that
  reflection finds to be nil, a slice, an array or something else; \<open>reflect.DeepEqual\<close>, the equality of map keys and the
  kinds that are no keys are parameters (\<open>reflect_env\<close>). Random permutations (\<open>rand.Perm\<close>) are a parameter too.
\<close>

type_synonym 'a slice = "'a list option"

datatype 'v dyn = NilValue | SliceValue "'v slice" | ArrayValue "'v list" | OtherValue

record 'v reflect_env =
  DeepEqual :: "'v \<Rightarrow> 'v \<Rightarrow> bool"
  key_equal :: "'v \<Rightarrow> 'v \<Rightarrow> bool"
  no_key :: "'v \<Rightarrow> bool"
  slices_equal :: "'v dyn \<Rightarrow> 'v dyn \<Rightarrow> bool"
  arrays_equal :: "'v dyn \<Rightarrow> 'v dyn \<Rightarrow> kit_panic + bool"

definition invalid_slice :: kit_panic where
  "invalid_slice = PanicText ''slice: invalid slice type''"

text \<open>Nil gives the zero value (\<open>z\<close>); \<open>f\<close> is applied to the elements of a slice or an array.\<close>

definition reflected :: "'b \<Rightarrow> ('v list \<Rightarrow> kit_panic + 'b) \<Rightarrow> 'v dyn \<Rightarrow> kit_panic + 'b" where
  "reflected z f slc = (case slc of NilValue \<Rightarrow> Inr z | SliceValue xs \<Rightarrow> f (slice_elems xs) | ArrayValue xs \<Rightarrow> f xs
     | OtherValue \<Rightarrow> Inl invalid_slice)"

definition append_to :: "'a slice \<Rightarrow> 'a \<Rightarrow> 'a slice" where
  "append_to xs x = Some (slice_elems xs @ [x])"

section \<open>Searching\<close>

definition ValueIsNotContained :: int where "ValueIsNotContained = - 1"

fun contain_loop :: "('a \<Rightarrow> bool) \<Rightarrow> int \<Rightarrow> 'a list \<Rightarrow> int" where
  "contain_loop eq i [] = ValueIsNotContained"
| "contain_loop eq i (x # xs) = (if eq x then i else contain_loop eq (i + 1) xs)"

definition Contain :: "'v reflect_env \<Rightarrow> 'v dyn \<Rightarrow> 'v \<Rightarrow> kit_panic + int" where
  "Contain e slc value = reflected ValueIsNotContained (\<lambda>xs. Inr (contain_loop (DeepEqual e value) 0 xs)) slc"

definition ContainString :: "string slice \<Rightarrow> string \<Rightarrow> int" where
  "ContainString slc value = contain_loop (\<lambda>v. v = value) 0 (slice_elems slc)"

definition ContainBool :: "bool slice \<Rightarrow> bool \<Rightarrow> int" where
  "ContainBool slc value = contain_loop (\<lambda>v. v = value) 0 (slice_elems slc)"

definition ContainInt :: "int slice \<Rightarrow> int \<Rightarrow> int" where
  "ContainInt slc value = contain_loop (\<lambda>v. v = value) 0 (slice_elems slc)"

definition ContainInt64 :: "int slice \<Rightarrow> int \<Rightarrow> int" where
  "ContainInt64 slc value = contain_loop (\<lambda>v. v = value) 0 (slice_elems slc)"

definition ContainInt32 :: "int slice \<Rightarrow> int \<Rightarrow> int" where
  "ContainInt32 slc value = contain_loop (\<lambda>v. v = value) 0 (slice_elems slc)"

definition ContainFloat64 :: "float64 slice \<Rightarrow> float64 \<Rightarrow> int list \<Rightarrow> int" where
  "ContainFloat64 slc value places = contain_loop (\<lambda>v. EqualFloat v value places) 0 (slice_elems slc)"

definition ContainFloat32 :: "float64 slice \<Rightarrow> float64 \<Rightarrow> int list \<Rightarrow> int" where
  "ContainFloat32 slc value places = contain_loop (\<lambda>v. EqualFloat v value places) 0 (slice_elems slc)"

definition ContainFloat :: "float64 slice \<Rightarrow> float64 \<Rightarrow> int list \<Rightarrow> int" where
  "ContainFloat slc value places = ContainFloat64 slc value places"

section \<open>Deleting\<close>

fun delete_loop :: "('a \<Rightarrow> bool) \<Rightarrow> int \<Rightarrow> 'a list \<Rightarrow> 'a slice \<Rightarrow> int \<Rightarrow> 'a slice \<times> int" where
  "delete_loop eq n [] result cnt = (result, cnt)"
| "delete_loop eq n (v # vs) result cnt =
     (if \<not> eq v then delete_loop eq n vs (append_to result v) cnt
      else if n < 0 then delete_loop eq n vs result (cnt + 1)
      else if n \<le> cnt then delete_loop eq n vs (append_to result v) cnt
      else delete_loop eq n vs result (cnt + 1))"

definition Delete :: "'v reflect_env \<Rightarrow> 'v dyn \<Rightarrow> 'v \<Rightarrow> int \<Rightarrow> kit_panic + 'v slice \<times> int" where
  "Delete e slc value n = reflected (None, 0) (\<lambda>xs. Inr (delete_loop (DeepEqual e value) n xs None 0)) slc"

definition DeleteString :: "string slice \<Rightarrow> string \<Rightarrow> int \<Rightarrow> string slice \<times> int" where
  "DeleteString slc value n = delete_loop (\<lambda>v. v = value) n (slice_elems slc) None 0"

definition DeleteBool :: "bool slice \<Rightarrow> bool \<Rightarrow> int \<Rightarrow> bool slice \<times> int" where
  "DeleteBool slc value n = delete_loop (\<lambda>v. v = value) n (slice_elems slc) None 0"

definition DeleteInt :: "int slice \<Rightarrow> int \<Rightarrow> int \<Rightarrow> int slice \<times> int" where
  "DeleteInt slc value n = delete_loop (\<lambda>v. v = value) n (slice_elems slc) None 0"

definition DeleteInt64 :: "int slice \<Rightarrow> int \<Rightarrow> int \<Rightarrow> int slice \<times> int" where
  "DeleteInt64 slc value n = delete_loop (\<lambda>v. v = value) n (slice_elems slc) None 0"

definition DeleteInt32 :: "int slice \<Rightarrow> int \<Rightarrow> int \<Rightarrow> int slice \<times> int" where
  "DeleteInt32 slc value n = delete_loop (\<lambda>v. v = value) n (slice_elems slc) None 0"

definition DeleteFloat64 :: "float64 slice \<Rightarrow> float64 \<Rightarrow> int \<Rightarrow> int list \<Rightarrow> float64 slice \<times> int" where
  "DeleteFloat64 slc value n places = delete_loop (\<lambda>v. EqualFloat v value places) n (slice_elems slc) None 0"

definition DeleteFloat32 :: "float64 slice \<Rightarrow> float64 \<Rightarrow> int \<Rightarrow> int list \<Rightarrow> float64 slice \<times> int" where
  "DeleteFloat32 slc value n places = delete_loop (\<lambda>v. EqualFloat v value places) n (slice_elems slc) None 0"

definition DeleteFloat :: "float64 slice \<Rightarrow> float64 \<Rightarrow> int \<Rightarrow> int list \<Rightarrow> float64 slice \<times> int" where
  "DeleteFloat slc value n places = DeleteFloat64 slc value n places"

section \<open>Uniqueness and counts\<close>

text \<open>A map is the list of its entries. A key is looked up with the equality of its type, which no not-a-number has with itself.\<close>

definition has_key :: "('a \<Rightarrow> 'a \<Rightarrow> bool) \<Rightarrow> 'a list \<Rightarrow> 'a \<Rightarrow> bool" where
  "has_key eq ks k \<longleftrightarrow> list_ex (eq k) ks"

fun unique_loop :: "('a \<Rightarrow> 'a \<Rightarrow> bool) \<Rightarrow> 'a list \<Rightarrow> 'a list \<Rightarrow> 'a slice \<Rightarrow> 'a slice" where
  "unique_loop eq [] seen result = result"
| "unique_loop eq (v # vs) seen result = (if \<not> has_key eq seen v then unique_loop eq vs (v # seen) (append_to result v)
     else unique_loop eq vs seen result)"

text \<open>Values that cannot be keys are kept in a slice of their own and compared deeply.\<close>

fun unique_any :: "'v reflect_env \<Rightarrow> 'v list \<Rightarrow> 'v list \<Rightarrow> 'v list \<Rightarrow> 'v slice \<Rightarrow> 'v slice" where
  "unique_any e [] seen others result = result"
| "unique_any e (v # vs) seen others result =
     (if \<not> no_key e v then
        (if \<not> has_key (key_equal e) seen v then unique_any e vs (v # seen) others (append_to result v)
         else unique_any e vs seen others result)
      else if contain_loop (DeepEqual e v) 0 others = - 1 then unique_any e vs seen (others @ [v]) (append_to result v)
      else unique_any e vs seen others result)"

definition Unique :: "'v reflect_env \<Rightarrow> 'v dyn \<Rightarrow> kit_panic + 'v slice" where
  "Unique e slc = reflected None (\<lambda>xs. Inr (unique_any e xs [] [] None)) slc"

definition UniqueStrings :: "string slice \<Rightarrow> string slice" where
  "UniqueStrings slc = unique_loop (=) (slice_elems slc) [] None"

definition UniqueBools :: "bool slice \<Rightarrow> bool slice" where
  "UniqueBools slc = unique_loop (=) (slice_elems slc) [] None"

definition UniqueInts :: "int slice \<Rightarrow> int slice" where
  "UniqueInts slc = unique_loop (=) (slice_elems slc) [] None"

definition UniqueInt64s :: "int slice \<Rightarrow> int slice" where
  "UniqueInt64s slc = unique_loop (=) (slice_elems slc) [] None"

definition UniqueInt32s :: "int slice \<Rightarrow> int slice" where
  "UniqueInt32s slc = unique_loop (=) (slice_elems slc) [] None"

definition UniqueFloat64s :: "float64 slice \<Rightarrow> float64 slice" where
  "UniqueFloat64s slc = unique_loop fl_eq (slice_elems slc) [] None"

definition UniqueFloat32s :: "float64 slice \<Rightarrow> float64 slice" where
  "UniqueFloat32s slc = unique_loop fl_eq (slice_elems slc) [] None"

definition UniqueFloats :: "float64 slice \<Rightarrow> float64 slice" where
  "UniqueFloats slc = UniqueFloat64s slc"

fun bump :: "('a \<Rightarrow> 'a \<Rightarrow> bool) \<Rightarrow> 'a \<Rightarrow> ('a \<times> int) list \<Rightarrow> ('a \<times> int) list" where
  "bump eq k [] = [(k, 1)]"
| "bump eq k ((k', n) # m) = (if eq k k' then (k', n + 1) # m else (k', n) # bump eq k m)"

definition count_loop :: "('a \<Rightarrow> 'a \<Rightarrow> bool) \<Rightarrow> 'a list \<Rightarrow> ('a \<times> int) list" where
  "count_loop eq xs = foldl (\<lambda>m v. bump eq v m) [] xs"

definition Count :: "'v reflect_env \<Rightarrow> 'v dyn \<Rightarrow> kit_panic + ('v \<times> int) slice" where
  "Count e slc = reflected None (\<lambda>xs. Inr (Some (count_loop (key_equal e) (List.filter (\<lambda>v. \<not> no_key e v) xs)))) slc"

definition CountString :: "string slice \<Rightarrow> (string \<times> int) list" where
  "CountString slc = count_loop (=) (slice_elems slc)"

definition CountBool :: "bool slice \<Rightarrow> (bool \<times> int) list" where
  "CountBool slc = count_loop (=) (slice_elems slc)"

definition CountInt :: "int slice \<Rightarrow> (int \<times> int) list" where
  "CountInt slc = count_loop (=) (slice_elems slc)"

definition CountInt64 :: "int slice \<Rightarrow> (int \<times> int) list" where
  "CountInt64 slc = count_loop (=) (slice_elems slc)"

definition CountInt32 :: "int slice \<Rightarrow> (int \<times> int) list" where
  "CountInt32 slc = count_loop (=) (slice_elems slc)"

definition CountFloat64 :: "float64 slice \<Rightarrow> (float64 \<times> int) list" where
  "CountFloat64 slc = count_loop fl_eq (slice_elems slc)"

definition CountFloat32 :: "float64 slice \<Rightarrow> (float64 \<times> int) list" where
  "CountFloat32 slc = count_loop fl_eq (slice_elems slc)"

definition CountFloat :: "float64 slice \<Rightarrow> (float64 \<times> int) list" where
  "CountFloat slc = CountFloat64 slc"

section \<open>Equality\<close>

fun equal_loop :: "('a \<Rightarrow> 'a \<Rightarrow> bool) \<Rightarrow> nat \<Rightarrow> 'a list \<Rightarrow> 'a list \<Rightarrow> bool" where
  "equal_loop eq i [] arr2 \<longleftrightarrow> True"
| "equal_loop eq i (v # vs) arr2 \<longleftrightarrow> (if \<not> eq v (arr2 ! i) then False else equal_loop eq (i + 1) vs arr2)"

definition equal_slices :: "('a \<Rightarrow> 'a \<Rightarrow> bool) \<Rightarrow> 'a slice \<Rightarrow> 'a slice \<Rightarrow> bool" where
  "equal_slices eq arr1 arr2 \<longleftrightarrow> (if length (slice_elems arr1) \<noteq> length (slice_elems arr2) then False
     else if (arr1 = None) \<noteq> (arr2 = None) then False else equal_loop eq 0 (slice_elems arr1) (slice_elems arr2))"

definition EqualSlices :: "'v reflect_env \<Rightarrow> 'v dyn \<Rightarrow> 'v dyn \<Rightarrow> kit_panic + bool" where
  "EqualSlices e arr1 arr2 = (case (arr1, arr2) of
       (NilValue, _) \<Rightarrow> Inr (arr2 = NilValue) | (_, NilValue) \<Rightarrow> Inr False
     | (SliceValue _, SliceValue _) \<Rightarrow> Inr (slices_equal e arr1 arr2)
     | (ArrayValue _, ArrayValue _) \<Rightarrow> arrays_equal e arr1 arr2
     | _ \<Rightarrow> Inl (PanicText ''slice: invalid arr1 or arr2 type''))"

definition EqualStrings :: "string slice \<Rightarrow> string slice \<Rightarrow> bool" where
  "EqualStrings arr1 arr2 = equal_slices (=) arr1 arr2"

definition EqualBools :: "bool slice \<Rightarrow> bool slice \<Rightarrow> bool" where
  "EqualBools arr1 arr2 = equal_slices (=) arr1 arr2"

definition EqualInts :: "int slice \<Rightarrow> int slice \<Rightarrow> bool" where
  "EqualInts arr1 arr2 = equal_slices (=) arr1 arr2"

definition EqualInt64s :: "int slice \<Rightarrow> int slice \<Rightarrow> bool" where
  "EqualInt64s arr1 arr2 = equal_slices (=) arr1 arr2"

definition EqualInt32s :: "int slice \<Rightarrow> int slice \<Rightarrow> bool" where
  "EqualInt32s arr1 arr2 = equal_slices (=) arr1 arr2"

definition EqualFloat64s :: "float64 slice \<Rightarrow> float64 slice \<Rightarrow> int list \<Rightarrow> bool" where
  "EqualFloat64s arr1 arr2 places = equal_slices (\<lambda>v w. EqualFloat v w places) arr1 arr2"

definition EqualFloat32s :: "float64 slice \<Rightarrow> float64 slice \<Rightarrow> int list \<Rightarrow> bool" where
  "EqualFloat32s arr1 arr2 places = equal_slices (\<lambda>v w. EqualFloat v w places) arr1 arr2"

definition EqualFloats :: "float64 slice \<Rightarrow> float64 slice \<Rightarrow> int list \<Rightarrow> bool" where
  "EqualFloats arr1 arr2 places = EqualFloat64s arr1 arr2 places"

section \<open>Reversal and filling\<close>

text \<open>The new array is written from both ends; \<open>z\<close> is the zero value it is made with.\<close>

function reverse_loop :: "'a list \<Rightarrow> 'a list \<Rightarrow> int \<Rightarrow> int \<Rightarrow> 'a list \<times> int" where
  "reverse_loop slc result i j = (if i < j
     then reverse_loop slc (result[nat i := slc ! nat j, nat j := slc ! nat i]) (i + 1) (j - 1) else (result, j))"
  by pat_completeness auto
termination by (relation "measure (\<lambda>(slc, result, i, j). nat (j - i))") auto

declare reverse_loop.simps [simp del]

definition reversed :: "'a \<Rightarrow> 'a list \<Rightarrow> 'a list" where
  "reversed z slc = (let len = length slc; (result, j) = reverse_loop slc (replicate len z) 0 (int len - 1)
     in if 0 < len \<and> len mod 2 = 1 then result[nat j := slc ! nat j] else result)"

definition Reverse :: "'v \<Rightarrow> 'v dyn \<Rightarrow> kit_panic + 'v slice" where
  "Reverse z slc = reflected None (\<lambda>xs. Inr (Some (reversed z xs))) slc"

definition ReverseStrings :: "string slice \<Rightarrow> string list" where
  "ReverseStrings slc = reversed '''' (slice_elems slc)"

definition ReverseBools :: "bool slice \<Rightarrow> bool list" where
  "ReverseBools slc = reversed False (slice_elems slc)"

definition ReverseInts :: "int slice \<Rightarrow> int list" where
  "ReverseInts slc = reversed 0 (slice_elems slc)"

definition ReverseInt64s :: "int slice \<Rightarrow> int list" where
  "ReverseInt64s slc = reversed 0 (slice_elems slc)"

definition ReverseInt32s :: "int slice \<Rightarrow> int list" where
  "ReverseInt32s slc = reversed 0 (slice_elems slc)"

definition ReverseFloat64s :: "float64 slice \<Rightarrow> float64 list" where
  "ReverseFloat64s slc = reversed (Number False 0) (slice_elems slc)"

definition ReverseFloat32s :: "float64 slice \<Rightarrow> float64 list" where
  "ReverseFloat32s slc = reversed (Number False 0) (slice_elems slc)"

definition ReverseFloats :: "float64 slice \<Rightarrow> float64 list" where
  "ReverseFloats slc = ReverseFloat64s slc"

definition num_below_zero :: kit_panic where
  "num_below_zero = PanicText ''slice: num cannot be less than 0''"

definition filled :: "'a \<Rightarrow> 'a \<Rightarrow> int \<Rightarrow> kit_panic + 'a list" where
  "filled z value num = (if num < 0 then Inl num_below_zero
     else Inr (foldl (\<lambda>result i. result[i := value]) (replicate (nat num) z) [0..<nat num]))"

definition Fill :: "'v \<Rightarrow> 'v \<Rightarrow> int \<Rightarrow> kit_panic + 'v list" where
  "Fill z value num = filled z value num"

definition FillString :: "string \<Rightarrow> int \<Rightarrow> kit_panic + string list" where
  "FillString value num = filled '''' value num"

definition FillBool :: "bool \<Rightarrow> int \<Rightarrow> kit_panic + bool list" where
  "FillBool value num = filled False value num"

definition FillInt :: "int \<Rightarrow> int \<Rightarrow> kit_panic + int list" where
  "FillInt value num = filled 0 value num"

definition FillInt64 :: "int \<Rightarrow> int \<Rightarrow> kit_panic + int list" where
  "FillInt64 value num = filled 0 value num"

definition FillInt32 :: "int \<Rightarrow> int \<Rightarrow> kit_panic + int list" where
  "FillInt32 value num = filled 0 value num"

definition FillFloat64 :: "float64 \<Rightarrow> int \<Rightarrow> kit_panic + float64 list" where
  "FillFloat64 value num = filled (Number False 0) value num"

definition FillFloat32 :: "float64 \<Rightarrow> int \<Rightarrow> kit_panic + float64 list" where
  "FillFloat32 value num = filled (Number False 0) value num"

definition FillFloat :: "float64 \<Rightarrow> int \<Rightarrow> kit_panic + float64 list" where
  "FillFloat value num = FillFloat64 value num"

section \<open>Random extraction\<close>

fun extract_loop :: "'a list \<Rightarrow> nat \<Rightarrow> nat \<Rightarrow> nat list \<Rightarrow> 'a list \<Rightarrow> 'a list" where
  "extract_loop slc num i [] result = result"
| "extract_loop slc num i (v # vs) result =
     (if i < num then extract_loop slc num (i + 1) vs (result[i := slc ! v]) else result)"

definition extracted :: "(nat \<Rightarrow> nat list) \<Rightarrow> 'a \<Rightarrow> 'a list \<Rightarrow> int \<Rightarrow> 'a slice" where
  "extracted perm z slc num = (let len = length slc in if len = 0 then None
     else let num = (if int len < num then len else nat num)
       in Some (extract_loop slc num 0 (perm len) (replicate num z)))"

definition Extract :: "(nat \<Rightarrow> nat list) \<Rightarrow> 'v \<Rightarrow> 'v dyn \<Rightarrow> int \<Rightarrow> kit_panic + 'v slice" where
  "Extract perm z slc num = (if num < 0 then Inl num_below_zero else reflected None (\<lambda>xs. Inr (extracted perm z xs num)) slc)"

definition extract_typed :: "(nat \<Rightarrow> nat list) \<Rightarrow> 'a \<Rightarrow> 'a slice \<Rightarrow> int \<Rightarrow> kit_panic + 'a slice" where
  "extract_typed perm z slc num = (if num < 0 then Inl num_below_zero else Inr (extracted perm z (slice_elems slc) num))"

definition ExtractStrings :: "(nat \<Rightarrow> nat list) \<Rightarrow> string slice \<Rightarrow> int \<Rightarrow> kit_panic + string slice" where
  "ExtractStrings perm slc num = extract_typed perm '''' slc num"

definition ExtractBools :: "(nat \<Rightarrow> nat list) \<Rightarrow> bool slice \<Rightarrow> int \<Rightarrow> kit_panic + bool slice" where
  "ExtractBools perm slc num = extract_typed perm False slc num"

definition ExtractInts :: "(nat \<Rightarrow> nat list) \<Rightarrow> int slice \<Rightarrow> int \<Rightarrow> kit_panic + int slice" where
  "ExtractInts perm slc num = extract_typed perm 0 slc num"

definition ExtractInt64s :: "(nat \<Rightarrow> nat list) \<Rightarrow> int slice \<Rightarrow> int \<Rightarrow> kit_panic + int slice" where
  "ExtractInt64s perm slc num = extract_typed perm 0 slc num"

definition ExtractInt32s :: "(nat \<Rightarrow> nat list) \<Rightarrow> int slice \<Rightarrow> int \<Rightarrow> kit_panic + int slice" where
  "ExtractInt32s perm slc num = extract_typed perm 0 slc num"

definition ExtractFloat64s :: "(nat \<Rightarrow> nat list) \<Rightarrow> float64 slice \<Rightarrow> int \<Rightarrow> kit_panic + float64 slice" where
  "ExtractFloat64s perm slc num = extract_typed perm (Number False 0) slc num"

definition ExtractFloat32s :: "(nat \<Rightarrow> nat list) \<Rightarrow> float64 slice \<Rightarrow> int \<Rightarrow> kit_panic + float64 slice" where
  "ExtractFloat32s perm slc num = extract_typed perm (Number False 0) slc num"

definition ExtractFloats :: "(nat \<Rightarrow> nat list) \<Rightarrow> float64 slice \<Rightarrow> int \<Rightarrow> kit_panic + float64 slice" where
  "ExtractFloats perm slc num = ExtractFloat64s perm slc num"

definition Shuffle :: "(nat \<Rightarrow> nat list) \<Rightarrow> 'v \<Rightarrow> 'v dyn \<Rightarrow> kit_panic + 'v slice" where
  "Shuffle perm z slc = reflected None (\<lambda>xs. if xs = [] then Inr None else Extract perm z slc (int (length xs))) slc"

definition ShuffleStrings :: "(nat \<Rightarrow> nat list) \<Rightarrow> string slice \<Rightarrow> kit_panic + string slice" where
  "ShuffleStrings perm slc = (if slice_elems slc = [] then Inr None else ExtractStrings perm slc (int (length (slice_elems slc))))"

definition ShuffleBools :: "(nat \<Rightarrow> nat list) \<Rightarrow> bool slice \<Rightarrow> kit_panic + bool slice" where
  "ShuffleBools perm slc = (if slice_elems slc = [] then Inr None else ExtractBools perm slc (int (length (slice_elems slc))))"

definition ShuffleInts :: "(nat \<Rightarrow> nat list) \<Rightarrow> int slice \<Rightarrow> kit_panic + int slice" where
  "ShuffleInts perm slc = (if slice_elems slc = [] then Inr None else ExtractInts perm slc (int (length (slice_elems slc))))"

definition ShuffleInt64s :: "(nat \<Rightarrow> nat list) \<Rightarrow> int slice \<Rightarrow> kit_panic + int slice" where
  "ShuffleInt64s perm slc = (if slice_elems slc = [] then Inr None else ExtractInt64s perm slc (int (length (slice_elems slc))))"

definition ShuffleInt32s :: "(nat \<Rightarrow> nat list) \<Rightarrow> int slice \<Rightarrow> kit_panic + int slice" where
  "ShuffleInt32s perm slc = (if slice_elems slc = [] then Inr None else ExtractInt32s perm slc (int (length (slice_elems slc))))"

definition ShuffleFloat64s :: "(nat \<Rightarrow> nat list) \<Rightarrow> float64 slice \<Rightarrow> kit_panic + float64 slice" where
  "ShuffleFloat64s perm slc = (if slice_elems slc = [] then Inr None else ExtractFloat64s perm slc (int (length (slice_elems slc))))"

definition ShuffleFloat32s :: "(nat \<Rightarrow> nat list) \<Rightarrow> float64 slice \<Rightarrow> kit_panic + float64 slice" where
  "ShuffleFloat32s perm slc = (if slice_elems slc = [] then Inr None else ExtractFloat32s perm slc (int (length (slice_elems slc))))"

definition ShuffleFloats :: "(nat \<Rightarrow> nat list) \<Rightarrow> float64 slice \<Rightarrow> kit_panic + float64 slice" where
  "ShuffleFloats perm slc = ShuffleFloat64s perm slc"

text \<open>The first of the extracted elements; there is none of a slice that is nil.\<close>

definition first_of :: "kit_panic + 'a slice \<Rightarrow> kit_panic + 'a" where
  "first_of r = (case r of Inl p \<Rightarrow> Inl p | Inr xs \<Rightarrow> (case slice_elems xs of [] \<Rightarrow> Inl (Runtime IndexOutOfRange) | x # _ \<Rightarrow> Inr x))"

definition Take :: "(nat \<Rightarrow> nat list) \<Rightarrow> 'v \<Rightarrow> 'v dyn \<Rightarrow> kit_panic + 'v" where
  "Take perm nil slc = reflected nil (\<lambda>xs. if xs = [] then Inr nil else first_of (Extract perm nil slc 1)) slc"

definition TakeString :: "(nat \<Rightarrow> nat list) \<Rightarrow> string slice \<Rightarrow> kit_panic + string" where
  "TakeString perm slc = (if slice_elems slc = [] then Inr '''' else first_of (ExtractStrings perm slc 1))"

definition TakeBool :: "(nat \<Rightarrow> nat list) \<Rightarrow> bool slice \<Rightarrow> kit_panic + bool" where
  "TakeBool perm slc = (if slice_elems slc = [] then Inr False else first_of (ExtractBools perm slc 1))"

definition TakeInt :: "(nat \<Rightarrow> nat list) \<Rightarrow> int slice \<Rightarrow> kit_panic + int" where
  "TakeInt perm slc = (if slice_elems slc = [] then Inr 0 else first_of (ExtractInts perm slc 1))"

definition TakeInt64 :: "(nat \<Rightarrow> nat list) \<Rightarrow> int slice \<Rightarrow> kit_panic + int" where
  "TakeInt64 perm slc = (if slice_elems slc = [] then Inr 0 else first_of (ExtractInt64s perm slc 1))"

definition TakeInt32 :: "(nat \<Rightarrow> nat list) \<Rightarrow> int slice \<Rightarrow> kit_panic + int" where
  "TakeInt32 perm slc = (if slice_elems slc = [] then Inr 0 else first_of (ExtractInt32s perm slc 1))"

definition TakeFloat64 :: "(nat \<Rightarrow> nat list) \<Rightarrow> float64 slice \<Rightarrow> kit_panic + float64" where
  "TakeFloat64 perm slc = (if slice_elems slc = [] then Inr (Number False 0) else first_of (ExtractFloat64s perm slc 1))"

definition TakeFloat32 :: "(nat \<Rightarrow> nat list) \<Rightarrow> float64 slice \<Rightarrow> kit_panic + float64" where
  "TakeFloat32 perm slc = (if slice_elems slc = [] then Inr (Number False 0) else first_of (ExtractFloat32s perm slc 1))"

definition TakeFloat :: "(nat \<Rightarrow> nat list) \<Rightarrow> float64 slice \<Rightarrow> kit_panic + float64" where
  "TakeFloat perm slc = TakeFloat64 perm slc"

section \<open>What the loops compute\<close>

lemma contain_loop_index:
  "contain_loop eq i xs = (if list_ex eq xs then i + int (length (takeWhile (\<lambda>x. \<not> eq x) xs)) else - 1)"
  by (induction eq i xs rule: contain_loop.induct) (simp_all add: ValueIsNotContained_def)

lemma slice_elems_append_to [simp]: "slice_elems (append_to r x) = slice_elems r @ [x]"
  by (simp add: append_to_def slice_elems_def)

text \<open>Deleting removes the first matches, at most \<open>n\<close> of them when \<open>n\<close> is not negative.\<close>

fun drop_matches :: "('a \<Rightarrow> bool) \<Rightarrow> nat \<Rightarrow> 'a list \<Rightarrow> 'a list" where
  "drop_matches eq k [] = []"
| "drop_matches eq k (x # xs) = (if eq x \<and> 0 < k then drop_matches eq (k - 1) xs else x # drop_matches eq k xs)"

definition deletions :: "('a \<Rightarrow> bool) \<Rightarrow> int \<Rightarrow> 'a list \<Rightarrow> nat" where
  "deletions eq n xs = (let k = length (List.filter eq xs) in if n < 0 then k else min (nat n) k)"

lemma drop_matches_all: "length (List.filter eq xs) \<le> k \<Longrightarrow> drop_matches eq k xs = List.filter (\<lambda>x. \<not> eq x) xs"
  by (induction xs arbitrary: k) auto

lemma delete_loop_all:
  assumes "n < 0"
  shows "slice_elems (fst (delete_loop eq n xs result cnt)) = slice_elems result @ List.filter (\<lambda>x. \<not> eq x) xs"
    and "snd (delete_loop eq n xs result cnt) = cnt + int (length (List.filter eq xs))"
  using assms by (induction eq n xs result cnt rule: delete_loop.induct) auto

lemma delete_loop_some:
  "0 \<le> cnt \<Longrightarrow> cnt \<le> n \<Longrightarrow>
   slice_elems (fst (delete_loop eq n xs result cnt)) = slice_elems result @ drop_matches eq (nat (n - cnt)) xs \<and>
   snd (delete_loop eq n xs result cnt) = cnt + min (n - cnt) (int (length (List.filter eq xs)))"
proof (induction eq n xs result cnt rule: delete_loop.induct)
  case (2 eq n v vs result cnt)
  have "nat (n - (cnt + 1)) = nat (n - cnt) - 1" by simp
  then show ?case using 2 by auto
qed simp

lemma drop_matches_min: "drop_matches eq (min k (length (List.filter eq xs))) xs = drop_matches eq k xs"
proof (cases "k \<le> length (List.filter eq xs)")
  case False
  then show ?thesis by (simp add: drop_matches_all min_def)
qed (simp add: min_def)

lemma delete_loop_result:
  "slice_elems (fst (delete_loop eq n xs None 0)) = drop_matches eq (deletions eq n xs) xs"
  "snd (delete_loop eq n xs None 0) = int (deletions eq n xs)"
proof -
  have e: "slice_elems (None :: 'a slice) = []" by (simp add: slice_elems_def)
  show "slice_elems (fst (delete_loop eq n xs None 0)) = drop_matches eq (deletions eq n xs) xs"
    using delete_loop_all(1) [of n eq xs None 0] delete_loop_some [of 0 n eq xs None]
    by (cases "n < 0") (simp_all add: deletions_def drop_matches_all drop_matches_min e)
  show "snd (delete_loop eq n xs None 0) = int (deletions eq n xs)"
    using delete_loop_all(2) [of n eq xs None 0] delete_loop_some [of 0 n eq xs None]
    by (cases "n < 0") (simp_all add: deletions_def)
qed

lemma remdups_snoc: "remdups (xs @ [v]) = List.filter (\<lambda>x. x \<noteq> v) (remdups xs) @ [v]"
  by (induction xs) auto

text \<open>The first occurrence of every value is kept, in order.\<close>

lemma unique_loop_firsts:
  "slice_elems (unique_loop (=) xs seen result) =
     slice_elems result @ rev (remdups (rev (List.filter (\<lambda>x. x \<notin> set seen) xs)))"
proof (induction "(=) :: 'a \<Rightarrow> 'a \<Rightarrow> bool" xs seen result rule: unique_loop.induct)
  case (2 v vs seen result)
  have k: "has_key (=) seen v \<longleftrightarrow> v \<in> set seen" by (auto simp: has_key_def list_ex_iff)
  have f: "List.filter (\<lambda>x. x \<notin> set (v # seen)) vs = List.filter (\<lambda>x. x \<noteq> v) (List.filter (\<lambda>x. x \<notin> set seen) vs)"
    by (auto intro: filter_cong)
  show ?case using 2 unfolding unique_loop.simps k
    by (simp add: remdups_snoc remdups_filter rev_filter f [simplified])
qed simp

lemma count_loop_counts: "map_of (count_loop (=) xs) k = (if k \<in> set xs then Some (int (count_list xs k)) else None)"
proof -
  have b: "map_of (bump (=) x m) k = (if x = k then Some (case map_of m k of None \<Rightarrow> 1 | Some n \<Rightarrow> n + 1) else map_of m k)" for x m
    by (induction m) auto
  have "map_of (foldl (\<lambda>m v. bump (=) v m) m xs) k =
     (if k \<in> set xs then Some ((case map_of m k of None \<Rightarrow> 0 | Some n \<Rightarrow> n) + int (count_list xs k)) else map_of m k)" for m
    by (induction xs arbitrary: m) (auto simp: b split: option.splits)
  from this [of "[]"] show ?thesis by (simp add: count_loop_def)
qed

lemma equal_loop_all2: "length vs + i = length arr2 \<Longrightarrow> equal_loop eq i vs arr2 \<longleftrightarrow> list_all2 eq vs (drop i arr2)"
proof (induction eq i vs arr2 rule: equal_loop.induct)
  case (2 eq i v vs arr2)
  then have "drop i arr2 = arr2 ! i # drop (Suc i) arr2" by (simp add: Cons_nth_drop_Suc)
  then show ?case using 2 by simp
qed simp

lemma equal_slices_eq: "equal_slices (=) a b \<longleftrightarrow> a = b"
  by (cases a; cases b) (auto simp: equal_slices_def slice_elems_def equal_loop_all2 list.rel_eq)

text \<open>The array written from both ends is the reversed slice.\<close>

lemma reverse_loop_inv:
  "reverse_loop slc result i j = (r, j') \<Longrightarrow> length result = length slc \<Longrightarrow> 0 \<le> i \<Longrightarrow> i + j = int (length slc) - 1 \<Longrightarrow>
   i \<le> j + 1 \<Longrightarrow> \<forall>k<length slc. int k < i \<or> j < int k \<longrightarrow> result ! k = rev slc ! k \<Longrightarrow>
   length r = length slc \<and> (\<exists>i'. i' + j' = int (length slc) - 1 \<and> (i' = j' \<or> i' = j' + 1) \<and>
     (\<forall>k<length slc. int k < i' \<or> j' < int k \<longrightarrow> r ! k = rev slc ! k))"
proof (induction slc result i j rule: reverse_loop.induct)
  case (1 slc result i j)
  show ?case
  proof (cases "i < j")
    case True
    define result' where "result' = result[nat i := slc ! nat j, nat j := slc ! nat i]"
    have ij: "nat i < length slc" "nat j < length slc" "length slc - Suc (nat i) = nat j" "length slc - Suc (nat j) = nat i"
      using True "1.prems"(3,4) by simp_all
    have "\<forall>k<length slc. int k < i + 1 \<or> j - 1 < int k \<longrightarrow> result' ! k = rev slc ! k"
    proof (intro allI impI)
      fix k
      assume k: "k < length slc" "int k < i + 1 \<or> j - 1 < int k"
      then consider "k = nat i" | "k = nat j" | "k \<noteq> nat i" "k \<noteq> nat j" "int k < i \<or> j < int k" by linarith
      then show "result' ! k = rev slc ! k"
      proof cases
        case 1
        then show ?thesis using ij "1.prems"(2) True by (simp add: result'_def rev_nth nth_list_update)
      next
        case 2
        then show ?thesis using ij "1.prems"(2) by (simp add: result'_def rev_nth nth_list_update)
      next
        case 3
        then have "result ! k = rev slc ! k" using "1.prems"(6) k(1) by blast
        then show ?thesis using 3 by (simp add: result'_def)
      qed
    qed
    moreover have "reverse_loop slc result' (i + 1) (j - 1) = (r, j')"
      using "1.prems"(1) True unfolding result'_def by (subst (asm) reverse_loop.simps) simp
    moreover have "length result' = length slc" using "1.prems"(2) by (simp add: result'_def)
    ultimately show ?thesis using "1.IH" [OF True, folded result'_def] "1.prems"(3,4) True by simp
  next
    case False
    then have "r = result" "j' = j" using "1.prems"(1) by (simp_all add: reverse_loop.simps)
    then show ?thesis using False "1.prems" by (intro conjI exI [of _ i]) auto
  qed
qed

lemma reversed_rev: "reversed z slc = rev slc"
proof -
  obtain r j where r: "reverse_loop slc (replicate (length slc) z) 0 (int (length slc) - 1) = (r, j)" by fastforce
  obtain i where i: "length r = length slc" "i + j = int (length slc) - 1" "i = j \<or> i = j + 1"
      "\<forall>k<length slc. int k < i \<or> j < int k \<longrightarrow> r ! k = rev slc ! k"
    using reverse_loop_inv [OF r] by auto
  show ?thesis
  proof (cases "i = j")
    case True
    then have "int (length slc) = 2 * j + 1" using i(2) by simp
    moreover from this have "j = int (nat j)" by linarith
    ultimately have m: "length slc = Suc (2 * nat j)" by linarith
    then have odd: "length slc mod 2 = 1" "0 < length slc" "length slc - Suc (nat j) = nat j" "nat j < length slc" by simp_all
    have "r[nat j := slc ! nat j] = rev slc"
      using i odd True by (intro nth_equalityI) (auto simp: nth_list_update rev_nth)
    then show ?thesis using odd(1,2) by (simp add: reversed_def r)
  next
    case False
    then have "i = j + 1" using i(3) by simp
    then have "int (length slc) = 2 * (j + 1)" using i(2) by simp
    then have "length slc mod 2 \<noteq> 1" by presburger
    moreover have "r = rev slc" using i \<open>i = j + 1\<close> by (intro nth_equalityI) auto
    ultimately show ?thesis by (simp add: reversed_def r)
  qed
qed

lemma filled_replicate: "filled z value num = (if num < 0 then Inl num_below_zero else Inr (replicate (nat num) value))"
proof -
  have "foldl (\<lambda>result i. result[i := value]) (replicate n z) [0..<k] = replicate k value @ replicate (n - k) z" if "k \<le> n" for k n
    using that
  proof (induction k)
    case (Suc k)
    then have "replicate (n - k) z = z # replicate (n - Suc k) z" by (metis Suc_diff_le diff_Suc_Suc replicate_Suc)
    then show ?case using Suc by (simp add: list_update_append replicate_append_same)
  qed simp
  from this [of "nat num" "nat num"] show ?thesis by (simp add: filled_def)
qed

text \<open>Random extraction takes elements from distinct places, and shuffling is a permutation.\<close>

definition permutes :: "(nat \<Rightarrow> nat list) \<Rightarrow> bool" where
  "permutes perm \<longleftrightarrow> (\<forall>n. mset (perm n) = mset [0..<n])"

lemma extract_loop_map:
  "num \<le> i + length rest \<Longrightarrow> length result = num \<Longrightarrow> i \<le> num \<Longrightarrow>
   extract_loop slc num i rest result = take i result @ map ((!) slc) (take (num - i) rest)"
proof (induction slc num i rest result rule: extract_loop.induct)
  case (2 slc num i v vs result)
  show ?case
  proof (cases "i < num")
    case True
    then have "take (Suc i) (result[i := slc ! v]) = take i result @ [slc ! v]"
      using 2 by (simp add: take_Suc_conv_app_nth)
    moreover have "take (num - i) (v # vs) = v # take (num - Suc i) vs" using True by (simp add: take_Cons')
    ultimately show ?thesis using 2 True by simp
  qed (use 2 in simp)
qed simp

lemma extracted_map:
  assumes "permutes perm" "0 \<le> num" "slc \<noteq> []"
  shows "extracted perm z slc num = Some (map ((!) slc) (take (min (nat num) (length slc)) (perm (length slc))))"
proof -
  have "length (perm n) = n" for n using assms(1) unfolding permutes_def by (metis mset_eq_length length_upt minus_nat.diff_0)
  then show ?thesis using assms(2,3) by (auto simp: extracted_def extract_loop_map min_def Let_def)
qed

lemma shuffled:
  assumes "permutes perm"
  shows "mset (slice_elems (extracted perm z slc (int (length slc)))) = mset slc"
proof (cases "slc = []")
  case False
  have p: "mset (perm (length slc)) = mset [0..<length slc]" using assms by (simp add: permutes_def)
  then have l: "length (perm (length slc)) = length slc" by (metis diff_zero length_upt mset_eq_length)
  have "mset (map ((!) slc) (perm (length slc))) = mset (map ((!) slc) [0..<length slc])" using p by simp
  then show ?thesis using extracted_map [OF assms, of "int (length slc)" slc z] False l
    by (simp add: slice_elems_def map_nth)
qed (simp add: extracted_def slice_elems_def)

end
