(* ===== verification/SliceText.thy ===== *)
theory SliceText
  imports SliceKit KvStore
begin

text \<open>
  \<open>EasySwapBase/kit/slice/\<close>: join.go, split.go and convert.go, slices as text and slices of other element types. Text of
  floating-point numbers and their parsing are the parameters of \<open>float_env\<close>.
\<close>

section \<open>Joining\<close>

definition joinSeparator :: string where "joinSeparator = '',''"

definition separator_of :: "string list \<Rightarrow> string" where
  "separator_of sep = (case sep of [] \<Rightarrow> joinSeparator | s # _ \<Rightarrow> s)"

text \<open>The separator is written while elements are left; \<open>len\<close> counts them down.\<close>

fun join_loop :: "('a \<Rightarrow> string) \<Rightarrow> string \<Rightarrow> 'a list \<Rightarrow> int \<Rightarrow> string \<Rightarrow> string" where
  "join_loop text_of separator [] len builder = builder"
| "join_loop text_of separator (v # vs) len builder =
     join_loop text_of separator vs (len - 1) (builder @ text_of v @ (if 0 < len - 1 then separator else ''''))"

definition joined :: "('a \<Rightarrow> string) \<Rightarrow> 'a list \<Rightarrow> string list \<Rightarrow> string" where
  "joined text_of slc sep = (if slc = [] then '''' else join_loop text_of (separator_of sep) slc (int (length slc)) '''')"

definition Join :: "float_env \<Rightarrow> anyval dyn \<Rightarrow> string list \<Rightarrow> kit_panic + string" where
  "Join e slc sep = reflected '''' (\<lambda>xs. Inr (joined (ToString_any e) xs sep)) slc"

definition JoinStrings :: "string slice \<Rightarrow> string list \<Rightarrow> string" where
  "JoinStrings slc sep = joined (\<lambda>v. v) (slice_elems slc) sep"

definition JoinBools :: "bool slice \<Rightarrow> string list \<Rightarrow> string" where
  "JoinBools slc sep = joined FormatBool (slice_elems slc) sep"

definition JoinInts :: "int slice \<Rightarrow> string list \<Rightarrow> string" where
  "JoinInts slc sep = joined (format_int 10) (slice_elems slc) sep"

definition JoinInt64s :: "int slice \<Rightarrow> string list \<Rightarrow> string" where
  "JoinInt64s slc sep = joined (format_int 10) (slice_elems slc) sep"

definition JoinInt32s :: "int slice \<Rightarrow> string list \<Rightarrow> string" where
  "JoinInt32s slc sep = joined (format_int 10) (slice_elems slc) sep"

definition JoinFloat64s :: "float_env \<Rightarrow> float64 slice \<Rightarrow> string list \<Rightarrow> string" where
  "JoinFloat64s e slc sep = joined (FormatFloat e) (slice_elems slc) sep"

definition JoinFloat32s :: "float_env \<Rightarrow> float64 slice \<Rightarrow> string list \<Rightarrow> string" where
  "JoinFloat32s e slc sep = joined (FormatFloat32 e) (slice_elems slc) sep"

definition JoinFloats :: "float_env \<Rightarrow> float64 slice \<Rightarrow> string list \<Rightarrow> string" where
  "JoinFloats e slc sep = JoinFloat64s e slc sep"

section \<open>Splitting\<close>

text \<open>An empty separator splits a text into its characters, each the bytes of one rune.\<close>

fun explode_loop :: "nat \<Rightarrow> string \<Rightarrow> string list" where
  "explode_loop 0 s = []"
| "explode_loop (Suc 0) s = [s]"
| "explode_loop (Suc (Suc n)) s = (let size = snd (DecodeRune (string_bytes s)) in take size s # explode_loop (Suc n) (drop size s))"

definition strings_Split :: "string \<Rightarrow> string \<Rightarrow> string list" where
  "strings_Split s sep = (if sep = '''' then explode_loop (RuneCount (string_bytes s)) s else Split s sep)"

definition splitSeparator :: string where "splitSeparator = '',''"

definition split_text :: "(string \<Rightarrow> 'a) \<Rightarrow> string \<Rightarrow> string list \<Rightarrow> 'a slice" where
  "split_text conv str sep = (if str = '''' then None
     else let separator = (case sep of [] \<Rightarrow> splitSeparator | s # _ \<Rightarrow> s) in Some (map conv (strings_Split str separator)))"

text \<open>\<open>ParseFloat\<close> after \<open>TrimSpace\<close>, \<open>ParseBool\<close> with its error ignored, and integers as \<open>Convert\<close> reads them.\<close>

definition float_of_text :: "float_env \<Rightarrow> string \<Rightarrow> float64" where
  "float_of_text e v = ParseFloat e (TrimSpace v)"

definition SplitStrings :: "string \<Rightarrow> string list \<Rightarrow> string slice" where
  "SplitStrings str sep = split_text (\<lambda>v. v) str sep"

definition SplitBools :: "string \<Rightarrow> string list \<Rightarrow> bool slice" where
  "SplitBools str sep = split_text parses_true str sep"

definition SplitInts :: "string \<Rightarrow> string list \<Rightarrow> int slice" where
  "SplitInts str sep = split_text ToInt str sep"

definition SplitInt64s :: "string \<Rightarrow> string list \<Rightarrow> int slice" where
  "SplitInt64s str sep = split_text Convert.ToInt64 str sep"

definition SplitInt32s :: "string \<Rightarrow> string list \<Rightarrow> int slice" where
  "SplitInt32s str sep = split_text (\<lambda>v. wrap32 (Convert.ToInt64 v)) str sep"

definition SplitFloat64s :: "float_env \<Rightarrow> string \<Rightarrow> string list \<Rightarrow> float64 slice" where
  "SplitFloat64s e str sep = split_text (float_of_text e) str sep"

definition SplitFloat32s :: "float_env \<Rightarrow> string \<Rightarrow> string list \<Rightarrow> float64 slice" where
  "SplitFloat32s e str sep = split_text (\<lambda>v. to_float32 (float_of_text e v)) str sep"

definition SplitFloats :: "float_env \<Rightarrow> string \<Rightarrow> string list \<Rightarrow> float64 slice" where
  "SplitFloats e str sep = SplitFloat64s e str sep"

section \<open>Slices of other types\<close>

text \<open>The values of a slice one after the other; the first that panics ends the loop.\<close>

fun convert_loop :: "('a \<Rightarrow> kit_panic + 'b) \<Rightarrow> 'a list \<Rightarrow> 'b list \<Rightarrow> kit_panic + 'b list" where
  "convert_loop conv [] result = Inr result"
| "convert_loop conv (x # xs) result = (case conv x of Inl p \<Rightarrow> Inl p | Inr y \<Rightarrow> convert_loop conv xs (result @ [y]))"

definition StringsToInts :: "string slice \<Rightarrow> int list" where
  "StringsToInts slc = map ToInt (slice_elems slc)"

definition StringsToInt64s :: "string slice \<Rightarrow> int list" where
  "StringsToInt64s slc = map Convert.ToInt64 (slice_elems slc)"

definition StringsToFloat64s :: "float_env \<Rightarrow> string slice \<Rightarrow> float64 list" where
  "StringsToFloat64s e slc = map (float_of_text e) (slice_elems slc)"

definition StringsToInterfaces :: "string slice \<Rightarrow> anyval list" where
  "StringsToInterfaces slc = map AnyString (slice_elems slc)"

definition IntsToStrings :: "int slice \<Rightarrow> string list" where
  "IntsToStrings slc = map (format_int 10) (slice_elems slc)"

definition IntsToInterfaces :: "int slice \<Rightarrow> anyval list" where
  "IntsToInterfaces slc = map (AnyInt W) (slice_elems slc)"

definition Int64sToStrings :: "int slice \<Rightarrow> string list" where
  "Int64sToStrings slc = map (format_int 10) (slice_elems slc)"

definition Int64sToInterfaces :: "int slice \<Rightarrow> anyval list" where
  "Int64sToInterfaces slc = map (AnyInt W64) (slice_elems slc)"

definition Float64sToStrings :: "float_env \<Rightarrow> float64 slice \<Rightarrow> string list" where
  "Float64sToStrings e slc = map (FormatFloat e) (slice_elems slc)"

definition Float64sToInterfaces :: "float64 slice \<Rightarrow> anyval list" where
  "Float64sToInterfaces slc = map AnyFloat64 (slice_elems slc)"

definition InterfacesToStrings :: "float_env \<Rightarrow> anyval slice \<Rightarrow> string list" where
  "InterfacesToStrings e slc = map (ToString_any e) (slice_elems slc)"

definition StringsToFloats :: "float_env \<Rightarrow> string slice \<Rightarrow> float64 list" where
  "StringsToFloats e slc = StringsToFloat64s e slc"

definition FloatsToStrings :: "float_env \<Rightarrow> float64 slice \<Rightarrow> string list" where
  "FloatsToStrings e slc = Float64sToStrings e slc"

definition FloatsToInterfaces :: "float64 slice \<Rightarrow> anyval list" where
  "FloatsToInterfaces slc = Float64sToInterfaces slc"

definition InterfacesToInts :: "float_env \<Rightarrow> anyval slice \<Rightarrow> kit_panic + int list" where
  "InterfacesToInts e slc = convert_loop (ToInt_any e) (slice_elems slc) []"

definition InterfacesToInt64s :: "float_env \<Rightarrow> anyval slice \<Rightarrow> kit_panic + int list" where
  "InterfacesToInt64s e slc = convert_loop (ToInt64_any e) (slice_elems slc) []"

definition InterfacesToFloat64s :: "float_env \<Rightarrow> anyval slice \<Rightarrow> kit_panic + float64 list" where
  "InterfacesToFloat64s e slc = convert_loop (ToFloat64_any e) (slice_elems slc) []"

definition InterfacesToFloats :: "float_env \<Rightarrow> anyval slice \<Rightarrow> kit_panic + float64 list" where
  "InterfacesToFloats e slc = InterfacesToFloat64s e slc"

section \<open>Round trips\<close>

fun intercalate :: "string \<Rightarrow> string list \<Rightarrow> string" where
  "intercalate sep [] = ''''"
| "intercalate sep [t] = t"
| "intercalate sep (t # ts) = t @ sep @ intercalate sep ts"

lemma intercalate_Cons: "intercalate sep (t # ts) = t @ (if ts = [] then '''' else sep @ intercalate sep ts)"
  by (cases ts) simp_all

lemma join_loop_intercalate:
  "join_loop text_of sep slc (int (length slc)) builder = builder @ intercalate sep (map text_of slc)"
  by (induction slc arbitrary: builder) (simp_all add: intercalate_Cons)

lemma joined_intercalate: "joined text_of slc sep = intercalate (separator_of sep) (map text_of slc)"
  by (simp add: joined_def join_loop_intercalate)

lemma split_from_part:
  "CHR '','' \<notin> set t \<Longrightarrow> split_from '','' acc (t @ '','' @ rest) = (acc @ t) # split_from '','' [] rest"
  by (induction t arbitrary: acc) (auto simp: is_prefix_def)

lemma Split_intercalate:
  "ts \<noteq> [] \<Longrightarrow> list_all (\<lambda>t. CHR '','' \<notin> set t) ts \<Longrightarrow> Split (intercalate '','' ts) '','' = ts"
proof (induction ts)
  case (Cons t ts)
  then show ?case
    using Split_without [of "CHR '',''" "'',''" t "[]"] split_from_part [of t "[]" "intercalate '','' ts"]
    by (cases "ts = []") (simp_all add: Split_def intercalate_Cons)
qed simp

lemma no_comma_in_number: "CHR '','' \<notin> set (format_int 10 i)"
proof -
  have "c \<noteq> CHR '',''" if "c \<in> set (nat_text 10 n)" for c n
    using nat_text_chars [of 10 c n] that digit_val_of by (auto simp: digit_val_def dest!: arg_cong [of _ _ digit_val])
  then show ?thesis by (auto simp: format_int_def)
qed

text \<open>C40: 64-bit numbers joined into a text, with the default separator, and split again are the same numbers.\<close>

theorem numbers_joined_and_split:
  assumes "list_all in_i64 ns" "ns \<noteq> []"
  shows "SplitInt64s (JoinInt64s (Some ns) []) [] = Some ns"
proof -
  have t: "Convert.ToInt64 (format_int 10 i) = i" if "in_i64 i" for i
    using ToInt_int_text [OF that] by (simp add: Convert.ToInt_def int_text_format)
  have n: "format_int 10 i \<noteq> ''''" for i by (simp add: format_int_def)
  have ne: "intercalate '','' (map (format_int 10) ns) \<noteq> ''''"
    using assms(2) n by (cases ns; cases "tl ns") simp_all
  have "Split (intercalate '','' (map (format_int 10) ns)) '','' = map (format_int 10) ns"
    using assms(2) no_comma_in_number by (intro Split_intercalate) (simp_all add: list_all_iff)
  then show ?thesis
    using ne t assms(1) by (simp add: SplitInt64s_def JoinInt64s_def split_text_def strings_Split_def joined_intercalate slice_elems_def
        separator_of_def joinSeparator_def splitSeparator_def list_all_iff comp_def map_idI)
qed

theorem numbers_joined_and_split_witness:
  "SplitInt64s (JoinInt64s (Some [- 5, 0, 9223372036854775807]) []) [] = Some [- 5, 0, 9223372036854775807]"
  by (rule numbers_joined_and_split) (simp_all add: in_i64_def)

end
