(* ===== verification/TimeKit.thy ===== *)
theory TimeKit
  imports MathKit
begin

text \<open>
  \<open>EasySwapBase/kit/time/time.go\<close>. A \<open>time.Time\<close> is an instant, in nanoseconds since the epoch, with a location. What the
  clock shows is an argument (\<open>moment\<close>); calendars, layouts and the database of time zones are parameters (\<open>time_env\<close>).
\<close>

record 'l gotime =
  instant :: int
  zone :: 'l

record 'l time_env =
  LoadLocation :: "string \<Rightarrow> 'l option"
  civil_date :: "int \<Rightarrow> 'l \<Rightarrow> int \<times> int \<times> int"
  make_date :: "int \<times> int \<times> int \<Rightarrow> int \<times> int \<times> int \<Rightarrow> 'l \<Rightarrow> int"
  add_date :: "'l gotime \<Rightarrow> int \<Rightarrow> int \<Rightarrow> int \<Rightarrow> 'l gotime"
  layout_text :: "'l gotime \<Rightarrow> string \<Rightarrow> string"
  parse_layout :: "string \<Rightarrow> string \<Rightarrow> 'l \<Rightarrow> 'l gotime option"

definition Microsecond :: int where "Microsecond = 1000"
definition Millisecond :: int where "Millisecond = 1000000"
definition Second :: int where "Second = 1000000000"
definition Hour :: int where "Hour = 3600000000000"

section \<open>Locations and the methods of \<open>time.Time\<close>\<close>

text \<open>A location that does not load panics while the package is initialised.\<close>

definition Location :: "'l time_env \<Rightarrow> string \<Rightarrow> kit_panic + 'l" where
  "Location e name = (case LoadLocation e name of None \<Rightarrow> Inl (PanicText name) | Some loc \<Rightarrow> Inr loc)"

record 'l zones =
  shanghai :: 'l
  hongkong :: 'l
  local :: 'l
  utc :: 'l

definition Shanghai :: "'l zones \<Rightarrow> 'l" where "Shanghai z = shanghai z"
definition HongKong :: "'l zones \<Rightarrow> 'l" where "HongKong z = hongkong z"
definition Local :: "'l zones \<Rightarrow> 'l" where "Local z = local z"
definition UTC :: "'l zones \<Rightarrow> 'l" where "UTC z = utc z"

definition getLocation :: "'l zones \<Rightarrow> 'l list \<Rightarrow> 'l" where
  "getLocation z location = (case location of [] \<Rightarrow> Shanghai z | loc # _ \<Rightarrow> loc)"

definition time_In :: "'l gotime \<Rightarrow> 'l \<Rightarrow> 'l gotime" where
  "time_In t loc = t\<lparr>zone := loc\<rparr>"

definition time_Add :: "'l gotime \<Rightarrow> int \<Rightarrow> 'l gotime" where
  "time_Add t d = t\<lparr>instant := instant t + d\<rparr>"

text \<open>\<open>Unix\<close> rounds down to the second, \<open>UnixNano\<close> wraps outside the 64-bit nanoseconds, \<open>Sub\<close> stops at the bounds.\<close>

definition time_Unix :: "'l gotime \<Rightarrow> int" where
  "time_Unix t = instant t div Second"

definition time_UnixNano :: "'l gotime \<Rightarrow> int" where
  "time_UnixNano t = wrap64 (instant t)"

definition time_Sub :: "'l gotime \<Rightarrow> 'l gotime \<Rightarrow> int" where
  "time_Sub t u = max (- (2 ^ 63)) (min (2 ^ 63 - 1) (instant t - instant u))"

definition unix_time :: "'l \<Rightarrow> int \<Rightarrow> int \<Rightarrow> 'l gotime" where
  "unix_time loc sec nsec = \<lparr>instant = sec * Second + nsec, zone = loc\<rparr>"

definition hours_of :: "int \<Rightarrow> float64" where
  "hours_of d = fl_add (fl_of_int (go_div d Hour)) (fl_div (fl_of_int (go_rem d Hour)) (fl_of_int Hour))"

section \<open>Timestamps\<close>

definition UnixSecond :: "'l zones \<Rightarrow> 'l gotime \<Rightarrow> 'l list \<Rightarrow> int" where
  "UnixSecond z t location = time_Unix (time_In t (getLocation z location))"

definition UnixNanosecond :: "'l zones \<Rightarrow> 'l gotime \<Rightarrow> 'l list \<Rightarrow> int" where
  "UnixNanosecond z t location = time_UnixNano (time_In t (getLocation z location))"

definition UnixMillisecond :: "'l zones \<Rightarrow> 'l gotime \<Rightarrow> 'l list \<Rightarrow> int" where
  "UnixMillisecond z t location = go_div (UnixNanosecond z t location) Millisecond"

definition UnixMicrosecond :: "'l zones \<Rightarrow> 'l gotime \<Rightarrow> 'l list \<Rightarrow> int" where
  "UnixMicrosecond z t location = go_div (UnixNanosecond z t location) Microsecond"

definition Now :: "'l zones \<Rightarrow> 'l gotime \<Rightarrow> 'l list \<Rightarrow> 'l gotime" where
  "Now z moment location = time_In moment (getLocation z location)"

definition NowAdd :: "'l zones \<Rightarrow> 'l gotime \<Rightarrow> int \<Rightarrow> 'l list \<Rightarrow> 'l gotime" where
  "NowAdd z moment d location = time_Add (Now z moment location) d"

definition NowUnixSecond :: "'l zones \<Rightarrow> 'l gotime \<Rightarrow> 'l list \<Rightarrow> int" where
  "NowUnixSecond z moment location = UnixSecond z moment location"

definition NowUnixMillisecond :: "'l zones \<Rightarrow> 'l gotime \<Rightarrow> 'l list \<Rightarrow> int" where
  "NowUnixMillisecond z moment location = UnixMillisecond z moment location"

definition NowUnixMicrosecond :: "'l zones \<Rightarrow> 'l gotime \<Rightarrow> 'l list \<Rightarrow> int" where
  "NowUnixMicrosecond z moment location = UnixMicrosecond z moment location"

definition NowUnixNanosecond :: "'l zones \<Rightarrow> 'l gotime \<Rightarrow> 'l list \<Rightarrow> int" where
  "NowUnixNanosecond z moment location = UnixNanosecond z moment location"

definition NowAddUnixSecond :: "'l zones \<Rightarrow> 'l gotime \<Rightarrow> int \<Rightarrow> 'l list \<Rightarrow> int" where
  "NowAddUnixSecond z moment d location = UnixSecond z (time_Add moment d) location"

definition NowAddUnixMillisecond :: "'l zones \<Rightarrow> 'l gotime \<Rightarrow> int \<Rightarrow> 'l list \<Rightarrow> int" where
  "NowAddUnixMillisecond z moment d location = UnixMillisecond z (time_Add moment d) location"

definition NowAddUnixMicrosecond :: "'l zones \<Rightarrow> 'l gotime \<Rightarrow> int \<Rightarrow> 'l list \<Rightarrow> int" where
  "NowAddUnixMicrosecond z moment d location = UnixMicrosecond z (time_Add moment d) location"

definition NowAddUnixNanosecond :: "'l zones \<Rightarrow> 'l gotime \<Rightarrow> int \<Rightarrow> 'l list \<Rightarrow> int" where
  "NowAddUnixNanosecond z moment d location = UnixNanosecond z (time_Add moment d) location"

section \<open>Text\<close>

definition Format :: "'l time_env \<Rightarrow> 'l zones \<Rightarrow> 'l gotime \<Rightarrow> string \<Rightarrow> 'l list \<Rightarrow> string" where
  "Format e z t layout location = layout_text e (time_In t (getLocation z location)) layout"

definition Date :: "'l time_env \<Rightarrow> 'l zones \<Rightarrow> 'l gotime \<Rightarrow> 'l list \<Rightarrow> string" where
  "Date e z t location = Format e z t ''2006-01-02'' location"

definition DateTime :: "'l time_env \<Rightarrow> 'l zones \<Rightarrow> 'l gotime \<Rightarrow> 'l list \<Rightarrow> string" where
  "DateTime e z t location = Format e z t ''2006-01-02 15:04:05'' location"

definition NowDate :: "'l time_env \<Rightarrow> 'l zones \<Rightarrow> 'l gotime \<Rightarrow> 'l list \<Rightarrow> string" where
  "NowDate e z moment location = Date e z moment location"

definition NowDateTime :: "'l time_env \<Rightarrow> 'l zones \<Rightarrow> 'l gotime \<Rightarrow> 'l list \<Rightarrow> string" where
  "NowDateTime e z moment location = DateTime e z moment location"

definition NowFormat :: "'l time_env \<Rightarrow> 'l zones \<Rightarrow> 'l gotime \<Rightarrow> string \<Rightarrow> 'l list \<Rightarrow> string" where
  "NowFormat e z moment layout location = Format e z moment layout location"

definition NowAddDate :: "'l time_env \<Rightarrow> 'l zones \<Rightarrow> 'l gotime \<Rightarrow> int \<Rightarrow> 'l list \<Rightarrow> string" where
  "NowAddDate e z moment d location = Date e z (time_Add moment d) location"

definition NowAddDateTime :: "'l time_env \<Rightarrow> 'l zones \<Rightarrow> 'l gotime \<Rightarrow> int \<Rightarrow> 'l list \<Rightarrow> string" where
  "NowAddDateTime e z moment d location = DateTime e z (time_Add moment d) location"

definition NowAddFormat :: "'l time_env \<Rightarrow> 'l zones \<Rightarrow> 'l gotime \<Rightarrow> int \<Rightarrow> string \<Rightarrow> 'l list \<Rightarrow> string" where
  "NowAddFormat e z moment d layout location = Format e z (time_Add moment d) layout location"

text \<open>A text of another length than the layout is refused, and the time is now.\<close>

definition StringToTime ::
  "'l time_env \<Rightarrow> 'l zones \<Rightarrow> 'l gotime \<Rightarrow> string \<Rightarrow> string \<Rightarrow> 'l list \<Rightarrow> 'l gotime option" where
  "StringToTime e z moment str layout location =
     (if length str \<noteq> length layout then None else parse_layout e layout str (getLocation z location))"

definition StringToUnix :: "'l time_env \<Rightarrow> 'l zones \<Rightarrow> 'l gotime \<Rightarrow> string \<Rightarrow> string \<Rightarrow> 'l list \<Rightarrow> int" where
  "StringToUnix e z moment str layout location =
     (case StringToTime e z moment str layout location of None \<Rightarrow> NowUnixSecond z moment [] | Some t \<Rightarrow> time_Unix t)"

section \<open>Times of timestamps\<close>

text \<open>The unit of a timestamp is guessed from its size. The product with the unit wraps around.\<close>

definition UnixToTime :: "'l zones \<Rightarrow> int \<Rightarrow> 'l list \<Rightarrow> 'l gotime" where
  "UnixToTime z timestamp location = (let loc = getLocation z location; t =
     (if timestamp < 10 ^ 10 then unix_time (Local z) timestamp 0
      else if timestamp < 10 ^ 13 then unix_time (Local z) 0 (wrap64 (timestamp * Millisecond))
      else if timestamp < 10 ^ 16 then unix_time (Local z) 0 (wrap64 (timestamp * Microsecond))
      else unix_time (Local z) 0 timestamp)
     in time_In t loc)"

definition UnixAddDate :: "'l time_env \<Rightarrow> 'l zones \<Rightarrow> int \<Rightarrow> int \<Rightarrow> int \<Rightarrow> int \<Rightarrow> 'l list \<Rightarrow> 'l gotime" where
  "UnixAddDate e z timestamp years months days location = add_date e (UnixToTime z timestamp location) years months days"

definition UnixAddYears :: "'l time_env \<Rightarrow> 'l zones \<Rightarrow> int \<Rightarrow> int \<Rightarrow> 'l list \<Rightarrow> 'l gotime" where
  "UnixAddYears e z timestamp years location = UnixAddDate e z timestamp years 0 0 location"

definition UnixAddMonths :: "'l time_env \<Rightarrow> 'l zones \<Rightarrow> int \<Rightarrow> int \<Rightarrow> 'l list \<Rightarrow> 'l gotime" where
  "UnixAddMonths e z timestamp months location = UnixAddDate e z timestamp 0 months 0 location"

definition UnixAddDays :: "'l time_env \<Rightarrow> 'l zones \<Rightarrow> int \<Rightarrow> int \<Rightarrow> 'l list \<Rightarrow> 'l gotime" where
  "UnixAddDays e z timestamp days location = UnixAddDate e z timestamp 0 0 days location"

definition UnixEqual :: "'l zones \<Rightarrow> int \<Rightarrow> int \<Rightarrow> bool" where
  "UnixEqual z timestamp1 timestamp2 \<longleftrightarrow> instant (UnixToTime z timestamp1 []) = instant (UnixToTime z timestamp2 [])"

definition UnixBefore :: "'l zones \<Rightarrow> int \<Rightarrow> int \<Rightarrow> bool" where
  "UnixBefore z timestamp1 timestamp2 \<longleftrightarrow> instant (UnixToTime z timestamp1 []) < instant (UnixToTime z timestamp2 [])"

definition UnixAfter :: "'l zones \<Rightarrow> int \<Rightarrow> int \<Rightarrow> bool" where
  "UnixAfter z timestamp1 timestamp2 \<longleftrightarrow> instant (UnixToTime z timestamp2 []) < instant (UnixToTime z timestamp1 [])"

definition UnixDifferHours :: "'l zones \<Rightarrow> int \<Rightarrow> int \<Rightarrow> float64" where
  "UnixDifferHours z timestamp1 timestamp2 = hours_of (time_Sub (UnixToTime z timestamp1 []) (UnixToTime z timestamp2 []))"

definition UnixDifferDays :: "float_env \<Rightarrow> 'l zones \<Rightarrow> int \<Rightarrow> int \<Rightarrow> int" where
  "UnixDifferDays f z timestamp1 timestamp2 = fl_to_int64 (int_of_big f)
     (fl_div (hours_of (time_Sub (UnixToTime z timestamp1 []) (UnixToTime z timestamp2 []))) (fl_of_int 24))"

definition UnixTodayRange :: "'l time_env \<Rightarrow> 'l zones \<Rightarrow> 'l gotime \<Rightarrow> 'l list \<Rightarrow> int \<times> int" where
  "UnixTodayRange e z moment location = (let loc = getLocation z location; d = civil_date e (instant moment) loc in
     (make_date e d (0, 0, 0) loc div Second, make_date e d (23, 59, 59) loc div Second))"

section \<open>Waiting\<close>

text \<open>The duration passed to \<open>time.Sleep\<close>, which returns at once for one that is not positive.\<close>

definition SleepSecond :: "int \<Rightarrow> int" where "SleepSecond n = wrap64 (n * Second)"
definition SleepMillisecond :: "int \<Rightarrow> int" where "SleepMillisecond n = wrap64 (n * Millisecond)"
definition SleepMicrosecond :: "int \<Rightarrow> int" where "SleepMicrosecond n = wrap64 (n * Microsecond)"

text \<open>A cycle task runs at once and then on every tick until its context is done; a panic of the task (\<open>fails n\<close> for run
  number \<open>n\<close>) is logged and ends the cycle. The result is the number of runs; \<open>None\<close> is the panic of a ticker with a
  negative period. When a tick and the end of the context are both there, the events say which is chosen.\<close>

datatype cycle_event = Tick | ContextDone

fun cycle_runs :: "(nat \<Rightarrow> bool) \<Rightarrow> nat \<Rightarrow> cycle_event list \<Rightarrow> nat" where
  "cycle_runs fails n [] = n"
| "cycle_runs fails n (ContextDone # es) = n"
| "cycle_runs fails n (Tick # es) = (if fails n then Suc n else cycle_runs fails (Suc n) es)"

definition DoCycleTask :: "(nat \<Rightarrow> bool) \<Rightarrow> int \<Rightarrow> cycle_event list \<Rightarrow> nat option" where
  "DoCycleTask fails d es = (if d = 0 then Some 0 else if d < 0 then None
     else Some (if fails 0 then 1 else cycle_runs fails 1 es))"

section \<open>Properties\<close>

lemmas unit_defs = Second_def Millisecond_def Microsecond_def

text \<open>A timestamp written in milliseconds is read back while it has thirteen digits and its nanoseconds fit.\<close>

lemma milliseconds_read_back:
  assumes "10 ^ 10 \<le> UnixMillisecond z t []" "UnixMillisecond z t [] < 10 ^ 13" "in_i64 (instant t)" "0 \<le> instant t"
  shows "instant (UnixToTime z (UnixMillisecond z t []) []) = instant t div Millisecond * Millisecond"
proof -
  have m: "UnixMillisecond z t [] = instant t div Millisecond"
    using assms(3,4) by (simp add: UnixMillisecond_def UnixNanosecond_def time_UnixNano_def time_In_def wrap64_id go_div_nonneg unit_defs)
  have "instant t div Millisecond * Millisecond \<le> instant t" "0 \<le> instant t div Millisecond * Millisecond"
    using assms(4) by (simp_all add: unit_defs zmod_le_nonneg_dividend flip: minus_mod_eq_div_mult)
  then have "in_i64 (instant t div Millisecond * Millisecond)" using assms(3) by (simp add: in_i64_def)
  then show ?thesis using assms(1,2) by (simp add: m UnixToTime_def unix_time_def time_In_def wrap64_id Let_def)
qed

text \<open>Milliseconds of thirteen digits beyond the year 2262 overflow: a later timestamp is read as a time before 1970.\<close>

lemma milliseconds_wrap:
  assumes "9223372036855 \<le> timestamp" "timestamp < 10 ^ 13"
  shows "instant (UnixToTime z timestamp []) < 0"
proof -
  have "wrap64 (timestamp * 1000000) = timestamp * 1000000 - 2 ^ 64"
    using assms by (simp add: wrap64_def mod_pos_geq)
  then show ?thesis using assms by (simp add: UnixToTime_def unix_time_def time_In_def Let_def unit_defs)
qed

lemma cycle_stops: "cycle_runs fails n (replicate k Tick @ ContextDone # es) = cycle_runs fails n (replicate k Tick)"
  by (induction k arbitrary: n) simp_all

lemma cycle_counts: "\<forall>i<k. \<not> fails (n + i) \<Longrightarrow> cycle_runs fails n (replicate k Tick) = n + k"
proof (induction k arbitrary: n)
  case (Suc k)
  have "\<forall>i<k. \<not> fails (Suc n + i)" using Suc.prems by auto
  moreover have "\<not> fails n" using Suc.prems by auto
  ultimately show ?case using Suc.IH by simp
qed simp

end
